(* ===== verification/Prelude.thy ===== *)
theory Prelude
  imports Main
begin

text \<open>
  Shared vocabulary of the development: the types of identifiers, instants and text, the
  exceptions of the Python code as one datatype, the transaction monad in which every database
  service is written, and the effect orders by which facts about single table writes are
  carried to whole services.

  A transaction is a function from the database state to either an exception or a value with
  the new state. An exception carries no state: leaving a \<open>transaction.atomic()\<close> block by an
  exception restores the state it was entered with, so rollback is the absence of a new state.
  \<open>tryT\<close> is a \<open>try/except\<close> around a nested \<open>atomic()\<close> block (a savepoint).
\<close>

section \<open>Identifiers, instants, text\<close>

text \<open>
  UUIDs and database sequence numbers are opaque naturals. Instants and \<open>timedelta\<close>s are
  integer microseconds, the resolution of Python's \<open>datetime\<close>. A Python \<open>str\<close> that comes from
  a user is a list of code points; string constants of the program are HOL strings.
\<close>

type_synonym uuid = nat
type_synonym time = int
type_synonym "text" = "nat list"

definition seconds :: "int \<Rightarrow> time" where
  "seconds n = n * 1000000"

definition minutes :: "int \<Rightarrow> time" where
  "minutes n = seconds (60 * n)"

definition days :: "int \<Rightarrow> time" where
  "days n = seconds (86400 * n)"

definition cps :: "string \<Rightarrow> text" where
  "cps s = map of_char s"

text \<open>The decimal digits of a number in a formatted message.\<close>

fun decimal :: "nat \<Rightarrow> string" where
  "decimal n = (if n < 10 then [char_of (48 + n)] else decimal (n div 10) @ [char_of (48 + n mod 10)])"

declare decimal.simps [simp del]

named_theorems time_units "the \<open>timedelta\<close> constructors"

declare seconds_def [time_units] minutes_def [time_units] days_def [time_units]

section \<open>Exceptions\<close>

text \<open>Why a viewer grant target is rejected (\<open>GrantRejection\<close>).\<close>

datatype grant_rejection =
    INVALID_SOEID | UNKNOWN_USER | DISABLED_USER | SELF_GRANT | ALREADY_GRANTED

text \<open>
  The exceptions the modelled code raises or lets through, with the message where the source
  distinguishes failures by it.
\<close>

datatype exn =
    ImmutableRecordError string
  | ValidationError string
  | IntegrityError
  | DoesNotExist
  | MultipleObjectsReturned
  | AssertionError
  | ValueError string
  | InvalidSoeid string
  | InvalidLogicalName string
  | InvalidDashboardTag string
  | UnicodeEncodeError
  | GrantViewerRejected grant_rejection
  | ProjectAccessDenied
  | ProjectOwnerUnavailable
  | ProjectRenameDenied
  | EnhancementAccessDenied
  | EnhancementValidationError string
  | BootstrapAlreadyComplete
  | DuplicateSoeid
  | LastAdministratorError
  | NotAdministrator
  | PasswordPolicyError
  | SelfDisableError
  | UserNotFound
  | RenderAuthorizationDenied
  | RenderAuthorizationUnavailable
  | RevisionCreationError string
  | InvalidStorageKey
  | StorageCollision
  | StorageIntegrityError
  | StorageCleanupRequired
  | StorageWriteCommitted
  | UnsafeStorageEntry
  | ArtifactStorageError
  | InvalidCursor
  | KeyError
  | TypeError
  | OperatingSystemError
  | KeyboardInterrupt

section \<open>Pure code that may raise\<close>

definition bindE :: "'e + 'a \<Rightarrow> ('a \<Rightarrow> 'e + 'b) \<Rightarrow> 'e + 'b" where
  "bindE m f = (case m of Inl e \<Rightarrow> Inl e | Inr a \<Rightarrow> f a)"

lemma bindE_simps [simp]:
  "bindE (Inl e) f = Inl e"
  "bindE (Inr a) f = f a"
  by (simp_all add: bindE_def)

lemma bindE_eq_Inr: "bindE m f = Inr b \<longleftrightarrow> (\<exists>a. m = Inr a \<and> f a = Inr b)"
  by (cases m) auto

definition ensureE :: "bool \<Rightarrow> 'e \<Rightarrow> 'e + unit" where
  "ensureE b e = (if b then Inr () else Inl e)"

lemma ensureE_eq_Inr [simp]: "ensureE b e = Inr u \<longleftrightarrow> b"
  by (simp add: ensureE_def)

lemma ensureE_eq_Inl [simp]: "ensureE b e = Inl e' \<longleftrightarrow> \<not> b \<and> e' = e"
  by (auto simp: ensureE_def)

section \<open>The transaction monad\<close>

type_synonym ('s, 'a) txn = "'s \<Rightarrow> exn + 'a \<times> 's"

definition returnT :: "'a \<Rightarrow> ('s, 'a) txn" where
  "returnT a = (\<lambda>s. Inr (a, s))"

definition raiseT :: "exn \<Rightarrow> ('s, 'a) txn" where
  "raiseT e = (\<lambda>s. Inl e)"

definition bindT :: "('s, 'a) txn \<Rightarrow> ('a \<Rightarrow> ('s, 'b) txn) \<Rightarrow> ('s, 'b) txn" where
  "bindT m f = (\<lambda>s. case m s of Inl e \<Rightarrow> Inl e | Inr (a, s') \<Rightarrow> f a s')"

text \<open>A read of the state, a read that may raise, a write, a check, a savepoint.\<close>

definition readT :: "('s \<Rightarrow> 'a) \<Rightarrow> ('s, 'a) txn" where
  "readT f = (\<lambda>s. Inr (f s, s))"

definition queryT :: "('s \<Rightarrow> exn + 'a) \<Rightarrow> ('s, 'a) txn" where
  "queryT f = (\<lambda>s. case f s of Inl e \<Rightarrow> Inl e | Inr a \<Rightarrow> Inr (a, s))"

definition writeT :: "('s \<Rightarrow> 's) \<Rightarrow> ('s, unit) txn" where
  "writeT f = (\<lambda>s. Inr ((), f s))"

definition ensureT :: "bool \<Rightarrow> exn \<Rightarrow> ('s, unit) txn" where
  "ensureT b e = (if b then returnT () else raiseT e)"

definition tryT :: "('s, 'a) txn \<Rightarrow> (exn \<Rightarrow> ('s, 'a) txn) \<Rightarrow> ('s, 'a) txn" where
  "tryT m h = (\<lambda>s. case m s of Inl e \<Rightarrow> h e s | Inr r \<Rightarrow> Inr r)"

primrec forT :: "('a \<Rightarrow> ('s, 'b) txn) \<Rightarrow> 'a list \<Rightarrow> ('s, 'b list) txn" where
  "forT f [] = returnT []"
| "forT f (x # xs) = bindT (f x) (\<lambda>y. bindT (forT f xs) (\<lambda>ys. returnT (y # ys)))"

named_theorems txn_run "running a transaction from a given state"

lemma txn_run_basic [txn_run]:
  "returnT a s = Inr (a, s)"
  "raiseT e s = Inl e"
  "readT g s = Inr (g s, s)"
  "writeT w s = Inr ((), w s)"
  "bindT m f s = (case m s of Inl e \<Rightarrow> Inl e | Inr (a, s') \<Rightarrow> f a s')"
  "queryT q s = (case q s of Inl e \<Rightarrow> Inl e | Inr a \<Rightarrow> Inr (a, s))"
  "ensureT b e s = (if b then Inr ((), s) else Inl e)"
  "tryT m h s = (case m s of Inl e \<Rightarrow> h e s | Inr r \<Rightarrow> Inr r)"
  by (simp_all add: returnT_def raiseT_def readT_def writeT_def bindT_def queryT_def
      ensureT_def tryT_def)

lemma bindT_eq_Inr:
  "bindT m f s = Inr (b, t) \<longleftrightarrow> (\<exists>a s'. m s = Inr (a, s') \<and> f a s' = Inr (b, t))"
  by (auto simp: bindT_def split: sum.splits)

lemma bindT_run: "m s = Inr (a, t) \<Longrightarrow> bindT m f s = f a t"
  by (simp add: bindT_def)

lemma queryT_eq_Inr: "queryT q s = Inr (a, t) \<longleftrightarrow> q s = Inr a \<and> t = s"
  by (auto simp: queryT_def split: sum.splits)

lemma readT_eq_Inr: "readT g s = Inr (a, t) \<longleftrightarrow> a = g s \<and> t = s"
  by (auto simp: readT_def)

lemma returnT_eq_Inr: "returnT x s = Inr (a, t) \<longleftrightarrow> a = x \<and> t = s"
  by (auto simp: returnT_def)

lemma writeT_eq_Inr: "writeT w s = Inr (a, t) \<longleftrightarrow> t = w s"
  by (auto simp: writeT_def)

lemma raiseT_eq_Inr [simp]: "raiseT e s \<noteq> Inr r"
  by (simp add: raiseT_def)

lemma ensureT_eq_Inr: "ensureT b e s = Inr (a, t) \<longleftrightarrow> b \<and> t = s"
  by (auto simp: ensureT_def returnT_def raiseT_def)

lemma tryT_eq_Inr:
  "tryT m h s = Inr r \<longleftrightarrow> m s = Inr r \<or> (\<exists>e. m s = Inl e \<and> h e s = Inr r)"
  by (auto simp: tryT_def split: sum.splits)

lemmas txn_InrD = bindT_eq_Inr queryT_eq_Inr readT_eq_Inr returnT_eq_Inr writeT_eq_Inr
  ensureT_eq_Inr tryT_eq_Inr

section \<open>Effect orders\<close>

text \<open>
  \<open>obeys R m\<close>: every successful run of \<open>m\<close> relates the state before to the state after by
  \<open>R\<close>. When \<open>R\<close> is reflexive and transitive, a service obeys \<open>R\<close> as soon as the table writes
  it is composed of do.
\<close>

definition obeys :: "('s \<Rightarrow> 's \<Rightarrow> bool) \<Rightarrow> ('s, 'a) txn \<Rightarrow> bool" where
  "obeys R m \<longleftrightarrow> (\<forall>s a t. m s = Inr (a, t) \<longrightarrow> R s t)"

named_theorems obeys_intros "transactions that obey an effect order"

lemma obeysI: "(\<And>s a t. m s = Inr (a, t) \<Longrightarrow> R s t) \<Longrightarrow> obeys R m"
  by (auto simp: obeys_def)

lemma obeysD: "obeys R m \<Longrightarrow> m s = Inr (a, t) \<Longrightarrow> R s t"
  by (auto simp: obeys_def)

locale effect_order =
  fixes R :: "'s \<Rightarrow> 's \<Rightarrow> bool"
  assumes order_refl: "R s s"
    and order_trans: "R s t \<Longrightarrow> R t u \<Longrightarrow> R s u"
begin

lemma obeys_return: "obeys R (returnT a)"
  by (auto simp: obeys_def returnT_def order_refl)

lemma obeys_raise: "obeys R (raiseT e)"
  by (auto simp: obeys_def raiseT_def)

lemma obeys_read: "obeys R (readT f)"
  by (auto simp: obeys_def readT_def order_refl)

lemma obeys_query: "obeys R (queryT f)"
  by (auto simp: obeys_def queryT_def order_refl split: sum.splits)

lemma obeys_ensure: "obeys R (ensureT b e)"
  by (auto simp: ensureT_def obeys_return obeys_raise)

lemma obeys_bind: "obeys R m \<Longrightarrow> (\<And>a. obeys R (f a)) \<Longrightarrow> obeys R (bindT m f)"
  unfolding obeys_def bindT_eq_Inr by (metis order_trans)

lemma obeys_try: "obeys R m \<Longrightarrow> (\<And>e. obeys R (h e)) \<Longrightarrow> obeys R (tryT m h)"
  by (auto simp: obeys_def tryT_eq_Inr)

lemma obeys_for: "(\<And>x. obeys R (f x)) \<Longrightarrow> obeys R (forT f xs)"
  by (induction xs) (auto intro: obeys_return obeys_bind)

lemmas txn_orders = obeys_return obeys_raise obeys_read obeys_query obeys_ensure obeys_bind
  obeys_try obeys_for

end

text \<open>Case analysis inside a service keeps the order; these rules need no law of \<open>R\<close>.\<close>

lemma obeys_if [obeys_intros]:
  "(b \<Longrightarrow> obeys R m) \<Longrightarrow> (\<not> b \<Longrightarrow> obeys R n) \<Longrightarrow> obeys R (if b then m else n)"
  by auto

lemma obeys_case_option [obeys_intros]:
  "(x = None \<Longrightarrow> obeys R m) \<Longrightarrow> (\<And>a. x = Some a \<Longrightarrow> obeys R (f a))
    \<Longrightarrow> obeys R (case x of None \<Rightarrow> m | Some a \<Rightarrow> f a)"
  by (cases x) auto

lemma obeys_case_sum [obeys_intros]:
  "(\<And>e. x = Inl e \<Longrightarrow> obeys R (g e)) \<Longrightarrow> (\<And>a. x = Inr a \<Longrightarrow> obeys R (f a))
    \<Longrightarrow> obeys R (case x of Inl e \<Rightarrow> g e | Inr a \<Rightarrow> f a)"
  by (cases x) auto

lemma obeys_case_prod [obeys_intros]:
  "(\<And>a b. obeys R (f a b)) \<Longrightarrow> obeys R (case p of (a, b) \<Rightarrow> f a b)"
  by (cases p) auto

lemma obeys_let [obeys_intros]: "(\<And>a. a = v \<Longrightarrow> obeys R (f a)) \<Longrightarrow> obeys R (Let v f)"
  by auto

section \<open>Rows and tables\<close>

text \<open>
  A table is the list of its rows in insertion order. \<open>the_rows\<close> is a filter, \<open>exactly_one\<close> the
  cardinality rule of \<open>QuerySet.get()\<close>; \<open>put_row\<close> replaces the row with the same key.
\<close>

definition exactly_one :: "'r list \<Rightarrow> exn + 'r" where
  "exactly_one rs =
     (case rs of [] \<Rightarrow> Inl DoesNotExist | [r] \<Rightarrow> Inr r | _ \<Rightarrow> Inl MultipleObjectsReturned)"

definition put_row :: "('r \<Rightarrow> 'k) \<Rightarrow> 'r \<Rightarrow> 'r list \<Rightarrow> 'r list" where
  "put_row key r rs = map (\<lambda>x. if key x = key r then r else x) rs"

definition has_row :: "('r \<Rightarrow> bool) \<Rightarrow> 'r list \<Rightarrow> bool" where
  "has_row P rs = list_ex P rs"

lemma has_row_iff [simp]: "has_row P rs \<longleftrightarrow> (\<exists>r \<in> set rs. P r)"
  by (simp add: has_row_def list_ex_iff)

lemma exactly_one_Inr: "exactly_one rs = Inr r \<longleftrightarrow> rs = [r]"
  by (auto simp: exactly_one_def split: list.splits)

lemma exactly_one_filterD:
  "exactly_one (filter P rs) = Inr r \<Longrightarrow> r \<in> set rs \<and> P r"
  by (auto simp: exactly_one_Inr filter_eq_Cons_iff)

lemma exactly_one_key:
  assumes "distinct (map key rs)" "r \<in> set rs" "P r" "\<And>x. P x \<Longrightarrow> key x = key r"
  shows "filter P rs = [r]"
  using assms
proof (induction rs)
  case Nil
  then show ?case by simp
next
  case (Cons x xs)
  show ?case
  proof (cases "x = r")
    case True
    have "\<not> P y" if "y \<in> set xs" for y
    proof
      assume "P y"
      then have "key y = key r" by (rule Cons.prems(4))
      with that have "key r \<in> key ` set xs" by (metis image_eqI)
      with True Cons.prems(1) show False by simp
    qed
    then have "filter P xs = []" by (simp add: filter_empty_conv)
    with True Cons.prems(3) show ?thesis by simp
  next
    case False
    with Cons.prems(2) have r: "r \<in> set xs" by simp
    with Cons.prems(1) have "key x \<noteq> key r" by auto
    with Cons.prems(4) have "\<not> P x" by blast
    moreover have "filter P xs = [r]"
      using Cons.IH[OF _ r Cons.prems(3,4)] Cons.prems(1) by simp
    ultimately show ?thesis by simp
  qed
qed

lemma filter_unique:
  "distinct rs \<Longrightarrow> r \<in> set rs \<Longrightarrow> P r \<Longrightarrow> \<forall>x \<in> set rs. P x \<longrightarrow> x = r \<Longrightarrow> filter P rs = [r]"
proof (induction rs)
  case Nil
  then show ?case by simp
next
  case (Cons x xs)
  show ?case
  proof (cases "x = r")
    case True
    then have "filter P xs = []" using Cons.prems(1,4) by (metis distinct.simps(2) filter_False list.set_intros(2))
    then show ?thesis using True Cons.prems(3) by simp
  next
    case False
    then have r: "r \<in> set xs" "\<not> P x" using Cons.prems(2,4) by (simp, meson list.set_intros(1))
    have "\<forall>y \<in> set xs. P y \<longrightarrow> y = r" using Cons.prems(4) by (meson list.set_intros(2))
    then have "filter P xs = [r]" using Cons.prems(1) by (intro Cons.IH r(1) Cons.prems(3)) simp
    then show ?thesis using r(2) by simp
  qed
qed

lemma set_put_row:
  "set (put_row key r rs)
     = {x \<in> set rs. key x \<noteq> key r} \<union> (if key r \<in> key ` set rs then {r} else {})"
  unfolding put_row_def by (auto simp: image_iff split: if_splits)

lemma keys_put_row [simp]: "map key (put_row key r rs) = map key rs"
  by (auto simp: put_row_def)

lemma filter_put_row:
  "key v = k \<Longrightarrow> filter (\<lambda>x. key x = k) (put_row key v rs) = map (\<lambda>_. v) (filter (\<lambda>x. key x = k) rs)"
  by (induction rs) (auto simp: put_row_def)

lemma length_put_row [simp]: "length (put_row key r rs) = length rs"
  by (simp add: put_row_def)

lemma in_put_rowD: "x \<in> set (put_row key r rs) \<Longrightarrow> x = r \<or> (x \<in> set rs \<and> key x \<noteq> key r)"
  by (auto simp: put_row_def)

text \<open>
  \<open>evolves Q rs ts\<close>: the rows \<open>rs\<close> are still the first rows of \<open>ts\<close>, in order, each changed only
  as \<open>Q\<close> allows; rows may have been added behind them.
\<close>

definition evolves :: "('r \<Rightarrow> 'r \<Rightarrow> bool) \<Rightarrow> 'r list \<Rightarrow> 'r list \<Rightarrow> bool" where
  "evolves Q rs ts \<longleftrightarrow> list_all2 Q rs (take (length rs) ts)"

lemma evolves_append: "(\<And>x. Q x x) \<Longrightarrow> evolves Q rs (rs @ ys)"
  by (simp add: evolves_def list.rel_refl)

lemma evolves_refl: "(\<And>x. Q x x) \<Longrightarrow> evolves Q rs rs"
  by (simp add: evolves_def list.rel_refl)

lemma evolves_map: "(\<And>x. x \<in> set rs \<Longrightarrow> Q x (f x)) \<Longrightarrow> evolves Q rs (map f rs)"
  by (simp add: evolves_def list.rel_map list.rel_refl_strong)

lemma evolves_put:
  "(\<And>x. Q x x) \<Longrightarrow> (\<And>x. x \<in> set rs \<Longrightarrow> key x = key v \<Longrightarrow> Q x v) \<Longrightarrow> evolves Q rs (put_row key v rs)"
  unfolding put_row_def by (rule evolves_map) auto

lemma evolves_trans:
  assumes "\<And>x y z. Q x y \<Longrightarrow> Q y z \<Longrightarrow> Q x z" "evolves Q rs ts" "evolves Q ts us"
  shows "evolves Q rs us"
proof -
  have l: "length rs \<le> length ts"
    using assms(2) by (auto simp: evolves_def dest: list_all2_lengthD)
  have "list_all2 Q (take (length rs) ts) (take (length rs) (take (length ts) us))"
    using assms(3) unfolding evolves_def by (rule list_all2_takeI)
  then have "list_all2 Q (take (length rs) ts) (take (length rs) us)" using l by (simp add: min_absorb1)
  then show ?thesis
    using assms(1,2) unfolding evolves_def by (blast intro: list_all2_trans)
qed

lemma evolves_row: "evolves Q rs ts \<Longrightarrow> x \<in> set rs \<Longrightarrow> \<exists>y \<in> set ts. Q x y"
  unfolding evolves_def
  by (auto simp: list_all2_conv_all_nth in_set_conv_nth) (metis nth_mem order_less_le_trans nth_take min_less_iff_conj)

lemma evolves_eq: "evolves (=) rs ts \<longleftrightarrow> (\<exists>ys. ts = rs @ ys)"
  by (auto simp: evolves_def list.rel_eq) (metis append_take_drop_id)

text \<open>\<open>order_by(k1, k2)\<close>: the sort is stable, so ordering by the second key first gives the order
  of the pair. A descending key is a negated one.\<close>

definition order_by2 :: "('r \<Rightarrow> int) \<Rightarrow> ('r \<Rightarrow> int) \<Rightarrow> 'r list \<Rightarrow> 'r list" where
  "order_by2 k1 k2 rs = sort_key k1 (sort_key k2 rs)"

lemma set_order_by2 [simp]: "set (order_by2 k1 k2 rs) = set rs"
  by (simp add: order_by2_def)

lemma length_order_by2 [simp]: "length (order_by2 k1 k2 rs) = length rs"
  by (simp add: order_by2_def)

lemma distinct_order_by2 [simp]: "distinct (order_by2 k1 k2 rs) = distinct rs"
  by (simp add: order_by2_def)

lemma insort_key_keeps_order:
  assumes "sorted_wrt (\<lambda>x y. k1 x < k1 y \<or> (k1 x = k1 y \<and> R x y)) ys" "\<forall>y \<in> set ys. R x y"
  shows "sorted_wrt (\<lambda>x y. k1 x < (k1 y :: int) \<or> (k1 x = k1 y \<and> R x y)) (insort_key k1 x ys)"
  using assms by (induction ys) (auto simp: set_insort_key)

lemma sorted_wrt_sort_key:
  assumes "sorted_wrt R rs"
  shows "sorted_wrt (\<lambda>x y. k1 x < (k1 y :: int) \<or> (k1 x = k1 y \<and> R x y)) (sort_key k1 rs)"
  using assms by (induction rs) (auto intro!: insort_key_keeps_order)

lemma sorted_order_by2:
  "sorted_wrt (\<lambda>x y. k1 x < k1 y \<or> (k1 x = k1 y \<and> k2 x \<le> k2 y)) (order_by2 k1 k2 rs)"
proof -
  have "sorted_wrt (\<lambda>x y. k2 x \<le> k2 y) (sort_key k2 rs)"
    using sorted_sort_key [of k2 rs] by (simp add: sorted_map)
  then show ?thesis unfolding order_by2_def by (rule sorted_wrt_sort_key)
qed

text \<open>Writing one column set of a row: \<open>save(update_fields=...)\<close> writes the named columns only.\<close>

definition column :: "string \<Rightarrow> string list option \<Rightarrow> 'a \<Rightarrow> 'a \<Rightarrow> 'a" where
  "column name fields old new =
     (case fields of None \<Rightarrow> new | Some ns \<Rightarrow> if name \<in> set ns then new else old)"

lemma column_None [simp]: "column n None old new = new"
  by (simp add: column_def)

lemma column_Some: "column n (Some ns) old new = (if n \<in> set ns then new else old)"
  by (simp add: column_def)

lemma column_same [simp]: "column n fs x x = x"
  by (simp add: column_def split: option.splits)

text \<open>\<open>tuple(dict.fromkeys((*update_fields, extra)))\<close>: the names in order, each once.\<close>

definition add_fields :: "string list \<Rightarrow> string list option \<Rightarrow> string list option" where
  "add_fields extra fields = map_option (\<lambda>ns. rev (remdups (rev (ns @ extra)))) fields"

lemma column_add_fields:
  "column n (add_fields extra fs) old new =
     (if n \<in> set extra then new else column n fs old new)"
  by (auto simp: column_def add_fields_def split: option.splits)

end
