(* ===== verification/Names.thy ===== *)
theory Names
  imports Prelude
begin

text \<open>
  Canonical identities, logical artifact names and dashboard tags (\<open>core/names.py\<close>).

  The Unicode database behind \<open>unicodedata.normalize\<close>, \<open>unicodedata.category\<close>,
  \<open>str.casefold\<close> and \<open>str.upper\<close> is the record \<open>unicode\<close>, an argument of every function that
  consults it; \<open>unicode_laws\<close> collects the documented facts some of the theorems rest on. The
  ASCII operations of the SOEID grammar, whitespace splitting and the UTF-8 length are written
  out.
\<close>

section \<open>Text operations\<close>

record unicode =
  nfc :: "text \<Rightarrow> text"
  nfkc :: "text \<Rightarrow> text"
  casefold :: "text \<Rightarrow> text"
  upper :: "text \<Rightarrow> text"
  category :: "nat \<Rightarrow> string"

text \<open>\<open>str.strip(chars)\<close>, \<open>str.rstrip(chars)\<close>, \<open>str.endswith\<close> for single characters.\<close>

definition strip_set :: "(nat \<Rightarrow> bool) \<Rightarrow> text \<Rightarrow> text" where
  "strip_set P v = rev (dropWhile P (rev (dropWhile P v)))"

definition rstrip_set :: "(nat \<Rightarrow> bool) \<Rightarrow> text \<Rightarrow> text" where
  "rstrip_set P v = rev (dropWhile P (rev v))"

definition ends_in :: "text \<Rightarrow> nat list \<Rightarrow> bool" where
  "ends_in v cs \<longleftrightarrow> v \<noteq> [] \<and> last v \<in> set cs"

text \<open>The code points \<open>str.isspace\<close> accepts, which \<open>str.split()\<close> splits at.\<close>

definition is_space :: "nat \<Rightarrow> bool" where
  "is_space c \<longleftrightarrow> (9 \<le> c \<and> c \<le> 13) \<or> (28 \<le> c \<and> c \<le> 32) \<or> c = 133 \<or> c = 160 \<or> c = 5760
     \<or> (8192 \<le> c \<and> c \<le> 8202) \<or> c = 8232 \<or> c = 8233 \<or> c = 8239 \<or> c = 8287 \<or> c = 12288"

function split_ws :: "text \<Rightarrow> text list" where
  "split_ws v =
     (let w = dropWhile is_space v
      in if w = [] then []
         else takeWhile (\<lambda>c. \<not> is_space c) w # split_ws (dropWhile (\<lambda>c. \<not> is_space c) w))"
  by pat_completeness auto
termination
proof (relation "measure length", goal_cases)
  case (2 v w)
  then have ne: "w \<noteq> []" by simp
  with 2(1) have "\<not> is_space (hd w)" by (metis hd_dropWhile)
  then have "length (dropWhile (\<lambda>c. \<not> is_space c) w) < length w"
    using ne by (cases w) (auto simp: le_imp_less_Suc length_dropWhile_le)
  also have "length w \<le> length v" using 2(1) by (simp add: length_dropWhile_le)
  finally show ?case by simp
qed simp

declare split_ws.simps [simp del]

text \<open>\<open>" ".join(words)\<close>\<close>

fun join_sp :: "text list \<Rightarrow> text" where
  "join_sp [] = []"
| "join_sp [w] = w"
| "join_sp (w # v # ws) = w @ 32 # join_sp (v # ws)"

definition collapse_ws :: "text \<Rightarrow> text" where
  "collapse_ws v = join_sp (split_ws v)"

text \<open>\<open>len(value.encode("utf-8"))\<close>: strict encoding refuses surrogates.\<close>

definition utf8_width :: "nat \<Rightarrow> nat" where
  "utf8_width c = (if c < 128 then 1 else if c < 2048 then 2 else if c < 65536 then 3 else 4)"

definition utf8_length :: "text \<Rightarrow> exn + nat" where
  "utf8_length v =
     (if list_ex (\<lambda>c. 55296 \<le> c \<and> c \<le> 57343) v then Inl UnicodeEncodeError
      else Inr (sum_list (map utf8_width v)))"

definition utf8_bytes :: "nat \<Rightarrow> nat list" where
  "utf8_bytes c =
     (if c < 128 then [c]
      else if c < 2048 then [192 + c div 64, 128 + c mod 64]
      else if c < 65536 then [224 + c div 4096, 128 + c div 64 mod 64, 128 + c mod 64]
      else [240 + c div 262144, 128 + c div 4096 mod 64, 128 + c div 64 mod 64, 128 + c mod 64])"

section \<open>SOEIDs\<close>

definition is_ascii :: "text \<Rightarrow> bool" where
  "is_ascii v = list_all (\<lambda>c. c < 128) v"

definition ascii_whitespace :: "nat \<Rightarrow> bool" where
  "ascii_whitespace c \<longleftrightarrow> c \<in> set [32, 9, 13, 10, 12, 11]"

definition ascii_upper :: "nat \<Rightarrow> nat" where
  "ascii_upper c = (if 97 \<le> c \<and> c \<le> 122 then c - 32 else c)"

definition soeid_first :: "nat \<Rightarrow> bool" where
  "soeid_first c \<longleftrightarrow> (65 \<le> c \<and> c \<le> 90) \<or> (48 \<le> c \<and> c \<le> 57)"

definition soeid_rest :: "nat \<Rightarrow> bool" where
  "soeid_rest c \<longleftrightarrow> soeid_first c \<or> c = 46 \<or> c = 95 \<or> c = 45"

text \<open>\<open>SOEID_PATTERN.fullmatch\<close>: \<open>[A-Z0-9][A-Z0-9._-]{0,63}\<close>\<close>

definition soeid_pattern :: "text \<Rightarrow> bool" where
  "soeid_pattern v =
     (case v of [] \<Rightarrow> False | c # cs \<Rightarrow> soeid_first c \<and> length cs \<le> 63 \<and> list_all soeid_rest cs)"

definition canonicalize_soeid :: "text \<Rightarrow> exn + text" where
  "canonicalize_soeid value =
     (let stripped = strip_set ascii_whitespace value
      in if \<not> is_ascii stripped
         then Inl (InvalidSoeid ''SOEID must contain ASCII characters only'')
         else let canonical = map ascii_upper stripped
              in if \<not> soeid_pattern canonical
                 then Inl (InvalidSoeid ''SOEID does not match the required canonical grammar'')
                 else Inr canonical)"

section \<open>Logical artifact names\<close>

definition reserved_windows_stems :: "text list" where
  "reserved_windows_stems =
     map cps [''CON'', ''PRN'', ''AUX'', ''NUL''] @
     map (\<lambda>n. cps ''COM'' @ [48 + n]) [1..<10] @ map (\<lambda>n. cps ''LPT'' @ [48 + n]) [1..<10]"

definition control_categories :: "string list" where
  "control_categories = [''Cc'', ''Cf'', ''Cs'']"

record logical_name =
  display :: "text"
  comparison_key :: "text"

definition normalize_logical_name :: "unicode \<Rightarrow> text \<Rightarrow> exn + logical_name" where
  "normalize_logical_name uc value =
     (let shown = nfc uc value in
      if shown = [] \<or> length shown > 255
      then Inl (InvalidLogicalName ''logical name must contain 1 through 255 characters'')
      else
      let compatible = nfkc uc shown in
      if shown = cps ''.'' \<or> shown = cps ''..'' \<or> ends_in shown [32, 46]
      then Inl (InvalidLogicalName ''logical name has a reserved form'')
      else if compatible = cps ''.'' \<or> compatible = cps ''..'' \<or> ends_in compatible [32, 46]
      then Inl (InvalidLogicalName ''logical name has a reserved form'')
      else if list_ex (\<lambda>c. c = 47 \<or> c = 92 \<or> c = 58) compatible
      then Inl (InvalidLogicalName ''logical name cannot contain path separators or a colon'')
      else if list_ex (\<lambda>c. category uc c \<in> set control_categories) shown
      then Inl (InvalidLogicalName ''logical name cannot contain control characters'')
      else
      let stem = rstrip_set (\<lambda>c. c = 32 \<or> c = 46) (upper uc (takeWhile (\<lambda>c. c \<noteq> 46) compatible)) in
      if stem \<in> set reserved_windows_stems
      then Inl (InvalidLogicalName ''logical name uses a reserved platform name'')
      else
      let key = nfkc uc (casefold uc compatible) in
      bindE (utf8_length key) (\<lambda>bytes.
      if bytes > 1024
      then Inl (InvalidLogicalName ''logical name comparison key is too long'')
      else Inr \<lparr>display = shown, comparison_key = key\<rparr>))"

section \<open>Dashboard tags\<close>

record tag_name =
  tag_display :: "text"
  tag_key :: "text"

definition normalize_dashboard_tag :: "unicode \<Rightarrow> text \<Rightarrow> exn + tag_name" where
  "normalize_dashboard_tag uc value =
     (let compatible = nfkc uc value in
      if list_ex (\<lambda>c. category uc c \<in> set control_categories) compatible
      then Inl (InvalidDashboardTag ''tag cannot contain control characters'')
      else
      let shown = collapse_ws compatible in
      if shown = [] \<or> length shown > 40
      then Inl (InvalidDashboardTag ''tag must contain 1 through 40 characters'')
      else
      let key = nfkc uc (casefold uc shown) in
      if length key > 80
      then Inl (InvalidDashboardTag ''normalized tag key is too long'')
      else Inr \<lparr>tag_display = shown, tag_key = key\<rparr>)"

section \<open>Laws of the Unicode database, and an ASCII instance\<close>

text \<open>
  Documented facts: the normalization forms are idempotent; an NFKC string has no compatibility
  whitespace beyond the ASCII space, so collapsing its whitespace leaves it in NFKC; the
  whitespace characters other than the space separators are control characters, and the category
  of the space is not a control category.
\<close>

definition unicode_laws :: "unicode \<Rightarrow> bool" where
  "unicode_laws uc \<longleftrightarrow>
     (\<forall>v. nfc uc (nfc uc v) = nfc uc v) \<and>
     (\<forall>v. nfkc uc (nfkc uc v) = nfkc uc v) \<and>
     (\<forall>v. nfkc uc (collapse_ws (nfkc uc v)) = collapse_ws (nfkc uc v)) \<and>
     category uc 32 \<notin> set control_categories"

text \<open>The restriction of the database to ASCII, where both normalization forms are the identity.\<close>

definition ascii_unicode :: unicode where
  "ascii_unicode =
     \<lparr>nfc = (\<lambda>v. v), nfkc = (\<lambda>v. v),
      casefold = map (\<lambda>c. if 65 \<le> c \<and> c \<le> 90 then c + 32 else c),
      upper = map ascii_upper,
      category = (\<lambda>c. if c < 32 \<or> c = 127 then ''Cc'' else ''Po'')\<rparr>"

lemma ascii_unicode_laws: "unicode_laws ascii_unicode"
  by (simp add: unicode_laws_def ascii_unicode_def control_categories_def)

section \<open>Lemmas\<close>

lemma ascii_upper_idem [simp]: "ascii_upper (ascii_upper c) = ascii_upper c"
  by (auto simp: ascii_upper_def)

lemma ascii_upper_first: "soeid_first c \<Longrightarrow> ascii_upper c = c"
  by (auto simp: ascii_upper_def soeid_first_def)

lemma ascii_upper_rest: "soeid_rest c \<Longrightarrow> ascii_upper c = c"
  by (auto simp: ascii_upper_def soeid_rest_def soeid_first_def)

lemma soeid_rest_plain: "soeid_rest c \<Longrightarrow> c < 128 \<and> \<not> ascii_whitespace c"
  by (auto simp: soeid_rest_def soeid_first_def ascii_whitespace_def)

lemma soeid_pattern_chars:
  "soeid_pattern v \<Longrightarrow> v \<noteq> [] \<and> length v \<le> 64 \<and> (\<forall>c \<in> set v. soeid_rest c)"
  by (auto simp: soeid_pattern_def list_all_iff soeid_rest_def split: list.splits)

lemma strip_set_id:
  assumes "\<forall>c \<in> set v. \<not> P c"
  shows "strip_set P v = v"
proof -
  have "dropWhile P w = w" if "\<forall>c \<in> set w. \<not> P c" for w
    using that by (cases w) auto
  from this[of v] this[of "rev v"] assms show ?thesis by (simp add: strip_set_def)
qed

lemma canonicalize_pattern: "soeid_pattern v \<Longrightarrow> canonicalize_soeid v = Inr v"
proof -
  assume p: "soeid_pattern v"
  then have c: "\<forall>c \<in> set v. soeid_rest c" by (simp add: soeid_pattern_chars)
  then have s: "strip_set ascii_whitespace v = v"
    by (intro strip_set_id) (auto dest: soeid_rest_plain)
  have u: "map ascii_upper v = v" using c by (auto intro: map_idI ascii_upper_rest)
  have "is_ascii v" using c by (auto simp: is_ascii_def list_all_iff dest: soeid_rest_plain)
  with p s u show ?thesis by (simp add: canonicalize_soeid_def)
qed

lemma canonicalize_Inr_pattern: "canonicalize_soeid v = Inr c \<Longrightarrow> soeid_pattern c"
  by (auto simp: canonicalize_soeid_def Let_def split: if_splits)

lemma canonicalize_fixed_iff: "canonicalize_soeid v = Inr v \<longleftrightarrow> soeid_pattern v"
  using canonicalize_pattern canonicalize_Inr_pattern by blast

section \<open>Properties\<close>

text \<open>
  C16: canonical SOEIDs are canonical: what \<open>canonicalize_soeid\<close> returns satisfies the grammar,
  has between 1 and 64 characters, and canonicalizes to itself.
\<close>

theorem canonicalize_soeid_canonical:
  "canonicalize_soeid v = Inr c \<Longrightarrow>
     soeid_pattern c \<and> c \<noteq> [] \<and> length c \<le> 64 \<and> canonicalize_soeid c = Inr c"
  by (auto simp: canonicalize_fixed_iff dest: canonicalize_Inr_pattern soeid_pattern_chars)

theorem canonicalize_soeid_canonical_witness:
  "canonicalize_soeid (cps '' ab12345'') = Inr (cps ''AB12345'') \<and>
   canonicalize_soeid (cps ''AB12345'') = Inr (cps ''AB12345'')"
proof
  show *: "canonicalize_soeid (cps '' ab12345'') = Inr (cps ''AB12345'')" by code_simp
  show "canonicalize_soeid (cps ''AB12345'') = Inr (cps ''AB12345'')"
    using canonicalize_soeid_canonical [OF *] by blast
qed

end
