(* ===== verification/Schema.thy ===== *)
theory Schema
  imports Names
begin

text \<open>
  The relational state of the application (\<open>core/models.py\<close>): one record per model class, with
  the columns the class declares, and the database as a record of tables. A foreign key is the
  key of the row it references. The database also carries what the process draws from its
  environment: the clock readings behind \<open>timezone.now()\<close>, the values of \<open>uuid.uuid4()\<close> and of
  \<open>secrets\<close>, each as an arbitrary sequence read in order, and the identity sequence that numbers
  rows with a \<open>BigAutoField\<close>.
\<close>

section \<open>Enumerations\<close>

datatype dash_state = DRAFT | PUBLISHED | UNPUBLISHED | ARCHIVED | DELETED
datatype request_status = PENDING | APPROVED | DENIED | CANCELLED
datatype artifact_kind = HTML | CSV | CSS | IMAGE | FONT
datatype audience = PREVIEW | VIEWER
datatype storage_state = RESERVED | OWNED | COLLISION

text \<open>JSON values the audit metadata holds; \<open>MId\<close> is \<open>str(uuid)\<close>.\<close>

datatype meta_value = MId uuid | MInt nat | MBool bool | MStr string

section \<open>Rows\<close>

record user =
  u_id :: uuid
  u_soeid :: "text"
  u_password :: "text"
  u_is_active :: bool
  u_is_administrator :: bool
  u_auth_version :: nat
  u_created_at :: time
  u_updated_at :: time

record throttle =
  lt_id :: nat
  lt_bucket_hash :: "text"
  lt_window_started_at :: time
  lt_failed_attempts :: nat
  lt_blocked_until :: "time option"
  lt_updated_at :: time

record dashboard =
  d_id :: uuid
  d_owner :: uuid
  d_name :: "text"
  d_description :: "text"
  d_state :: dash_state
  d_latest_revision :: "uuid option"
  d_published_revision :: "uuid option"
  d_first_published_at :: "time option"
  d_publication_version :: nat
  d_last_published_at :: "time option"
  d_publication_note :: "text"
  d_data_as_of :: "time option"
  d_freshness_interval :: "int option"
  d_freshness_confirmed_at :: "time option"
  d_stale_after :: "time option"
  d_last_transfer :: "uuid option"
  d_created_at :: time
  d_updated_at :: time

record transfer =
  ot_id :: uuid
  ot_dashboard :: uuid
  ot_from_owner :: uuid
  ot_to_owner :: uuid
  ot_previous :: "uuid option"
  ot_transferred_at :: time

record dash_tag =
  tg_id :: nat
  tg_dashboard :: uuid
  tg_label :: "text"
  tg_key :: "text"
  tg_slot :: nat
  tg_created_at :: time

record favorite =
  fv_id :: nat
  fv_user :: uuid
  fv_dashboard :: uuid
  fv_created_at :: time

record viewer_state =
  vs_id :: nat
  vs_user :: uuid
  vs_dashboard :: uuid
  vs_last_viewed_at :: time
  vs_seen_version :: nat

record access_request =
  ar_id :: nat
  ar_dashboard :: uuid
  ar_requester :: uuid
  ar_status :: request_status
  ar_message :: "text"
  ar_requested_at :: time
  ar_resolved_at :: "time option"
  ar_resolved_by :: "uuid option"
  ar_updated_at :: time

record revision =
  r_id :: uuid
  r_dashboard :: uuid
  r_number :: nat
  r_created_by :: uuid
  r_created_at :: time
  r_artifacts_locked :: bool

record artifact =
  a_id :: uuid
  a_revision :: uuid
  a_kind :: artifact_kind
  a_logical_name :: "text"
  a_name_key :: "text"
  a_storage_key :: "text"
  a_byte_size :: nat
  a_media_type :: string
  a_sha256 :: "text"

record grant =
  g_id :: uuid
  g_dashboard :: uuid
  g_viewer :: uuid
  g_created_by :: uuid
  g_created_at :: time
  g_revoked_at :: "time option"
  g_revoked_by :: "uuid option"

record render_auth =
  ra_id :: uuid
  ra_token_digest :: "text"
  ra_audience :: audience
  ra_viewer :: uuid
  ra_viewer_auth_version :: nat
  ra_dashboard :: uuid
  ra_revision :: uuid
  ra_viewer_grant :: "uuid option"
  ra_owner_epoch :: "uuid option"
  ra_publication_version :: "nat option"
  ra_created_at :: time
  ra_expires_at :: time
  ra_revoked_at :: "time option"
  ra_captured_at :: "time option"

record authorized_open =
  ao_id :: nat
  ao_source :: uuid
  ao_dashboard :: uuid
  ao_viewer :: uuid
  ao_revision :: uuid
  ao_publication_version :: nat
  ao_opened_at :: time
  ao_aggregated_at :: "time option"

record open_daily =
  od_id :: nat
  od_dashboard :: uuid
  od_day :: int
  od_count :: nat

record viewer_summary =
  vo_id :: nat
  vo_dashboard :: uuid
  vo_viewer :: uuid
  vo_count :: nat
  vo_first_opened_at :: time
  vo_last_opened_at :: time

record open_snapshot =
  sn_id :: nat
  sn_dashboard :: uuid
  sn_count :: nat
  sn_last_opened_at :: time
  sn_through_open_id :: nat
  sn_updated_at :: time

record checkpoint =
  ck_pipeline_key :: string
  ck_last_open_id :: nat
  ck_updated_at :: time

record audit_event =
  ae_id :: nat
  ae_event_type :: string
  ae_occurred_at :: time
  ae_actor :: "uuid option"
  ae_dashboard :: "uuid option"
  ae_revision :: "uuid option"
  ae_target_user :: "uuid option"
  ae_metadata :: "(string \<times> meta_value) list"

record reservation =
  sr_id :: uuid
  sr_storage_key :: "text"
  sr_state :: storage_state
  sr_created_at :: time
  sr_expires_at :: time
  sr_verified_size :: "nat option"
  sr_verified_sha256 :: "text"
  sr_cleanup_required :: bool

section \<open>The database\<close>

record db =
  users :: "user list"
  throttles :: "throttle list"
  dashboards :: "dashboard list"
  transfers :: "transfer list"
  dash_tags :: "dash_tag list"
  favorites :: "favorite list"
  viewer_states :: "viewer_state list"
  access_requests :: "access_request list"
  revisions :: "revision list"
  artifacts :: "artifact list"
  grants :: "grant list"
  render_auths :: "render_auth list"
  opens :: "authorized_open list"
  open_dailies :: "open_daily list"
  viewer_summaries :: "viewer_summary list"
  open_snapshots :: "open_snapshot list"
  checkpoints :: "checkpoint list"
  audit_events :: "audit_event list"
  reservations :: "reservation list"
  clock :: "nat \<Rightarrow> time"
  ticks :: nat
  uuids :: "nat \<Rightarrow> uuid"
  uuid_draws :: nat
  secrets :: "nat \<Rightarrow> text"
  secret_draws :: nat
  serial :: nat

type_synonym 'a dbtxn = "(db, 'a) txn"

text \<open>The state before \<open>bootstrap_first_administrator\<close>: no rows, given environment sequences.\<close>

definition empty_db :: "(nat \<Rightarrow> time) \<Rightarrow> (nat \<Rightarrow> uuid) \<Rightarrow> (nat \<Rightarrow> text) \<Rightarrow> db" where
  "empty_db now ids sec =
     \<lparr>users = [], throttles = [], dashboards = [], transfers = [], dash_tags = [],
      favorites = [], viewer_states = [], access_requests = [], revisions = [], artifacts = [],
      grants = [], render_auths = [], opens = [], open_dailies = [], viewer_summaries = [],
      open_snapshots = [], checkpoints = [], audit_events = [], reservations = [],
      clock = now, ticks = 0, uuids = ids, uuid_draws = 0, secrets = sec, secret_draws = 0,
      serial = 1\<rparr>"

section \<open>Reading the environment\<close>

definition timezone_now :: "time dbtxn" where
  "timezone_now = (\<lambda>s. Inr (clock s (ticks s), s\<lparr>ticks := Suc (ticks s)\<rparr>))"

definition uuid4 :: "uuid dbtxn" where
  "uuid4 = (\<lambda>s. Inr (uuids s (uuid_draws s), s\<lparr>uuid_draws := Suc (uuid_draws s)\<rparr>))"

definition draw_secret :: "text dbtxn" where
  "draw_secret = (\<lambda>s. Inr (secrets s (secret_draws s), s\<lparr>secret_draws := Suc (secret_draws s)\<rparr>))"

definition next_serial :: "nat dbtxn" where
  "next_serial = (\<lambda>s. Inr (serial s, s\<lparr>serial := Suc (serial s)\<rparr>))"

lemma environment_run [txn_run]:
  "timezone_now s = Inr (clock s (ticks s), s\<lparr>ticks := Suc (ticks s)\<rparr>)"
  "uuid4 s = Inr (uuids s (uuid_draws s), s\<lparr>uuid_draws := Suc (uuid_draws s)\<rparr>)"
  "draw_secret s = Inr (secrets s (secret_draws s), s\<lparr>secret_draws := Suc (secret_draws s)\<rparr>)"
  "next_serial s = Inr (serial s, s\<lparr>serial := Suc (serial s)\<rparr>)"
  by (simp_all add: timezone_now_def uuid4_def draw_secret_def next_serial_def)

text \<open>\<open>now or timezone.now()\<close>: an explicit instant, or one clock reading.\<close>

definition now_or :: "time option \<Rightarrow> time dbtxn" where
  "now_or t = (case t of None \<Rightarrow> timezone_now | Some t \<Rightarrow> returnT t)"

section \<open>Exact-cardinality lookups\<close>

text \<open>
  \<open>get_one_or_none(queryset)\<close>: \<open>queryset.get()\<close> with \<open>ObjectDoesNotExist\<close> mapped to \<open>None\<close>;
  more than one row still raises.
\<close>

definition get_one_or_none :: "'r list \<Rightarrow> exn + 'r option" where
  "get_one_or_none queryset =
     (case exactly_one queryset of
        Inr r \<Rightarrow> Inr (Some r)
      | Inl e \<Rightarrow> if e = DoesNotExist then Inr None else Inl e)"

lemma get_one_or_none_simps [simp]:
  "get_one_or_none [] = Inr None"
  "get_one_or_none [r] = Inr (Some r)"
  "get_one_or_none (r # r' # rs) = Inl MultipleObjectsReturned"
  by (simp_all add: get_one_or_none_def exactly_one_def)

lemma get_one_or_none_Some [simp]: "get_one_or_none rs = Inr (Some r) \<longleftrightarrow> rs = [r]"
  by (cases rs rule: remdups_adj.cases) auto

lemma get_one_or_none_None [simp]: "get_one_or_none rs = Inr None \<longleftrightarrow> rs = []"
  by (cases rs rule: remdups_adj.cases) auto

lemma get_one_or_none_filter_Some:
  "get_one_or_none (filter P rs) = Inr (Some r) \<Longrightarrow> r \<in> set rs \<and> P r"
  by (auto simp: filter_eq_Cons_iff)

lemma filter_singleD: "filter P rs = [r] \<Longrightarrow> r \<in> set rs \<and> P r"
  by (auto simp: filter_eq_Cons_iff)

lemma filter_single_unique: "filter P rs = [r] \<Longrightarrow> x \<in> set rs \<Longrightarrow> P x \<Longrightarrow> x = r"
  by (metis (mono_tags, lifting) empty_iff empty_set insert_iff list.simps(15) mem_Collect_eq set_filter)

text \<open>\<open>order_by(...).first()\<close> of an already ordered queryset.\<close>

definition first_row :: "'r list \<Rightarrow> 'r option" where
  "first_row rs = (case rs of [] \<Rightarrow> None | r # _ \<Rightarrow> Some r)"

lemma first_row_Some: "first_row (filter P rs) = Some r \<Longrightarrow> r \<in> set rs \<and> P r"
  by (auto simp: first_row_def filter_eq_Cons_iff split: list.splits)

lemma first_row_None [simp]: "first_row rs = None \<longleftrightarrow> rs = []"
  by (simp add: first_row_def split: list.splits)

text \<open>Dereferencing a foreign key.\<close>

definition user_of :: "db \<Rightarrow> uuid \<Rightarrow> user option" where
  "user_of s i = find (\<lambda>u. u_id u = i) (users s)"

definition dashboard_of :: "db \<Rightarrow> uuid \<Rightarrow> dashboard option" where
  "dashboard_of s i = find (\<lambda>d. d_id d = i) (dashboards s)"

definition revision_of :: "db \<Rightarrow> uuid \<Rightarrow> revision option" where
  "revision_of s i = find (\<lambda>r. r_id r = i) (revisions s)"

definition grant_of :: "db \<Rightarrow> uuid \<Rightarrow> grant option" where
  "grant_of s i = find (\<lambda>g. g_id g = i) (grants s)"

definition transfer_of :: "db \<Rightarrow> uuid \<Rightarrow> transfer option" where
  "transfer_of s i = find (\<lambda>t. ot_id t = i) (transfers s)"

definition render_auth_of :: "db \<Rightarrow> uuid \<Rightarrow> render_auth option" where
  "render_auth_of s i = find (\<lambda>a. ra_id a = i) (render_auths s)"

lemma lookup_env [simp]:
  "user_of (s\<lparr>ticks := n\<rparr>) = user_of s"
  "user_of (s\<lparr>uuid_draws := n\<rparr>) = user_of s"
  "user_of (s\<lparr>secret_draws := n\<rparr>) = user_of s"
  "user_of (s\<lparr>serial := n\<rparr>) = user_of s"
  "dashboard_of (s\<lparr>ticks := n\<rparr>) = dashboard_of s"
  "dashboard_of (s\<lparr>uuid_draws := n\<rparr>) = dashboard_of s"
  "dashboard_of (s\<lparr>secret_draws := n\<rparr>) = dashboard_of s"
  "dashboard_of (s\<lparr>serial := n\<rparr>) = dashboard_of s"
  "revision_of (s\<lparr>ticks := n\<rparr>) = revision_of s"
  "revision_of (s\<lparr>uuid_draws := n\<rparr>) = revision_of s"
  "revision_of (s\<lparr>secret_draws := n\<rparr>) = revision_of s"
  "revision_of (s\<lparr>serial := n\<rparr>) = revision_of s"
  "grant_of (s\<lparr>ticks := n\<rparr>) = grant_of s"
  "grant_of (s\<lparr>uuid_draws := n\<rparr>) = grant_of s"
  "grant_of (s\<lparr>secret_draws := n\<rparr>) = grant_of s"
  "grant_of (s\<lparr>serial := n\<rparr>) = grant_of s"
  "transfer_of (s\<lparr>ticks := n\<rparr>) = transfer_of s"
  "transfer_of (s\<lparr>uuid_draws := n\<rparr>) = transfer_of s"
  "transfer_of (s\<lparr>secret_draws := n\<rparr>) = transfer_of s"
  "transfer_of (s\<lparr>serial := n\<rparr>) = transfer_of s"
  "render_auth_of (s\<lparr>ticks := n\<rparr>) = render_auth_of s"
  "render_auth_of (s\<lparr>uuid_draws := n\<rparr>) = render_auth_of s"
  "render_auth_of (s\<lparr>secret_draws := n\<rparr>) = render_auth_of s"
  "render_auth_of (s\<lparr>serial := n\<rparr>) = render_auth_of s"
  by (simp_all add: fun_eq_iff user_of_def dashboard_of_def revision_of_def grant_of_def
      transfer_of_def render_auth_of_def)

definition fk :: "('i \<Rightarrow> 'r option) \<Rightarrow> 'i \<Rightarrow> bool" where
  "fk look i \<longleftrightarrow> look i \<noteq> None"

definition fk_opt :: "('i \<Rightarrow> 'r option) \<Rightarrow> 'i option \<Rightarrow> bool" where
  "fk_opt look i = (case i of None \<Rightarrow> True | Some j \<Rightarrow> look j \<noteq> None)"

lemma fk_opt_simps [simp]:
  "fk_opt look None"
  "fk_opt look (Some i) = fk look i"
  by (simp_all add: fk_opt_def fk_def)

lemma find_keyD: "find P rs = Some r \<Longrightarrow> r \<in> set rs \<and> P r"
  by (auto simp: find_Some_iff)

lemma find_key_distinct:
  "distinct (map key rs) \<Longrightarrow> r \<in> set rs \<Longrightarrow> find (\<lambda>x. key x = key r) rs = Some r"
  by (induction rs) (auto simp: rev_image_eqI)

section \<open>Table writes\<close>

text \<open>
  What the database itself enforces on a write to a table: the primary key, the check
  constraints and the unique constraints of the model's \<open>Meta\<close> and of the Oracle migrations. A
  violation is an \<open>IntegrityError\<close>.
\<close>

definition insertable :: "('r \<Rightarrow> 'k) \<Rightarrow> ('r \<Rightarrow> bool) \<Rightarrow> ('r \<Rightarrow> 'r \<Rightarrow> bool) \<Rightarrow> 'r \<Rightarrow> 'r list \<Rightarrow> bool" where
  "insertable key checks conflict r rs \<longleftrightarrow>
     checks r \<and> (\<forall>x \<in> set rs. key x \<noteq> key r \<and> \<not> conflict x r)"

definition updatable :: "('r \<Rightarrow> 'k) \<Rightarrow> ('r \<Rightarrow> bool) \<Rightarrow> ('r \<Rightarrow> 'r \<Rightarrow> bool) \<Rightarrow> 'r \<Rightarrow> 'r list \<Rightarrow> bool" where
  "updatable key checks conflict r rs \<longleftrightarrow>
     checks r \<and> (\<forall>x \<in> set rs. key x \<noteq> key r \<longrightarrow> \<not> conflict x r)"

definition wf_table :: "('r \<Rightarrow> 'k) \<Rightarrow> ('r \<Rightarrow> bool) \<Rightarrow> ('r \<Rightarrow> 'r \<Rightarrow> bool) \<Rightarrow> 'r list \<Rightarrow> bool" where
  "wf_table key checks conflict rs \<longleftrightarrow>
     distinct (map key rs) \<and> (\<forall>r \<in> set rs. checks r) \<and>
     (\<forall>x \<in> set rs. \<forall>y \<in> set rs. key x \<noteq> key y \<longrightarrow> \<not> conflict x y)"

definition table_insert ::
  "('s \<Rightarrow> 'r list) \<Rightarrow> (('r list \<Rightarrow> 'r list) \<Rightarrow> 's \<Rightarrow> 's) \<Rightarrow> ('r \<Rightarrow> 'k) \<Rightarrow> ('r \<Rightarrow> bool)
    \<Rightarrow> ('r \<Rightarrow> 'r \<Rightarrow> bool) \<Rightarrow> 'r \<Rightarrow> ('s, 'r) txn" where
  "table_insert tbl upd key checks conflict r =
     bindT (queryT (\<lambda>s. ensureE (insertable key checks conflict r (tbl s)) IntegrityError)) (\<lambda>_.
     bindT (writeT (upd (\<lambda>rs. rs @ [r]))) (\<lambda>_. returnT r))"

definition table_update ::
  "('s \<Rightarrow> 'r list) \<Rightarrow> (('r list \<Rightarrow> 'r list) \<Rightarrow> 's \<Rightarrow> 's) \<Rightarrow> ('r \<Rightarrow> 'k) \<Rightarrow> ('r \<Rightarrow> bool)
    \<Rightarrow> ('r \<Rightarrow> 'r \<Rightarrow> bool) \<Rightarrow> 'r \<Rightarrow> ('s, 'r) txn" where
  "table_update tbl upd key checks conflict r =
     bindT (queryT (\<lambda>s. ensureE (updatable key checks conflict r (tbl s)) IntegrityError)) (\<lambda>_.
     bindT (writeT (upd (put_row key r))) (\<lambda>_. returnT r))"

lemma table_insert_run:
  "table_insert tbl upd key checks conflict r s =
     (if insertable key checks conflict r (tbl s) then Inr (r, upd (\<lambda>rs. rs @ [r]) s)
      else Inl IntegrityError)"
  by (simp add: table_insert_def txn_run ensureE_def)

lemma table_update_run:
  "table_update tbl upd key checks conflict r s =
     (if updatable key checks conflict r (tbl s) then Inr (r, upd (put_row key r) s)
      else Inl IntegrityError)"
  by (simp add: table_update_def txn_run ensureE_def)

declare table_insert_run [txn_run] table_update_run [txn_run]

text \<open>
  The laws of a constrained table: what the database refuses keeps the table well formed.
\<close>

locale constrained_table =
  fixes key :: "'r \<Rightarrow> 'k" and checks :: "'r \<Rightarrow> bool" and conflict :: "'r \<Rightarrow> 'r \<Rightarrow> bool"
  assumes conflict_sym: "conflict x y \<Longrightarrow> conflict y x"
begin

lemma wf_insert:
  "wf_table key checks conflict rs \<Longrightarrow> insertable key checks conflict r rs
     \<Longrightarrow> wf_table key checks conflict (rs @ [r])"
  by (auto simp: wf_table_def insertable_def dest: conflict_sym)

lemma wf_put:
  assumes "wf_table key checks conflict rs" "updatable key checks conflict r rs"
  shows "wf_table key checks conflict (put_row key r rs)"
  using assms unfolding wf_table_def updatable_def keys_put_row
  by (auto simp: set_put_row dest: conflict_sym)

lemma wf_filter:
  "wf_table key checks conflict rs \<Longrightarrow> wf_table key checks conflict (filter P rs)"
  by (auto simp: wf_table_def distinct_map_filter)

lemma wf_map:
  assumes "wf_table key checks conflict rs" "\<And>x. key (f x) = key x" "\<And>x. checks x \<Longrightarrow> checks (f x)"
    "\<And>x y. conflict (f x) (f y) \<Longrightarrow> conflict x y"
  shows "wf_table key checks conflict (map f rs)"
  using assms unfolding wf_table_def by (simp add: o_def) blast

lemma wf_empty: "wf_table key checks conflict []"
  by (simp add: wf_table_def)

lemma wf_find:
  "wf_table key checks conflict rs \<Longrightarrow> r \<in> set rs \<Longrightarrow> find (\<lambda>x. key x = key r) rs = Some r"
  by (auto simp: wf_table_def intro: find_key_distinct)

end

end
