(* ===== verification/Models_Core.thy ===== *)
theory Models_Core
  imports Schema
begin

text \<open>
  The rules of the user, login-throttle, dashboard, ownership-transfer, tag, favorite,
  viewer-state and access-request models (\<open>core/models.py\<close>): for each class its check
  constraints (\<open>checks\<close>), its unique constraints (\<open>conflict\<close>, two rows that may not both
  exist), its field validation (\<open>fields\<close>: lengths, blanks, foreign keys), its \<open>clean\<close> and its
  \<open>save\<close>. A save takes the \<open>_state.adding\<close> flag, the \<open>update_fields\<close> and the instance, and
  returns the instance as the method leaves it.
\<close>

section \<open>full_clean\<close>

text \<open>
  \<open>full_clean()\<close> runs field validation, \<open>clean()\<close>, the unique checks and the constraints. It
  collects the failures of the four stages into one \<open>ValidationError\<close>; the model reports the
  message of the first stage that fails.
\<close>

definition unique_row :: "('r \<Rightarrow> 'k) \<Rightarrow> ('r \<Rightarrow> 'r \<Rightarrow> bool) \<Rightarrow> bool \<Rightarrow> 'r \<Rightarrow> 'r list \<Rightarrow> bool" where
  "unique_row key conflict adding r rs \<longleftrightarrow>
     (\<forall>x \<in> set rs. (adding \<longrightarrow> key x \<noteq> key r) \<and> (key x \<noteq> key r \<longrightarrow> \<not> conflict x r))"

definition full_clean ::
  "(db \<Rightarrow> bool) \<Rightarrow> (db \<Rightarrow> exn + unit) \<Rightarrow> (db \<Rightarrow> bool) \<Rightarrow> bool \<Rightarrow> unit dbtxn" where
  "full_clean valid clean unique checks = queryT (\<lambda>s.
     bindE (ensureE (valid s) (ValidationError ''fields'')) (\<lambda>_.
     bindE (clean s) (\<lambda>_.
     bindE (ensureE (unique s) (ValidationError ''unique'')) (\<lambda>_.
     ensureE checks (ValidationError ''constraints'')))))"

lemma full_clean_Inr:
  "full_clean valid clean unique checks s = Inr (x, t) \<longleftrightarrow>
     t = s \<and> valid s \<and> clean s = Inr () \<and> unique s \<and> checks"
  by (auto simp: full_clean_def queryT_eq_Inr bindE_eq_Inr)

text \<open>\<open>type(self).objects.get(pk=self.pk)\<close>\<close>

definition stored :: "(db \<Rightarrow> 'r list) \<Rightarrow> ('r \<Rightarrow> 'k) \<Rightarrow> 'k \<Rightarrow> 'r dbtxn" where
  "stored tbl key k = queryT (\<lambda>s. exactly_one (filter (\<lambda>x. key x = k) (tbl s)))"

lemma stored_Inr:
  "stored tbl key k s = Inr (r, t) \<longleftrightarrow> t = s \<and> filter (\<lambda>x. key x = k) (tbl s) = [r]"
  by (auto simp: stored_def queryT_eq_Inr exactly_one_Inr)

section \<open>User\<close>

definition user_checks :: "user \<Rightarrow> bool" where
  "user_checks u \<longleftrightarrow> soeid_pattern (u_soeid u) \<and> u_auth_version u > 0"

definition user_conflict :: "user \<Rightarrow> user \<Rightarrow> bool" where
  "user_conflict x y \<longleftrightarrow> u_soeid x = u_soeid y"

definition user_fields :: "user \<Rightarrow> bool" where
  "user_fields u \<longleftrightarrow>
     u_soeid u \<noteq> [] \<and> length (u_soeid u) \<le> 64 \<and>
     u_password u \<noteq> [] \<and> length (u_password u) \<le> 128"

definition user_clean :: "user \<Rightarrow> exn + unit" where
  "user_clean u =
     (case canonicalize_soeid (u_soeid u) of
        Inl (InvalidSoeid m) \<Rightarrow> Inl (ValidationError m)
      | Inl e \<Rightarrow> Inl e
      | Inr canonical \<Rightarrow>
          ensureE (u_soeid u = canonical) (ValidationError ''SOEID must already be canonical''))"

definition user_columns :: "string list option \<Rightarrow> time \<Rightarrow> user \<Rightarrow> user \<Rightarrow> user" where
  "user_columns fs now old new = old\<lparr>
     u_soeid := column ''soeid'' fs (u_soeid old) (u_soeid new),
     u_password := column ''password'' fs (u_password old) (u_password new),
     u_is_active := column ''is_active'' fs (u_is_active old) (u_is_active new),
     u_is_administrator := column ''is_administrator'' fs (u_is_administrator old) (u_is_administrator new),
     u_auth_version := column ''auth_version'' fs (u_auth_version old) (u_auth_version new),
     u_updated_at := column ''updated_at'' fs (u_updated_at old) now\<rparr>"

definition user_full_clean :: "bool \<Rightarrow> user \<Rightarrow> unit dbtxn" where
  "user_full_clean adding u =
     full_clean (\<lambda>s. user_fields u) (\<lambda>s. user_clean u)
       (\<lambda>s. unique_row u_id user_conflict adding u (users s)) (user_checks u)"

definition user_insert :: "user \<Rightarrow> user dbtxn" where
  "user_insert u = table_insert users users_update u_id user_checks user_conflict u"

definition user_update :: "user \<Rightarrow> user dbtxn" where
  "user_update u = table_update users users_update u_id user_checks user_conflict u"

definition user_save :: "bool \<Rightarrow> string list option \<Rightarrow> user \<Rightarrow> user dbtxn" where
  "user_save adding fs u =
     (if adding then
        bindT (user_full_clean True u) (\<lambda>_.
        bindT timezone_now (\<lambda>now.
        user_insert (u\<lparr>u_created_at := now, u_updated_at := now\<rparr>)))
      else
        bindT (stored users u_id (u_id u)) (\<lambda>original.
        if u_soeid original \<noteq> u_soeid u
        then raiseT (ImmutableRecordError ''user identity fields are immutable'')
        else
        let flipped = (u_is_active u \<noteq> u_is_active original);
            u' = (if flipped then u\<lparr>u_auth_version := u_auth_version original + 1\<rparr> else u);
            fs' = (if flipped then add_fields [''auth_version''] fs else fs)
        in bindT (user_full_clean False u') (\<lambda>_.
           bindT timezone_now (\<lambda>now.
           user_update (user_columns fs' now original u')))))"

text \<open>
  \<open>UserManager.create_user\<close>: an identity without a usable password. \<open>make_password(None)\<close> is the
  prefix \<open>!\<close> followed by a random string.
\<close>

definition new_user :: "uuid \<Rightarrow> text \<Rightarrow> user" where
  "new_user i soeid =
     \<lparr>u_id = i, u_soeid = soeid, u_password = [], u_is_active = True,
      u_is_administrator = False, u_auth_version = 1, u_created_at = 0, u_updated_at = 0\<rparr>"

definition create_user :: "text \<Rightarrow> text option \<Rightarrow> user dbtxn" where
  "create_user soeid password =
     (if password \<noteq> None then raiseT (ValueError ''credential provisioning belongs to AG-003'')
      else
      bindT (queryT (\<lambda>s. canonicalize_soeid soeid)) (\<lambda>canonical.
      bindT uuid4 (\<lambda>i.
      bindT draw_secret (\<lambda>r.
      let user = (new_user i canonical)\<lparr>u_password := 33 # r\<rparr> in
      bindT (user_full_clean True user) (\<lambda>_. user_save True None user)))))"

section \<open>LoginThrottle\<close>

definition is_hex :: "nat \<Rightarrow> bool" where
  "is_hex c \<longleftrightarrow> (48 \<le> c \<and> c \<le> 57) \<or> (97 \<le> c \<and> c \<le> 102)"

definition hex_text :: "nat \<Rightarrow> text \<Rightarrow> bool" where
  "hex_text n v \<longleftrightarrow> length v = n \<and> list_all is_hex v"

definition throttle_checks :: "throttle \<Rightarrow> bool" where
  "throttle_checks b \<longleftrightarrow> hex_text 64 (lt_bucket_hash b)"

definition throttle_conflict :: "throttle \<Rightarrow> throttle \<Rightarrow> bool" where
  "throttle_conflict x y \<longleftrightarrow> lt_bucket_hash x = lt_bucket_hash y"

definition throttle_insert :: "throttle \<Rightarrow> throttle dbtxn" where
  "throttle_insert b =
     table_insert throttles throttles_update lt_id throttle_checks throttle_conflict b"

definition throttle_update :: "throttle \<Rightarrow> throttle dbtxn" where
  "throttle_update b =
     table_update throttles throttles_update lt_id throttle_checks throttle_conflict b"

definition throttle_columns :: "string list option \<Rightarrow> time \<Rightarrow> throttle \<Rightarrow> throttle \<Rightarrow> throttle" where
  "throttle_columns fs now old new = old\<lparr>
     lt_window_started_at := column ''window_started_at'' fs (lt_window_started_at old) (lt_window_started_at new),
     lt_failed_attempts := column ''failed_attempts'' fs (lt_failed_attempts old) (lt_failed_attempts new),
     lt_blocked_until := column ''blocked_until'' fs (lt_blocked_until old) (lt_blocked_until new),
     lt_updated_at := column ''updated_at'' fs (lt_updated_at old) now\<rparr>"

definition throttle_save :: "string list option \<Rightarrow> throttle \<Rightarrow> throttle dbtxn" where
  "throttle_save fs b =
     bindT (stored throttles lt_id (lt_id b)) (\<lambda>original.
     bindT timezone_now (\<lambda>now.
     throttle_update (throttle_columns fs now original b)))"

section \<open>Dashboard\<close>

definition max_freshness_seconds :: int where
  "max_freshness_seconds = 31536000"

definition dashboard_checks :: "dashboard \<Rightarrow> bool" where
  "dashboard_checks d \<longleftrightarrow>
     ((d_state d = PUBLISHED \<and> d_published_revision d \<noteq> None)
       \<or> (d_state d \<noteq> PUBLISHED \<and> d_published_revision d = None)) \<and>
     ((d_state d = DRAFT \<and> d_first_published_at d = None)
       \<or> (d_state d \<in> {PUBLISHED, UNPUBLISHED} \<and> d_first_published_at d \<noteq> None)
       \<or> d_state d \<in> {ARCHIVED, DELETED}) \<and>
     d_name d \<noteq> [] \<and>
     ((d_publication_version d = 0 \<and> d_last_published_at d = None)
       \<or> (d_publication_version d > 0 \<and> d_last_published_at d \<noteq> None)) \<and>
     (d_state d \<noteq> PUBLISHED \<or> d_publication_version d > 0) \<and>
     ((d_freshness_interval d = None \<and> d_freshness_confirmed_at d = None \<and> d_stale_after d = None)
       \<or> (case d_freshness_interval d of None \<Rightarrow> False
           | Some n \<Rightarrow> 0 < n \<and> n \<le> max_freshness_seconds
               \<and> d_freshness_confirmed_at d \<noteq> None \<and> d_stale_after d \<noteq> None))"

definition dashboard_conflict :: "dashboard \<Rightarrow> dashboard \<Rightarrow> bool" where
  "dashboard_conflict x y \<longleftrightarrow> d_last_transfer x \<noteq> None \<and> d_last_transfer x = d_last_transfer y"

definition dashboard_fields :: "dashboard \<Rightarrow> db \<Rightarrow> bool" where
  "dashboard_fields d s \<longleftrightarrow>
     d_name d \<noteq> [] \<and> length (d_name d) \<le> 200 \<and> length (d_publication_note d) \<le> 240 \<and>
     fk (user_of s) (d_owner d) \<and> fk_opt (revision_of s) (d_latest_revision d) \<and>
     fk_opt (revision_of s) (d_published_revision d) \<and>
     fk_opt (transfer_of s) (d_last_transfer d)"

definition dashboard_clean :: "dashboard \<Rightarrow> db \<Rightarrow> exn + unit" where
  "dashboard_clean d s =
     (let none = [d_freshness_interval d = None, d_freshness_confirmed_at d = None,
                  d_stale_after d = None]
      in if True \<in> set none \<and> False \<in> set none
      then Inl (ValidationError ''freshness interval, confirmation, and stale-after must be set together'')
      else
      bindE (case d_freshness_interval d of
         None \<Rightarrow> Inr ()
       | Some n \<Rightarrow>
           if \<not> (1 \<le> n \<and> n \<le> max_freshness_seconds)
           then Inl (ValidationError ''interval must be between 1 second and 1 year'')
           else (case d_freshness_confirmed_at d of
               None \<Rightarrow> Inl AssertionError
             | Some t \<Rightarrow> ensureE (d_stale_after d = Some (t + seconds n))
                 (ValidationError ''stale-after must equal confirmation plus interval''))) (\<lambda>_.
      if (d_publication_version d = 0) \<noteq> (d_last_published_at d = None)
      then Inl (ValidationError ''publication version zero and missing last-published time must match'')
      else if d_state d = PUBLISHED \<and> d_publication_version d = 0
      then Inl (ValidationError ''published dashboards must have a publication version'')
      else
      bindE (case d_published_revision d of
         None \<Rightarrow> Inr ()
       | Some r \<Rightarrow> ensureE (case revision_of s r of None \<Rightarrow> False | Some x \<Rightarrow> r_dashboard x = d_id d)
           (ValidationError ''published revision must belong to this dashboard'')) (\<lambda>_.
      case d_latest_revision d of
         None \<Rightarrow> Inr ()
       | Some r \<Rightarrow> ensureE (case revision_of s r of None \<Rightarrow> False | Some x \<Rightarrow> r_dashboard x = d_id d)
           (ValidationError ''latest revision must belong to this dashboard''))))"

text \<open>\<open>allowed[original.state]\<close>: the lifecycle transitions.\<close>

fun allowed_states :: "dashboard \<Rightarrow> dash_state list" where
  "allowed_states original =
     (case d_state original of
        DRAFT \<Rightarrow> [DRAFT, PUBLISHED, ARCHIVED, DELETED]
      | PUBLISHED \<Rightarrow> [PUBLISHED, UNPUBLISHED, ARCHIVED, DELETED]
      | UNPUBLISHED \<Rightarrow> [UNPUBLISHED, PUBLISHED, ARCHIVED, DELETED]
      | ARCHIVED \<Rightarrow>
          [if d_first_published_at original \<noteq> None then UNPUBLISHED else DRAFT, DELETED]
      | DELETED \<Rightarrow> [])"

definition archived_stable :: "dashboard \<Rightarrow> dashboard \<Rightarrow> bool" where
  "archived_stable o' d \<longleftrightarrow>
     d_name d = d_name o' \<and> d_description d = d_description o' \<and>
     d_latest_revision d = d_latest_revision o' \<and>
     d_publication_note d = d_publication_note o' \<and> d_data_as_of d = d_data_as_of o' \<and>
     d_freshness_interval d = d_freshness_interval o' \<and>
     d_freshness_confirmed_at d = d_freshness_confirmed_at o' \<and>
     d_stale_after d = d_stale_after o'"

definition lifecycle_transition :: "dashboard \<Rightarrow> dashboard \<Rightarrow> exn + unit" where
  "lifecycle_transition original d =
     (if d_state original = DELETED
      then Inl (ImmutableRecordError ''deleted dashboards are terminal tombstones'')
      else if d_first_published_at original \<noteq> None
              \<and> d_first_published_at d \<noteq> d_first_published_at original
      then Inl (ImmutableRecordError ''first publication time is immutable'')
      else if d_first_published_at original = None \<and> d_first_published_at d \<noteq> None
              \<and> \<not> (d_state original = DRAFT \<and> d_state d = PUBLISHED)
      then Inl (ValidationError ''publication history begins only with first publication'')
      else if d_publication_version d < d_publication_version original
      then Inl (ImmutableRecordError ''publication version cannot decrease'')
      else if d_publication_version d > d_publication_version original + 1
      then Inl (ValidationError ''publication version must advance one version at a time'')
      else
      bindE (if d_publication_version d = d_publication_version original + 1 then
           (if d_state d \<noteq> PUBLISHED \<or> d_published_revision d = None
            then Inl (ValidationError ''a publication version requires a published revision'')
            else case d_last_published_at d of
               None \<Rightarrow> Inl (ValidationError ''last-published time must advance with publication version'')
             | Some t \<Rightarrow>
                 ensureE (case d_last_published_at original of None \<Rightarrow> True | Some t0 \<Rightarrow> t0 \<le> t)
                   (ValidationError ''last-published time must advance with publication version''))
         else if d_last_published_at d \<noteq> d_last_published_at original
         then Inl (ImmutableRecordError ''last-published time changes only on publication'')
         else if d_publication_note d \<noteq> d_publication_note original
         then Inl (ImmutableRecordError ''publication note changes only on publication'')
         else ensureE (\<not> (d_state d = PUBLISHED \<and> d_state original = PUBLISHED
                           \<and> d_published_revision d \<noteq> d_published_revision original))
           (ValidationError ''republishing a revision must advance publication version'')) (\<lambda>_.
      if d_state d \<notin> set (allowed_states original)
      then Inl (ValidationError ''dashboard lifecycle transition is not allowed'')
      else ensureE (d_state original = ARCHIVED \<longrightarrow> archived_stable original d)
             (ValidationError ''archived dashboards are read-only'')))"

definition dashboard_columns :: "string list option \<Rightarrow> time \<Rightarrow> dashboard \<Rightarrow> dashboard \<Rightarrow> dashboard" where
  "dashboard_columns fs now old new = old\<lparr>
     d_name := column ''name'' fs (d_name old) (d_name new),
     d_description := column ''description'' fs (d_description old) (d_description new),
     d_state := column ''state'' fs (d_state old) (d_state new),
     d_latest_revision := column ''latest_revision'' fs (d_latest_revision old) (d_latest_revision new),
     d_published_revision := column ''published_revision'' fs (d_published_revision old) (d_published_revision new),
     d_first_published_at := column ''first_published_at'' fs (d_first_published_at old) (d_first_published_at new),
     d_publication_version := column ''publication_version'' fs (d_publication_version old) (d_publication_version new),
     d_last_published_at := column ''last_published_at'' fs (d_last_published_at old) (d_last_published_at new),
     d_publication_note := column ''publication_note'' fs (d_publication_note old) (d_publication_note new),
     d_data_as_of := column ''data_as_of'' fs (d_data_as_of old) (d_data_as_of new),
     d_freshness_interval := column ''freshness_interval_seconds'' fs (d_freshness_interval old) (d_freshness_interval new),
     d_freshness_confirmed_at := column ''freshness_confirmed_at'' fs (d_freshness_confirmed_at old) (d_freshness_confirmed_at new),
     d_stale_after := column ''stale_after'' fs (d_stale_after old) (d_stale_after new),
     d_updated_at := column ''updated_at'' fs (d_updated_at old) now\<rparr>"

definition dashboard_full_clean :: "bool \<Rightarrow> dashboard \<Rightarrow> unit dbtxn" where
  "dashboard_full_clean adding d =
     full_clean (dashboard_fields d) (dashboard_clean d)
       (\<lambda>s. unique_row d_id dashboard_conflict adding d (dashboards s)) (dashboard_checks d)"

definition dashboard_insert :: "dashboard \<Rightarrow> dashboard dbtxn" where
  "dashboard_insert d =
     table_insert dashboards dashboards_update d_id dashboard_checks dashboard_conflict d"

definition dashboard_update :: "dashboard \<Rightarrow> dashboard dbtxn" where
  "dashboard_update d =
     table_update dashboards dashboards_update d_id dashboard_checks dashboard_conflict d"

text \<open>\<open>Dashboard.save\<close>: a publication whose version was not advanced by the caller advances it here.\<close>

definition advances_publication :: "dashboard \<Rightarrow> dashboard \<Rightarrow> bool" where
  "advances_publication original d \<longleftrightarrow>
     d_state d = PUBLISHED \<and> d_published_revision d \<noteq> None \<and>
     (d_state original \<noteq> PUBLISHED \<or> d_published_revision d \<noteq> d_published_revision original) \<and>
     d_publication_version d = d_publication_version original"

definition dashboard_save :: "bool \<Rightarrow> string list option \<Rightarrow> dashboard \<Rightarrow> dashboard dbtxn" where
  "dashboard_save adding fs d =
     (if adding then
        if d_state d \<noteq> DRAFT \<or> d_latest_revision d \<noteq> None \<or> d_published_revision d \<noteq> None
           \<or> d_first_published_at d \<noteq> None \<or> d_publication_version d \<noteq> 0
           \<or> d_last_published_at d \<noteq> None \<or> d_last_transfer d \<noteq> None
        then raiseT (ValidationError ''new dashboards must begin as private drafts'')
        else
        bindT (dashboard_full_clean True d) (\<lambda>_.
        bindT timezone_now (\<lambda>now.
        dashboard_insert (d\<lparr>d_created_at := now, d_updated_at := now\<rparr>)))
      else
        bindT (stored dashboards d_id (d_id d)) (\<lambda>original.
        if d_owner original \<noteq> d_owner d \<or> d_last_transfer original \<noteq> d_last_transfer d
        then raiseT (ImmutableRecordError ''dashboard identity and ownership are immutable'')
        else
        bindT (if advances_publication original d
               then bindT timezone_now (\<lambda>now. returnT
                 (d\<lparr>d_publication_version := d_publication_version original + 1,
                    d_last_published_at := Some now\<rparr>,
                  add_fields [''publication_version'', ''last_published_at''] fs))
               else returnT (d, fs)) (\<lambda>(d', fs').
        bindT (queryT (\<lambda>s. lifecycle_transition original d')) (\<lambda>_.
        bindT (dashboard_full_clean False d') (\<lambda>_.
        bindT timezone_now (\<lambda>now.
        dashboard_update (dashboard_columns fs' now original d')))))))"

section \<open>DashboardOwnershipTransfer\<close>

definition transfer_checks :: "transfer \<Rightarrow> bool" where
  "transfer_checks t \<longleftrightarrow> ot_from_owner t \<noteq> ot_to_owner t"

text \<open>The unique index on dashboard and predecessor (\<open>0013\<close>): a chain has no fork.\<close>

definition transfer_conflict :: "transfer \<Rightarrow> transfer \<Rightarrow> bool" where
  "transfer_conflict x y \<longleftrightarrow> ot_dashboard x = ot_dashboard y \<and> ot_previous x = ot_previous y"

definition transfer_clean :: "transfer \<Rightarrow> db \<Rightarrow> exn + unit" where
  "transfer_clean t s =
     (case dashboard_of s (ot_dashboard t) of
        None \<Rightarrow> Inl DoesNotExist
      | Some d \<Rightarrow>
          if ot_from_owner t \<noteq> d_owner d
          then Inl (ValidationError ''source must be the current dashboard owner'')
          else if ot_to_owner t = ot_from_owner t
          then Inl (ValidationError ''incoming owner must be different'')
          else (case user_of s (ot_to_owner t) of
              None \<Rightarrow> Inl DoesNotExist
            | Some u \<Rightarrow>
                if \<not> u_is_active u
                then Inl (ValidationError ''incoming owner must be active'')
                else ensureE (ot_previous t = d_last_transfer d)
                  (ValidationError ''transfer marker must continue the dashboard chain'')))"

definition transfer_fields :: "transfer \<Rightarrow> db \<Rightarrow> bool" where
  "transfer_fields t s \<longleftrightarrow>
     fk (dashboard_of s) (ot_dashboard t) \<and> fk (user_of s) (ot_from_owner t) \<and>
     fk (user_of s) (ot_to_owner t) \<and> fk_opt (transfer_of s) (ot_previous t)"

definition transfer_insert :: "transfer \<Rightarrow> transfer dbtxn" where
  "transfer_insert t =
     table_insert transfers transfers_update ot_id transfer_checks transfer_conflict t"

definition transfer_save :: "bool \<Rightarrow> transfer \<Rightarrow> transfer dbtxn" where
  "transfer_save adding t =
     (if \<not> adding then raiseT (ImmutableRecordError ''ownership transfer history is immutable'')
      else
      bindT (full_clean (transfer_fields t) (transfer_clean t)
        (\<lambda>s. unique_row ot_id (\<lambda>_ _. False) True t (transfers s)) (transfer_checks t)) (\<lambda>_.
      bindT timezone_now (\<lambda>now. transfer_insert (t\<lparr>ot_transferred_at := now\<rparr>))))"

section \<open>DashboardTag\<close>

definition tag_checks :: "dash_tag \<Rightarrow> bool" where
  "tag_checks t \<longleftrightarrow> 1 \<le> tg_slot t \<and> tg_slot t \<le> 5 \<and> tg_label t \<noteq> [] \<and> tg_key t \<noteq> []"

definition tag_conflict :: "dash_tag \<Rightarrow> dash_tag \<Rightarrow> bool" where
  "tag_conflict x y \<longleftrightarrow>
     tg_dashboard x = tg_dashboard y \<and> (tg_key x = tg_key y \<or> tg_slot x = tg_slot y)"

definition tag_fields :: "dash_tag \<Rightarrow> db \<Rightarrow> bool" where
  "tag_fields t s \<longleftrightarrow>
     fk (dashboard_of s) (tg_dashboard t) \<and> tg_label t \<noteq> [] \<and> length (tg_label t) \<le> 40 \<and>
     tg_key t \<noteq> [] \<and> length (tg_key t) \<le> 80"

definition tag_clean :: "unicode \<Rightarrow> dash_tag \<Rightarrow> exn + unit" where
  "tag_clean uc t =
     (case normalize_dashboard_tag uc (tg_label t) of
        Inl (InvalidDashboardTag m) \<Rightarrow> Inl (ValidationError m)
      | Inl e \<Rightarrow> Inl e
      | Inr n \<Rightarrow> ensureE (tg_label t = tag_display n \<and> tg_key t = tag_key n)
          (ValidationError ''dashboard tag label and key must be canonical''))"

definition tag_insert :: "dash_tag \<Rightarrow> dash_tag dbtxn" where
  "tag_insert t = table_insert dash_tags dash_tags_update tg_id tag_checks tag_conflict t"

definition tag_create :: "unicode \<Rightarrow> uuid \<Rightarrow> text \<Rightarrow> nat \<Rightarrow> dash_tag dbtxn" where
  "tag_create uc dashboard label slot =
     bindT (queryT (\<lambda>s. normalize_dashboard_tag uc label)) (\<lambda>n.
     let t = \<lparr>tg_id = 0, tg_dashboard = dashboard, tg_label = tag_display n,
              tg_key = tag_key n, tg_slot = slot, tg_created_at = 0\<rparr>
     in bindT (full_clean (tag_fields t) (\<lambda>s. tag_clean uc t)
          (\<lambda>s. \<forall>x \<in> set (dash_tags s). \<not> tag_conflict x t) (tag_checks t)) (\<lambda>_.
        bindT timezone_now (\<lambda>now.
        bindT next_serial (\<lambda>i. tag_insert (t\<lparr>tg_id := i, tg_created_at := now\<rparr>)))))"

definition delete_tags :: "uuid \<Rightarrow> unit dbtxn" where
  "delete_tags dashboard =
     writeT (dash_tags_update (filter (\<lambda>t. tg_dashboard t \<noteq> dashboard)))"

section \<open>DashboardFavorite\<close>

definition favorite_conflict :: "favorite \<Rightarrow> favorite \<Rightarrow> bool" where
  "favorite_conflict x y \<longleftrightarrow> fv_user x = fv_user y \<and> fv_dashboard x = fv_dashboard y"

definition favorite_insert :: "favorite \<Rightarrow> favorite dbtxn" where
  "favorite_insert f =
     table_insert favorites favorites_update fv_id (\<lambda>_. True) favorite_conflict f"

definition delete_favorites :: "uuid \<Rightarrow> uuid \<Rightarrow> unit dbtxn" where
  "delete_favorites user dashboard =
     writeT (favorites_update (filter (\<lambda>f. \<not> (fv_user f = user \<and> fv_dashboard f = dashboard))))"

section \<open>DashboardViewerState\<close>

definition viewer_state_conflict :: "viewer_state \<Rightarrow> viewer_state \<Rightarrow> bool" where
  "viewer_state_conflict x y \<longleftrightarrow> vs_user x = vs_user y \<and> vs_dashboard x = vs_dashboard y"

definition viewer_state_fields :: "viewer_state \<Rightarrow> db \<Rightarrow> bool" where
  "viewer_state_fields v s \<longleftrightarrow> fk (user_of s) (vs_user v) \<and> fk (dashboard_of s) (vs_dashboard v)"

definition viewer_state_clean :: "viewer_state \<Rightarrow> db \<Rightarrow> exn + unit" where
  "viewer_state_clean v s =
     (case dashboard_of s (vs_dashboard v) of
        None \<Rightarrow> Inl DoesNotExist
      | Some d \<Rightarrow> ensureE (vs_seen_version v \<le> d_publication_version d)
          (ValidationError ''seen version cannot exceed dashboard version''))"

definition viewer_state_insert :: "viewer_state \<Rightarrow> viewer_state dbtxn" where
  "viewer_state_insert v =
     table_insert viewer_states viewer_states_update vs_id (\<lambda>_. True) viewer_state_conflict v"

definition viewer_state_update :: "viewer_state \<Rightarrow> viewer_state dbtxn" where
  "viewer_state_update v =
     table_update viewer_states viewer_states_update vs_id (\<lambda>_. True) viewer_state_conflict v"

definition viewer_state_columns :: "string list option \<Rightarrow> viewer_state \<Rightarrow> viewer_state \<Rightarrow> viewer_state" where
  "viewer_state_columns fs old new = old\<lparr>
     vs_last_viewed_at := column ''last_viewed_at'' fs (vs_last_viewed_at old) (vs_last_viewed_at new),
     vs_seen_version := column ''seen_publication_version'' fs (vs_seen_version old) (vs_seen_version new)\<rparr>"

definition viewer_state_full_clean :: "bool \<Rightarrow> viewer_state \<Rightarrow> unit dbtxn" where
  "viewer_state_full_clean adding v =
     full_clean (viewer_state_fields v) (viewer_state_clean v)
       (\<lambda>s. \<forall>x \<in> set (viewer_states s). (adding \<or> vs_id x \<noteq> vs_id v) \<longrightarrow> \<not> viewer_state_conflict x v)
       True"

definition viewer_state_save :: "bool \<Rightarrow> string list option \<Rightarrow> viewer_state \<Rightarrow> viewer_state dbtxn" where
  "viewer_state_save adding fs v =
     (if adding then
        bindT (viewer_state_full_clean True v) (\<lambda>_.
        bindT next_serial (\<lambda>i. viewer_state_insert (v\<lparr>vs_id := i\<rparr>)))
      else
        bindT (stored viewer_states vs_id (vs_id v)) (\<lambda>original.
        if vs_user original \<noteq> vs_user v \<or> vs_dashboard original \<noteq> vs_dashboard v
        then raiseT (ImmutableRecordError ''viewer-state scope is immutable'')
        else if vs_last_viewed_at v < vs_last_viewed_at original
        then raiseT (ImmutableRecordError ''last-viewed time cannot move backward'')
        else if vs_seen_version v < vs_seen_version original
        then raiseT (ImmutableRecordError ''seen publication version cannot decrease'')
        else
        bindT (viewer_state_full_clean False v) (\<lambda>_.
        viewer_state_update (viewer_state_columns fs original v))))"

section \<open>AccessRequest\<close>

definition request_checks :: "access_request \<Rightarrow> bool" where
  "request_checks r \<longleftrightarrow>
     (ar_status r = PENDING \<and> ar_resolved_at r = None \<and> ar_resolved_by r = None)
     \<or> (ar_status r \<noteq> PENDING \<and> ar_resolved_at r \<noteq> None \<and> ar_resolved_by r \<noteq> None)"

definition request_conflict :: "access_request \<Rightarrow> access_request \<Rightarrow> bool" where
  "request_conflict x y \<longleftrightarrow> ar_dashboard x = ar_dashboard y \<and> ar_requester x = ar_requester y"

definition request_fields :: "access_request \<Rightarrow> db \<Rightarrow> bool" where
  "request_fields r s \<longleftrightarrow>
     length (ar_message r) \<le> 500 \<and> fk (dashboard_of s) (ar_dashboard r) \<and>
     fk (user_of s) (ar_requester r) \<and> fk_opt (user_of s) (ar_resolved_by r)"

definition request_clean :: "access_request \<Rightarrow> exn + unit" where
  "request_clean r =
     ensureE ((ar_status r = PENDING) = (ar_resolved_at r = None \<and> ar_resolved_by r = None))
       (ValidationError ''pending and resolution fields do not match'')"

text \<open>The requirements on the dashboard, its owner and the requester that are checked in order.\<close>

definition owner_active :: "db \<Rightarrow> dashboard \<Rightarrow> bool" where
  "owner_active s d = (case user_of s (d_owner d) of None \<Rightarrow> False | Some u \<Rightarrow> u_is_active u)"

definition user_active :: "db \<Rightarrow> uuid \<Rightarrow> bool" where
  "user_active s i = (case user_of s i of None \<Rightarrow> False | Some u \<Rightarrow> u_is_active u)"

definition request_adding :: "access_request \<Rightarrow> db \<Rightarrow> exn + unit" where
  "request_adding r s =
     (if ar_status r \<noteq> PENDING then Inl (ValidationError ''new access requests must begin pending'')
      else case dashboard_of s (ar_dashboard r) of
        None \<Rightarrow> Inl DoesNotExist
      | Some d \<Rightarrow>
          if ar_requester r = d_owner d
          then Inl (ValidationError ''dashboard owner already has access'')
          else if d_state d \<noteq> PUBLISHED \<or> \<not> owner_active s d
          then Inl (ValidationError ''dashboard is not accepting access requests'')
          else ensureE (user_active s (ar_requester r)) (ValidationError ''requester must be active''))"

definition request_transition :: "access_request \<Rightarrow> access_request \<Rightarrow> db \<Rightarrow> exn + unit" where
  "request_transition original r s =
     (if ar_dashboard original \<noteq> ar_dashboard r \<or> ar_requester original \<noteq> ar_requester r
      then Inl (ImmutableRecordError ''access-request scope is immutable'')
      else case dashboard_of s (ar_dashboard r) of
        None \<Rightarrow> Inl DoesNotExist
      | Some d \<Rightarrow>
      if ar_status original = PENDING then
        (if ar_status r = PENDING then
           ensureE (ar_requested_at r = ar_requested_at original)
             (ImmutableRecordError ''pending request time is immutable'')
         else
         let expected = (if ar_status r = CANCELLED then ar_requester r else d_owner d) in
         if ar_resolved_by r \<noteq> Some expected \<or> ar_resolved_at r = None
         then Inl (ValidationError ''access-request resolver is not authorized'')
         else if ar_status r = APPROVED
                 \<and> (d_state d \<notin> {PUBLISHED, UNPUBLISHED} \<or> \<not> owner_active s d
                     \<or> \<not> user_active s (ar_requester r))
         then Inl (ValidationError ''dashboard access cannot be approved in the current state'')
         else ensureE (ar_requested_at r = ar_requested_at original \<and> ar_message r = ar_message original)
                (ImmutableRecordError ''resolution cannot rewrite request history''))
      else if ar_status r = PENDING then
        (if ar_requested_at r \<le> ar_requested_at original
         then Inl (ValidationError ''a reopened request must have a later request time'')
         else if ar_resolved_at r \<noteq> None \<or> ar_resolved_by r \<noteq> None
         then Inl (ValidationError ''a reopened request must clear its prior resolution'')
         else if \<not> user_active s (ar_requester r)
         then Inl (ValidationError ''requester must be active'')
         else if ar_requester r = d_owner d
         then Inl (ValidationError ''dashboard owner already has access'')
         else ensureE (d_state d = PUBLISHED \<and> owner_active s d)
                (ValidationError ''dashboard is not accepting access requests''))
      else ensureE (ar_status r = ar_status original \<and> ar_message r = ar_message original
               \<and> ar_requested_at r = ar_requested_at original
               \<and> ar_resolved_at r = ar_resolved_at original
               \<and> ar_resolved_by r = ar_resolved_by original)
             (ImmutableRecordError ''resolved access request is immutable until reopened''))"

definition request_columns :: "string list option \<Rightarrow> time \<Rightarrow> access_request \<Rightarrow> access_request \<Rightarrow> access_request" where
  "request_columns fs now old new = old\<lparr>
     ar_status := column ''status'' fs (ar_status old) (ar_status new),
     ar_message := column ''message'' fs (ar_message old) (ar_message new),
     ar_requested_at := column ''requested_at'' fs (ar_requested_at old) (ar_requested_at new),
     ar_resolved_at := column ''resolved_at'' fs (ar_resolved_at old) (ar_resolved_at new),
     ar_resolved_by := column ''resolved_by'' fs (ar_resolved_by old) (ar_resolved_by new),
     ar_updated_at := column ''updated_at'' fs (ar_updated_at old) now\<rparr>"

definition request_full_clean :: "bool \<Rightarrow> access_request \<Rightarrow> unit dbtxn" where
  "request_full_clean adding r =
     full_clean (request_fields r) (\<lambda>s. request_clean r)
       (\<lambda>s. \<forall>x \<in> set (access_requests s). (adding \<or> ar_id x \<noteq> ar_id r) \<longrightarrow> \<not> request_conflict x r)
       (request_checks r)"

definition request_insert :: "access_request \<Rightarrow> access_request dbtxn" where
  "request_insert r =
     table_insert access_requests access_requests_update ar_id request_checks request_conflict r"

definition request_update :: "access_request \<Rightarrow> access_request dbtxn" where
  "request_update r =
     table_update access_requests access_requests_update ar_id request_checks request_conflict r"

definition request_save :: "bool \<Rightarrow> string list option \<Rightarrow> access_request \<Rightarrow> access_request dbtxn" where
  "request_save adding fs r =
     (if adding then
        bindT (queryT (request_adding r)) (\<lambda>_.
        bindT (request_full_clean True r) (\<lambda>_.
        bindT timezone_now (\<lambda>now.
        bindT next_serial (\<lambda>i. request_insert (r\<lparr>ar_id := i, ar_updated_at := now\<rparr>)))))
      else
        bindT (stored access_requests ar_id (ar_id r)) (\<lambda>original.
        bindT (queryT (request_transition original r)) (\<lambda>_.
        bindT (request_full_clean False r) (\<lambda>_.
        bindT timezone_now (\<lambda>now.
        request_update (request_columns fs now original r))))))"

end
