(* ===== verification/Models_Content.thy ===== *)
theory Models_Content
  imports Models_Core
begin

text \<open>
  The rules of the revision, artifact, viewer-grant, render-authorization, analytics, audit and
  storage-reservation models (\<open>core/models.py\<close>), in the form of \<open>Models_Core\<close>: checks,
  conflicts, field validation, \<open>clean\<close> and \<open>save\<close>; and the interpretation of
  \<open>constrained_table\<close> on every table, by which a write the database accepts keeps the table well
  formed.
\<close>

section \<open>Revision\<close>

definition revision_checks :: "revision \<Rightarrow> bool" where
  "revision_checks r \<longleftrightarrow> r_number r > 0"

definition revision_conflict :: "revision \<Rightarrow> revision \<Rightarrow> bool" where
  "revision_conflict x y \<longleftrightarrow> r_dashboard x = r_dashboard y \<and> r_number x = r_number y"

definition revision_fields :: "revision \<Rightarrow> db \<Rightarrow> bool" where
  "revision_fields r s \<longleftrightarrow> fk (dashboard_of s) (r_dashboard r) \<and> fk (user_of s) (r_created_by r)"

definition accepting_states :: "dash_state list" where
  "accepting_states = [DRAFT, PUBLISHED, UNPUBLISHED]"

definition revision_clean :: "revision \<Rightarrow> db \<Rightarrow> exn + unit" where
  "revision_clean r s =
     (case dashboard_of s (r_dashboard r) of
        None \<Rightarrow> Inl DoesNotExist
      | Some d \<Rightarrow>
          if r_created_by r \<noteq> d_owner d
          then Inl (ValidationError ''revision creator must own the dashboard'')
          else if d_state d \<notin> set accepting_states
          then Inl (ValidationError ''dashboard state does not accept revisions'')
          else ensureE (user_active s (r_created_by r))
                 (ValidationError ''revision creator must be active''))"

definition revision_insert :: "revision \<Rightarrow> revision dbtxn" where
  "revision_insert r =
     table_insert revisions revisions_update r_id revision_checks revision_conflict r"

definition revision_save :: "bool \<Rightarrow> revision \<Rightarrow> revision dbtxn" where
  "revision_save adding r =
     (if \<not> adding then raiseT (ImmutableRecordError ''complete revisions are immutable'')
      else
      bindT (full_clean (revision_fields r) (revision_clean r)
        (\<lambda>s. unique_row r_id revision_conflict True r (revisions s)) (revision_checks r)) (\<lambda>_.
      bindT timezone_now (\<lambda>now. revision_insert (r\<lparr>r_created_at := now\<rparr>))))"

text \<open>
  \<open>Revision.objects.filter(id=..., artifacts_locked=False).update(artifacts_locked=True)\<close>: the
  number of rows updated. A queryset update runs neither \<open>save\<close> nor \<open>clean\<close>.
\<close>

definition lock_artifacts :: "uuid \<Rightarrow> nat dbtxn" where
  "lock_artifacts i =
     bindT (readT (\<lambda>s. length (filter (\<lambda>r. r_id r = i \<and> \<not> r_artifacts_locked r) (revisions s)))) (\<lambda>n.
     bindT (writeT (revisions_update (map (\<lambda>r. if r_id r = i \<and> \<not> r_artifacts_locked r
                                              then r\<lparr>r_artifacts_locked := True\<rparr> else r)))) (\<lambda>_.
     returnT n))"

section \<open>Artifact\<close>

definition artifact_media_types :: "artifact_kind \<Rightarrow> string list" where
  "artifact_media_types k = (case k of
      HTML \<Rightarrow> [''text/html'']
    | CSV \<Rightarrow> [''text/csv'']
    | CSS \<Rightarrow> [''text/css'']
    | IMAGE \<Rightarrow> [''image/png'', ''image/jpeg'', ''image/gif'', ''image/webp'']
    | FONT \<Rightarrow> [''font/woff'', ''font/woff2''])"

text \<open>\<open>^v1/[0-9a-f]{2}/[0-9a-f]{2}/[0-9a-f]{64}$\<close>\<close>

definition storage_key_pattern :: "text \<Rightarrow> bool" where
  "storage_key_pattern k \<longleftrightarrow>
     length k = 73 \<and> take 3 k = cps ''v1/'' \<and> hex_text 2 (take 2 (drop 3 k)) \<and>
     take 1 (drop 5 k) = cps ''/'' \<and> hex_text 2 (take 2 (drop 6 k)) \<and>
     take 1 (drop 8 k) = cps ''/'' \<and> hex_text 64 (drop 9 k)"

text \<open>
  Migration \<open>0004\<close> adds a check to both tables with a storage key that no model declares: the two
  shard directories are the first four digits of the token. \<open>full_clean\<close> does not know it, so a key that
  only violates this check is refused by the database.
\<close>

definition storage_shards :: "text \<Rightarrow> bool" where
  "storage_shards k \<longleftrightarrow> take 2 (drop 3 k) = take 2 (drop 9 k) \<and> take 2 (drop 6 k) = take 2 (drop 11 k)"

definition artifact_meta_checks :: "artifact \<Rightarrow> bool" where
  "artifact_meta_checks a \<longleftrightarrow>
     a_media_type a \<in> set (artifact_media_types (a_kind a)) \<and> hex_text 64 (a_sha256 a) \<and>
     storage_key_pattern (a_storage_key a) \<and> a_logical_name a \<noteq> [] \<and> a_name_key a \<noteq> []"

definition artifact_checks :: "artifact \<Rightarrow> bool" where
  "artifact_checks a \<longleftrightarrow> artifact_meta_checks a \<and> storage_shards (a_storage_key a)"

text \<open>
  Beside the unique name and storage key, the function-based index of migration \<open>0002\<close> admits
  one HTML artifact per revision.
\<close>

definition artifact_unique :: "artifact \<Rightarrow> artifact \<Rightarrow> bool" where
  "artifact_unique x y \<longleftrightarrow>
     a_storage_key x = a_storage_key y
     \<or> (a_revision x = a_revision y \<and> a_name_key x = a_name_key y)"

definition artifact_conflict :: "artifact \<Rightarrow> artifact \<Rightarrow> bool" where
  "artifact_conflict x y \<longleftrightarrow>
     artifact_unique x y
     \<or> (a_revision x = a_revision y \<and> a_kind x = HTML \<and> a_kind y = HTML)"

definition artifact_fields :: "artifact \<Rightarrow> db \<Rightarrow> bool" where
  "artifact_fields a s \<longleftrightarrow>
     fk (revision_of s) (a_revision a) \<and>
     a_logical_name a \<noteq> [] \<and> length (a_logical_name a) \<le> 255 \<and>
     a_name_key a \<noteq> [] \<and> length (a_name_key a) \<le> 1024 \<and>
     a_storage_key a \<noteq> [] \<and> length (a_storage_key a) \<le> 76 \<and>
     a_media_type a \<noteq> [] \<and> length (a_media_type a) \<le> 32 \<and>
     a_sha256 a \<noteq> [] \<and> length (a_sha256 a) \<le> 64"

definition artifact_clean :: "unicode \<Rightarrow> artifact \<Rightarrow> db \<Rightarrow> exn + unit" where
  "artifact_clean uc a s =
     (case normalize_logical_name uc (a_logical_name a) of
        Inl (InvalidLogicalName m) \<Rightarrow> Inl (ValidationError m)
      | Inl e \<Rightarrow> Inl e
      | Inr n \<Rightarrow>
          if a_logical_name a \<noteq> display n \<or> a_name_key a \<noteq> comparison_key n
          then Inl (ValidationError ''logical name and comparison key must be canonical'')
          else if a_media_type a \<notin> set (artifact_media_types (a_kind a))
          then Inl (ValidationError ''media type is not allowed for this artifact kind'')
          else (case revision_of s (a_revision a) of
              None \<Rightarrow> Inl DoesNotExist
            | Some r \<Rightarrow> ensureE (\<not> r_artifacts_locked r)
                (ValidationError ''artifacts cannot be added to a complete revision'')))"

definition artifact_insert :: "artifact \<Rightarrow> artifact dbtxn" where
  "artifact_insert a =
     table_insert artifacts artifacts_update a_id artifact_checks artifact_conflict a"

definition artifact_save :: "unicode \<Rightarrow> bool \<Rightarrow> artifact \<Rightarrow> artifact dbtxn" where
  "artifact_save uc adding a0 =
     (if \<not> adding then raiseT (ImmutableRecordError ''artifact metadata is immutable'')
      else
      bindT (queryT (\<lambda>s. normalize_logical_name uc (a_logical_name a0))) (\<lambda>n.
      let a = a0\<lparr>a_logical_name := display n, a_name_key := comparison_key n\<rparr> in
      bindT (full_clean (artifact_fields a) (artifact_clean uc a)
        (\<lambda>s. unique_row a_id artifact_unique True a (artifacts s)) (artifact_meta_checks a)) (\<lambda>_.
      artifact_insert a)))"

section \<open>ViewerGrant\<close>

definition grant_checks :: "grant \<Rightarrow> bool" where
  "grant_checks g \<longleftrightarrow>
     ((g_revoked_at g = None \<and> g_revoked_by g = None)
       \<or> (g_revoked_at g \<noteq> None \<and> g_revoked_by g \<noteq> None)) \<and>
     g_viewer g \<noteq> g_created_by g"

text \<open>The function-based unique index of migration \<open>0011\<close>: one active epoch per scope.\<close>

definition grant_conflict :: "grant \<Rightarrow> grant \<Rightarrow> bool" where
  "grant_conflict x y \<longleftrightarrow>
     g_dashboard x = g_dashboard y \<and> g_viewer x = g_viewer y
     \<and> g_revoked_at x = None \<and> g_revoked_at y = None"

definition grant_fields :: "grant \<Rightarrow> db \<Rightarrow> bool" where
  "grant_fields g s \<longleftrightarrow>
     fk (dashboard_of s) (g_dashboard g) \<and> fk (user_of s) (g_viewer g) \<and>
     fk (user_of s) (g_created_by g) \<and> fk_opt (user_of s) (g_revoked_by g)"

definition grant_clean :: "bool \<Rightarrow> grant \<Rightarrow> db \<Rightarrow> exn + unit" where
  "grant_clean adding g s =
     (case dashboard_of s (g_dashboard g) of
        None \<Rightarrow> Inl DoesNotExist
      | Some d \<Rightarrow>
          if adding \<and> g_viewer g = d_owner d
          then Inl (ValidationError ''dashboard owners cannot grant themselves access'')
          else if adding \<and> g_created_by g \<noteq> d_owner d
          then Inl (ValidationError ''only the dashboard owner can create a grant'')
          else if (g_revoked_at g = None) \<noteq> (g_revoked_by g = None)
          then Inl (ValidationError ''revoked_at and revoked_by must either both be set or both be empty'')
          else (case g_revoked_by g of
              None \<Rightarrow> Inr ()
            | Some by \<Rightarrow>
                bindE (if adding then Inr True
                       else (case exactly_one (filter (\<lambda>x. g_id x = g_id g) (grants s)) of
                           Inl e \<Rightarrow> Inl e
                         | Inr original \<Rightarrow> Inr (g_revoked_at original = None)))
                (\<lambda>is_new. ensureE (\<not> (is_new \<and> by \<noteq> d_owner d))
                   (ValidationError ''only the dashboard owner can revoke a grant''))))"

definition grant_columns :: "string list option \<Rightarrow> grant \<Rightarrow> grant \<Rightarrow> grant" where
  "grant_columns fs old new = old\<lparr>
     g_revoked_at := column ''revoked_at'' fs (g_revoked_at old) (g_revoked_at new),
     g_revoked_by := column ''revoked_by'' fs (g_revoked_by old) (g_revoked_by new)\<rparr>"

definition grant_insert :: "grant \<Rightarrow> grant dbtxn" where
  "grant_insert g = table_insert grants grants_update g_id grant_checks grant_conflict g"

definition grant_update :: "grant \<Rightarrow> grant dbtxn" where
  "grant_update g = table_update grants grants_update g_id grant_checks grant_conflict g"

definition grant_full_clean :: "bool \<Rightarrow> grant \<Rightarrow> unit dbtxn" where
  "grant_full_clean adding g =
     full_clean (grant_fields g) (grant_clean adding g)
       (\<lambda>s. unique_row g_id (\<lambda>_ _. False) adding g (grants s)) (grant_checks g)"

definition grant_save :: "bool \<Rightarrow> string list option \<Rightarrow> grant \<Rightarrow> grant dbtxn" where
  "grant_save adding fs g =
     (if adding then
        bindT (grant_full_clean True g) (\<lambda>_.
        bindT timezone_now (\<lambda>now. grant_insert (g\<lparr>g_created_at := now\<rparr>)))
      else
        bindT (stored grants g_id (g_id g)) (\<lambda>original.
        if g_dashboard original \<noteq> g_dashboard g \<or> g_viewer original \<noteq> g_viewer g
           \<or> g_created_by original \<noteq> g_created_by g \<or> g_created_at original \<noteq> g_created_at g
        then raiseT (ImmutableRecordError ''grant relationship fields are immutable'')
        else if g_revoked_at original \<noteq> None
                \<and> (g_revoked_at original \<noteq> g_revoked_at g \<or> g_revoked_by original \<noteq> g_revoked_by g)
        then raiseT (ImmutableRecordError ''a recorded grant revocation is immutable'')
        else
        bindT (grant_full_clean False g) (\<lambda>_. grant_update (grant_columns fs original g))))"

section \<open>RenderAuthorization\<close>

definition render_auth_checks :: "render_auth \<Rightarrow> bool" where
  "render_auth_checks a \<longleftrightarrow>
     hex_text 64 (ra_token_digest a) \<and> ra_viewer_auth_version a > 0 \<and>
     ((ra_audience a = PREVIEW \<and> ra_publication_version a = None)
       \<or> (ra_audience a = VIEWER
           \<and> (case ra_publication_version a of None \<Rightarrow> False | Some v \<Rightarrow> v > 0))) \<and>
     (ra_owner_epoch a = None \<or> ra_viewer_grant a = None)"

definition render_auth_conflict :: "render_auth \<Rightarrow> render_auth \<Rightarrow> bool" where
  "render_auth_conflict x y \<longleftrightarrow> ra_token_digest x = ra_token_digest y"

definition render_auth_fields :: "render_auth \<Rightarrow> db \<Rightarrow> bool" where
  "render_auth_fields a s \<longleftrightarrow>
     ra_token_digest a \<noteq> [] \<and> length (ra_token_digest a) \<le> 64 \<and>
     fk (user_of s) (ra_viewer a) \<and> fk (dashboard_of s) (ra_dashboard a) \<and>
     fk (revision_of s) (ra_revision a) \<and> fk_opt (grant_of s) (ra_viewer_grant a) \<and>
     fk_opt (transfer_of s) (ra_owner_epoch a)"

text \<open>The scope checks of \<open>RenderAuthorization.clean\<close>, one per block of the method.\<close>

definition clean_marker :: "bool \<Rightarrow> render_auth \<Rightarrow> exn + unit" where
  "clean_marker adding a =
     (if ra_captured_at a \<noteq> None
         \<and> (ra_audience a \<noteq> VIEWER \<or> adding \<or> ra_captured_at a \<noteq> Some (ra_created_at a))
      then Inl (ValidationError ''capture marker must match a viewer issue'')
      else if ra_audience a = PREVIEW \<and> ra_publication_version a \<noteq> None
      then Inl (ValidationError ''preview has no publication version'')
      else ensureE (\<not> (ra_audience a = VIEWER
                        \<and> (case ra_publication_version a of None \<Rightarrow> True | Some v \<Rightarrow> v \<le> 0)))
             (ValidationError ''viewer issue must snapshot its version''))"

definition clean_owner_epoch :: "render_auth \<Rightarrow> db \<Rightarrow> exn + unit" where
  "clean_owner_epoch a s = (case ra_owner_epoch a of
      None \<Rightarrow> Inr ()
    | Some e \<Rightarrow>
        (case transfer_of s e of
           None \<Rightarrow> Inl (ValidationError ''owner epoch must belong to the dashboard'')
         | Some t \<Rightarrow>
             if ot_dashboard t \<noteq> ra_dashboard a
             then Inl (ValidationError ''owner epoch must belong to the dashboard'')
             else ensureE (ra_viewer_grant a = None)
                    (ValidationError ''owner and grant epochs are mutually exclusive'')))"

definition clean_viewer_grant :: "bool \<Rightarrow> render_auth \<Rightarrow> dashboard \<Rightarrow> db \<Rightarrow> exn + unit" where
  "clean_viewer_grant adding a d s = (case ra_viewer_grant a of
      Some i \<Rightarrow>
        if ra_audience a \<noteq> VIEWER
        then Inl (ValidationError ''grant-bound authorizations must target viewers'')
        else (case grant_of s i of
            None \<Rightarrow> Inl (ValidationError ''authorization grant does not exist'')
          | Some g \<Rightarrow>
              if g_dashboard g \<noteq> ra_dashboard a
              then Inl (ValidationError ''grant must belong to the authorization dashboard'')
              else if g_viewer g \<noteq> ra_viewer a
              then Inl (ValidationError ''grant must belong to the authorization viewer'')
              else ensureE (\<not> (adding \<and> g_revoked_at g \<noteq> None))
                     (ValidationError ''authorization grant must be active''))
    | None \<Rightarrow>
        ensureE (\<not> (adding \<and> ra_audience a = VIEWER \<and> ra_viewer a \<noteq> d_owner d))
          (ValidationError ''non-owner viewer authorizations must bind a grant epoch''))"

definition render_auth_clean :: "bool \<Rightarrow> render_auth \<Rightarrow> db \<Rightarrow> exn + unit" where
  "render_auth_clean adding a s =
     bindE (clean_marker adding a) (\<lambda>_.
     case (revision_of s (ra_revision a), dashboard_of s (ra_dashboard a), user_of s (ra_viewer a)) of
       (Some r, Some d, Some u) \<Rightarrow>
         bindE (ensureE (r_dashboard r = ra_dashboard a)
           (ValidationError ''revision must belong to the dashboard'')) (\<lambda>_.
         bindE (clean_owner_epoch a s) (\<lambda>_.
         bindE (clean_viewer_grant adding a d s) (\<lambda>_.
         if adding \<and> ra_viewer a = d_owner d \<and> ra_owner_epoch a \<noteq> d_last_transfer d
         then Inl (ValidationError ''owner authorization must bind the current epoch'')
         else ensureE (\<not> (adding \<and> ra_viewer_auth_version a \<noteq> u_auth_version u))
                (ValidationError ''authorization must bind the current user version''))))
     | _ \<Rightarrow> Inl DoesNotExist)"

definition render_auth_columns :: "string list option \<Rightarrow> render_auth \<Rightarrow> render_auth \<Rightarrow> render_auth" where
  "render_auth_columns fs old new = old\<lparr>
     ra_revoked_at := column ''revoked_at'' fs (ra_revoked_at old) (ra_revoked_at new),
     ra_captured_at := column ''authorized_open_captured_at'' fs (ra_captured_at old) (ra_captured_at new)\<rparr>"

definition render_auth_insert :: "render_auth \<Rightarrow> render_auth dbtxn" where
  "render_auth_insert a =
     table_insert render_auths render_auths_update ra_id render_auth_checks render_auth_conflict a"

definition render_auth_update :: "render_auth \<Rightarrow> render_auth dbtxn" where
  "render_auth_update a =
     table_update render_auths render_auths_update ra_id render_auth_checks render_auth_conflict a"

definition same_scope :: "render_auth \<Rightarrow> render_auth \<Rightarrow> bool" where
  "same_scope o' a \<longleftrightarrow>
     ra_id o' = ra_id a \<and> ra_token_digest o' = ra_token_digest a \<and>
     ra_audience o' = ra_audience a \<and> ra_viewer o' = ra_viewer a \<and>
     ra_viewer_auth_version o' = ra_viewer_auth_version a \<and>
     ra_dashboard o' = ra_dashboard a \<and> ra_revision o' = ra_revision a \<and>
     ra_viewer_grant o' = ra_viewer_grant a \<and> ra_owner_epoch o' = ra_owner_epoch a \<and>
     ra_publication_version o' = ra_publication_version a \<and>
     ra_created_at o' = ra_created_at a \<and> ra_expires_at o' = ra_expires_at a"

definition render_auth_save :: "bool \<Rightarrow> string list option \<Rightarrow> render_auth \<Rightarrow> render_auth dbtxn" where
  "render_auth_save adding fs a =
     (if adding then
        bindT (full_clean (render_auth_fields a) (render_auth_clean True a) (\<lambda>s. True)
          (render_auth_checks a)) (\<lambda>_.
        bindT timezone_now (\<lambda>now. render_auth_insert (a\<lparr>ra_created_at := now\<rparr>)))
      else
        bindT (stored render_auths ra_id (ra_id a)) (\<lambda>original.
        if \<not> same_scope original a
        then raiseT (ImmutableRecordError ''render authorization scope is immutable'')
        else if ra_revoked_at original \<noteq> None \<and> ra_revoked_at a \<noteq> ra_revoked_at original
        then raiseT (ImmutableRecordError ''render authorization revocation is immutable'')
        else if ra_captured_at original \<noteq> None \<and> ra_captured_at a \<noteq> ra_captured_at original
        then raiseT (ImmutableRecordError ''authorized-open capture marker is immutable'')
        else
        bindT (full_clean (render_auth_fields a) (render_auth_clean False a) (\<lambda>s. True)
          (render_auth_checks a)) (\<lambda>_.
        render_auth_update (render_auth_columns fs original a))))"

section \<open>AuthorizedOpen\<close>

definition open_checks :: "authorized_open \<Rightarrow> bool" where
  "open_checks e \<longleftrightarrow> ao_publication_version e > 0"

definition open_conflict :: "authorized_open \<Rightarrow> authorized_open \<Rightarrow> bool" where
  "open_conflict x y \<longleftrightarrow> ao_source x = ao_source y"

definition open_fields :: "authorized_open \<Rightarrow> db \<Rightarrow> bool" where
  "open_fields e s \<longleftrightarrow>
     fk (render_auth_of s) (ao_source e) \<and> fk (dashboard_of s) (ao_dashboard e) \<and>
     fk (user_of s) (ao_viewer e) \<and> fk (revision_of s) (ao_revision e)"

definition open_clean :: "authorized_open \<Rightarrow> db \<Rightarrow> exn + unit" where
  "open_clean e s =
     (case render_auth_of s (ao_source e) of
        None \<Rightarrow> Inl DoesNotExist
      | Some a \<Rightarrow>
          if ra_audience a \<noteq> VIEWER
          then Inl (ValidationError ''only published viewer issues count'')
          else ensureE ((ao_dashboard e, ao_viewer e, ao_revision e,
                          Some (ao_publication_version e), ao_opened_at e)
                        = (ra_dashboard a, ra_viewer a, ra_revision a,
                           ra_publication_version a, ra_created_at a))
                 (ValidationError ''authorized-open snapshot must match its source authorization''))"

definition open_insert :: "authorized_open \<Rightarrow> authorized_open dbtxn" where
  "open_insert e = table_insert opens opens_update ao_id open_checks open_conflict e"

definition open_update :: "authorized_open \<Rightarrow> authorized_open dbtxn" where
  "open_update e = table_update opens opens_update ao_id open_checks open_conflict e"

definition open_save :: "bool \<Rightarrow> string list option \<Rightarrow> authorized_open \<Rightarrow> authorized_open dbtxn" where
  "open_save adding fs e =
     (if adding then
        bindT (full_clean (open_fields e) (open_clean e) (\<lambda>s. True) (open_checks e)) (\<lambda>_.
        bindT next_serial (\<lambda>i. open_insert (e\<lparr>ao_id := i\<rparr>)))
      else
        bindT (stored opens ao_id (ao_id e)) (\<lambda>original.
        if e\<lparr>ao_aggregated_at := ao_aggregated_at original\<rparr> \<noteq> original
        then raiseT (ImmutableRecordError ''authorized-open source fields are immutable'')
        else if ao_aggregated_at original \<noteq> None \<and> ao_aggregated_at e \<noteq> ao_aggregated_at original
        then raiseT (ImmutableRecordError ''authorized-open aggregation is one-way'')
        else
        bindT (full_clean (open_fields e) (open_clean e) (\<lambda>s. True) (open_checks e)) (\<lambda>_.
        open_update (original\<lparr>ao_aggregated_at :=
          column ''aggregated_at'' fs (ao_aggregated_at original) (ao_aggregated_at e)\<rparr>))))"

section \<open>Analytics rollups\<close>

text \<open>These models declare no \<open>save\<close>: only the database rejects a row.\<close>

definition daily_conflict :: "open_daily \<Rightarrow> open_daily \<Rightarrow> bool" where
  "daily_conflict x y \<longleftrightarrow> od_dashboard x = od_dashboard y \<and> od_day x = od_day y"

definition daily_insert :: "open_daily \<Rightarrow> open_daily dbtxn" where
  "daily_insert r = table_insert open_dailies open_dailies_update od_id (\<lambda>_. True) daily_conflict r"

definition daily_update :: "open_daily \<Rightarrow> open_daily dbtxn" where
  "daily_update r = table_update open_dailies open_dailies_update od_id (\<lambda>_. True) daily_conflict r"

definition summary_checks :: "viewer_summary \<Rightarrow> bool" where
  "summary_checks r \<longleftrightarrow> vo_last_opened_at r \<ge> vo_first_opened_at r"

definition summary_conflict :: "viewer_summary \<Rightarrow> viewer_summary \<Rightarrow> bool" where
  "summary_conflict x y \<longleftrightarrow> vo_dashboard x = vo_dashboard y \<and> vo_viewer x = vo_viewer y"

definition summary_insert :: "viewer_summary \<Rightarrow> viewer_summary dbtxn" where
  "summary_insert r =
     table_insert viewer_summaries viewer_summaries_update vo_id summary_checks summary_conflict r"

definition summary_update :: "viewer_summary \<Rightarrow> viewer_summary dbtxn" where
  "summary_update r =
     table_update viewer_summaries viewer_summaries_update vo_id summary_checks summary_conflict r"

definition snapshot_conflict :: "open_snapshot \<Rightarrow> open_snapshot \<Rightarrow> bool" where
  "snapshot_conflict x y \<longleftrightarrow> sn_dashboard x = sn_dashboard y"

definition snapshot_insert :: "open_snapshot \<Rightarrow> open_snapshot dbtxn" where
  "snapshot_insert r =
     table_insert open_snapshots open_snapshots_update sn_id (\<lambda>_. True) snapshot_conflict r"

definition snapshot_update :: "open_snapshot \<Rightarrow> open_snapshot dbtxn" where
  "snapshot_update r =
     table_update open_snapshots open_snapshots_update sn_id (\<lambda>_. True) snapshot_conflict r"

section \<open>AnalyticsPipelineCheckpoint\<close>

definition checkpoint_checks :: "checkpoint \<Rightarrow> bool" where
  "checkpoint_checks c \<longleftrightarrow> ck_pipeline_key c = ''authorized_opens_v1''"

definition checkpoint_insert :: "checkpoint \<Rightarrow> checkpoint dbtxn" where
  "checkpoint_insert c =
     table_insert checkpoints checkpoints_update ck_pipeline_key checkpoint_checks (\<lambda>_ _. False) c"

definition checkpoint_update :: "checkpoint \<Rightarrow> checkpoint dbtxn" where
  "checkpoint_update c =
     table_update checkpoints checkpoints_update ck_pipeline_key checkpoint_checks (\<lambda>_ _. False) c"

definition checkpoint_fields :: "checkpoint \<Rightarrow> bool" where
  "checkpoint_fields c \<longleftrightarrow> ck_pipeline_key c \<noteq> [] \<and> length (ck_pipeline_key c) \<le> 32"

definition checkpoint_full_clean :: "bool \<Rightarrow> checkpoint \<Rightarrow> unit dbtxn" where
  "checkpoint_full_clean adding c =
     full_clean (\<lambda>s. checkpoint_fields c) (\<lambda>s. Inr ())
       (\<lambda>s. unique_row ck_pipeline_key (\<lambda>_ _. False) adding c (checkpoints s)) (checkpoint_checks c)"

definition checkpoint_save :: "bool \<Rightarrow> string list option \<Rightarrow> checkpoint \<Rightarrow> checkpoint dbtxn" where
  "checkpoint_save adding fs c =
     (if adding then
        bindT (checkpoint_full_clean True c) (\<lambda>_.
        bindT timezone_now (\<lambda>now. checkpoint_insert (c\<lparr>ck_updated_at := now\<rparr>)))
      else
        bindT (stored checkpoints ck_pipeline_key (ck_pipeline_key c)) (\<lambda>original.
        if ck_last_open_id c < ck_last_open_id original
        then raiseT (ImmutableRecordError ''analytics checkpoint cannot move backward'')
        else
        bindT (checkpoint_full_clean False c) (\<lambda>_.
        bindT timezone_now (\<lambda>now.
        checkpoint_update (original\<lparr>
          ck_last_open_id := column ''last_completed_open_id'' fs (ck_last_open_id original) (ck_last_open_id c),
          ck_updated_at := column ''updated_at'' fs (ck_updated_at original) now\<rparr>)))))"

section \<open>AuditEvent\<close>

text \<open>\<open>^[a-z][a-z0-9_.-]{2,63}$\<close>\<close>

definition event_first :: "char \<Rightarrow> bool" where
  "event_first c \<longleftrightarrow> of_char c \<in> {97..122::nat}"

definition event_rest :: "char \<Rightarrow> bool" where
  "event_rest c \<longleftrightarrow> event_first c \<or> of_char c \<in> {48..57::nat} \<or> c \<in> set ''_.-''"

definition event_type_pattern :: "string \<Rightarrow> bool" where
  "event_type_pattern e = (case e of
      [] \<Rightarrow> False
    | c # cs \<Rightarrow> event_first c \<and> 2 \<le> length cs \<and> length cs \<le> 63 \<and> list_all event_rest cs)"

definition audit_checks :: "audit_event \<Rightarrow> bool" where
  "audit_checks e \<longleftrightarrow> event_type_pattern (ae_event_type e)"

definition audit_fields :: "audit_event \<Rightarrow> db \<Rightarrow> bool" where
  "audit_fields e s \<longleftrightarrow>
     ae_event_type e \<noteq> [] \<and> length (ae_event_type e) \<le> 64 \<and>
     fk_opt (user_of s) (ae_actor e) \<and> fk_opt (dashboard_of s) (ae_dashboard e) \<and>
     fk_opt (revision_of s) (ae_revision e) \<and> fk_opt (user_of s) (ae_target_user e)"

definition audit_insert :: "audit_event \<Rightarrow> audit_event dbtxn" where
  "audit_insert e = table_insert audit_events audit_events_update ae_id audit_checks (\<lambda>_ _. False) e"

text \<open>
  \<open>AuditEvent.objects.create\<close>. The metadata is a JSON object by its type, so \<open>clean\<close> accepts it.
\<close>

definition audit_save :: "bool \<Rightarrow> audit_event \<Rightarrow> audit_event dbtxn" where
  "audit_save adding e =
     (if \<not> adding then raiseT (ImmutableRecordError ''audit events are append-only'')
      else
      bindT (full_clean (audit_fields e) (\<lambda>s. Inr ()) (\<lambda>s. True) (audit_checks e)) (\<lambda>_.
      bindT timezone_now (\<lambda>now.
      bindT next_serial (\<lambda>i. audit_insert (e\<lparr>ae_id := i, ae_occurred_at := now\<rparr>)))))"

definition audit_create ::
  "string \<Rightarrow> uuid option \<Rightarrow> uuid option \<Rightarrow> uuid option \<Rightarrow> uuid option
    \<Rightarrow> (string \<times> meta_value) list \<Rightarrow> audit_event dbtxn" where
  "audit_create event_type actor dashboard revision target metadata =
     audit_save True
       \<lparr>ae_id = 0, ae_event_type = event_type, ae_occurred_at = 0, ae_actor = actor,
        ae_dashboard = dashboard, ae_revision = revision, ae_target_user = target,
        ae_metadata = metadata\<rparr>"

section \<open>StorageReservation\<close>

definition reservation_meta_checks :: "reservation \<Rightarrow> bool" where
  "reservation_meta_checks r \<longleftrightarrow>
     storage_key_pattern (sr_storage_key r) \<and>
     ((sr_verified_size r = None \<and> sr_verified_sha256 r = [])
       \<or> (sr_verified_size r \<noteq> None \<and> sr_verified_sha256 r \<noteq> [])) \<and>
     (sr_verified_sha256 r = [] \<or> hex_text 64 (sr_verified_sha256 r)) \<and>
     ((sr_state r \<in> {RESERVED, COLLISION} \<and> sr_verified_size r = None \<and> sr_verified_sha256 r = [])
       \<or> (sr_state r = OWNED \<and> sr_verified_size r \<noteq> None \<and> sr_verified_sha256 r \<noteq> []))"

definition reservation_checks :: "reservation \<Rightarrow> bool" where
  "reservation_checks r \<longleftrightarrow> reservation_meta_checks r \<and> storage_shards (sr_storage_key r)"

definition reservation_conflict :: "reservation \<Rightarrow> reservation \<Rightarrow> bool" where
  "reservation_conflict x y \<longleftrightarrow> sr_storage_key x = sr_storage_key y"

definition reservation_fields :: "reservation \<Rightarrow> bool" where
  "reservation_fields r \<longleftrightarrow>
     sr_storage_key r \<noteq> [] \<and> length (sr_storage_key r) \<le> 76 \<and> length (sr_verified_sha256 r) \<le> 64"

definition reservation_insert :: "reservation \<Rightarrow> reservation dbtxn" where
  "reservation_insert r =
     table_insert reservations reservations_update sr_id reservation_checks reservation_conflict r"

definition reservation_update :: "reservation \<Rightarrow> reservation dbtxn" where
  "reservation_update r =
     table_update reservations reservations_update sr_id reservation_checks reservation_conflict r"

definition reservation_columns :: "string list option \<Rightarrow> reservation \<Rightarrow> reservation \<Rightarrow> reservation" where
  "reservation_columns fs old new = old\<lparr>
     sr_state := column ''storage_state'' fs (sr_state old) (sr_state new),
     sr_verified_size := column ''verified_size'' fs (sr_verified_size old) (sr_verified_size new),
     sr_verified_sha256 := column ''verified_sha256'' fs (sr_verified_sha256 old) (sr_verified_sha256 new),
     sr_cleanup_required := column ''cleanup_required'' fs (sr_cleanup_required old) (sr_cleanup_required new)\<rparr>"

definition reservation_full_clean :: "reservation \<Rightarrow> unit dbtxn" where
  "reservation_full_clean r =
     full_clean (\<lambda>s. reservation_fields r) (\<lambda>s. Inr ()) (\<lambda>s. True) (reservation_meta_checks r)"

definition reservation_save :: "bool \<Rightarrow> string list option \<Rightarrow> reservation \<Rightarrow> reservation dbtxn" where
  "reservation_save adding fs r =
     (if adding then
        bindT (reservation_full_clean r) (\<lambda>_.
        bindT timezone_now (\<lambda>now. reservation_insert (r\<lparr>sr_created_at := now\<rparr>)))
      else
        bindT (stored reservations sr_id (sr_id r)) (\<lambda>original.
        if sr_storage_key original \<noteq> sr_storage_key r \<or> sr_created_at original \<noteq> sr_created_at r
           \<or> sr_expires_at original \<noteq> sr_expires_at r
        then raiseT (ImmutableRecordError ''storage reservation identity is immutable'')
        else if sr_verified_size original \<noteq> None
                \<and> (sr_verified_size r \<noteq> sr_verified_size original
                     \<or> sr_verified_sha256 r \<noteq> sr_verified_sha256 original)
        then raiseT (ImmutableRecordError ''storage verification receipt is immutable'')
        else if sr_state r \<noteq> sr_state original
                \<and> \<not> (sr_state original = RESERVED \<and> sr_state r \<in> {OWNED, COLLISION})
        then raiseT (ImmutableRecordError ''storage reservation state transition is not allowed'')
        else if sr_cleanup_required original \<and> \<not> sr_cleanup_required r
        then raiseT (ImmutableRecordError ''storage cleanup requirement cannot be cleared'')
        else
        bindT (reservation_full_clean r) (\<lambda>_.
        reservation_update (reservation_columns fs original r))))"

section \<open>The tables are constrained tables\<close>

interpretation user_table: constrained_table u_id user_checks user_conflict
  by unfold_locales (simp add: user_conflict_def)

interpretation throttle_table: constrained_table lt_id throttle_checks throttle_conflict
  by unfold_locales (simp add: throttle_conflict_def)

interpretation dashboard_table: constrained_table d_id dashboard_checks dashboard_conflict
  by unfold_locales (metis dashboard_conflict_def)

interpretation transfer_table: constrained_table ot_id transfer_checks transfer_conflict
  by unfold_locales (simp add: transfer_conflict_def)

interpretation tag_table: constrained_table tg_id tag_checks tag_conflict
  by unfold_locales (auto simp: tag_conflict_def)

interpretation favorite_table: constrained_table fv_id "\<lambda>_. True" favorite_conflict
  by unfold_locales (simp add: favorite_conflict_def)

interpretation viewer_state_table: constrained_table vs_id "\<lambda>_. True" viewer_state_conflict
  by unfold_locales (simp add: viewer_state_conflict_def)

interpretation request_table: constrained_table ar_id request_checks request_conflict
  by unfold_locales (simp add: request_conflict_def)

interpretation revision_table: constrained_table r_id revision_checks revision_conflict
  by unfold_locales (simp add: revision_conflict_def)

interpretation artifact_table: constrained_table a_id artifact_checks artifact_conflict
  by unfold_locales (auto simp: artifact_conflict_def artifact_unique_def)

interpretation grant_table: constrained_table g_id grant_checks grant_conflict
  by unfold_locales (simp add: grant_conflict_def)

interpretation render_auth_table: constrained_table ra_id render_auth_checks render_auth_conflict
  by unfold_locales (simp add: render_auth_conflict_def)

interpretation open_table: constrained_table ao_id open_checks open_conflict
  by unfold_locales (simp add: open_conflict_def)

interpretation daily_table: constrained_table od_id "\<lambda>_. True" daily_conflict
  by unfold_locales (simp add: daily_conflict_def)

interpretation summary_table: constrained_table vo_id summary_checks summary_conflict
  by unfold_locales (simp add: summary_conflict_def)

interpretation snapshot_table: constrained_table sn_id "\<lambda>_. True" snapshot_conflict
  by unfold_locales (simp add: snapshot_conflict_def)

interpretation checkpoint_table: constrained_table ck_pipeline_key checkpoint_checks "\<lambda>_ _. False"
  by unfold_locales simp

interpretation audit_table: constrained_table ae_id audit_checks "\<lambda>_ _. False"
  by unfold_locales simp

interpretation reservation_table: constrained_table sr_id reservation_checks reservation_conflict
  by unfold_locales (simp add: reservation_conflict_def)

section \<open>Well-formed databases\<close>

text \<open>Every table satisfies the constraints declared for it.\<close>

definition db_wf :: "db \<Rightarrow> bool" where
  "db_wf s \<longleftrightarrow>
     wf_table u_id user_checks user_conflict (users s) \<and>
     wf_table lt_id throttle_checks throttle_conflict (throttles s) \<and>
     wf_table d_id dashboard_checks dashboard_conflict (dashboards s) \<and>
     wf_table ot_id transfer_checks transfer_conflict (transfers s) \<and>
     wf_table tg_id tag_checks tag_conflict (dash_tags s) \<and>
     wf_table fv_id (\<lambda>_. True) favorite_conflict (favorites s) \<and>
     wf_table vs_id (\<lambda>_. True) viewer_state_conflict (viewer_states s) \<and>
     wf_table ar_id request_checks request_conflict (access_requests s) \<and>
     wf_table r_id revision_checks revision_conflict (revisions s) \<and>
     wf_table a_id artifact_checks artifact_conflict (artifacts s) \<and>
     wf_table g_id grant_checks grant_conflict (grants s) \<and>
     wf_table ra_id render_auth_checks render_auth_conflict (render_auths s) \<and>
     wf_table ao_id open_checks open_conflict (opens s) \<and>
     wf_table od_id (\<lambda>_. True) daily_conflict (open_dailies s) \<and>
     wf_table vo_id summary_checks summary_conflict (viewer_summaries s) \<and>
     wf_table sn_id (\<lambda>_. True) snapshot_conflict (open_snapshots s) \<and>
     wf_table ck_pipeline_key checkpoint_checks (\<lambda>_ _. False) (checkpoints s) \<and>
     wf_table ae_id audit_checks (\<lambda>_ _. False) (audit_events s) \<and>
     wf_table sr_id reservation_checks reservation_conflict (reservations s)"

lemma db_wf_empty: "db_wf (empty_db now ids sec)"
  by (simp add: db_wf_def empty_db_def wf_table_def)

text \<open>In a well-formed database a key identifies its row, for every way the code looks it up.\<close>

lemma wf_tableD:
  "wf_table key checks conflict rs \<Longrightarrow> distinct (map key rs)"
  "wf_table key checks conflict rs \<Longrightarrow> r \<in> set rs \<Longrightarrow> checks r"
  "wf_table key checks conflict rs \<Longrightarrow> x \<in> set rs \<Longrightarrow> y \<in> set rs \<Longrightarrow> conflict x y \<Longrightarrow> key x = key y"
  by (auto simp: wf_table_def)

lemma wf_table_key:
  "wf_table key checks conflict rs \<Longrightarrow> x \<in> set rs \<Longrightarrow> y \<in> set rs \<Longrightarrow> key x = key y \<Longrightarrow> x = y"
  unfolding wf_table_def by (auto dest: inj_onD simp: distinct_map)

lemma wf_filter_key:
  assumes "wf_table key checks conflict rs" "r \<in> set rs" "P r" "\<And>x. P x \<Longrightarrow> key x = key r"
  shows "filter P rs = [r]"
  by (rule exactly_one_key [where key = key and P = P, OF wf_tableD(1) [OF assms(1)] assms(2-4)])

lemma db_wf_lookup:
  assumes "db_wf s"
  shows "u \<in> set (users s) \<Longrightarrow> user_of s (u_id u) = Some u"
    and "d \<in> set (dashboards s) \<Longrightarrow> dashboard_of s (d_id d) = Some d"
    and "r \<in> set (revisions s) \<Longrightarrow> revision_of s (r_id r) = Some r"
    and "g \<in> set (grants s) \<Longrightarrow> grant_of s (g_id g) = Some g"
    and "x \<in> set (transfers s) \<Longrightarrow> transfer_of s (ot_id x) = Some x"
    and "a \<in> set (render_auths s) \<Longrightarrow> render_auth_of s (ra_id a) = Some a"
  using assms unfolding db_wf_def user_of_def dashboard_of_def revision_of_def grant_of_def
    transfer_of_def render_auth_of_def
  by (auto intro!: find_key_distinct dest: wf_tableD(1))

text \<open>The next values of the environment are unused keys.\<close>

definition fresh_uuid :: "db \<Rightarrow> bool" where
  "fresh_uuid s \<longleftrightarrow> (let i = uuids s (uuid_draws s) in
     i \<notin> u_id ` set (users s) \<and> i \<notin> d_id ` set (dashboards s) \<and> i \<notin> ot_id ` set (transfers s) \<and>
     i \<notin> r_id ` set (revisions s) \<and> i \<notin> a_id ` set (artifacts s) \<and> i \<notin> g_id ` set (grants s) \<and>
     i \<notin> ra_id ` set (render_auths s) \<and> i \<notin> sr_id ` set (reservations s))"

definition fresh_serial :: "db \<Rightarrow> bool" where
  "fresh_serial s \<longleftrightarrow>
     (\<forall>e \<in> set (audit_events s). ae_id e < serial s) \<and>
     (\<forall>e \<in> set (opens s). ao_id e < serial s) \<and>
     (\<forall>e \<in> set (access_requests s). ar_id e < serial s) \<and>
     (\<forall>e \<in> set (viewer_states s). vs_id e < serial s) \<and>
     (\<forall>e \<in> set (favorites s). fv_id e < serial s) \<and>
     (\<forall>e \<in> set (dash_tags s). tg_id e < serial s) \<and>
     (\<forall>e \<in> set (throttles s). lt_id e < serial s) \<and>
     (\<forall>e \<in> set (open_dailies s). od_id e < serial s) \<and>
     (\<forall>e \<in> set (viewer_summaries s). vo_id e < serial s) \<and>
     (\<forall>e \<in> set (open_snapshots s). sn_id e < serial s)"

end
