(* ===== verification/Frames.thy ===== *)
theory Frames
  imports Models_Content
begin

text \<open>
  What a successful \<open>save\<close> of each model changes: one lemma per model, giving the new state and
  the guards that held. The services' proofs use these facts instead of the definitions of the
  saves.
\<close>

lemma audit_create_Inr:
  "audit_create et a d r u md s = Inr (e, t) \<Longrightarrow>
     t = s\<lparr>audit_events := audit_events s @ [e], ticks := Suc (ticks s), serial := Suc (serial s)\<rparr> \<and>
     ae_event_type e = et \<and> ae_actor e = a \<and> ae_dashboard e = d \<and> ae_revision e = r \<and>
     ae_target_user e = u \<and> ae_metadata e = md"
  by (auto simp: audit_create_def audit_save_def audit_insert_def txn_run full_clean_def bindE_def
      ensureE_def split: sum.splits if_splits)

lemma user_save_add_Inr:
  "user_save True fs u s = Inr (v, t) \<Longrightarrow>
     (\<exists>now. v = u\<lparr>u_created_at := now, u_updated_at := now\<rparr>) \<and>
     t = s\<lparr>users := users s @ [v], ticks := Suc (ticks s)\<rparr> \<and>
     (\<forall>x \<in> set (users s). u_id x \<noteq> u_id u \<and> u_soeid x \<noteq> u_soeid u) \<and>
     u_auth_version u > 0 \<and> insertable u_id user_checks user_conflict v (users s)"
  by (auto simp: user_save_def user_insert_def user_full_clean_def txn_run full_clean_def bindE_def
      ensureE_def insertable_def user_conflict_def user_checks_def split: sum.splits if_splits)

text \<open>The flags of a row written by \<open>user_save\<close>: a changed \<open>is_active\<close> advances the version.\<close>

definition flipped_user :: "user \<Rightarrow> user \<Rightarrow> user" where
  "flipped_user original u =
     (if u_is_active u \<noteq> u_is_active original
      then u\<lparr>u_auth_version := u_auth_version original + 1\<rparr> else u)"

lemma user_save_change_Inr:
  assumes "user_save False fs u s = Inr (v, t)"
  shows "\<exists>original now. filter (\<lambda>x. u_id x = u_id u) (users s) = [original] \<and>
       u_soeid u = u_soeid original \<and>
       v = user_columns
             (if u_is_active u \<noteq> u_is_active original then add_fields [''auth_version''] fs else fs)
             now original (flipped_user original u) \<and>
       t = s\<lparr>users := put_row u_id v (users s), ticks := Suc (ticks s)\<rparr> \<and>
       updatable u_id user_checks user_conflict v (users s)"
proof -
  obtain original where o: "filter (\<lambda>x. u_id x = u_id u) (users s) = [original]"
    and same: "u_soeid original = u_soeid u"
    using assms unfolding user_save_def by (simp add: bindT_eq_Inr stored_Inr split: if_splits)
  have run: "bindT (user_full_clean False (flipped_user original u)) (\<lambda>_.
           bindT timezone_now (\<lambda>now.
           user_update (user_columns
             (if u_is_active u \<noteq> u_is_active original then add_fields [''auth_version''] fs else fs)
             now original (flipped_user original u)))) s = Inr (v, t)"
    using assms o same
    by (simp add: user_save_def txn_run(5) stored_def exactly_one_def queryT_def flipped_user_def
        Let_def bindT_def)
  have "u_id (flipped_user original u) = u_id u" by (simp add: flipped_user_def)
  moreover have "u_id original = u_id u" using o by (auto simp: filter_eq_Cons_iff)
  moreover define w where "w = user_columns
      (if u_is_active u \<noteq> u_is_active original then add_fields [''auth_version''] fs else fs)
      (clock s (ticks s)) original (flipped_user original u)"
  ultimately have "v = w \<and> t = s\<lparr>users := put_row u_id w (users s), ticks := Suc (ticks s)\<rparr>
      \<and> updatable u_id user_checks user_conflict w (users s)"
    using run
    unfolding bindT_eq_Inr user_full_clean_def full_clean_Inr user_update_def table_update_run
      environment_run
    by (auto simp flip: w_def split: if_splits)
  then show ?thesis using o same unfolding w_def by metis
qed

lemma throttle_save_Inr:
  "throttle_save fs b s = Inr (c, t) \<Longrightarrow>
     \<exists>original now. filter (\<lambda>x. lt_id x = lt_id b) (throttles s) = [original] \<and>
       c = throttle_columns fs now original b \<and>
       t = s\<lparr>throttles := put_row lt_id c (throttles s), ticks := Suc (ticks s)\<rparr> \<and>
       updatable lt_id throttle_checks throttle_conflict c (throttles s)"
  by (auto simp: throttle_save_def throttle_update_def txn_run stored_def exactly_one_Inr
      split: sum.splits if_splits)

lemma throttle_insert_Inr:
  "throttle_insert b s = Inr (c, t) \<Longrightarrow> c = b \<and> t = s\<lparr>throttles := throttles s @ [b]\<rparr>
     \<and> insertable lt_id throttle_checks throttle_conflict b (throttles s)"
  by (auto simp: throttle_insert_def txn_run split: if_splits)

lemma dashboard_save_add_Inr:
  "dashboard_save True fs d s = Inr (v, t) \<Longrightarrow>
     (\<exists>now. v = d\<lparr>d_created_at := now, d_updated_at := now\<rparr>) \<and>
     t = s\<lparr>dashboards := dashboards s @ [v], ticks := Suc (ticks s)\<rparr> \<and>
     d_state d = DRAFT \<and> d_latest_revision d = None \<and> d_published_revision d = None \<and>
     d_first_published_at d = None \<and> d_publication_version d = 0 \<and>
     d_last_published_at d = None \<and> d_last_transfer d = None \<and>
     dashboard_fields d s \<and> dashboard_checks d \<and>
     (\<forall>x \<in> set (dashboards s). d_id x \<noteq> d_id d) \<and>
     insertable d_id dashboard_checks dashboard_conflict v (dashboards s)"
  by (auto simp: dashboard_save_def dashboard_insert_def dashboard_full_clean_def txn_run
      full_clean_def bindE_def ensureE_def insertable_def split: sum.splits if_splits)

text \<open>The instance \<open>Dashboard.save\<close> validates: with the version advanced where the caller left it.\<close>

definition advanced_dashboard :: "dashboard \<Rightarrow> time \<Rightarrow> dashboard \<Rightarrow> dashboard" where
  "advanced_dashboard original now d =
     (if advances_publication original d
      then d\<lparr>d_publication_version := d_publication_version original + 1,
             d_last_published_at := Some now\<rparr> else d)"

lemma dashboard_save_change_Inr:
  assumes "dashboard_save False fs d s = Inr (v, t)"
  shows "\<exists>original now1 now2 d' fs' k. filter (\<lambda>x. d_id x = d_id d) (dashboards s) = [original] \<and>
       d_owner d = d_owner original \<and> d_last_transfer d = d_last_transfer original \<and>
       d' = advanced_dashboard original now1 d \<and>
       fs' = (if advances_publication original d
              then add_fields [''publication_version'', ''last_published_at''] fs else fs) \<and>
       lifecycle_transition original d' = Inr () \<and>
       dashboard_fields d' s \<and> dashboard_clean d' s = Inr () \<and> dashboard_checks d' \<and>
       v = dashboard_columns fs' now2 original d' \<and>
       t = s\<lparr>dashboards := put_row d_id v (dashboards s), ticks := k\<rparr> \<and>
       updatable d_id dashboard_checks dashboard_conflict v (dashboards s)"
proof -
  let ?fs = "\<lambda>original. if advances_publication original d
              then add_fields [''publication_version'', ''last_published_at''] fs else fs"
  obtain original now1 k where o: "filter (\<lambda>x. d_id x = d_id d) (dashboards s) = [original]"
    and same: "d_owner original = d_owner d" "d_last_transfer original = d_last_transfer d"
    and run: "bindT (queryT (\<lambda>s. lifecycle_transition original (advanced_dashboard original now1 d))) (\<lambda>_.
        bindT (dashboard_full_clean False (advanced_dashboard original now1 d)) (\<lambda>_.
        bindT timezone_now (\<lambda>now. dashboard_update
          (dashboard_columns (?fs original) now original (advanced_dashboard original now1 d)))))
        (s\<lparr>ticks := k\<rparr>) = Inr (v, t)"
  proof -
    obtain original where o: "filter (\<lambda>x. d_id x = d_id d) (dashboards s) = [original]"
      and same: "d_owner original = d_owner d" "d_last_transfer original = d_last_transfer d"
      using assms unfolding dashboard_save_def by (simp add: bindT_eq_Inr stored_Inr split: if_splits)
    show ?thesis
    proof (cases "advances_publication original d")
      case True
      show ?thesis
        by (rule that [OF o same, of "clock s (ticks s)" "Suc (ticks s)"])
          (use assms o same True in \<open>simp add: dashboard_save_def txn_run(5) stored_def exactly_one_def
            queryT_def environment_run returnT_def advanced_dashboard_def bindT_def\<close>)
    next
      case False
      show ?thesis
        by (rule that [OF o same, of 0 "ticks s"])
          (use assms o same False in \<open>simp add: dashboard_save_def txn_run(5) stored_def exactly_one_def
            queryT_def environment_run returnT_def advanced_dashboard_def bindT_def\<close>)
    qed
  qed
  define d' where "d' = advanced_dashboard original now1 d"
  define w where "w = dashboard_columns (?fs original) (clock s k) original d'"
  have env: "dashboard_fields d' (s\<lparr>ticks := k\<rparr>) = dashboard_fields d' s"
    "dashboard_clean d' (s\<lparr>ticks := k\<rparr>) = dashboard_clean d' s"
    unfolding dashboard_fields_def dashboard_clean_def lookup_env by (rule refl)+
  have id: "d_id w = d_id d"
    using o by (auto simp: w_def dashboard_columns_def filter_eq_Cons_iff)
  have *: "bindT (queryT (\<lambda>s. lifecycle_transition original d')) (\<lambda>_.
        bindT (dashboard_full_clean False d') (\<lambda>_.
        bindT timezone_now (\<lambda>now. dashboard_update (dashboard_columns (?fs original) now original d'))))
        (s\<lparr>ticks := k\<rparr>) = Inr (v, t)"
    using run unfolding d'_def .
  have upd: "lifecycle_transition original d' = Inr ()" "dashboard_fields d' s"
    "dashboard_clean d' s = Inr ()" "dashboard_checks d'" "v = w"
    "t = s\<lparr>dashboards := put_row d_id w (dashboards s), ticks := Suc k\<rparr>"
    "updatable d_id dashboard_checks dashboard_conflict w (dashboards s)"
    using *
    unfolding bindT_eq_Inr queryT_eq_Inr dashboard_full_clean_def full_clean_Inr dashboard_update_def
      table_update_run environment_run
    by (auto simp: w_def env split: if_splits)
  show ?thesis
    by (intro exI conjI; (rule o | rule same [symmetric] | rule refl
          | rule upd [unfolded d'_def] | rule upd [unfolded w_def d'_def] | simp only: upd))
qed

lemma transfer_save_Inr:
  "transfer_save True x s = Inr (v, t) \<Longrightarrow>
     (\<exists>now. v = x\<lparr>ot_transferred_at := now\<rparr>) \<and>
     t = s\<lparr>transfers := transfers s @ [v], ticks := Suc (ticks s)\<rparr> \<and>
     transfer_clean x s = Inr () \<and> transfer_fields x s \<and>
     insertable ot_id transfer_checks transfer_conflict v (transfers s)"
  by (auto simp: transfer_save_def transfer_insert_def txn_InrD full_clean_Inr environment_run
      table_insert_run split: if_split_asm)

lemma tag_create_Inr:
  "tag_create uc d label slot s = Inr (v, t) \<Longrightarrow>
     t = s\<lparr>dash_tags := dash_tags s @ [v], ticks := Suc (ticks s), serial := Suc (serial s)\<rparr> \<and>
     tg_dashboard v = d \<and> tg_slot v = slot \<and>
     (\<exists>n. normalize_dashboard_tag uc label = Inr n \<and> tg_label v = tag_display n \<and> tg_key v = tag_key n) \<and>
     insertable tg_id tag_checks tag_conflict v (dash_tags s)"
  by (auto simp: tag_create_def tag_insert_def txn_run full_clean_def bindE_def ensureE_def Let_def
      split: sum.splits if_splits)

lemma favorite_insert_Inr:
  "favorite_insert f s = Inr (v, t) \<Longrightarrow> v = f \<and> t = s\<lparr>favorites := favorites s @ [f]\<rparr>
     \<and> insertable fv_id (\<lambda>_. True) favorite_conflict f (favorites s)"
  by (auto simp: favorite_insert_def txn_run split: if_splits)

lemma viewer_state_save_add_Inr:
  "viewer_state_save True fs v s = Inr (w, t) \<Longrightarrow>
     w = v\<lparr>vs_id := serial s\<rparr> \<and>
     t = s\<lparr>viewer_states := viewer_states s @ [w], serial := Suc (serial s)\<rparr> \<and>
     insertable vs_id (\<lambda>_. True) viewer_state_conflict w (viewer_states s) \<and>
     viewer_state_clean v s = Inr ()"
  by (auto simp: viewer_state_save_def viewer_state_full_clean_def viewer_state_insert_def txn_InrD
      full_clean_Inr environment_run table_insert_run split: if_splits)

lemma viewer_state_save_change_Inr:
  "viewer_state_save False fs v s = Inr (w, t) \<Longrightarrow>
     \<exists>original. filter (\<lambda>x. vs_id x = vs_id v) (viewer_states s) = [original] \<and>
       vs_user original = vs_user v \<and> vs_dashboard original = vs_dashboard v \<and>
       vs_last_viewed_at original \<le> vs_last_viewed_at v \<and>
       vs_seen_version original \<le> vs_seen_version v \<and>
       w = viewer_state_columns fs original v \<and>
       viewer_state_clean v s = Inr () \<and>
       updatable vs_id (\<lambda>_. True) viewer_state_conflict w (viewer_states s) \<and>
       t = s\<lparr>viewer_states := put_row vs_id w (viewer_states s)\<rparr>"
  by (auto simp: viewer_state_save_def viewer_state_full_clean_def viewer_state_update_def txn_InrD
      full_clean_Inr stored_Inr table_update_run split: if_splits)

lemma request_save_add_Inr:
  "request_save True fs r s = Inr (v, t) \<Longrightarrow>
     (\<exists>i now. v = r\<lparr>ar_id := i, ar_updated_at := now\<rparr>) \<and> request_adding r s = Inr () \<and> request_fields r s \<and>
     insertable ar_id request_checks request_conflict v (access_requests s) \<and>
     t = s\<lparr>access_requests := access_requests s @ [v], ticks := Suc (ticks s),
           serial := Suc (serial s)\<rparr>"
  by (auto simp: request_save_def request_full_clean_def request_insert_def txn_InrD
      full_clean_Inr environment_run table_insert_run split: if_splits)

lemma request_save_change_Inr:
  "request_save False fs r s = Inr (v, t) \<Longrightarrow>
     \<exists>original now. filter (\<lambda>x. ar_id x = ar_id r) (access_requests s) = [original] \<and>
       request_transition original r s = Inr () \<and> request_fields r s \<and> v = request_columns fs now original r \<and>
       updatable ar_id request_checks request_conflict v (access_requests s) \<and>
       t = s\<lparr>access_requests := put_row ar_id v (access_requests s), ticks := Suc (ticks s)\<rparr>"
  by (auto simp: request_save_def request_full_clean_def request_update_def txn_InrD
      full_clean_Inr stored_Inr environment_run table_update_run split: if_splits)

lemma revision_save_Inr:
  "revision_save True r s = Inr (v, t) \<Longrightarrow>
     (\<exists>now. v = r\<lparr>r_created_at := now\<rparr>) \<and> revision_clean r s = Inr () \<and> revision_fields r s \<and>
     insertable r_id revision_checks revision_conflict v (revisions s) \<and>
     t = s\<lparr>revisions := revisions s @ [v], ticks := Suc (ticks s)\<rparr>"
  by (auto simp: revision_save_def revision_insert_def txn_InrD full_clean_Inr environment_run
      table_insert_run split: if_splits)

lemma lock_artifacts_Inr:
  "lock_artifacts i s = Inr (n, t) \<Longrightarrow>
     n = length (filter (\<lambda>r. r_id r = i \<and> \<not> r_artifacts_locked r) (revisions s)) \<and>
     t = s\<lparr>revisions := map (\<lambda>r. if r_id r = i \<and> \<not> r_artifacts_locked r
                                then r\<lparr>r_artifacts_locked := True\<rparr> else r) (revisions s)\<rparr>"
  by (auto simp: lock_artifacts_def txn_InrD)

lemma artifact_save_Inr:
  "artifact_save uc True a s = Inr (v, t) \<Longrightarrow>
     (\<exists>n. normalize_logical_name uc (a_logical_name a) = Inr n \<and>
          v = a\<lparr>a_logical_name := display n, a_name_key := comparison_key n\<rparr>) \<and>
     artifact_clean uc v s = Inr () \<and> artifact_fields v s \<and>
     insertable a_id artifact_checks artifact_conflict v (artifacts s) \<and>
     t = s\<lparr>artifacts := artifacts s @ [v]\<rparr>"
  by (auto simp: artifact_save_def artifact_insert_def txn_InrD full_clean_Inr Let_def
      table_insert_run split: if_splits)

lemma grant_save_add_Inr:
  "grant_save True fs g s = Inr (v, t) \<Longrightarrow>
     (\<exists>now. v = g\<lparr>g_created_at := now\<rparr>) \<and> grant_clean True g s = Inr () \<and> grant_fields g s \<and>
     insertable g_id grant_checks grant_conflict v (grants s) \<and>
     t = s\<lparr>grants := grants s @ [v], ticks := Suc (ticks s)\<rparr>"
  by (auto simp: grant_save_def grant_full_clean_def grant_insert_def txn_InrD full_clean_Inr
      environment_run table_insert_run split: if_splits)

lemma grant_save_change_Inr:
  "grant_save False fs g s = Inr (v, t) \<Longrightarrow>
     \<exists>original. filter (\<lambda>x. g_id x = g_id g) (grants s) = [original] \<and>
       g_dashboard g = g_dashboard original \<and> g_viewer g = g_viewer original \<and>
       g_created_by g = g_created_by original \<and> g_created_at g = g_created_at original \<and>
       (g_revoked_at original \<noteq> None \<longrightarrow>
          g_revoked_at g = g_revoked_at original \<and> g_revoked_by g = g_revoked_by original) \<and>
       grant_clean False g s = Inr () \<and> grant_fields g s \<and> v = grant_columns fs original g \<and>
       updatable g_id grant_checks grant_conflict v (grants s) \<and>
       t = s\<lparr>grants := put_row g_id v (grants s)\<rparr>"
  by (auto simp: grant_save_def grant_full_clean_def grant_update_def txn_InrD full_clean_Inr
      stored_Inr table_update_run split: if_splits)

lemma render_auth_save_add_Inr:
  "render_auth_save True fs a s = Inr (v, t) \<Longrightarrow>
     (\<exists>now. v = a\<lparr>ra_created_at := now\<rparr>) \<and> render_auth_clean True a s = Inr () \<and>
     render_auth_fields a s \<and>
     insertable ra_id render_auth_checks render_auth_conflict v (render_auths s) \<and>
     t = s\<lparr>render_auths := render_auths s @ [v], ticks := Suc (ticks s)\<rparr>"
  by (auto simp: render_auth_save_def render_auth_insert_def txn_InrD full_clean_Inr
      environment_run table_insert_run split: if_splits)

lemma render_auth_save_change_Inr:
  "render_auth_save False fs a s = Inr (v, t) \<Longrightarrow>
     \<exists>original. filter (\<lambda>x. ra_id x = ra_id a) (render_auths s) = [original] \<and>
       same_scope original a \<and>
       (ra_revoked_at original \<noteq> None \<longrightarrow> ra_revoked_at a = ra_revoked_at original) \<and>
       (ra_captured_at original \<noteq> None \<longrightarrow> ra_captured_at a = ra_captured_at original) \<and>
       v = render_auth_columns fs original a \<and>
       updatable ra_id render_auth_checks render_auth_conflict v (render_auths s) \<and>
       t = s\<lparr>render_auths := put_row ra_id v (render_auths s)\<rparr>"
  by (auto simp: render_auth_save_def render_auth_update_def txn_InrD full_clean_Inr stored_Inr
      table_update_run split: if_splits)

lemma open_save_add_Inr:
  "open_save True fs e s = Inr (v, t) \<Longrightarrow>
     v = e\<lparr>ao_id := serial s\<rparr> \<and> open_clean e s = Inr () \<and>
     insertable ao_id open_checks open_conflict v (opens s) \<and>
     t = s\<lparr>opens := opens s @ [v], serial := Suc (serial s)\<rparr>"
  by (auto simp: open_save_def open_insert_def txn_InrD full_clean_Inr environment_run
      table_insert_run split: if_splits)

lemma checkpoint_save_add_Inr:
  "checkpoint_save True fs c s = Inr (v, t) \<Longrightarrow>
     (\<exists>now. v = c\<lparr>ck_updated_at := now\<rparr>) \<and>
     insertable ck_pipeline_key checkpoint_checks (\<lambda>_ _. False) v (checkpoints s) \<and>
     t = s\<lparr>checkpoints := checkpoints s @ [v], ticks := Suc (ticks s)\<rparr>"
  by (auto simp: checkpoint_save_def checkpoint_full_clean_def checkpoint_insert_def txn_InrD
      full_clean_Inr environment_run table_insert_run split: if_splits)

lemma checkpoint_save_change_Inr:
  "checkpoint_save False fs c s = Inr (v, t) \<Longrightarrow>
     \<exists>original now. filter (\<lambda>x. ck_pipeline_key x = ck_pipeline_key c) (checkpoints s) = [original] \<and>
       ck_last_open_id original \<le> ck_last_open_id c \<and>
       v = original\<lparr>
         ck_last_open_id := column ''last_completed_open_id'' fs (ck_last_open_id original) (ck_last_open_id c),
         ck_updated_at := column ''updated_at'' fs (ck_updated_at original) now\<rparr> \<and>
       t = s\<lparr>checkpoints := put_row ck_pipeline_key v (checkpoints s), ticks := Suc (ticks s)\<rparr> \<and>
       updatable ck_pipeline_key checkpoint_checks (\<lambda>_ _. False) v (checkpoints s)"
  by (auto simp: checkpoint_save_def checkpoint_full_clean_def checkpoint_update_def txn_InrD
      full_clean_Inr stored_Inr environment_run table_update_run split: if_splits)

lemma reservation_save_add_Inr:
  "reservation_save True fs r s = Inr (v, t) \<Longrightarrow>
     (\<exists>now. v = r\<lparr>sr_created_at := now\<rparr>) \<and>
     insertable sr_id reservation_checks reservation_conflict v (reservations s) \<and>
     t = s\<lparr>reservations := reservations s @ [v], ticks := Suc (ticks s)\<rparr>"
  by (auto simp: reservation_save_def reservation_full_clean_def reservation_insert_def txn_InrD
      full_clean_Inr environment_run table_insert_run split: if_splits)

lemma reservation_save_change_Inr:
  "reservation_save False fs r s = Inr (v, t) \<Longrightarrow>
     \<exists>original. filter (\<lambda>x. sr_id x = sr_id r) (reservations s) = [original] \<and>
       sr_storage_key original = sr_storage_key r \<and> sr_expires_at original = sr_expires_at r \<and>
       (sr_state r = sr_state original \<or>
          (sr_state original = RESERVED \<and> sr_state r \<in> {OWNED, COLLISION})) \<and>
       (sr_cleanup_required original \<longrightarrow> sr_cleanup_required r) \<and>
       v = reservation_columns fs original r \<and>
       updatable sr_id reservation_checks reservation_conflict v (reservations s) \<and>
       t = s\<lparr>reservations := put_row sr_id v (reservations s)\<rparr>"
  by (auto simp: reservation_save_def reservation_full_clean_def reservation_update_def txn_InrD
      full_clean_Inr stored_Inr table_update_run split: if_splits)

section \<open>When a save succeeds\<close>

text \<open>Every event type the services record has the required format.\<close>

lemma event_type_pattern_known [simp]:
  "event_type_pattern ''grant.created''" "event_type_pattern ''grant.revoked''"
  "event_type_pattern ''dashboard.created''" "event_type_pattern ''dashboard.renamed''"
  "event_type_pattern ''dashboard.tags_replaced''" "event_type_pattern ''access.requested''"
  "event_type_pattern ''access.resolved''" "event_type_pattern ''dashboard.ownership_transferred''"
  "event_type_pattern ''dashboard.published''" "event_type_pattern ''dashboard.unpublished''"
  "event_type_pattern ''dashboard.freshness_confirmed''" "event_type_pattern ''dashboard.preview_started''"
  "event_type_pattern ''auth.login.succeeded''" "event_type_pattern ''auth.bootstrap''"
  "event_type_pattern ''user.created''" "event_type_pattern ''user.disabled''"
  "event_type_pattern ''user.enabled''" "event_type_pattern ''user.password_reset''"
  "event_type_pattern ''auth.logout''" "event_type_pattern ''revision.created''"
  by (simp_all add: event_type_pattern_def event_first_def event_rest_def)

lemma audit_create_progress:
  assumes "event_type_pattern et" "fk_opt (user_of s) a" "fk_opt (dashboard_of s) d"
    "fk_opt (revision_of s) r" "fk_opt (user_of s) u" "\<forall>e \<in> set (audit_events s). ae_id e < serial s"
  shows "\<exists>e t. audit_create et a d r u md s = Inr (e, t)"
proof -
  have "et \<noteq> []" "length et \<le> 64"
    using assms(1) by (auto simp: event_type_pattern_def split: list.splits)
  with assms show ?thesis
    by (auto simp: audit_create_def audit_save_def audit_insert_def txn_run full_clean_def
        audit_checks_def audit_fields_def ensureE_def insertable_def)
qed

lemma grant_save_add_progress:
  assumes "grant_fields g s" "grant_clean True g s = Inr ()" "grant_checks g"
    "\<forall>x \<in> set (grants s). g_id x \<noteq> g_id g \<and> \<not> grant_conflict x g"
  shows "\<exists>v t. grant_save True fs g s = Inr (v, t)"
  using assms
  by (auto simp: grant_save_def grant_full_clean_def grant_insert_def txn_run full_clean_def
      unique_row_def ensureE_def insertable_def grant_conflict_def grant_checks_def)

section \<open>Which table a write touches\<close>

lemma throttle_insert_frame: "throttle_insert b s = Inr (a, t) \<Longrightarrow> \<exists>rows. t = s\<lparr>throttles := rows\<rparr>"
  by (auto dest!: throttle_insert_Inr)

lemma throttle_save_frame: "throttle_save fs b s = Inr (a, t) \<Longrightarrow> \<exists>k rows. t = s\<lparr>throttles := rows, ticks := k\<rparr>"
  by (auto dest!: throttle_save_Inr)

lemma tag_create_frame: "tag_create uc i l n' s = Inr (a, t) \<Longrightarrow> \<exists>n k rows. t = s\<lparr>dash_tags := rows, ticks := k, serial := n\<rparr>"
  by (auto dest!: tag_create_Inr)

lemma tag_delete_frame: "delete_tags i s = Inr (a, t) \<Longrightarrow> \<exists>rows. t = s\<lparr>dash_tags := rows\<rparr>"
  by (cases s) (auto simp: delete_tags_def writeT_eq_Inr)

lemma favorite_insert_frame: "favorite_insert f s = Inr (a, t) \<Longrightarrow> \<exists>rows. t = s\<lparr>favorites := rows\<rparr>"
  by (auto dest!: favorite_insert_Inr)

lemma favorite_delete_frame: "delete_favorites i j s = Inr (a, t) \<Longrightarrow> \<exists>rows. t = s\<lparr>favorites := rows\<rparr>"
  by (cases s) (auto simp: delete_favorites_def writeT_eq_Inr)

lemma viewer_state_frame:
  assumes "viewer_state_save adding fs v s = Inr (a, t)"
  shows "\<exists>n rows. t = s\<lparr>viewer_states := rows, serial := n\<rparr>"
proof (cases adding)
  case True
  then show ?thesis using assms by (auto dest!: viewer_state_save_add_Inr)
next
  case False
  then obtain rows where "t = s\<lparr>viewer_states := rows\<rparr>"
    using assms by (auto dest!: viewer_state_save_change_Inr)
  then have "t = s\<lparr>viewer_states := rows, serial := serial s\<rparr>" by simp
  then show ?thesis by blast
qed

lemma request_frame:
  assumes "request_save adding fs r s = Inr (a, t)"
  shows "\<exists>k n rows. t = s\<lparr>access_requests := rows, ticks := k, serial := n\<rparr>"
proof (cases adding)
  case True
  then show ?thesis using assms by (auto dest!: request_save_add_Inr)
next
  case False
  then obtain rows k where "t = s\<lparr>access_requests := rows, ticks := k\<rparr>"
    using assms by (auto dest!: request_save_change_Inr)
  then have "t = s\<lparr>access_requests := rows, ticks := k, serial := serial s\<rparr>" by simp
  then show ?thesis by blast
qed

lemma revision_frame:
  "revision_save adding r s = Inr (a, t) \<Longrightarrow> adding \<and> (\<exists>k rows. t = s\<lparr>revisions := rows, ticks := k\<rparr>)"
  using revision_save_Inr [of r s a t] by (cases adding) (auto simp: revision_save_def)

lemma lock_frame: "lock_artifacts i s = Inr (a, t) \<Longrightarrow> \<exists>rows. t = s\<lparr>revisions := rows\<rparr>"
  by (auto dest!: lock_artifacts_Inr)

lemma artifact_frame:
  "artifact_save uc adding x s = Inr (a, t) \<Longrightarrow> adding \<and> (\<exists>rows. t = s\<lparr>artifacts := rows\<rparr>)"
  using artifact_save_Inr [of uc x s a t] by (cases adding) (auto simp: artifact_save_def)

lemma grant_frame:
  assumes "grant_save adding fs g s = Inr (a, t)"
  shows "\<exists>k rows. t = s\<lparr>grants := rows, ticks := k\<rparr>"
proof (cases adding)
  case True
  then show ?thesis using assms by (auto dest!: grant_save_add_Inr)
next
  case False
  then obtain rows where "t = s\<lparr>grants := rows\<rparr>"
    using assms by (auto dest!: grant_save_change_Inr)
  then have "t = s\<lparr>grants := rows, ticks := ticks s\<rparr>" by simp
  then show ?thesis by blast
qed

lemma render_auth_frame:
  assumes "render_auth_save adding fs x s = Inr (a, t)"
  shows "\<exists>k rows. t = s\<lparr>render_auths := rows, ticks := k\<rparr>"
proof (cases adding)
  case True
  then show ?thesis using assms by (auto dest!: render_auth_save_add_Inr)
next
  case False
  then obtain rows where "t = s\<lparr>render_auths := rows\<rparr>"
    using assms by (auto dest!: render_auth_save_change_Inr)
  then have "t = s\<lparr>render_auths := rows, ticks := ticks s\<rparr>" by simp
  then show ?thesis by blast
qed

lemma open_save_change_Inr:
  "open_save False fs e s = Inr (v, t) \<Longrightarrow> \<exists>original.
     filter (\<lambda>x. ao_id x = ao_id e) (opens s) = [original] \<and>
     v = original\<lparr>ao_aggregated_at := column ''aggregated_at'' fs (ao_aggregated_at original) (ao_aggregated_at e)\<rparr> \<and>
     (ao_aggregated_at original \<noteq> None \<longrightarrow> ao_aggregated_at e = ao_aggregated_at original) \<and>
     updatable ao_id open_checks open_conflict v (opens s) \<and>
     t = s\<lparr>opens := put_row ao_id v (opens s)\<rparr>"
  by (auto simp: open_save_def open_update_def txn_InrD full_clean_Inr stored_Inr
      table_update_run split: if_splits)

lemma open_frame:
  assumes "open_save adding fs e s = Inr (a, t)"
  shows "\<exists>n rows. t = s\<lparr>opens := rows, serial := n\<rparr>"
proof (cases adding)
  case True
  then show ?thesis using assms by (auto dest!: open_save_add_Inr)
next
  case False
  then obtain rows where "t = s\<lparr>opens := rows\<rparr>"
    using assms by (auto dest!: open_save_change_Inr)
  then have "t = s\<lparr>opens := rows, serial := serial s\<rparr>" by simp
  then show ?thesis by blast
qed

lemma rollup_Inr:
  "daily_insert r s = Inr (a, t) \<Longrightarrow> a = r \<and> t = s\<lparr>open_dailies := open_dailies s @ [r]\<rparr> \<and>
     insertable od_id (\<lambda>_. True) daily_conflict r (open_dailies s)"
  "daily_update r s = Inr (a, t) \<Longrightarrow> a = r \<and> t = s\<lparr>open_dailies := put_row od_id r (open_dailies s)\<rparr> \<and>
     updatable od_id (\<lambda>_. True) daily_conflict r (open_dailies s)"
  "summary_insert v s = Inr (b, t) \<Longrightarrow> b = v \<and> t = s\<lparr>viewer_summaries := viewer_summaries s @ [v]\<rparr> \<and>
     insertable vo_id summary_checks summary_conflict v (viewer_summaries s)"
  "summary_update v s = Inr (b, t) \<Longrightarrow> b = v \<and> t = s\<lparr>viewer_summaries := put_row vo_id v (viewer_summaries s)\<rparr> \<and>
     updatable vo_id summary_checks summary_conflict v (viewer_summaries s)"
  "snapshot_insert n s = Inr (c, t) \<Longrightarrow> c = n \<and> t = s\<lparr>open_snapshots := open_snapshots s @ [n]\<rparr> \<and>
     insertable sn_id (\<lambda>_. True) snapshot_conflict n (open_snapshots s)"
  "snapshot_update n s = Inr (c, t) \<Longrightarrow> c = n \<and> t = s\<lparr>open_snapshots := put_row sn_id n (open_snapshots s)\<rparr> \<and>
     updatable sn_id (\<lambda>_. True) snapshot_conflict n (open_snapshots s)"
  by (auto simp: daily_insert_def daily_update_def summary_insert_def summary_update_def
      snapshot_insert_def snapshot_update_def txn_run split: if_split_asm)

lemma rollup_frames:
  "daily_insert r s = Inr (a, t) \<Longrightarrow> \<exists>rows. t = s\<lparr>open_dailies := rows\<rparr>"
  "daily_update r s = Inr (a, t) \<Longrightarrow> \<exists>rows. t = s\<lparr>open_dailies := rows\<rparr>"
  "summary_insert v s = Inr (b, t) \<Longrightarrow> \<exists>rows. t = s\<lparr>viewer_summaries := rows\<rparr>"
  "summary_update v s = Inr (b, t) \<Longrightarrow> \<exists>rows. t = s\<lparr>viewer_summaries := rows\<rparr>"
  "snapshot_insert n s = Inr (c, t) \<Longrightarrow> \<exists>rows. t = s\<lparr>open_snapshots := rows\<rparr>"
  "snapshot_update n s = Inr (c, t) \<Longrightarrow> \<exists>rows. t = s\<lparr>open_snapshots := rows\<rparr>"
  by (auto dest!: rollup_Inr)

lemma checkpoint_frame:
  "checkpoint_save adding fs c s = Inr (a, t) \<Longrightarrow> \<exists>k rows. t = s\<lparr>checkpoints := rows, ticks := k\<rparr>"
  using checkpoint_save_add_Inr [of fs c s a t] checkpoint_save_change_Inr [of fs c s a t]
  by (cases adding) auto

lemma audit_frame:
  "audit_save adding e s = Inr (a, t) \<Longrightarrow> adding \<and>
     t = s\<lparr>audit_events := audit_events s @ [a], ticks := Suc (ticks s), serial := Suc (serial s)\<rparr> \<and>
     insertable ae_id audit_checks (\<lambda>_ _. False) a (audit_events s) \<and> audit_fields a s"
  by (cases adding)
    (auto simp: audit_fields_def audit_save_def audit_insert_def txn_InrD full_clean_Inr environment_run
      table_insert_run split: if_split_asm)

lemma reservation_frame:
  assumes "reservation_save adding fs r s = Inr (a, t)"
  shows "\<exists>k rows. t = s\<lparr>reservations := rows, ticks := k\<rparr>"
proof (cases adding)
  case True
  then show ?thesis using assms by (auto dest!: reservation_save_add_Inr)
next
  case False
  then obtain rows where "t = s\<lparr>reservations := rows\<rparr>"
    using assms by (auto dest!: reservation_save_change_Inr)
  then have "t = s\<lparr>reservations := rows, ticks := ticks s\<rparr>" by simp
  then show ?thesis by blast
qed

lemma user_save_frame:
  "user_save adding fs u s = Inr (a, t) \<Longrightarrow> \<exists>k rows. t = s\<lparr>users := rows, ticks := k\<rparr>"
  using user_save_add_Inr [of fs u s a t] user_save_change_Inr [of fs u s a t] by (cases adding) auto

lemma dashboard_save_frame:
  "dashboard_save adding fs d s = Inr (a, t) \<Longrightarrow> \<exists>k rows. t = s\<lparr>dashboards := rows, ticks := k\<rparr>"
  using dashboard_save_add_Inr [of fs d s a t] dashboard_save_change_Inr [of fs d s a t]
  by (cases adding) auto

lemmas side_table_frames = throttle_insert_frame throttle_save_frame tag_create_frame
  tag_delete_frame favorite_insert_frame favorite_delete_frame open_frame rollup_frames
  checkpoint_frame reservation_frame

end
