(* ===== verification/Access.thy ===== *)
theory Access
  imports Frames
begin

text \<open>
  Project entitlement (\<open>core/access.py\<close>): opening and closing viewer-grant epochs, and the
  policy that decides who may see the pinned published revision.
\<close>

section \<open>Definitions\<close>

text \<open>Exact-scope reads of the grant table.\<close>

definition active_scope :: "uuid \<Rightarrow> uuid \<Rightarrow> grant \<Rightarrow> bool" where
  "active_scope dashboard_id viewer_id g \<longleftrightarrow>
     g_dashboard g = dashboard_id \<and> g_viewer g = viewer_id \<and> g_revoked_at g = None"

definition active_viewer_grant :: "uuid \<Rightarrow> uuid \<Rightarrow> db \<Rightarrow> grant option" where
  "active_viewer_grant dashboard_id viewer_id s =
     first_row (sort_key g_id (filter (active_scope dashboard_id viewer_id) (grants s)))"

definition has_active_viewer_grant :: "uuid \<Rightarrow> uuid \<Rightarrow> db \<Rightarrow> bool" where
  "has_active_viewer_grant dashboard_id viewer_id s =
     has_row (active_scope dashboard_id viewer_id) (grants s)"

definition user_can_view_published :: "dashboard \<Rightarrow> user \<Rightarrow> grant option \<Rightarrow> db \<Rightarrow> bool" where
  "user_can_view_published dashboard viewer viewer_grant s =
     (if \<not> u_is_active viewer then False
      else if d_state dashboard \<noteq> PUBLISHED \<or> d_published_revision dashboard = None then False
      else if d_owner dashboard = u_id viewer then True
      else case viewer_grant of
          Some g \<Rightarrow> g_dashboard g = d_id dashboard \<and> g_viewer g = u_id viewer \<and> g_revoked_at g = None
        | None \<Rightarrow> has_active_viewer_grant (d_id dashboard) (u_id viewer) s)"

text \<open>\<open>User.objects.filter(id=..., is_active=True)\<close> under \<open>get_one_or_none\<close>.\<close>

definition active_user :: "uuid \<Rightarrow> db \<Rightarrow> exn + user option" where
  "active_user i s = get_one_or_none (filter (\<lambda>u. u_id u = i \<and> u_is_active u) (users s))"

definition lock_active_owner :: "uuid \<Rightarrow> uuid \<Rightarrow> db \<Rightarrow> exn + dashboard \<times> user" where
  "lock_active_owner dashboard_id actor_id s =
     bindE (get_one_or_none
       (filter (\<lambda>d. d_id d = dashboard_id \<and> d_state d \<noteq> DELETED) (dashboards s))) (\<lambda>dashboard.
     case dashboard of
       None \<Rightarrow> Inl ProjectAccessDenied
     | Some d \<Rightarrow>
         bindE (active_user actor_id s) (\<lambda>actor.
         case actor of
           None \<Rightarrow> Inl ProjectAccessDenied
         | Some a \<Rightarrow> if d_owner d \<noteq> u_id a then Inl ProjectAccessDenied else Inr (d, a)))"

definition record_grant_audit :: "string \<Rightarrow> user \<Rightarrow> dashboard \<Rightarrow> grant \<Rightarrow> audit_event dbtxn" where
  "record_grant_audit event_type actor dashboard g =
     audit_create event_type (Some (u_id actor)) (Some (d_id dashboard)) None (Some (g_viewer g))
       [(''grant_id'', MId (g_id g))]"

text \<open>\<open>ViewerGrant.objects.create\<close>: the key is drawn when the instance is built.\<close>

definition create_grant :: "dashboard \<Rightarrow> user \<Rightarrow> user \<Rightarrow> grant dbtxn" where
  "create_grant dashboard viewer created_by =
     bindT uuid4 (\<lambda>i. grant_save True None
       \<lparr>g_id = i, g_dashboard = d_id dashboard, g_viewer = u_id viewer,
        g_created_by = u_id created_by, g_created_at = 0, g_revoked_at = None,
        g_revoked_by = None\<rparr>)"

definition grant_project_viewer :: "uuid \<Rightarrow> uuid \<Rightarrow> text \<Rightarrow> grant dbtxn" where
  "grant_project_viewer dashboard_id actor_id target_soeid =
     (case canonicalize_soeid target_soeid of
        Inl e \<Rightarrow> raiseT (GrantViewerRejected INVALID_SOEID)
      | Inr canonical \<Rightarrow>
     bindT (queryT (lock_active_owner dashboard_id actor_id)) (\<lambda>(dashboard, actor).
     if d_state dashboard = ARCHIVED then raiseT ProjectAccessDenied
     else
     bindT (queryT (\<lambda>s. get_one_or_none (filter (\<lambda>u. u_soeid u = canonical) (users s)))) (\<lambda>target.
     case target of
       None \<Rightarrow> raiseT (GrantViewerRejected UNKNOWN_USER)
     | Some target \<Rightarrow>
     if \<not> u_is_active target then raiseT (GrantViewerRejected DISABLED_USER)
     else if u_id target = u_id actor then raiseT (GrantViewerRejected SELF_GRANT)
     else
     bindT (readT (has_active_viewer_grant (d_id dashboard) (u_id target))) (\<lambda>granted.
     if granted then raiseT (GrantViewerRejected ALREADY_GRANTED)
     else
     bindT (tryT (create_grant dashboard target actor) (\<lambda>e.
         if e = IntegrityError then
           bindT (readT (has_active_viewer_grant (d_id dashboard) (u_id target))) (\<lambda>granted.
           if granted then raiseT (GrantViewerRejected ALREADY_GRANTED) else raiseT e)
         else raiseT e)) (\<lambda>g.
     bindT (record_grant_audit ''grant.created'' actor dashboard g) (\<lambda>_.
     returnT g))))))"

definition revoke_project_viewer :: "uuid \<Rightarrow> uuid \<Rightarrow> uuid \<Rightarrow> grant dbtxn" where
  "revoke_project_viewer dashboard_id grant_id actor_id =
     bindT (queryT (lock_active_owner dashboard_id actor_id)) (\<lambda>(dashboard, actor).
     bindT (queryT (\<lambda>s. get_one_or_none
       (filter (\<lambda>g. g_id g = grant_id \<and> g_dashboard g = d_id dashboard) (grants s)))) (\<lambda>g.
     case g of
       None \<Rightarrow> raiseT ProjectAccessDenied
     | Some g \<Rightarrow>
     if g_revoked_at g \<noteq> None then returnT g
     else
     bindT timezone_now (\<lambda>now.
     bindT (grant_save False (Some [''revoked_at'', ''revoked_by''])
       (g\<lparr>g_revoked_at := Some now, g_revoked_by := Some (u_id actor)\<rparr>)) (\<lambda>g.
     bindT (record_grant_audit ''grant.revoked'' actor dashboard g) (\<lambda>_.
     returnT g)))))"

section \<open>Reads\<close>

lemma has_active_viewer_grant_iff:
  "has_active_viewer_grant d v s \<longleftrightarrow> (\<exists>g \<in> set (grants s). active_scope d v g)"
  by (simp add: has_active_viewer_grant_def)

lemma active_viewer_grant_Some:
  assumes "active_viewer_grant d v s = Some g"
  shows "g \<in> set (grants s) \<and> active_scope d v g"
proof -
  obtain rest where "sort_key g_id (filter (active_scope d v) (grants s)) = g # rest"
    using assms unfolding active_viewer_grant_def first_row_def by (auto split: list.split_asm)
  then have "g \<in> set (sort_key g_id (filter (active_scope d v) (grants s)))"
    by (simp only: list.set_intros)
  then show ?thesis by simp
qed

lemma active_viewer_grant_None:
  "active_viewer_grant d v s = None \<longleftrightarrow> \<not> has_active_viewer_grant d v s"
proof -
  have "sort_key g_id gs = [] \<longleftrightarrow> gs = []" for gs :: "grant list"
    by (metis length_0_conv length_sort)
  then show ?thesis
    by (simp add: active_viewer_grant_def has_active_viewer_grant_iff filter_empty_conv)
qed

lemma lock_active_owner_Inr:
  assumes "lock_active_owner i a s = Inr (d, u)"
  shows "d \<in> set (dashboards s) \<and> d_id d = i \<and> d_state d \<noteq> DELETED \<and>
     u \<in> set (users s) \<and> u_id u = a \<and> u_is_active u \<and> d_owner d = a"
proof -
  have "filter (\<lambda>d. d_id d = i \<and> d_state d \<noteq> DELETED) (dashboards s) = [d]"
    "filter (\<lambda>u. u_id u = a \<and> u_is_active u) (users s) = [u]" "d_owner d = u_id u"
    using assms unfolding lock_active_owner_def active_user_def
    by (auto simp: bindE_eq_Inr split: option.split_asm if_split_asm)
  then show ?thesis by (auto dest!: filter_singleD)
qed

section \<open>Opening a grant epoch\<close>

lemma create_grant_Inr:
  "create_grant d v c s = Inr (g, t) \<Longrightarrow>
     g_dashboard g = d_id d \<and> g_viewer g = u_id v \<and> g_created_by g = u_id c \<and>
     g_revoked_at g = None \<and> g_revoked_by g = None \<and> g_id g = uuids s (uuid_draws s) \<and>
     g_id g \<notin> g_id ` set (grants s) \<and>
     t = s\<lparr>grants := grants s @ [g], ticks := Suc (ticks s), uuid_draws := Suc (uuid_draws s)\<rparr>"
  unfolding create_grant_def bindT_eq_Inr environment_run
  by (auto dest!: grant_save_add_Inr simp: insertable_def)

lemma grant_project_viewer_Inr:
  assumes "grant_project_viewer d a soeid s = Inr (g, t)"
  shows "\<exists>dash actor target e. dash \<in> set (dashboards s) \<and> d_id dash = d \<and>
     d_state dash \<notin> {ARCHIVED, DELETED} \<and> d_owner dash = a \<and>
     actor \<in> set (users s) \<and> u_id actor = a \<and> u_is_active actor \<and>
     target \<in> set (users s) \<and> canonicalize_soeid soeid = Inr (u_soeid target) \<and>
     u_is_active target \<and> u_id target \<noteq> a \<and> \<not> has_active_viewer_grant d (u_id target) s \<and>
     g_dashboard g = d \<and> g_viewer g = u_id target \<and> g_created_by g = a \<and>
     g_revoked_at g = None \<and> g_id g \<notin> g_id ` set (grants s) \<and>
     ae_event_type e = ''grant.created'' \<and> ae_actor e = Some a \<and> ae_dashboard e = Some d \<and>
     ae_target_user e = Some (u_id target) \<and> ae_metadata e = [(''grant_id'', MId (g_id g))] \<and>
     t = s\<lparr>grants := grants s @ [g], uuid_draws := Suc (uuid_draws s),
           audit_events := audit_events s @ [e], ticks := Suc (Suc (ticks s)),
           serial := Suc (serial s)\<rparr>"
proof -
  obtain canonical where c: "canonicalize_soeid soeid = Inr canonical"
    using assms by (cases "canonicalize_soeid soeid") (auto simp: grant_project_viewer_def)
  obtain dash actor target u e where
    l: "lock_active_owner d a s = Inr (dash, actor)" and ar: "d_state dash \<noteq> ARCHIVED"
    and f: "filter (\<lambda>u. u_soeid u = canonical) (users s) = [target]"
    and ok: "u_is_active target" "u_id target \<noteq> u_id actor"
      "\<not> has_active_viewer_grant (d_id dash) (u_id target) s"
    and g: "create_grant dash target actor s = Inr (g, u)"
    and e: "record_grant_audit ''grant.created'' actor dash g u = Inr (e, t)"
    using assms c unfolding grant_project_viewer_def
    by (auto simp: txn_InrD split: prod.split_asm option.split_asm if_split_asm)
  show ?thesis
    using lock_active_owner_Inr [OF l] filter_singleD [OF f] ok ar c create_grant_Inr [OF g]
      audit_create_Inr [OF e [unfolded record_grant_audit_def]]
    by (intro exI [of _ dash] exI [of _ actor] exI [of _ target] exI [of _ e] conjI) auto
qed

text \<open>The conditions of \<open>grant_project_viewer_Inr\<close> are also sufficient.\<close>

lemma grant_project_viewer_progress:
  assumes wf: "db_wf s" and env: "fresh_uuid s" "fresh_serial s"
    and dash: "dash \<in> set (dashboards s)" "d_id dash = d" "d_owner dash = a"
      "d_state dash \<notin> {ARCHIVED, DELETED}"
    and actor: "actor \<in> set (users s)" "u_id actor = a" "u_is_active actor"
    and target: "target \<in> set (users s)" "canonicalize_soeid soeid = Inr (u_soeid target)"
      "u_is_active target" "u_id target \<noteq> a" "\<not> has_active_viewer_grant d (u_id target) s"
  shows "\<exists>g t. grant_project_viewer d a soeid s = Inr (g, t)"
proof -
  have look: "user_of s (u_id target) = Some target" "user_of s a = Some actor"
    "dashboard_of s d = Some dash"
    using db_wf_lookup(1) [OF wf target(1)] db_wf_lookup(1) [OF wf actor(1)]
      db_wf_lookup(2) [OF wf dash(1)] dash(2) actor(2) by simp_all
  have new: "x \<in> set (grants s) \<Longrightarrow> g_id x \<noteq> uuids s (uuid_draws s)" for x
    using env(1) by (auto simp: fresh_uuid_def Let_def rev_image_eqI)
  have fd: "filter (\<lambda>x. d_id x = d \<and> d_state x \<noteq> DELETED) (dashboards s) = [dash]"
    by (rule wf_filter_key [where key = d_id and checks = dashboard_checks and conflict = dashboard_conflict])
      (use wf dash in \<open>auto simp: db_wf_def\<close>)
  have fa: "filter (\<lambda>x. u_id x = a \<and> u_is_active x) (users s) = [actor]"
    by (rule wf_filter_key [where key = u_id and checks = user_checks and conflict = user_conflict])
      (use wf actor in \<open>auto simp: db_wf_def\<close>)
  have "x = target" if "x \<in> set (users s)" "u_soeid x = u_soeid target" for x
    using wf_tableD(3) [of u_id user_checks user_conflict "users s" x target]
      wf_table_key [of u_id user_checks user_conflict "users s" x target] wf target(1) that
    by (auto simp: db_wf_def user_conflict_def)
  then have "filter (\<lambda>x. u_soeid x = u_soeid target) (users s) = filter (\<lambda>x. x = target) (users s)"
    by (intro filter_cong) auto
  also have "\<dots> = [target]"
    by (rule wf_filter_key [where key = u_id and checks = user_checks and conflict = user_conflict])
      (use wf target in \<open>auto simp: db_wf_def\<close>)
  finally have ft: "filter (\<lambda>x. u_soeid x = u_soeid target) (users s) = [target]" .
  obtain g u where g: "create_grant dash target actor s = Inr (g, u)"
  proof -
    let ?g = "\<lparr>g_id = uuids s (uuid_draws s), g_dashboard = d, g_viewer = u_id target, g_created_by = a,
                g_created_at = 0, g_revoked_at = None, g_revoked_by = None\<rparr>"
    let ?s = "s\<lparr>uuid_draws := Suc (uuid_draws s)\<rparr>"
    have "\<exists>v t. grant_save True None ?g ?s = Inr (v, t)"
      by (rule grant_save_add_progress)
        (use new dash actor target look in \<open>auto simp: grant_fields_def grant_clean_def grant_checks_def
          fk_def grant_conflict_def has_active_viewer_grant_iff
          active_scope_def ensureE_def\<close>)
    then show thesis
      using that dash actor by (auto simp: create_grant_def txn_run)
  qed
  have u: "u = s\<lparr>grants := grants s @ [g], ticks := Suc (ticks s), uuid_draws := Suc (uuid_draws s)\<rparr>"
    "g_viewer g = u_id target"
    using create_grant_Inr [OF g] by auto
  obtain e t where e: "record_grant_audit ''grant.created'' actor dash g u = Inr (e, t)"
  proof -
    have "\<exists>e t. record_grant_audit ''grant.created'' actor dash g u = Inr (e, t)"
      unfolding record_grant_audit_def
      by (rule audit_create_progress)
        (use env(2) dash actor target look in \<open>auto simp: u fk_def user_of_def dashboard_of_def fresh_serial_def\<close>)
    then show thesis using that by blast
  qed
  show ?thesis
    using dash actor target fd fa ft g e
    by (auto simp: grant_project_viewer_def lock_active_owner_def active_user_def txn_run)
qed

section \<open>Closing a grant epoch\<close>

text \<open>The row \<open>grant_save\<close> writes for a revocation: the original with its two fields closed.\<close>

definition closed_grant :: "grant \<Rightarrow> time \<Rightarrow> uuid \<Rightarrow> grant" where
  "closed_grant g now actor_id = g\<lparr>g_revoked_at := Some now, g_revoked_by := Some actor_id\<rparr>"

lemma closed_grant_simps [simp]:
  "g_id (closed_grant g n a) = g_id g" "g_dashboard (closed_grant g n a) = g_dashboard g"
  "g_viewer (closed_grant g n a) = g_viewer g" "g_created_by (closed_grant g n a) = g_created_by g"
  "g_created_at (closed_grant g n a) = g_created_at g"
  "g_revoked_at (closed_grant g n a) = Some n" "g_revoked_by (closed_grant g n a) = Some a"
  by (simp_all add: closed_grant_def)

lemma grant_save_close_Inr:
  assumes "grant_save False (Some [''revoked_at'', ''revoked_by'']) (closed_grant g now a) s = Inr (v, t)"
    and "filter (\<lambda>x. g_id x = g_id g) (grants s) = [g]"
  shows "v = closed_grant g now a \<and> t = s\<lparr>grants := put_row g_id v (grants s)\<rparr> \<and> g_revoked_at g = None
      \<or> v = closed_grant g now a \<and> t = s\<lparr>grants := put_row g_id v (grants s)\<rparr>
        \<and> g_revoked_at g = Some now \<and> g_revoked_by g = Some a"
  using grant_save_change_Inr [OF assms(1)] assms(2)
  by (auto simp: grant_columns_def column_Some closed_grant_def)

lemma revoke_project_viewer_Inr:
  assumes "revoke_project_viewer d i a s = Inr (g, t)"
  shows "\<exists>dash actor. dash \<in> set (dashboards s) \<and> d_id dash = d \<and> d_state dash \<noteq> DELETED \<and>
     d_owner dash = a \<and> actor \<in> set (users s) \<and> u_id actor = a \<and> u_is_active actor \<and>
     ((g \<in> set (grants s) \<and> g_id g = i \<and> g_dashboard g = d \<and> g_revoked_at g \<noteq> None \<and> t = s) \<or>
      (\<exists>original e now. original \<in> set (grants s) \<and> g_id original = i \<and> g_dashboard original = d \<and>
         g_revoked_at original = None \<and> g = closed_grant original now a \<and>
         filter (\<lambda>x. g_id x = i) (grants s) = [original] \<and>
         ae_event_type e = ''grant.revoked'' \<and> ae_actor e = Some a \<and> ae_dashboard e = Some d \<and>
         ae_target_user e = Some (g_viewer original) \<and> ae_metadata e = [(''grant_id'', MId i)] \<and>
         t = s\<lparr>grants := put_row g_id g (grants s), audit_events := audit_events s @ [e],
               ticks := Suc (Suc (ticks s)), serial := Suc (serial s)\<rparr>))"
proof -
  obtain dash actor original where
    l: "lock_active_owner d a s = Inr (dash, actor)"
    and f: "filter (\<lambda>g. g_id g = i \<and> g_dashboard g = d_id dash) (grants s) = [original]"
    and rest: "(if g_revoked_at original \<noteq> None then returnT original
      else
      bindT timezone_now (\<lambda>now.
      bindT (grant_save False (Some [''revoked_at'', ''revoked_by'']) (closed_grant original now (u_id actor))) (\<lambda>g.
      bindT (record_grant_audit ''grant.revoked'' actor dash g) (\<lambda>_. returnT g)))) s = Inr (g, t)"
    using assms unfolding revoke_project_viewer_def closed_grant_def
    by (auto simp: bindT_eq_Inr queryT_eq_Inr split: prod.split_asm option.split_asm)
  note L = lock_active_owner_Inr [OF l] filter_singleD [OF f]
  show ?thesis
  proof (cases "g_revoked_at original = None")
    case False
    then show ?thesis
      using L rest by (intro exI [of _ dash] exI [of _ actor] conjI disjI1) (auto simp: returnT_eq_Inr)
  next
    case True
    then obtain now u e where
      v: "grant_save False (Some [''revoked_at'', ''revoked_by'']) (closed_grant original now (u_id actor))
            (s\<lparr>ticks := Suc (ticks s)\<rparr>) = Inr (g, u)"
      and e: "record_grant_audit ''grant.revoked'' actor dash g u = Inr (e, t)"
      using rest by (auto simp: bindT_eq_Inr returnT_eq_Inr environment_run)
    obtain original' where o': "filter (\<lambda>x. g_id x = i) (grants s) = [original']"
      using grant_save_change_Inr [OF v] L by auto
    then have o: "filter (\<lambda>x. g_id x = i) (grants s) = [original]"
      using filter_single_unique [OF o'] L by auto
    note E = audit_create_Inr [OF e [unfolded record_grant_audit_def]]
    have "g = closed_grant original now a \<and> u = s\<lparr>ticks := Suc (ticks s), grants := put_row g_id g (grants s)\<rparr>"
      using grant_save_close_Inr [OF v] o L True by auto
    then show ?thesis
      using L True E o
      by (intro exI [of _ dash] exI [of _ actor] conjI disjI2 exI [of _ original] exI [of _ e]
          exI [of _ now]) auto
  qed
qed

end
