(* ===== verification/Projects.thy ===== *)
theory Projects
  imports Access
begin

text \<open>
  Owner and viewer project queries and the two project mutations of \<open>core/projects.py\<close>. A
  queryset is the list of the rows it yields, in its order; \<open>select_related\<close>, \<open>only\<close> and
  \<open>prefetch_related_objects\<close> change what is fetched, not which rows.
\<close>

section \<open>Queries\<close>

definition owned_projects :: "uuid \<Rightarrow> db \<Rightarrow> dashboard list" where
  "owned_projects owner_id s =
     order_by2 (\<lambda>d. - d_updated_at d) (\<lambda>d. int (d_id d))
       (filter (\<lambda>d. d_owner d = owner_id \<and> user_active s owner_id \<and> d_state d \<noteq> DELETED) (dashboards s))"

definition shared_projects :: "uuid \<Rightarrow> db \<Rightarrow> dashboard list" where
  "shared_projects viewer_id s =
     order_by2 (\<lambda>d. - d_updated_at d) (\<lambda>d. int (d_id d))
       (filter (\<lambda>d. d_state d = PUBLISHED \<and> d_published_revision d \<noteq> None
                   \<and> has_row (\<lambda>g. active_scope (d_id d) viewer_id g \<and> user_active s viewer_id) (grants s))
          (dashboards s))"

definition manageable_project :: "uuid \<Rightarrow> uuid \<Rightarrow> db \<Rightarrow> dashboard option" where
  "manageable_project project_id owner_id s =
     first_row (filter (\<lambda>d. d_id d = project_id \<and> d_owner d = owner_id \<and> user_active s owner_id
                           \<and> d_state d \<noteq> DELETED) (dashboards s))"

text \<open>The join on the dashboard that the owner-scoped queries share.\<close>

definition owned_scope :: "uuid \<Rightarrow> uuid \<Rightarrow> db \<Rightarrow> bool" where
  "owned_scope project_id owner_id s =
     (case dashboard_of s project_id of
        None \<Rightarrow> False
      | Some d \<Rightarrow> d_owner d = owner_id \<and> owner_active s d \<and> d_state d \<noteq> DELETED)"

definition project_revisions :: "uuid \<Rightarrow> uuid \<Rightarrow> db \<Rightarrow> revision list" where
  "project_revisions project_id owner_id s =
     sort_key (\<lambda>r. - int (r_number r))
       (order_by2 (\<lambda>r. - r_created_at r) (\<lambda>r. - int (r_id r))
         (filter (\<lambda>r. r_dashboard r = project_id \<and> owned_scope project_id owner_id s) (revisions s)))"

definition project_active_grants :: "uuid \<Rightarrow> uuid \<Rightarrow> db \<Rightarrow> grant list" where
  "project_active_grants project_id owner_id s =
     order_by2 (\<lambda>g. - g_created_at g) (\<lambda>g. - int (g_id g))
       (filter (\<lambda>g. g_dashboard g = project_id \<and> owned_scope project_id owner_id s
                   \<and> g_revoked_at g = None) (grants s))"

definition project_grant_history :: "uuid \<Rightarrow> uuid \<Rightarrow> db \<Rightarrow> grant list" where
  "project_grant_history project_id owner_id s =
     order_by2 (\<lambda>g. case g_revoked_at g of None \<Rightarrow> 0 | Some t \<Rightarrow> - t) (\<lambda>g. - int (g_id g))
       (filter (\<lambda>g. g_dashboard g = project_id \<and> owned_scope project_id owner_id s
                   \<and> g_revoked_at g \<noteq> None) (grants s))"

definition project_grant_epoch :: "uuid \<Rightarrow> uuid \<Rightarrow> uuid \<Rightarrow> db \<Rightarrow> grant option" where
  "project_grant_epoch project_id owner_id grant_id s =
     first_row (filter (\<lambda>g. g_id g = grant_id \<and> g_dashboard g = project_id
                           \<and> owned_scope project_id owner_id s) (grants s))"

definition project_effective_viewer_count :: "uuid \<Rightarrow> uuid \<Rightarrow> db \<Rightarrow> nat" where
  "project_effective_viewer_count project_id owner_id s =
     length (filter (\<lambda>g. g_dashboard g = project_id \<and> owned_scope project_id owner_id s
                        \<and> user_active s (g_viewer g) \<and> g_revoked_at g = None) (grants s))"

definition visible_project :: "uuid \<Rightarrow> uuid \<Rightarrow> db \<Rightarrow> (dashboard \<times> bool) option" where
  "visible_project project_id viewer_id s =
     (case manageable_project project_id viewer_id s of
        Some owned \<Rightarrow> Some (owned, True)
      | None \<Rightarrow>
          (case first_row (filter (\<lambda>d. d_id d = project_id) (shared_projects viewer_id s)) of
             None \<Rightarrow> None
           | Some shared \<Rightarrow> Some (shared, False)))"

section \<open>Mutations\<close>

definition new_dashboard :: "uuid \<Rightarrow> uuid \<Rightarrow> text \<Rightarrow> text \<Rightarrow> dashboard" where
  "new_dashboard i owner name description =
     \<lparr>d_id = i, d_owner = owner, d_name = name, d_description = description, d_state = DRAFT,
      d_latest_revision = None, d_published_revision = None, d_first_published_at = None,
      d_publication_version = 0, d_last_published_at = None, d_publication_note = [],
      d_data_as_of = None, d_freshness_interval = None, d_freshness_confirmed_at = None,
      d_stale_after = None, d_last_transfer = None, d_created_at = 0, d_updated_at = 0\<rparr>"

text \<open>\<open>str.strip()\<close>\<close>

definition py_strip :: "text \<Rightarrow> text" where
  "py_strip v = strip_set is_space v"

definition create_project :: "uuid \<Rightarrow> text \<Rightarrow> text \<Rightarrow> dashboard dbtxn" where
  "create_project owner_id name description =
     bindT (queryT (active_user owner_id)) (\<lambda>owner.
     case owner of
       None \<Rightarrow> raiseT ProjectOwnerUnavailable
     | Some owner \<Rightarrow>
     bindT uuid4 (\<lambda>i.
     bindT (dashboard_save True None
       (new_dashboard i (u_id owner) (py_strip name) (py_strip description))) (\<lambda>project.
     bindT (audit_create ''dashboard.created'' (Some (u_id owner)) (Some (d_id project)) None None []) (\<lambda>_.
     returnT project))))"

definition rename_project :: "uuid \<Rightarrow> uuid \<Rightarrow> text \<Rightarrow> dashboard dbtxn" where
  "rename_project project_id owner_id name =
     (let normalized_name = py_strip name in
     if normalized_name = [] \<or> length normalized_name > 200
     then raiseT (ValueError ''dashboard name must contain between 1 and 200 characters'')
     else
     bindT (queryT (\<lambda>s. get_one_or_none
       (filter (\<lambda>d. d_id d = project_id \<and> d_owner d = owner_id \<and> user_active s owner_id
                  \<and> d_state d \<notin> {ARCHIVED, DELETED}) (dashboards s)))) (\<lambda>project.
     case project of
       None \<Rightarrow> raiseT ProjectRenameDenied
     | Some project \<Rightarrow>
     if d_name project = normalized_name then returnT project
     else
     bindT (dashboard_save False (Some [''name'', ''updated_at''])
       (project\<lparr>d_name := normalized_name\<rparr>)) (\<lambda>project.
     bindT (audit_create ''dashboard.renamed'' (Some owner_id) (Some (d_id project)) None None []) (\<lambda>_.
     returnT project))))"

end
