(* ===== verification/Enhancements.thy ===== *)
theory Enhancements
  imports Projects
begin

text \<open>
  The domain services of \<open>core/enhancements.py\<close>: tags, favorites, the access-request lifecycle,
  ownership transfer, publication, withdrawal, rollback and freshness confirmation. Each service
  is one transaction; a row lock (\<open>select_for_update\<close>) is a read of the serialized state.
\<close>

section \<open>Shared helpers\<close>

definition max_effective_tags :: nat where
  "max_effective_tags = 5"

definition max_publication_note_length :: nat where
  "max_publication_note_length = 240"

definition max_access_request_message_length :: nat where
  "max_access_request_message_length = 500"

definition normalize_tag_key :: "unicode \<Rightarrow> text \<Rightarrow> exn + text" where
  "normalize_tag_key uc value =
     (case normalize_dashboard_tag uc value of
        Inl (InvalidDashboardTag m) \<Rightarrow> Inl (EnhancementValidationError m)
      | Inl e \<Rightarrow> Inl e
      | Inr n \<Rightarrow> Inr (tag_key n))"

definition lock_current_owner :: "uuid \<Rightarrow> uuid \<Rightarrow> db \<Rightarrow> exn + dashboard \<times> user" where
  "lock_current_owner dashboard_id actor_id s =
     bindE (get_one_or_none (filter (\<lambda>d. d_id d = dashboard_id) (dashboards s))) (\<lambda>dashboard.
     bindE (active_user actor_id s) (\<lambda>actor.
     case (dashboard, actor) of
       (Some d, Some a) \<Rightarrow>
         if d_owner d \<noteq> u_id a then Inl EnhancementAccessDenied else Inr (d, a)
     | _ \<Rightarrow> Inl EnhancementAccessDenied))"

text \<open>\<open>_active_grant\<close> with and without \<open>lock=True\<close>.\<close>

definition active_grant_locked :: "uuid \<Rightarrow> uuid \<Rightarrow> db \<Rightarrow> exn + grant option" where
  "active_grant_locked dashboard_id viewer_id s =
     get_one_or_none (filter (active_scope dashboard_id viewer_id) (grants s))"

definition active_grant :: "uuid \<Rightarrow> uuid \<Rightarrow> db \<Rightarrow> grant option" where
  "active_grant dashboard_id viewer_id s =
     first_row (sort_key g_id (filter (active_scope dashboard_id viewer_id) (grants s)))"

text \<open>
  A \<open>timedelta\<close> is a number of microseconds; \<open>total_seconds()\<close> is exact for every interval the
  bound accepts.
\<close>

definition freshness_seconds :: "time option \<Rightarrow> exn + int option" where
  "freshness_seconds interval = (case interval of
      None \<Rightarrow> Inr None
    | Some i \<Rightarrow>
        if i mod 1000000 \<noteq> 0 \<or> \<not> (1 \<le> i div 1000000 \<and> i div 1000000 \<le> max_freshness_seconds)
        then Inl (EnhancementValidationError
          ''freshness interval must be whole seconds between 1 second and 1 year'')
        else Inr (Some (i div 1000000)))"

definition apply_freshness :: "int option \<Rightarrow> time \<Rightarrow> dashboard \<Rightarrow> dashboard" where
  "apply_freshness interval_seconds confirmed_at d =
     d\<lparr>d_freshness_interval := interval_seconds,
       d_freshness_confirmed_at := map_option (\<lambda>_. confirmed_at) interval_seconds,
       d_stale_after := map_option (\<lambda>n. confirmed_at + seconds n) interval_seconds\<rparr>"

definition normalize_short_text :: "unicode \<Rightarrow> nat \<Rightarrow> string \<Rightarrow> text \<Rightarrow> exn + text" where
  "normalize_short_text uc maximum label value =
     (if list_ex (\<lambda>c. category uc c \<in> {''Cf'', ''Cs''}
                    \<or> (category uc c = ''Cc'' \<and> c \<notin> {9, 13, 10})) value
      then Inl (EnhancementValidationError (label @ '' cannot contain control characters''))
      else
      let normalized = collapse_ws value in
      if length normalized > maximum
      then Inl (EnhancementValidationError (label @ '' must be at most '' @ decimal maximum @ '' characters''))
      else Inr normalized)"

definition normalize_access_request_message :: "unicode \<Rightarrow> text \<Rightarrow> exn + text" where
  "normalize_access_request_message uc value =
     normalize_short_text uc max_access_request_message_length ''request message'' value"

definition audit_grant :: "string \<Rightarrow> user \<Rightarrow> dashboard \<Rightarrow> grant \<Rightarrow> audit_event dbtxn" where
  "audit_grant event_type actor dashboard g =
     audit_create event_type (Some (u_id actor)) (Some (d_id dashboard)) None (Some (g_viewer g))
       [(''grant_id'', MId (g_id g))]"

section \<open>Tags\<close>

primrec normalize_labels ::
  "unicode \<Rightarrow> text list \<Rightarrow> text list \<Rightarrow> tag_name list \<Rightarrow> exn + tag_name list" where
  "normalize_labels uc [] seen normalized = Inr normalized"
| "normalize_labels uc (label # labels) seen normalized =
     (case normalize_dashboard_tag uc label of
        Inl (InvalidDashboardTag m) \<Rightarrow> Inl (EnhancementValidationError m)
      | Inl e \<Rightarrow> Inl e
      | Inr tag \<Rightarrow>
          if tag_key tag \<in> set seen
          then Inl (EnhancementValidationError ''each tag must be unique after normalization'')
          else normalize_labels uc labels (tag_key tag # seen) (normalized @ [tag]))"

definition replace_dashboard_tags :: "unicode \<Rightarrow> uuid \<Rightarrow> uuid \<Rightarrow> text list \<Rightarrow> dash_tag list dbtxn" where
  "replace_dashboard_tags uc dashboard_id actor_id labels =
     bindT (queryT (\<lambda>s. normalize_labels uc labels [] [])) (\<lambda>normalized.
     if length normalized > max_effective_tags
     then raiseT (EnhancementValidationError ''a dashboard can have at most five tags'')
     else
     bindT (queryT (lock_current_owner dashboard_id actor_id)) (\<lambda>(dashboard, actor).
     if d_state dashboard \<in> {ARCHIVED, DELETED} then raiseT EnhancementAccessDenied
     else
     bindT (delete_tags (d_id dashboard)) (\<lambda>_.
     bindT (forT (\<lambda>(slot, tag). tag_create uc (d_id dashboard) (tag_display tag) slot)
       (enumerate 1 normalized)) (\<lambda>created.
     bindT (audit_create ''dashboard.tags_replaced'' (Some (u_id actor)) (Some (d_id dashboard))
       None None [(''tag_count'', MInt (length created))]) (\<lambda>_.
     returnT created)))))"

section \<open>Favorites\<close>

definition favorite_get_or_create :: "uuid \<Rightarrow> uuid \<Rightarrow> favorite dbtxn" where
  "favorite_get_or_create user dashboard =
     (let get = queryT (\<lambda>s. exactly_one
            (filter (\<lambda>f. fv_user f = user \<and> fv_dashboard f = dashboard) (favorites s)))
      in tryT get (\<lambda>e.
         if e \<noteq> DoesNotExist then raiseT e
         else tryT (bindT timezone_now (\<lambda>now. bindT next_serial (\<lambda>i.
                favorite_insert \<lparr>fv_id = i, fv_user = user, fv_dashboard = dashboard, fv_created_at = now\<rparr>)))
           (\<lambda>e. if e = IntegrityError then tryT get (\<lambda>_. raiseT e) else raiseT e)))"

definition set_dashboard_favorite :: "uuid \<Rightarrow> uuid \<Rightarrow> bool \<Rightarrow> favorite option dbtxn" where
  "set_dashboard_favorite dashboard_id user_id favorited =
     (if \<not> favorited then
        bindT (queryT (active_user user_id)) (\<lambda>user.
        case user of
          None \<Rightarrow> raiseT EnhancementAccessDenied
        | Some user \<Rightarrow> bindT (delete_favorites (u_id user) dashboard_id) (\<lambda>_. returnT None))
      else
        bindT (queryT (\<lambda>s. get_one_or_none
          (filter (\<lambda>d. d_id d = dashboard_id \<and> d_state d = PUBLISHED \<and> d_published_revision d \<noteq> None)
             (dashboards s)))) (\<lambda>dashboard.
        bindT (queryT (active_user user_id)) (\<lambda>user.
        case (dashboard, user) of
          (Some dashboard, Some user) \<Rightarrow>
            bindT (readT (active_grant (d_id dashboard) (u_id user))) (\<lambda>g.
            if d_owner dashboard \<noteq> u_id user \<and> g = None then raiseT EnhancementAccessDenied
            else bindT (favorite_get_or_create (u_id user) (d_id dashboard)) (\<lambda>f. returnT (Some f)))
        | _ \<Rightarrow> raiseT EnhancementAccessDenied)))"

section \<open>Access requests\<close>

definition status_value :: "request_status \<Rightarrow> string" where
  "status_value s = (case s of PENDING \<Rightarrow> ''pending'' | APPROVED \<Rightarrow> ''approved''
     | DENIED \<Rightarrow> ''denied'' | CANCELLED \<Rightarrow> ''cancelled'')"

text \<open>\<open>AccessRequest.Status(value)\<close>\<close>

definition status_of_value :: "string \<Rightarrow> request_status option" where
  "status_of_value v = find (\<lambda>s. status_value s = v) [PENDING, APPROVED, DENIED, CANCELLED]"

definition request_dashboard_access :: "unicode \<Rightarrow> uuid \<Rightarrow> uuid \<Rightarrow> text \<Rightarrow> access_request dbtxn" where
  "request_dashboard_access uc dashboard_id requester_id message =
     bindT (queryT (\<lambda>s. normalize_access_request_message uc message)) (\<lambda>normalized_message.
     bindT timezone_now (\<lambda>requested_at.
     bindT (queryT (\<lambda>s. get_one_or_none
       (filter (\<lambda>d. d_id d = dashboard_id \<and> d_state d = PUBLISHED \<and> owner_active s d)
          (dashboards s)))) (\<lambda>dashboard.
     bindT (queryT (active_user requester_id)) (\<lambda>requester.
     case (dashboard, requester) of
       (Some dashboard, Some requester) \<Rightarrow>
         if d_owner dashboard = u_id requester then raiseT EnhancementAccessDenied
         else
         bindT (readT (active_grant (d_id dashboard) (u_id requester))) (\<lambda>g.
         if g \<noteq> None then raiseT EnhancementAccessDenied
         else
         bindT (queryT (\<lambda>s. get_one_or_none
           (filter (\<lambda>r. ar_dashboard r = d_id dashboard \<and> ar_requester r = u_id requester)
              (access_requests s)))) (\<lambda>existing.
         if map_option ar_status existing = Some PENDING then returnT (the existing)
         else
         bindT (case existing of
             None \<Rightarrow> request_save True None
               \<lparr>ar_id = 0, ar_dashboard = d_id dashboard, ar_requester = u_id requester,
                ar_status = PENDING, ar_message = normalized_message, ar_requested_at = requested_at,
                ar_resolved_at = None, ar_resolved_by = None, ar_updated_at = 0\<rparr>
           | Some r \<Rightarrow> request_save False
               (Some [''status'', ''message'', ''requested_at'', ''resolved_at'', ''resolved_by'', ''updated_at''])
               (r\<lparr>ar_status := PENDING, ar_message := normalized_message,
                  ar_requested_at := max requested_at (ar_requested_at r + 1),
                  ar_resolved_at := None, ar_resolved_by := None\<rparr>)) (\<lambda>request.
         bindT (audit_create ''access.requested'' (Some (u_id requester)) (Some (d_id dashboard)) None
           (Some (u_id requester))
           [(''request_id'', MInt (ar_id request)), (''reopened'', MBool (existing \<noteq> None))]) (\<lambda>_.
         returnT request))))
     | _ \<Rightarrow> raiseT EnhancementAccessDenied))))"

text \<open>The state writes of a resolution, after its authorization checks.\<close>

definition resolution_columns :: "string list" where
  "resolution_columns = [''status'', ''resolved_at'', ''resolved_by'', ''updated_at'']"

definition resolved_request :: "access_request \<Rightarrow> request_status \<Rightarrow> time \<Rightarrow> uuid \<Rightarrow> access_request" where
  "resolved_request r st at by' = r\<lparr>ar_status := st, ar_resolved_at := Some at, ar_resolved_by := Some by'\<rparr>"

text \<open>The approval branch: a grant is opened unless one is active.\<close>

definition open_approved_grant :: "dashboard \<Rightarrow> access_request \<Rightarrow> user \<Rightarrow> unit dbtxn" where
  "open_approved_grant dashboard request actor =
     bindT (readT (\<lambda>s. d_state dashboard \<notin> {PUBLISHED, UNPUBLISHED} \<or> \<not> owner_active s dashboard
                      \<or> \<not> user_active s (ar_requester request))) (\<lambda>refused.
     if refused then raiseT EnhancementAccessDenied
     else
     bindT (queryT (active_grant_locked (d_id dashboard) (ar_requester request))) (\<lambda>g.
     case g of
       Some _ \<Rightarrow> returnT ()
     | None \<Rightarrow>
         bindT (queryT (\<lambda>s. case user_of s (ar_requester request) of
             None \<Rightarrow> Inl DoesNotExist | Some u \<Rightarrow> Inr u)) (\<lambda>requester.
         bindT (create_grant dashboard requester actor) (\<lambda>g.
         bindT (audit_grant ''grant.created'' actor dashboard g) (\<lambda>_. returnT ())))))"

definition resolve_dashboard_access_request ::
  "uuid \<Rightarrow> nat \<Rightarrow> uuid \<Rightarrow> string \<Rightarrow> time option \<Rightarrow> access_request dbtxn" where
  "resolve_dashboard_access_request dashboard_id request_id actor_id resolution now =
     (case status_of_value resolution of
        None \<Rightarrow> raiseT (EnhancementValidationError ''access-request resolution is invalid'')
      | Some resolved_status \<Rightarrow>
     if resolved_status = PENDING
     then raiseT (EnhancementValidationError ''pending is not a resolution'')
     else
     bindT (now_or now) (\<lambda>resolved_at.
     bindT (queryT (\<lambda>s. get_one_or_none (filter (\<lambda>d. d_id d = dashboard_id) (dashboards s)))) (\<lambda>dashboard.
     bindT (queryT (\<lambda>s. get_one_or_none
       (filter (\<lambda>r. ar_id r = request_id \<and> ar_dashboard r = dashboard_id) (access_requests s)))) (\<lambda>request.
     bindT (queryT (active_user actor_id)) (\<lambda>actor.
     case (dashboard, request, actor) of
       (Some dashboard, Some request, Some actor) \<Rightarrow>
         if u_id actor \<noteq> (if resolved_status = CANCELLED then ar_requester request else d_owner dashboard)
         then raiseT EnhancementAccessDenied
         else if ar_status request \<noteq> PENDING
         then (if ar_status request = resolved_status then returnT request
               else raiseT EnhancementAccessDenied)
         else
         bindT (if resolved_status = APPROVED then open_approved_grant dashboard request actor
                else returnT ()) (\<lambda>_.
         bindT (request_save False (Some resolution_columns)
           (resolved_request request resolved_status resolved_at (u_id actor))) (\<lambda>request.
         bindT (audit_create ''access.resolved'' (Some (u_id actor)) (Some (d_id dashboard)) None
           (Some (ar_requester request))
           [(''request_id'', MInt (ar_id request)), (''resolution'', MStr (status_value resolved_status))]) (\<lambda>_.
         returnT request)))
     | _ \<Rightarrow> raiseT EnhancementAccessDenied)))))"

section \<open>Ownership transfer\<close>

text \<open>\<open>users.get(id)\<close> of the dictionary built from the locked active users.\<close>

definition locked_users :: "uuid list \<Rightarrow> db \<Rightarrow> uuid \<Rightarrow> user option" where
  "locked_users ids s =
     map_of (rev (map (\<lambda>u. (u_id u, u))
       (sort_key u_id (filter (\<lambda>u. u_id u \<in> set ids \<and> u_is_active u) (users s)))))"

text \<open>The grant the incoming owner held is closed, the request it had pending is approved.\<close>

definition close_incoming_grant :: "dashboard \<Rightarrow> user \<Rightarrow> user \<Rightarrow> time \<Rightarrow> unit dbtxn" where
  "close_incoming_grant dashboard actor incoming at =
     bindT (queryT (active_grant_locked (d_id dashboard) (u_id incoming))) (\<lambda>g.
     case g of
       None \<Rightarrow> returnT ()
     | Some g \<Rightarrow>
         bindT (grant_save False (Some [''revoked_at'', ''revoked_by'']) (closed_grant g at (u_id actor))) (\<lambda>g.
         bindT (audit_grant ''grant.revoked'' actor dashboard g) (\<lambda>_. returnT ())))"

definition approve_incoming_request :: "dashboard \<Rightarrow> user \<Rightarrow> user \<Rightarrow> time \<Rightarrow> unit dbtxn" where
  "approve_incoming_request dashboard actor incoming at =
     bindT (queryT (\<lambda>s. get_one_or_none
       (filter (\<lambda>r. ar_dashboard r = d_id dashboard \<and> ar_requester r = u_id incoming
                  \<and> ar_status r = PENDING) (access_requests s)))) (\<lambda>request.
     case request of
       None \<Rightarrow> returnT ()
     | Some r \<Rightarrow>
         bindT (request_save False (Some resolution_columns) (resolved_request r APPROVED at (u_id actor))) (\<lambda>r.
         bindT (audit_create ''access.resolved'' (Some (u_id actor)) (Some (d_id dashboard)) None
           (Some (u_id incoming))
           [(''request_id'', MInt (ar_id r)), (''resolution'', MStr (status_value APPROVED))]) (\<lambda>_.
         returnT ())))"

text \<open>
  The marker of the transfer and the queryset update that hands the dashboard over. The update
  runs no \<open>save\<close>; the database still checks the row.
\<close>

definition hand_over :: "dashboard \<Rightarrow> user \<Rightarrow> user \<Rightarrow> time \<Rightarrow> transfer dbtxn" where
  "hand_over dashboard actor incoming at =
     bindT uuid4 (\<lambda>i.
     bindT (transfer_save True
       \<lparr>ot_id = i, ot_dashboard = d_id dashboard, ot_from_owner = u_id actor,
        ot_to_owner = u_id incoming, ot_previous = d_last_transfer dashboard,
        ot_transferred_at = 0\<rparr>) (\<lambda>marker.
     bindT (readT (\<lambda>s. filter (\<lambda>d. d_id d = d_id dashboard \<and> d_owner d = u_id actor
                                 \<and> d_last_transfer d = d_last_transfer dashboard) (dashboards s))) (\<lambda>matched.
     bindT (forT (\<lambda>d. dashboard_update
         (d\<lparr>d_owner := u_id incoming, d_last_transfer := Some (ot_id marker), d_updated_at := at\<rparr>))
       matched) (\<lambda>updated.
     if length updated \<noteq> 1 then raiseT EnhancementAccessDenied
     else returnT marker))))"

text \<open>The expected epoch of a confirmation: \<open>None\<close> is \<open>UNSET\<close>, \<open>Some e\<close> the value \<open>e\<close> passed.\<close>

definition transfer_dashboard_ownership ::
  "uuid \<Rightarrow> uuid \<Rightarrow> uuid \<Rightarrow> uuid option option \<Rightarrow> time option \<Rightarrow> dashboard dbtxn" where
  "transfer_dashboard_ownership dashboard_id actor_id incoming_owner_id expected now =
     bindT (now_or now) (\<lambda>transferred_at.
     bindT (queryT (\<lambda>s. get_one_or_none (filter (\<lambda>d. d_id d = dashboard_id) (dashboards s)))) (\<lambda>dashboard.
     case dashboard of
       None \<Rightarrow> raiseT EnhancementAccessDenied
     | Some dashboard \<Rightarrow>
     if d_state dashboard \<notin> {DRAFT, PUBLISHED, UNPUBLISHED} then raiseT EnhancementAccessDenied
     else if expected \<noteq> None \<and> expected \<noteq> Some (d_last_transfer dashboard)
     then raiseT EnhancementAccessDenied
     else
     bindT (readT (locked_users [actor_id, incoming_owner_id])) (\<lambda>users.
     case (users actor_id, users incoming_owner_id) of
       (Some actor, Some incoming) \<Rightarrow>
         if u_id actor \<noteq> d_owner dashboard \<or> u_id incoming = u_id actor
         then raiseT EnhancementAccessDenied
         else
         bindT (close_incoming_grant dashboard actor incoming transferred_at) (\<lambda>_.
         bindT (approve_incoming_request dashboard actor incoming transferred_at) (\<lambda>_.
         bindT (hand_over dashboard actor incoming transferred_at) (\<lambda>marker.
         bindT (audit_create ''dashboard.ownership_transferred'' (Some (u_id actor))
           (Some (d_id dashboard)) None (Some (u_id incoming))
           [(''transfer_id'', MId (ot_id marker))]) (\<lambda>_.
         queryT (\<lambda>s. exactly_one (filter (\<lambda>d. d_id d = dashboard_id) (dashboards s)))))))
     | _ \<Rightarrow> raiseT EnhancementAccessDenied)))"

section \<open>Publication\<close>

definition publish_columns :: "string list" where
  "publish_columns = [''state'', ''published_revision'', ''first_published_at'',
     ''publication_version'', ''last_published_at'', ''publication_note'', ''data_as_of'',
     ''freshness_interval_seconds'', ''freshness_confirmed_at'', ''stale_after'', ''updated_at'']"

definition published_dashboard ::
  "dashboard \<Rightarrow> revision \<Rightarrow> time \<Rightarrow> text \<Rightarrow> time option \<Rightarrow> int option \<Rightarrow> dashboard" where
  "published_dashboard d revision at note data_as_of interval_seconds =
     apply_freshness interval_seconds at
       (d\<lparr>d_state := PUBLISHED, d_published_revision := Some (r_id revision),
          d_first_published_at :=
            (if d_first_published_at d = None then Some at else d_first_published_at d),
          d_publication_version := d_publication_version d + 1, d_last_published_at := Some at,
          d_publication_note := note, d_data_as_of := data_as_of\<rparr>)"

definition publish_dashboard_revision ::
  "unicode \<Rightarrow> uuid \<Rightarrow> uuid \<Rightarrow> uuid \<Rightarrow> text \<Rightarrow> time option \<Rightarrow> time option \<Rightarrow> time option \<Rightarrow> dashboard dbtxn" where
  "publish_dashboard_revision uc dashboard_id actor_id revision_id note data_as_of interval now =
     bindT (queryT (\<lambda>s. normalize_short_text uc max_publication_note_length ''publication note'' note)) (\<lambda>note.
     bindT (now_or now) (\<lambda>published_at.
     bindT (queryT (\<lambda>s. freshness_seconds interval)) (\<lambda>interval_seconds.
     bindT (queryT (lock_current_owner dashboard_id actor_id)) (\<lambda>(dashboard, actor).
     if d_state dashboard \<notin> {DRAFT, PUBLISHED, UNPUBLISHED} then raiseT EnhancementAccessDenied
     else
     bindT (queryT (\<lambda>s. get_one_or_none
       (filter (\<lambda>r. r_id r = revision_id \<and> r_dashboard r = d_id dashboard \<and> r_artifacts_locked r)
          (revisions s)))) (\<lambda>revision.
     case revision of
       None \<Rightarrow> raiseT EnhancementAccessDenied
     | Some revision \<Rightarrow>
     if (case d_last_published_at dashboard of None \<Rightarrow> False | Some t \<Rightarrow> published_at < t)
     then raiseT (EnhancementValidationError ''publication time cannot move backward'')
     else
     bindT (dashboard_save False (Some publish_columns)
       (published_dashboard dashboard revision published_at note data_as_of interval_seconds)) (\<lambda>saved.
     bindT (audit_create ''dashboard.published'' (Some (u_id actor)) (Some (d_id saved))
       (Some (r_id revision)) None
       [(''publication_version'', MInt (d_publication_version saved)),
        (''republished'', MBool (d_first_published_at dashboard \<noteq> None))]) (\<lambda>_.
     returnT saved)))))))"

definition unpublish_dashboard :: "uuid \<Rightarrow> uuid \<Rightarrow> dashboard dbtxn" where
  "unpublish_dashboard dashboard_id actor_id =
     bindT (queryT (lock_current_owner dashboard_id actor_id)) (\<lambda>(dashboard, actor).
     if d_state dashboard \<noteq> PUBLISHED \<or> d_published_revision dashboard = None
     then raiseT EnhancementAccessDenied
     else
     bindT (dashboard_save False (Some [''state'', ''published_revision'', ''updated_at''])
       (dashboard\<lparr>d_state := UNPUBLISHED, d_published_revision := None\<rparr>)) (\<lambda>saved.
     bindT (audit_create ''dashboard.unpublished'' (Some (u_id actor)) (Some (d_id saved))
       (d_published_revision dashboard) None
       [(''publication_version'', MInt (d_publication_version saved))]) (\<lambda>_.
     returnT saved)))"

definition rollback_dashboard_by_republish ::
  "unicode \<Rightarrow> uuid \<Rightarrow> uuid \<Rightarrow> uuid \<Rightarrow> text \<Rightarrow> time option \<Rightarrow> time option \<Rightarrow> time option \<Rightarrow> dashboard dbtxn" where
  "rollback_dashboard_by_republish uc dashboard_id actor_id revision_id note data_as_of interval now =
     publish_dashboard_revision uc dashboard_id actor_id revision_id note data_as_of interval now"

text \<open>\<open>data_as_of\<close> is \<open>None\<close> for \<open>UNSET\<close>.\<close>

definition confirm_dashboard_freshness ::
  "uuid \<Rightarrow> uuid \<Rightarrow> time option \<Rightarrow> time option option \<Rightarrow> time option \<Rightarrow> dashboard dbtxn" where
  "confirm_dashboard_freshness dashboard_id actor_id interval data_as_of now =
     bindT (now_or now) (\<lambda>confirmed_at.
     bindT (queryT (\<lambda>s. freshness_seconds interval)) (\<lambda>interval_seconds.
     bindT (queryT (lock_current_owner dashboard_id actor_id)) (\<lambda>(dashboard, actor).
     if d_state dashboard \<noteq> PUBLISHED then raiseT EnhancementAccessDenied
     else
     bindT (dashboard_save False
       (Some [''data_as_of'', ''freshness_interval_seconds'', ''freshness_confirmed_at'', ''stale_after'', ''updated_at''])
       (apply_freshness interval_seconds confirmed_at
         (dashboard\<lparr>d_data_as_of := (case data_as_of of None \<Rightarrow> d_data_as_of dashboard | Some t \<Rightarrow> t)\<rparr>))) (\<lambda>saved.
     bindT (audit_create ''dashboard.freshness_confirmed'' (Some (u_id actor)) (Some (d_id saved)) None None
       [(''freshness_provided'', MBool (interval_seconds \<noteq> None))]) (\<lambda>_.
     returnT saved)))))"

section \<open>What the transfer writes\<close>

lemma close_incoming_grant_Inr:
  assumes "close_incoming_grant dash actor incoming at s = Inr (x, t)"
  shows "(filter (active_scope (d_id dash) (u_id incoming)) (grants s) = [] \<and> t = s) \<or>
    (\<exists>g e. filter (active_scope (d_id dash) (u_id incoming)) (grants s) = [g] \<and>
       ae_event_type e = ''grant.revoked'' \<and>
       t = s\<lparr>grants := put_row g_id (closed_grant g at (u_id actor)) (grants s),
             audit_events := audit_events s @ [e], ticks := Suc (ticks s), serial := Suc (serial s)\<rparr>)"
proof -
  obtain r where q: "get_one_or_none (filter (active_scope (d_id dash) (u_id incoming)) (grants s)) = Inr r"
    using assms by (auto simp: close_incoming_grant_def active_grant_locked_def txn_InrD)
  show ?thesis
  proof (cases r)
    case None
    then show ?thesis using assms q
      by (auto simp: close_incoming_grant_def active_grant_locked_def txn_InrD)
  next
    case (Some g)
    with q have f: "filter (active_scope (d_id dash) (u_id incoming)) (grants s) = [g]" by simp
    then obtain v m e where
      v: "grant_save False (Some [''revoked_at'', ''revoked_by'']) (closed_grant g at (u_id actor)) s = Inr (v, m)"
      and e: "audit_grant ''grant.revoked'' actor dash v m = Inr (e, t)"
      using assms by (auto simp: close_incoming_grant_def active_grant_locked_def txn_InrD)
    obtain original where o: "filter (\<lambda>x. g_id x = g_id g) (grants s) = [original]"
      using grant_save_change_Inr [OF v] by auto
    then have "original = g" using filter_single_unique [OF o, of g] filter_singleD [OF f] by simp
    then have "v = closed_grant g at (u_id actor)" "m = s\<lparr>grants := put_row g_id v (grants s)\<rparr>"
      using grant_save_close_Inr [OF v] o by auto
    then show ?thesis
      using f audit_create_Inr [OF e [unfolded audit_grant_def]] by auto
  qed
qed

lemma approve_incoming_request_Inr:
  assumes "approve_incoming_request dash actor incoming at s = Inr (x, t)"
  shows "\<exists>rs es k n. t = s\<lparr>access_requests := rs, audit_events := audit_events s @ es, ticks := k, serial := n\<rparr>"
proof -
  obtain r where q: "get_one_or_none (filter (\<lambda>r. ar_dashboard r = d_id dash \<and> ar_requester r = u_id incoming
                  \<and> ar_status r = PENDING) (access_requests s)) = Inr r"
    using assms by (auto simp: approve_incoming_request_def txn_InrD)
  show ?thesis
  proof (cases r)
    case None
    then have "t = s" using assms q by (auto simp: approve_incoming_request_def txn_InrD)
    then have "t = s\<lparr>access_requests := access_requests s, audit_events := audit_events s @ [],
        ticks := ticks s, serial := serial s\<rparr>" by simp
    then show ?thesis by blast
  next
    case (Some r')
    then obtain v m e where
      v: "request_save False (Some resolution_columns) (resolved_request r' APPROVED at (u_id actor)) s = Inr (v, m)"
      and e: "audit_create ''access.resolved'' (Some (u_id actor)) (Some (d_id dash)) None
           (Some (u_id incoming))
           [(''request_id'', MInt (ar_id v)), (''resolution'', MStr (status_value APPROVED))] m = Inr (e, t)"
      using assms q by (auto simp: approve_incoming_request_def txn_InrD)
    obtain rs where m: "m = s\<lparr>access_requests := rs, ticks := Suc (ticks s)\<rparr>"
      using request_save_change_Inr [OF v] by auto
    then show ?thesis using audit_create_Inr [OF e] by auto
  qed
qed

lemma no_incoming_grant:
  assumes "close_incoming_grant dash actor incoming at s1 = Inr (x, s2)"
    "approve_incoming_request dash actor incoming at s2 = Inr (y, s3)"
  shows "\<not> has_active_viewer_grant (d_id dash) (u_id incoming) s3"
proof -
  have "grants s3 = grants s2" using approve_incoming_request_Inr [OF assms(2)] by auto
  moreover have "\<not> has_active_viewer_grant (d_id dash) (u_id incoming) s2"
    using close_incoming_grant_Inr [OF assms(1)]
  proof (elim disjE exE conjE)
    fix g e
    assume f: "filter (active_scope (d_id dash) (u_id incoming)) (grants s1) = [g]"
      and s2: "s2 = s1\<lparr>grants := put_row g_id (closed_grant g at (u_id actor)) (grants s1),
             audit_events := audit_events s1 @ [e], ticks := Suc (ticks s1), serial := Suc (serial s1)\<rparr>"
    have "\<not> active_scope (d_id dash) (u_id incoming) h"
      if "h \<in> set (grants s1)" "g_id h \<noteq> g_id g" for h
      using filter_single_unique [OF f, of h] that by auto
    then show ?thesis
      by (auto simp: s2 has_active_viewer_grant_iff dest!: in_put_rowD)
        (auto simp: active_scope_def)
  qed (auto simp: has_active_viewer_grant_iff filter_empty_conv)
  ultimately show ?thesis by (simp add: has_active_viewer_grant_iff)
qed

lemma locked_users_Some:
  assumes "locked_users ids s i = Some u"
  shows "u \<in> set (users s) \<and> u_id u = i \<and> u_is_active u \<and> i \<in> set ids"
  using map_of_SomeD [OF assms [unfolded locked_users_def]] by auto

lemma now_or_Inr: "now_or now s = Inr (at, t) \<Longrightarrow> \<exists>k. t = s\<lparr>ticks := k\<rparr>"
  by (auto simp: now_or_def returnT_eq_Inr environment_run split: option.split_asm)
    (rule exI [of _ "ticks s"], simp)

lemma transfer_dashboard_ownership_Inr:
  assumes "transfer_dashboard_ownership d a i expected now s = Inr (dash, t)"
  obtains at s1 dashboard actor incoming s2 s3 marker s4 e where
    "now_or now s = Inr (at, s1)"
    "filter (\<lambda>x. d_id x = d) (dashboards s) = [dashboard]"
    "d_state dashboard \<in> {DRAFT, PUBLISHED, UNPUBLISHED}"
    "expected = None \<or> expected = Some (d_last_transfer dashboard)"
    "actor \<in> set (users s)" "u_id actor = a" "u_is_active actor" "d_owner dashboard = a"
    "incoming \<in> set (users s)" "u_id incoming = i" "u_is_active incoming" "i \<noteq> a"
    "close_incoming_grant dashboard actor incoming at s1 = Inr ((), s2)"
    "approve_incoming_request dashboard actor incoming at s2 = Inr ((), s3)"
    "hand_over dashboard actor incoming at s3 = Inr (marker, s4)"
    "audit_create ''dashboard.ownership_transferred'' (Some a) (Some d) None (Some i)
       [(''transfer_id'', MId (ot_id marker))] s4 = Inr (e, t)"
    "filter (\<lambda>x. d_id x = d) (dashboards t) = [dash]"
proof -
  obtain at s1 r where n: "now_or now s = Inr (at, s1)"
    and q: "get_one_or_none (filter (\<lambda>x. d_id x = d) (dashboards s1)) = Inr r"
    using assms unfolding transfer_dashboard_ownership_def by (auto simp: bindT_eq_Inr queryT_eq_Inr)
  obtain k where s1: "s1 = s\<lparr>ticks := k\<rparr>" using now_or_Inr [OF n] by blast
  obtain dashboard where f: "filter (\<lambda>x. d_id x = d) (dashboards s) = [dashboard]"
    using assms n q s1 unfolding transfer_dashboard_ownership_def
    by (cases r) (auto simp: bindT_eq_Inr queryT_eq_Inr)
  note D = filter_singleD [OF f]
  have c: "d_state dashboard \<in> {DRAFT, PUBLISHED, UNPUBLISHED}"
    "expected = None \<or> expected = Some (d_last_transfer dashboard)"
    using assms n f s1 unfolding transfer_dashboard_ownership_def
    by (auto simp: bindT_eq_Inr queryT_eq_Inr split: if_split_asm)
  obtain actor incoming where u: "locked_users [a, i] s1 a = Some actor"
    "locked_users [a, i] s1 i = Some incoming"
    using assms n f s1 unfolding transfer_dashboard_ownership_def
    by (auto simp: bindT_eq_Inr queryT_eq_Inr readT_eq_Inr split: if_split_asm option.split_asm)
  note U = locked_users_Some [OF u(1)] locked_users_Some [OF u(2)]
  have o: "d_owner dashboard = a" "i \<noteq> a"
    using assms n f s1 u U unfolding transfer_dashboard_ownership_def
    by (auto simp: bindT_eq_Inr queryT_eq_Inr readT_eq_Inr split: if_split_asm)
  obtain s2 s3 marker s4 e where
    "close_incoming_grant dashboard actor incoming at s1 = Inr ((), s2)"
    "approve_incoming_request dashboard actor incoming at s2 = Inr ((), s3)"
    "hand_over dashboard actor incoming at s3 = Inr (marker, s4)"
    "audit_create ''dashboard.ownership_transferred'' (Some a) (Some d) None (Some i)
       [(''transfer_id'', MId (ot_id marker))] s4 = Inr (e, t)"
    "filter (\<lambda>x. d_id x = d) (dashboards t) = [dash]"
    using assms n f s1 u U o c D unfolding transfer_dashboard_ownership_def
    by (auto simp: bindT_eq_Inr queryT_eq_Inr readT_eq_Inr exactly_one_Inr split: if_split_asm)
  then show thesis
    using n f c U o s1 by (intro that [of at s1 dashboard actor incoming s2 s3 marker s4 e]) auto
qed

section \<open>What a publication writes\<close>

lemma lock_current_owner_Inr:
  assumes "lock_current_owner i a s = Inr (d, u)"
  shows "filter (\<lambda>d. d_id d = i) (dashboards s) = [d] \<and> u \<in> set (users s) \<and> u_id u = a \<and>
     u_is_active u \<and> d_owner d = a"
proof -
  have "filter (\<lambda>d. d_id d = i) (dashboards s) = [d]"
    "filter (\<lambda>u. u_id u = a \<and> u_is_active u) (users s) = [u]" "d_owner d = u_id u"
    using assms unfolding lock_current_owner_def active_user_def
    by (auto simp: bindE_eq_Inr split: option.split_asm if_split_asm)
  then show ?thesis using filter_singleD [of _ "users s" u] by auto
qed

lemma now_or_instant: "now_or now s = Inr (at, t) \<Longrightarrow> at = (case now of None \<Rightarrow> clock s (ticks s) | Some i \<Rightarrow> i)"
  by (auto simp: now_or_def returnT_eq_Inr environment_run split: option.split_asm)

lemma publish_Inr:
  assumes "publish_dashboard_revision uc d a i note as_of interval now s = Inr (saved, t)"
  obtains text_note at secs k dashboard actor revision m e where
    "normalize_short_text uc max_publication_note_length ''publication note'' note = Inr text_note"
    "now_or now s = Inr (at, s\<lparr>ticks := k\<rparr>)" "freshness_seconds interval = Inr secs"
    "filter (\<lambda>x. d_id x = d) (dashboards s) = [dashboard]"
    "actor \<in> set (users s)" "u_id actor = a" "u_is_active actor" "d_owner dashboard = a"
    "d_state dashboard \<in> {DRAFT, PUBLISHED, UNPUBLISHED}"
    "revision \<in> set (revisions s)" "r_id revision = i" "r_dashboard revision = d" "r_artifacts_locked revision"
    "\<forall>x. d_last_published_at dashboard = Some x \<longrightarrow> x \<le> at"
    "dashboard_save False (Some publish_columns)
       (published_dashboard dashboard revision at text_note as_of secs) (s\<lparr>ticks := k\<rparr>) = Inr (saved, m)"
    "audit_create ''dashboard.published'' (Some a) (Some (d_id saved)) (Some i) None
       [(''publication_version'', MInt (d_publication_version saved)),
        (''republished'', MBool (d_first_published_at dashboard \<noteq> None))] m = Inr (e, t)"
proof -
  obtain text_note at s1 secs dashboard actor where
    n: "normalize_short_text uc max_publication_note_length ''publication note'' note = Inr text_note"
    and at: "now_or now s = Inr (at, s1)" and f: "freshness_seconds interval = Inr secs"
    and l: "lock_current_owner d a s1 = Inr (dashboard, actor)"
    using assms unfolding publish_dashboard_revision_def
    by (auto simp: bindT_eq_Inr queryT_eq_Inr split: prod.split_asm)
  obtain k where s1: "s1 = s\<lparr>ticks := k\<rparr>" using now_or_Inr [OF at] by blast
  note L = lock_current_owner_Inr [OF l]
  note D = filter_singleD [of "\<lambda>x. d_id x = d" "dashboards s" dashboard]
  have st: "d_state dashboard \<in> {DRAFT, PUBLISHED, UNPUBLISHED}"
    using assms n at f l unfolding publish_dashboard_revision_def
    by (auto simp: bindT_eq_Inr queryT_eq_Inr split: if_split_asm)
  obtain revision where r: "filter (\<lambda>r. r_id r = i \<and> r_dashboard r = d_id dashboard \<and> r_artifacts_locked r)
      (revisions s) = [revision]"
    using assms n at f l st unfolding publish_dashboard_revision_def s1
    by (auto simp: bindT_eq_Inr queryT_eq_Inr split: option.split_asm)
  have mono: "\<forall>x. d_last_published_at dashboard = Some x \<longrightarrow> x \<le> at"
    using assms n at f l st r unfolding publish_dashboard_revision_def s1
    by (auto simp: bindT_eq_Inr queryT_eq_Inr split: if_split_asm option.split_asm)
  obtain m e where "dashboard_save False (Some publish_columns)
       (published_dashboard dashboard revision at text_note as_of secs) s1 = Inr (saved, m)"
    "audit_create ''dashboard.published'' (Some a) (Some (d_id saved)) (Some i) None
       [(''publication_version'', MInt (d_publication_version saved)),
        (''republished'', MBool (d_first_published_at dashboard \<noteq> None))] m = Inr (e, t)"
    using assms n at f l st r mono filter_singleD [OF r] L unfolding publish_dashboard_revision_def s1
    by (auto simp: bindT_eq_Inr queryT_eq_Inr returnT_eq_Inr split: if_split_asm option.split_asm)
  then show thesis
    using n at f L D st filter_singleD [OF r] mono unfolding s1
    by (intro that [of text_note at k secs dashboard actor revision m e]) auto
qed

section \<open>What a hand-over writes\<close>

lemma transfer_saved:
  "transfer_fields (x\<lparr>ot_transferred_at := now\<rparr>) s = transfer_fields x s"
  "transfer_clean (x\<lparr>ot_transferred_at := now\<rparr>) s = transfer_clean x s"
  "transfer_fields x (s\<lparr>uuid_draws := n\<rparr>) = transfer_fields x s"
  "transfer_clean x (s\<lparr>uuid_draws := n\<rparr>) = transfer_clean x s"
  unfolding transfer_fields_def transfer_clean_def
  by (simp_all cong: option.case_cong if_cong)

lemma hand_over_Inr:
  assumes "hand_over dash actor incoming at s = Inr (m, t)"
  shows "\<exists>old v k n. ot_id m \<notin> ot_id ` set (transfers s) \<and> ot_dashboard m = d_id dash \<and>
     ot_from_owner m = u_id actor \<and> ot_to_owner m = u_id incoming \<and> ot_previous m = d_last_transfer dash \<and>
     old \<in> set (dashboards s) \<and> d_id old = d_id dash \<and> d_owner old = u_id actor \<and>
     d_last_transfer old = d_last_transfer dash \<and>
     v = old\<lparr>d_owner := u_id incoming, d_last_transfer := Some (ot_id m), d_updated_at := at\<rparr> \<and>
     (\<forall>x \<in> set (dashboards s). d_id x = d_id dash \<and> d_owner x = u_id actor \<and>
        d_last_transfer x = d_last_transfer dash \<longrightarrow> x = old) \<and>
     updatable d_id dashboard_checks dashboard_conflict v (dashboards s) \<and>
     insertable ot_id transfer_checks transfer_conflict m (transfers s) \<and>
     transfer_fields m s \<and> transfer_clean m s = Inr () \<and>
     t = s\<lparr>transfers := transfers s @ [m], dashboards := put_row d_id v (dashboards s),
           ticks := k, uuid_draws := n\<rparr>"
proof -
  let ?P = "\<lambda>d. d_id d = d_id dash \<and> d_owner d = u_id actor \<and> d_last_transfer d = d_last_transfer dash"
  let ?v = "\<lambda>d. d\<lparr>d_owner := u_id incoming, d_last_transfer := Some (ot_id m), d_updated_at := at\<rparr>"
  let ?s = "s\<lparr>uuid_draws := Suc (uuid_draws s)\<rparr>"
  obtain x s1 ups where x: "transfer_save True \<lparr>ot_id = uuids s (uuid_draws s), ot_dashboard = d_id dash,
      ot_from_owner = u_id actor, ot_to_owner = u_id incoming, ot_previous = d_last_transfer dash,
      ot_transferred_at = 0\<rparr> ?s = Inr (m, s1)"
    and w: "forT (\<lambda>d. dashboard_update (?v d)) (filter ?P (dashboards s1)) s1 = Inr (ups, t)"
    and n: "length ups = 1"
    using assms unfolding hand_over_def
    by (auto simp: bindT_eq_Inr environment_run readT_eq_Inr returnT_eq_Inr split: if_split_asm)
  note X = transfer_save_Inr [OF x]
  have len: "length ys = length xs" if "forT f xs u = Inr (ys, w)" for f :: "dashboard \<Rightarrow> dashboard dbtxn" and xs ys u w
    using that by (induction xs arbitrary: ys u) (auto simp: bindT_eq_Inr returnT_eq_Inr)
  have "length (filter ?P (dashboards s1)) = 1" using len [OF w] n by simp
  then obtain old where f: "filter ?P (dashboards s1) = [old]"
    by (auto simp: length_Suc_conv)
  have s1: "s1 = s\<lparr>uuid_draws := Suc (uuid_draws s), transfers := transfers s @ [m], ticks := Suc (ticks s)\<rparr>"
    using X by auto
  have uniq: "\<forall>x \<in> set (dashboards s). ?P x \<longrightarrow> x = old"
    by (intro ballI impI filter_single_unique [OF f]) (simp_all add: s1)
  have old: "old \<in> set (dashboards s)" "d_id old = d_id dash" "d_owner old = u_id actor"
    "d_last_transfer old = d_last_transfer dash"
    using filter_singleD [OF f] by (simp_all add: s1)
  have m: "insertable ot_id transfer_checks transfer_conflict m (transfers s)"
    "ot_id m \<notin> ot_id ` set (transfers s)" "ot_dashboard m = d_id dash"
    "ot_from_owner m = u_id actor" "ot_to_owner m = u_id incoming" "ot_previous m = d_last_transfer dash"
    using X by (auto simp: insertable_def)
  have c: "transfer_fields m s" "transfer_clean m s = Inr ()"
    using X by (auto simp only: transfer_saved)
  have t: "updatable d_id dashboard_checks dashboard_conflict (?v old) (dashboards s)"
    "t = s\<lparr>transfers := transfers s @ [m], dashboards := put_row d_id (?v old) (dashboards s),
           ticks := Suc (ticks s), uuid_draws := Suc (uuid_draws s)\<rparr>"
    using w unfolding f by (auto simp: s1 txn_InrD dashboard_update_def table_update_run split: if_split_asm)
  show ?thesis
    using m c t old uniq by (intro exI conjI) (rule refl | assumption)+
qed

end
