(* ===== verification/Analytics.thy ===== *)
theory Analytics
  imports Enhancements
begin

text \<open>
  Authorized-open capture, bounded aggregation, retention and the rollup reads
  (\<open>core/analytics.py\<close>). A day is the number of days since the epoch, in UTC.
\<close>

section \<open>Constants and bounds\<close>

definition analytics_pipeline_key :: string where
  "analytics_pipeline_key = ''authorized_opens_v1''"

definition retention_days :: int where
  "retention_days = 90"

definition max_analytics_batch_size :: int where
  "max_analytics_batch_size = 1000"

definition max_analytics_read_limit :: int where
  "max_analytics_read_limit = 366"

definition max_popular_candidate_grants :: nat where
  "max_popular_candidate_grants = 100"

definition bounded_batch_size :: "int \<Rightarrow> exn + nat" where
  "bounded_batch_size n =
     (if \<not> (1 \<le> n \<and> n \<le> max_analytics_batch_size)
      then Inl (ValueError ''batch_size must be between 1 and 1000'') else Inr (nat n))"

definition bounded_read_limit :: "int \<Rightarrow> int \<Rightarrow> exn + nat" where
  "bounded_read_limit limit maximum =
     (if \<not> (1 \<le> limit \<and> limit \<le> maximum)
      then Inl (ValueError (''limit must be between 1 and '' @ decimal (nat maximum)))
      else Inr (nat limit))"

definition day_of :: "time \<Rightarrow> int" where
  "day_of t = t div days 1"

section \<open>Capture\<close>

definition authorization_can_source_open :: "render_auth \<Rightarrow> db \<Rightarrow> bool" where
  "authorization_can_source_open a s =
     (case (dashboard_of s (ra_dashboard a), user_of s (ra_viewer a)) of
        (Some dashboard, Some viewer) \<Rightarrow>
          if ra_audience a \<noteq> VIEWER
             \<or> (case ra_publication_version a of None \<Rightarrow> True | Some v \<Rightarrow> v \<le> 0)
             \<or> ra_revoked_at a \<noteq> None
             \<or> \<not> u_is_active viewer
             \<or> u_auth_version viewer \<noteq> ra_viewer_auth_version a
             \<or> d_state dashboard \<noteq> PUBLISHED
             \<or> d_published_revision dashboard \<noteq> Some (ra_revision a)
             \<or> Some (d_publication_version dashboard) \<noteq> ra_publication_version a
          then False
          else if d_owner dashboard = u_id viewer
          then ra_viewer_grant a = None \<and> ra_owner_epoch a = d_last_transfer dashboard
          else (case Option.bind (ra_viewer_grant a) (grant_of s) of
              None \<Rightarrow> False
            | Some g \<Rightarrow> ra_owner_epoch a = None \<and> g_dashboard g = d_id dashboard
                \<and> g_viewer g = u_id viewer \<and> g_revoked_at g = None)
      | _ \<Rightarrow> False)"

text \<open>The rows the inner joins of \<open>select_related\<close> keep.\<close>

definition joined :: "db \<Rightarrow> render_auth \<Rightarrow> bool" where
  "joined s a \<longleftrightarrow> fk (dashboard_of s) (ra_dashboard a) \<and> fk (user_of s) (ra_viewer a)
     \<and> fk (revision_of s) (ra_revision a)"

definition advance_viewer_state :: "render_auth \<Rightarrow> nat \<Rightarrow> viewer_state dbtxn" where
  "advance_viewer_state a version =
     (let scope = (\<lambda>v. vs_user v = ra_viewer a \<and> vs_dashboard v = ra_dashboard a);
          fresh = bindT (viewer_state_save True None
            \<lparr>vs_id = 0, vs_user = ra_viewer a, vs_dashboard = ra_dashboard a,
             vs_last_viewed_at = ra_created_at a, vs_seen_version = version\<rparr>)
            (\<lambda>v. returnT (True, v))
      in
     bindT (queryT (\<lambda>s. get_one_or_none (filter scope (viewer_states s)))) (\<lambda>state.
     bindT (case state of
         Some v \<Rightarrow> returnT (False, v)
       | None \<Rightarrow> tryT fresh (\<lambda>e.
           if e = IntegrityError
           then bindT (queryT (\<lambda>s. exactly_one (filter scope (viewer_states s)))) (\<lambda>v. returnT (False, v))
           else raiseT e)) (\<lambda>(created, v).
     if created then returnT v
     else
     let next_viewed_at = max (vs_last_viewed_at v) (ra_created_at a);
         next_version = max (vs_seen_version v) version
     in if next_viewed_at \<noteq> vs_last_viewed_at v \<or> next_version \<noteq> vs_seen_version v
        then viewer_state_save False (Some [''last_viewed_at'', ''seen_publication_version''])
               (v\<lparr>vs_last_viewed_at := next_viewed_at, vs_seen_version := next_version\<rparr>)
        else returnT v)))"

definition mark_captured :: "uuid \<Rightarrow> time \<Rightarrow> unit dbtxn" where
  "mark_captured i at = writeT (render_auths_update (map (\<lambda>a.
     if ra_id a = i \<and> ra_captured_at a = None then a\<lparr>ra_captured_at := Some at\<rparr> else a)))"

definition capture_authorized_open :: "uuid \<Rightarrow> bool dbtxn" where
  "capture_authorized_open authorization_id =
     bindT (queryT (\<lambda>s. get_one_or_none
       (filter (\<lambda>a. ra_id a = authorization_id \<and> joined s a) (render_auths s)))) (\<lambda>authorization.
     case authorization of
       None \<Rightarrow> raiseT EnhancementAccessDenied
     | Some a \<Rightarrow>
     if ra_captured_at a \<noteq> None then returnT False
     else
     bindT (readT (authorization_can_source_open a)) (\<lambda>allowed.
     if \<not> allowed then raiseT EnhancementAccessDenied
     else case ra_publication_version a of
       None \<Rightarrow> raiseT AssertionError
     | Some version \<Rightarrow>
     bindT (tryT (bindT (open_save True None
         \<lparr>ao_id = 0, ao_source = ra_id a, ao_dashboard = ra_dashboard a, ao_viewer = ra_viewer a,
          ao_revision = ra_revision a, ao_publication_version = version,
          ao_opened_at = ra_created_at a, ao_aggregated_at = None\<rparr>) (\<lambda>_. returnT True))
         (\<lambda>e. if e = IntegrityError then returnT False else raiseT e)) (\<lambda>created.
     if \<not> created then returnT False
     else
     bindT (mark_captured (ra_id a) (ra_created_at a)) (\<lambda>_.
     bindT (advance_viewer_state (a\<lparr>ra_captured_at := Some (ra_created_at a)\<rparr>) version) (\<lambda>_.
     returnT True)))))"

section \<open>Aggregation\<close>

record aggregation_result =
  processed :: nat
  last_completed_open_id :: nat

definition locked_checkpoint :: "checkpoint dbtxn" where
  "locked_checkpoint =
     bindT (queryT (\<lambda>s. get_one_or_none
       (filter (\<lambda>c. ck_pipeline_key c = analytics_pipeline_key) (checkpoints s)))) (\<lambda>c.
     case c of
       Some c \<Rightarrow> returnT c
     | None \<Rightarrow>
         tryT (checkpoint_save True None
             \<lparr>ck_pipeline_key = analytics_pipeline_key, ck_last_open_id = 0, ck_updated_at = 0\<rparr>)
           (\<lambda>e. if e = IntegrityError
                then queryT (\<lambda>s. exactly_one
                  (filter (\<lambda>c. ck_pipeline_key c = analytics_pipeline_key) (checkpoints s)))
                else raiseT e))"

text \<open>The keys of a \<open>Counter\<close> or \<open>defaultdict\<close> filled in a loop: in order of first occurrence.\<close>

definition keys_in_order :: "('a \<Rightarrow> 'k) \<Rightarrow> 'a list \<Rightarrow> 'k list" where
  "keys_in_order key xs = rev (remdups (rev (map key xs)))"

definition open_day_key :: "authorized_open \<Rightarrow> uuid \<times> int" where
  "open_day_key e = (ao_dashboard e, day_of (ao_opened_at e))"

definition open_viewer_key :: "authorized_open \<Rightarrow> uuid \<times> uuid" where
  "open_viewer_key e = (ao_dashboard e, ao_viewer e)"

definition add_daily :: "uuid \<times> int \<Rightarrow> nat \<Rightarrow> open_daily dbtxn" where
  "add_daily k increment =
     bindT (queryT (\<lambda>s. get_one_or_none
       (filter (\<lambda>r. od_dashboard r = fst k \<and> od_day r = snd k) (open_dailies s)))) (\<lambda>rollup.
     case rollup of
       None \<Rightarrow> bindT next_serial (\<lambda>i.
         daily_insert \<lparr>od_id = i, od_dashboard = fst k, od_day = snd k, od_count = increment\<rparr>)
     | Some r \<Rightarrow> daily_update (r\<lparr>od_count := od_count r + increment\<rparr>))"

definition add_viewer :: "uuid \<times> uuid \<Rightarrow> authorized_open list \<Rightarrow> viewer_summary dbtxn" where
  "add_viewer k events =
     (let first = Min (set (map ao_opened_at events)); last' = Max (set (map ao_opened_at events)) in
     bindT (queryT (\<lambda>s. get_one_or_none
       (filter (\<lambda>r. vo_dashboard r = fst k \<and> vo_viewer r = snd k) (viewer_summaries s)))) (\<lambda>summary.
     case summary of
       None \<Rightarrow> bindT next_serial (\<lambda>i.
         summary_insert \<lparr>vo_id = i, vo_dashboard = fst k, vo_viewer = snd k,
           vo_count = length events, vo_first_opened_at = first, vo_last_opened_at = last'\<rparr>)
     | Some r \<Rightarrow> summary_update
         (r\<lparr>vo_count := vo_count r + length events,
            vo_first_opened_at := min (vo_first_opened_at r) first,
            vo_last_opened_at := max (vo_last_opened_at r) last'\<rparr>)))"

definition add_snapshot :: "uuid \<Rightarrow> authorized_open list \<Rightarrow> open_snapshot dbtxn" where
  "add_snapshot dashboard events =
     (let last' = Max (set (map ao_opened_at events)); through = Max (set (map ao_id events)) in
     bindT (queryT (\<lambda>s. get_one_or_none
       (filter (\<lambda>r. sn_dashboard r = dashboard) (open_snapshots s)))) (\<lambda>snapshot.
     case snapshot of
       None \<Rightarrow> bindT next_serial (\<lambda>i. bindT timezone_now (\<lambda>now.
         snapshot_insert \<lparr>sn_id = i, sn_dashboard = dashboard, sn_count = length events,
           sn_last_opened_at = last', sn_through_open_id = through, sn_updated_at = now\<rparr>))
     | Some r \<Rightarrow> bindT timezone_now (\<lambda>now. snapshot_update
         (r\<lparr>sn_count := sn_count r + length events,
            sn_last_opened_at := max (sn_last_opened_at r) last',
            sn_through_open_id := max (sn_through_open_id r) through,
            sn_updated_at := now\<rparr>))))"

definition mark_aggregated :: "nat list \<Rightarrow> time \<Rightarrow> unit dbtxn" where
  "mark_aggregated ids at = writeT (opens_update (map (\<lambda>e.
     if ao_id e \<in> set ids \<and> ao_aggregated_at e = None then e\<lparr>ao_aggregated_at := Some at\<rparr> else e)))"

definition pending_opens :: "time \<Rightarrow> nat \<Rightarrow> db \<Rightarrow> authorized_open list" where
  "pending_opens through bounded s =
     (let candidates = map ao_id (take bounded (order_by2 ao_opened_at (\<lambda>e. int (ao_id e))
            (filter (\<lambda>e. ao_aggregated_at e = None \<and> ao_opened_at e \<le> through) (opens s))))
      in order_by2 ao_opened_at (\<lambda>e. int (ao_id e))
           (filter (\<lambda>e. ao_id e \<in> set candidates \<and> ao_aggregated_at e = None) (opens s)))"

definition events_of :: "('a \<Rightarrow> 'k) \<Rightarrow> 'a list \<Rightarrow> 'k \<Rightarrow> 'a list" where
  "events_of key xs k = filter (\<lambda>e. key e = k) xs"

definition aggregate_authorized_opens :: "time \<Rightarrow> int \<Rightarrow> aggregation_result dbtxn" where
  "aggregate_authorized_opens through batch_size =
     bindT (queryT (\<lambda>s. bounded_batch_size batch_size)) (\<lambda>bounded.
     bindT timezone_now (\<lambda>aggregated_at.
     bindT locked_checkpoint (\<lambda>checkpoint.
     bindT (readT (pending_opens through bounded)) (\<lambda>es.
     if es = [] then returnT \<lparr>processed = 0, last_completed_open_id = ck_last_open_id checkpoint\<rparr>
     else
     bindT (forT (\<lambda>k. add_daily k (length (events_of open_day_key es k))) (keys_in_order open_day_key es)) (\<lambda>_.
     bindT (forT (\<lambda>k. add_viewer k (events_of open_viewer_key es k)) (keys_in_order open_viewer_key es)) (\<lambda>_.
     bindT (forT (\<lambda>k. add_snapshot k (events_of ao_dashboard es k)) (keys_in_order ao_dashboard es)) (\<lambda>_.
     bindT (mark_aggregated (map ao_id es) aggregated_at) (\<lambda>_.
     bindT (checkpoint_save False (Some [''last_completed_open_id'', ''updated_at''])
       (checkpoint\<lparr>ck_last_open_id := max (ck_last_open_id checkpoint) (Max (set (map ao_id es)))\<rparr>)) (\<lambda>checkpoint.
     returnT \<lparr>processed = length es, last_completed_open_id = ck_last_open_id checkpoint\<rparr>)))))))))"

section \<open>Retention\<close>

definition delete_opens :: "nat list \<Rightarrow> unit dbtxn" where
  "delete_opens ids = writeT (opens_update (filter (\<lambda>e. ao_id e \<notin> set ids)))"

definition removable_opens :: "time \<Rightarrow> nat \<Rightarrow> checkpoint \<Rightarrow> db \<Rightarrow> nat list" where
  "removable_opens before bounded checkpoint s =
     (let candidates = map ao_id (take bounded (order_by2 ao_opened_at (\<lambda>e. int (ao_id e))
            (filter (\<lambda>e. ao_opened_at e < before) (opens s))))
      in map ao_id (order_by2 ao_opened_at (\<lambda>e. int (ao_id e))
           (filter (\<lambda>e. ao_id e \<in> set candidates \<and> ao_aggregated_at e \<noteq> None
                      \<and> ao_id e \<le> ck_last_open_id checkpoint) (opens s))))"

definition purge_authorized_opens :: "time \<Rightarrow> int \<Rightarrow> nat dbtxn" where
  "purge_authorized_opens before batch_size =
     bindT (queryT (\<lambda>s. bounded_batch_size batch_size)) (\<lambda>bounded.
     bindT timezone_now (\<lambda>now.
     if before > now - days retention_days
     then raiseT (ValueError ''authorized opens must be retained for at least 90 days'')
     else
     bindT (queryT (\<lambda>s. get_one_or_none
       (filter (\<lambda>c. ck_pipeline_key c = analytics_pipeline_key) (checkpoints s)))) (\<lambda>checkpoint.
     case checkpoint of
       None \<Rightarrow> returnT 0
     | Some c \<Rightarrow>
     bindT (readT (removable_opens before bounded c)) (\<lambda>ids.
     if ids = [] then returnT 0
     else bindT (delete_opens ids) (\<lambda>_. returnT (length ids))))))"

section \<open>Rollup reads\<close>

definition dashboard_daily_authorized_opens ::
  "uuid \<Rightarrow> uuid \<Rightarrow> int \<Rightarrow> int \<Rightarrow> int \<Rightarrow> db \<Rightarrow> exn + open_daily list" where
  "dashboard_daily_authorized_opens dashboard_id owner_id start end' limit s =
     bindE (bounded_read_limit limit max_analytics_read_limit) (\<lambda>bounded.
     if end' < start then Inl (ValueError ''analytics date range is invalid'')
     else Inr (take bounded (order_by2 (\<lambda>r. - od_day r) (\<lambda>r. - int (od_id r))
       (filter (\<lambda>r. od_dashboard r = dashboard_id \<and> start \<le> od_day r \<and> od_day r \<le> end' \<and>
          (case dashboard_of s (od_dashboard r) of None \<Rightarrow> False
           | Some d \<Rightarrow> d_owner d = owner_id \<and> owner_active s d)) (open_dailies s)))))"

definition dashboard_viewer_authorized_open_summaries ::
  "uuid \<Rightarrow> uuid \<Rightarrow> int \<Rightarrow> db \<Rightarrow> exn + viewer_summary list" where
  "dashboard_viewer_authorized_open_summaries dashboard_id owner_id limit s =
     bindE (bounded_read_limit limit 100) (\<lambda>bounded.
     Inr (take bounded (order_by2 (\<lambda>r. - int (vo_count r)) (\<lambda>r. int (vo_viewer r))
       (filter (\<lambda>r. vo_dashboard r = dashboard_id \<and>
          (case dashboard_of s (vo_dashboard r) of None \<Rightarrow> False
           | Some d \<Rightarrow> d_owner d = owner_id \<and> owner_active s d)) (viewer_summaries s)))))"

definition popular_authorized_dashboard_snapshots ::
  "uuid \<Rightarrow> int \<Rightarrow> db \<Rightarrow> exn + open_snapshot list" where
  "popular_authorized_dashboard_snapshots principal_id limit s =
     bindE (bounded_read_limit limit 100) (\<lambda>bounded.
     let candidates = map g_dashboard (take max_popular_candidate_grants
           (order_by2 (\<lambda>g. - g_created_at g) (\<lambda>g. - int (g_id g))
             (filter (\<lambda>g. g_viewer g = principal_id \<and> user_active s principal_id
                        \<and> g_revoked_at g = None) (grants s))))
     in Inr (take bounded (order_by2 (\<lambda>r. - int (sn_count r)) (\<lambda>r. int (sn_dashboard r))
       (filter (\<lambda>r. sn_dashboard r \<in> set candidates \<and>
          (case dashboard_of s (sn_dashboard r) of None \<Rightarrow> False
           | Some d \<Rightarrow> d_state d = PUBLISHED \<and> d_published_revision d \<noteq> None)) (open_snapshots s)))))"

end
