(* ===== verification/Render_Auth.thy ===== *)
theory Render_Auth
  imports Analytics
begin

text \<open>
  Short-lived render credentials (\<open>rendering/authorization.py\<close>): issued by the portal, resolved
  from the current database state on every request of the content origin. \<open>sha256\<close> is
  \<open>hashlib.sha256(...).hexdigest()\<close>, an argument of the definitions; \<open>ttl\<close> is
  \<open>settings.AGORA_RENDER_AUTH_TTL_SECONDS\<close>.
\<close>

section \<open>Credentials\<close>

record render_credential =
  rc_token :: "text"
  rc_audience :: audience
  rc_expires_at :: time

record authorized_render =
  rr_authorization :: render_auth
  rr_dashboard :: dashboard
  rr_revision :: revision
  rr_viewer :: user

definition audience_value :: "audience \<Rightarrow> string" where
  "audience_value a = (case a of PREVIEW \<Rightarrow> ''preview'' | VIEWER \<Rightarrow> ''viewer'')"

definition token_char :: "nat \<Rightarrow> bool" where
  "token_char c \<longleftrightarrow> (65 \<le> c \<and> c \<le> 90) \<or> (97 \<le> c \<and> c \<le> 122) \<or> (48 \<le> c \<and> c \<le> 57) \<or> c = 95 \<or> c = 45"

definition token_pattern :: "text \<Rightarrow> bool" where
  "token_pattern t \<longleftrightarrow> length t = 43 \<and> list_all token_char t"

definition token_attempts :: nat where
  "token_attempts = 3"

section \<open>Issuing\<close>

text \<open>The row \<open>_create_authorization\<close> builds for a token and a key.\<close>

definition authorization_row ::
  "text \<Rightarrow> uuid \<Rightarrow> dashboard \<Rightarrow> revision \<Rightarrow> user \<Rightarrow> grant option \<Rightarrow> audience \<Rightarrow> time \<Rightarrow> render_auth" where
  "authorization_row digest i dashboard revision viewer viewer_grant audience expires_at =
     \<lparr>ra_id = i, ra_token_digest = digest, ra_audience = audience,
      ra_viewer = u_id viewer, ra_viewer_auth_version = u_auth_version viewer,
      ra_dashboard = d_id dashboard, ra_revision = r_id revision,
      ra_viewer_grant = map_option g_id viewer_grant,
      ra_owner_epoch = (if viewer_grant = None then d_last_transfer dashboard else None),
      ra_publication_version =
        (if audience = VIEWER then Some (d_publication_version dashboard) else None),
      ra_created_at = 0, ra_expires_at = expires_at, ra_revoked_at = None,
      ra_captured_at = None\<rparr>"

text \<open>
  \<open>_create_authorization\<close>: up to three tokens; a digest (or key) collision is rolled back to the
  savepoint and another token drawn.
\<close>

primrec create_authorization ::
  "(text \<Rightarrow> text) \<Rightarrow> nat \<Rightarrow> dashboard \<Rightarrow> revision \<Rightarrow> user \<Rightarrow> grant option \<Rightarrow> audience \<Rightarrow> time
    \<Rightarrow> (render_credential \<times> render_auth) dbtxn" where
  "create_authorization sha256 0 dashboard revision viewer viewer_grant audience expires_at =
     raiseT RenderAuthorizationUnavailable"
| "create_authorization sha256 (Suc n) dashboard revision viewer viewer_grant audience expires_at =
     bindT draw_secret (\<lambda>token.
     bindT uuid4 (\<lambda>i.
     bindT (tryT (bindT (render_auth_save True None
         (authorization_row (sha256 token) i dashboard revision viewer viewer_grant audience expires_at)) (\<lambda>a. returnT (Some a)))
       (\<lambda>e. if e = IntegrityError then returnT None else raiseT e)) (\<lambda>created.
     case created of
       Some a \<Rightarrow> returnT (\<lparr>rc_token = token, rc_audience = audience, rc_expires_at = expires_at\<rparr>, a)
     | None \<Rightarrow> create_authorization sha256 n dashboard revision viewer viewer_grant audience expires_at)))"

definition issue_owner_preview ::
  "(text \<Rightarrow> text) \<Rightarrow> int \<Rightarrow> uuid \<Rightarrow> uuid \<Rightarrow> uuid \<Rightarrow> time option \<Rightarrow> render_credential dbtxn" where
  "issue_owner_preview sha256 ttl dashboard_id revision_id viewer_id now =
     bindT (now_or now) (\<lambda>issued_at.
     bindT (queryT (\<lambda>s. get_one_or_none
       (filter (\<lambda>d. d_id d = dashboard_id \<and> d_state d \<notin> {ARCHIVED, DELETED}) (dashboards s)))) (\<lambda>dashboard.
     bindT (queryT (active_user viewer_id)) (\<lambda>viewer.
     bindT (readT (\<lambda>s. first_row (sort_key r_id (filter
       (\<lambda>r. r_id r = revision_id \<and> r_dashboard r = dashboard_id \<and> r_artifacts_locked r)
       (revisions s))))) (\<lambda>revision.
     case (dashboard, viewer, revision) of
       (Some dashboard, Some viewer, Some revision) \<Rightarrow>
         if d_owner dashboard \<noteq> u_id viewer then raiseT RenderAuthorizationDenied
         else
         bindT (create_authorization sha256 token_attempts dashboard revision viewer None PREVIEW
           (issued_at + seconds ttl)) (\<lambda>(credential, _).
         bindT (audit_create ''dashboard.preview_started'' (Some (u_id viewer)) (Some (d_id dashboard))
           (Some (r_id revision)) None [(''audience'', MStr (audience_value PREVIEW))]) (\<lambda>_.
         returnT credential))
     | _ \<Rightarrow> raiseT RenderAuthorizationDenied))))"

definition issue_published_view ::
  "(text \<Rightarrow> text) \<Rightarrow> int \<Rightarrow> uuid \<Rightarrow> uuid \<Rightarrow> time option \<Rightarrow> render_credential dbtxn" where
  "issue_published_view sha256 ttl dashboard_id viewer_id now =
     bindT (now_or now) (\<lambda>issued_at.
     bindT (queryT (\<lambda>s. get_one_or_none
       (filter (\<lambda>d. d_id d = dashboard_id \<and> d_state d = PUBLISHED \<and> d_published_revision d \<noteq> None)
          (dashboards s)))) (\<lambda>dashboard.
     bindT (queryT (active_user viewer_id)) (\<lambda>viewer.
     bindT (readT (\<lambda>s. Option.bind dashboard (\<lambda>d. Option.bind (d_published_revision d) (revision_of s)))) (\<lambda>revision.
     case (dashboard, viewer, revision) of
       (Some dashboard, Some viewer, Some revision) \<Rightarrow>
         bindT (readT (\<lambda>s. if d_owner dashboard \<noteq> u_id viewer
           then active_viewer_grant (d_id dashboard) (u_id viewer) s else None)) (\<lambda>g.
         bindT (readT (user_can_view_published dashboard viewer g)) (\<lambda>allowed.
         if \<not> allowed then raiseT RenderAuthorizationDenied
         else
         bindT (create_authorization sha256 token_attempts dashboard revision viewer g VIEWER
           (issued_at + seconds ttl)) (\<lambda>(credential, authorization).
         bindT (tryT (capture_authorized_open (ra_id authorization))
           (\<lambda>e. if e = EnhancementAccessDenied then raiseT RenderAuthorizationDenied else raiseT e)) (\<lambda>captured.
         if \<not> captured then raiseT RenderAuthorizationUnavailable
         else returnT credential))))
     | _ \<Rightarrow> raiseT RenderAuthorizationDenied))))"

section \<open>Resolving\<close>

definition authorization_is_current :: "db \<Rightarrow> render_auth \<Rightarrow> time \<Rightarrow> bool" where
  "authorization_is_current s a checked_at =
     (case (user_of s (ra_viewer a), dashboard_of s (ra_dashboard a), revision_of s (ra_revision a)) of
        (Some viewer, Some dashboard, Some revision) \<Rightarrow>
          if ra_revoked_at a \<noteq> None \<or> ra_expires_at a \<le> checked_at \<or> \<not> u_is_active viewer
             \<or> u_auth_version viewer \<noteq> ra_viewer_auth_version a
             \<or> \<not> r_artifacts_locked revision \<or> r_dashboard revision \<noteq> ra_dashboard a
          then False
          else if ra_audience a = PREVIEW
          then ra_viewer_grant a = None \<and> d_owner dashboard = ra_viewer a
               \<and> ra_owner_epoch a = d_last_transfer dashboard
               \<and> d_state dashboard \<notin> {ARCHIVED, DELETED}
          else if d_published_revision dashboard \<noteq> Some (ra_revision a) then False
          else if Some (d_publication_version dashboard) \<noteq> ra_publication_version a then False
          else if d_owner dashboard = ra_viewer a
          then ra_viewer_grant a = None \<and> ra_owner_epoch a = d_last_transfer dashboard
          else if ra_viewer_grant a = None \<or> ra_owner_epoch a \<noteq> None then False
          else user_can_view_published dashboard viewer (Option.bind (ra_viewer_grant a) (grant_of s)) s
      | _ \<Rightarrow> False)"

definition resolve_render_authorization ::
  "(text \<Rightarrow> text) \<Rightarrow> text \<Rightarrow> string \<Rightarrow> time option \<Rightarrow> authorized_render dbtxn" where
  "resolve_render_authorization sha256 token audience now =
     bindT (now_or now) (\<lambda>checked_at.
     if \<not> token_pattern token then raiseT RenderAuthorizationDenied
     else
     bindT (readT (\<lambda>s. first_row (sort_key ra_id (filter
       (\<lambda>a. ra_token_digest a = sha256 token \<and> audience_value (ra_audience a) = audience \<and> joined s a)
       (render_auths s))))) (\<lambda>authorization.
     case authorization of
       None \<Rightarrow> raiseT RenderAuthorizationDenied
     | Some a \<Rightarrow>
     bindT (readT (\<lambda>s. authorization_is_current s a checked_at)) (\<lambda>current.
     if \<not> current then raiseT RenderAuthorizationDenied
     else
     queryT (\<lambda>s. case (dashboard_of s (ra_dashboard a), revision_of s (ra_revision a), user_of s (ra_viewer a)) of
       (Some dashboard, Some revision, Some viewer) \<Rightarrow>
         Inr \<lparr>rr_authorization = a, rr_dashboard = dashboard, rr_revision = revision, rr_viewer = viewer\<rparr>
     | _ \<Rightarrow> Inl DoesNotExist))))"

definition revoke_render_authorization :: "uuid \<Rightarrow> time option \<Rightarrow> unit dbtxn" where
  "revoke_render_authorization authorization_id now =
     bindT (now_or now) (\<lambda>revoked_at.
     bindT (queryT (\<lambda>s. get_one_or_none (filter (\<lambda>a. ra_id a = authorization_id) (render_auths s)))) (\<lambda>authorization.
     case authorization of
       None \<Rightarrow> returnT ()
     | Some a \<Rightarrow>
     if ra_revoked_at a \<noteq> None then returnT ()
     else bindT (render_auth_save False (Some [''revoked_at'']) (a\<lparr>ra_revoked_at := Some revoked_at\<rparr>)) (\<lambda>_.
       returnT ())))"

section \<open>What issuing writes\<close>

lemma create_authorization_Inr:
  assumes "create_authorization sha256 n dash rv viewer g audience expires s = Inr ((c, a), t)"
  shows "\<exists>i m. c = \<lparr>rc_token = secrets s (secret_draws s + m), rc_audience = audience, rc_expires_at = expires\<rparr> \<and>
     m < n \<and> render_auth_save True None
       (authorization_row (sha256 (rc_token c)) i dash rv viewer g audience expires)
       (s\<lparr>secret_draws := secret_draws s + Suc m, uuid_draws := uuid_draws s + Suc m\<rparr>) = Inr (a, t)"
  using assms
proof (induction n arbitrary: s)
  case 0
  then show ?case by simp
next
  case (Suc n)
  let ?m = "s\<lparr>secret_draws := Suc (secret_draws s), uuid_draws := Suc (uuid_draws s)\<rparr>"
  let ?row = "authorization_row (sha256 (secrets s (secret_draws s))) (uuids s (uuid_draws s)) dash rv viewer g audience expires"
  show ?case
  proof (cases "render_auth_save True None ?row ?m")
    case (Inr r)
    then show ?thesis
      using Suc.prems 
      by (cases r, intro exI [of _ "uuids s (uuid_draws s)"] exI [of _ 0])
        (auto simp: txn_run environment_run)
  next
    case (Inl e)
    then have "create_authorization sha256 n dash rv viewer g audience expires ?m = Inr ((c, a), t)"
      using Suc.prems by (auto simp: txn_run environment_run split: if_split_asm)
    from Suc.IH [OF this] obtain i m where
      "c = \<lparr>rc_token = secrets s (Suc (secret_draws s) + m), rc_audience = audience, rc_expires_at = expires\<rparr>"
      "m < n" "render_auth_save True None
       (authorization_row (sha256 (rc_token c)) i dash rv viewer g audience expires)
       (s\<lparr>secret_draws := Suc (secret_draws s) + Suc m, uuid_draws := Suc (uuid_draws s) + Suc m\<rparr>) = Inr (a, t)"
      by auto
    then show ?thesis by (intro exI [of _ i] exI [of _ "Suc m"]) simp
  qed
qed

lemma issue_owner_preview_Inr:
  assumes "issue_owner_preview sha256 ttl d i v now s = Inr (c, t)"
  obtains at k dash viewer revision a m e where
    "now_or now s = Inr (at, s\<lparr>ticks := k\<rparr>)"
    "dash \<in> set (dashboards s)" "d_id dash = d" "d_state dash \<notin> {ARCHIVED, DELETED}" "d_owner dash = v"
    "viewer \<in> set (users s)" "u_id viewer = v" "u_is_active viewer"
    "revision \<in> set (revisions s)" "r_id revision = i" "r_dashboard revision = d" "r_artifacts_locked revision"
    "create_authorization sha256 token_attempts dash revision viewer None PREVIEW (at + seconds ttl)
       (s\<lparr>ticks := k\<rparr>) = Inr ((c, a), m)"
    "audit_create ''dashboard.preview_started'' (Some v) (Some d) (Some i) None
       [(''audience'', MStr (audience_value PREVIEW))] m = Inr (e, t)"
proof -
  obtain at s1 where n: "now_or now s = Inr (at, s1)"
    using assms unfolding issue_owner_preview_def by (auto simp: bindT_eq_Inr)
  obtain k where s1: "s1 = s\<lparr>ticks := k\<rparr>" using now_or_Inr [OF n] by blast
  define body where "body dashboard viewer revision = (
     case (dashboard, viewer, revision) of
       (Some dashboard, Some viewer, Some revision) \<Rightarrow>
         if d_owner dashboard \<noteq> u_id viewer then raiseT RenderAuthorizationDenied
         else
         bindT (create_authorization sha256 token_attempts dashboard revision viewer None PREVIEW
           (at + seconds ttl)) (\<lambda>(credential, _).
         bindT (audit_create ''dashboard.preview_started'' (Some (u_id viewer)) (Some (d_id dashboard))
           (Some (r_id revision)) None [(''audience'', MStr (audience_value PREVIEW))]) (\<lambda>_.
         returnT credential))
     | _ \<Rightarrow> raiseT RenderAuthorizationDenied)" for dashboard viewer revision
  obtain dO vO where
    fd': "get_one_or_none (filter (\<lambda>x. d_id x = d \<and> d_state x \<notin> {ARCHIVED, DELETED}) (dashboards s1)) = Inr dO"
    and fv': "get_one_or_none (filter (\<lambda>u. u_id u = v \<and> u_is_active u) (users s1)) = Inr vO"
    and rest: "body dO vO (first_row (sort_key r_id (filter
       (\<lambda>r. r_id r = i \<and> r_dashboard r = d \<and> r_artifacts_locked r) (revisions s1)))) s1 = Inr (c, t)"
    using assms unfolding issue_owner_preview_def active_user_def body_def bindT_run [of "now_or now", OF n]
    by (simp only: bindT_eq_Inr queryT_eq_Inr readT_eq_Inr) blast
  have "dO \<noteq> None" "vO \<noteq> None" and fr0: "first_row (sort_key r_id (filter
       (\<lambda>r. r_id r = i \<and> r_dashboard r = d \<and> r_artifacts_locked r) (revisions s1))) \<noteq> None"
    using rest unfolding body_def by (auto simp del: first_row_None split: option.split_asm)
  with fd' fv' obtain dash viewer revision where
    fd: "filter (\<lambda>x. d_id x = d \<and> d_state x \<notin> {ARCHIVED, DELETED}) (dashboards s) = [dash]"
    and fv: "filter (\<lambda>u. u_id u = v \<and> u_is_active u) (users s) = [viewer]"
    and fr: "first_row (sort_key r_id (filter
       (\<lambda>r. r_id r = i \<and> r_dashboard r = d \<and> r_artifacts_locked r) (revisions s))) = Some revision"
    and rest2: "body (Some dash) (Some viewer) (Some revision) s1 = Inr (c, t)"
    using rest by (auto simp: s1 simp del: first_row_None)
  note D = filter_singleD [OF fd] filter_singleD [OF fv]
  have "revision \<in> set (sort_key r_id (filter
       (\<lambda>r. r_id r = i \<and> r_dashboard r = d \<and> r_artifacts_locked r) (revisions s)))"
    using fr unfolding first_row_def
    by (cases "sort_key r_id (filter
       (\<lambda>r. r_id r = i \<and> r_dashboard r = d \<and> r_artifacts_locked r) (revisions s))") simp_all
  then have R: "revision \<in> set (revisions s)" "r_id revision = i" "r_dashboard revision = d"
    "r_artifacts_locked revision" by simp_all
  have own: "d_owner dash = u_id viewer"
    using rest2 unfolding body_def by (auto split: if_split_asm)
  obtain a m e where
    "create_authorization sha256 token_attempts dash revision viewer None PREVIEW (at + seconds ttl) s1
      = Inr ((c, a), m)"
    "audit_create ''dashboard.preview_started'' (Some (u_id viewer)) (Some (d_id dash))
       (Some (r_id revision)) None [(''audience'', MStr (audience_value PREVIEW))] m = Inr (e, t)"
    using rest2 own unfolding body_def by (auto simp: bindT_eq_Inr returnT_eq_Inr)
  then show thesis using n D R own unfolding s1 by (intro that) auto
qed

lemma issue_published_view_Inr:
  assumes "issue_published_view sha256 ttl d v now s = Inr (c, t)"
  obtains at k dash viewer revision g a m where
    "now_or now s = Inr (at, s\<lparr>ticks := k\<rparr>)"
    "dash \<in> set (dashboards s)" "d_id dash = d" "d_state dash = PUBLISHED"
    "d_published_revision dash = Some (r_id revision)" "revision_of s (r_id revision) = Some revision"
    "viewer \<in> set (users s)" "u_id viewer = v" "u_is_active viewer"
    "g = (if d_owner dash \<noteq> v then active_viewer_grant d v s else None)"
    "user_can_view_published dash viewer g s"
    "create_authorization sha256 token_attempts dash revision viewer g VIEWER (at + seconds ttl)
       (s\<lparr>ticks := k\<rparr>) = Inr ((c, a), m)"
    "capture_authorized_open (ra_id a) m = Inr (True, t)"
proof -
  obtain at s1 where n: "now_or now s = Inr (at, s1)"
    using assms unfolding issue_published_view_def by (auto simp: bindT_eq_Inr)
  obtain k where s1: "s1 = s\<lparr>ticks := k\<rparr>" using now_or_Inr [OF n] by blast
  define h where "h e = (if e = EnhancementAccessDenied then raiseT RenderAuthorizationDenied
      else raiseT e :: bool dbtxn)" for e
  have h: "h e u \<noteq> Inr x" for e u x by (simp add: h_def)
  define body where "body dashboard viewer revision = (
     case (dashboard, viewer, revision) of
       (Some dashboard, Some viewer, Some revision) \<Rightarrow>
         bindT (readT (\<lambda>s. if d_owner dashboard \<noteq> u_id viewer
           then active_viewer_grant (d_id dashboard) (u_id viewer) s else None)) (\<lambda>g.
         bindT (readT (user_can_view_published dashboard viewer g)) (\<lambda>allowed.
         if \<not> allowed then raiseT RenderAuthorizationDenied
         else
         bindT (create_authorization sha256 token_attempts dashboard revision viewer g VIEWER
           (at + seconds ttl)) (\<lambda>(credential, authorization).
         bindT (tryT (capture_authorized_open (ra_id authorization)) h) (\<lambda>captured.
         if \<not> captured then raiseT RenderAuthorizationUnavailable
         else returnT credential))))
     | _ \<Rightarrow> raiseT RenderAuthorizationDenied)" for dashboard viewer revision
  obtain dO vO where
    fd': "get_one_or_none (filter (\<lambda>x. d_id x = d \<and> d_state x = PUBLISHED \<and> d_published_revision x \<noteq> None)
       (dashboards s1)) = Inr dO"
    and fv': "get_one_or_none (filter (\<lambda>u. u_id u = v \<and> u_is_active u) (users s1)) = Inr vO"
    and rest: "body dO vO (Option.bind dO (\<lambda>d. Option.bind (d_published_revision d) (revision_of s1))) s1 = Inr (c, t)"
    using assms unfolding issue_published_view_def active_user_def body_def h_def bindT_run [of "now_or now", OF n]
    by (simp only: bindT_eq_Inr queryT_eq_Inr readT_eq_Inr) blast
  have "dO \<noteq> None" "vO \<noteq> None"
    and fr0: "Option.bind dO (\<lambda>d. Option.bind (d_published_revision d) (revision_of s1)) \<noteq> None"
    using rest unfolding body_def by (auto simp del: first_row_None split: option.split_asm)
  with fd' fv' obtain dash viewer revision where
    fd: "filter (\<lambda>x. d_id x = d \<and> d_state x = PUBLISHED \<and> d_published_revision x \<noteq> None) (dashboards s) = [dash]"
    and fv: "filter (\<lambda>u. u_id u = v \<and> u_is_active u) (users s) = [viewer]"
    and fr: "Option.bind (d_published_revision dash) (revision_of s1) = Some revision"
    and rest2: "body (Some dash) (Some viewer) (Some revision) s1 = Inr (c, t)"
    using rest by (auto simp: s1 simp del: first_row_None)
  note D = filter_singleD [OF fd] filter_singleD [OF fv]
  obtain i where i: "d_published_revision dash = Some i" "revision_of s i = Some revision"
    using fr unfolding s1 revision_of_def by (cases "d_published_revision dash") auto
  then have ri: "r_id revision = i" by (auto simp: revision_of_def dest: find_keyD)
  define g where "g = (if d_owner dash \<noteq> v then active_viewer_grant d v s else None)"
  have reads: "active_viewer_grant x y s1 = active_viewer_grant x y s"
    "user_can_view_published dash viewer z s1 = user_can_view_published dash viewer z s" for x y z
    unfolding s1 active_viewer_grant_def user_can_view_published_def has_active_viewer_grant_def
    by (simp_all cong: option.case_cong)
  have ok: "user_can_view_published dash viewer g s"
    using rest2 D reads unfolding body_def g_def
    by (simp add: bindT_eq_Inr readT_eq_Inr) (auto split: if_split_asm)
  obtain a m where "create_authorization sha256 token_attempts dash revision viewer g VIEWER
      (at + seconds ttl) s1 = Inr ((c, a), m)"
    and "tryT (capture_authorized_open (ra_id a)) h m = Inr (True, t)"
    using rest2 D reads ok unfolding body_def g_def
    by (auto simp: bindT_eq_Inr readT_eq_Inr returnT_eq_Inr split: if_split_asm)
  then show thesis
    using n D i ri ok unfolding s1
    by (intro that [of at k dash revision viewer g a m]) (auto simp: g_def tryT_eq_Inr h)
qed

end
