(* ===== verification/Authentication.thy ===== *)
theory Authentication
  imports Render_Auth "HOL-Library.List_Lexorder"
begin

text \<open>
  The identity services of \<open>core/authentication.py\<close>: throttled login, bootstrap of the first
  administrator, provisioning, disabling, enabling and password reset.

  The password hashers and validators, the keyed hash and the authentication backend are Django's;
  the record \<open>identity_env\<close> carries them as arguments.
\<close>

section \<open>The services Django provides\<close>

record identity_env =
  salted_hmac :: "string \<Rightarrow> text \<Rightarrow> text"
  make_password :: "text \<Rightarrow> text \<Rightarrow> text"
  validate_password :: "text \<Rightarrow> user \<Rightarrow> bool"
  django_authenticate :: "db \<Rightarrow> text \<Rightarrow> text \<Rightarrow> user option"
  uuid_text :: "uuid \<Rightarrow> text"

text \<open>
  The documented behaviour of the model backend: it returns an active stored user with the given
  natural key.
\<close>

definition backend_sound :: "identity_env \<Rightarrow> bool" where
  "backend_sound env \<longleftrightarrow> (\<forall>s soeid pw u. django_authenticate env s soeid pw = Some u \<longrightarrow>
     u \<in> set (users s) \<and> u_soeid u = soeid \<and> u_is_active u)"

section \<open>Constants\<close>

definition max_password_length :: nat where
  "max_password_length = 256"

definition auth_failure_limit :: nat where
  "auth_failure_limit = 5"

definition auth_failure_window :: time where
  "auth_failure_window = minutes 15"

definition auth_lockout_duration :: time where
  "auth_lockout_duration = minutes 1"

definition throttle_bucket_salt :: string where
  "throttle_bucket_salt = ''agora.persistence.authentication.throttle''"

section \<open>Helpers\<close>

definition try_canonicalize :: "text \<Rightarrow> exn + text option" where
  "try_canonicalize value =
     (case canonicalize_soeid value of
        Inl (InvalidSoeid m) \<Rightarrow> Inr None
      | Inl e \<Rightarrow> Inl e
      | Inr v \<Rightarrow> Inr (Some v))"

definition set_validated_password :: "identity_env \<Rightarrow> user \<Rightarrow> text \<Rightarrow> user dbtxn" where
  "set_validated_password env user password =
     (if length password > max_password_length then raiseT PasswordPolicyError
      else if \<not> validate_password env password user then raiseT PasswordPolicyError
      else bindT draw_secret (\<lambda>salt. returnT (user\<lparr>u_password := make_password env salt password\<rparr>)))"

definition require_administrator :: "uuid \<Rightarrow> db \<Rightarrow> exn + user" where
  "require_administrator actor_id s =
     bindE (get_one_or_none (filter (\<lambda>u. u_id u = actor_id) (users s))) (\<lambda>actor.
     case actor of
       None \<Rightarrow> Inl NotAdministrator
     | Some a \<Rightarrow> if \<not> u_is_active a \<or> \<not> u_is_administrator a then Inl NotAdministrator else Inr a)"

definition record_audit_event :: "string \<Rightarrow> user option \<Rightarrow> user option \<Rightarrow> audit_event dbtxn" where
  "record_audit_event event_type actor target =
     audit_create event_type (map_option u_id actor) None None (map_option u_id target) []"

definition remote_address :: "text option \<Rightarrow> text" where
  "remote_address meta = (case meta of None \<Rightarrow> cps ''unknown'' | Some a \<Rightarrow> if a = [] then cps ''unknown'' else a)"

definition bucket_hash :: "identity_env \<Rightarrow> string \<Rightarrow> text \<Rightarrow> text" where
  "bucket_hash env scope value = salted_hmac env throttle_bucket_salt (cps scope @ cps '':'' @ value)"

section \<open>Login throttling\<close>

definition throttle_get_or_create :: "text \<Rightarrow> time \<Rightarrow> throttle dbtxn" where
  "throttle_get_or_create hash now =
     (let get = queryT (\<lambda>s. exactly_one (filter (\<lambda>b. lt_bucket_hash b = hash) (throttles s)))
      in tryT get (\<lambda>e.
         if e \<noteq> DoesNotExist then raiseT e
         else tryT (bindT timezone_now (\<lambda>t. bindT next_serial (\<lambda>i. throttle_insert
                \<lparr>lt_id = i, lt_bucket_hash = hash, lt_window_started_at = now,
                 lt_failed_attempts = 0, lt_blocked_until = None, lt_updated_at = t\<rparr>)))
           (\<lambda>e. if e = IntegrityError then tryT get (\<lambda>_. raiseT e) else raiseT e)))"

definition lock_throttle_bucket :: "time \<Rightarrow> text \<Rightarrow> throttle dbtxn" where
  "lock_throttle_bucket now hash =
     bindT (throttle_get_or_create hash now) (\<lambda>created.
     bindT (stored throttles lt_id (lt_id created)) (\<lambda>bucket.
     if now - lt_window_started_at bucket \<ge> auth_failure_window
     then throttle_save (Some [''window_started_at'', ''failed_attempts'', ''blocked_until'', ''updated_at''])
            (bucket\<lparr>lt_window_started_at := now, lt_failed_attempts := 0, lt_blocked_until := None\<rparr>)
     else if (case lt_blocked_until bucket of None \<Rightarrow> False | Some t \<Rightarrow> t \<le> now)
     then throttle_save (Some [''blocked_until'', ''updated_at'']) (bucket\<lparr>lt_blocked_until := None\<rparr>)
     else returnT bucket))"

definition lock_throttle_buckets :: "text list \<Rightarrow> time \<Rightarrow> throttle list dbtxn" where
  "lock_throttle_buckets hashes now = forT (lock_throttle_bucket now) (sort (remdups hashes))"

definition failed_bucket :: "time \<Rightarrow> throttle \<Rightarrow> throttle" where
  "failed_bucket now bucket =
     (let n = min (lt_failed_attempts bucket + 1) auth_failure_limit in
      bucket\<lparr>lt_failed_attempts := n,
             lt_blocked_until := (if n \<ge> auth_failure_limit then Some (now + auth_lockout_duration)
                                  else lt_blocked_until bucket)\<rparr>)"

definition register_failure :: "throttle list \<Rightarrow> time \<Rightarrow> unit dbtxn" where
  "register_failure buckets now =
     bindT (forT (\<lambda>bucket. throttle_save (Some [''failed_attempts'', ''blocked_until'', ''updated_at''])
       (failed_bucket now bucket)) buckets) (\<lambda>_. returnT ())"

definition blocked :: "time \<Rightarrow> throttle \<Rightarrow> bool" where
  "blocked now bucket \<longleftrightarrow> (case lt_blocked_until bucket of None \<Rightarrow> False | Some t \<Rightarrow> t > now)"

definition delete_throttles :: "text list \<Rightarrow> unit dbtxn" where
  "delete_throttles hashes =
     writeT (throttles_update (filter (\<lambda>b. lt_bucket_hash b \<notin> set hashes)))"

text \<open>\<open>_dummy_password_work\<close> spends time and changes nothing, so it has no counterpart.\<close>

definition authenticate_login ::
  "identity_env \<Rightarrow> text option \<Rightarrow> text \<Rightarrow> text \<Rightarrow> user option dbtxn" where
  "authenticate_login env meta soeid password =
     bindT (queryT (\<lambda>s. try_canonicalize soeid)) (\<lambda>canonical.
     bindT (readT (\<lambda>s. case canonical of
         None \<Rightarrow> None
       | Some c \<Rightarrow> first_row (sort_key u_id (filter (\<lambda>u. u_soeid u = c) (users s))))) (\<lambda>known_user.
     let supplied_password = take max_password_length password;
         hashes = bucket_hash env ''ip'' (remote_address meta) #
           (case known_user of None \<Rightarrow> [] | Some u \<Rightarrow> [bucket_hash env ''user'' (uuid_text env (u_id u))])
     in
     bindT timezone_now (\<lambda>now.
     bindT (lock_throttle_buckets hashes now) (\<lambda>buckets.
     if list_ex (blocked now) buckets then returnT None
     else
     bindT (readT (\<lambda>s. case canonical of
         None \<Rightarrow> None
       | Some c \<Rightarrow> if length password \<le> max_password_length
           then django_authenticate env s c supplied_password else None)) (\<lambda>user.
     case user of
       None \<Rightarrow> bindT (register_failure buckets now) (\<lambda>_. returnT None)
     | Some user \<Rightarrow>
         bindT (delete_throttles hashes) (\<lambda>_.
         bindT (record_audit_event ''auth.login.succeeded'' (Some user) None) (\<lambda>_.
         returnT (Some user))))))))"

section \<open>Identity administration\<close>

definition bootstrap_first_administrator :: "identity_env \<Rightarrow> text \<Rightarrow> text \<Rightarrow> user dbtxn" where
  "bootstrap_first_administrator env soeid password =
     bindT (readT users) (\<lambda>existing.
     if existing \<noteq> [] then raiseT BootstrapAlreadyComplete
     else
     bindT (queryT (\<lambda>s. canonicalize_soeid soeid)) (\<lambda>canonical.
     bindT uuid4 (\<lambda>i.
     bindT (set_validated_password env ((new_user i canonical)\<lparr>u_is_administrator := True\<rparr>) password) (\<lambda>user.
     bindT (user_save True None user) (\<lambda>user.
     bindT (record_audit_event ''auth.bootstrap'' None (Some user)) (\<lambda>_.
     returnT user))))))"

definition provision_user :: "identity_env \<Rightarrow> uuid \<Rightarrow> text \<Rightarrow> text \<Rightarrow> bool \<Rightarrow> user dbtxn" where
  "provision_user env actor_id soeid password is_administrator =
     bindT (queryT (\<lambda>s. canonicalize_soeid soeid)) (\<lambda>canonical.
     bindT (queryT (require_administrator actor_id)) (\<lambda>actor.
     bindT uuid4 (\<lambda>i.
     bindT (set_validated_password env
       ((new_user i canonical)\<lparr>u_is_administrator := is_administrator\<rparr>) password) (\<lambda>user.
     bindT (tryT (user_save True None user) (\<lambda>e.
         if (case e of IntegrityError \<Rightarrow> True | ValidationError _ \<Rightarrow> True | ImmutableRecordError _ \<Rightarrow> True
             | _ \<Rightarrow> False)
         then bindT (readT (\<lambda>s. has_row (\<lambda>u. u_soeid u = canonical) (users s))) (\<lambda>duplicate.
           if duplicate then raiseT DuplicateSoeid else raiseT e)
         else raiseT e)) (\<lambda>user.
     bindT (record_audit_event ''user.created'' (Some actor) (Some user)) (\<lambda>_.
     returnT user))))))"

definition active_administrators :: "db \<Rightarrow> user list" where
  "active_administrators s =
     sort_key u_id (filter (\<lambda>u. u_is_active u \<and> u_is_administrator u) (users s))"

definition disable_user :: "uuid \<Rightarrow> uuid \<Rightarrow> user dbtxn" where
  "disable_user actor_id target_id =
     bindT (readT active_administrators) (\<lambda>administrators.
     case find (\<lambda>u. u_id u = actor_id) administrators of
       None \<Rightarrow> raiseT NotAdministrator
     | Some actor \<Rightarrow>
     bindT (queryT (\<lambda>s. get_one_or_none (filter (\<lambda>u. u_id u = target_id) (users s)))) (\<lambda>target.
     case target of
       None \<Rightarrow> raiseT UserNotFound
     | Some target \<Rightarrow>
     if u_id target = u_id actor
     then (if u_is_administrator target \<and> length administrators \<le> 1
           then raiseT LastAdministratorError else raiseT SelfDisableError)
     else if \<not> u_is_active target then returnT target
     else
     bindT (user_save False (Some [''is_active'', ''updated_at'']) (target\<lparr>u_is_active := False\<rparr>)) (\<lambda>target.
     bindT (record_audit_event ''user.disabled'' (Some actor) (Some target)) (\<lambda>_.
     returnT target))))"

definition enable_user :: "uuid \<Rightarrow> uuid \<Rightarrow> user dbtxn" where
  "enable_user actor_id target_id =
     bindT (queryT (require_administrator actor_id)) (\<lambda>actor.
     bindT (queryT (\<lambda>s. get_one_or_none (filter (\<lambda>u. u_id u = target_id) (users s)))) (\<lambda>target.
     case target of
       None \<Rightarrow> raiseT UserNotFound
     | Some target \<Rightarrow>
     if u_is_active target then returnT target
     else
     bindT (user_save False (Some [''is_active'', ''updated_at'']) (target\<lparr>u_is_active := True\<rparr>)) (\<lambda>target.
     bindT (record_audit_event ''user.enabled'' (Some actor) (Some target)) (\<lambda>_.
     returnT target))))"

definition reset_user_password :: "identity_env \<Rightarrow> uuid \<Rightarrow> uuid \<Rightarrow> text \<Rightarrow> user dbtxn" where
  "reset_user_password env actor_id target_id password =
     bindT (queryT (require_administrator actor_id)) (\<lambda>actor.
     bindT (queryT (\<lambda>s. get_one_or_none (filter (\<lambda>u. u_id u = target_id) (users s)))) (\<lambda>target.
     case target of
       None \<Rightarrow> raiseT UserNotFound
     | Some target \<Rightarrow>
     bindT (set_validated_password env target password) (\<lambda>target.
     bindT (user_save False (Some [''password'', ''auth_version'', ''updated_at''])
       (target\<lparr>u_auth_version := u_auth_version target + 1\<rparr>)) (\<lambda>target.
     bindT (record_audit_event ''user.password_reset'' (Some actor) (Some target)) (\<lambda>_.
     returnT target)))))"

definition record_logout :: "user \<Rightarrow> unit dbtxn" where
  "record_logout user = bindT (record_audit_event ''auth.logout'' (Some user) None) (\<lambda>_. returnT ())"

text \<open>
  \<open>User.get_session_auth_hash\<close>: \<open>session_value\<close> is the formatted \<open>password:auth_version\<close>.
\<close>

definition session_auth_hash :: "identity_env \<Rightarrow> user \<Rightarrow> text" where
  "session_auth_hash env u =
     salted_hmac env ''agora.persistence.models.User.get_session_auth_hash''
       (u_password u @ cps '':'' @ cps (decimal (u_auth_version u)))"

section \<open>What a successful administration does\<close>

lemma set_validated_password_Inr:
  "set_validated_password env u pw s = Inr (v, t) \<Longrightarrow>
     t = s\<lparr>secret_draws := Suc (secret_draws s)\<rparr> \<and>
     v = u\<lparr>u_password := make_password env (secrets s (secret_draws s)) pw\<rparr> \<and>
     length pw \<le> max_password_length \<and> validate_password env pw u"
  by (auto simp: set_validated_password_def txn_InrD environment_run split: if_split_asm)

lemma require_administrator_Inr:
  "require_administrator a s = Inr u \<Longrightarrow>
     u \<in> set (users s) \<and> u_id u = a \<and> u_is_active u \<and> u_is_administrator u"
  by (auto simp: require_administrator_def bindE_eq_Inr dest!: filter_singleD
      split: option.split_asm if_split_asm)

definition active_administrator :: "user \<Rightarrow> bool" where
  "active_administrator u \<longleftrightarrow> u_is_active u \<and> u_is_administrator u"

lemma bootstrap_Inr:
  assumes "bootstrap_first_administrator env soeid password s = Inr (u, t)"
  obtains u1 v s1 s2 e where
    "users s = []" "canonicalize_soeid soeid = Inr (u_soeid u1)" "active_administrator u1"
    "set_validated_password env u1 password (s\<lparr>uuid_draws := Suc (uuid_draws s)\<rparr>) = Inr (v, s1)"
    "user_save True None v s1 = Inr (u, s2)"
    "record_audit_event ''auth.bootstrap'' None (Some u) s2 = Inr (e, t)"
proof -
  obtain c v s1 s2 e where *: "users s = []" "canonicalize_soeid soeid = Inr c"
    "set_validated_password env ((new_user (uuids s (uuid_draws s)) c)\<lparr>u_is_administrator := True\<rparr>)
       password (s\<lparr>uuid_draws := Suc (uuid_draws s)\<rparr>) = Inr (v, s1)"
    "user_save True None v s1 = Inr (u, s2)"
    "record_audit_event ''auth.bootstrap'' None (Some u) s2 = Inr (e, t)"
    using assms unfolding bootstrap_first_administrator_def
    by (auto simp: bindT_eq_Inr readT_eq_Inr queryT_eq_Inr returnT_eq_Inr environment_run
        split: if_split_asm)
  show thesis
    by (rule that [OF *(1) _ _ *(3-5)]) (simp_all add: *(2) new_user_def active_administrator_def)
qed

lemma provision_Inr:
  assumes "provision_user env a soeid password admin s = Inr (u, t)"
  obtains u1 v s1 s2 e actor where
    "require_administrator a s = Inr actor"
    "canonicalize_soeid soeid = Inr (u_soeid u1)" "u_is_active u1" "u_is_administrator u1 = admin"
    "set_validated_password env u1 password (s\<lparr>uuid_draws := Suc (uuid_draws s)\<rparr>) = Inr (v, s1)"
    "user_save True None v s1 = Inr (u, s2)"
    "record_audit_event ''user.created'' (Some actor) (Some u) s2 = Inr (e, t)"
proof -
  define h where "h c e = (if (case e of IntegrityError \<Rightarrow> True | ValidationError _ \<Rightarrow> True
         | ImmutableRecordError _ \<Rightarrow> True | _ \<Rightarrow> False)
       then bindT (readT (\<lambda>s. has_row (\<lambda>u. u_soeid u = c) (users s))) (\<lambda>duplicate.
         if duplicate then raiseT DuplicateSoeid else raiseT e)
       else raiseT e :: user dbtxn)" for c e
  have h: "h c e s \<noteq> Inr r" for c e s r
    by (simp add: h_def txn_run)
  obtain c v s1 s2 e actor where *: "require_administrator a s = Inr actor"
    "canonicalize_soeid soeid = Inr c"
    "set_validated_password env ((new_user (uuids s (uuid_draws s)) c)\<lparr>u_is_administrator := admin\<rparr>)
       password (s\<lparr>uuid_draws := Suc (uuid_draws s)\<rparr>) = Inr (v, s1)"
    "tryT (user_save True None v) (h c) s1 = Inr (u, s2)"
    "record_audit_event ''user.created'' (Some actor) (Some u) s2 = Inr (e, t)"
    using assms unfolding provision_user_def h_def [symmetric]
    by (auto simp: bindT_eq_Inr queryT_eq_Inr returnT_eq_Inr environment_run)
  then have "user_save True None v s1 = Inr (u, s2)" by (simp add: tryT_eq_Inr h)
  with * show thesis
    by (intro that [of actor "(new_user (uuids s (uuid_draws s)) c)\<lparr>u_is_administrator := admin\<rparr>" v s1 s2 e])
      (simp_all add: new_user_def)
qed

lemma disable_user_Inr:
  assumes "disable_user a i s = Inr (u, t)"
  shows "t = s \<and> filter (\<lambda>u. u_id u = i) (users s) = [u] \<and> \<not> u_is_active u \<or> (\<exists>actor original m e. actor \<in> set (users s) \<and> active_administrator actor \<and>
      u_id actor = a \<and> a \<noteq> i \<and> filter (\<lambda>u. u_id u = i) (users s) = [original] \<and>
      u_is_active original \<and>
      user_save False (Some [''is_active'', ''updated_at'']) (original\<lparr>u_is_active := False\<rparr>) s = Inr (u, m) \<and>
      record_audit_event ''user.disabled'' (Some actor) (Some u) m = Inr (e, t))"
proof -
  obtain actor where f: "find (\<lambda>u. u_id u = a) (active_administrators s) = Some actor"
    using assms unfolding disable_user_def
    by (auto simp: bindT_eq_Inr readT_eq_Inr split: option.split_asm)
  then have "actor \<in> set (active_administrators s)" and a: "u_id actor = a"
    by (auto dest: find_keyD)
  then have w: "actor \<in> set (users s)" "active_administrator actor"
    by (auto simp: active_administrators_def active_administrator_def)
  obtain original where o: "filter (\<lambda>u. u_id u = i) (users s) = [original]"
    using assms f unfolding disable_user_def
    by (auto simp: bindT_eq_Inr readT_eq_Inr queryT_eq_Inr split: option.split_asm)
  then have i: "u_id original = i" by (auto dest: filter_singleD)
  have ai: "a \<noteq> i"
    using assms f o a i unfolding disable_user_def
    by (auto simp: bindT_eq_Inr readT_eq_Inr queryT_eq_Inr split: if_split_asm)
  show ?thesis
  proof (cases "u_is_active original")
    case False
    then show ?thesis
      using assms f o a i ai unfolding disable_user_def
      by (auto simp: bindT_eq_Inr readT_eq_Inr queryT_eq_Inr returnT_eq_Inr)
  next
    case True
    then obtain m e where
      "user_save False (Some [''is_active'', ''updated_at'']) (original\<lparr>u_is_active := False\<rparr>) s = Inr (u, m)"
      "record_audit_event ''user.disabled'' (Some actor) (Some u) m = Inr (e, t)"
      using assms f o a i ai unfolding disable_user_def
      by (auto simp: bindT_eq_Inr readT_eq_Inr queryT_eq_Inr returnT_eq_Inr)
    then show ?thesis using w a ai o True by blast
  qed
qed

lemma enable_user_Inr:
  assumes "enable_user a i s = Inr (u, t)"
  shows "t = s \<or> (\<exists>actor original m e. require_administrator a s = Inr actor \<and>
      filter (\<lambda>u. u_id u = i) (users s) = [original] \<and> \<not> u_is_active original \<and>
      user_save False (Some [''is_active'', ''updated_at'']) (original\<lparr>u_is_active := True\<rparr>) s = Inr (u, m) \<and>
      record_audit_event ''user.enabled'' (Some actor) (Some u) m = Inr (e, t))"
proof -
  obtain actor original where r: "require_administrator a s = Inr actor"
    and o: "filter (\<lambda>u. u_id u = i) (users s) = [original]"
    using assms unfolding enable_user_def
    by (auto simp: bindT_eq_Inr readT_eq_Inr queryT_eq_Inr split: option.split_asm)
  show ?thesis
  proof (cases "u_is_active original")
    case True
    then show ?thesis
      using assms r o unfolding enable_user_def
      by (auto simp: bindT_eq_Inr queryT_eq_Inr returnT_eq_Inr)
  next
    case False
    then obtain m e where
      "user_save False (Some [''is_active'', ''updated_at'']) (original\<lparr>u_is_active := True\<rparr>) s = Inr (u, m)"
      "record_audit_event ''user.enabled'' (Some actor) (Some u) m = Inr (e, t)"
      using assms r o unfolding enable_user_def
      by (auto simp: bindT_eq_Inr queryT_eq_Inr returnT_eq_Inr)
    then show ?thesis using r o False by blast
  qed
qed

lemma reset_user_password_Inr:
  assumes "reset_user_password env a i password s = Inr (u, t)"
  obtains actor original p m e where "require_administrator a s = Inr actor"
    "filter (\<lambda>u. u_id u = i) (users s) = [original]" "length password \<le> max_password_length"
    "p = make_password env (secrets s (secret_draws s)) password"
    "user_save False (Some [''password'', ''auth_version'', ''updated_at''])
       (original\<lparr>u_password := p, u_auth_version := u_auth_version original + 1\<rparr>)
       (s\<lparr>secret_draws := Suc (secret_draws s)\<rparr>) = Inr (u, m)"
    "record_audit_event ''user.password_reset'' (Some actor) (Some u) m = Inr (e, t)"
proof -
  obtain actor original u1 s1 m e where r: "require_administrator a s = Inr actor"
    and o: "filter (\<lambda>u. u_id u = i) (users s) = [original]"
    and p: "set_validated_password env original password s = Inr (u1, s1)"
    and v: "user_save False (Some [''password'', ''auth_version'', ''updated_at''])
       (u1\<lparr>u_auth_version := u_auth_version u1 + 1\<rparr>) s1 = Inr (u, m)"
    and e: "record_audit_event ''user.password_reset'' (Some actor) (Some u) m = Inr (e, t)"
    using assms unfolding reset_user_password_def
    by (auto simp: bindT_eq_Inr readT_eq_Inr queryT_eq_Inr returnT_eq_Inr split: option.split_asm)
  show thesis
    using set_validated_password_Inr [OF p] v e by (intro that [OF r o _ refl]) auto
qed

end
