(* ===== verification/Services.thy ===== *)
theory Services
  imports Authentication
begin

text \<open>
  Complete revisions and cleanup ownership (\<open>core/services.py\<close>). A procedure runs several
  transactions with storage operations between them, so it acts on the database and the artifact
  storage: \<open>atomicP\<close> runs one transaction, whose exception leaves the database as it was, and an
  exception of the procedure keeps what its earlier transactions committed. The storage adapter
  is an argument (\<open>storage_ops\<close>); \<open>Storage\<close> models the filesystem adapter.
\<close>

section \<open>Procedures\<close>

type_synonym ('w, 'e, 'a) action = "'w \<Rightarrow> ('e + 'a) \<times> 'w"
type_synonym ('f, 'a) proc = "(db \<times> 'f, exn, 'a) action"

definition returnP :: "'a \<Rightarrow> ('w, 'e, 'a) action" where
  "returnP a = (\<lambda>w. (Inr a, w))"

definition raiseP :: "'e \<Rightarrow> ('w, 'e, 'a) action" where
  "raiseP e = (\<lambda>w. (Inl e, w))"

definition bindP :: "('w, 'e, 'a) action \<Rightarrow> ('a \<Rightarrow> ('w, 'e, 'b) action) \<Rightarrow> ('w, 'e, 'b) action" where
  "bindP m f = (\<lambda>w. case m w of (Inl e, w') \<Rightarrow> (Inl e, w') | (Inr a, w') \<Rightarrow> f a w')"

definition atomicP :: "'a dbtxn \<Rightarrow> ('f, 'a) proc" where
  "atomicP m = (\<lambda>(s, f). case m s of Inl e \<Rightarrow> (Inl e, s, f) | Inr (a, t) \<Rightarrow> (Inr a, t, f))"

text \<open>\<open>try: ... except BaseException: ...\<close>\<close>

definition tryP :: "('w, 'e, 'a) action \<Rightarrow> ('e \<Rightarrow> ('w, 'e, 'a) action) \<Rightarrow> ('w, 'e, 'a) action" where
  "tryP m h = (\<lambda>w. case m w of (Inl e, w') \<Rightarrow> h e w' | (Inr a, w') \<Rightarrow> (Inr a, w'))"

definition storageP :: "('f \<Rightarrow> 'a \<times> 'f) \<Rightarrow> ('f, 'a) proc" where
  "storageP g = (\<lambda>(s, f). let (a, f') = g f in (Inr a, s, f'))"

text \<open>Every run, whether it returns or raises, relates the states before and after by \<open>R\<close>.\<close>

definition keeps :: "('w \<Rightarrow> 'w \<Rightarrow> bool) \<Rightarrow> ('w, 'e, 'a) action \<Rightarrow> bool" where
  "keeps R m \<longleftrightarrow> (\<forall>w. R w (snd (m w)))"

lemma keepsD: "keeps R m \<Longrightarrow> m w = (r, v) \<Longrightarrow> R w v"
  by (auto simp: keeps_def dest: spec [of _ w])

lemma keepsI: "(\<And>w r v. m w = (r, v) \<Longrightarrow> R w v) \<Longrightarrow> keeps R m"
  unfolding keeps_def by (metis prod.collapse)

lemma keeps_return: "reflp R \<Longrightarrow> keeps R (returnP a)"
  by (simp add: keeps_def returnP_def reflpD)

lemma keeps_raise: "reflp R \<Longrightarrow> keeps R (raiseP e)"
  by (simp add: keeps_def raiseP_def reflpD)

lemma keeps_bind: "transp R \<Longrightarrow> keeps R m \<Longrightarrow> (\<And>a. keeps R (f a)) \<Longrightarrow> keeps R (bindP m f)"
  unfolding keeps_def bindP_def by (auto split: prod.split sum.split dest: transpD) (metis snd_conv transpD)+

lemma keeps_try: "transp R \<Longrightarrow> keeps R m \<Longrightarrow> (\<And>e. keeps R (h e)) \<Longrightarrow> keeps R (tryP m h)"
  unfolding keeps_def tryP_def by (auto split: prod.split sum.split dest: transpD) (metis snd_conv transpD)+

lemmas keeps_intros = keeps_return keeps_raise keeps_bind keeps_try

lemma keeps_if: "(b \<Longrightarrow> keeps R m) \<Longrightarrow> (\<not> b \<Longrightarrow> keeps R n) \<Longrightarrow> keeps R (if b then m else n)"
  by simp

lemma keeps_option: "(x = None \<Longrightarrow> keeps R m) \<Longrightarrow> (\<And>a. x = Some a \<Longrightarrow> keeps R (f a)) \<Longrightarrow>
    keeps R (case x of None \<Rightarrow> m | Some a \<Rightarrow> f a)"
  by (cases x) auto

lemma keeps_prod: "(\<And>a b. keeps R (f a b)) \<Longrightarrow> keeps R (case p of (a, b) \<Rightarrow> f a b)"
  by (cases p) auto

lemmas keeps_cases = keeps_if keeps_option keeps_prod

text \<open>Elimination of a run that returned.\<close>

lemma bindP_eq_Inr:
  "bindP m f w = (Inr b, v) \<longleftrightarrow> (\<exists>a u. m w = (Inr a, u) \<and> f a u = (Inr b, v))"
  by (auto simp: bindP_def split: prod.split sum.split)

lemma bindP_eq_Inl:
  "bindP m f w = (Inl e, v) \<longleftrightarrow> m w = (Inl e, v) \<or> (\<exists>a u. m w = (Inr a, u) \<and> f a u = (Inl e, v))"
  by (auto simp: bindP_def split: prod.split sum.split)

lemma tryP_eq_Inr:
  "tryP m h w = (Inr a, v) \<longleftrightarrow> m w = (Inr a, v) \<or> (\<exists>e u. m w = (Inl e, u) \<and> h e u = (Inr a, v))"
  by (auto simp: tryP_def split: prod.split sum.split)

lemma tryP_eq_Inl:
  "tryP m h w = (Inl e', v) \<longleftrightarrow> (\<exists>e u. m w = (Inl e, u) \<and> h e u = (Inl e', v))"
  by (auto simp: tryP_def split: prod.split sum.split)

lemma returnP_eq [simp]: "returnP a w = (r, v) \<longleftrightarrow> r = Inr a \<and> v = w"
  by (auto simp: returnP_def)

lemma raiseP_eq [simp]: "raiseP e w = (r, v) \<longleftrightarrow> r = Inl e \<and> v = w"
  by (auto simp: raiseP_def)

section \<open>The storage interface\<close>

record stored_artifact =
  sa_key :: "text"
  sa_byte_size :: nat
  sa_sha256 :: "text"

text \<open>How \<open>write\<close> and \<open>delete\<close> end: a receipt, or the exception class the services react to.\<close>

datatype write_result =
    Receipt stored_artifact
  | RaisedCollision
  | RaisedCommitted stored_artifact
  | RaisedCleanupRequired
  | RaisedOther exn

datatype delete_result = Deleted | DeleteFailed

record 'f storage_ops =
  st_write :: "text \<Rightarrow> text list \<Rightarrow> int option \<Rightarrow> text option \<Rightarrow> 'f \<Rightarrow> write_result \<times> 'f"
  st_delete :: "text \<Rightarrow> 'f \<Rightarrow> delete_result \<times> 'f"

text \<open>\<open>StorageKey.generate\<close>: the shards are the first four digits of the token.\<close>

definition generate_key :: "text \<Rightarrow> text" where
  "generate_key token = cps ''v1/'' @ take 2 token @ cps ''/'' @ take 2 (drop 2 token) @ cps ''/'' @ token"

text \<open>The grammar \<open>StorageKey.__post_init__\<close> admits.\<close>

definition canonical_key :: "text \<Rightarrow> bool" where
  "canonical_key k \<longleftrightarrow>
     storage_key_pattern k \<and> storage_shards k"

definition reservation_lifetime :: time where
  "reservation_lifetime = days 1"

definition key_attempts :: nat where
  "key_attempts = 8"

section \<open>Payload validation\<close>

record artifact_payload =
  p_kind :: artifact_kind
  p_logical_name :: "text"
  p_chunks :: "text list"
  p_expected_size :: int
  p_expected_sha256 :: "text"
  p_media_type :: "text option"

text \<open>\<open>str.split(c)\<close> for a one-character separator.\<close>

primrec split_on :: "nat \<Rightarrow> text \<Rightarrow> text list" where
  "split_on c [] = [[]]"
| "split_on c (x # xs) =
     (if x = c then [] # split_on c xs
      else case split_on c xs of [] \<Rightarrow> [[x]] | w # ws \<Rightarrow> (x # w) # ws)"

definition charset_parameter :: "unicode \<Rightarrow> text \<Rightarrow> text \<Rightarrow> bool" where
  "charset_parameter uc base parameter \<longleftrightarrow>
     61 \<in> set parameter \<and>
     casefold uc (takeWhile (\<lambda>c. c \<noteq> 61) parameter) = cps ''charset'' \<and>
     casefold uc (strip_set (\<lambda>c. c = 34) (strip_set is_space (tl (dropWhile (\<lambda>c. c \<noteq> 61) parameter))))
       = cps ''utf-8'' \<and>
     take 5 base = cps ''text/''"

definition authoritative_media_type :: "unicode \<Rightarrow> artifact_payload \<Rightarrow> exn + string" where
  "authoritative_media_type uc p =
     (let allowed = artifact_media_types (p_kind p) in
      case p_media_type p of
        None \<Rightarrow>
          if length allowed \<noteq> 1
          then Inl (RevisionCreationError ''artifact media type is required for this artifact kind'')
          else Inr (hd allowed)
      | Some supplied \<Rightarrow>
          if strip_set is_space supplied = []
          then Inl (RevisionCreationError ''artifact media type is not supported'')
          else
          let pieces = map (strip_set is_space) (split_on 59 supplied);
              base = casefold uc (hd pieces)
          in case find (\<lambda>m. cps m = base) allowed of
               None \<Rightarrow> Inl (RevisionCreationError ''artifact media type is not allowed for this artifact kind'')
             | Some m \<Rightarrow>
                 if list_all (charset_parameter uc base) (tl pieces) then Inr m
                 else Inl (RevisionCreationError ''artifact media type is not supported''))"

primrec validate_payloads ::
  "unicode \<Rightarrow> artifact_payload list \<Rightarrow> text list \<Rightarrow> logical_name list \<Rightarrow> exn + logical_name list" where
  "validate_payloads uc [] seen names = Inr names"
| "validate_payloads uc (p # ps) seen names =
     (if p_expected_size p < 0
      then Inl (RevisionCreationError ''artifact size must be nonnegative'')
      else if \<not> hex_text 64 (p_expected_sha256 p)
      then Inl (RevisionCreationError ''artifact SHA-256 must be lowercase hexadecimal'')
      else
      bindE (authoritative_media_type uc p) (\<lambda>_.
      bindE (normalize_logical_name uc (p_logical_name p)) (\<lambda>name.
      if comparison_key name \<in> set seen
      then Inl (RevisionCreationError ''artifact logical names must be unique after normalization'')
      else validate_payloads uc ps (comparison_key name # seen) (names @ [name]))))"

definition validate_payload_set :: "unicode \<Rightarrow> artifact_payload list \<Rightarrow> exn + logical_name list" where
  "validate_payload_set uc payloads =
     (if length (filter (\<lambda>p. p_kind p = HTML) payloads) \<noteq> 1
      then Inl (RevisionCreationError ''a complete revision requires exactly one HTML artifact'')
      else validate_payloads uc payloads [] [])"

section \<open>Reservations\<close>

definition artifact_owns :: "text \<Rightarrow> db \<Rightarrow> bool" where
  "artifact_owns key s = has_row (\<lambda>a. a_storage_key a = key) (artifacts s)"

definition delete_reservations :: "uuid list \<Rightarrow> unit dbtxn" where
  "delete_reservations ids = writeT (reservations_update (filter (\<lambda>r. sr_id r \<notin> set ids)))"

definition reserve_once :: "text \<Rightarrow> uuid \<Rightarrow> reservation dbtxn" where
  "reserve_once key i =
     bindT timezone_now (\<lambda>now. reservation_save True None
       \<lparr>sr_id = i, sr_storage_key = key, sr_state = RESERVED, sr_created_at = 0,
        sr_expires_at = now + reservation_lifetime, sr_verified_size = None,
        sr_verified_sha256 = [], sr_cleanup_required = False\<rparr>)"

primrec reserve_storage_key :: "nat \<Rightarrow> ('f, reservation) proc" where
  "reserve_storage_key 0 = raiseP (RevisionCreationError ''could not allocate a unique artifact storage key'')"
| "reserve_storage_key (Suc n) =
     bindP (atomicP draw_secret) (\<lambda>token.
     if \<not> canonical_key (generate_key token) then raiseP InvalidStorageKey
     else
     bindP (atomicP (readT (artifact_owns (generate_key token)))) (\<lambda>owned.
     if owned then reserve_storage_key n
     else
     bindP (atomicP uuid4) (\<lambda>i.
     tryP (atomicP (reserve_once (generate_key token) i))
       (\<lambda>e. if e = IntegrityError then reserve_storage_key n else raiseP e))))"

definition mark_reservation_verified :: "uuid \<Rightarrow> stored_artifact \<Rightarrow> unit dbtxn" where
  "mark_reservation_verified i receipt =
     bindT (stored reservations sr_id i) (\<lambda>r.
     if sr_storage_key r \<noteq> sa_key receipt
     then raiseT (RevisionCreationError ''storage receipt did not match its reservation'')
     else
     bindT (reservation_save False
         (Some [''verified_size'', ''verified_sha256'', ''storage_state'', ''cleanup_required''])
         (r\<lparr>sr_verified_size := Some (sa_byte_size receipt), sr_verified_sha256 := sa_sha256 receipt,
            sr_state := OWNED, sr_cleanup_required := False\<rparr>)) (\<lambda>_. returnT ()))"

definition mark_reservation_collision :: "uuid \<Rightarrow> unit dbtxn" where
  "mark_reservation_collision i =
     bindT (stored reservations sr_id i) (\<lambda>r.
     if sr_state r = COLLISION then returnT ()
     else if sr_state r \<noteq> RESERVED
     then raiseT (RevisionCreationError ''verified storage reservation cannot become a collision'')
     else bindT (reservation_save False (Some [''storage_state'']) (r\<lparr>sr_state := COLLISION\<rparr>)) (\<lambda>_. returnT ()))"

definition require_cleanup :: "reservation \<Rightarrow> unit dbtxn" where
  "require_cleanup r =
     bindT (reservation_save False (Some [''cleanup_required'']) (r\<lparr>sr_cleanup_required := True\<rparr>)) (\<lambda>_. returnT ())"

definition mark_reservation_cleanup_required :: "uuid \<Rightarrow> unit dbtxn" where
  "mark_reservation_cleanup_required i = bindT (stored reservations sr_id i) require_cleanup"

section \<open>Committing the metadata\<close>

record prepared_artifact =
  pa_reservation_id :: uuid
  pa_name :: logical_name
  pa_kind :: artifact_kind
  pa_receipt :: stored_artifact
  pa_media_type :: string

definition check_prepared :: "reservation list \<Rightarrow> prepared_artifact \<Rightarrow> unit dbtxn" where
  "check_prepared rs item =
     (case find (\<lambda>r. sr_id r = pa_reservation_id item) rs of
        None \<Rightarrow> raiseT KeyError
      | Some r \<Rightarrow>
          if sr_storage_key r \<noteq> sa_key (pa_receipt item)
             \<or> sr_verified_size r \<noteq> Some (sa_byte_size (pa_receipt item))
             \<or> sr_verified_sha256 r \<noteq> sa_sha256 (pa_receipt item)
             \<or> sr_cleanup_required r
          then raiseT (RevisionCreationError ''artifact storage reservation is not verified'')
          else
          bindT (readT (artifact_owns (sa_key (pa_receipt item)))) (\<lambda>owned.
          ensureT (\<not> owned) (RevisionCreationError ''artifact storage key is already owned'')))"

definition create_artifact :: "unicode \<Rightarrow> revision \<Rightarrow> prepared_artifact \<Rightarrow> artifact dbtxn" where
  "create_artifact uc revision item =
     bindT uuid4 (\<lambda>i. artifact_save uc True
       \<lparr>a_id = i, a_revision = r_id revision, a_kind = pa_kind item,
        a_logical_name = display (pa_name item), a_name_key = comparison_key (pa_name item),
        a_storage_key = sa_key (pa_receipt item), a_byte_size = sa_byte_size (pa_receipt item),
        a_media_type = pa_media_type item, a_sha256 = sa_sha256 (pa_receipt item)\<rparr>)"

definition next_revision_number :: "dashboard \<Rightarrow> db \<Rightarrow> exn + nat" where
  "next_revision_number dashboard s =
     (case d_latest_revision dashboard of
        None \<Rightarrow> Inr 1
      | Some i \<Rightarrow> (case revision_of s i of None \<Rightarrow> Inl DoesNotExist | Some r \<Rightarrow> Inr (r_number r + 1)))"

definition commit_revision_metadata ::
  "unicode \<Rightarrow> uuid \<Rightarrow> uuid \<Rightarrow> prepared_artifact list \<Rightarrow> revision dbtxn" where
  "commit_revision_metadata uc dashboard_id created_by_id prepared =
     bindT (queryT (\<lambda>s. get_one_or_none (filter (\<lambda>d. d_id d = dashboard_id) (dashboards s)))) (\<lambda>dashboard.
     case dashboard of
       None \<Rightarrow> raiseT (RevisionCreationError ''revision creator must own the dashboard'')
     | Some dashboard \<Rightarrow>
     if d_owner dashboard \<noteq> created_by_id
     then raiseT (RevisionCreationError ''revision creator must own the dashboard'')
     else
     bindT (queryT (\<lambda>s. get_one_or_none (filter (\<lambda>u. u_id u = created_by_id) (users s)))) (\<lambda>creator.
     if \<not> (case creator of None \<Rightarrow> False | Some u \<Rightarrow> u_is_active u)
     then raiseT (RevisionCreationError ''revision creator must be active'')
     else if d_state dashboard \<notin> set accepting_states
     then raiseT (RevisionCreationError ''dashboard state does not accept revisions'')
     else
     let ids = map pa_reservation_id prepared in
     bindT (readT (\<lambda>s. filter (\<lambda>r. sr_id r \<in> set ids) (reservations s))) (\<lambda>rs.
     if length rs \<noteq> length prepared
     then raiseT (RevisionCreationError ''artifact storage reservation is missing'')
     else
     bindT (forT (check_prepared rs) prepared) (\<lambda>_.
     bindT (queryT (next_revision_number dashboard)) (\<lambda>next_number.
     bindT uuid4 (\<lambda>i.
     bindT (revision_save True
       \<lparr>r_id = i, r_dashboard = d_id dashboard, r_number = next_number, r_created_by = created_by_id,
        r_created_at = 0, r_artifacts_locked = False\<rparr>) (\<lambda>revision.
     bindT (forT (create_artifact uc revision) prepared) (\<lambda>_.
     bindT (lock_artifacts (r_id revision)) (\<lambda>locked.
     if locked \<noteq> 1
     then raiseT (RevisionCreationError ''revision artifacts could not be finalized'')
     else
     bindT (dashboard_save False (Some [''latest_revision'', ''updated_at''])
       (dashboard\<lparr>d_latest_revision := Some (r_id revision)\<rparr>)) (\<lambda>dashboard.
     bindT (audit_create ''revision.created'' (Some created_by_id) (Some (d_id dashboard))
       (Some (r_id revision)) None
       [(''artifact_count'', MInt (length prepared)), (''revision_number'', MInt next_number)]) (\<lambda>_.
     bindT (delete_reservations ids) (\<lambda>_.
     returnT (revision\<lparr>r_artifacts_locked := True\<rparr>)))))))))))))"

section \<open>Cleanup\<close>

record cleanup_candidate =
  cc_reservation_id :: uuid
  cc_key :: "text"
  cc_owns_bytes :: bool
  cc_uncertain_outcome :: bool

text \<open>
  What a cleanup transaction does with the reservation it locked: nothing, ask for a later
  cleanup, drop the row, or remove the bytes and then drop the row. The row is locked, so the
  decision still holds when the bytes have been removed.
\<close>

datatype cleanup_action = Skip | RequireCleanup reservation | DropRow reservation | RemoveBytes reservation

definition unowned_action :: "cleanup_candidate \<Rightarrow> db \<Rightarrow> exn + cleanup_action" where
  "unowned_action c s =
     bindE (get_one_or_none (filter (\<lambda>r. sr_id r = cc_reservation_id c) (reservations s))) (\<lambda>reservation.
     Inr (case reservation of
       None \<Rightarrow> Skip
     | Some r \<Rightarrow>
         if sr_storage_key r \<noteq> cc_key c then RequireCleanup r
         else if artifact_owns (cc_key c) s then DropRow r
         else if sr_state r = COLLISION then DropRow r
         else if cc_uncertain_outcome c then (if sr_cleanup_required r then Skip else RequireCleanup r)
         else if sr_cleanup_required r then Skip
         else if \<not> cc_owns_bytes c then DropRow r
         else RemoveBytes r))"

definition drop_row :: "reservation \<Rightarrow> unit dbtxn" where
  "drop_row r = delete_reservations [sr_id r]"

definition perform_cleanup :: "'f storage_ops \<Rightarrow> cleanup_action \<Rightarrow> ('f, bool) proc" where
  "perform_cleanup ops action = (case action of
      Skip \<Rightarrow> returnP False
    | RequireCleanup r \<Rightarrow> bindP (atomicP (require_cleanup r)) (\<lambda>_. returnP False)
    | DropRow r \<Rightarrow> bindP (atomicP (drop_row r)) (\<lambda>_. returnP True)
    | RemoveBytes r \<Rightarrow>
        bindP (if canonical_key (sr_storage_key r) then storageP (st_delete ops (sr_storage_key r))
               else returnP DeleteFailed) (\<lambda>result.
        case result of
          Deleted \<Rightarrow> bindP (atomicP (drop_row r)) (\<lambda>_. returnP True)
        | DeleteFailed \<Rightarrow> bindP (atomicP (require_cleanup r)) (\<lambda>_. returnP False)))"

primrec cleanup_unowned :: "'f storage_ops \<Rightarrow> cleanup_candidate list \<Rightarrow> ('f, unit) proc" where
  "cleanup_unowned ops [] = returnP ()"
| "cleanup_unowned ops (c # cs) =
     bindP (tryP (bindP (atomicP (queryT (unowned_action c))) (perform_cleanup ops)) (\<lambda>_. returnP False)) (\<lambda>_.
     cleanup_unowned ops cs)"

definition expired_action :: "uuid \<Rightarrow> time \<Rightarrow> db \<Rightarrow> exn + cleanup_action" where
  "expired_action i cutoff s =
     bindE (get_one_or_none (filter (\<lambda>r. sr_id r = i \<and> sr_expires_at r \<le> cutoff) (reservations s))) (\<lambda>reservation.
     Inr (case reservation of
       None \<Rightarrow> Skip
     | Some r \<Rightarrow>
         if artifact_owns (sr_storage_key r) s then DropRow r
         else if sr_state r = COLLISION then DropRow r
         else if sr_state r = RESERVED then RequireCleanup r
         else RemoveBytes r))"

record cleanup_result =
  cr_removed :: nat
  cr_retained :: nat

primrec cleanup_rows :: "'f storage_ops \<Rightarrow> time \<Rightarrow> uuid list \<Rightarrow> cleanup_result \<Rightarrow> ('f, cleanup_result) proc" where
  "cleanup_rows ops cutoff [] acc = returnP acc"
| "cleanup_rows ops cutoff (i # is) acc =
     bindP (atomicP (queryT (expired_action i cutoff))) (\<lambda>action.
     bindP (perform_cleanup ops action) (\<lambda>removed.
     cleanup_rows ops cutoff is
       (if removed then acc\<lparr>cr_removed := cr_removed acc + 1\<rparr>
        else if action = Skip then acc
        else acc\<lparr>cr_retained := cr_retained acc + 1\<rparr>)))"

definition expired_reservations :: "time \<Rightarrow> nat \<Rightarrow> db \<Rightarrow> uuid list" where
  "expired_reservations cutoff limit s =
     map sr_id (take limit (order_by2 sr_expires_at (\<lambda>r. int (sr_id r))
       (filter (\<lambda>r. sr_expires_at r \<le> cutoff \<and> \<not> (sr_state r = RESERVED \<and> sr_cleanup_required r))
         (reservations s))))"

definition cleanup_expired_reservations ::
  "'f storage_ops \<Rightarrow> time option \<Rightarrow> int \<Rightarrow> ('f, cleanup_result) proc" where
  "cleanup_expired_reservations ops now limit =
     (if limit < 1 then raiseP (ValueError ''cleanup limit must be positive'')
      else
      bindP (atomicP (now_or now)) (\<lambda>cutoff.
      bindP (atomicP (readT (expired_reservations cutoff (nat limit)))) (\<lambda>ids.
      cleanup_rows ops cutoff ids \<lparr>cr_removed = 0, cr_retained = 0\<rparr>)))"

section \<open>Creating a complete revision\<close>

definition captureP :: "('f, 'a) proc \<Rightarrow> ('f, exn + 'a) proc" where
  "captureP m = (\<lambda>w. case m w of (r, w') \<Rightarrow> (Inr r, w'))"

definition quietly :: "unit dbtxn \<Rightarrow> ('f, unit) proc" where
  "quietly m = tryP (atomicP m) (\<lambda>_. returnP ())"

definition candidate :: "reservation \<Rightarrow> cleanup_candidate" where
  "candidate r = \<lparr>cc_reservation_id = sr_id r, cc_key = sr_storage_key r, cc_owns_bytes = False,
     cc_uncertain_outcome = False\<rparr>"

text \<open>
  The loop that stores the payloads: the cleanup candidates it leaves, and the exception that
  ended it or the prepared artifacts.
\<close>

primrec store_payloads ::
  "unicode \<Rightarrow> 'f storage_ops \<Rightarrow> (artifact_payload \<times> logical_name) list \<Rightarrow> cleanup_candidate list
    \<Rightarrow> prepared_artifact list \<Rightarrow> ('f, cleanup_candidate list \<times> (exn + prepared_artifact list)) proc" where
  "store_payloads uc ops [] cs prepared = returnP (cs, Inr prepared)"
| "store_payloads uc ops (pn # rest) cs prepared =
     bindP (captureP (reserve_storage_key key_attempts)) (\<lambda>reserved.
     case reserved of
       Inl e \<Rightarrow> returnP (cs, Inl e)
     | Inr r \<Rightarrow>
     if \<not> canonical_key (sr_storage_key r) then returnP (cs, Inl InvalidStorageKey)
     else
     bindP (storageP (st_write ops (sr_storage_key r) (p_chunks (fst pn)) (Some (p_expected_size (fst pn)))
       (Some (p_expected_sha256 (fst pn))))) (\<lambda>result.
     case result of
       RaisedCollision \<Rightarrow>
         bindP (quietly (mark_reservation_collision (sr_id r))) (\<lambda>_.
         returnP (cs @ [candidate r], Inl StorageCollision))
     | RaisedCommitted receipt \<Rightarrow>
         bindP (quietly (mark_reservation_verified (sr_id r) receipt)) (\<lambda>_.
         returnP (cs @ [(candidate r)\<lparr>cc_owns_bytes := True\<rparr>], Inl StorageWriteCommitted))
     | RaisedCleanupRequired \<Rightarrow>
         bindP (quietly (mark_reservation_cleanup_required (sr_id r))) (\<lambda>_.
         returnP (cs @ [(candidate r)\<lparr>cc_uncertain_outcome := True\<rparr>], Inl StorageCleanupRequired))
     | RaisedOther e \<Rightarrow> returnP (cs @ [candidate r], Inl e)
     | Receipt receipt \<Rightarrow>
         bindP (captureP (atomicP (mark_reservation_verified (sr_id r) receipt))) (\<lambda>marked.
         let cs' = cs @ [(candidate r)\<lparr>cc_owns_bytes := True\<rparr>] in
         case marked of
           Inl e \<Rightarrow> returnP (cs', Inl e)
         | Inr _ \<Rightarrow>
             (case authoritative_media_type uc (fst pn) of
                Inl e \<Rightarrow> returnP (cs', Inl e)
              | Inr media_type \<Rightarrow>
                  store_payloads uc ops rest cs' (prepared @
                    [\<lparr>pa_reservation_id = sr_id r, pa_name = snd pn, pa_kind = p_kind (fst pn),
                      pa_receipt = receipt, pa_media_type = media_type\<rparr>])))))"

definition accepts_revision :: "uuid \<Rightarrow> uuid \<Rightarrow> db \<Rightarrow> bool" where
  "accepts_revision dashboard_id created_by_id s =
     has_row (\<lambda>d. d_id d = dashboard_id \<and> d_owner d = created_by_id \<and> user_active s created_by_id
                \<and> d_state d \<in> set accepting_states) (dashboards s)"

definition create_complete_revision ::
  "unicode \<Rightarrow> 'f storage_ops \<Rightarrow> uuid \<Rightarrow> uuid \<Rightarrow> artifact_payload list \<Rightarrow> ('f, revision) proc" where
  "create_complete_revision uc ops dashboard_id created_by_id payloads =
     (case validate_payload_set uc payloads of
        Inl e \<Rightarrow> raiseP e
      | Inr names \<Rightarrow>
      bindP (atomicP (readT (accepts_revision dashboard_id created_by_id))) (\<lambda>accepted.
      if \<not> accepted
      then raiseP (RevisionCreationError ''revision creator must own an active revision-accepting dashboard'')
      else
      bindP (store_payloads uc ops (zip payloads names) [] []) (\<lambda>(cs, prepared).
      bindP (case prepared of
          Inl e \<Rightarrow> returnP (Inl e)
        | Inr prepared \<Rightarrow> captureP (atomicP (commit_revision_metadata uc dashboard_id created_by_id prepared))) (\<lambda>outcome.
      case outcome of
        Inr revision \<Rightarrow> returnP revision
      | Inl e \<Rightarrow> bindP (cleanup_unowned ops cs) (\<lambda>_. raiseP e)))))"

end
