(* ===== verification/System.thy ===== *)
theory System
  imports Services
begin

text \<open>
  The application as a transition system: a step is one committed transaction of one service, or
  an advance of the environment. \<open>service_order\<close> is the interface between the model layer and
  the services: for a preorder \<open>R\<close> on databases, its assumptions are that the table writes obey
  \<open>R\<close>; its lemmas, proved once, that every service and every sequence of steps does. The
  theories that follow interpret it for the orders and invariants they need.
\<close>

section \<open>The table writes the services are composed of\<close>

text \<open>How the services edit a stored user: the account flag, or the password with its version.\<close>

definition user_edit :: "string list option \<Rightarrow> user \<Rightarrow> user \<Rightarrow> bool" where
  "user_edit fs original u \<longleftrightarrow>
     (fs = Some [''is_active'', ''updated_at''] \<and> (\<exists>b. u = original\<lparr>u_is_active := b\<rparr>)) \<or>
     (fs = Some [''password'', ''auth_version'', ''updated_at''] \<and>
        (\<exists>p. u = original\<lparr>u_password := p, u_auth_version := u_auth_version original + 1\<rparr>))"

text \<open>The column sets the services write, with what they write in them.\<close>

definition dashboard_edit :: "bool \<Rightarrow> string list option \<Rightarrow> dashboard \<Rightarrow> bool" where
  "dashboard_edit adding fs d \<longleftrightarrow> adding \<or>
     fs = Some [''name'', ''updated_at''] \<or>
     (fs = Some publish_columns \<and> d_state d = PUBLISHED) \<or>
     (fs = Some [''state'', ''published_revision'', ''updated_at''] \<and> d_state d = UNPUBLISHED \<and>
        d_published_revision d = None) \<or>
     fs = Some [''data_as_of'', ''freshness_interval_seconds'', ''freshness_confirmed_at'', ''stale_after'', ''updated_at''] \<or>
     fs = Some [''latest_revision'', ''updated_at'']"

definition pins_complete :: "string list option \<Rightarrow> dashboard \<Rightarrow> db \<Rightarrow> bool" where
  "pins_complete fs d s \<longleftrightarrow> (fs = Some publish_columns \<longrightarrow>
     (\<exists>r \<in> set (revisions s). d_published_revision d = Some (r_id r) \<and> r_dashboard r = d_id d \<and>
        r_artifacts_locked r))"

definition request_edit :: "bool \<Rightarrow> string list option \<Rightarrow> access_request \<Rightarrow> bool" where
  "request_edit adding fs ar \<longleftrightarrow> adding \<or> (fs = Some resolution_columns \<and> ar_status ar \<noteq> PENDING) \<or>
     fs = Some [''status'', ''message'', ''requested_at'', ''resolved_at'', ''resolved_by'', ''updated_at'']"

text \<open>A new credential is bound to an active viewer, a preview to a complete revision, a viewer's to
  the current publication.\<close>

definition auth_bound :: "bool \<Rightarrow> render_auth \<Rightarrow> db \<Rightarrow> bool" where
  "auth_bound adding a s \<longleftrightarrow> (adding \<longrightarrow>
     (\<exists>u \<in> set (users s). u_id u = ra_viewer a \<and> u_is_active u) \<and>
     (ra_audience a \<noteq> VIEWER \<longrightarrow>
        (\<exists>r \<in> set (revisions s). r_id r = ra_revision a \<and> r_artifacts_locked r)) \<and>
     (ra_audience a = VIEWER \<longrightarrow> (\<exists>d \<in> set (dashboards s). d_id d = ra_dashboard a \<and>
        d_published_revision d = Some (ra_revision a) \<and>
        ra_publication_version a = Some (d_publication_version d))))"

text \<open>The assumption on \<open>hand_over\<close> may use that the incoming owner holds no active grant.\<close>

locale service_order = effect_order R for R :: "db \<Rightarrow> db \<Rightarrow> bool" +
  assumes clock_order: "obeys R timezone_now"
    and uuid_order: "obeys R uuid4"
    and secret_order: "obeys R draw_secret"
    and serial_order: "obeys R next_serial"
    and user_add_order: "user_save True fs u s = Inr (u', t) \<Longrightarrow>
      (users s = [] \<longrightarrow> active_administrator u) \<Longrightarrow> R s t"
    and user_edit_order: "user_save False fs u s = Inr (u', t) \<Longrightarrow>
      filter (\<lambda>x. u_id x = u_id original) (users s) = [original] \<Longrightarrow> user_edit fs original u \<Longrightarrow>
      (u_is_active original \<and> \<not> u_is_active u \<longrightarrow>
        (\<exists>w \<in> set (users s). u_id w \<noteq> u_id original \<and> active_administrator w)) \<Longrightarrow> R s t"
    and throttle_insert_order: "obeys R (throttle_insert b)"
    and throttle_save_order: "obeys R (throttle_save fs b)"
    and throttle_delete_order: "obeys R (delete_throttles hashes)"
    and dashboard_order: "dashboard_save adding fs dash s = Inr (dash', t) \<Longrightarrow>
      dashboard_edit adding fs dash \<Longrightarrow> pins_complete fs dash s \<Longrightarrow> R s t"
    and hand_over_order: "hand_over dash actor incoming at s = Inr (marker, t) \<Longrightarrow>
      \<not> has_active_viewer_grant (d_id dash) (u_id incoming) s \<Longrightarrow> R s t"
    and tag_delete_order: "obeys R (delete_tags i)"
    and tag_create_order: "obeys R (tag_create uc i label slot)"
    and favorite_insert_order: "obeys R (favorite_insert fv)"
    and favorite_delete_order: "obeys R (delete_favorites i j)"
    and viewer_state_order: "obeys R (viewer_state_save adding fs vs)"
    and request_order: "request_edit adding fs ar \<Longrightarrow> obeys R (request_save adding fs ar)"
    and revision_order: "obeys R (revision_save adding rv)"
    and lock_order: "obeys R (lock_artifacts i)"
    and artifact_order: "obeys R (artifact_save uc adding a)"
    and grant_order: "obeys R (grant_save adding fs g)"
    and render_auth_order: "render_auth_save adding fs ra s = Inr (ra', t) \<Longrightarrow> auth_bound adding ra s \<Longrightarrow> R s t"
    and captured_order: "obeys R (mark_captured i at)"
    and open_order: "obeys R (open_save adding fs e)"
    and aggregated_order: "obeys R (mark_aggregated ids at)"
    and open_delete_order: "obeys R (delete_opens ids)"
    and daily_insert_order: "obeys R (daily_insert od)"
    and daily_update_order: "obeys R (daily_update od)"
    and summary_insert_order: "obeys R (summary_insert vo)"
    and summary_update_order: "obeys R (summary_update vo)"
    and snapshot_insert_order: "obeys R (snapshot_insert sn)"
    and snapshot_update_order: "obeys R (snapshot_update sn)"
    and checkpoint_order: "obeys R (checkpoint_save adding fs c)"
    and audit_order: "obeys R (audit_save adding ae)"
    and reservation_order: "obeys R (reservation_save adding fs sr)"
    and reservation_delete_order: "obeys R (delete_reservations ids)"
begin

lemma dashboard_edit_order:
  "dashboard_edit adding fs dash \<Longrightarrow> fs \<noteq> Some publish_columns \<Longrightarrow> obeys R (dashboard_save adding fs dash)"
  by (rule obeysI, erule dashboard_order) (simp_all add: pins_complete_def)

lemmas write_orders = clock_order uuid_order secret_order serial_order
  throttle_insert_order throttle_save_order throttle_delete_order dashboard_edit_order
  tag_delete_order tag_create_order favorite_insert_order favorite_delete_order
  viewer_state_order request_order revision_order lock_order artifact_order grant_order
  captured_order open_order aggregated_order open_delete_order
  daily_insert_order daily_update_order summary_insert_order summary_update_order
  snapshot_insert_order snapshot_update_order checkpoint_order audit_order
  reservation_order reservation_delete_order

lemmas service_rules = obeys_intros txn_orders write_orders

lemma now_or_order: "obeys R (now_or now)"
  unfolding now_or_def by (intro service_rules)

lemma audit_create_order: "obeys R (audit_create et a d r u md)"
  unfolding audit_create_def by (intro service_rules)

section \<open>Access and projects\<close>

lemma create_grant_order: "obeys R (create_grant d v c)"
  unfolding create_grant_def by (intro service_rules)

lemma grant_project_viewer_order: "obeys R (grant_project_viewer d a soeid)"
  unfolding grant_project_viewer_def record_grant_audit_def
  by (intro service_rules create_grant_order audit_create_order)

lemma revoke_project_viewer_order: "obeys R (revoke_project_viewer d g a)"
  unfolding revoke_project_viewer_def record_grant_audit_def
  by (intro service_rules audit_create_order)

lemma create_project_order: "obeys R (create_project owner name description)"
  unfolding create_project_def
  by (intro service_rules audit_create_order) (simp_all add: dashboard_edit_def publish_columns_def)

lemma rename_project_order: "obeys R (rename_project p owner name)"
  unfolding rename_project_def
  by (intro service_rules audit_create_order) (simp_all add: dashboard_edit_def publish_columns_def)

section \<open>Enhancements\<close>

lemma replace_tags_order: "obeys R (replace_dashboard_tags uc d a labels)"
  unfolding replace_dashboard_tags_def by (intro service_rules audit_create_order)

lemma set_favorite_order: "obeys R (set_dashboard_favorite d u b)"
  unfolding set_dashboard_favorite_def favorite_get_or_create_def Let_def by (intro service_rules)

lemma request_access_order: "obeys R (request_dashboard_access uc d u message)"
  unfolding request_dashboard_access_def
  by (intro service_rules audit_create_order) (simp_all add: request_edit_def)

lemma resolve_access_order: "obeys R (resolve_dashboard_access_request d r a resolution now)"
  unfolding resolve_dashboard_access_request_def open_approved_grant_def audit_grant_def
  by (intro service_rules audit_create_order now_or_order create_grant_order)
    (simp add: request_edit_def resolved_request_def)

lemma close_incoming_order: "obeys R (close_incoming_grant dash actor incoming at)"
  unfolding close_incoming_grant_def audit_grant_def by (intro service_rules audit_create_order)

lemma approve_incoming_order: "obeys R (approve_incoming_request dash actor incoming at)"
  unfolding approve_incoming_request_def
  by (intro service_rules audit_create_order) (simp add: request_edit_def resolved_request_def)

lemma transfer_order: "obeys R (transfer_dashboard_ownership d a i expected now)"
proof (rule obeysI, erule transfer_dashboard_ownership_Inr)
  fix s dash t at s1 dashboard actor incoming s2 s3 marker s4 e
  assume n: "now_or now s = Inr (at, s1)"
    and c: "close_incoming_grant dashboard actor incoming at s1 = Inr ((), s2)"
    and r: "approve_incoming_request dashboard actor incoming at s2 = Inr ((), s3)"
    and h: "hand_over dashboard actor incoming at s3 = Inr (marker, s4)"
    and e: "audit_create ''dashboard.ownership_transferred'' (Some a) (Some d) None (Some i)
       [(''transfer_id'', MId (ot_id marker))] s4 = Inr (e, t)"
  have "R s s1" "R s1 s2" "R s2 s3" "R s4 t"
    by (rule obeysD [OF now_or_order, OF n] obeysD [OF close_incoming_order, OF c]
        obeysD [OF approve_incoming_order, OF r] obeysD [OF audit_create_order, OF e])+
  moreover have "R s3 s4"
    using h no_incoming_grant [OF c r] by (rule hand_over_order)
  ultimately show "R s t" using order_trans by blast
qed

lemma publish_order: "obeys R (publish_dashboard_revision uc d a r note as_of interval now)"
proof (rule obeysI, erule publish_Inr)
  fix s saved t text_note at secs k dashboard revision m e
  assume n: "now_or now s = Inr (at, s\<lparr>ticks := k\<rparr>)"
    and f: "filter (\<lambda>x. d_id x = d) (dashboards s) = [dashboard]"
    and r: "revision \<in> set (revisions s)" "r_dashboard revision = d" "r_artifacts_locked revision"
    and m: "dashboard_save False (Some publish_columns)
       (published_dashboard dashboard revision at text_note as_of secs) (s\<lparr>ticks := k\<rparr>) = Inr (saved, m)"
    and e: "audit_create ''dashboard.published'' (Some a) (Some (d_id saved)) (Some r) None
       [(''publication_version'', MInt (d_publication_version saved)),
        (''republished'', MBool (d_first_published_at dashboard \<noteq> None))] m = Inr (e, t)"
  have "R (s\<lparr>ticks := k\<rparr>) m"
    using r filter_singleD [OF f]
    by (intro dashboard_order [OF m])
      (auto simp: dashboard_edit_def pins_complete_def published_dashboard_def apply_freshness_def)
  then show "R s t"
    using obeysD [OF now_or_order n] obeysD [OF audit_create_order e] order_trans by blast
qed

lemma unpublish_order: "obeys R (unpublish_dashboard d a)"
  unfolding unpublish_dashboard_def
  by (intro service_rules audit_create_order) (simp_all add: dashboard_edit_def publish_columns_def)

lemma confirm_freshness_order: "obeys R (confirm_dashboard_freshness d a interval as_of now)"
  unfolding confirm_dashboard_freshness_def
  by (intro service_rules audit_create_order now_or_order) (simp_all add: dashboard_edit_def publish_columns_def)

section \<open>Analytics and render credentials\<close>

lemma advance_viewer_state_order: "obeys R (advance_viewer_state ra version)"
  unfolding advance_viewer_state_def Let_def by (intro service_rules)

lemma capture_order: "obeys R (capture_authorized_open i)"
  unfolding capture_authorized_open_def by (intro service_rules advance_viewer_state_order)

lemma aggregate_order: "obeys R (aggregate_authorized_opens through batch)"
  unfolding aggregate_authorized_opens_def locked_checkpoint_def add_daily_def add_viewer_def
    add_snapshot_def
  by (intro service_rules)

lemma purge_order: "obeys R (purge_authorized_opens before batch)"
  unfolding purge_authorized_opens_def by (intro service_rules)

lemma uuid_drawn_order: "R s (s\<lparr>uuid_draws := Suc (uuid_draws s)\<rparr>)"
  using uuid_order by (auto simp: obeys_def environment_run)

lemma secret_drawn_order: "R s (s\<lparr>secret_draws := Suc (secret_draws s)\<rparr>)"
  using secret_order by (auto simp: obeys_def environment_run)

lemma drawn_order: "R s (s\<lparr>secret_draws := secret_draws s + m, uuid_draws := uuid_draws s + m\<rparr>)"
proof (induction m)
  case 0
  then show ?case by (simp add: order_refl)
next
  case (Suc m)
  let ?t = "s\<lparr>secret_draws := secret_draws s + m, uuid_draws := uuid_draws s + m\<rparr>"
  have "R ?t (?t\<lparr>secret_draws := Suc (secret_draws ?t), uuid_draws := Suc (uuid_draws ?t)\<rparr>)"
    using secret_drawn_order [of ?t] uuid_drawn_order [of "?t\<lparr>secret_draws := Suc (secret_draws ?t)\<rparr>"]
    by (auto intro: order_trans)
  with Suc.IH show ?case by (auto intro: order_trans)
qed

lemma create_authorization_order:
  assumes run: "create_authorization sha256 n dash rv viewer g audience expires s = Inr ((c, a), t)"
    and viewer: "viewer \<in> set (users s)" "u_is_active viewer"
    and complete: "audience \<noteq> VIEWER \<Longrightarrow> rv \<in> set (revisions s) \<and> r_artifacts_locked rv"
    and dash: "audience = VIEWER \<Longrightarrow> dash \<in> set (dashboards s) \<and> d_published_revision dash = Some (r_id rv)"
  shows "R s t"
proof -
  obtain i m where w: "render_auth_save True None
       (authorization_row (sha256 (rc_token c)) i dash rv viewer g audience expires)
       (s\<lparr>secret_draws := secret_draws s + Suc m, uuid_draws := uuid_draws s + Suc m\<rparr>) = Inr (a, t)"
    using create_authorization_Inr [OF run] by blast
  have "R s (s\<lparr>secret_draws := secret_draws s + Suc m, uuid_draws := uuid_draws s + Suc m\<rparr>)"
    by (rule drawn_order)
  moreover have "R (s\<lparr>secret_draws := secret_draws s + Suc m, uuid_draws := uuid_draws s + Suc m\<rparr>) t"
    using viewer complete dash by (intro render_auth_order [OF w]) (auto simp: auth_bound_def authorization_row_def)
  ultimately show ?thesis by (rule order_trans)
qed

lemma issue_preview_order: "obeys R (issue_owner_preview sha256 ttl d i v now)"
proof (rule obeysI, erule issue_owner_preview_Inr)
  fix s c t at k dash viewer revision a m e
  assume n: "now_or now s = Inr (at, s\<lparr>ticks := k\<rparr>)"
    and v: "viewer \<in> set (users s)" "u_is_active viewer"
    and r: "revision \<in> set (revisions s)" "r_artifacts_locked revision"
    and c: "create_authorization sha256 token_attempts dash revision viewer None PREVIEW (at + seconds ttl)
       (s\<lparr>ticks := k\<rparr>) = Inr ((c, a), m)"
    and e: "audit_create ''dashboard.preview_started'' (Some v) (Some d) (Some i) None
       [(''audience'', MStr (audience_value PREVIEW))] m = Inr (e, t)"
  have "R (s\<lparr>ticks := k\<rparr>) m" using v r by (intro create_authorization_order [OF c]) auto
  then show "R s t"
    using obeysD [OF now_or_order n] obeysD [OF audit_create_order e] order_trans by blast
qed

lemma issue_view_order: "obeys R (issue_published_view sha256 ttl d v now)"
proof (rule obeysI, erule issue_published_view_Inr)
  fix s c t at k dash viewer revision g a m
  assume n: "now_or now s = Inr (at, s\<lparr>ticks := k\<rparr>)"
    and d: "dash \<in> set (dashboards s)" "d_published_revision dash = Some (r_id revision)"
    and v: "viewer \<in> set (users s)" "u_is_active viewer"
    and c: "create_authorization sha256 token_attempts dash revision viewer g VIEWER (at + seconds ttl)
       (s\<lparr>ticks := k\<rparr>) = Inr ((c, a), m)"
    and o: "capture_authorized_open (ra_id a) m = Inr (True, t)"
  have "R (s\<lparr>ticks := k\<rparr>) m" using d v by (intro create_authorization_order [OF c]) auto
  then show "R s t"
    using obeysD [OF now_or_order n] obeysD [OF capture_order o] order_trans by blast
qed

lemma revoke_credential_order: "obeys R (revoke_render_authorization i now)"
  unfolding revoke_render_authorization_def
  by (intro service_rules now_or_order obeysI) (auto intro: render_auth_order simp: auth_bound_def)

section \<open>Identity\<close>

lemma record_event_order: "obeys R (record_audit_event et actor target)"
  unfolding record_audit_event_def by (intro audit_create_order)

lemma lock_bucket_order: "obeys R (lock_throttle_bucket now hash)"
  unfolding lock_throttle_bucket_def throttle_get_or_create_def stored_def Let_def
  by (intro service_rules)

lemma login_order: "obeys R (authenticate_login env meta soeid password)"
  unfolding authenticate_login_def lock_throttle_buckets_def register_failure_def
  by (intro service_rules lock_bucket_order record_event_order)

lemma set_password_order: "obeys R (set_validated_password env user password)"
  unfolding set_validated_password_def by (intro service_rules)

lemma logout_order: "obeys R (record_logout user)"
  unfolding record_logout_def by (intro service_rules record_event_order)

text \<open>The three services that edit a stored user.\<close>

text \<open>The services that write a user row, on the facts of \<open>Authentication\<close>.\<close>

lemma recorded_order: "record_audit_event et actor target s = Inr (e, t) \<Longrightarrow> R s t"
  using record_event_order unfolding obeys_def by blast

lemma password_set_order: "set_validated_password env u pw s = Inr (v, t) \<Longrightarrow> R s t"
  using set_password_order unfolding obeys_def by blast

lemma bootstrap_order: "obeys R (bootstrap_first_administrator env soeid password)"
proof (rule obeysI, erule bootstrap_Inr)
  fix s u t u1 v s1 s2 e
  assume p: "set_validated_password env u1 password (s\<lparr>uuid_draws := Suc (uuid_draws s)\<rparr>) = Inr (v, s1)"
    and adm: "active_administrator u1"
    and m: "user_save True None v s1 = Inr (u, s2)"
    and e: "record_audit_event ''auth.bootstrap'' None (Some u) s2 = Inr (e, t)"
  have "R s1 s2"
    using adm set_validated_password_Inr [OF p]
    by (intro user_add_order [OF m]) (auto simp: active_administrator_def)
  then show "R s t"
    using uuid_drawn_order [of s] password_set_order [OF p] recorded_order [OF e] order_trans by blast
qed

lemma provision_order: "obeys R (provision_user env a soeid password admin)"
proof (rule obeysI, erule provision_Inr)
  fix s u t u1 v s1 s2 e actor
  assume p: "set_validated_password env u1 password (s\<lparr>uuid_draws := Suc (uuid_draws s)\<rparr>) = Inr (v, s1)"
    and adm: "require_administrator a s = Inr actor"
    and m: "user_save True None v s1 = Inr (u, s2)"
    and e: "record_audit_event ''user.created'' (Some actor) (Some u) s2 = Inr (e, t)"
  have "R s1 s2"
    using require_administrator_Inr [OF adm] set_validated_password_Inr [OF p]
    by (intro user_add_order [OF m]) auto
  then show "R s t"
    using uuid_drawn_order [of s] password_set_order [OF p] recorded_order [OF e] order_trans by blast
qed

lemma disable_order: "obeys R (disable_user a i)"
proof (rule obeysI)
  fix s u t
  assume run: "disable_user a i s = Inr (u, t)"
  show "R s t"
    using disable_user_Inr [OF run]
  proof (elim disjE exE conjE)
    fix actor original m e
    assume w: "actor \<in> set (users s)" "active_administrator actor" "u_id actor = a" "a \<noteq> i"
      and f: "filter (\<lambda>u. u_id u = i) (users s) = [original]"
      and m: "user_save False (Some [''is_active'', ''updated_at'']) (original\<lparr>u_is_active := False\<rparr>) s = Inr (u, m)"
      and e: "record_audit_event ''user.disabled'' (Some actor) (Some u) m = Inr (e, t)"
    have "R s m"
      using w f filter_singleD [OF f]
      by (intro user_edit_order [OF m, where original = original]) (auto simp: user_edit_def)
    then show ?thesis using recorded_order [OF e] order_trans by blast
  qed (simp add: order_refl)
qed

lemma enable_order: "obeys R (enable_user a i)"
proof (rule obeysI)
  fix s u t
  assume run: "enable_user a i s = Inr (u, t)"
  show "R s t"
    using enable_user_Inr [OF run]
  proof (elim disjE exE conjE)
    fix actor original m e
    assume f: "filter (\<lambda>u. u_id u = i) (users s) = [original]"
      and m: "user_save False (Some [''is_active'', ''updated_at'']) (original\<lparr>u_is_active := True\<rparr>) s = Inr (u, m)"
      and e: "record_audit_event ''user.enabled'' (Some actor) (Some u) m = Inr (e, t)"
    have "R s m"
      using f filter_singleD [OF f]
      by (intro user_edit_order [OF m, where original = original]) (auto simp: user_edit_def)
    then show ?thesis using recorded_order [OF e] order_trans by blast
  qed (simp add: order_refl)
qed

lemma reset_order: "obeys R (reset_user_password env a i password)"
proof (rule obeysI, erule reset_user_password_Inr)
  fix s u t actor original p m e
  assume f: "filter (\<lambda>u. u_id u = i) (users s) = [original]"
    and m: "user_save False (Some [''password'', ''auth_version'', ''updated_at''])
       (original\<lparr>u_password := p, u_auth_version := u_auth_version original + 1\<rparr>)
       (s\<lparr>secret_draws := Suc (secret_draws s)\<rparr>) = Inr (u, m)"
    and e: "record_audit_event ''user.password_reset'' (Some actor) (Some u) m = Inr (e, t)"
  have "R (s\<lparr>secret_draws := Suc (secret_draws s)\<rparr>) m"
    using f filter_singleD [OF f]
    by (intro user_edit_order [OF m, where original = original]) (auto simp: user_edit_def)
  then show "R s t" using secret_drawn_order recorded_order [OF e] order_trans by blast
qed

section \<open>Revisions and reservations\<close>

lemma reserve_order: "obeys R (reserve_once key i)"
  unfolding reserve_once_def by (intro service_rules)

lemma verified_order: "obeys R (mark_reservation_verified i receipt)"
  unfolding mark_reservation_verified_def stored_def by (intro service_rules)

lemma collision_order: "obeys R (mark_reservation_collision i)"
  unfolding mark_reservation_collision_def stored_def by (intro service_rules)

lemma require_cleanup_order: "obeys R (require_cleanup sr)"
  unfolding require_cleanup_def by (intro service_rules)

lemma cleanup_required_order: "obeys R (mark_reservation_cleanup_required i)"
  unfolding mark_reservation_cleanup_required_def stored_def
  by (intro service_rules require_cleanup_order)

lemma drop_row_order: "obeys R (drop_row sr)"
  unfolding drop_row_def by (intro service_rules)

lemma commit_revision_order: "obeys R (commit_revision_metadata uc d u prepared)"
  unfolding commit_revision_metadata_def check_prepared_def create_artifact_def Let_def
  by (intro service_rules audit_create_order) (simp_all add: dashboard_edit_def publish_columns_def)

end

section \<open>Steps and histories\<close>

text \<open>What a deployment fixes: the Unicode database, the digest, the lifetime, Django's services.\<close>

record deployment =
  cf_unicode :: unicode
  cf_sha256 :: "text \<Rightarrow> text"
  cf_ttl :: int
  cf_identity :: identity_env

text \<open>
  One committed transaction. Failed transactions change nothing; the values they drew are
  skipped by \<open>advance\<close>, as are values other processes draw.
\<close>

inductive step :: "deployment \<Rightarrow> db \<Rightarrow> db \<Rightarrow> bool" for cfg :: deployment where
  advance: "step cfg s (s\<lparr>ticks := ticks s + i, uuid_draws := uuid_draws s + j,
      secret_draws := secret_draws s + k, serial := serial s + n\<rparr>)"
| grant_viewer: "grant_project_viewer d a soeid s = Inr (g, t) \<Longrightarrow> step cfg s t"
| revoke_viewer: "revoke_project_viewer d i a s = Inr (g, t) \<Longrightarrow> step cfg s t"
| project_created: "create_project owner name description s = Inr (dash, t) \<Longrightarrow> step cfg s t"
| project_renamed: "rename_project p owner name s = Inr (dash, t) \<Longrightarrow> step cfg s t"
| tags_replaced: "replace_dashboard_tags (cf_unicode cfg) d a labels s = Inr (tgs, t) \<Longrightarrow> step cfg s t"
| favorite_set: "set_dashboard_favorite d u b s = Inr (f, t) \<Longrightarrow> step cfg s t"
| access_requested: "request_dashboard_access (cf_unicode cfg) d u message s = Inr (r, t) \<Longrightarrow> step cfg s t"
| access_resolved: "resolve_dashboard_access_request d i a resolution now s = Inr (r, t) \<Longrightarrow> step cfg s t"
| transferred: "transfer_dashboard_ownership d a u expected now s = Inr (dash, t) \<Longrightarrow> step cfg s t"
| published: "publish_dashboard_revision (cf_unicode cfg) d a i note as_of interval now s = Inr (dash, t)
    \<Longrightarrow> step cfg s t"
| unpublished: "unpublish_dashboard d a s = Inr (dash, t) \<Longrightarrow> step cfg s t"
| freshness_confirmed: "confirm_dashboard_freshness d a interval as_of' now s = Inr (dash, t) \<Longrightarrow> step cfg s t"
| preview_issued: "issue_owner_preview (cf_sha256 cfg) (cf_ttl cfg) d i v now s = Inr (c, t) \<Longrightarrow> step cfg s t"
| view_issued: "issue_published_view (cf_sha256 cfg) (cf_ttl cfg) d v now s = Inr (c, t) \<Longrightarrow> step cfg s t"
| credential_revoked: "revoke_render_authorization i now s = Inr (x, t) \<Longrightarrow> step cfg s t"
| opens_aggregated: "aggregate_authorized_opens through batch s = Inr (res, t) \<Longrightarrow> step cfg s t"
| opens_purged: "purge_authorized_opens before batch s = Inr (n, t) \<Longrightarrow> step cfg s t"
| logged_in: "authenticate_login (cf_identity cfg) meta soeid password s = Inr (w, t) \<Longrightarrow> step cfg s t"
| bootstrapped: "bootstrap_first_administrator (cf_identity cfg) soeid password s = Inr (u', t) \<Longrightarrow> step cfg s t"
| provisioned: "provision_user (cf_identity cfg) a soeid password admin s = Inr (u', t) \<Longrightarrow> step cfg s t"
| disabled: "disable_user a i s = Inr (u', t) \<Longrightarrow> step cfg s t"
| enabled: "enable_user a i s = Inr (u', t) \<Longrightarrow> step cfg s t"
| password_reset: "reset_user_password (cf_identity cfg) a i password s = Inr (u', t) \<Longrightarrow> step cfg s t"
| logged_out: "record_logout u' s = Inr (x, t) \<Longrightarrow> step cfg s t"
| reserved: "reserve_once key i s = Inr (sr, t) \<Longrightarrow> step cfg s t"
| verified: "mark_reservation_verified i receipt s = Inr (x, t) \<Longrightarrow> step cfg s t"
| collided: "mark_reservation_collision i s = Inr (x, t) \<Longrightarrow> step cfg s t"
| cleanup_required: "require_cleanup sr s = Inr (x, t) \<Longrightarrow> step cfg s t"
| row_dropped: "drop_row sr s = Inr (x, t) \<Longrightarrow> step cfg s t"
| revision_committed: "commit_revision_metadata (cf_unicode cfg) d u prepared s = Inr (rv, t) \<Longrightarrow> step cfg s t"

text \<open>A history is a sequence of steps.\<close>

definition history :: "deployment \<Rightarrow> db \<Rightarrow> db \<Rightarrow> bool" where
  "history cfg = (step cfg)\<^sup>*\<^sup>*"

definition reachable :: "deployment \<Rightarrow> db \<Rightarrow> bool" where
  "reachable cfg s \<longleftrightarrow> (\<exists>now ids sec. history cfg (empty_db now ids sec) s)"

lemma history_refl [simp]: "history cfg s s"
  by (simp add: history_def)

lemma history_step: "history cfg s t \<Longrightarrow> step cfg t u \<Longrightarrow> history cfg s u"
  unfolding history_def by (rule rtranclp.rtrancl_into_rtrancl)

lemma history_trans: "history cfg s t \<Longrightarrow> history cfg t u \<Longrightarrow> history cfg s u"
  unfolding history_def by (rule rtranclp_trans)

lemma step_history: "step cfg s t \<Longrightarrow> history cfg s t"
  unfolding history_def by (rule r_into_rtranclp)

lemma reachable_history: "reachable cfg s \<Longrightarrow> history cfg s t \<Longrightarrow> reachable cfg t"
  unfolding reachable_def using history_trans by blast

text \<open>A service order that the environment also respects holds along every history.\<close>

locale history_order = service_order R for R :: "db \<Rightarrow> db \<Rightarrow> bool" +
  assumes advance_order: "R s (s\<lparr>ticks := ticks s + i, uuid_draws := uuid_draws s + j,
      secret_draws := secret_draws s + k, serial := serial s + n\<rparr>)"
begin

lemma step_ordered: "step cfg s t \<Longrightarrow> R s t"
  by (erule step.cases)
    (auto intro: advance_order
      dest: obeysD [OF grant_project_viewer_order] obeysD [OF revoke_project_viewer_order]
        obeysD [OF create_project_order] obeysD [OF rename_project_order]
        obeysD [OF replace_tags_order] obeysD [OF set_favorite_order]
        obeysD [OF request_access_order] obeysD [OF resolve_access_order]
        obeysD [OF transfer_order] obeysD [OF publish_order] obeysD [OF unpublish_order]
        obeysD [OF confirm_freshness_order] obeysD [OF issue_preview_order]
        obeysD [OF issue_view_order] obeysD [OF revoke_credential_order]
        obeysD [OF aggregate_order] obeysD [OF purge_order] obeysD [OF login_order]
        obeysD [OF bootstrap_order] obeysD [OF provision_order] obeysD [OF disable_order]
        obeysD [OF enable_order] obeysD [OF reset_order] obeysD [OF logout_order]
        obeysD [OF reserve_order] obeysD [OF verified_order] obeysD [OF collision_order]
        obeysD [OF require_cleanup_order] obeysD [OF drop_row_order]
        obeysD [OF commit_revision_order])

lemma history_ordered: "history cfg s t \<Longrightarrow> R s t"
  unfolding history_def
  by (induction rule: rtranclp_induct) (auto intro: order_refl step_ordered order_trans)

end

end
