(* ===== verification/Integrity.thy ===== *)
theory Integrity
  imports System
begin

text \<open>
  Every constraint of every table holds in every reachable state: each table write keeps
  \<open>db_wf\<close>, by the laws of the constrained tables, so the interpretation \<open>integrity\<close> of
  \<open>history_order\<close> gives it for every service and every history.
\<close>

section \<open>Each write keeps the constraints\<close>

lemma db_wf_env [simp]:
  "db_wf (s\<lparr>ticks := k\<rparr>) = db_wf s" "db_wf (s\<lparr>uuid_draws := k\<rparr>) = db_wf s"
  "db_wf (s\<lparr>secret_draws := k\<rparr>) = db_wf s" "db_wf (s\<lparr>serial := k\<rparr>) = db_wf s"
  by (simp_all add: db_wf_def)

text \<open>Replacing one table: only that table has to be checked.\<close>

lemma db_wf_table:
  assumes "db_wf s"
  shows "wf_table u_id user_checks user_conflict (users s)"
    and "wf_table lt_id throttle_checks throttle_conflict (throttles s)"
    and "wf_table d_id dashboard_checks dashboard_conflict (dashboards s)"
    and "wf_table ot_id transfer_checks transfer_conflict (transfers s)"
    and "wf_table tg_id tag_checks tag_conflict (dash_tags s)"
    and "wf_table fv_id (\<lambda>_. True) favorite_conflict (favorites s)"
    and "wf_table vs_id (\<lambda>_. True) viewer_state_conflict (viewer_states s)"
    and "wf_table ar_id request_checks request_conflict (access_requests s)"
    and "wf_table r_id revision_checks revision_conflict (revisions s)"
    and "wf_table a_id artifact_checks artifact_conflict (artifacts s)"
    and "wf_table g_id grant_checks grant_conflict (grants s)"
    and "wf_table ra_id render_auth_checks render_auth_conflict (render_auths s)"
    and "wf_table ao_id open_checks open_conflict (opens s)"
    and "wf_table od_id (\<lambda>_. True) daily_conflict (open_dailies s)"
    and "wf_table vo_id summary_checks summary_conflict (viewer_summaries s)"
    and "wf_table sn_id (\<lambda>_. True) snapshot_conflict (open_snapshots s)"
    and "wf_table ck_pipeline_key checkpoint_checks (\<lambda>_ _. False) (checkpoints s)"
    and "wf_table ae_id audit_checks (\<lambda>_ _. False) (audit_events s)"
    and "wf_table sr_id reservation_checks reservation_conflict (reservations s)"
  using assms by (simp_all only: db_wf_def)

lemma db_wf_updates:
  assumes "db_wf s"
  shows "db_wf (users_update f_users s) \<longleftrightarrow> wf_table u_id user_checks user_conflict (f_users (users s))"
    and "db_wf (throttles_update f_throttles s) \<longleftrightarrow> wf_table lt_id throttle_checks throttle_conflict (f_throttles (throttles s))"
    and "db_wf (dashboards_update f_dashboards s) \<longleftrightarrow> wf_table d_id dashboard_checks dashboard_conflict (f_dashboards (dashboards s))"
    and "db_wf (transfers_update f_transfers s) \<longleftrightarrow> wf_table ot_id transfer_checks transfer_conflict (f_transfers (transfers s))"
    and "db_wf (dash_tags_update f_dash_tags s) \<longleftrightarrow> wf_table tg_id tag_checks tag_conflict (f_dash_tags (dash_tags s))"
    and "db_wf (favorites_update f_favorites s) \<longleftrightarrow> wf_table fv_id (\<lambda>_. True) favorite_conflict (f_favorites (favorites s))"
    and "db_wf (viewer_states_update f_viewer_states s) \<longleftrightarrow> wf_table vs_id (\<lambda>_. True) viewer_state_conflict (f_viewer_states (viewer_states s))"
    and "db_wf (access_requests_update f_access_requests s) \<longleftrightarrow> wf_table ar_id request_checks request_conflict (f_access_requests (access_requests s))"
    and "db_wf (revisions_update f_revisions s) \<longleftrightarrow> wf_table r_id revision_checks revision_conflict (f_revisions (revisions s))"
    and "db_wf (artifacts_update f_artifacts s) \<longleftrightarrow> wf_table a_id artifact_checks artifact_conflict (f_artifacts (artifacts s))"
    and "db_wf (grants_update f_grants s) \<longleftrightarrow> wf_table g_id grant_checks grant_conflict (f_grants (grants s))"
    and "db_wf (render_auths_update f_render_auths s) \<longleftrightarrow> wf_table ra_id render_auth_checks render_auth_conflict (f_render_auths (render_auths s))"
    and "db_wf (opens_update f_opens s) \<longleftrightarrow> wf_table ao_id open_checks open_conflict (f_opens (opens s))"
    and "db_wf (open_dailies_update f_open_dailies s) \<longleftrightarrow> wf_table od_id (\<lambda>_. True) daily_conflict (f_open_dailies (open_dailies s))"
    and "db_wf (viewer_summaries_update f_viewer_summaries s) \<longleftrightarrow> wf_table vo_id summary_checks summary_conflict (f_viewer_summaries (viewer_summaries s))"
    and "db_wf (open_snapshots_update f_open_snapshots s) \<longleftrightarrow> wf_table sn_id (\<lambda>_. True) snapshot_conflict (f_open_snapshots (open_snapshots s))"
    and "db_wf (checkpoints_update f_checkpoints s) \<longleftrightarrow> wf_table ck_pipeline_key checkpoint_checks (\<lambda>_ _. False) (f_checkpoints (checkpoints s))"
    and "db_wf (audit_events_update f_audit_events s) \<longleftrightarrow> wf_table ae_id audit_checks (\<lambda>_ _. False) (f_audit_events (audit_events s))"
    and "db_wf (reservations_update f_reservations s) \<longleftrightarrow> wf_table sr_id reservation_checks reservation_conflict (f_reservations (reservations s))"
  using db_wf_table [OF assms] by (simp_all add: db_wf_def)

lemmas wf_inserts = user_table.wf_insert throttle_table.wf_insert dashboard_table.wf_insert
  transfer_table.wf_insert tag_table.wf_insert favorite_table.wf_insert
  viewer_state_table.wf_insert request_table.wf_insert revision_table.wf_insert
  artifact_table.wf_insert grant_table.wf_insert render_auth_table.wf_insert
  open_table.wf_insert daily_table.wf_insert summary_table.wf_insert snapshot_table.wf_insert
  checkpoint_table.wf_insert audit_table.wf_insert reservation_table.wf_insert

lemmas wf_puts = user_table.wf_put throttle_table.wf_put dashboard_table.wf_put
  viewer_state_table.wf_put request_table.wf_put grant_table.wf_put render_auth_table.wf_put
  open_table.wf_put daily_table.wf_put summary_table.wf_put snapshot_table.wf_put
  checkpoint_table.wf_put reservation_table.wf_put

lemmas wf_filters = throttle_table.wf_filter tag_table.wf_filter favorite_table.wf_filter
  open_table.wf_filter reservation_table.wf_filter

lemma wf_identity_writes:
  "user_save adding fs u s = Inr (v, t) \<Longrightarrow> db_wf s \<Longrightarrow> db_wf t"
  "throttle_insert b s = Inr (b', t) \<Longrightarrow> db_wf s \<Longrightarrow> db_wf t"
  "throttle_save fs b s = Inr (b', t) \<Longrightarrow> db_wf s \<Longrightarrow> db_wf t"
  "delete_throttles hashes s = Inr (x, t) \<Longrightarrow> db_wf s \<Longrightarrow> db_wf t"
proof -
  show "user_save adding fs u s = Inr (v, t) \<Longrightarrow> db_wf s \<Longrightarrow> db_wf t"
    by (cases adding)
      (auto dest!: user_save_add_Inr user_save_change_Inr simp: db_wf_updates db_wf_table wf_inserts wf_puts split del: if_split)
  show "throttle_insert b s = Inr (b', t) \<Longrightarrow> db_wf s \<Longrightarrow> db_wf t"
    by (auto dest!: throttle_insert_Inr simp: db_wf_updates db_wf_table wf_inserts)
  show "throttle_save fs b s = Inr (b', t) \<Longrightarrow> db_wf s \<Longrightarrow> db_wf t"
    by (auto dest!: throttle_save_Inr simp: db_wf_updates db_wf_table wf_puts)
  show "delete_throttles hashes s = Inr (x, t) \<Longrightarrow> db_wf s \<Longrightarrow> db_wf t"
    by (auto simp: delete_throttles_def writeT_eq_Inr db_wf_updates db_wf_table wf_filters)
qed

lemma wf_dashboard_writes:
  "dashboard_save adding fs d s = Inr (v, t) \<Longrightarrow> db_wf s \<Longrightarrow> db_wf t"
  "hand_over d actor incoming at s = Inr (m, t) \<Longrightarrow> db_wf s \<Longrightarrow> db_wf t"
  "tag_create uc i label slot s = Inr (tg, t) \<Longrightarrow> db_wf s \<Longrightarrow> db_wf t"
  "delete_tags i s = Inr (x, t) \<Longrightarrow> db_wf s \<Longrightarrow> db_wf t"
  "favorite_insert f s = Inr (f', t) \<Longrightarrow> db_wf s \<Longrightarrow> db_wf t"
  "delete_favorites i j s = Inr (x, t) \<Longrightarrow> db_wf s \<Longrightarrow> db_wf t"
  "viewer_state_save adding fs vs s = Inr (vs', t) \<Longrightarrow> db_wf s \<Longrightarrow> db_wf t"
  "request_save adding fs r s = Inr (r', t) \<Longrightarrow> db_wf s \<Longrightarrow> db_wf t"
proof -
  show "dashboard_save adding fs d s = Inr (v, t) \<Longrightarrow> db_wf s \<Longrightarrow> db_wf t"
    by (cases adding)
      (auto dest!: dashboard_save_add_Inr dashboard_save_change_Inr simp: db_wf_updates db_wf_table wf_inserts wf_puts
        split del: if_split)
  show "tag_create uc i label slot s = Inr (tg, t) \<Longrightarrow> db_wf s \<Longrightarrow> db_wf t"
    by (auto dest!: tag_create_Inr simp: db_wf_updates db_wf_table wf_inserts)
  show "delete_tags i s = Inr (x, t) \<Longrightarrow> db_wf s \<Longrightarrow> db_wf t"
    by (auto simp: delete_tags_def writeT_eq_Inr db_wf_updates db_wf_table wf_filters)
  show "favorite_insert f s = Inr (f', t) \<Longrightarrow> db_wf s \<Longrightarrow> db_wf t"
    by (auto dest!: favorite_insert_Inr simp: db_wf_updates db_wf_table wf_inserts)
  show "delete_favorites i j s = Inr (x, t) \<Longrightarrow> db_wf s \<Longrightarrow> db_wf t"
    by (auto simp: delete_favorites_def writeT_eq_Inr db_wf_updates db_wf_table wf_filters)
  show "viewer_state_save adding fs vs s = Inr (vs', t) \<Longrightarrow> db_wf s \<Longrightarrow> db_wf t"
    by (cases adding)
      (auto dest!: viewer_state_save_add_Inr viewer_state_save_change_Inr simp: db_wf_updates db_wf_table wf_inserts wf_puts split del: if_split)
  show "request_save adding fs r s = Inr (r', t) \<Longrightarrow> db_wf s \<Longrightarrow> db_wf t"
    by (cases adding)
      (auto dest!: request_save_add_Inr request_save_change_Inr simp: db_wf_updates db_wf_table wf_inserts wf_puts split del: if_split)
  assume h: "hand_over d actor incoming at s = Inr (m, t)" and wf: "db_wf s"
  obtain v k n where u: "updatable d_id dashboard_checks dashboard_conflict v (dashboards s)"
    and i: "insertable ot_id transfer_checks transfer_conflict m (transfers s)"
    and t: "t = s\<lparr>transfers := transfers s @ [m], dashboards := put_row d_id v (dashboards s),
           ticks := k, uuid_draws := n\<rparr>"
    using hand_over_Inr [OF h] by blast
  have "wf_table d_id dashboard_checks dashboard_conflict (put_row d_id v (dashboards s))"
    "wf_table ot_id transfer_checks transfer_conflict (transfers s @ [m])"
    using u i wf by (auto simp: db_wf_updates db_wf_table wf_inserts wf_puts split del: if_split)
  then show "db_wf t" using wf by (simp add: t db_wf_def)
qed

lemma wf_lock: "wf_table r_id revision_checks revision_conflict rs \<Longrightarrow>
  wf_table r_id revision_checks revision_conflict
    (map (\<lambda>r. if r_id r = i \<and> \<not> r_artifacts_locked r then r\<lparr>r_artifacts_locked := True\<rparr> else r) rs)"
  by (rule revision_table.wf_map) (auto simp: revision_checks_def revision_conflict_def split: if_split_asm)

lemma wf_captured: "wf_table ra_id render_auth_checks render_auth_conflict rs \<Longrightarrow>
  wf_table ra_id render_auth_checks render_auth_conflict
    (map (\<lambda>a. if ra_id a = i \<and> ra_captured_at a = None then a\<lparr>ra_captured_at := Some at\<rparr> else a) rs)"
  by (rule render_auth_table.wf_map)
    (auto simp: render_auth_checks_def render_auth_conflict_def split: if_split_asm)

lemma wf_aggregated: "wf_table ao_id open_checks open_conflict rs \<Longrightarrow>
  wf_table ao_id open_checks open_conflict
    (map (\<lambda>e. if ao_id e \<in> S \<and> ao_aggregated_at e = None then e\<lparr>ao_aggregated_at := Some at\<rparr> else e) rs)"
  by (rule open_table.wf_map) (auto simp: open_checks_def open_conflict_def split: if_split_asm)

lemma wf_content_writes:
  "revision_save adding r s = Inr (r', t) \<Longrightarrow> db_wf s \<Longrightarrow> db_wf t"
  "lock_artifacts i s = Inr (n, t) \<Longrightarrow> db_wf s \<Longrightarrow> db_wf t"
  "artifact_save uc adding a s = Inr (a', t) \<Longrightarrow> db_wf s \<Longrightarrow> db_wf t"
  "grant_save adding fs g s = Inr (g', t) \<Longrightarrow> db_wf s \<Longrightarrow> db_wf t"
  "render_auth_save adding fs ra s = Inr (ra', t) \<Longrightarrow> db_wf s \<Longrightarrow> db_wf t"
  "mark_captured i at s = Inr (x, t) \<Longrightarrow> db_wf s \<Longrightarrow> db_wf t"
  "audit_save adding ae s = Inr (ae', t) \<Longrightarrow> db_wf s \<Longrightarrow> db_wf t"
  "reservation_save adding fs sr s = Inr (sr', t) \<Longrightarrow> db_wf s \<Longrightarrow> db_wf t"
  "delete_reservations ids s = Inr (x, t) \<Longrightarrow> db_wf s \<Longrightarrow> db_wf t"
proof -
  show "revision_save adding r s = Inr (r', t) \<Longrightarrow> db_wf s \<Longrightarrow> db_wf t"
    using revision_save_Inr [of r s r' t] revision_frame [of adding r s r' t]
    by (cases adding) (auto simp: db_wf_updates db_wf_table wf_inserts)
  show "lock_artifacts i s = Inr (n, t) \<Longrightarrow> db_wf s \<Longrightarrow> db_wf t"
    by (auto dest!: lock_artifacts_Inr simp: db_wf_updates db_wf_table wf_lock)
  show "artifact_save uc adding a s = Inr (a', t) \<Longrightarrow> db_wf s \<Longrightarrow> db_wf t"
    using artifact_save_Inr [of uc a s a' t] artifact_frame [of uc adding a s a' t]
    by (cases adding) (auto simp: db_wf_updates db_wf_table wf_inserts)
  show "grant_save adding fs g s = Inr (g', t) \<Longrightarrow> db_wf s \<Longrightarrow> db_wf t"
    by (cases adding)
      (auto dest!: grant_save_add_Inr grant_save_change_Inr simp: db_wf_updates db_wf_table wf_inserts wf_puts split del: if_split)
  show "render_auth_save adding fs ra s = Inr (ra', t) \<Longrightarrow> db_wf s \<Longrightarrow> db_wf t"
    by (cases adding)
      (auto dest!: render_auth_save_add_Inr render_auth_save_change_Inr simp: db_wf_updates db_wf_table wf_inserts wf_puts split del: if_split)
  show "mark_captured i at s = Inr (x, t) \<Longrightarrow> db_wf s \<Longrightarrow> db_wf t"
    by (auto simp: mark_captured_def writeT_eq_Inr db_wf_updates db_wf_table wf_captured)
  show "audit_save adding ae s = Inr (ae', t) \<Longrightarrow> db_wf s \<Longrightarrow> db_wf t"
    by (auto dest!: audit_frame simp: db_wf_updates db_wf_table wf_inserts)
  show "db_wf t" if r: "reservation_save adding fs sr s = Inr (sr', t)" and wf: "db_wf s"
  proof (cases adding)
    case True
    then show ?thesis using r wf by (auto dest!: reservation_save_add_Inr simp: db_wf_updates db_wf_table wf_inserts)
  next
    case False
    with r have r': "reservation_save False fs sr s = Inr (sr', t)" by simp
    have "updatable sr_id reservation_checks reservation_conflict sr' (reservations s)"
      "t = s\<lparr>reservations := put_row sr_id sr' (reservations s)\<rparr>"
      using reservation_save_change_Inr [OF r'] by blast+
    then show ?thesis using wf by (simp add: db_wf_updates db_wf_table wf_puts)
  qed
  show "delete_reservations ids s = Inr (x, t) \<Longrightarrow> db_wf s \<Longrightarrow> db_wf t"
    by (auto simp: delete_reservations_def writeT_eq_Inr db_wf_updates db_wf_table wf_filters)
qed

lemma wf_analytics_writes:
  "open_save adding fs e s = Inr (e', t) \<Longrightarrow> db_wf s \<Longrightarrow> db_wf t"
  "mark_aggregated opened at s = Inr (x, t) \<Longrightarrow> db_wf s \<Longrightarrow> db_wf t"
  "delete_opens opened s = Inr (x, t) \<Longrightarrow> db_wf s \<Longrightarrow> db_wf t"
  "daily_insert od s = Inr (od', t) \<Longrightarrow> db_wf s \<Longrightarrow> db_wf t"
  "daily_update od s = Inr (od', t) \<Longrightarrow> db_wf s \<Longrightarrow> db_wf t"
  "summary_insert vo s = Inr (vo', t) \<Longrightarrow> db_wf s \<Longrightarrow> db_wf t"
  "summary_update vo s = Inr (vo', t) \<Longrightarrow> db_wf s \<Longrightarrow> db_wf t"
  "snapshot_insert sn s = Inr (sn', t) \<Longrightarrow> db_wf s \<Longrightarrow> db_wf t"
  "snapshot_update sn s = Inr (sn', t) \<Longrightarrow> db_wf s \<Longrightarrow> db_wf t"
  "checkpoint_save adding fs c s = Inr (c', t) \<Longrightarrow> db_wf s \<Longrightarrow> db_wf t"
proof -
  show "open_save adding fs e s = Inr (e', t) \<Longrightarrow> db_wf s \<Longrightarrow> db_wf t"
    by (cases adding)
      (auto dest!: open_save_add_Inr open_save_change_Inr simp: db_wf_updates db_wf_table wf_inserts wf_puts split del: if_split)
  show "mark_aggregated opened at s = Inr (x, t) \<Longrightarrow> db_wf s \<Longrightarrow> db_wf t"
    by (auto simp: mark_aggregated_def writeT_eq_Inr db_wf_updates db_wf_table wf_aggregated)
  show "delete_opens opened s = Inr (x, t) \<Longrightarrow> db_wf s \<Longrightarrow> db_wf t"
    by (auto simp: delete_opens_def writeT_eq_Inr db_wf_updates db_wf_table wf_filters)
  show "checkpoint_save adding fs c s = Inr (c', t) \<Longrightarrow> db_wf s \<Longrightarrow> db_wf t"
    by (cases adding)
      (auto dest!: checkpoint_save_add_Inr checkpoint_save_change_Inr simp: db_wf_updates db_wf_table wf_inserts wf_puts split del: if_split)
qed (auto dest!: rollup_Inr simp: db_wf_updates db_wf_table wf_inserts wf_puts split del: if_split)

lemma wf_environment:
  "timezone_now s = Inr (at, t) \<Longrightarrow> db_wf s \<Longrightarrow> db_wf t"
  "uuid4 s = Inr (i, t) \<Longrightarrow> db_wf s \<Longrightarrow> db_wf t"
  "draw_secret s = Inr (v, t) \<Longrightarrow> db_wf s \<Longrightarrow> db_wf t"
  "next_serial s = Inr (i, t) \<Longrightarrow> db_wf s \<Longrightarrow> db_wf t"
  by (auto simp: environment_run)

lemmas wf_writes = wf_identity_writes wf_dashboard_writes wf_content_writes wf_analytics_writes
  wf_environment

section \<open>Every history keeps the constraints\<close>

interpretation integrity: history_order "\<lambda>s t. db_wf s \<longrightarrow> db_wf t"
proof unfold_locales
  fix s i j k n
  show "db_wf s \<longrightarrow> db_wf (s\<lparr>ticks := ticks s + i, uuid_draws := uuid_draws s + j,
      secret_draws := secret_draws s + k, serial := serial s + n\<rparr>)"
    by (simp add: db_wf_def)
qed (simp | blast | intro obeysI impI, erule (1) wf_writes)+

lemma reachable_wf: "reachable cfg s \<Longrightarrow> db_wf s"
  unfolding reachable_def using integrity.history_ordered db_wf_empty by blast

end
