(* ===== verification/History.thy ===== *)
theory History
  imports Integrity
begin

text \<open>
  What no service can undo: \<open>retained\<close> relates a database to the databases it may turn into. Rows
  of the retained tables stay in place, the audit log and the transfer chain only grow, recorded
  revocations stay recorded, and the authorization and publication versions only advance. The
  interpretation \<open>retention\<close> (in \<open>Consistency\<close>) proves it for every history.
\<close>

section \<open>How a row may change\<close>

definition user_evolves :: "user \<Rightarrow> user \<Rightarrow> bool" where
  "user_evolves x y \<longleftrightarrow>
     u_id y = u_id x \<and> u_soeid y = u_soeid x \<and> u_is_administrator y = u_is_administrator x \<and>
     u_created_at y = u_created_at x \<and> u_auth_version x \<le> u_auth_version y \<and>
     (u_auth_version y = u_auth_version x \<longrightarrow>
        u_is_active y = u_is_active x \<and> u_password y = u_password x)"

definition dashboard_evolves :: "dashboard \<Rightarrow> dashboard \<Rightarrow> bool" where
  "dashboard_evolves x y \<longleftrightarrow>
     d_id y = d_id x \<and> d_created_at y = d_created_at x \<and>
     (d_first_published_at x \<noteq> None \<longrightarrow> d_first_published_at y = d_first_published_at x) \<and>
     d_publication_version x \<le> d_publication_version y \<and>
     (d_publication_version y = d_publication_version x \<longrightarrow>
        (d_published_revision y = d_published_revision x \<or> d_published_revision y = None) \<and>
        d_last_published_at y = d_last_published_at x \<and>
        d_publication_note y = d_publication_note x)"

definition revision_evolves :: "revision \<Rightarrow> revision \<Rightarrow> bool" where
  "revision_evolves x y \<longleftrightarrow>
     y\<lparr>r_artifacts_locked := r_artifacts_locked x\<rparr> = x \<and>
     (r_artifacts_locked x \<longrightarrow> r_artifacts_locked y)"

definition grant_evolves :: "grant \<Rightarrow> grant \<Rightarrow> bool" where
  "grant_evolves x y \<longleftrightarrow>
     g_id y = g_id x \<and> g_dashboard y = g_dashboard x \<and> g_viewer y = g_viewer x \<and>
     g_created_by y = g_created_by x \<and> g_created_at y = g_created_at x \<and>
     (g_revoked_at x \<noteq> None \<longrightarrow> y = x)"

definition render_auth_evolves :: "render_auth \<Rightarrow> render_auth \<Rightarrow> bool" where
  "render_auth_evolves x y \<longleftrightarrow>
     same_scope x y \<and> (ra_revoked_at x \<noteq> None \<longrightarrow> ra_revoked_at y = ra_revoked_at x) \<and>
     (ra_captured_at x \<noteq> None \<longrightarrow> ra_captured_at y = ra_captured_at x)"

definition request_evolves :: "access_request \<Rightarrow> access_request \<Rightarrow> bool" where
  "request_evolves x y \<longleftrightarrow>
     ar_id y = ar_id x \<and> ar_dashboard y = ar_dashboard x \<and> ar_requester y = ar_requester x \<and>
     ar_requested_at x \<le> ar_requested_at y \<and>
     (ar_status x \<noteq> PENDING \<and> ar_requested_at y = ar_requested_at x \<longrightarrow>
        ar_status y = ar_status x \<and> ar_message y = ar_message x \<and>
        ar_resolved_at y = ar_resolved_at x \<and> ar_resolved_by y = ar_resolved_by x)"

lemmas evolution_defs = user_evolves_def dashboard_evolves_def revision_evolves_def
  grant_evolves_def render_auth_evolves_def request_evolves_def

lemma evolution_refl [simp]:
  "user_evolves u u" "dashboard_evolves d d" "revision_evolves r r" "grant_evolves g g"
  "render_auth_evolves a a" "request_evolves q q"
  by (simp_all add: evolution_defs same_scope_def)

lemma same_scope_trans: "same_scope x y \<Longrightarrow> same_scope y z \<Longrightarrow> same_scope x z"
  by (simp add: same_scope_def)

lemma evolution_trans:
  "user_evolves u v \<Longrightarrow> user_evolves v w \<Longrightarrow> user_evolves u w"
  "dashboard_evolves d e \<Longrightarrow> dashboard_evolves e f \<Longrightarrow> dashboard_evolves d f"
  "revision_evolves r r' \<Longrightarrow> revision_evolves r' r'' \<Longrightarrow> revision_evolves r r''"
  "grant_evolves g h \<Longrightarrow> grant_evolves h i \<Longrightarrow> grant_evolves g i"
  "render_auth_evolves a b \<Longrightarrow> render_auth_evolves b c \<Longrightarrow> render_auth_evolves a c"
  "request_evolves q q' \<Longrightarrow> request_evolves q' q'' \<Longrightarrow> request_evolves q q''"
proof -
  show "user_evolves u v \<Longrightarrow> user_evolves v w \<Longrightarrow> user_evolves u w"
    unfolding user_evolves_def by (metis le_antisym le_trans)
  show "dashboard_evolves d e \<Longrightarrow> dashboard_evolves e f \<Longrightarrow> dashboard_evolves d f"
    unfolding dashboard_evolves_def by (metis le_antisym le_trans)
  show "revision_evolves r r' \<Longrightarrow> revision_evolves r' r'' \<Longrightarrow> revision_evolves r r''"
    by (cases r; cases r'; cases r'') (auto simp: revision_evolves_def)
  show "grant_evolves g h \<Longrightarrow> grant_evolves h i \<Longrightarrow> grant_evolves g i"
    unfolding grant_evolves_def by metis
  show "render_auth_evolves a b \<Longrightarrow> render_auth_evolves b c \<Longrightarrow> render_auth_evolves a c"
    unfolding render_auth_evolves_def by (metis same_scope_trans)
  show "request_evolves q q' \<Longrightarrow> request_evolves q' q'' \<Longrightarrow> request_evolves q q''"
    unfolding request_evolves_def by (metis antisym order_trans)
qed

definition retained :: "db \<Rightarrow> db \<Rightarrow> bool" where
  "retained s t \<longleftrightarrow>
     evolves user_evolves (users s) (users t) \<and>
     evolves dashboard_evolves (dashboards s) (dashboards t) \<and>
     evolves (=) (transfers s) (transfers t) \<and>
     evolves revision_evolves (revisions s) (revisions t) \<and>
     evolves (=) (artifacts s) (artifacts t) \<and>
     evolves grant_evolves (grants s) (grants t) \<and>
     evolves render_auth_evolves (render_auths s) (render_auths t) \<and>
     evolves request_evolves (access_requests s) (access_requests t) \<and>
     evolves (=) (audit_events s) (audit_events t)"

lemma retained_refl: "retained s s"
  by (simp add: retained_def evolves_refl)

lemma retained_trans: "retained s t \<Longrightarrow> retained t u \<Longrightarrow> retained s u"
  unfolding retained_def
  by (auto elim!: evolves_trans [rotated] intro: evolution_trans)

text \<open>What became of a row.\<close>

lemma retained_row:
  assumes "retained s t"
  shows "u \<in> set (users s) \<Longrightarrow> \<exists>u' \<in> set (users t). user_evolves u u'"
    and "d \<in> set (dashboards s) \<Longrightarrow> \<exists>d' \<in> set (dashboards t). dashboard_evolves d d'"
    and "x \<in> set (transfers s) \<Longrightarrow> x \<in> set (transfers t)"
    and "r \<in> set (revisions s) \<Longrightarrow> \<exists>r' \<in> set (revisions t). revision_evolves r r'"
    and "g \<in> set (grants s) \<Longrightarrow> \<exists>g' \<in> set (grants t). grant_evolves g g'"
    and "a \<in> set (render_auths s) \<Longrightarrow> \<exists>a' \<in> set (render_auths t). render_auth_evolves a a'"
    and "q \<in> set (access_requests s) \<Longrightarrow> \<exists>q' \<in> set (access_requests t). request_evolves q q'"
    and "e \<in> set (audit_events s) \<Longrightarrow> e \<in> set (audit_events t)"
  using assms unfolding retained_def by (auto dest: evolves_row)

section \<open>The table writes\<close>

text \<open>Writes to the tables \<open>retained\<close> does not mention, and to the environment.\<close>

lemma retained_sides:
  "users t = users s \<Longrightarrow> dashboards t = dashboards s \<Longrightarrow> transfers t = transfers s \<Longrightarrow>
   revisions t = revisions s \<Longrightarrow> artifacts t = artifacts s \<Longrightarrow> grants t = grants s \<Longrightarrow>
   render_auths t = render_auths s \<Longrightarrow> access_requests t = access_requests s \<Longrightarrow>
   audit_events t = audit_events s \<Longrightarrow> retained s t"
  by (simp add: retained_def evolves_refl)

lemma user_edit_evolves:
  assumes "user_save False fs u s = Inr (v, t)"
    and "filter (\<lambda>x. u_id x = u_id original) (users s) = [original]" "user_edit fs original u"
  shows "evolves user_evolves (users s) (users t) \<and> (\<exists>k. t = s\<lparr>users := put_row u_id v (users s), ticks := k\<rparr>)
    \<and> u_id v = u_id original \<and> u_is_active v = u_is_active u \<and> u_is_administrator v = u_is_administrator original
    \<and> (u_password v \<noteq> u_password original \<or> u_is_active v \<noteq> u_is_active original
        \<or> u_auth_version u \<noteq> u_auth_version original \<longrightarrow> u_auth_version v = u_auth_version original + 1)"
proof -
  have id: "u_id u = u_id original" using assms(3) by (auto simp: user_edit_def)
  obtain original' now where o: "filter (\<lambda>x. u_id x = u_id u) (users s) = [original']"
    and v: "v = user_columns
      (if u_is_active u \<noteq> u_is_active original' then add_fields [''auth_version''] fs else fs)
      now original' (flipped_user original' u)"
    and t: "t = s\<lparr>users := put_row u_id v (users s), ticks := Suc (ticks s)\<rparr>"
    using user_save_change_Inr [OF assms(1)] by blast
  have [simp]: "original' = original" using o assms(2) id by simp
  have "user_evolves original v \<and> u_is_active v = u_is_active u \<and>
    (u_password v \<noteq> u_password original \<or> u_is_active v \<noteq> u_is_active original
        \<or> u_auth_version u \<noteq> u_auth_version original \<longrightarrow> u_auth_version v = u_auth_version original + 1)"
    using assms(3) unfolding user_edit_def
  proof (elim disjE exE conjE)
    fix b
    assume fs: "fs = Some [''is_active'', ''updated_at'']" and u: "u = original\<lparr>u_is_active := b\<rparr>"
    show ?thesis
      by (cases "b = u_is_active original")
        (simp_all add: v fs u user_evolves_def user_columns_def flipped_user_def column_add_fields column_Some)
  next
    fix p
    assume fs: "fs = Some [''password'', ''auth_version'', ''updated_at'']"
      and u: "u = original\<lparr>u_password := p, u_auth_version := u_auth_version original + 1\<rparr>"
    show ?thesis
      by (simp add: v fs u user_evolves_def user_columns_def flipped_user_def column_Some)
  qed
  moreover have "x = original" if "x \<in> set (users s)" "u_id x = u_id v" for x
    using filter_single_unique [OF assms(2), of x] that calculation by (simp add: user_evolves_def)
  ultimately have e: "evolves user_evolves (users s) (put_row u_id v (users s))"
    by (intro evolves_put) auto
  with \<open>_ \<and> _ \<and> _\<close> show ?thesis
    unfolding t by (auto simp: user_evolves_def)
qed

lemma lifecycle_transition_Inr:
  "lifecycle_transition original d = Inr () \<Longrightarrow>
     d_state original \<noteq> DELETED \<and>
     (d_first_published_at original \<noteq> None \<longrightarrow> d_first_published_at d = d_first_published_at original) \<and>
     (d_publication_version d = d_publication_version original \<or>
      d_publication_version d = d_publication_version original + 1) \<and>
     (d_publication_version d = d_publication_version original \<longrightarrow>
        d_last_published_at d = d_last_published_at original \<and>
        d_publication_note d = d_publication_note original \<and>
        (d_state d = PUBLISHED \<and> d_state original = PUBLISHED \<longrightarrow>
           d_published_revision d = d_published_revision original)) \<and>
     (d_publication_version d = d_publication_version original + 1 \<longrightarrow>
        d_state d = PUBLISHED \<and> d_published_revision d \<noteq> None \<and>
        (\<exists>t. d_last_published_at d = Some t \<and>
           (\<forall>t0. d_last_published_at original = Some t0 \<longrightarrow> t0 \<le> t))) \<and>
     d_state d \<in> set (allowed_states original)"
  unfolding lifecycle_transition_def
  by (auto simp: bindE_eq_Inr simp del: allowed_states.simps
      split: if_split_asm option.split_asm option.splits)

lemma written_dashboard_evolves:
  assumes l: "lifecycle_transition original d' = Inr ()" and c: "dashboard_checks d'"
    and d': "d' = advanced_dashboard original now1 d" and e: "dashboard_edit adding fs d" "\<not> adding"
  shows "dashboard_evolves original (dashboard_columns
      (if advances_publication original d
       then add_fields [''publication_version'', ''last_published_at''] fs else fs) now2 original d')"
proof -
  note L = lifecycle_transition_Inr [OF l]
  have version: "d_publication_version original \<le> d_publication_version d'" using L by auto
  have pinned: "d_published_revision d' = d_published_revision original \<or> d_published_revision d' = None"
    if v: "d_publication_version d' = d_publication_version original"
  proof (rule disjCI)
    assume ne: "d_published_revision d' \<noteq> None"
    with c have "d_state d' = PUBLISHED" by (auto simp: dashboard_checks_def)
    moreover have "\<not> advances_publication original d"
      using v d' by (auto simp: advanced_dashboard_def)
    ultimately show "d_published_revision d' = d_published_revision original"
      using v ne L d' by (auto simp: advanced_dashboard_def advances_publication_def)
  qed
  show ?thesis
  proof (cases "advances_publication original d")
    case True
    then have "d_publication_version d' = d_publication_version original + 1"
      by (simp add: d' advanced_dashboard_def)
    with True L show ?thesis
      by (simp add: dashboard_evolves_def dashboard_columns_def column_add_fields)
  next
    case False
    show ?thesis
      using e(1)[unfolded dashboard_edit_def]
    proof (elim disjE conjE)
      assume "fs = Some publish_columns"
      then show ?thesis
        using L version pinned False
        by (simp add: dashboard_evolves_def dashboard_columns_def column_Some publish_columns_def)
    next
      assume fs: "fs = Some [''state'', ''published_revision'', ''updated_at'']"
        and "d_published_revision d = None"
      then have "d_published_revision d' = None" using False d' by (simp add: advanced_dashboard_def)
      then show ?thesis
        using False by (simp add: fs dashboard_evolves_def dashboard_columns_def column_Some)
    qed (use False e(2) in \<open>simp_all add: dashboard_evolves_def dashboard_columns_def column_Some\<close>)
  qed
qed

lemma dashboard_edit_evolves:
  assumes "dashboard_save adding fs d s = Inr (v, t)" "dashboard_edit adding fs d"
  shows "evolves dashboard_evolves (dashboards s) (dashboards t)"
proof (cases adding)
  case True
  then show ?thesis using assms(1) by (auto dest!: dashboard_save_add_Inr intro!: evolves_append)
next
  case False
  with assms(1) obtain original now1 now2 d' fs' k where
    o: "filter (\<lambda>x. d_id x = d_id d) (dashboards s) = [original]"
    and d': "d' = advanced_dashboard original now1 d"
    and fs': "fs' = (if advances_publication original d
              then add_fields [''publication_version'', ''last_published_at''] fs else fs)"
    and l: "lifecycle_transition original d' = Inr ()"
    and c: "dashboard_checks d'"
    and v: "v = dashboard_columns fs' now2 original d'"
    and t: "t = s\<lparr>dashboards := put_row d_id v (dashboards s), ticks := k\<rparr>"
    and u: "updatable d_id dashboard_checks dashboard_conflict v (dashboards s)"
    using dashboard_save_change_Inr [of fs d s v t] False by auto
  have "dashboard_evolves original v"
    unfolding v fs' using written_dashboard_evolves [OF l c d' assms(2) False] .
  moreover have "d_id v = d_id d" using filter_singleD [OF o] by (simp add: v dashboard_columns_def)
  moreover have "x = original" if "x \<in> set (dashboards s)" "d_id x = d_id d" for x
    using filter_single_unique [OF o, of x] that by simp
  ultimately show ?thesis unfolding t by (auto intro!: evolves_put)
qed

lemma hand_over_retained:
  assumes "hand_over dash actor incoming at s = Inr (m, t)" "distinct (map d_id (dashboards s))"
  shows "retained s t"
proof -
  obtain old v k n where h: "old \<in> set (dashboards s)"
    "v = old\<lparr>d_owner := u_id incoming, d_last_transfer := Some (ot_id m), d_updated_at := at\<rparr>"
    "t = s\<lparr>transfers := transfers s @ [m], dashboards := put_row d_id v (dashboards s),
           ticks := k, uuid_draws := n\<rparr>"
    using hand_over_Inr [OF assms(1)] by blast
  have "evolves dashboard_evolves (dashboards s) (put_row d_id v (dashboards s))"
    using assms(2) h(1,2)
    by (intro evolves_put) (auto simp: dashboard_evolves_def dest: inj_onD simp: distinct_map)
  then show ?thesis by (simp add: retained_def h(3) evolves_refl evolves_append)
qed

text \<open>The writes to the tables \<open>retained\<close> speaks of.\<close>

lemma evolves_written:
  assumes "filter (\<lambda>x. key x = key v) rs = [original]" "Q original v" "\<And>x. Q x x"
  shows "evolves Q rs (put_row key v rs)"
  by (rule evolves_put) (use assms(2,3) filter_single_unique [OF assms(1)] in auto)

lemma retained_requests:
  assumes "request_save adding fs ar s = Inr (v, t)" "request_edit adding fs ar"
  shows "retained s t"
proof (cases adding)
  case True
  then show ?thesis
    using assms by (auto dest!: request_save_add_Inr simp: retained_def evolves_refl evolves_append)
next
  case False
  with assms have r: "request_save False fs ar s = Inr (v, t)" by simp
  obtain original now where o: "filter (\<lambda>x. ar_id x = ar_id ar) (access_requests s) = [original]"
    and tr: "request_transition original ar s = Inr ()"
    and v: "v = request_columns fs now original ar"
    and t: "t = s\<lparr>access_requests := put_row ar_id v (access_requests s), ticks := Suc (ticks s)\<rparr>"
    using request_save_change_Inr [OF r] by blast
  have scope: "ar_dashboard ar = ar_dashboard original" "ar_requester ar = ar_requester original"
    using tr by (auto simp: request_transition_def split: if_split_asm)
  have "ar_id v = ar_id original" by (simp add: v request_columns_def)
  have "request_evolves original v"
    using assms(2) False unfolding request_edit_def
  proof (elim disjE)
    assume "fs = Some resolution_columns \<and> ar_status ar \<noteq> PENDING"
    then show ?thesis
      using tr scope
      by (auto simp: v request_evolves_def request_columns_def column_Some resolution_columns_def
          request_transition_def Let_def split: if_split_asm option.split_asm)
  next
    assume "fs = Some [''status'', ''message'', ''requested_at'', ''resolved_at'', ''resolved_by'', ''updated_at'']"
    then show ?thesis
      using tr scope
      by (auto simp: v request_evolves_def request_columns_def column_Some
          request_transition_def Let_def split: if_split_asm option.split_asm)
  qed simp
  then have "evolves request_evolves (access_requests s) (put_row ar_id v (access_requests s))"
    using o \<open>ar_id v = _\<close> filter_singleD [OF o]
    by (intro evolves_written [where original = original]) auto
  then show ?thesis by (simp add: retained_def t evolves_refl)
qed

lemma retained_grants:
  assumes "grant_save adding fs g s = Inr (v, t)"
  shows "retained s t"
proof (cases adding)
  case True
  then show ?thesis
    using assms by (auto dest!: grant_save_add_Inr simp: retained_def evolves_refl evolves_append)
next
  case False
  with assms have r: "grant_save False fs g s = Inr (v, t)" by simp
  obtain original where o: "filter (\<lambda>x. g_id x = g_id g) (grants s) = [original]"
    and keep: "g_revoked_at original \<noteq> None \<longrightarrow>
          g_revoked_at g = g_revoked_at original \<and> g_revoked_by g = g_revoked_by original"
    and v: "v = grant_columns fs original g"
    and t: "t = s\<lparr>grants := put_row g_id v (grants s)\<rparr>"
    using grant_save_change_Inr [OF r] by blast
  have "grant_evolves original v"
    using keep by (cases original) (auto simp: v grant_evolves_def grant_columns_def column_def
      split: option.splits)
  then have "evolves grant_evolves (grants s) (put_row g_id v (grants s))"
    using o filter_singleD [OF o]
    by (intro evolves_written [where original = original]) (auto simp: v grant_columns_def)
  then show ?thesis by (simp add: retained_def t evolves_refl)
qed

lemma retained_render_auths:
  assumes "render_auth_save adding fs a s = Inr (v, t)"
  shows "retained s t"
proof (cases adding)
  case True
  then show ?thesis
    using assms by (auto dest!: render_auth_save_add_Inr simp: retained_def evolves_refl evolves_append)
next
  case False
  with assms have r: "render_auth_save False fs a s = Inr (v, t)" by simp
  obtain original where o: "filter (\<lambda>x. ra_id x = ra_id a) (render_auths s) = [original]"
    and keep: "ra_revoked_at original \<noteq> None \<longrightarrow> ra_revoked_at a = ra_revoked_at original"
      "ra_captured_at original \<noteq> None \<longrightarrow> ra_captured_at a = ra_captured_at original"
    and v: "v = render_auth_columns fs original a"
    and t: "t = s\<lparr>render_auths := put_row ra_id v (render_auths s)\<rparr>"
    using render_auth_save_change_Inr [OF r] by blast
  have "render_auth_evolves original v"
    using keep by (auto simp: v render_auth_evolves_def render_auth_columns_def same_scope_def column_def
      split: option.splits)
  then have "evolves render_auth_evolves (render_auths s) (put_row ra_id v (render_auths s))"
    using o filter_singleD [OF o]
    by (intro evolves_written [where original = original]) (auto simp: v render_auth_columns_def)
  then show ?thesis by (simp add: retained_def t evolves_refl)
qed

lemma retained_content:
  "revision_save adding r s = Inr (r', t) \<Longrightarrow> retained s t"
  "lock_artifacts i s = Inr (n, t) \<Longrightarrow> retained s t"
  "artifact_save uc adding a s = Inr (a', t) \<Longrightarrow> retained s t"
  "mark_captured i at s = Inr (x, t) \<Longrightarrow> retained s t"
  "audit_save adding ae s = Inr (ae', t) \<Longrightarrow> retained s t"
  "user_save True fs u s = Inr (u', t) \<Longrightarrow> retained s t"
proof -
  show "revision_save adding r s = Inr (r', t) \<Longrightarrow> retained s t"
    using revision_save_Inr [of r s r' t] revision_frame [of adding r s r' t]
    by (cases adding) (auto simp: retained_def evolves_refl evolves_append)
  show "lock_artifacts i s = Inr (n, t) \<Longrightarrow> retained s t"
    by (auto dest!: lock_artifacts_Inr simp: retained_def evolves_refl revision_evolves_def intro!: evolves_map)
  show "artifact_save uc adding a s = Inr (a', t) \<Longrightarrow> retained s t"
    using artifact_save_Inr [of uc a s a' t] artifact_frame [of uc adding a s a' t]
    by (cases adding) (auto simp: retained_def evolves_refl evolves_append)
  show "mark_captured i at s = Inr (x, t) \<Longrightarrow> retained s t"
    by (auto simp: mark_captured_def writeT_eq_Inr retained_def evolves_refl render_auth_evolves_def
        same_scope_def intro!: evolves_map)
  show "audit_save adding ae s = Inr (ae', t) \<Longrightarrow> retained s t"
    by (auto dest!: audit_frame simp: retained_def evolves_refl evolves_append)
  show "user_save True fs u s = Inr (u', t) \<Longrightarrow> retained s t"
    by (auto dest!: user_save_add_Inr simp: retained_def evolves_refl evolves_append)
qed

lemma retained_dashboards:
  "dashboard_save adding fs d s = Inr (v, t) \<Longrightarrow> dashboard_edit adding fs d \<Longrightarrow> retained s t"
  using dashboard_edit_evolves [of adding fs d s v t] dashboard_save_frame [of adding fs d s v t]
  by (auto simp: retained_def evolves_refl)

lemma retained_user_edits:
  assumes "user_save False fs u s = Inr (v, t)"
    "filter (\<lambda>x. u_id x = u_id original) (users s) = [original]" "user_edit fs original u"
  shows "retained s t"
  using user_edit_evolves [OF assms] by (auto simp: retained_def evolves_refl)

lemmas retained_writes = retained_requests retained_grants retained_render_auths retained_content
  retained_dashboards retained_user_edits

end
