(* ===== verification/Linkage.thy ===== *)
theory Linkage
  imports History
begin

text \<open>
  Referential consistency of the core tables: every foreign key names a stored row, a dashboard's
  revisions and its last transfer belong to it, the last transfer names the current owner, and an
  authorization's revision, grant and owner epoch belong to its dashboard. Only the field checks
  of \<open>full_clean\<close> and the \<open>clean\<close> methods enforce this; the interpretation \<open>linkage\<close> shows that no
  service loses it.
\<close>

section \<open>Linked rows\<close>

definition user_ids :: "db \<Rightarrow> uuid set" where
  "user_ids s = u_id ` set (users s)"

definition dash_ids :: "db \<Rightarrow> uuid set" where
  "dash_ids s = d_id ` set (dashboards s)"

definition rev_scope :: "db \<Rightarrow> (uuid \<times> uuid) set" where
  "rev_scope s = (\<lambda>r. (r_id r, r_dashboard r)) ` set (revisions s)"

definition transfer_scope :: "db \<Rightarrow> (uuid \<times> uuid \<times> uuid) set" where
  "transfer_scope s = (\<lambda>x. (ot_id x, ot_dashboard x, ot_to_owner x)) ` set (transfers s)"

definition epoch_scope :: "db \<Rightarrow> (uuid \<times> uuid) set" where
  "epoch_scope s = (\<lambda>x. (ot_id x, ot_dashboard x)) ` set (transfers s)"

definition grant_scope :: "db \<Rightarrow> (uuid \<times> uuid \<times> uuid) set" where
  "grant_scope s = (\<lambda>g. (g_id g, g_dashboard g, g_viewer g)) ` set (grants s)"

lemmas scope_defs = user_ids_def dash_ids_def rev_scope_def transfer_scope_def epoch_scope_def
  grant_scope_def

text \<open>An optional reference into a set of keys.\<close>

definition opt_in :: "'a set \<Rightarrow> ('i \<Rightarrow> 'a) \<Rightarrow> 'i option \<Rightarrow> bool" where
  "opt_in S f i = (case i of None \<Rightarrow> True | Some j \<Rightarrow> f j \<in> S)"

lemma opt_in_simps [simp]: "opt_in S f None" "opt_in S f (Some j) \<longleftrightarrow> f j \<in> S"
  by (simp_all add: opt_in_def)

definition dash_linked :: "db \<Rightarrow> dashboard \<Rightarrow> bool" where
  "dash_linked s d \<longleftrightarrow> d_owner d \<in> user_ids s \<and>
     opt_in (rev_scope s) (\<lambda>i. (i, d_id d)) (d_latest_revision d) \<and>
     opt_in (rev_scope s) (\<lambda>i. (i, d_id d)) (d_published_revision d) \<and>
     opt_in (transfer_scope s) (\<lambda>i. (i, d_id d, d_owner d)) (d_last_transfer d)"

definition transfer_linked :: "db \<Rightarrow> transfer \<Rightarrow> bool" where
  "transfer_linked s x \<longleftrightarrow> ot_dashboard x \<in> dash_ids s \<and> ot_from_owner x \<in> user_ids s \<and>
     ot_to_owner x \<in> user_ids s"

definition revision_linked :: "db \<Rightarrow> revision \<Rightarrow> bool" where
  "revision_linked s r \<longleftrightarrow> r_dashboard r \<in> dash_ids s \<and> r_created_by r \<in> user_ids s"

definition artifact_linked :: "db \<Rightarrow> artifact \<Rightarrow> bool" where
  "artifact_linked s a \<longleftrightarrow> a_revision a \<in> fst ` rev_scope s"

definition grant_linked :: "db \<Rightarrow> grant \<Rightarrow> bool" where
  "grant_linked s g \<longleftrightarrow> g_dashboard g \<in> dash_ids s \<and> g_viewer g \<in> user_ids s \<and>
     g_created_by g \<in> user_ids s \<and> opt_in (user_ids s) (\<lambda>i. i) (g_revoked_by g)"

definition auth_linked :: "db \<Rightarrow> render_auth \<Rightarrow> bool" where
  "auth_linked s a \<longleftrightarrow> ra_viewer a \<in> user_ids s \<and> ra_dashboard a \<in> dash_ids s \<and>
     (ra_revision a, ra_dashboard a) \<in> rev_scope s \<and>
     opt_in (grant_scope s) (\<lambda>i. (i, ra_dashboard a, ra_viewer a)) (ra_viewer_grant a) \<and>
     opt_in (epoch_scope s) (\<lambda>i. (i, ra_dashboard a)) (ra_owner_epoch a)"

definition request_linked :: "db \<Rightarrow> access_request \<Rightarrow> bool" where
  "request_linked s r \<longleftrightarrow> ar_dashboard r \<in> dash_ids s \<and> ar_requester r \<in> user_ids s \<and>
     opt_in (user_ids s) (\<lambda>i. i) (ar_resolved_by r)"

definition event_linked :: "db \<Rightarrow> audit_event \<Rightarrow> bool" where
  "event_linked s e \<longleftrightarrow> opt_in (user_ids s) (\<lambda>i. i) (ae_actor e) \<and>
     opt_in (dash_ids s) (\<lambda>i. i) (ae_dashboard e) \<and>
     opt_in (fst ` rev_scope s) (\<lambda>i. i) (ae_revision e) \<and>
     opt_in (user_ids s) (\<lambda>i. i) (ae_target_user e)"

lemmas linked_defs = dash_linked_def transfer_linked_def revision_linked_def artifact_linked_def
  grant_linked_def auth_linked_def request_linked_def event_linked_def

definition linked :: "db \<Rightarrow> bool" where
  "linked s \<longleftrightarrow>
     (\<forall>d \<in> set (dashboards s). dash_linked s d) \<and>
     (\<forall>x \<in> set (transfers s). transfer_linked s x) \<and>
     (\<forall>r \<in> set (revisions s). revision_linked s r) \<and>
     (\<forall>a \<in> set (artifacts s). artifact_linked s a) \<and>
     (\<forall>g \<in> set (grants s). grant_linked s g) \<and>
     (\<forall>a \<in> set (render_auths s). auth_linked s a) \<and>
     (\<forall>r \<in> set (access_requests s). request_linked s r) \<and>
     (\<forall>e \<in> set (audit_events s). event_linked s e)"

lemma linked_empty: "linked (empty_db now ids sec)"
  by (simp add: linked_def empty_db_def)

section \<open>Lookups and scopes\<close>

lemma fk_ids [simp]:
  "fk (user_of s) i \<longleftrightarrow> i \<in> user_ids s"
  "fk (dashboard_of s) i \<longleftrightarrow> i \<in> dash_ids s"
  "fk (revision_of s) i \<longleftrightarrow> i \<in> fst ` rev_scope s"
  by (auto simp: fk_def user_of_def dashboard_of_def revision_of_def scope_defs find_None_iff image_iff)

lemma fk_opt_ids [simp]:
  "fk_opt (user_of s) x \<longleftrightarrow> opt_in (user_ids s) (\<lambda>i. i) x"
  "fk_opt (dashboard_of s) x \<longleftrightarrow> opt_in (dash_ids s) (\<lambda>i. i) x"
  "fk_opt (revision_of s) x \<longleftrightarrow> opt_in (fst ` rev_scope s) (\<lambda>i. i) x"
  by (cases x; simp)+

lemma of_scope:
  "revision_of s i = Some r \<Longrightarrow> (i, r_dashboard r) \<in> rev_scope s"
  "grant_of s i = Some g \<Longrightarrow> (i, g_dashboard g, g_viewer g) \<in> grant_scope s"
  "transfer_of s i = Some x \<Longrightarrow> (i, ot_dashboard x) \<in> epoch_scope s"
  by (auto simp: revision_of_def grant_of_def transfer_of_def scope_defs image_iff dest!: find_keyD)

section \<open>Scopes only grow\<close>

definition scopes_grow :: "db \<Rightarrow> db \<Rightarrow> bool" where
  "scopes_grow s t \<longleftrightarrow> user_ids s \<subseteq> user_ids t \<and> dash_ids s \<subseteq> dash_ids t \<and>
     rev_scope s \<subseteq> rev_scope t \<and> transfer_scope s \<subseteq> transfer_scope t \<and>
     epoch_scope s \<subseteq> epoch_scope t \<and> grant_scope s \<subseteq> grant_scope t"

lemma evolves_image:
  assumes "evolves Q rs ts" "\<And>x y. Q x y \<Longrightarrow> f y = f x"
  shows "f ` set rs \<subseteq> f ` set ts"
  by (auto dest!: evolves_row [OF assms(1)] assms(2) intro: rev_image_eqI)

lemma retained_scopes: "retained s t \<Longrightarrow> scopes_grow s t"
  unfolding retained_def scopes_grow_def scope_defs
  by (intro conjI; elim conjE; erule evolves_image)
    (auto simp: evolution_defs elim!: subst)

lemma opt_in_mono: "opt_in S f i \<Longrightarrow> S \<subseteq> T \<Longrightarrow> opt_in T f i"
  by (auto simp: opt_in_def split: option.splits)

lemma linked_mono:
  assumes "scopes_grow s t"
  shows "dash_linked s d \<Longrightarrow> dash_linked t d" "transfer_linked s x \<Longrightarrow> transfer_linked t x"
    "revision_linked s r \<Longrightarrow> revision_linked t r" "artifact_linked s a \<Longrightarrow> artifact_linked t a"
    "grant_linked s g \<Longrightarrow> grant_linked t g" "auth_linked s ra \<Longrightarrow> auth_linked t ra"
    "request_linked s q \<Longrightarrow> request_linked t q" "event_linked s e \<Longrightarrow> event_linked t e"
  using assms unfolding scopes_grow_def linked_defs
  by (blast intro: opt_in_mono image_mono)+

section \<open>Each write keeps the links\<close>

text \<open>New or changed rows have to be linked; the others stay linked.\<close>

lemma linkedI:
  assumes "linked s" "scopes_grow s t"
    and "\<And>d. d \<in> set (dashboards t) \<Longrightarrow> d \<in> set (dashboards s) \<or> dash_linked t d"
    and "\<And>x. x \<in> set (transfers t) \<Longrightarrow> x \<in> set (transfers s) \<or> transfer_linked t x"
    and "\<And>r. r \<in> set (revisions t) \<Longrightarrow> r \<in> set (revisions s) \<or> revision_linked t r"
    and "\<And>a. a \<in> set (artifacts t) \<Longrightarrow> a \<in> set (artifacts s) \<or> artifact_linked t a"
    and "\<And>g. g \<in> set (grants t) \<Longrightarrow> g \<in> set (grants s) \<or> grant_linked t g"
    and "\<And>a. a \<in> set (render_auths t) \<Longrightarrow> a \<in> set (render_auths s) \<or> auth_linked t a"
    and "\<And>r. r \<in> set (access_requests t) \<Longrightarrow> r \<in> set (access_requests s) \<or> request_linked t r"
    and "\<And>e. e \<in> set (audit_events t) \<Longrightarrow> e \<in> set (audit_events s) \<or> event_linked t e"
  shows "linked t"
  using assms(1) linked_mono [OF assms(2)] assms(3-) unfolding linked_def by meson

lemma linked_users:
  "linked s \<Longrightarrow> retained s t \<Longrightarrow> \<exists>rows k. t = s\<lparr>users := rows, ticks := k\<rparr> \<Longrightarrow> linked t"
  by (rule linkedI [OF _ retained_scopes]) auto

lemma linked_dashboards:
  assumes "dashboard_save adding fs d s = Inr (v, t)" "dashboard_edit adding fs d" "linked s"
  shows "linked t"
proof -
  have g: "scopes_grow s t" using retained_dashboards [OF assms(1,2)] by (rule retained_scopes)
  have v: "dash_linked s v"
  proof (cases adding)
    case True
    then show ?thesis
      using assms(1) by (auto dest!: dashboard_save_add_Inr simp: dash_linked_def dashboard_fields_def)
  next
    case False
    with assms(1) have r: "dashboard_save False fs d s = Inr (v, t)" by simp
    obtain original now2 d' fs' where o: "filter (\<lambda>x. d_id x = d_id d) (dashboards s) = [original]"
      and c: "dashboard_clean d' s = Inr ()" and v: "v = dashboard_columns fs' now2 original d'"
      and d': "\<exists>now1. d' = advanced_dashboard original now1 d"
      using dashboard_save_change_Inr [OF r] by blast
    have "d_id d' = d_id original" using d' filter_singleD [OF o] by (auto simp: advanced_dashboard_def)
    moreover have "dash_linked s original" using filter_singleD [OF o] assms(3) by (simp add: linked_def)
    moreover have "opt_in (rev_scope s) (\<lambda>i. (i, d_id d')) (d_published_revision d')"
      "opt_in (rev_scope s) (\<lambda>i. (i, d_id d')) (d_latest_revision d')"
      using c by (auto simp: dashboard_clean_def bindE_eq_Inr opt_in_def Let_def dest!: of_scope(1)
          split: if_split_asm option.split_asm option.split)
    ultimately show ?thesis
      by (simp add: v dash_linked_def dashboard_columns_def column_def split: option.split)
  qed
  obtain k rows where t: "t = s\<lparr>dashboards := rows, ticks := k\<rparr>"
    using dashboard_save_frame [OF assms(1)] by blast
  have "x \<in> set (dashboards s) \<or> x = v" if "x \<in> set (dashboards t)" for x
    using that assms(1) by (cases adding)
      (auto dest!: dashboard_save_add_Inr dashboard_save_change_Inr in_put_rowD split del: if_split)
  then show ?thesis using v linked_mono(1) [OF g v] by (intro linkedI [OF assms(3) g]) (auto simp: t)
qed

lemma linked_hand_over:
  assumes "hand_over dash actor incoming at s = Inr (m, t)" "db_wf s" "linked s"
  shows "linked t"
proof -
  obtain old v k n where old: "old \<in> set (dashboards s)" "d_id old = d_id dash"
    and v: "v = old\<lparr>d_owner := u_id incoming, d_last_transfer := Some (ot_id m), d_updated_at := at\<rparr>"
    and m: "ot_dashboard m = d_id dash" "ot_to_owner m = u_id incoming" "transfer_fields m s"
    and t: "t = s\<lparr>transfers := transfers s @ [m], dashboards := put_row d_id v (dashboards s),
           ticks := k, uuid_draws := n\<rparr>"
    using hand_over_Inr [OF assms(1)] by blast
  have g: "scopes_grow s t"
    using assms by (auto simp: db_wf_def intro: retained_scopes hand_over_retained wf_tableD)
  have "transfer_linked s m" using m(3) by (simp add: transfer_fields_def transfer_linked_def)
  moreover have "dash_linked s old" using old assms(3) by (simp add: linked_def)
  then have "dash_linked t v"
    using linked_mono(1) [OF g] m old(2) g
    by (auto simp: v dash_linked_def transfer_scope_def t user_ids_def scopes_grow_def rev_scope_def
        transfer_fields_def)
  ultimately show ?thesis
    using linked_mono(2) [OF g]
    by (intro linkedI [OF assms(3) g]) (auto simp: t dest: in_put_rowD)
qed

lemma linked_requests:
  assumes "request_save adding fs ar s = Inr (v, t)" "request_edit adding fs ar" "linked s"
  shows "linked t"
proof -
  have g: "scopes_grow s t" using retained_requests [OF assms(1,2)] by (rule retained_scopes)
  obtain rows k n where t: "t = s\<lparr>access_requests := rows, ticks := k, serial := n\<rparr>"
    using request_frame [OF assms(1)] by blast
  have "request_linked s v \<and> set (access_requests t) \<subseteq> insert v (set (access_requests s))"
  proof (cases adding)
    case True
    then show ?thesis
      using assms(1) by (auto dest!: request_save_add_Inr simp: request_linked_def request_fields_def)
  next
    case False
    with assms(1) have r: "request_save False fs ar s = Inr (v, t)" by simp
    obtain original now where o: "filter (\<lambda>x. ar_id x = ar_id ar) (access_requests s) = [original]"
      and f: "request_fields ar s" and v: "v = request_columns fs now original ar"
      and t': "t = s\<lparr>access_requests := put_row ar_id v (access_requests s), ticks := Suc (ticks s)\<rparr>"
      using request_save_change_Inr [OF r] by blast
    have "request_linked s original" using filter_singleD [OF o] assms(3) by (simp add: linked_def)
    then have "request_linked s v"
      using f by (simp add: v request_linked_def request_columns_def request_fields_def column_def
          split: option.split)
    then show ?thesis by (auto simp: t' dest: in_put_rowD)
  qed
  then show ?thesis
    using linked_mono(7) [OF g] by (intro linkedI [OF assms(3) g]) (auto simp: t)
qed

lemma linked_revisions:
  assumes "revision_save adding r s = Inr (v, t)" "linked s"
  shows "linked t"
proof -
  have g: "scopes_grow s t" using retained_content(1) [OF assms(1)] by (rule retained_scopes)
  have "revision_linked s v" and t: "t = s\<lparr>revisions := revisions s @ [v], ticks := Suc (ticks s)\<rparr>"
    using assms revision_frame [OF assms(1)] revision_save_Inr [of r s v t]
    by (auto simp: revision_linked_def revision_fields_def)
  then show ?thesis
    using linked_mono(3) [OF g] by (intro linkedI [OF assms(2) g]) (auto simp: t)
qed

lemma linked_lock:
  assumes "lock_artifacts i s = Inr (n, t)" "linked s"
  shows "linked t"
proof -
  have g: "scopes_grow s t" using retained_content(2) [OF assms(1)] by (rule retained_scopes)
  show ?thesis
    using assms linked_mono(3) [OF g]
    by (intro linkedI [OF assms(2) g])
      (auto dest!: lock_artifacts_Inr simp: linked_def revision_linked_def split: if_split_asm)
qed

lemma linked_artifacts:
  assumes "artifact_save uc adding a s = Inr (v, t)" "linked s"
  shows "linked t"
proof -
  have g: "scopes_grow s t" using retained_content(3) [OF assms(1)] by (rule retained_scopes)
  have "artifact_linked s v" and t: "t = s\<lparr>artifacts := artifacts s @ [v]\<rparr>"
    using assms artifact_frame [OF assms(1)] artifact_save_Inr [of uc a s v t]
    by (auto simp: artifact_linked_def artifact_fields_def)
  then show ?thesis
    using linked_mono(4) [OF g] by (intro linkedI [OF assms(2) g]) (auto simp: t)
qed

lemma linked_grants:
  assumes "grant_save adding fs gr s = Inr (v, t)" "linked s"
  shows "linked t"
proof -
  have g: "scopes_grow s t" using retained_grants [OF assms(1)] by (rule retained_scopes)
  obtain rows k where t: "t = s\<lparr>grants := rows, ticks := k\<rparr>" using grant_frame [OF assms(1)] by blast
  have "grant_linked s v \<and> set (grants t) \<subseteq> insert v (set (grants s))"
  proof (cases adding)
    case True
    then show ?thesis
      using assms(1) by (auto dest!: grant_save_add_Inr simp: grant_linked_def grant_fields_def)
  next
    case False
    with assms(1) have r: "grant_save False fs gr s = Inr (v, t)" by simp
    obtain original where o: "filter (\<lambda>x. g_id x = g_id gr) (grants s) = [original]"
      and f: "grant_fields gr s" and v: "v = grant_columns fs original gr"
      and t': "t = s\<lparr>grants := put_row g_id v (grants s)\<rparr>"
      using grant_save_change_Inr [OF r] by blast
    have "grant_linked s original" using filter_singleD [OF o] assms(2) by (simp add: linked_def)
    then have "grant_linked s v"
      using f by (simp add: v grant_linked_def grant_columns_def grant_fields_def column_def
          split: option.split)
    then show ?thesis by (auto simp: t' dest: in_put_rowD)
  qed
  then show ?thesis
    using linked_mono(5) [OF g] by (intro linkedI [OF assms(2) g]) (auto simp: t)
qed

lemma auth_clean_linked:
  assumes "render_auth_clean True a s = Inr ()" "render_auth_fields a s"
  shows "auth_linked s a"
proof -
  have "fk (revision_of s) (ra_revision a)" using assms(2) by (simp add: render_auth_fields_def)
  with assms obtain r where r: "revision_of s (ra_revision a) = Some r" "r_dashboard r = ra_dashboard a"
    and e: "clean_owner_epoch a s = Inr ()"
    and c: "\<exists>d. clean_viewer_grant True a d s = Inr ()"
    by (auto simp: render_auth_clean_def bindE_eq_Inr fk_def split: option.split_asm)
  have "opt_in (grant_scope s) (\<lambda>i. (i, ra_dashboard a, ra_viewer a)) (ra_viewer_grant a)"
    using c by (cases "ra_viewer_grant a")
      (auto simp: clean_viewer_grant_def dest!: of_scope(2) split: option.split_asm if_split_asm)
  moreover have "opt_in (epoch_scope s) (\<lambda>i. (i, ra_dashboard a)) (ra_owner_epoch a)"
    using e by (cases "ra_owner_epoch a")
      (auto simp: clean_owner_epoch_def dest!: of_scope(3) split: option.split_asm if_split_asm)
  ultimately show ?thesis
    using r(2) of_scope(1) [OF r(1)] assms(2) by (simp add: auth_linked_def render_auth_fields_def)
qed

lemma auth_linked_scope: "same_scope x y \<Longrightarrow> auth_linked s x \<longleftrightarrow> auth_linked s y"
  by (simp add: same_scope_def auth_linked_def)

lemma linked_auths:
  assumes "render_auth_save adding fs a s = Inr (v, t)" "linked s"
  shows "linked t"
proof -
  have g: "scopes_grow s t" using retained_render_auths [OF assms(1)] by (rule retained_scopes)
  obtain rows k where t: "t = s\<lparr>render_auths := rows, ticks := k\<rparr>"
    using render_auth_frame [OF assms(1)] by blast
  have "auth_linked s v \<and> set (render_auths t) \<subseteq> insert v (set (render_auths s))"
  proof (cases adding)
    case True
    with assms(1) have r: "render_auth_save True fs a s = Inr (v, t)" by simp
    have "auth_linked s a" using render_auth_save_add_Inr [OF r] auth_clean_linked by blast
    then show ?thesis using render_auth_save_add_Inr [OF r] by (auto simp: auth_linked_def)
  next
    case False
    with assms(1) have r: "render_auth_save False fs a s = Inr (v, t)" by simp
    obtain original where o: "filter (\<lambda>x. ra_id x = ra_id a) (render_auths s) = [original]"
      and v: "v = render_auth_columns fs original a"
      and t': "t = s\<lparr>render_auths := put_row ra_id v (render_auths s)\<rparr>"
      using render_auth_save_change_Inr [OF r] by blast
    have "auth_linked s original" using filter_singleD [OF o] assms(2) by (simp add: linked_def)
    then have "auth_linked s v" by (simp add: v auth_linked_def render_auth_columns_def)
    then show ?thesis by (auto simp: t' dest: in_put_rowD)
  qed
  then show ?thesis
    using linked_mono(6) [OF g] by (intro linkedI [OF assms(2) g]) (auto simp: t)
qed

lemma linked_captured:
  assumes "mark_captured i at s = Inr (x, t)" "linked s"
  shows "linked t"
proof -
  have g: "scopes_grow s t" using retained_content(4) [OF assms(1)] by (rule retained_scopes)
  show ?thesis
    using assms linked_mono(6) [OF g]
    by (intro linkedI [OF assms(2) g])
      (auto simp: mark_captured_def writeT_eq_Inr linked_def auth_linked_def split: if_split_asm)
qed

lemma linked_events:
  assumes "audit_save adding e s = Inr (v, t)" "linked s"
  shows "linked t"
proof -
  have g: "scopes_grow s t" using retained_content(5) [OF assms(1)] by (rule retained_scopes)
  have "event_linked s v"
    and t: "t = s\<lparr>audit_events := audit_events s @ [v], ticks := Suc (ticks s), serial := Suc (serial s)\<rparr>"
    using audit_frame [OF assms(1)] by (auto simp: event_linked_def audit_fields_def)
  then show ?thesis
    using linked_mono(8) [OF g] by (intro linkedI [OF assms(2) g]) (auto simp: t)
qed

lemma linked_added_user: "user_save True fs u s = Inr (v, t) \<Longrightarrow> linked s \<Longrightarrow> linked t"
  using linked_users [OF _ retained_content(6)] user_save_frame [of True fs u s v t] by metis

lemma linked_edited_user:
  "user_save False fs u s = Inr (v, t) \<Longrightarrow>
   filter (\<lambda>x. u_id x = u_id original) (users s) = [original] \<Longrightarrow> user_edit fs original u \<Longrightarrow>
   linked s \<Longrightarrow> linked t"
  using linked_users [OF _ retained_user_edits] user_save_frame [of False fs u s v t] by metis

end
