(* ===== verification/Consistency.thy ===== *)
theory Consistency
  imports Linkage
begin

text \<open>
  \<open>sound\<close>, the conjunction of the table constraints and of the links between the core tables,
  holds in every reachable state (interpretation \<open>soundness\<close>). On top of it the locale
  \<open>core_order\<close>, the interface the later theories interpret: a preorder whose laws concern only the
  writes to the core tables and may assume a sound database.
\<close>

section \<open>Every reachable state is sound\<close>

definition sound :: "db \<Rightarrow> bool" where
  "sound s \<longleftrightarrow> db_wf s \<and> linked s"

definition core_tables where
  "core_tables s = (users s, dashboards s, transfers s, revisions s, artifacts s, grants s,
     render_auths s, access_requests s, audit_events s)"

lemma core_of_side_writes:
  "delete_throttles hashes s = Inr (x, t) \<Longrightarrow> core_tables t = core_tables s"
  "mark_aggregated opened at s = Inr (x, t) \<Longrightarrow> core_tables t = core_tables s"
  "delete_opens opened s = Inr (x, t) \<Longrightarrow> core_tables t = core_tables s"
  "delete_reservations ids s = Inr (x, t) \<Longrightarrow> core_tables t = core_tables s"
  "throttle_insert b s = Inr (b', t) \<Longrightarrow> core_tables t = core_tables s"
  "throttle_save fs b s = Inr (b', t) \<Longrightarrow> core_tables t = core_tables s"
  "tag_create uc i label slot s = Inr (tg, t) \<Longrightarrow> core_tables t = core_tables s"
  "delete_tags i s = Inr (x, t) \<Longrightarrow> core_tables t = core_tables s"
  "favorite_insert f s = Inr (f', t) \<Longrightarrow> core_tables t = core_tables s"
  "delete_favorites i j s = Inr (x, t) \<Longrightarrow> core_tables t = core_tables s"
  "viewer_state_save adding fs vs s = Inr (vs', t) \<Longrightarrow> core_tables t = core_tables s"
  "open_save adding fs e s = Inr (e', t) \<Longrightarrow> core_tables t = core_tables s"
  "daily_insert od s = Inr (od', t) \<Longrightarrow> core_tables t = core_tables s"
  "daily_update od s = Inr (od', t) \<Longrightarrow> core_tables t = core_tables s"
  "summary_insert vo s = Inr (vo', t) \<Longrightarrow> core_tables t = core_tables s"
  "summary_update vo s = Inr (vo', t) \<Longrightarrow> core_tables t = core_tables s"
  "snapshot_insert sn s = Inr (sn', t) \<Longrightarrow> core_tables t = core_tables s"
  "snapshot_update sn s = Inr (sn', t) \<Longrightarrow> core_tables t = core_tables s"
  "checkpoint_save adding fs c s = Inr (c', t) \<Longrightarrow> core_tables t = core_tables s"
  "reservation_save adding fs sr s = Inr (sr', t) \<Longrightarrow> core_tables t = core_tables s"
  "timezone_now s = Inr (time, t) \<Longrightarrow> core_tables t = core_tables s"
  "uuid4 s = Inr (i', t) \<Longrightarrow> core_tables t = core_tables s"
  "draw_secret s = Inr (secret, t) \<Longrightarrow> core_tables t = core_tables s"
  "next_serial s = Inr (i', t) \<Longrightarrow> core_tables t = core_tables s"
  by (auto dest!: side_table_frames viewer_state_frame
      simp: core_tables_def delete_throttles_def mark_aggregated_def delete_opens_def
        delete_reservations_def writeT_eq_Inr environment_run)

lemma linked_core: "core_tables t = core_tables s \<Longrightarrow> linked s \<Longrightarrow> linked t"
  by (simp add: core_tables_def linked_def linked_defs scope_defs)

lemma soundD: "sound s \<Longrightarrow> db_wf s" "sound s \<Longrightarrow> linked s"
  by (simp_all add: sound_def)

lemma soundI: "db_wf t \<Longrightarrow> linked t \<Longrightarrow> sound t"
  by (simp add: sound_def)

lemmas linked_plain_writes = core_of_side_writes [THEN linked_core] linked_revisions linked_lock
  linked_artifacts linked_grants linked_auths linked_captured linked_events linked_added_user

text \<open>In each rule the write comes first and \<open>sound s\<close> last.\<close>

interpretation soundness: history_order "\<lambda>s t. sound s \<longrightarrow> sound t"
proof unfold_locales
  show "sound s \<longrightarrow> sound s" for s by simp
  show "sound s \<longrightarrow> sound t \<Longrightarrow> sound t \<longrightarrow> sound u \<Longrightarrow> sound s \<longrightarrow> sound u" for s t u by simp
  fix s i j k n
  show "sound s \<longrightarrow> sound (s\<lparr>ticks := ticks s + i, uuid_draws := uuid_draws s + j,
      secret_draws := secret_draws s + k, serial := serial s + n\<rparr>)"
    by (auto simp: sound_def core_tables_def intro: linked_core [where s = s])
qed (intro obeysI impI, rule soundI, erule (1) wf_writes [OF _ soundD(1)],
    (erule (1) linked_plain_writes [OF _ soundD(2)]
    | erule linked_dashboards linked_requests, assumption, erule soundD
    | erule linked_hand_over, erule soundD, erule soundD
    | erule (2) linked_edited_user, erule soundD))+

lemma reachable_sound: "reachable cfg s \<Longrightarrow> sound s"
  unfolding reachable_def using soundness.history_ordered soundI [OF db_wf_empty linked_empty] by blast

section \<open>The interface\<close>

locale core_order = effect_order R for R :: "db \<Rightarrow> db \<Rightarrow> bool" +
  assumes side_order: "core_tables t = core_tables s \<Longrightarrow> R s t"
    and user_add_core: "user_save True fs u s = Inr (u', t) \<Longrightarrow>
      (users s = [] \<longrightarrow> active_administrator u) \<Longrightarrow> sound s \<Longrightarrow> R s t"
    and user_edit_core: "user_save False fs u s = Inr (u', t) \<Longrightarrow>
      filter (\<lambda>x. u_id x = u_id original) (users s) = [original] \<Longrightarrow> user_edit fs original u \<Longrightarrow>
      (u_is_active original \<and> \<not> u_is_active u \<longrightarrow>
        (\<exists>w \<in> set (users s). u_id w \<noteq> u_id original \<and> active_administrator w)) \<Longrightarrow> sound s \<Longrightarrow> R s t"
    and dashboard_core: "dashboard_save adding fs dash s = Inr (dash', t) \<Longrightarrow>
      dashboard_edit adding fs dash \<Longrightarrow> pins_complete fs dash s \<Longrightarrow> sound s \<Longrightarrow> R s t"
    and hand_over_core: "hand_over dash actor incoming at s = Inr (marker, t) \<Longrightarrow>
      \<not> has_active_viewer_grant (d_id dash) (u_id incoming) s \<Longrightarrow> sound s \<Longrightarrow> R s t"
    and request_core: "request_save adding fs ar s = Inr (ar', t) \<Longrightarrow> request_edit adding fs ar \<Longrightarrow> sound s \<Longrightarrow> R s t"
    and revision_core: "revision_save adding rv s = Inr (rv', t) \<Longrightarrow> sound s \<Longrightarrow> R s t"
    and lock_core: "lock_artifacts i s = Inr (locked, t) \<Longrightarrow> sound s \<Longrightarrow> R s t"
    and artifact_core: "artifact_save uc adding a s = Inr (a', t) \<Longrightarrow> sound s \<Longrightarrow> R s t"
    and grant_core: "grant_save adding fs g s = Inr (g', t) \<Longrightarrow> sound s \<Longrightarrow> R s t"
    and render_auth_core: "render_auth_save adding fs ra s = Inr (ra', t) \<Longrightarrow> auth_bound adding ra s \<Longrightarrow>
      sound s \<Longrightarrow> R s t"
    and captured_core: "mark_captured i at s = Inr (x, t) \<Longrightarrow> sound s \<Longrightarrow> R s t"
    and audit_core: "audit_save adding ae s = Inr (ae', t) \<Longrightarrow> sound s \<Longrightarrow> R s t"

text \<open>Every history from a sound state is ordered.\<close>

sublocale core_order \<subseteq> kept: history_order "\<lambda>s t. sound s \<longrightarrow> sound t \<and> R s t"
proof unfold_locales
  show "sound s \<longrightarrow> sound s \<and> R s s" for s by (simp add: order_refl)
  show "sound s \<longrightarrow> sound t \<and> R s t \<Longrightarrow> sound t \<longrightarrow> sound u \<and> R t u \<Longrightarrow> sound s \<longrightarrow> sound u \<and> R s u"
    for s t u by (blast intro: order_trans)
  fix s i j k n
  show "sound s \<longrightarrow> sound (s\<lparr>ticks := ticks s + i, uuid_draws := uuid_draws s + j,
      secret_draws := secret_draws s + k, serial := serial s + n\<rparr>)
    \<and> R s (s\<lparr>ticks := ticks s + i, uuid_draws := uuid_draws s + j,
      secret_draws := secret_draws s + k, serial := serial s + n\<rparr>)"
    using soundness.advance_order by (simp add: side_order core_tables_def)
qed (intro obeysI impI conjI,
    (rule soundI, erule (1) wf_writes [OF _ soundD(1)],
      (erule (1) linked_plain_writes [OF _ soundD(2)]
      | erule linked_dashboards linked_requests, assumption, erule soundD
      | erule linked_hand_over, erule soundD, erule soundD
      | erule (2) linked_edited_user, erule soundD)),
    (erule core_of_side_writes [THEN side_order]
    | erule (1) revision_core lock_core artifact_core grant_core captured_core audit_core
    | erule (2) user_add_core hand_over_core request_core render_auth_core
    | erule (3) dashboard_core
    | erule (4) user_edit_core))+

context core_order
begin

lemma reachable_ordered: "reachable cfg s \<Longrightarrow> history cfg s t \<Longrightarrow> R s t"
  using kept.history_ordered reachable_sound by blast

end

section \<open>Every history retains\<close>

text \<open>The first order: nothing retained is ever undone.\<close>

interpretation retention: core_order retained
proof unfold_locales
  show "retained s t" if "core_tables t = core_tables s" for s t
    using that by (intro retained_sides) (simp_all add: core_tables_def)
  show "retained s t" if "hand_over dash actor incoming at s = Inr (m, t)" "sound s" for dash actor incoming at s m t
    using that by (auto simp: sound_def db_wf_def intro: hand_over_retained wf_tableD)
qed (auto intro: retained_refl retained_trans retained_writes)

lemma history_retained:
  assumes "reachable cfg s" "history cfg s t"
  shows "retained s t" "sound s" "sound t"
  using assms by (auto intro: retention.reachable_ordered reachable_sound reachable_history)

end
