(* ===== verification/Invariants.thy ===== *)
theory Invariants
  imports Consistency
begin

text \<open>
  The security invariants of the application, each an interpretation of \<open>core_order\<close>: ownership
  epochs are never reused; an owner never holds an active grant on the own dashboard; published
  dashboards pin a complete revision; the content of a complete revision never changes; once
  there are users there is an active administrator.
\<close>

section \<open>Ownership epochs\<close>

text \<open>Owner and last transfer of a dashboard change together, to a transfer that did not exist.\<close>

definition epoch_kept :: "uuid set \<Rightarrow> dashboard \<Rightarrow> dashboard \<Rightarrow> bool" where
  "epoch_kept known x y \<longleftrightarrow> d_id y = d_id x \<and>
     ((d_owner y = d_owner x \<and> d_last_transfer y = d_last_transfer x) \<or>
      (\<exists>m. d_last_transfer y = Some m \<and> m \<notin> known))"

definition transfer_ids :: "db \<Rightarrow> uuid set" where
  "transfer_ids s = ot_id ` set (transfers s)"

definition epochs_advance :: "db \<Rightarrow> db \<Rightarrow> bool" where
  "epochs_advance s t \<longleftrightarrow> transfer_ids s \<subseteq> transfer_ids t \<and>
     evolves (epoch_kept (transfer_ids s)) (dashboards s) (dashboards t)"

lemma epoch_kept_refl [simp]: "epoch_kept K x x"
  by (simp add: epoch_kept_def)

lemma epoch_kept_mono: "epoch_kept T x y \<Longrightarrow> S \<subseteq> T \<Longrightarrow> epoch_kept S x y"
  unfolding epoch_kept_def by blast

lemma evolves_mono: "(\<And>x y. Q x y \<Longrightarrow> P x y) \<Longrightarrow> evolves Q rs ts \<Longrightarrow> evolves P rs ts"
  unfolding evolves_def by (rule list_all2_mono)

lemma epochs_advance_side:
  "transfers t = transfers s \<Longrightarrow> dashboards t = dashboards s \<Longrightarrow> epochs_advance s t"
  by (simp add: epochs_advance_def transfer_ids_def evolves_refl)

lemma epochs_advance_trans:
  assumes "epochs_advance s t" "epochs_advance t u"
  shows "epochs_advance s u"
proof -
  have "evolves (epoch_kept (transfer_ids s)) (dashboards t) (dashboards u)"
    using assms unfolding epochs_advance_def by (blast intro: epoch_kept_mono evolves_mono [rotated])
  moreover have "epoch_kept K x y \<Longrightarrow> epoch_kept K y z \<Longrightarrow> epoch_kept K x z" for K x y z
    by (auto simp: epoch_kept_def)
  ultimately have "evolves (epoch_kept (transfer_ids s)) (dashboards s) (dashboards u)"
    using assms(1) unfolding epochs_advance_def by (blast intro: evolves_trans)
  then show ?thesis using assms by (auto simp: epochs_advance_def)
qed

lemma epochs_advance_dashboards:
  assumes "dashboard_save adding fs d s = Inr (v, t)"
  shows "epochs_advance s t"
proof (cases adding)
  case True
  then show ?thesis
    using assms by (auto dest!: dashboard_save_add_Inr simp: epochs_advance_def transfer_ids_def evolves_append)
next
  case False
  with assms have r: "dashboard_save False fs d s = Inr (v, t)" by simp
  obtain original now2 d' fs' k where o: "filter (\<lambda>x. d_id x = d_id d) (dashboards s) = [original]"
    and v: "v = dashboard_columns fs' now2 original d'"
    and t: "t = s\<lparr>dashboards := put_row d_id v (dashboards s), ticks := k\<rparr>"
    using dashboard_save_change_Inr [OF r] by blast
  have "evolves (epoch_kept (transfer_ids s)) (dashboards s) (put_row d_id v (dashboards s))"
    using o filter_singleD [OF o]
    by (intro evolves_written [where original = original]) (auto simp: v epoch_kept_def dashboard_columns_def)
  then show ?thesis by (simp add: t epochs_advance_def transfer_ids_def)
qed

lemma epochs_advance_hand_over:
  assumes "hand_over dash actor incoming at s = Inr (m, t)" "sound s"
  shows "epochs_advance s t"
proof -
  obtain old v k n where old: "old \<in> set (dashboards s)" "d_id old = d_id dash"
    and m: "ot_id m \<notin> ot_id ` set (transfers s)"
    and v: "v = old\<lparr>d_owner := u_id incoming, d_last_transfer := Some (ot_id m), d_updated_at := at\<rparr>"
    and t: "t = s\<lparr>transfers := transfers s @ [m], dashboards := put_row d_id v (dashboards s),
           ticks := k, uuid_draws := n\<rparr>"
    using hand_over_Inr [OF assms(1)] by blast
  have "evolves (epoch_kept (transfer_ids s)) (dashboards s) (put_row d_id v (dashboards s))"
    using m by (intro evolves_put) (auto simp: v epoch_kept_def transfer_ids_def)
  then show ?thesis by (auto simp: t epochs_advance_def transfer_ids_def)
qed

interpretation epochs: core_order epochs_advance
proof unfold_locales
  show "epochs_advance s t \<Longrightarrow> epochs_advance t u \<Longrightarrow> epochs_advance s u" for s t u
    by (rule epochs_advance_trans)
qed (auto intro: epochs_advance_side epochs_advance_dashboards epochs_advance_hand_over
    dest!: user_save_frame request_frame revision_frame lock_frame artifact_frame grant_frame
      render_auth_frame audit_frame simp: core_tables_def mark_captured_def writeT_eq_Inr)

section \<open>Grants and ownership exclude each other\<close>

definition owner_ungranted :: "db \<Rightarrow> bool" where
  "owner_ungranted s \<longleftrightarrow> (\<forall>g \<in> set (grants s). \<forall>d \<in> set (dashboards s).
     g_revoked_at g = None \<and> g_dashboard g = d_id d \<longrightarrow> g_viewer g \<noteq> d_owner d)"

lemma owner_ungranted_dashboards:
  assumes "dashboard_save adding fs d s = Inr (v, t)" "sound s" "owner_ungranted s"
  shows "owner_ungranted t"
proof (cases adding)
  case True
  with assms(1) have "t = s\<lparr>dashboards := dashboards s @ [v], ticks := Suc (ticks s)\<rparr>" "d_id v \<notin> dash_ids s"
    by (auto dest!: dashboard_save_add_Inr simp: dash_ids_def)
  moreover have "g_dashboard g \<in> dash_ids s" if "g \<in> set (grants s)" for g
    using that assms(2) by (auto simp: sound_def linked_def grant_linked_def)
  ultimately show ?thesis using assms(3) by (fastforce simp: owner_ungranted_def)
next
  case False
  with assms(1) have r: "dashboard_save False fs d s = Inr (v, t)" by simp
  obtain original now2 d' fs' k where o: "filter (\<lambda>x. d_id x = d_id d) (dashboards s) = [original]"
    and v: "v = dashboard_columns fs' now2 original d'"
    and t: "t = s\<lparr>dashboards := put_row d_id v (dashboards s), ticks := k\<rparr>"
    using dashboard_save_change_Inr [OF r] by blast
  have "d_id v = d_id original" "d_owner v = d_owner original" by (simp_all add: v dashboard_columns_def)
  then show ?thesis
    using filter_singleD [OF o] assms(3)
    by (auto simp: owner_ungranted_def t dest!: in_put_rowD)
qed

lemma owner_ungranted_hand_over:
  assumes "hand_over dash actor incoming at s = Inr (m, t)"
    "\<not> has_active_viewer_grant (d_id dash) (u_id incoming) s" "owner_ungranted s"
  shows "owner_ungranted t"
proof -
  obtain old v k n where old: "old \<in> set (dashboards s)" "d_id old = d_id dash"
    and v: "v = old\<lparr>d_owner := u_id incoming, d_last_transfer := Some (ot_id m), d_updated_at := at\<rparr>"
    and t: "t = s\<lparr>transfers := transfers s @ [m], dashboards := put_row d_id v (dashboards s),
           ticks := k, uuid_draws := n\<rparr>"
    using hand_over_Inr [OF assms(1)] by blast
  have free: "\<forall>g \<in> set (grants s). \<not> (g_dashboard g = d_id dash \<and> g_viewer g = u_id incoming \<and> g_revoked_at g = None)"
    using assms(2) by (auto simp: has_active_viewer_grant_iff active_scope_def)
  show ?thesis
    unfolding owner_ungranted_def
  proof (intro ballI impI)
    fix g d assume gd: "g \<in> set (grants t)" "d \<in> set (dashboards t)" "g_revoked_at g = None \<and> g_dashboard g = d_id d"
    then have "d = v \<or> d \<in> set (dashboards s)" by (auto simp: t dest!: in_put_rowD)
    then show "g_viewer g \<noteq> d_owner d"
      using gd free old assms(3) by (auto simp: v t owner_ungranted_def)
  qed
qed

lemma owner_ungranted_grants:
  assumes "grant_save adding fs g s = Inr (v, t)" "sound s" "owner_ungranted s"
  shows "owner_ungranted t"
proof (cases adding)
  case True
  then have c: "grant_clean True g s = Inr ()" and v: "g_dashboard v = g_dashboard g" "g_viewer v = g_viewer g"
    and t: "t = s\<lparr>grants := grants s @ [v], ticks := Suc (ticks s)\<rparr>"
    using assms(1) by (auto dest!: grant_save_add_Inr)
  obtain d0 where d0: "dashboard_of s (g_dashboard g) = Some d0" "g_viewer g \<noteq> d_owner d0"
    using c by (auto simp: grant_clean_def split: option.split_asm if_split_asm)
  have "\<forall>d \<in> set (dashboards s). g_dashboard v = d_id d \<longrightarrow> g_viewer v \<noteq> d_owner d"
    using db_wf_lookup(2) [OF soundD(1) [OF assms(2)]] d0 v by fastforce
  then show ?thesis using assms(3) by (auto simp: owner_ungranted_def t)
next
  case False
  with assms(1) have r: "grant_save False fs g s = Inr (v, t)" by simp
  obtain original where o: "filter (\<lambda>x. g_id x = g_id g) (grants s) = [original]"
    and keep: "g_revoked_at original \<noteq> None \<longrightarrow> g_revoked_at g = g_revoked_at original"
    and v: "v = grant_columns fs original g"
    and t: "t = s\<lparr>grants := put_row g_id v (grants s)\<rparr>"
    using grant_save_change_Inr [OF r] by blast
  have "g_dashboard v = g_dashboard original" "g_viewer v = g_viewer original"
    "g_revoked_at v = None \<longrightarrow> g_revoked_at original = None"
    using keep by (auto simp: v grant_columns_def column_def split: option.splits)
  then show ?thesis
    using filter_singleD [OF o] assms(3) by (fastforce simp: owner_ungranted_def t dest!: in_put_rowD)
qed

interpretation exclusion: core_order "\<lambda>s t. owner_ungranted s \<longrightarrow> owner_ungranted t"
  by unfold_locales
    (auto intro: owner_ungranted_dashboards owner_ungranted_hand_over owner_ungranted_grants
      dest!: user_save_frame request_frame revision_frame lock_frame artifact_frame
        render_auth_frame audit_frame
      simp: core_tables_def mark_captured_def writeT_eq_Inr, auto simp: owner_ungranted_def)

section \<open>There is always an administrator\<close>

definition administered :: "db \<Rightarrow> bool" where
  "administered s \<longleftrightarrow> (users s \<noteq> [] \<longrightarrow> (\<exists>u \<in> set (users s). active_administrator u))"

lemma administered_add:
  assumes "user_save True fs u s = Inr (v, t)" "users s = [] \<longrightarrow> active_administrator u" "administered s"
  shows "administered t"
  using assms by (auto dest!: user_save_add_Inr simp: administered_def active_administrator_def)

lemma administered_edit:
  assumes "user_save False fs u s = Inr (v, t)"
    "filter (\<lambda>x. u_id x = u_id original) (users s) = [original]" "user_edit fs original u"
    "u_is_active original \<and> \<not> u_is_active u \<longrightarrow>
        (\<exists>w \<in> set (users s). u_id w \<noteq> u_id original \<and> active_administrator w)" "administered s"
  shows "administered t"
proof -
  note E = user_edit_evolves [OF assms(1-3)]
  obtain k where t: "t = s\<lparr>users := put_row u_id v (users s), ticks := k\<rparr>" using E by blast
  have in_t: "x \<in> set (users t)" if "x \<in> set (users s)" "u_id x \<noteq> u_id original" for x
    using that E by (auto simp: t set_put_row)
  have v_t: "v \<in> set (users t)"
    using filter_singleD [OF assms(2)] E by (auto simp: t set_put_row)
  obtain w where w: "w \<in> set (users s)" "active_administrator w"
    using assms(5) filter_singleD [OF assms(2)] by (auto simp: administered_def)
  have active: "u_is_active u" if "u_is_active original" "\<not> (\<exists>w \<in> set (users s). u_id w \<noteq> u_id original \<and> active_administrator w)"
    using assms(4) that by blast
  have "\<exists>x \<in> set (users t). active_administrator x"
  proof (cases "\<exists>w \<in> set (users s). u_id w \<noteq> u_id original \<and> active_administrator w")
    case True
    then show ?thesis using in_t by blast
  next
    case False
    then have "w = original" using w filter_single_unique [OF assms(2), of w] by blast
    then have "active_administrator v" using w(2) active [OF _ False] E by (auto simp: active_administrator_def)
    then show ?thesis using v_t by blast
  qed
  then show ?thesis by (simp add: administered_def)
qed

lemma administered_users: "users t = users s \<Longrightarrow> administered s \<longrightarrow> administered t"
  by (simp add: administered_def)

lemma users_of_hand_over: "hand_over dash actor incoming at s = Inr (m, t) \<Longrightarrow> users t = users s"
  using hand_over_Inr [of dash actor incoming at s m t] by auto

interpretation administration: core_order "\<lambda>s t. administered s \<longrightarrow> administered t"
  by unfold_locales
    (auto intro: administered_add administered_edit administered_users [THEN mp] users_of_hand_over
      dest!: dashboard_save_frame request_frame revision_frame lock_frame artifact_frame grant_frame
        render_auth_frame audit_frame
      simp: core_tables_def mark_captured_def writeT_eq_Inr)

section \<open>Viewers see complete revisions\<close>

definition is_complete :: "db \<Rightarrow> uuid \<Rightarrow> bool" where
  "is_complete s i \<longleftrightarrow> (\<exists>r \<in> set (revisions s). r_id r = i \<and> r_artifacts_locked r)"

definition pins_are_complete :: "db \<Rightarrow> bool" where
  "pins_are_complete s \<longleftrightarrow>
     (\<forall>d \<in> set (dashboards s). \<forall>i. d_published_revision d = Some i \<longrightarrow> is_complete s i)"

lemma pins_dashboards:
  assumes "dashboard_save adding fs d s = Inr (v, t)" "dashboard_edit adding fs d" "pins_complete fs d s"
    "pins_are_complete s"
  shows "pins_are_complete t"
proof -
  obtain rows k where t: "t = s\<lparr>dashboards := rows, ticks := k\<rparr>"
    using dashboard_save_frame [OF assms(1)] by blast
  have "(\<forall>i. d_published_revision v = Some i \<longrightarrow> is_complete s i) \<and>
    set (dashboards t) \<subseteq> insert v (set (dashboards s))"
  proof (cases adding)
    case True
    then show ?thesis using assms(1) by (auto dest!: dashboard_save_add_Inr)
  next
    case False
    with assms(1) have r: "dashboard_save False fs d s = Inr (v, t)" by simp
    obtain original now1 now2 d' fs' k where o: "filter (\<lambda>x. d_id x = d_id d) (dashboards s) = [original]"
      and d': "d' = advanced_dashboard original now1 d"
      and fs': "fs' = (if advances_publication original d
              then add_fields [''publication_version'', ''last_published_at''] fs else fs)"
      and v: "v = dashboard_columns fs' now2 original d'"
      and t: "t = s\<lparr>dashboards := put_row d_id v (dashboards s), ticks := k\<rparr>"
      using dashboard_save_change_Inr [OF r] by blast
    have p: "d_published_revision v = column ''published_revision'' fs (d_published_revision original) (d_published_revision d)"
      by (simp add: v fs' d' dashboard_columns_def advanced_dashboard_def column_add_fields)
    have "is_complete s i" if "d_published_revision v = Some i" for i
    proof (cases "fs = Some publish_columns")
      case True
      then show ?thesis
        using that p assms(3) by (auto simp: column_Some publish_columns_def pins_complete_def is_complete_def)
    next
      case False
      with that p assms(2) \<open>\<not> adding\<close> have "d_published_revision original = Some i"
        by (auto simp: dashboard_edit_def column_Some)
      then show ?thesis using filter_singleD [OF o] assms(4) by (auto simp: pins_are_complete_def)
    qed
    then show ?thesis by (auto simp: t dest: in_put_rowD)
  qed
  then show ?thesis using assms(4) by (auto simp: pins_are_complete_def is_complete_def t)
qed

lemma pins_hand_over:
  assumes "hand_over dash actor incoming at s = Inr (m, t)" "pins_are_complete s"
  shows "pins_are_complete t"
proof -
  obtain old v k n where "old \<in> set (dashboards s)"
    and v: "v = old\<lparr>d_owner := u_id incoming, d_last_transfer := Some (ot_id m), d_updated_at := at\<rparr>"
    and t: "t = s\<lparr>transfers := transfers s @ [m], dashboards := put_row d_id v (dashboards s),
           ticks := k, uuid_draws := n\<rparr>"
    using hand_over_Inr [OF assms(1)] by blast
  then show ?thesis
    using assms(2) by (auto simp: pins_are_complete_def is_complete_def t v dest!: in_put_rowD)
qed

lemma complete_retained:
  "evolves revision_evolves (revisions s) (revisions t) \<Longrightarrow> is_complete s i \<Longrightarrow> is_complete t i"
  unfolding is_complete_def by (auto dest!: evolves_row simp: revision_evolves_def)

lemma pins_same:
  "dashboards t = dashboards s \<Longrightarrow> revisions t = revisions s \<Longrightarrow> pins_are_complete s \<Longrightarrow> pins_are_complete t"
  by (simp add: pins_are_complete_def is_complete_def)

lemma pins_revisions:
  assumes "dashboards t = dashboards s" "retained s t" "pins_are_complete s"
  shows "pins_are_complete t"
  using assms complete_retained unfolding pins_are_complete_def retained_def by metis

lemma pins_content:
  "revision_save adding r s = Inr (r', t) \<Longrightarrow> pins_are_complete s \<Longrightarrow> pins_are_complete t"
  "lock_artifacts i s = Inr (n, t) \<Longrightarrow> pins_are_complete s \<Longrightarrow> pins_are_complete t"
  by (erule pins_revisions [rotated 2];
      auto dest: revision_frame lock_frame intro: retained_content)+

interpretation pinning: core_order "\<lambda>s t. pins_are_complete s \<longrightarrow> pins_are_complete t"
proof unfold_locales
  show "pins_are_complete s \<longrightarrow> pins_are_complete t" if "core_tables t = core_tables s" for s t
    using that by (auto simp: core_tables_def intro: pins_same)
qed (auto intro: pins_dashboards pins_hand_over pins_content
    dest!: user_save_frame request_frame artifact_frame grant_frame render_auth_frame audit_frame
    simp: mark_captured_def writeT_eq_Inr intro: pins_same)

section \<open>Complete revisions are frozen\<close>

definition artifacts_of :: "db \<Rightarrow> uuid \<Rightarrow> artifact list" where
  "artifacts_of s i = filter (\<lambda>a. a_revision a = i) (artifacts s)"

definition frozen :: "db \<Rightarrow> db \<Rightarrow> bool" where
  "frozen s t \<longleftrightarrow>
     (\<forall>i. is_complete s i \<longrightarrow> is_complete t i \<and> artifacts_of t i = artifacts_of s i)"

lemma frozen_same: "artifacts t = artifacts s \<Longrightarrow> revisions t = revisions s \<Longrightarrow> frozen s t"
  by (simp add: frozen_def is_complete_def artifacts_of_def)

lemma frozen_revisions:
  assumes "artifacts t = artifacts s" "retained s t"
  shows "frozen s t"
proof -
  have "evolves revision_evolves (revisions s) (revisions t)"
    using assms(2) by (simp add: retained_def)
  from complete_retained [OF this] show ?thesis
    using assms(1) by (simp add: frozen_def artifacts_of_def)
qed

lemma frozen_content:
  "revision_save adding r s = Inr (r', t) \<Longrightarrow> frozen s t"
  "lock_artifacts i s = Inr (n, t) \<Longrightarrow> frozen s t"
  by (rule frozen_revisions; auto dest: revision_frame lock_frame intro: retained_content)+

lemma artifact_clean_Inr:
  assumes "artifact_clean uc a s = Inr ()"
  shows "\<exists>r. revision_of s (a_revision a) = Some r \<and> \<not> r_artifacts_locked r"
proof (cases "normalize_logical_name uc (a_logical_name a)")
  case (Inl e)
  with assms show ?thesis by (cases e) (simp_all add: artifact_clean_def)
next
  case (Inr n)
  with assms show ?thesis
    by (simp add: artifact_clean_def ensureE_def split: if_split_asm option.split_asm)
qed

lemma frozen_artifacts:
  assumes "artifact_save uc adding a s = Inr (v, t)" "sound s"
  shows "frozen s t"
proof -
  have "adding" using artifact_frame [OF assms(1)] by simp
  with assms(1) have r: "artifact_save uc True a s = Inr (v, t)" by simp
  have c: "artifact_clean uc v s = Inr ()" and t: "t = s\<lparr>artifacts := artifacts s @ [v]\<rparr>"
    using artifact_save_Inr [OF r] by simp_all
  obtain r where r: "revision_of s (a_revision v) = Some r" "\<not> r_artifacts_locked r"
    using artifact_clean_Inr [OF c] by blast
  have "x = r" if "x \<in> set (revisions s)" "r_id x = a_revision v" for x
    using db_wf_lookup(3) [OF soundD(1) [OF assms(2)] that(1)] that(2) r(1) by simp
  then have "\<not> is_complete s (a_revision v)" using r(2) by (auto simp: is_complete_def)
  then show ?thesis by (auto simp: frozen_def is_complete_def artifacts_of_def t)
qed

lemma frozen_hand_over:
  assumes "hand_over dash actor incoming at s = Inr (m, t)"
  shows "frozen s t"
proof -
  obtain v k n where "t = s\<lparr>transfers := transfers s @ [m], dashboards := put_row d_id v (dashboards s),
           ticks := k, uuid_draws := n\<rparr>"
    using hand_over_Inr [OF assms] by blast
  then show ?thesis by (simp add: frozen_same)
qed

interpretation freezing: core_order frozen
proof unfold_locales
  show "frozen s u" if "frozen s t" "frozen t u" for s t u
    using that by (simp add: frozen_def)
qed (auto intro: frozen_same frozen_content frozen_artifacts frozen_hand_over
    dest!: user_save_frame request_frame dashboard_save_frame grant_frame render_auth_frame audit_frame
    simp: mark_captured_def writeT_eq_Inr core_tables_def)

section \<open>In every reachable state\<close>

lemma empty_invariants:
  "owner_ungranted (empty_db now ids sec)" "administered (empty_db now ids sec)"
  "pins_are_complete (empty_db now ids sec)"
  by (simp_all add: empty_db_def owner_ungranted_def administered_def pins_are_complete_def)

lemma reachable_invariants:
  assumes "reachable cfg s"
  shows "owner_ungranted s" "administered s" "pins_are_complete s"
proof -
  obtain now ids sec where h: "history cfg (empty_db now ids sec) s"
    using assms by (auto simp: reachable_def)
  have e: "reachable cfg (empty_db now ids sec)" unfolding reachable_def using history_refl by blast
  show "owner_ungranted s" "administered s" "pins_are_complete s"
    using exclusion.reachable_ordered [OF e h] administration.reachable_ordered [OF e h]
      pinning.reachable_ordered [OF e h] empty_invariants by blast+
qed

end
