(* ===== verification/Credentials.thy ===== *)
theory Credentials
  imports Invariants
begin

text \<open>
  Two more invariants, on which the fate of render credentials rests: no service archives or
  deletes a dashboard, and every credential is backed by an account version and a publication
  version that have been reached.
\<close>

section \<open>No service shelves a dashboard\<close>

definition unshelved :: "db \<Rightarrow> bool" where
  "unshelved s \<longleftrightarrow> (\<forall>d \<in> set (dashboards s). d_state d \<notin> {ARCHIVED, DELETED})"

lemma unshelved_same: "dashboards t = dashboards s \<Longrightarrow> unshelved s \<Longrightarrow> unshelved t"
  by (simp add: unshelved_def)

lemma unshelved_dashboards:
  assumes "dashboard_save adding fs d s = Inr (v, t)" "dashboard_edit adding fs d" "unshelved s"
  shows "unshelved t"
proof (cases adding)
  case True
  then show ?thesis using assms by (auto dest!: dashboard_save_add_Inr simp: unshelved_def)
next
  case False
  with assms(1) have r: "dashboard_save False fs d s = Inr (v, t)" by simp
  obtain original now1 now2 d' fs' k where o: "filter (\<lambda>x. d_id x = d_id d) (dashboards s) = [original]"
    and d': "d' = advanced_dashboard original now1 d"
    and fs': "fs' = (if advances_publication original d
              then add_fields [''publication_version'', ''last_published_at''] fs else fs)"
    and v: "v = dashboard_columns fs' now2 original d'"
    and t: "t = s\<lparr>dashboards := put_row d_id v (dashboards s), ticks := k\<rparr>"
    using dashboard_save_change_Inr [OF r] by blast
  have "d_state v = column ''state'' fs (d_state original) (d_state d)"
    by (simp add: v fs' d' dashboard_columns_def advanced_dashboard_def column_add_fields)
  then have "d_state v \<notin> {ARCHIVED, DELETED}"
    using assms(2,3) \<open>\<not> adding\<close> filter_singleD [OF o]
    by (auto simp: dashboard_edit_def column_Some unshelved_def publish_columns_def)
  then show ?thesis using assms(3) by (auto simp: unshelved_def t dest!: in_put_rowD)
qed

lemma unshelved_hand_over:
  assumes "hand_over dash actor incoming at s = Inr (m, t)" "unshelved s"
  shows "unshelved t"
proof -
  obtain old v k n where "old \<in> set (dashboards s)"
    and "v = old\<lparr>d_owner := u_id incoming, d_last_transfer := Some (ot_id m), d_updated_at := at\<rparr>"
    and "t = s\<lparr>transfers := transfers s @ [m], dashboards := put_row d_id v (dashboards s),
           ticks := k, uuid_draws := n\<rparr>"
    using hand_over_Inr [OF assms(1)] by blast
  then show ?thesis using assms(2) by (auto simp: unshelved_def dest!: in_put_rowD)
qed

interpretation shelving: core_order "\<lambda>s t. unshelved s \<longrightarrow> unshelved t"
  by unfold_locales
    (auto intro: unshelved_dashboards unshelved_hand_over unshelved_same
      dest!: user_save_frame request_frame revision_frame lock_frame artifact_frame grant_frame
        render_auth_frame audit_frame
      simp: core_tables_def mark_captured_def writeT_eq_Inr)

section \<open>Backed credentials\<close>

definition backed :: "db \<Rightarrow> render_auth \<Rightarrow> bool" where
  "backed s a \<longleftrightarrow>
     (\<exists>u \<in> set (users s). u_id u = ra_viewer a \<and> ra_viewer_auth_version a \<le> u_auth_version u \<and>
        (ra_viewer_auth_version a = u_auth_version u \<longrightarrow> u_is_active u)) \<and>
     is_complete s (ra_revision a) \<and>
     (ra_audience a = VIEWER \<longrightarrow> (\<exists>d \<in> set (dashboards s). d_id d = ra_dashboard a \<and>
        (\<exists>v. ra_publication_version a = Some v \<and> v \<le> d_publication_version d)))"

lemma backed_scope: "same_scope a b \<Longrightarrow> backed s b = backed s a"
  by (simp add: backed_def same_scope_def)

lemma backed_mono:
  assumes "retained s t" "backed s a"
  shows "backed t a"
proof -
  obtain u where u: "u \<in> set (users s)" "u_id u = ra_viewer a" "ra_viewer_auth_version a \<le> u_auth_version u"
    "ra_viewer_auth_version a = u_auth_version u \<longrightarrow> u_is_active u"
    using assms(2) unfolding backed_def by blast
  obtain u' where u': "u' \<in> set (users t)" "user_evolves u u'"
    using retained_row(1) [OF assms(1) u(1)] by blast
  have "u_auth_version u \<le> u_auth_version u'" using u'(2) by (simp add: user_evolves_def)
  moreover have "u_is_active u' = u_is_active u" if "u_auth_version u' = u_auth_version u"
    using u'(2) that by (simp add: user_evolves_def)
  ultimately have "ra_viewer_auth_version a \<le> u_auth_version u'"
    "ra_viewer_auth_version a = u_auth_version u' \<longrightarrow> u_is_active u'"
    using u(3,4) by auto
  moreover have "u_id u' = ra_viewer a" using u(2) u'(2) by (simp add: user_evolves_def)
  ultimately have 1: "\<exists>u \<in> set (users t). u_id u = ra_viewer a \<and> ra_viewer_auth_version a \<le> u_auth_version u \<and>
        (ra_viewer_auth_version a = u_auth_version u \<longrightarrow> u_is_active u)"
    using u'(1) by blast
  have 2: "is_complete t (ra_revision a)"
    using assms complete_retained by (auto simp: retained_def backed_def)
  have 3: "\<exists>d \<in> set (dashboards t). d_id d = ra_dashboard a \<and>
        (\<exists>v. ra_publication_version a = Some v \<and> v \<le> d_publication_version d)" if viewer: "ra_audience a = VIEWER"
  proof -
    obtain d v where d: "d \<in> set (dashboards s)" "d_id d = ra_dashboard a"
      "ra_publication_version a = Some v" "v \<le> d_publication_version d"
      using assms(2) viewer unfolding backed_def by blast
    obtain d' where "d' \<in> set (dashboards t)" "dashboard_evolves d d'"
      using retained_row(2) [OF assms(1) d(1)] by blast
    then show ?thesis using d by (intro bexI [of _ d']) (auto simp: dashboard_evolves_def)
  qed
  from 1 2 3 show ?thesis unfolding backed_def by blast
qed

definition all_backed :: "db \<Rightarrow> bool" where
  "all_backed s \<longleftrightarrow> (\<forall>a \<in> set (render_auths s). backed s a)"

lemma all_backed_retained:
  assumes "retained s t" "length (render_auths t) = length (render_auths s)" "all_backed s"
  shows "all_backed t"
  unfolding all_backed_def
proof
  fix b assume "b \<in> set (render_auths t)"
  moreover have l: "list_all2 render_auth_evolves (render_auths s) (render_auths t)"
    using assms(1,2) by (simp add: retained_def evolves_def)
  ultimately obtain a where "a \<in> set (render_auths s)" "render_auth_evolves a b"
    unfolding in_set_conv_nth list_all2_conv_all_nth by metis
  then show "backed t b"
    using assms(3) backed_mono [OF assms(1)] backed_scope
    by (auto simp: all_backed_def render_auth_evolves_def)
qed

lemma all_backed_auths:
  assumes "render_auth_save adding fs a s = Inr (v, t)" "auth_bound adding a s" "sound s" "all_backed s"
    "pins_are_complete s"
  shows "all_backed t"
proof (cases adding)
  case False
  with assms(1) have "length (render_auths t) = length (render_auths s)"
    by (auto dest!: render_auth_save_change_Inr)
  then show ?thesis using assms by (blast intro: all_backed_retained retained_render_auths)
next
  case True
  with assms(1) have r: "render_auth_save True fs a s = Inr (v, t)" by simp
  note A = render_auth_save_add_Inr [OF r]
  obtain u where u: "u \<in> set (users s)" "u_id u = ra_viewer a" "u_is_active u"
    using assms(2) True by (auto simp: auth_bound_def)
  have "user_of s (ra_viewer a) = Some u" using db_wf_lookup(1) [OF soundD(1) [OF assms(3)] u(1)] u(2) by simp
  then have "ra_viewer_auth_version a = u_auth_version u"
    using A by (auto simp: render_auth_clean_def bindE_eq_Inr split: option.split_asm if_split_asm)
  moreover have "is_complete s (ra_revision a)"
  proof (cases "ra_audience a = VIEWER")
    case False
    then show ?thesis using assms(2) True by (auto simp: auth_bound_def is_complete_def)
  next
    case True
    then obtain d where "d \<in> set (dashboards s)" "d_published_revision d = Some (ra_revision a)"
      using assms(2) \<open>adding\<close> by (auto simp: auth_bound_def)
    then show ?thesis using assms(5) by (auto simp: pins_are_complete_def)
  qed
  moreover have "\<exists>d \<in> set (dashboards s). d_id d = ra_dashboard a \<and>
      (\<exists>v. ra_publication_version a = Some v \<and> v \<le> d_publication_version d)" if "ra_audience a = VIEWER"
    using assms(2) True that by (auto simp: auth_bound_def)
  ultimately have "backed s a" using u by (auto simp: backed_def)
  then have "backed t a" by (rule backed_mono [OF retained_render_auths [OF r]])
  moreover have "backed t v = backed t a" using A by (auto simp: backed_def)
  ultimately show ?thesis
    using A assms(4) backed_mono [OF retained_render_auths [OF r]] by (auto simp: all_backed_def)
qed

text \<open>Every other write retains and adds no credential.\<close>

lemma same_credentials:
  "user_save adding fs u s = Inr (u', t) \<Longrightarrow> render_auths t = render_auths s"
  "dashboard_save adding fs d s = Inr (d', t) \<Longrightarrow> render_auths t = render_auths s"
  "request_save adding fs ar s = Inr (ar', t) \<Longrightarrow> render_auths t = render_auths s"
  "revision_save adding rv s = Inr (rv', t) \<Longrightarrow> render_auths t = render_auths s"
  "lock_artifacts i s = Inr (n, t) \<Longrightarrow> render_auths t = render_auths s"
  "artifact_save uc adding x s = Inr (x', t) \<Longrightarrow> render_auths t = render_auths s"
  "grant_save adding fs g s = Inr (g', t) \<Longrightarrow> render_auths t = render_auths s"
  "audit_save adding ae s = Inr (ae', t) \<Longrightarrow> render_auths t = render_auths s"
  by (auto dest!: user_save_frame dashboard_save_frame request_frame revision_frame lock_frame
      artifact_frame grant_frame audit_frame)

lemma same_credentials_hand_over:
  assumes "hand_over dash actor incoming at s = Inr (m, t)"
  shows "render_auths t = render_auths s"
proof -
  obtain v k n where "t = s\<lparr>transfers := transfers s @ [m], dashboards := put_row d_id v (dashboards s),
           ticks := k, uuid_draws := n\<rparr>"
    using hand_over_Inr [OF assms] by blast
  then show ?thesis by simp
qed

definition pinned_backed :: "db \<Rightarrow> bool" where
  "pinned_backed s \<longleftrightarrow> pins_are_complete s \<and> all_backed s"

lemma pinned_backed_same:
  "retained s t \<Longrightarrow> render_auths t = render_auths s \<Longrightarrow> pins_are_complete s \<longrightarrow> pins_are_complete t \<Longrightarrow>
     pinned_backed s \<longrightarrow> pinned_backed t"
  by (simp add: all_backed_retained pinned_backed_def)

interpretation backing: core_order "\<lambda>s t. pinned_backed s \<longrightarrow> pinned_backed t"
proof unfold_locales
  show "pinned_backed s \<longrightarrow> pinned_backed t" if "core_tables t = core_tables s" for s t
    using that retention.side_order [OF that] pinning.side_order [OF that]
    by (intro pinned_backed_same) (simp_all add: core_tables_def)
  show "pinned_backed s \<longrightarrow> pinned_backed t" if "mark_captured i at s = Inr (x, t)" "sound s" for i at s x t
  proof -
    have "length (render_auths t) = length (render_auths s)"
      using that(1) by (auto simp: mark_captured_def writeT_eq_Inr)
    then show ?thesis
      using pinning.captured_core [OF that] all_backed_retained [OF retained_content(4) [OF that(1)]]
      by (simp add: pinned_backed_def)
  qed
  show "pinned_backed s \<longrightarrow> pinned_backed t" if "render_auth_save adding fs a s = Inr (a', t)"
    "auth_bound adding a s" "sound s" for adding fs a s a' t
    using pinning.render_auth_core [OF that] all_backed_auths [OF that] by (simp add: pinned_backed_def)
qed (simp, simp, (rule pinned_backed_same,
    (erule (1) retention.revision_core retention.lock_core retention.artifact_core retention.grant_core
        retention.audit_core
      | erule (2) retention.user_add_core retention.hand_over_core retention.request_core
      | erule (3) retention.dashboard_core | erule (4) retention.user_edit_core),
    erule same_credentials same_credentials_hand_over,
    (erule (1) pinning.revision_core pinning.lock_core pinning.artifact_core pinning.grant_core
        pinning.audit_core
      | erule (2) pinning.user_add_core pinning.hand_over_core pinning.request_core
      | erule (3) pinning.dashboard_core | erule (4) pinning.user_edit_core))+)

lemma reachable_backed:
  assumes "reachable cfg s"
  shows "all_backed s" "unshelved s"
proof -
  obtain now ids sec where h: "history cfg (empty_db now ids sec) s"
    using assms by (auto simp: reachable_def)
  have e: "reachable cfg (empty_db now ids sec)" unfolding reachable_def using history_refl by blast
  have "pinned_backed (empty_db now ids sec)" "unshelved (empty_db now ids sec)"
    by (simp_all add: pinned_backed_def pins_are_complete_def all_backed_def unshelved_def empty_db_def)
  then show "all_backed s" "unshelved s"
    using backing.reachable_ordered [OF e h] shelving.reachable_ordered [OF e h]
    by (simp_all add: pinned_backed_def)
qed

end
