(* ===== verification/Samples.thy ===== *)
theory Samples
  imports Credentials "HOL-Library.Code_Target_Nat"
begin

text \<open>
  A concrete deployment and a concrete history, on which the hypotheses of the theorems are
  discharged: an administrator is bootstrapped, an owner and a viewer are provisioned, the owner
  creates a dashboard, commits and publishes a revision, grants the viewer access, and the
  viewer is issued a credential. The states are written out; \<open>yields\<close> evaluates one
  transaction against the next state.
\<close>

section \<open>Evaluating a transaction against a given state\<close>

definition same_rows :: "db \<Rightarrow> db \<Rightarrow> bool" where
  "same_rows s t \<longleftrightarrow>
     users s = users t \<and> throttles s = throttles t \<and> dashboards s = dashboards t \<and>
     transfers s = transfers t \<and> dash_tags s = dash_tags t \<and> favorites s = favorites t \<and>
     viewer_states s = viewer_states t \<and> access_requests s = access_requests t \<and>
     revisions s = revisions t \<and> artifacts s = artifacts t \<and> grants s = grants t \<and>
     render_auths s = render_auths t \<and> opens s = opens t \<and> open_dailies s = open_dailies t \<and>
     viewer_summaries s = viewer_summaries t \<and> open_snapshots s = open_snapshots t \<and>
     checkpoints s = checkpoints t \<and> audit_events s = audit_events t \<and>
     reservations s = reservations t \<and> ticks s = ticks t \<and> uuid_draws s = uuid_draws t \<and>
     secret_draws s = secret_draws t \<and> serial s = serial t"

definition same_sources :: "db \<Rightarrow> db \<Rightarrow> bool" where
  "same_sources s t \<longleftrightarrow> clock t = clock s \<and> uuids t = uuids s \<and> secrets t = secrets s"

definition yields :: "'a dbtxn \<Rightarrow> db \<Rightarrow> db \<Rightarrow> bool" where
  "yields m s t = (case m s of Inl e \<Rightarrow> False | Inr (a, u) \<Rightarrow> same_rows u t)"

text \<open>No transaction changes the clock or the sources of identifiers.\<close>

lemma sources_of_writes:
  "timezone_now s = Inr (at, t) \<Longrightarrow> same_sources s t"
  "uuid4 s = Inr (n, t) \<Longrightarrow> same_sources s t"
  "draw_secret s = Inr (secret, t) \<Longrightarrow> same_sources s t"
  "next_serial s = Inr (n, t) \<Longrightarrow> same_sources s t"
  "delete_throttles hashes s = Inr (x, t) \<Longrightarrow> same_sources s t"
  "mark_aggregated opened at s = Inr (x, t) \<Longrightarrow> same_sources s t"
  "delete_opens opened s = Inr (x, t) \<Longrightarrow> same_sources s t"
  "delete_reservations opened s = Inr (x, t) \<Longrightarrow> same_sources s t"
  "mark_captured i at s = Inr (x, t) \<Longrightarrow> same_sources s t"
  "throttle_insert b s = Inr (b', t) \<Longrightarrow> same_sources s t"
  "throttle_save fs b s = Inr (b', t) \<Longrightarrow> same_sources s t"
  "tag_create uc i label slot s = Inr (tg, t) \<Longrightarrow> same_sources s t"
  "delete_tags i s = Inr (x, t) \<Longrightarrow> same_sources s t"
  "favorite_insert f s = Inr (f', t) \<Longrightarrow> same_sources s t"
  "delete_favorites i j s = Inr (x, t) \<Longrightarrow> same_sources s t"
  "viewer_state_save adding fs vs s = Inr (vs', t) \<Longrightarrow> same_sources s t"
  "open_save adding fs e s = Inr (e', t) \<Longrightarrow> same_sources s t"
  "daily_insert od s = Inr (od', t) \<Longrightarrow> same_sources s t"
  "daily_update od s = Inr (od', t) \<Longrightarrow> same_sources s t"
  "summary_insert vo s = Inr (vo', t) \<Longrightarrow> same_sources s t"
  "summary_update vo s = Inr (vo', t) \<Longrightarrow> same_sources s t"
  "snapshot_insert sn s = Inr (sn', t) \<Longrightarrow> same_sources s t"
  "snapshot_update sn s = Inr (sn', t) \<Longrightarrow> same_sources s t"
  "checkpoint_save adding fs c s = Inr (c', t) \<Longrightarrow> same_sources s t"
  "reservation_save adding fs sr s = Inr (sr', t) \<Longrightarrow> same_sources s t"
  "user_save adding fs u s = Inr (u', t) \<Longrightarrow> same_sources s t"
  "dashboard_save adding fs dash s = Inr (dash', t) \<Longrightarrow> same_sources s t"
  "request_save adding fs ar s = Inr (ar', t) \<Longrightarrow> same_sources s t"
  "revision_save adding rv s = Inr (rv', t) \<Longrightarrow> same_sources s t"
  "lock_artifacts i s = Inr (n, t) \<Longrightarrow> same_sources s t"
  "artifact_save uc adding a s = Inr (a', t) \<Longrightarrow> same_sources s t"
  "grant_save adding fs g s = Inr (g', t) \<Longrightarrow> same_sources s t"
  "render_auth_save adding fs ra s = Inr (ra', t) \<Longrightarrow> same_sources s t"
  "audit_save adding ae s = Inr (ae', t) \<Longrightarrow> same_sources s t"
  by (auto simp: same_sources_def environment_run delete_throttles_def mark_aggregated_def
      delete_opens_def delete_reservations_def mark_captured_def writeT_eq_Inr
      dest!: side_table_frames user_save_frame dashboard_save_frame revision_frame lock_frame
        artifact_frame grant_frame render_auth_frame audit_frame request_frame viewer_state_frame)

lemma sources_of_hand_over:
  assumes "hand_over dash actor incoming at s = Inr (m, t)"
  shows "same_sources s t"
proof -
  obtain v k n where "t = s\<lparr>transfers := transfers s @ [m], dashboards := put_row d_id v (dashboards s),
      ticks := k, uuid_draws := n\<rparr>"
    using hand_over_Inr [OF assms] by blast
  then show ?thesis by (simp add: same_sources_def)
qed

interpretation sources: history_order same_sources
proof unfold_locales
  show "same_sources s t \<Longrightarrow> same_sources t u \<Longrightarrow> same_sources s u" for s t u
    by (simp add: same_sources_def)
qed (erule sources_of_hand_over | erule sources_of_writes | intro obeysI, erule sources_of_writes
  | simp add: same_sources_def)+

lemma yields_run:
  assumes "yields m s t" "obeys same_sources m" "same_sources s t"
  shows "\<exists>a. m s = Inr (a, t)"
proof -
  obtain a u where r: "m s = Inr (a, u)" "same_rows u t"
    using assms(1) by (auto simp: yields_def split: sum.splits)
  have "same_sources s u" using obeysD [OF assms(2) r(1)] .
  with r(2) assms(3) have "u = t"
    by (intro db.equality) (auto simp: same_rows_def same_sources_def)
  with r(1) show ?thesis by blast
qed

text \<open>A run whose result is described rather than written out.\<close>

definition satisfies :: "'a dbtxn \<Rightarrow> db \<Rightarrow> ('a \<Rightarrow> db \<Rightarrow> bool) \<Rightarrow> bool" where
  "satisfies m s P = (case m s of Inl e \<Rightarrow> False | Inr (a, t) \<Rightarrow> P a t)"

lemma satisfies_run: "satisfies m s P \<Longrightarrow> \<exists>a t. m s = Inr (a, t) \<and> P a t"
  by (auto simp: satisfies_def split: sum.split_asm)

definition fails_with :: "'a dbtxn \<Rightarrow> db \<Rightarrow> exn \<Rightarrow> bool" where
  "fails_with m s e = (case m s of Inl e' \<Rightarrow> e' = e | Inr r \<Rightarrow> False)"

lemma fails_run: "fails_with m s e \<Longrightarrow> m s = Inl e"
  by (auto simp: fails_with_def split: sum.split_asm)

section \<open>The deployment\<close>

definition sample_digest :: "text \<Rightarrow> text" where
  "sample_digest v = replicate 62 48 @ [48 + sum_list v div 10 mod 10, 48 + sum_list v mod 10]"

definition sample_identity :: identity_env where
  "sample_identity =
     \<lparr>salted_hmac = (\<lambda>salt v. sample_digest v),
      make_password = (\<lambda>salt pw. 120 # pw),
      validate_password = (\<lambda>pw u. 4 \<le> length pw),
      django_authenticate = (\<lambda>s soeid pw.
        first_row (filter (\<lambda>u. u_soeid u = soeid \<and> u_is_active u \<and> u_password u = 120 # pw) (users s))),
      uuid_text = (\<lambda>i. [i])\<rparr>"

definition sample_cfg :: deployment where
  "sample_cfg = \<lparr>cf_unicode = ascii_unicode, cf_sha256 = sample_digest, cf_ttl = 300,
     cf_identity = sample_identity\<rparr>"

lemma sample_cfg_simps [simp]:
  "cf_unicode sample_cfg = ascii_unicode" "cf_sha256 sample_cfg = sample_digest"
  "cf_ttl sample_cfg = 300" "cf_identity sample_cfg = sample_identity"
  by (simp_all add: sample_cfg_def)

section \<open>The rows\<close>

definition admin_user :: user where
  "admin_user = \<lparr>u_id = 1, u_soeid = cps ''ADMIN'', u_password = cps ''xsecret'', u_is_active = True,
     u_is_administrator = True, u_auth_version = 1, u_created_at = 0, u_updated_at = 0\<rparr>"

definition owner_user :: user where
  "owner_user = \<lparr>u_id = 2, u_soeid = cps ''OWNER'', u_password = cps ''xsecret'', u_is_active = True,
     u_is_administrator = False, u_auth_version = 1, u_created_at = 2000000, u_updated_at = 2000000\<rparr>"

definition viewer_user :: user where
  "viewer_user = \<lparr>u_id = 3, u_soeid = cps ''VIEWER'', u_password = cps ''xsecret'', u_is_active = True,
     u_is_administrator = False, u_auth_version = 1, u_created_at = 4000000, u_updated_at = 4000000\<rparr>"

definition draft_dash :: dashboard where
  "draft_dash = \<lparr>d_id = 4, d_owner = 2, d_name = cps ''Sales'', d_description = [], d_state = DRAFT,
     d_latest_revision = None, d_published_revision = None, d_first_published_at = None,
     d_publication_version = 0, d_last_published_at = None, d_publication_note = [],
     d_data_as_of = None, d_freshness_interval = None, d_freshness_confirmed_at = None,
     d_stale_after = None, d_last_transfer = None, d_created_at = 6000000, d_updated_at = 6000000\<rparr>"

definition uploaded_dash :: dashboard where
  "uploaded_dash = \<lparr>d_id = 4, d_owner = 2, d_name = cps ''Sales'', d_description = [], d_state = DRAFT,
     d_latest_revision = Some 5, d_published_revision = None, d_first_published_at = None,
     d_publication_version = 0, d_last_published_at = None, d_publication_note = [],
     d_data_as_of = None, d_freshness_interval = None, d_freshness_confirmed_at = None,
     d_stale_after = None, d_last_transfer = None, d_created_at = 6000000, d_updated_at = 11000000\<rparr>"

definition published_dash :: dashboard where
  "published_dash = \<lparr>d_id = 4, d_owner = 2, d_name = cps ''Sales'', d_description = [], d_state = PUBLISHED,
     d_latest_revision = Some 5, d_published_revision = Some 5, d_first_published_at = Some 13000000,
     d_publication_version = 1, d_last_published_at = Some 13000000, d_publication_note = [],
     d_data_as_of = None, d_freshness_interval = None, d_freshness_confirmed_at = None,
     d_stale_after = None, d_last_transfer = None, d_created_at = 6000000, d_updated_at = 14000000\<rparr>"

definition sample_revision :: revision where
  "sample_revision = \<lparr>r_id = 5, r_dashboard = 4, r_number = 1, r_created_by = 2,
     r_created_at = 10000000, r_artifacts_locked = True\<rparr>"

definition sample_key :: "text" where
  "sample_key = generate_key (replicate 64 97)"

definition sample_receipt :: stored_artifact where
  "sample_receipt = \<lparr>sa_key = sample_key, sa_byte_size = 11, sa_sha256 = replicate 64 98\<rparr>"

definition sample_prepared :: prepared_artifact where
  "sample_prepared = \<lparr>pa_reservation_id = 100,
     pa_name = \<lparr>display = cps ''index.html'', comparison_key = cps ''index.html''\<rparr>,
     pa_kind = HTML, pa_receipt = sample_receipt, pa_media_type = ''text/html''\<rparr>"

definition open_reservation :: reservation where
  "open_reservation = \<lparr>sr_id = 100, sr_storage_key = sample_key, sr_state = RESERVED,
     sr_created_at = 9000000, sr_expires_at = 86408000000, sr_verified_size = None,
     sr_verified_sha256 = [], sr_cleanup_required = False\<rparr>"

definition owned_reservation :: reservation where
  "owned_reservation = \<lparr>sr_id = 100, sr_storage_key = sample_key, sr_state = OWNED,
     sr_created_at = 9000000, sr_expires_at = 86408000000, sr_verified_size = Some 11,
     sr_verified_sha256 = replicate 64 98, sr_cleanup_required = False\<rparr>"

definition sample_artifact :: artifact where
  "sample_artifact = \<lparr>a_id = 6, a_revision = 5, a_kind = HTML, a_logical_name = cps ''index.html'',
     a_name_key = cps ''index.html'', a_storage_key = sample_key, a_byte_size = 11,
     a_media_type = ''text/html'', a_sha256 = replicate 64 98\<rparr>"

definition viewer_grant :: grant where
  "viewer_grant = \<lparr>g_id = 7, g_dashboard = 4, g_viewer = 3, g_created_by = 2,
     g_created_at = 16000000, g_revoked_at = None, g_revoked_by = None\<rparr>"

definition sample_token :: "text" where
  "sample_token = replicate 42 65 @ [51]"

definition viewer_credential :: render_auth where
  "viewer_credential = \<lparr>ra_id = 8, ra_token_digest = sample_digest sample_token, ra_audience = VIEWER,
     ra_viewer = 3, ra_viewer_auth_version = 1, ra_dashboard = 4, ra_revision = 5,
     ra_viewer_grant = Some 7, ra_owner_epoch = None, ra_publication_version = Some 1,
     ra_created_at = 19000000, ra_expires_at = 318000000, ra_revoked_at = None,
     ra_captured_at = Some 19000000\<rparr>"

definition sample_open :: authorized_open where
  "sample_open = \<lparr>ao_id = 8, ao_source = 8, ao_dashboard = 4, ao_viewer = 3, ao_revision = 5,
     ao_publication_version = 1, ao_opened_at = 19000000, ao_aggregated_at = None\<rparr>"

definition sample_viewer_state :: viewer_state where
  "sample_viewer_state = \<lparr>vs_id = 9, vs_user = 3, vs_dashboard = 4, vs_last_viewed_at = 19000000,
     vs_seen_version = 1\<rparr>"

definition sample_event ::
  "nat \<Rightarrow> string \<Rightarrow> time \<Rightarrow> uuid option \<Rightarrow> uuid option \<Rightarrow> uuid option \<Rightarrow> uuid option
    \<Rightarrow> (string \<times> meta_value) list \<Rightarrow> audit_event" where
  "sample_event i et at actor dash rev' target md =
     \<lparr>ae_id = i, ae_event_type = et, ae_occurred_at = seconds at, ae_actor = actor,
      ae_dashboard = dash, ae_revision = rev', ae_target_user = target, ae_metadata = md\<rparr>"

definition sample_events :: "audit_event list" where
  "sample_events =
     [sample_event 1 ''auth.bootstrap'' 1 None None None (Some 1) [],
      sample_event 2 ''user.created'' 3 (Some 1) None None (Some 2) [],
      sample_event 3 ''user.created'' 5 (Some 1) None None (Some 3) [],
      sample_event 4 ''dashboard.created'' 7 (Some 2) (Some 4) None None [],
      sample_event 5 ''revision.created'' 12 (Some 2) (Some 4) (Some 5) None
        [(''artifact_count'', MInt 1), (''revision_number'', MInt 1)],
      sample_event 6 ''dashboard.published'' 15 (Some 2) (Some 4) (Some 5) None
        [(''publication_version'', MInt 1), (''republished'', MBool False)],
      sample_event 7 ''grant.created'' 17 (Some 2) (Some 4) None (Some 3) [(''grant_id'', MId 7)]]"

section \<open>The states\<close>

definition sample_state ::
  "user list \<Rightarrow> dashboard list \<Rightarrow> revision list \<Rightarrow> artifact list \<Rightarrow> reservation list \<Rightarrow> grant list
    \<Rightarrow> nat \<Rightarrow> nat \<Rightarrow> nat \<Rightarrow> nat \<Rightarrow> nat \<Rightarrow> db" where
  "sample_state us ds rs as srs gs n k i j sn =
     \<lparr>users = us, throttles = [], dashboards = ds, transfers = [], dash_tags = [], favorites = [],
      viewer_states = [], access_requests = [], revisions = rs, artifacts = as, grants = gs,
      render_auths = [], opens = [], open_dailies = [], viewer_summaries = [], open_snapshots = [],
      checkpoints = [], audit_events = take n sample_events, reservations = srs,
      clock = (\<lambda>n. seconds (int n)), ticks = k, uuids = (\<lambda>n. n + 1), uuid_draws = i,
      secrets = (\<lambda>n. replicate 42 65 @ [48 + n]), secret_draws = j, serial = sn\<rparr>"

definition started where "started = sample_state [] [] [] [] [] [] 0 0 0 0 1"
definition bootstrapped where "bootstrapped = sample_state [admin_user] [] [] [] [] [] 1 2 1 1 2"
definition with_owner where "with_owner = sample_state [admin_user, owner_user] [] [] [] [] [] 2 4 2 2 3"
definition with_users where
  "with_users = sample_state [admin_user, owner_user, viewer_user] [] [] [] [] [] 3 6 3 3 4"
definition with_project where
  "with_project = sample_state [admin_user, owner_user, viewer_user] [draft_dash] [] [] [] [] 4 8 4 3 5"
definition with_reservation where
  "with_reservation = sample_state [admin_user, owner_user, viewer_user] [draft_dash] [] []
     [open_reservation] [] 4 10 4 3 5"
definition with_bytes where
  "with_bytes = sample_state [admin_user, owner_user, viewer_user] [draft_dash] [] []
     [owned_reservation] [] 4 10 4 3 5"
definition with_revision where
  "with_revision = sample_state [admin_user, owner_user, viewer_user] [uploaded_dash]
     [sample_revision] [sample_artifact] [] [] 5 13 6 3 6"
definition published where
  "published = sample_state [admin_user, owner_user, viewer_user] [published_dash]
     [sample_revision] [sample_artifact] [] [] 6 16 6 3 7"
definition granted where
  "granted = sample_state [admin_user, owner_user, viewer_user] [published_dash]
     [sample_revision] [sample_artifact] [] [viewer_grant] 7 18 7 3 8"
definition viewing where
  "viewing = granted\<lparr>render_auths := [viewer_credential], opens := [sample_open],
     viewer_states := [sample_viewer_state], ticks := 20, uuid_draws := 8, secret_draws := 4,
     serial := 10\<rparr>"

lemmas sample_states = started_def bootstrapped_def with_owner_def with_users_def with_project_def
  with_reservation_def with_bytes_def with_revision_def published_def granted_def viewing_def

lemma sample_sources [simp]:
  "same_sources (sample_state us ds rs as srs gs n k i j sn)
     (sample_state us' ds' rs' as' srs' gs' n' k' i' j' sn')"
  "same_sources granted viewing"
  by (simp_all add: same_sources_def sample_state_def viewing_def)

section \<open>The history\<close>

lemma started_empty:
  "started = empty_db (\<lambda>n. seconds (int n)) (\<lambda>n. n + 1) (\<lambda>n. replicate 42 65 @ [48 + n])"
  by (simp add: started_def sample_state_def empty_db_def)

lemma bootstrapped_run: "\<exists>a. bootstrap_first_administrator sample_identity (cps ''admin'') (cps ''secret'') started = Inr (a, bootstrapped)"
proof (rule yields_run)
  show "yields (bootstrap_first_administrator sample_identity (cps ''admin'') (cps ''secret'')) started bootstrapped" by code_simp
qed (simp_all add: sources.bootstrap_order sample_states)

lemma with_owner_run: "\<exists>a. provision_user sample_identity 1 (cps ''owner'') (cps ''secret'') False bootstrapped = Inr (a, with_owner)"
proof (rule yields_run)
  show "yields (provision_user sample_identity 1 (cps ''owner'') (cps ''secret'') False) bootstrapped with_owner" by code_simp
qed (simp_all add: sources.provision_order sample_states)

lemma with_users_run: "\<exists>a. provision_user sample_identity 1 (cps ''viewer'') (cps ''secret'') False with_owner = Inr (a, with_users)"
proof (rule yields_run)
  show "yields (provision_user sample_identity 1 (cps ''viewer'') (cps ''secret'') False) with_owner with_users" by code_simp
qed (simp_all add: sources.provision_order sample_states)

lemma with_project_run: "\<exists>a. create_project 2 (cps ''Sales'') [] with_users = Inr (a, with_project)"
proof (rule yields_run)
  show "yields (create_project 2 (cps ''Sales'') []) with_users with_project" by code_simp
qed (simp_all add: sources.create_project_order sample_states)

lemma with_reservation_run: "\<exists>a. reserve_once sample_key 100 with_project = Inr (a, with_reservation)"
proof (rule yields_run)
  show "yields (reserve_once sample_key 100) with_project with_reservation" by code_simp
qed (simp_all add: sources.reserve_order sample_states)

lemma with_bytes_run: "\<exists>a. mark_reservation_verified 100 sample_receipt with_reservation = Inr (a, with_bytes)"
proof (rule yields_run)
  show "yields (mark_reservation_verified 100 sample_receipt) with_reservation with_bytes" by code_simp
qed (simp_all add: sources.verified_order sample_states)

lemma with_revision_run: "\<exists>a. commit_revision_metadata ascii_unicode 4 2 [sample_prepared] with_bytes = Inr (a, with_revision)"
proof (rule yields_run)
  show "yields (commit_revision_metadata ascii_unicode 4 2 [sample_prepared]) with_bytes with_revision" by code_simp
qed (simp_all add: sources.commit_revision_order sample_states)

lemma published_run: "\<exists>a. publish_dashboard_revision ascii_unicode 4 2 5 [] None None None with_revision = Inr (a, published)"
proof (rule yields_run)
  show "yields (publish_dashboard_revision ascii_unicode 4 2 5 [] None None None) with_revision published" by code_simp
qed (simp_all add: sources.publish_order sample_states)

lemma granted_run: "\<exists>a. grant_project_viewer 4 2 (cps ''viewer'') published = Inr (a, granted)"
proof (rule yields_run)
  show "yields (grant_project_viewer 4 2 (cps ''viewer'')) published granted" by code_simp
qed (simp_all add: sources.grant_project_viewer_order sample_states)

lemma viewing_run: "\<exists>a. issue_published_view sample_digest 300 4 3 None granted = Inr (a, viewing)"
proof (rule yields_run)
  show "yields (issue_published_view sample_digest 300 4 3 None) granted viewing" by code_simp
qed (simp_all add: sources.issue_view_order )

text \<open>Each run is a step of the deployment, so every sample state is reachable.\<close>

lemma reachable_step: "reachable cfg s \<Longrightarrow> step cfg s t \<Longrightarrow> reachable cfg t"
  using reachable_history step_history by blast

lemma reachable_started: "reachable sample_cfg started"
  unfolding reachable_def started_empty by (intro exI) (rule history_refl)

lemma step_bootstrapped: "step sample_cfg started bootstrapped"
  using bootstrapped_run by (auto intro: step.bootstrapped [where cfg = sample_cfg, simplified])

lemma step_with_owner: "step sample_cfg bootstrapped with_owner"
  using with_owner_run by (auto intro: provisioned [where cfg = sample_cfg, simplified])

lemma step_with_users: "step sample_cfg with_owner with_users"
  using with_users_run by (auto intro: provisioned [where cfg = sample_cfg, simplified])

lemma step_with_project: "step sample_cfg with_users with_project"
  using with_project_run by (auto intro: project_created [where cfg = sample_cfg, simplified])

lemma step_with_reservation: "step sample_cfg with_project with_reservation"
  using with_reservation_run by (auto intro: reserved [where cfg = sample_cfg, simplified])

lemma step_with_bytes: "step sample_cfg with_reservation with_bytes"
  using with_bytes_run by (auto intro: verified [where cfg = sample_cfg, simplified])

lemma step_with_revision: "step sample_cfg with_bytes with_revision"
  using with_revision_run by (auto intro: revision_committed [where cfg = sample_cfg, simplified])

lemma step_published: "step sample_cfg with_revision published"
  using published_run by (auto intro: step.published [where cfg = sample_cfg, simplified])

lemma step_granted: "step sample_cfg published granted"
  using granted_run by (auto intro: grant_viewer [where cfg = sample_cfg, simplified])

lemma step_viewing: "step sample_cfg granted viewing"
  using viewing_run by (auto intro: view_issued [where cfg = sample_cfg, simplified])

lemmas reachable_bootstrapped = reachable_step [OF reachable_started step_bootstrapped]
lemmas reachable_with_owner = reachable_step [OF reachable_bootstrapped step_with_owner]
lemmas reachable_with_users = reachable_step [OF reachable_with_owner step_with_users]
lemmas reachable_with_project = reachable_step [OF reachable_with_users step_with_project]
lemmas reachable_with_reservation = reachable_step [OF reachable_with_project step_with_reservation]
lemmas reachable_with_bytes = reachable_step [OF reachable_with_reservation step_with_bytes]
lemmas reachable_with_revision = reachable_step [OF reachable_with_bytes step_with_revision]
lemmas reachable_published = reachable_step [OF reachable_with_revision step_published]
lemmas reachable_granted = reachable_step [OF reachable_published step_granted]
lemmas reachable_viewing = reachable_step [OF reachable_granted step_viewing]

end
