(* ===== verification/Guarantees.thy ===== *)
theory Guarantees
  imports Samples
begin

text \<open>What holds in every state the application can reach, and what no sequence of services undoes.\<close>

text \<open>C8: Every reachable database satisfies the constraints of all its tables: unique keys, check
  constraints and unique indexes, those that no model declares and only the migrations add included
  (one HTML artifact per revision, the shards of a storage key, one active grant, the chain of
  transfers). And every reference of the core tables names a stored row of the right dashboard.\<close>

theorem reachable_consistent:
  assumes "reachable cfg s"
  shows "db_wf s \<and> linked s"
  using reachable_sound [OF assms] by (simp add: sound_def)

theorem reachable_consistent_witness: "db_wf viewing \<and> linked viewing"
  by (rule reachable_consistent [OF reachable_viewing])

text \<open>C9: In every reachable state a viewer has at most one active grant on a dashboard, and the owner
  has none on the own dashboard, whatever grants, revocations, approvals and transfers happened.\<close>

theorem active_grants_exclusive:
  assumes "reachable cfg s" "d \<in> set (dashboards s)"
  shows "length (filter (active_scope (d_id d) v) (grants s)) \<le> (if d_owner d = v then 0 else 1)"
proof (cases "filter (active_scope (d_id d) v) (grants s)")
  case (Cons g gs)
  have wf: "wf_table g_id grant_checks grant_conflict (grants s)"
    using reachable_wf [OF assms(1)] by (simp add: db_wf_def)
  have g: "g \<in> set (grants s)" "active_scope (d_id d) v g" using Cons by (auto simp: filter_eq_Cons_iff)
  have eq: "h = g" if h: "h \<in> set (grants s)" "active_scope (d_id d) v h" for h
  proof (rule wf_table_key [OF wf h(1) g(1)], rule ccontr)
    assume "g_id h \<noteq> g_id g"
    with wf_tableD(3) [OF wf h(1) g(1)] have "\<not> grant_conflict h g" by blast
    then show False using h(2) g(2) by (simp add: active_scope_def grant_conflict_def)
  qed
  have "filter (active_scope (d_id d) v) (grants s) = [g]"
  proof (rule filter_unique)
    show "distinct (grants s)" using wf_tableD(1) [OF wf] by (simp add: distinct_map)
    show "\<forall>h \<in> set (grants s). active_scope (d_id d) v h \<longrightarrow> h = g" using eq by blast
  qed (rule g)+
  moreover have "d_owner d \<noteq> v"
    using reachable_invariants(1) [OF assms(1)] assms(2) g unfolding owner_ungranted_def active_scope_def by metis
  ultimately show ?thesis by simp
qed simp

theorem active_grants_exclusive_witness:
  "length (filter (active_scope 4 3) (grants viewing)) \<le> 1 \<and> filter (active_scope 4 2) (grants viewing) = []"
proof -
  have d: "published_dash \<in> set (dashboards viewing)"
    by (simp add: viewing_def granted_def sample_state_def)
  show ?thesis
    using active_grants_exclusive [OF reachable_viewing d, of 3] active_grants_exclusive [OF reachable_viewing d, of 2]
    by (simp add: published_dash_def)
qed

text \<open>C10: From the bootstrap on there is an active administrator in every reachable state: no sequence
  of disabling, enabling and provisioning locks the administration out.\<close>

theorem administrator_remains:
  assumes "reachable cfg s" "users s \<noteq> []"
  shows "\<exists>u \<in> set (users s). u_is_active u \<and> u_is_administrator u"
  using reachable_invariants(2) [OF assms(1)] assms(2) by (auto simp: administered_def active_administrator_def)

theorem administrator_remains_witness: "\<exists>u \<in> set (users viewing). u_is_active u \<and> u_is_administrator u"
  by (rule administrator_remains [OF reachable_viewing])
    (simp add: viewing_def granted_def sample_state_def)

text \<open>C11: What viewers are shown never changes under them: the revision a dashboard publishes is
  complete, and in every later state it still is and has exactly the same artifacts, with the same
  names, digests, media types and storage keys.\<close>

theorem published_content_frozen:
  assumes "reachable cfg s" "d \<in> set (dashboards s)" "d_published_revision d = Some i" "history cfg s t"
  shows "is_complete s i \<and> is_complete t i \<and> artifacts_of t i = artifacts_of s i"
proof -
  have "is_complete s i"
    using reachable_invariants(3) [OF assms(1)] assms(2,3) by (auto simp: pins_are_complete_def)
  then show ?thesis
    using freezing.reachable_ordered [OF assms(1,4)] by (simp add: frozen_def)
qed

theorem published_content_frozen_witness:
  "is_complete published 5 \<and> artifacts_of viewing 5 = artifacts_of published 5"
proof -
  have h: "history sample_cfg published viewing"
    using history_step [OF step_history [OF step_granted] step_viewing] .
  have d: "published_dash \<in> set (dashboards published)" "d_published_revision published_dash = Some 5"
    by (simp_all add: published_def sample_state_def published_dash_def)
  show ?thesis using published_content_frozen [OF reachable_published d h] by simp
qed

text \<open>C12: Nothing recorded is ever undone: from any reachable state, in every later one the audit log
  and the ownership transfers are extensions of the earlier ones, accounts keep their identity and
  role and their version only advances, closed grants and resolved revocations stay as they are,
  credentials keep their scope, and publication versions only advance.\<close>

theorem nothing_recorded_is_undone:
  assumes "reachable cfg s" "history cfg s t"
  shows "(\<exists>es. audit_events t = audit_events s @ es) \<and> (\<exists>xs. transfers t = transfers s @ xs) \<and>
     (\<exists>as. artifacts t = artifacts s @ as) \<and>
     evolves user_evolves (users s) (users t) \<and> evolves dashboard_evolves (dashboards s) (dashboards t) \<and>
     evolves revision_evolves (revisions s) (revisions t) \<and> evolves grant_evolves (grants s) (grants t) \<and>
     evolves render_auth_evolves (render_auths s) (render_auths t) \<and>
     evolves request_evolves (access_requests s) (access_requests t)"
  using history_retained(1) [OF assms] by (simp add: retained_def evolves_eq)

theorem nothing_recorded_is_undone_witness:
  "\<exists>es. audit_events viewing = audit_events published @ es"
  using nothing_recorded_is_undone
    [OF reachable_published history_step [OF step_history [OF step_granted] step_viewing]] by blast

end
