(* ===== verification/Resolution.thy ===== *)
theory Resolution
  imports Samples
begin

text \<open>
  The life of a render credential: which credentials resolve in a given database, that the two
  issuing services produce ones that do, and that a credential that was denied once is denied in
  every later state.
\<close>

section \<open>Resolution\<close>

text \<open>The rows a sound database has for a credential.\<close>

lemma sound_lookup:
  assumes "sound s"
  shows "u \<in> set (users s) \<Longrightarrow> user_of s (u_id u) = Some u"
    and "d \<in> set (dashboards s) \<Longrightarrow> dashboard_of s (d_id d) = Some d"
    and "r \<in> set (revisions s) \<Longrightarrow> revision_of s (r_id r) = Some r"
    and "g \<in> set (grants s) \<Longrightarrow> grant_of s (g_id g) = Some g"
    and "a \<in> set (render_auths s) \<Longrightarrow> render_auth_of s (ra_id a) = Some a"
  using db_wf_lookup [OF soundD(1) [OF assms]] by blast+

lemma lookup_row:
  "user_of s i = Some u \<Longrightarrow> u \<in> set (users s) \<and> u_id u = i"
  "dashboard_of s i = Some d \<Longrightarrow> d \<in> set (dashboards s) \<and> d_id d = i"
  "revision_of s i = Some r \<Longrightarrow> r \<in> set (revisions s) \<and> r_id r = i"
  "grant_of s i = Some g \<Longrightarrow> g \<in> set (grants s) \<and> g_id g = i"
  "render_auth_of s i = Some a \<Longrightarrow> a \<in> set (render_auths s) \<and> ra_id a = i"
  by (auto simp: user_of_def dashboard_of_def revision_of_def grant_of_def render_auth_of_def
      dest: find_keyD)

lemma credential_rows:
  assumes "sound s" "a \<in> set (render_auths s)"
  obtains u d r where "user_of s (ra_viewer a) = Some u" "dashboard_of s (ra_dashboard a) = Some d"
    "revision_of s (ra_revision a) = Some r" "r_dashboard r = ra_dashboard a"
proof -
  have l: "auth_linked s a" using assms by (simp add: sound_def linked_def)
  then obtain u d r where u: "u \<in> set (users s)" "u_id u = ra_viewer a" and d: "d \<in> set (dashboards s)"
    "d_id d = ra_dashboard a" and r: "r \<in> set (revisions s)" "r_id r = ra_revision a" "r_dashboard r = ra_dashboard a"
    unfolding auth_linked_def scope_defs by auto
  show thesis
  proof (rule that)
    show "user_of s (ra_viewer a) = Some u" using sound_lookup(1) [OF assms(1) u(1)] u(2) by simp
    show "dashboard_of s (ra_dashboard a) = Some d" using sound_lookup(2) [OF assms(1) d(1)] d(2) by simp
    show "revision_of s (ra_revision a) = Some r" using sound_lookup(3) [OF assms(1) r(1)] r(2) by simp
  qed (rule r(3))
qed

lemma credential_unique:
  "sound s \<Longrightarrow> a \<in> set (render_auths s) \<Longrightarrow> b \<in> set (render_auths s) \<Longrightarrow> ra_id a = ra_id b \<Longrightarrow> a = b"
  by (metis sound_lookup(5) option.inject)

lemma digest_unique:
  assumes "sound s" "a \<in> set (render_auths s)" "b \<in> set (render_auths s)"
    "ra_token_digest a = ra_token_digest b"
  shows "a = b"
  using wf_tableD(3) [of ra_id render_auth_checks render_auth_conflict "render_auths s" a b]
    credential_unique [OF assms(1-3)] assms
  by (auto simp: sound_def db_wf_def render_auth_conflict_def)

text \<open>What a credential that is current in \<open>t\<close> was in an earlier state.\<close>

lemma current_before:
  assumes s: "sound s" "owner_ungranted s" "all_backed s" "unshelved s"
    and h: "retained s t" "epochs_advance s t" "sound t"
    and a: "a \<in> set (render_auths s)" "b \<in> set (render_auths t)" "ra_id b = ra_id a"
    and c: "authorization_is_current t b n'" "n \<le> n'"
  shows "authorization_is_current s a n"
proof -
  obtain b' where b': "b' \<in> set (render_auths t)" "render_auth_evolves a b'"
    using retained_row(6) [OF h(1) a(1)] by blast
  then have "b' = b" using credential_unique [OF h(3) _ a(2)] a(3) by (simp add: render_auth_evolves_def same_scope_def)
  with b' have e: "same_scope a b" "ra_revoked_at a \<noteq> None \<longrightarrow> ra_revoked_at b = ra_revoked_at a"
    by (simp_all add: render_auth_evolves_def)
  note S = e(1) [unfolded same_scope_def]
  obtain u d r where rows: "user_of s (ra_viewer a) = Some u" "dashboard_of s (ra_dashboard a) = Some d"
    "revision_of s (ra_revision a) = Some r" "r_dashboard r = ra_dashboard a"
    using credential_rows [OF s(1) a(1)] .
  note in_s = lookup_row(1) [OF rows(1)] lookup_row(2) [OF rows(2)] lookup_row(3) [OF rows(3)]
  obtain u' where u': "u' \<in> set (users t)" "user_evolves u u'"
    using retained_row(1) [OF h(1)] in_s(1) by blast
  obtain d' where d': "d' \<in> set (dashboards t)" "dashboard_evolves d d'"
    using retained_row(2) [OF h(1)] in_s(2) by blast
  obtain d2 where d2: "d2 \<in> set (dashboards t)" "epoch_kept (transfer_ids s) d d2"
    using h(2) in_s(2) unfolding epochs_advance_def by (blast dest: evolves_row)
  have "d2 = d'"
    using sound_lookup(2) [OF h(3) d'(1)] sound_lookup(2) [OF h(3) d2(1)] d'(2) d2(2)
    by (simp add: dashboard_evolves_def epoch_kept_def)
  then have ep: "epoch_kept (transfer_ids s) d d'" using d2 by simp
  have look: "user_of t (ra_viewer b) = Some u'" "dashboard_of t (ra_dashboard b) = Some d'"
    using sound_lookup(1) [OF h(3) u'(1)] sound_lookup(2) [OF h(3) d'(1)] u'(2) d'(2) in_s S
    by (simp_all add: user_evolves_def dashboard_evolves_def)
  obtain r' where r': "revision_of t (ra_revision b) = Some r'"
    using c(1) by (auto simp: authorization_is_current_def split: option.split_asm)
  note C = c(1) [unfolded authorization_is_current_def look r' option.case prod.case]
  have base: "ra_revoked_at b = None" "ra_expires_at b > n'" "u_is_active u'"
    "u_auth_version u' = ra_viewer_auth_version a"
    using C S by (auto split: if_split_asm)
  obtain v where v: "v \<in> set (users s)" "u_id v = ra_viewer a" "ra_viewer_auth_version a \<le> u_auth_version v"
    using s(3) a(1) unfolding all_backed_def backed_def by blast
  have "v = u" using sound_lookup(1) [OF s(1) v(1)] v(2) rows(1) by simp
  then have uv: "u_auth_version u = ra_viewer_auth_version a" "u_is_active u"
    using v(3) u'(2) base by (auto simp: user_evolves_def)
  have locked: "r_artifacts_locked r"
  proof -
    obtain x where x: "x \<in> set (revisions s)" "r_id x = ra_revision a" "r_artifacts_locked x"
      using s(3) a(1) unfolding all_backed_def backed_def is_complete_def by blast
    then show ?thesis using sound_lookup(3) [OF s(1) x(1)] rows(3) by simp
  qed
  have kept: "d_owner d' = d_owner d \<and> d_last_transfer d' = d_last_transfer d"
    if "ra_owner_epoch a = d_last_transfer d'"
  proof (rule ccontr)
    assume "\<not> ?thesis"
    then obtain m where m: "d_last_transfer d' = Some m" "m \<notin> transfer_ids s"
      using ep by (auto simp: epoch_kept_def)
    have "opt_in (epoch_scope s) (\<lambda>i. (i, ra_dashboard a)) (ra_owner_epoch a)"
      using s(1) a(1) by (simp add: sound_def linked_def auth_linked_def)
    then show False using m that by (auto simp: transfer_ids_def epoch_scope_def)
  qed
  show ?thesis
  proof (cases "ra_audience a")
    case PREVIEW
    then have P: "ra_viewer_grant a = None" "d_owner d' = ra_viewer a" "ra_owner_epoch a = d_last_transfer d'"
      using C S by (auto split: if_split_asm)
    have "d_state d \<notin> {ARCHIVED, DELETED}" using s(4) in_s(2) by (simp add: unshelved_def)
    then show ?thesis
      unfolding authorization_is_current_def rows option.case prod.case
      using PREVIEW P kept [OF P(3)] base e(2) c(2) S uv locked rows(4) by auto
  next
    case VIEWER
    then have V: "d_published_revision d' = Some (ra_revision a)"
      "Some (d_publication_version d') = ra_publication_version a"
      using C S by (auto split: if_split_asm)
    obtain w x where w: "w \<in> set (dashboards s)" "d_id w = ra_dashboard a"
      "ra_publication_version a = Some x" "x \<le> d_publication_version w"
      using s(3) a(1) VIEWER unfolding all_backed_def backed_def by blast
    have "w = d" using sound_lookup(2) [OF s(1) w(1)] w(2) rows(2) by simp
    then have pub: "d_publication_version d' = d_publication_version d"
      "d_published_revision d = Some (ra_revision a)"
      using w V d'(2) by (auto simp: dashboard_evolves_def)
    have "dashboard_checks d"
      using wf_tableD(2) [of d_id dashboard_checks dashboard_conflict "dashboards s" d] s(1) in_s(2)
      by (simp add: sound_def db_wf_def)
    then have st: "d_state d = PUBLISHED" using pub(2) by (auto simp: dashboard_checks_def)
    show ?thesis
    proof (cases "d_owner d' = ra_viewer a")
      case True
      then have O: "ra_viewer_grant a = None" "ra_owner_epoch a = d_last_transfer d'"
        using VIEWER C S by (auto split: if_split_asm)
      then show ?thesis
        unfolding authorization_is_current_def rows option.case prod.case
        using VIEWER True kept [OF O(2)] base e(2) c(2) S uv locked rows(4) pub V by auto
    next
      case False
      then obtain i where i: "ra_viewer_grant a = Some i" "ra_owner_epoch a = None"
        "user_can_view_published d' u' (grant_of t i) t"
        using VIEWER C S by (auto split: if_split_asm)
      have "opt_in (grant_scope s) (\<lambda>i. (i, ra_dashboard a, ra_viewer a)) (ra_viewer_grant a)"
        using s(1) a(1) by (simp add: sound_def linked_def auth_linked_def)
      then obtain g where g: "g \<in> set (grants s)" "g_id g = i" "g_dashboard g = ra_dashboard a"
        "g_viewer g = ra_viewer a"
        using i(1) by (auto simp: grant_scope_def)
      obtain g' where g': "g' \<in> set (grants t)" "grant_evolves g g'"
        using retained_row(5) [OF h(1) g(1)] by blast
      have "grant_of t i = Some g'"
        using sound_lookup(4) [OF h(3) g'(1)] g'(2) g(2) by (simp add: grant_evolves_def)
      then have "g_revoked_at g' = None"
        using i(3) False S u'(2) in_s(1) by (auto simp: user_can_view_published_def user_evolves_def split: if_split_asm)
      then have gr: "g_revoked_at g = None" using g'(2) by (auto simp: grant_evolves_def)
      have ne: "d_owner d \<noteq> ra_viewer a"
        using s(2) g gr in_s(2) unfolding owner_ungranted_def by metis
      have "grant_of s i = Some g" using sound_lookup(4) [OF s(1) g(1)] g(2) by simp
      then have "user_can_view_published d u (grant_of s i) s"
        using uv st pub g gr ne in_s by (auto simp: user_can_view_published_def)
      then show ?thesis
        unfolding authorization_is_current_def rows option.case prod.case
        using VIEWER i ne base e(2) c(2) S uv locked rows(4) pub V by auto
    qed
  qed
qed

section \<open>The policy\<close>

text \<open>What the content origin promises: the declarative reading of \<open>_authorization_is_current\<close>.\<close>

definition entitled :: "db \<Rightarrow> render_auth \<Rightarrow> time \<Rightarrow> bool" where
  "entitled s a n \<longleftrightarrow>
     ra_revoked_at a = None \<and> n < ra_expires_at a \<and>
     (\<exists>u \<in> set (users s). u_id u = ra_viewer a \<and> u_is_active u \<and>
        u_auth_version u = ra_viewer_auth_version a) \<and>
     (\<exists>d \<in> set (dashboards s). d_id d = ra_dashboard a \<and>
        (ra_audience a = VIEWER \<longrightarrow> d_state d = PUBLISHED \<and>
           d_published_revision d = Some (ra_revision a) \<and>
           ra_publication_version a = Some (d_publication_version d)) \<and>
        (case ra_viewer_grant a of
           None \<Rightarrow> d_owner d = ra_viewer a \<and> ra_owner_epoch a = d_last_transfer d
         | Some i \<Rightarrow> ra_audience a = VIEWER \<and> ra_owner_epoch a = None \<and>
             (\<exists>g \<in> set (grants s). g_id g = i \<and> g_revoked_at g = None)))"

lemma published_state:
  assumes "sound s" "d \<in> set (dashboards s)" "d_published_revision d = Some i"
  shows "d_state d = PUBLISHED"
  using wf_tableD(2) [of d_id dashboard_checks dashboard_conflict "dashboards s" d] assms
  by (auto simp: sound_def db_wf_def dashboard_checks_def)

lemma backed_complete:
  assumes "sound s" "all_backed s" "a \<in> set (render_auths s)" "revision_of s (ra_revision a) = Some r"
  shows "r_artifacts_locked r"
proof -
  obtain x where x: "x \<in> set (revisions s)" "r_id x = ra_revision a" "r_artifacts_locked x"
    using assms(2,3) unfolding all_backed_def backed_def is_complete_def by blast
  then show ?thesis using sound_lookup(3) [OF assms(1) x(1)] assms(4) by simp
qed

lemma granted_rows:
  assumes "sound s" "owner_ungranted s" "a \<in> set (render_auths s)" "ra_viewer_grant a = Some i"
    "dashboard_of s (ra_dashboard a) = Some d"
  obtains g where "grant_of s i = Some g" "g_dashboard g = ra_dashboard a" "g_viewer g = ra_viewer a"
    "g_revoked_at g = None \<Longrightarrow> d_owner d \<noteq> ra_viewer a"
proof -
  have "opt_in (grant_scope s) (\<lambda>i. (i, ra_dashboard a, ra_viewer a)) (ra_viewer_grant a)"
    using assms(1,3) by (simp add: sound_def linked_def auth_linked_def)
  then obtain g where g: "g \<in> set (grants s)" "g_id g = i" "g_dashboard g = ra_dashboard a"
    "g_viewer g = ra_viewer a"
    using assms(4) by (auto simp: grant_scope_def)
  have "grant_of s i = Some g" using sound_lookup(4) [OF assms(1) g(1)] g(2) by simp
  moreover have "d_owner d \<noteq> ra_viewer a" if "g_revoked_at g = None"
    using assms(2) g that lookup_row(2) [OF assms(5)] unfolding owner_ungranted_def by metis
  ultimately show thesis using g by (intro that)
qed

lemma entitled_current:
  assumes s: "sound s" "owner_ungranted s" "all_backed s" "unshelved s" and a: "a \<in> set (render_auths s)"
  shows "authorization_is_current s a n = entitled s a n"
proof -
  obtain u d r where rows: "user_of s (ra_viewer a) = Some u" "dashboard_of s (ra_dashboard a) = Some d"
    "revision_of s (ra_revision a) = Some r" "r_dashboard r = ra_dashboard a"
    using credential_rows [OF s(1) a] .
  note in_s = lookup_row(1) [OF rows(1)] lookup_row(2) [OF rows(2)]
  have u: "x = u" if "x \<in> set (users s)" "u_id x = ra_viewer a" for x
    using sound_lookup(1) [OF s(1) that(1)] that(2) rows(1) by simp
  have d: "x = d" if "x \<in> set (dashboards s)" "d_id x = ra_dashboard a" for x
    using sound_lookup(2) [OF s(1) that(1)] that(2) rows(2) by simp
  have e: "entitled s a n \<longleftrightarrow>
     ra_revoked_at a = None \<and> n < ra_expires_at a \<and> u_is_active u \<and>
     u_auth_version u = ra_viewer_auth_version a \<and>
     (ra_audience a = VIEWER \<longrightarrow> d_state d = PUBLISHED \<and>
        d_published_revision d = Some (ra_revision a) \<and>
        ra_publication_version a = Some (d_publication_version d)) \<and>
     (case ra_viewer_grant a of
        None \<Rightarrow> d_owner d = ra_viewer a \<and> ra_owner_epoch a = d_last_transfer d
      | Some i \<Rightarrow> ra_audience a = VIEWER \<and> ra_owner_epoch a = None \<and>
          (\<exists>g \<in> set (grants s). g_id g = i \<and> g_revoked_at g = None))"
    unfolding entitled_def using u d in_s by blast
  have locked: "r_artifacts_locked r" using backed_complete [OF s(1,3) a rows(3)] .
  have open': "d_state d \<noteq> ARCHIVED" "d_state d \<noteq> DELETED" using s(4) in_s(2) by (auto simp: unshelved_def)
  have st: "d_published_revision d = Some i \<Longrightarrow> d_state d = PUBLISHED" for i
    using published_state [OF s(1)] in_s(2) by blast
  show ?thesis
  proof (cases "ra_viewer_grant a")
    case None
    then show ?thesis
      unfolding e authorization_is_current_def rows option.case prod.case
      using locked open' st rows(4) by (cases "ra_audience a") auto
  next
    case (Some i)
    obtain g where g: "grant_of s i = Some g" "g_dashboard g = ra_dashboard a" "g_viewer g = ra_viewer a"
      "g_revoked_at g = None \<Longrightarrow> d_owner d \<noteq> ra_viewer a"
      using granted_rows [OF s(1,2) a Some rows(2)] by blast
    have "(\<exists>h \<in> set (grants s). g_id h = i \<and> g_revoked_at h = None) \<longleftrightarrow> g_revoked_at g = None"
      using lookup_row(4) [OF g(1)] sound_lookup(4) [OF s(1)] g(1) by (metis option.inject)
    then show ?thesis
      unfolding e authorization_is_current_def rows option.case prod.case
      using locked open' st rows(4) g Some in_s
      by (cases "ra_audience a") (auto simp: user_can_view_published_def)
  qed
qed

section \<open>The resolver\<close>

lemma resolve_cases:
  assumes "sound s"
  shows "resolve_render_authorization sha256 tok aud (Some n) s = Inr (w, t) \<longleftrightarrow>
     t = s \<and> token_pattern tok \<and> (\<exists>a \<in> set (render_auths s). ra_token_digest a = sha256 tok \<and>
       audience_value (ra_audience a) = aud \<and> authorization_is_current s a n \<and> rr_authorization w = a \<and>
       dashboard_of s (ra_dashboard a) = Some (rr_dashboard w) \<and>
       revision_of s (ra_revision a) = Some (rr_revision w) \<and> user_of s (ra_viewer a) = Some (rr_viewer w))"
    (is "?L \<longleftrightarrow> ?R")
    and "resolve_render_authorization sha256 tok aud (Some n) s = Inl e \<Longrightarrow> e = RenderAuthorizationDenied"
proof -
  let ?P = "\<lambda>a. ra_token_digest a = sha256 tok \<and> audience_value (ra_audience a) = aud \<and> joined s a"
  let ?row = "first_row (sort_key ra_id (filter ?P (render_auths s)))"
  have run: "resolve_render_authorization sha256 tok aud (Some n) s =
    (if \<not> token_pattern tok then Inl RenderAuthorizationDenied
     else case ?row of None \<Rightarrow> Inl RenderAuthorizationDenied
      | Some a \<Rightarrow> if \<not> authorization_is_current s a n then Inl RenderAuthorizationDenied
          else (case (dashboard_of s (ra_dashboard a), revision_of s (ra_revision a), user_of s (ra_viewer a)) of
             (Some dashboard, Some revision, Some viewer) \<Rightarrow>
               Inr (\<lparr>rr_authorization = a, rr_dashboard = dashboard, rr_revision = revision, rr_viewer = viewer\<rparr>, s)
           | _ \<Rightarrow> Inl DoesNotExist))"
    by (simp add: resolve_render_authorization_def now_or_def txn_run del: first_row_None split: option.split)
  have joined: "joined s a" if "a \<in> set (render_auths s)" for a
    using credential_rows [OF assms that] by (metis joined_def fk_def option.distinct(1))
  have row: "?row = Some a \<longleftrightarrow> a \<in> set (render_auths s) \<and> ra_token_digest a = sha256 tok \<and>
      audience_value (ra_audience a) = aud" for a
  proof -
    have f: "filter ?P (render_auths s) = [a]" if "a \<in> set (render_auths s)" "?P a" for a
    proof (rule filter_unique)
      show "distinct (render_auths s)"
        using wf_tableD(1) [of ra_id render_auth_checks render_auth_conflict "render_auths s"] assms
        by (simp add: sound_def db_wf_def distinct_map)
      show "\<forall>x \<in> set (render_auths s). ?P x \<longrightarrow> x = a"
        using digest_unique [OF assms _ that(1)] that(2) by metis
    qed (rule that)+
    show ?thesis
    proof (cases "filter ?P (render_auths s)")
      case Nil
      then show ?thesis using joined by (auto simp: first_row_def filter_empty_conv)
    next
      case (Cons b bs)
      then have "b \<in> set (render_auths s)" "?P b" by (auto simp: filter_eq_Cons_iff)
      with f have "filter ?P (render_auths s) = [b]" by blast
      then show ?thesis
        using \<open>?P b\<close> \<open>b \<in> _\<close> digest_unique [OF assms] by (auto simp: first_row_def)
    qed
  qed
  show "?L \<longleftrightarrow> ?R"
  proof
    assume ?L
    then obtain a where a: "?row = Some a" "authorization_is_current s a n" "token_pattern tok"
      using run by (auto simp del: first_row_None split: if_split_asm option.split_asm)
    have "t = s \<and> rr_authorization w = a \<and> dashboard_of s (ra_dashboard a) = Some (rr_dashboard w) \<and>
      revision_of s (ra_revision a) = Some (rr_revision w) \<and> user_of s (ra_viewer a) = Some (rr_viewer w)"
      using \<open>?L\<close> unfolding run a(1) option.case by (auto simp: a(2,3) split: option.split_asm)
    then show ?R using a(2,3) iffD1 [OF row a(1)] by blast
  next
    assume ?R
    then obtain a where a: "?row = Some a" "authorization_is_current s a n" "token_pattern tok"
      "rr_authorization w = a" "dashboard_of s (ra_dashboard a) = Some (rr_dashboard w)"
      "revision_of s (ra_revision a) = Some (rr_revision w)" "user_of s (ra_viewer a) = Some (rr_viewer w)"
      "t = s" using row by blast
    then show ?L unfolding run by simp
  qed
  show "e = RenderAuthorizationDenied" if denied: "resolve_render_authorization sha256 tok aud (Some n) s = Inl e"
  proof (rule ccontr)
    assume ne: "e \<noteq> RenderAuthorizationDenied"
    then obtain a where a: "?row = Some a"
      using denied unfolding run by (auto simp del: first_row_None split: if_split_asm option.split_asm)
    then have "a \<in> set (render_auths s)" using row by blast
    then obtain u d r where "user_of s (ra_viewer a) = Some u" "dashboard_of s (ra_dashboard a) = Some d"
      "revision_of s (ra_revision a) = Some r"
      using credential_rows [OF assms] by blast
    then show False
      using denied ne unfolding run a option.case by (auto split: if_split_asm)
  qed
qed

section \<open>Capture leaves entitlement alone\<close>

definition quiet :: "db \<Rightarrow> db \<Rightarrow> bool" where
  "quiet s t \<longleftrightarrow> users t = users s \<and> dashboards t = dashboards s \<and> revisions t = revisions s \<and>
     grants t = grants s \<and> transfers t = transfers s \<and>
     map (ra_captured_at_update (\<lambda>_. None)) (render_auths t)
       = map (ra_captured_at_update (\<lambda>_. None)) (render_auths s)"

interpretation quieting: effect_order quiet
  by unfold_locales (simp_all add: quiet_def)

lemma quiet_writes:
  "obeys quiet (mark_captured i at)" "obeys quiet (open_save adding fs e)"
  "obeys quiet (viewer_state_save adding fs vs)"
  by (auto simp: obeys_def quiet_def mark_captured_def writeT_eq_Inr
      dest!: side_table_frames viewer_state_frame)

lemma capture_quiet: "obeys quiet (capture_authorized_open i)"
  unfolding capture_authorized_open_def advance_viewer_state_def Let_def
  by (intro obeys_intros quieting.txn_orders quiet_writes)

lemma entitled_quiet:
  assumes "quiet s t" "a \<in> set (render_auths s)"
  shows "\<exists>b \<in> set (render_auths t). ra_captured_at_update (\<lambda>_. None) b = ra_captured_at_update (\<lambda>_. None) a \<and>
     (\<forall>n. entitled t b n = entitled s a n)"
proof -
  have "ra_captured_at_update (\<lambda>_. None) a \<in> ra_captured_at_update (\<lambda>_. None) ` set (render_auths t)"
    using assms unfolding quiet_def by (metis list.set_map imageI)
  then obtain b where b: "b \<in> set (render_auths t)"
    "ra_captured_at_update (\<lambda>_. None) b = ra_captured_at_update (\<lambda>_. None) a" by auto
  have e: "entitled t x n = entitled t (ra_captured_at_update (\<lambda>_. None) x) n" for x n
    by (simp add: entitled_def cong: option.case_cong)
  have "entitled t b n = entitled s a n" for n
    using assms(1) unfolding e [of b] b(2) by (simp add: entitled_def quiet_def cong: option.case_cong)
  then show ?thesis using b by blast
qed

text \<open>What \<open>create_authorization\<close> adds, when its arguments agree with the policy.\<close>

lemma created_row:
  assumes "create_authorization sha256 k dash rv viewer g audience expires s = Inr ((c, a), t)"
  shows "a \<in> set (render_auths t)" "ra_token_digest a = sha256 (rc_token c)" "ra_audience a = audience"
    "ra_viewer a = u_id viewer" "ra_viewer_auth_version a = u_auth_version viewer"
    "ra_dashboard a = d_id dash" "ra_revision a = r_id rv" "ra_viewer_grant a = map_option g_id g"
    "ra_owner_epoch a = (if g = None then d_last_transfer dash else None)"
    "ra_publication_version a = (if audience = VIEWER then Some (d_publication_version dash) else None)"
    "ra_expires_at a = expires" "ra_revoked_at a = None" "rc_expires_at c = expires"
    "users t = users s" "dashboards t = dashboards s" "grants t = grants s" "revisions t = revisions s"
proof -
  obtain i m where c: "c = \<lparr>rc_token = secrets s (secret_draws s + m), rc_audience = audience, rc_expires_at = expires\<rparr>"
    and w: "render_auth_save True None
       (authorization_row (sha256 (rc_token c)) i dash rv viewer g audience expires)
       (s\<lparr>secret_draws := secret_draws s + Suc m, uuid_draws := uuid_draws s + Suc m\<rparr>) = Inr (a, t)"
    using create_authorization_Inr [OF assms] by blast
  obtain now where a: "a = (authorization_row (sha256 (rc_token c)) i dash rv viewer g audience expires)\<lparr>ra_created_at := now\<rparr>"
    and t: "t = s\<lparr>secret_draws := secret_draws s + Suc m, uuid_draws := uuid_draws s + Suc m,
      render_auths := render_auths s @ [a], ticks := Suc (ticks s)\<rparr>"
    using render_auth_save_add_Inr [OF w] by auto
  show "a \<in> set (render_auths t)" "ra_token_digest a = sha256 (rc_token c)" "ra_audience a = audience"
    "ra_viewer a = u_id viewer" "ra_viewer_auth_version a = u_auth_version viewer"
    "ra_dashboard a = d_id dash" "ra_revision a = r_id rv" "ra_viewer_grant a = map_option g_id g"
    "ra_owner_epoch a = (if g = None then d_last_transfer dash else None)"
    "ra_publication_version a = (if audience = VIEWER then Some (d_publication_version dash) else None)"
    "ra_expires_at a = expires" "ra_revoked_at a = None" "rc_expires_at c = expires"
    "users t = users s" "dashboards t = dashboards s" "grants t = grants s" "revisions t = revisions s"
    by (simp_all add: a t c authorization_row_def)
qed

lemma issued_view_entitled:
  assumes "issue_published_view sha256 ttl d v (Some now) s = Inr (c, t)" "sound s"
  shows "\<exists>b \<in> set (render_auths t). ra_token_digest b = sha256 (rc_token c) \<and> ra_audience b = VIEWER \<and>
     ra_dashboard b = d \<and> ra_viewer b = v \<and> ra_expires_at b = now + seconds ttl \<and>
     (\<exists>x \<in> set (dashboards t). d_id x = d \<and> d_published_revision x = Some (ra_revision b)) \<and>
     (\<forall>n. entitled t b n \<longleftrightarrow> n < now + seconds ttl)"
proof -
  obtain at k dash viewer revision g a m where
    n: "now_or (Some now) s = Inr (at, s\<lparr>ticks := k\<rparr>)"
    and d: "dash \<in> set (dashboards s)" "d_id dash = d" "d_state dash = PUBLISHED"
      "d_published_revision dash = Some (r_id revision)"
    and v: "viewer \<in> set (users s)" "u_id viewer = v" "u_is_active viewer"
    and g: "g = (if d_owner dash \<noteq> v then active_viewer_grant d v s else None)"
    and ok: "user_can_view_published dash viewer g s"
    and c: "create_authorization sha256 token_attempts dash revision viewer g VIEWER (at + seconds ttl)
       (s\<lparr>ticks := k\<rparr>) = Inr ((c, a), m)"
    and o: "capture_authorized_open (ra_id a) m = Inr (True, t)"
    using issue_published_view_Inr [OF assms(1)] by metis
  have at: "at = now" using now_or_instant [OF n] by simp
  note R = created_row [OF c]
  have gr: "(case map_option g_id g of None \<Rightarrow> d_owner dash = v
     | Some i \<Rightarrow> \<exists>h \<in> set (grants s). g_id h = i \<and> g_revoked_at h = None)"
  proof (cases "d_owner dash = v")
    case False
    then have "g \<noteq> None"
      using ok g d v active_viewer_grant_None [of d v s]
      by (cases g) (auto simp: user_can_view_published_def split: if_split_asm)
    then obtain h where "g = Some h" "active_viewer_grant d v s = Some h" using g False by auto
    then show ?thesis using active_viewer_grant_Some [of d v s h] by (auto simp: active_scope_def)
  qed (simp add: g)
  have e: "entitled m a n \<longleftrightarrow> n < now + seconds ttl" for n
  proof -
    have u: "\<exists>u \<in> set (users m). u_id u = ra_viewer a \<and> u_is_active u \<and> u_auth_version u = ra_viewer_auth_version a"
      using v R by auto
    have "dash \<in> set (dashboards m)" "d_id dash = ra_dashboard a" using d R by simp_all
    moreover have "(case ra_viewer_grant a of
           None \<Rightarrow> d_owner dash = ra_viewer a \<and> ra_owner_epoch a = d_last_transfer dash
         | Some i \<Rightarrow> ra_audience a = VIEWER \<and> ra_owner_epoch a = None \<and>
             (\<exists>g \<in> set (grants m). g_id g = i \<and> g_revoked_at g = None))"
      using gr R v by (cases g) auto
    ultimately show ?thesis
      unfolding entitled_def using u R d at by (auto intro!: bexI [of _ dash])
  qed
  obtain b where b: "b \<in> set (render_auths t)"
    "ra_captured_at_update (\<lambda>_. None) b = ra_captured_at_update (\<lambda>_. None) a"
    "\<forall>n. entitled t b n = entitled m a n"
    using entitled_quiet [OF obeysD [OF capture_quiet o] R(1)] by blast
  have same: "ra_token_digest b = ra_token_digest a" "ra_audience b = ra_audience a"
    "ra_dashboard b = ra_dashboard a" "ra_viewer b = ra_viewer a" "ra_expires_at b = ra_expires_at a"
    "ra_revision b = ra_revision a"
    using b(2) by (cases a; cases b; simp)+
  have "dashboards t = dashboards s"
    using obeysD [OF capture_quiet o] R(15) by (simp add: quiet_def)
  then have "dash \<in> set (dashboards t)" using d by simp
  then show ?thesis using b e same R d v at by (intro bexI [OF _ b(1)]) auto
qed

section \<open>The properties\<close>

lemma resolves_iff:
  assumes "reachable cfg s"
  shows "resolve_render_authorization sha256 tok aud (Some n) s = Inr (w, t) \<longleftrightarrow>
     t = s \<and> token_pattern tok \<and> rr_authorization w \<in> set (render_auths s) \<and>
     ra_token_digest (rr_authorization w) = sha256 tok \<and>
     audience_value (ra_audience (rr_authorization w)) = aud \<and> entitled s (rr_authorization w) n \<and>
     dashboard_of s (ra_dashboard (rr_authorization w)) = Some (rr_dashboard w) \<and>
     revision_of s (ra_revision (rr_authorization w)) = Some (rr_revision w) \<and>
     user_of s (ra_viewer (rr_authorization w)) = Some (rr_viewer w)"
  unfolding resolve_cases(1) [OF reachable_sound [OF assms]]
  using entitled_current [OF reachable_sound [OF assms] reachable_invariants(1) [OF assms]
      reachable_backed [OF assms]] by blast

text \<open>C2: In every reachable state the content origin resolves a token exactly when it has the token
  grammar and some stored credential of that audience has its digest and satisfies the declarative
  policy \<open>entitled\<close>; the resolution changes nothing, and returns that credential with the rows it
  names. The checks of the code that \<open>entitled\<close> does not mention (complete revision, dashboard of
  the revision, archived state, scope of the grant) are implied by the invariants.\<close>

theorem resolves_iff_entitled:
  assumes "reachable cfg s"
  shows "resolve_render_authorization sha256 tok aud (Some n) s = Inr (w, t) \<longleftrightarrow>
     t = s \<and> token_pattern tok \<and> rr_authorization w \<in> set (render_auths s) \<and>
     ra_token_digest (rr_authorization w) = sha256 tok \<and>
     audience_value (ra_audience (rr_authorization w)) = aud \<and> entitled s (rr_authorization w) n \<and>
     dashboard_of s (ra_dashboard (rr_authorization w)) = Some (rr_dashboard w) \<and>
     revision_of s (ra_revision (rr_authorization w)) = Some (rr_revision w) \<and>
     user_of s (ra_viewer (rr_authorization w)) = Some (rr_viewer w)"
  by (rule resolves_iff [OF assms])

theorem resolves_iff_entitled_witness:
  "\<exists>w. resolve_render_authorization sample_digest sample_token ''viewer'' (Some 30000000) viewing = Inr (w, viewing)
     \<and> entitled viewing (rr_authorization w) 30000000"
proof -
  have "satisfies (resolve_render_authorization sample_digest sample_token ''viewer'' (Some 30000000)) viewing (\<lambda>w t. True)"
    by code_simp
  then obtain w t where r: "resolve_render_authorization sample_digest sample_token ''viewer'' (Some 30000000) viewing = Inr (w, t)"
    using satisfies_run by blast
  note e = iffD1 [OF resolves_iff_entitled [OF reachable_viewing] r]
  show ?thesis
  proof (intro exI conjI)
    show "resolve_render_authorization sample_digest sample_token ''viewer'' (Some 30000000) viewing = Inr (w, viewing)"
      using r conjunct1 [OF e] by (rule subst [rotated])
    show "entitled viewing (rr_authorization w) 30000000" using e by (elim conjE)
  qed
qed

text \<open>C1: Denied once is denied for ever. When a token of a stored credential does not resolve at some
  moment of a reachable state, for whatever reason, then it resolves in no later state at no later
  moment: no sequence of services revives a credential.\<close>

theorem denied_for_ever:
  assumes "reachable cfg s" "a \<in> set (render_auths s)" "ra_token_digest a = sha256 tok"
    "audience_value (ra_audience a) = aud"
    "resolve_render_authorization sha256 tok aud (Some n) s = Inl e" "history cfg s t" "n \<le> n'"
  shows "resolve_render_authorization sha256 tok aud' (Some n') t = Inl RenderAuthorizationDenied"
proof -
  note s = reachable_sound [OF assms(1)]
  have t: "reachable cfg t" using reachable_history [OF assms(1,6)] .
  show ?thesis
  proof (cases "resolve_render_authorization sha256 tok aud' (Some n') t")
    case (Inl e')
    then show ?thesis using resolve_cases(2) [OF reachable_sound [OF t] Inl] by simp
  next
    case (Inr r)
    obtain w u where r: "r = (w, u)" by (cases r)
    obtain b where b: "b \<in> set (render_auths t)" "ra_token_digest b = sha256 tok" "token_pattern tok"
      "authorization_is_current t b n'"
      using Inr unfolding r resolve_cases(1) [OF reachable_sound [OF t]] by blast
    obtain a' where a': "a' \<in> set (render_auths t)" "render_auth_evolves a a'"
      using retained_row(6) [OF history_retained(1) [OF assms(1,6)] assms(2)] by blast
    then have "b = a'"
      using digest_unique [OF reachable_sound [OF t] b(1) a'(1)] b(2) assms(3)
      by (simp add: render_auth_evolves_def same_scope_def)
    then have id: "ra_id b = ra_id a" using a'(2) by (simp add: render_auth_evolves_def same_scope_def)
    have c: "authorization_is_current s a n"
      using history_retained [OF assms(1,6)] epochs.reachable_ordered [OF assms(1,6)]
        reachable_invariants [OF assms(1)] reachable_backed [OF assms(1)] assms(2,7) b id
      by (intro current_before [of s t a b n' n]) auto
    obtain v d q where "dashboard_of s (ra_dashboard a) = Some d" "revision_of s (ra_revision a) = Some q"
      "user_of s (ra_viewer a) = Some v"
      using credential_rows [OF s assms(2)] by blast
    then have "resolve_render_authorization sha256 tok aud (Some n) s =
        Inr (\<lparr>rr_authorization = a, rr_dashboard = d, rr_revision = q, rr_viewer = v\<rparr>, s)"
      unfolding resolve_cases(1) [OF s] using assms(2-4) b(3) c by auto
    then show ?thesis using assms(5) by simp
  qed
qed

theorem denied_for_ever_witness:
  "resolve_render_authorization sample_digest sample_token ''viewer'' (Some 318000000) viewing
     = Inl RenderAuthorizationDenied \<and>
   resolve_render_authorization sample_digest sample_token ''viewer'' (Some 400000000) viewing
     = Inl RenderAuthorizationDenied"
proof -
  have d: "resolve_render_authorization sample_digest sample_token ''viewer'' (Some 318000000) viewing
     = Inl RenderAuthorizationDenied" by (rule fails_run) code_simp
  show ?thesis
  proof
    show "resolve_render_authorization sample_digest sample_token ''viewer'' (Some 400000000) viewing
     = Inl RenderAuthorizationDenied"
      by (rule denied_for_ever [OF reachable_viewing _ _ _ d history_refl, where a = viewer_credential])
        (simp_all add: viewing_def, simp_all add: viewer_credential_def audience_value_def)
  qed (rule d)
qed

text \<open>C3: The credential \<open>issue_published_view\<close> returns resolves, from the moment of the issue, exactly
  until its expiry, and to the requested dashboard, its published revision and the requested
  viewer. (That the drawn token has the grammar is what \<open>secrets.token_urlsafe\<close> guarantees.)\<close>

theorem issued_view_resolves:
  assumes "reachable cfg s" "issue_published_view (cf_sha256 cfg) (cf_ttl cfg) d v (Some now) s = Inr (c, t)"
    "token_pattern (rc_token c)"
  shows "if n < now + seconds (cf_ttl cfg)
    then \<exists>w. resolve_render_authorization (cf_sha256 cfg) (rc_token c) ''viewer'' (Some n) t = Inr (w, t) \<and>
       d_id (rr_dashboard w) = d \<and> u_id (rr_viewer w) = v \<and>
       d_published_revision (rr_dashboard w) = Some (r_id (rr_revision w))
    else resolve_render_authorization (cf_sha256 cfg) (rc_token c) ''viewer'' (Some n) t = Inl RenderAuthorizationDenied"
proof -
  let ?resolve = "resolve_render_authorization (cf_sha256 cfg) (rc_token c) ''viewer'' (Some n) t"
  have t: "reachable cfg t" using reachable_step [OF assms(1) view_issued [OF assms(2)]] .
  note T = reachable_sound [OF t]
  obtain b x where b: "b \<in> set (render_auths t)" "ra_token_digest b = cf_sha256 cfg (rc_token c)"
    "ra_audience b = VIEWER" "ra_dashboard b = d" "ra_viewer b = v"
    and x: "x \<in> set (dashboards t)" "d_id x = d" "d_published_revision x = Some (ra_revision b)"
    and e: "\<And>n. entitled t b n \<longleftrightarrow> n < now + seconds (cf_ttl cfg)"
    using issued_view_entitled [OF assms(2) reachable_sound [OF assms(1)]] by blast
  have only: "rr_authorization w = b" if "rr_authorization w \<in> set (render_auths t)"
    "ra_token_digest (rr_authorization w) = cf_sha256 cfg (rc_token c)" for w
    using digest_unique [OF T that(1) b(1)] that(2) b(2) by simp
  show ?thesis
  proof (cases "n < now + seconds (cf_ttl cfg)")
    case True
    obtain u y r where rows: "user_of t v = Some u" "dashboard_of t d = Some y"
      "revision_of t (ra_revision b) = Some r"
      using credential_rows [OF T b(1)] b(4,5) by metis
    have "y = x" using sound_lookup(2) [OF T x(1)] x(2) rows(2) by simp
    let ?w = "\<lparr>rr_authorization = b, rr_dashboard = y, rr_revision = r, rr_viewer = u\<rparr>"
    have "?resolve = Inr (?w, t)"
      unfolding resolves_iff [OF t] using True e b rows assms(3) by (simp add: audience_value_def)
    then show ?thesis
      using True x rows lookup_row(1) [OF rows(1)] lookup_row(3) [OF rows(3)] \<open>y = x\<close> by auto
  next
    case False
    have "?resolve \<noteq> Inr (w, u)" for w u
      unfolding resolves_iff [OF t] using False e only by metis
    then show ?thesis using False resolve_cases(2) [OF T] by (cases ?resolve) auto
  qed
qed

theorem issued_view_resolves_witness:
  "\<exists>c t. issue_published_view sample_digest 300 4 3 (Some 20000000) granted = Inr (c, t) \<and>
     (\<exists>w. resolve_render_authorization sample_digest (rc_token c) ''viewer'' (Some 319999999) t = Inr (w, t)) \<and>
     resolve_render_authorization sample_digest (rc_token c) ''viewer'' (Some 320000000) t = Inl RenderAuthorizationDenied"
proof -
  have "satisfies (issue_published_view sample_digest 300 4 3 (Some 20000000)) granted
     (\<lambda>c t. token_pattern (rc_token c))" by code_simp
  then obtain c t where r: "issue_published_view sample_digest 300 4 3 (Some 20000000) granted = Inr (c, t)"
    "token_pattern (rc_token c)" using satisfies_run by blast
  have s: "seconds 300 = 300000000" by code_simp
  from issued_view_resolves [OF reachable_granted, simplified, OF r, of 319999999]
    issued_view_resolves [OF reachable_granted, simplified, OF r, of 320000000]
  show ?thesis using r(1) by (simp add: s) blast
qed

end
