(* ===== verification/Withdrawal.thy ===== *)
theory Withdrawal
  imports Resolution
begin

text \<open>
  What each service that withdraws access writes, and that its effect on the credentials issued
  before is immediate and final: whoever held a credential through the revoked grant, the replaced
  publication, the disabled or reset account, or the former owner is refused in every later state.
\<close>

section \<open>Refusal\<close>

text \<open>No token whose digest the credential stores resolves, at any time and for any audience.\<close>

definition refused :: "(text \<Rightarrow> text) \<Rightarrow> db \<Rightarrow> render_auth \<Rightarrow> bool" where
  "refused sha256 s a \<longleftrightarrow> (\<forall>tok aud n. sha256 tok = ra_token_digest a \<longrightarrow>
     resolve_render_authorization sha256 tok aud (Some n) s = Inl RenderAuthorizationDenied)"

lemma refusedI:
  assumes s: "sound s" and a: "a \<in> set (render_auths s)" and n: "\<And>n. \<not> authorization_is_current s a n"
  shows "refused sha256 s a"
  unfolding refused_def
proof (intro allI impI)
  fix tok aud n assume d: "sha256 tok = ra_token_digest a"
  show "resolve_render_authorization sha256 tok aud (Some n) s = Inl RenderAuthorizationDenied"
  proof (cases "resolve_render_authorization sha256 tok aud (Some n) s")
    case (Inl e)
    then show ?thesis using resolve_cases(2) [OF s Inl] by simp
  next
    case (Inr r)
    obtain w t where r: "r = (w, t)" by (cases r)
    obtain b where b: "b \<in> set (render_auths s)" "ra_token_digest b = sha256 tok" "authorization_is_current s b n"
      using Inr unfolding r resolve_cases(1) [OF s] by blast
    have "b = a" using digest_unique [OF s b(1) a] b(2) d by simp
    then show ?thesis using b(3) n by blast
  qed
qed

text \<open>A credential no time makes current in a reachable state is refused ever after.\<close>

lemma refused_ever_after:
  assumes s: "reachable cfg s" and h: "history cfg s t"
    and a: "a \<in> set (render_auths s)" "\<And>n. \<not> authorization_is_current s a n"
    and b: "b \<in> set (render_auths t)" "ra_id b = ra_id a"
  shows "refused sha256 t b"
proof (rule refusedI)
  show "sound t" using reachable_sound [OF reachable_history [OF s h]] .
  show "b \<in> set (render_auths t)" by (rule b(1))
  show "\<not> authorization_is_current t b n" for n
  proof
    assume "authorization_is_current t b n"
    then have "authorization_is_current s a n"
      using history_retained [OF s h] epochs.reachable_ordered [OF s h] reachable_invariants [OF s]
        reachable_backed [OF s] a(1) b by (intro current_before [of s t a b n n]) auto
    with a(2) show False by blast
  qed
qed

section \<open>Publication\<close>

text \<open>What a save of a dashboard with the publication columns stores.\<close>

lemma unpublish_Inr:
  assumes "unpublish_dashboard d a s = Inr (saved, t)"
  obtains dashboard actor m e where
    "filter (\<lambda>x. d_id x = d) (dashboards s) = [dashboard]" "d_state dashboard = PUBLISHED"
    "d_published_revision dashboard \<noteq> None"
    "actor \<in> set (users s)" "u_id actor = a" "u_is_active actor" "d_owner dashboard = a"
    "dashboard_save False (Some [''state'', ''published_revision'', ''updated_at''])
       (dashboard\<lparr>d_state := UNPUBLISHED, d_published_revision := None\<rparr>) s = Inr (saved, m)"
    "audit_create ''dashboard.unpublished'' (Some a) (Some (d_id saved))
       (d_published_revision dashboard) None
       [(''publication_version'', MInt (d_publication_version saved))] m = Inr (e, t)"
proof -
  obtain dashboard actor where l: "lock_current_owner d a s = Inr (dashboard, actor)"
    and st: "d_state dashboard = PUBLISHED" "d_published_revision dashboard \<noteq> None"
    using assms unfolding unpublish_dashboard_def
    by (auto simp: bindT_eq_Inr queryT_eq_Inr split: prod.split_asm if_split_asm)
  note L = lock_current_owner_Inr [OF l]
  obtain m e where
    "dashboard_save False (Some [''state'', ''published_revision'', ''updated_at''])
       (dashboard\<lparr>d_state := UNPUBLISHED, d_published_revision := None\<rparr>) s = Inr (saved, m)"
    "audit_create ''dashboard.unpublished'' (Some (u_id actor)) (Some (d_id saved))
       (d_published_revision dashboard) None
       [(''publication_version'', MInt (d_publication_version saved))] m = Inr (e, t)"
    using assms l st unfolding unpublish_dashboard_def
    by (auto simp: bindT_eq_Inr queryT_eq_Inr returnT_eq_Inr)
  then show thesis using L st by (intro that) auto
qed

text \<open>The state after a saved dashboard, for a column set and edit that leave the version to the caller.\<close>

lemma saved_dashboard:
  assumes "dashboard_save False (Some fs) d s = Inr (v, t)"
    "filter (\<lambda>x. d_id x = d_id d) (dashboards s) = [original]"
    "\<not> advances_publication original d"
  shows "\<exists>now k. v = dashboard_columns (Some fs) now original d \<and> d_id v = d_id d \<and>
    t = s\<lparr>dashboards := put_row d_id v (dashboards s), ticks := k\<rparr> \<and>
    filter (\<lambda>x. d_id x = d_id d) (dashboards t) = [v] \<and> original \<in> set (dashboards s) \<and>
    d_id original = d_id d"
proof -
  obtain now k where v: "v = dashboard_columns (Some fs) now original d"
    and t: "t = s\<lparr>dashboards := put_row d_id v (dashboards s), ticks := k\<rparr>"
    using dashboard_save_change_Inr [OF assms(1)] assms(2,3) by (auto simp: advanced_dashboard_def)
  have id: "d_id v = d_id d" using filter_singleD [OF assms(2)] by (simp add: v dashboard_columns_def)
  have "filter (\<lambda>x. d_id x = d_id d) (put_row d_id v (dashboards s)) = [v]"
    using assms(2) by (simp add: filter_put_row [where key = d_id, OF id])
  then show ?thesis using v t id filter_singleD [OF assms(2)] by auto
qed

lemma publish_effect:
  assumes "publish_dashboard_revision uc d a i note as_of interval now s = Inr (saved, t)"
  shows "\<exists>old k n e. filter (\<lambda>x. d_id x = d) (dashboards s) = [old] \<and> d_owner old = a \<and>
     filter (\<lambda>x. d_id x = d) (dashboards t) = [saved] \<and> d_state saved = PUBLISHED \<and>
     d_published_revision saved = Some i \<and>
     d_publication_version saved = d_publication_version old + 1 \<and>
     d_owner saved = d_owner old \<and> d_last_transfer saved = d_last_transfer old \<and>
     t = s\<lparr>dashboards := put_row d_id saved (dashboards s), audit_events := audit_events s @ [e],
           ticks := k, serial := n\<rparr>"
  using assms
proof (rule publish_Inr)
  fix text_note at secs k dashboard actor revision m e
  let ?d = "published_dashboard dashboard revision at text_note as_of secs"
  assume f: "filter (\<lambda>x. d_id x = d) (dashboards s) = [dashboard]" and o: "d_owner dashboard = a"
    and r: "r_id revision = i"
    and w: "dashboard_save False (Some publish_columns) ?d (s\<lparr>ticks := k\<rparr>) = Inr (saved, m)"
    and e: "audit_create ''dashboard.published'' (Some a) (Some (d_id saved)) (Some i) None
       [(''publication_version'', MInt (d_publication_version saved)),
        (''republished'', MBool (d_first_published_at dashboard \<noteq> None))] m = Inr (e, t)"
  have d: "d_id ?d = d" "d_publication_version ?d = d_publication_version dashboard + 1"
    "d_state ?d = PUBLISHED" "d_published_revision ?d = Some i"
    using filter_singleD [OF f] r by (simp_all add: published_dashboard_def apply_freshness_def)
  have "filter (\<lambda>x. d_id x = d_id ?d) (dashboards (s\<lparr>ticks := k\<rparr>)) = [dashboard]" using f d by simp
  from saved_dashboard [OF w this] obtain now2 k2 where
    v: "saved = dashboard_columns (Some publish_columns) now2 dashboard ?d" and
    m: "m = s\<lparr>ticks := k, dashboards := put_row d_id saved (dashboards s), ticks := k2\<rparr>"
      "filter (\<lambda>x. d_id x = d) (dashboards m) = [saved]"
    using d by (auto simp: advances_publication_def)
  have "d_state saved = PUBLISHED" "d_published_revision saved = Some i"
    "d_publication_version saved = d_publication_version dashboard + 1" "d_owner saved = d_owner dashboard"
    "d_last_transfer saved = d_last_transfer dashboard"
    using d by (simp_all add: v dashboard_columns_def column_Some publish_columns_def)
  then show ?thesis
    using f o m audit_create_Inr [OF e] by (intro exI [of _ dashboard]) auto
qed

lemma unpublish_effect:
  assumes "unpublish_dashboard d a s = Inr (saved, t)"
  shows "\<exists>old k n e. filter (\<lambda>x. d_id x = d) (dashboards s) = [old] \<and> d_owner old = a \<and>
     filter (\<lambda>x. d_id x = d) (dashboards t) = [saved] \<and> d_state saved = UNPUBLISHED \<and>
     d_published_revision saved = None \<and> d_publication_version saved = d_publication_version old \<and>
     d_owner saved = d_owner old \<and> d_last_transfer saved = d_last_transfer old \<and>
     t = s\<lparr>dashboards := put_row d_id saved (dashboards s), audit_events := audit_events s @ [e],
           ticks := k, serial := n\<rparr>"
  using assms
proof (rule unpublish_Inr)
  fix dashboard :: dashboard and actor m e
  let ?d = "dashboard\<lparr>d_state := UNPUBLISHED, d_published_revision := None\<rparr>"
  assume f: "filter (\<lambda>x. d_id x = d) (dashboards s) = [dashboard]" and o: "d_owner dashboard = a"
    and w: "dashboard_save False (Some [''state'', ''published_revision'', ''updated_at'']) ?d s = Inr (saved, m)"
    and e: "audit_create ''dashboard.unpublished'' (Some a) (Some (d_id saved))
       (d_published_revision dashboard) None
       [(''publication_version'', MInt (d_publication_version saved))] m = Inr (e, t)"
  have d: "d_id ?d = d" using filter_singleD [OF f] by simp
  have "filter (\<lambda>x. d_id x = d_id ?d) (dashboards s) = [dashboard]" using f d by simp
  from saved_dashboard [OF w this] obtain now2 k2 where
    v: "saved = dashboard_columns (Some [''state'', ''published_revision'', ''updated_at'']) now2 dashboard ?d" and
    m: "m = s\<lparr>dashboards := put_row d_id saved (dashboards s), ticks := k2\<rparr>"
      "filter (\<lambda>x. d_id x = d) (dashboards m) = [saved]"
    using d by (auto simp: advances_publication_def)
  have "d_state saved = UNPUBLISHED" "d_published_revision saved = None"
    "d_publication_version saved = d_publication_version dashboard" "d_owner saved = d_owner dashboard"
    "d_last_transfer saved = d_last_transfer dashboard"
    by (simp_all add: v dashboard_columns_def column_Some)
  then show ?thesis
    using f o m audit_create_Inr [OF e] by (intro exI [of _ dashboard]) auto
qed

section \<open>Accounts\<close>

text \<open>Disabling or resetting an account leaves no credential of it current.\<close>

lemma account_edit_effect:
  assumes w: "user_save False fs u s = Inr (v, t)" "filter (\<lambda>x. u_id x = u_id original) (users s) = [original]"
    "user_edit fs original u"
    and c: "u_is_active u \<noteq> u_is_active original \<or> u_auth_version u \<noteq> u_auth_version original"
  shows "v \<in> set (users t) \<and> u_id v = u_id original \<and> u_auth_version v = u_auth_version original + 1 \<and>
     render_auths t = render_auths s \<and> original \<in> set (users s)"
proof -
  note E = user_edit_evolves [OF w]
  obtain k where t: "t = s\<lparr>users := put_row u_id v (users s), ticks := k\<rparr>" using E by blast
  have "v \<in> set (users t)" using filter_singleD [OF w(2)] E by (auto simp: t set_put_row)
  then show ?thesis using E c filter_singleD [OF w(2)] by (auto simp: t)
qed

lemma advanced_account:
  assumes "sound t" "v \<in> set (users t)" "a \<in> set (render_auths t)" "ra_viewer a = u_id v"
    "ra_viewer_auth_version a < u_auth_version v"
  shows "\<not> authorization_is_current t a n"
proof -
  have "user_of t (ra_viewer a) = Some v" using sound_lookup(1) [OF assms(1,2)] assms(4) by simp
  then show ?thesis
    using assms(5) by (auto simp: authorization_is_current_def split: option.split)
qed

lemma version_bound:
  assumes "reachable cfg s" "a \<in> set (render_auths s)" "u \<in> set (users s)" "u_id u = ra_viewer a"
  shows "ra_viewer_auth_version a \<le> u_auth_version u"
proof -
  obtain x where x: "x \<in> set (users s)" "u_id x = ra_viewer a" "ra_viewer_auth_version a \<le> u_auth_version x"
    using reachable_backed(1) [OF assms(1)] assms(2) unfolding all_backed_def backed_def by blast
  have "x = u"
    using sound_lookup(1) [OF reachable_sound [OF assms(1)] x(1)]
      sound_lookup(1) [OF reachable_sound [OF assms(1)] assms(3)] x(2) assms(4) by simp
  then show ?thesis using x(3) by simp
qed

lemma disable_withdraws:
  assumes s: "reachable cfg s" "reachable cfg t" and run: "disable_user actor i s = Inr (u, t)"
    and a: "a \<in> set (render_auths t)" "ra_viewer a = i"
  shows "\<not> authorization_is_current t a n"
  using disable_user_Inr [OF run]
proof (elim disjE exE conjE)
  assume "t = s" "filter (\<lambda>u. u_id u = i) (users s) = [u]" "\<not> u_is_active u"
  then have "user_of t (ra_viewer a) = Some u" "\<not> u_is_active u"
    using sound_lookup(1) [OF reachable_sound [OF s(1)], of u] a(2) by (auto dest!: filter_singleD)
  then show ?thesis by (auto simp: authorization_is_current_def split: option.split)
next
  fix act original m e
  assume f: "filter (\<lambda>u. u_id u = i) (users s) = [original]" and o: "u_is_active original"
    and m: "user_save False (Some [''is_active'', ''updated_at'']) (original\<lparr>u_is_active := False\<rparr>) s = Inr (u, m)"
    and e: "record_audit_event ''user.disabled'' (Some act) (Some u) m = Inr (e, t)"
  have E: "u \<in> set (users m) \<and> u_id u = u_id original \<and> u_auth_version u = u_auth_version original + 1 \<and>
     render_auths m = render_auths s \<and> original \<in> set (users s)"
    using f o filter_singleD [OF f] by (intro account_edit_effect [OF m]) (auto simp: user_edit_def)
  have t: "users t = users m" "render_auths t = render_auths m"
    using audit_create_Inr [OF e [unfolded record_audit_event_def]] by simp_all
  have "ra_viewer_auth_version a \<le> u_auth_version original"
    using a E t filter_singleD [OF f] by (intro version_bound [OF s(1)]) auto
  then show ?thesis
    using E t a filter_singleD [OF f] by (intro advanced_account [OF reachable_sound [OF s(2)], of u]) auto
qed

lemma reset_withdraws:
  assumes s: "reachable cfg s" "reachable cfg t" and run: "reset_user_password env actor i password s = Inr (u, t)"
    and a: "a \<in> set (render_auths t)" "ra_viewer a = i"
  shows "\<not> authorization_is_current t a n"
  using run
proof (rule reset_user_password_Inr)
  fix act original p m e
  let ?s = "s\<lparr>secret_draws := Suc (secret_draws s)\<rparr>"
  assume f: "filter (\<lambda>u. u_id u = i) (users s) = [original]"
    and m: "user_save False (Some [''password'', ''auth_version'', ''updated_at''])
       (original\<lparr>u_password := p, u_auth_version := u_auth_version original + 1\<rparr>) ?s = Inr (u, m)"
    and e: "record_audit_event ''user.password_reset'' (Some act) (Some u) m = Inr (e, t)"
  have E: "u \<in> set (users m) \<and> u_id u = u_id original \<and> u_auth_version u = u_auth_version original + 1 \<and>
     render_auths m = render_auths ?s \<and> original \<in> set (users ?s)"
    using f filter_singleD [OF f] by (intro account_edit_effect [OF m]) (auto simp: user_edit_def)
  have t: "users t = users m" "render_auths t = render_auths m"
    using audit_create_Inr [OF e [unfolded record_audit_event_def]] by simp_all
  have "ra_viewer_auth_version a \<le> u_auth_version original"
    using a E t filter_singleD [OF f] by (intro version_bound [OF s(1)]) auto
  then show ?thesis
    using E t a filter_singleD [OF f] by (intro advanced_account [OF reachable_sound [OF s(2)], of u]) auto
qed

section \<open>Ownership\<close>

lemma transfer_effect:
  assumes "transfer_dashboard_ownership d a i expected now s = Inr (dash, t)" "sound s"
  shows "\<exists>old m. filter (\<lambda>x. d_id x = d) (dashboards s) = [old] \<and> d_owner old = a \<and>
     (expected = None \<or> expected = Some (d_last_transfer old)) \<and>
     filter (\<lambda>x. d_id x = d) (dashboards t) = [dash] \<and>
     (\<exists>at. dash = old\<lparr>d_owner := i, d_last_transfer := Some (ot_id m), d_updated_at := at\<rparr>) \<and>
     transfers t = transfers s @ [m] \<and> ot_id m \<notin> ot_id ` set (transfers s) \<and>
     ot_dashboard m = d \<and> ot_from_owner m = a \<and> ot_to_owner m = i \<and> ot_previous m = d_last_transfer old \<and>
     a \<noteq> i \<and> render_auths t = render_auths s \<and> users t = users s \<and> revisions t = revisions s \<and>
     dashboards t = put_row d_id dash (dashboards s) \<and>
     (\<forall>g \<in> set (grants s). \<not> active_scope d i g \<longrightarrow> g \<in> set (grants t)) \<and>
     (\<forall>g \<in> set (grants t). g_revoked_at g = None \<longrightarrow> g \<in> set (grants s))"
  using assms(1)
proof (rule transfer_dashboard_ownership_Inr)
  fix at s1 dashboard actor incoming s2 s3 marker s4 e
  assume n: "now_or now s = Inr (at, s1)"
    and f: "filter (\<lambda>x. d_id x = d) (dashboards s) = [dashboard]"
    and ex: "expected = None \<or> expected = Some (d_last_transfer dashboard)"
    and u: "u_id actor = a" "d_owner dashboard = a" "u_id incoming = i" "i \<noteq> a"
    and c: "close_incoming_grant dashboard actor incoming at s1 = Inr ((), s2)"
    and r: "approve_incoming_request dashboard actor incoming at s2 = Inr ((), s3)"
    and h: "hand_over dashboard actor incoming at s3 = Inr (marker, s4)"
    and e: "audit_create ''dashboard.ownership_transferred'' (Some a) (Some d) None (Some i)
       [(''transfer_id'', MId (ot_id marker))] s4 = Inr (e, t)"
    and l: "filter (\<lambda>x. d_id x = d) (dashboards t) = [dash]"
  note D = filter_singleD [OF f]
  obtain k where s1: "s1 = s\<lparr>ticks := k\<rparr>" using now_or_Inr [OF n] by blast
  have g2: "dashboards s2 = dashboards s \<and> transfers s2 = transfers s \<and> render_auths s2 = render_auths s \<and>
       users s2 = users s \<and> revisions s2 = revisions s \<and>
       (\<forall>g \<in> set (grants s). \<not> active_scope d i g \<longrightarrow> g \<in> set (grants s2)) \<and>
       (\<forall>g \<in> set (grants s2). g_revoked_at g = None \<longrightarrow> g \<in> set (grants s))"
    using close_incoming_grant_Inr [OF c]
  proof (elim disjE exE conjE)
    fix g e'
    assume f': "filter (active_scope (d_id dashboard) (u_id incoming)) (grants s1) = [g]"
      and s2: "s2 = s1\<lparr>grants := put_row g_id (closed_grant g at (u_id actor)) (grants s1),
             audit_events := audit_events s1 @ [e'], ticks := Suc (ticks s1), serial := Suc (serial s1)\<rparr>"
    note G = filter_singleD [OF f']
    have "x = g" if "x \<in> set (grants s)" "g_id x = g_id g" for x
      using sound_lookup(4) [OF assms(2) that(1)] sound_lookup(4) [OF assms(2), of g] G that(2) s1 by simp
    then have "\<forall>x \<in> set (grants s). \<not> active_scope d i x \<longrightarrow> g_id x \<noteq> g_id g"
      using G D u by auto
    then have "\<forall>x \<in> set (grants s). \<not> active_scope d i x \<longrightarrow> x \<in> set (grants s2)"
      by (auto simp: s2 s1 set_put_row)
    moreover have "\<forall>x \<in> set (grants s2). g_revoked_at x = None \<longrightarrow> x \<in> set (grants s)"
      by (auto simp: s2 s1 dest!: in_put_rowD)
    ultimately show ?thesis
      by (simp add: s2 s1)
  qed (simp add: s1)
  have g3: "dashboards s3 = dashboards s2" "transfers s3 = transfers s2" "render_auths s3 = render_auths s2"
    "users s3 = users s2" "revisions s3 = revisions s2" "grants s3 = grants s2"
    using approve_incoming_request_Inr [OF r] by auto
  obtain old v k2 n2 where old: "old \<in> set (dashboards s3)" "d_id old = d_id dashboard"
    and m: "ot_id marker \<notin> ot_id ` set (transfers s3)" "ot_dashboard marker = d_id dashboard"
      "ot_from_owner marker = u_id actor" "ot_to_owner marker = u_id incoming"
      "ot_previous marker = d_last_transfer dashboard"
    and v: "v = old\<lparr>d_owner := u_id incoming, d_last_transfer := Some (ot_id marker), d_updated_at := at\<rparr>"
    and s4: "s4 = s3\<lparr>transfers := transfers s3 @ [marker], dashboards := put_row d_id v (dashboards s3),
           ticks := k2, uuid_draws := n2\<rparr>"
    using hand_over_Inr [OF h] by blast
  have same: "old = dashboard" using filter_single_unique [OF f, of old] old g2 g3 D by simp
  have t: "dashboards t = put_row d_id v (dashboards s)" "transfers t = transfers s @ [marker]"
    "render_auths t = render_auths s" "users t = users s" "revisions t = revisions s" "grants t = grants s2"
    using audit_create_Inr [OF e] s4 g2 g3 by simp_all
  have "d_id v = d" using v same D by simp
  then have "dash = v" using l f by (simp add: t(1) filter_put_row [where key = d_id])
  then show ?thesis
    using f u ex l m v same t g2 g3 D
    by (intro exI [of _ dashboard] exI [of _ marker]) auto
qed

section \<open>The withdrawals are final\<close>

text \<open>C4: Every run of \<open>revoke_project_viewer\<close> that returns, whether it closed the epoch now or found
  it closed, ends for ever every credential bound to the grant: in each later state each such
  credential, issued before or not, is refused to every bearer.\<close>

theorem revoked_grant_is_final:
  assumes "reachable cfg s" "revoke_project_viewer d i actor s = Inr (g, t)" "history cfg t u"
    "b \<in> set (render_auths u)" "ra_viewer_grant b = Some i"
  shows "refused sha256 u b"
proof -
  have t: "reachable cfg t"
    using reachable_step [OF assms(1) revoke_viewer [OF assms(2)]] .
  have u: "reachable cfg u" using reachable_history [OF t assms(3)] .
  have g: "g \<in> set (grants t)" "g_id g = i" "g_revoked_at g \<noteq> None"
  proof (atomize (full), use revoke_project_viewer_Inr [OF assms(2)] in \<open>elim exE conjE disjE\<close>)
    fix dash act original e now
    assume o: "filter (\<lambda>x. g_id x = i) (grants s) = [original]" and v: "g = closed_grant original now actor"
      and t: "t = s\<lparr>grants := put_row g_id g (grants s), audit_events := audit_events s @ [e],
               ticks := Suc (Suc (ticks s)), serial := Suc (serial s)\<rparr>"
    show "g \<in> set (grants t) \<and> g_id g = i \<and> g_revoked_at g \<noteq> None"
      using filter_singleD [OF o] by (auto simp: t v set_put_row)
  qed simp
  obtain g' where g': "g' \<in> set (grants u)" "grant_evolves g g'"
    using retained_row(5) [OF history_retained(1) [OF t assms(3)] g(1)] by blast
  have "grant_of u i = Some g'"
    using sound_lookup(4) [OF reachable_sound [OF u] g'(1)] g'(2) g(2) by (simp add: grant_evolves_def)
  moreover have "g_revoked_at g' \<noteq> None" using g'(2) g(3) by (auto simp: grant_evolves_def)
  ultimately have no: "\<not> (\<exists>h \<in> set (grants u). g_id h = i \<and> g_revoked_at h = None)"
    using sound_lookup(4) [OF reachable_sound [OF u]] by (metis option.inject)
  have "\<not> authorization_is_current u b n" for n
    using no assms(5) entitled_current [OF reachable_sound [OF u] reachable_invariants(1) [OF u]
        reachable_backed [OF u] assms(4)] by (auto simp: entitled_def)
  then show ?thesis by (rule refusedI [OF reachable_sound [OF u] assms(4)])
qed

theorem revoked_grant_is_final_witness:
  "\<exists>g t. revoke_project_viewer 4 7 2 viewing = Inr (g, t) \<and> viewer_credential \<in> set (render_auths t) \<and>
     refused sample_digest t viewer_credential"
proof -
  have "satisfies (revoke_project_viewer 4 7 2) viewing (\<lambda>g t. render_auths t = [viewer_credential])"
    by code_simp
  then obtain g t where r: "revoke_project_viewer 4 7 2 viewing = Inr (g, t)" "render_auths t = [viewer_credential]"
    using satisfies_run by blast
  have "refused sample_digest t viewer_credential"
    by (rule revoked_grant_is_final [OF reachable_viewing r(1) history_refl])
      (simp_all add: r(2) viewer_credential_def)
  then show ?thesis using r by auto
qed

text \<open>C5: Publishing another revision (or the same again) and unpublishing both end every viewer
  credential of the dashboard issued up to then, for ever; publication versions are never
  reused, so a rollback to the same revision revives none.\<close>

theorem replaced_publication_is_final:
  assumes "reachable cfg s" "ttl = cf_ttl cfg"
    "publish_dashboard_revision (cf_unicode cfg) d actor i note as_of interval now s = Inr (x, t) \<or>
     unpublish_dashboard d actor s = Inr (x, t)"
    "a \<in> set (render_auths s)" "ra_audience a = VIEWER" "ra_dashboard a = d"
    "history cfg t u" "b \<in> set (render_auths u)" "ra_id b = ra_id a"
  shows "refused sha256 u b"
proof -
  have t: "reachable cfg t"
    using assms(3) reachable_step [OF assms(1)] step.published [of cfg] unpublished [of _ _ _ _ _ cfg] by blast
  note a = assms(4-6)
  obtain old k n e where old: "filter (\<lambda>x. d_id x = d) (dashboards s) = [old]"
    and x: "filter (\<lambda>x. d_id x = d) (dashboards t) = [x]"
      "d_published_revision x = None \<or> d_publication_version x = d_publication_version old + 1"
    and eff: "t = s\<lparr>dashboards := put_row d_id x (dashboards s), audit_events := audit_events s @ [e],
           ticks := k, serial := n\<rparr>"
    using assms(3)
  proof
    assume "publish_dashboard_revision (cf_unicode cfg) d actor i note as_of interval now s = Inr (x, t)"
    from publish_effect [OF this] show thesis by (elim exE conjE) (rule that, auto)
  next
    assume "unpublish_dashboard d actor s = Inr (x, t)"
    from unpublish_effect [OF this] show thesis by (elim exE conjE) (rule that, auto)
  qed
  have a_t: "a \<in> set (render_auths t)" using a eff by simp
  obtain w v where w: "w \<in> set (dashboards s)" "d_id w = d" "ra_publication_version a = Some v"
    "v \<le> d_publication_version w"
    using reachable_backed(1) [OF assms(1)] a unfolding all_backed_def backed_def by blast
  have "w = old" by (rule filter_single_unique [OF old w(1)]) (rule w(2))
  then have v: "ra_publication_version a = Some v" "v \<le> d_publication_version old" using w by simp_all
  have X: "x \<in> set (dashboards t)" "d_id x = d" using filter_singleD [OF x(1)] by simp_all
  have "dashboard_of t (ra_dashboard a) = Some x"
    using sound_lookup(2) [OF reachable_sound [OF t] X(1)] X(2) a by simp
  then have pub: "d_published_revision x = Some (ra_revision a)" "ra_publication_version a = Some (d_publication_version x)"
    if "authorization_is_current t a n" for n
    using that a(2) by (auto simp: authorization_is_current_def split: option.split_asm if_split_asm)
  have "\<not> authorization_is_current t a n" for n
    using pub [of n] x(2) v by force
  then show ?thesis by (rule refused_ever_after [OF t assms(7) a_t _ assms(8,9)])
qed

theorem replaced_publication_is_final_witness:
  "\<exists>x t. unpublish_dashboard 4 2 viewing = Inr (x, t) \<and> viewer_credential \<in> set (render_auths t) \<and>
     refused sample_digest t viewer_credential"
proof -
  have "satisfies (unpublish_dashboard 4 2) viewing (\<lambda>g t. render_auths t = [viewer_credential])"
    by code_simp
  then obtain x t where r: "unpublish_dashboard 4 2 viewing = Inr (x, t)" "render_auths t = [viewer_credential]"
    using satisfies_run by blast
  have "refused sample_digest t viewer_credential"
    by (rule replaced_publication_is_final [OF reachable_viewing refl disjI2 [OF r(1)], where a = viewer_credential])
      (simp_all add: r(2) viewing_def, simp_all add: viewer_credential_def)
  then show ?thesis using r by auto
qed

text \<open>C6: Disabling an account or resetting its password ends every credential of that account,
  previews included, for ever: re-enabling the account does not revive one.\<close>

theorem closed_account_is_final:
  assumes "reachable cfg s"
    "disable_user actor i s = Inr (v, t) \<or> reset_user_password (cf_identity cfg) actor i password s = Inr (v, t)"
    "a \<in> set (render_auths t)" "ra_viewer a = i"
    "history cfg t u" "b \<in> set (render_auths u)" "ra_id b = ra_id a"
  shows "refused sha256 u b"
proof -
  have t: "reachable cfg t"
    using assms(2) reachable_step [OF assms(1)] step.disabled [of actor i] password_reset [of cfg] by blast
  have "\<not> authorization_is_current t a n" for n
    using assms(2) disable_withdraws [OF assms(1) t _ assms(3,4)] reset_withdraws [OF assms(1) t _ assms(3,4)]
    by blast
  then show ?thesis by (rule refused_ever_after [OF t assms(5,3) _ assms(6,7)])
qed

theorem closed_account_is_final_witness:
  "\<exists>v t. disable_user 1 3 viewing = Inr (v, t) \<and> viewer_credential \<in> set (render_auths t) \<and>
     refused sample_digest t viewer_credential"
proof -
  have "satisfies (disable_user 1 3) viewing (\<lambda>g t. render_auths t = [viewer_credential])"
    by code_simp
  then obtain v t where r: "disable_user 1 3 viewing = Inr (v, t)" "render_auths t = [viewer_credential]"
    using satisfies_run by blast
  have "refused sample_digest t viewer_credential"
    by (rule closed_account_is_final [OF reachable_viewing disjI1 [OF r(1)], where a = viewer_credential])
      (simp_all add: r(2), simp_all add: viewer_credential_def)
  then show ?thesis using r by auto
qed

lemma transfer_refuses:
  assumes s: "reachable cfg s" and run: "transfer_dashboard_ownership d actor i expected now s = Inr (x, t)"
    and a: "a \<in> set (render_auths s)" "ra_dashboard a = d" "ra_viewer_grant a = None \<or> ra_viewer a = i"
  shows "\<not> authorization_is_current t a n"
proof
  assume c: "authorization_is_current t a n"
  have t: "sound t" using reachable_sound [OF reachable_step [OF s transferred [OF run]]] .
  obtain old at and m :: transfer where f: "filter (\<lambda>x. d_id x = d) (dashboards t) = [x]"
    and w: "x = old\<lparr>d_owner := i, d_last_transfer := Some (ot_id m), d_updated_at := at\<rparr>"
    and new: "ot_id m \<notin> ot_id ` set (transfers s)"
    using transfer_effect [OF run reachable_sound [OF s]] by (elim exE conjE) (rule that, assumption+)
  have x: "filter (\<lambda>x. d_id x = d) (dashboards t) = [x]" "d_owner x = i"
    "d_last_transfer x = Some (ot_id m)" "ot_id m \<notin> ot_id ` set (transfers s)"
    using f w new by simp_all
  have "dashboard_of t (ra_dashboard a) = Some x"
    using sound_lookup(2) [OF t, of x] filter_singleD [OF x(1)] a(2) by simp
  then have "ra_viewer_grant a = None \<and> ra_owner_epoch a = d_last_transfer x \<or>
      ra_viewer a \<noteq> i \<and> ra_viewer_grant a \<noteq> None"
    using c x(2) by (auto simp: authorization_is_current_def split: option.split_asm if_split_asm)
  then have e: "ra_owner_epoch a = Some (ot_id m)" using a(3) x(3) by auto
  have "opt_in (epoch_scope s) (\<lambda>i. (i, ra_dashboard a)) (ra_owner_epoch a)"
    using reachable_sound [OF s] a(1) by (simp add: sound_def linked_def auth_linked_def)
  then show False using x(4) by (auto simp: e epoch_scope_def)
qed

lemma transfer_spares:
  assumes s: "reachable cfg s" and run: "transfer_dashboard_ownership d actor i expected now s = Inr (x, t)"
    and a: "a \<in> set (render_auths s)" "ra_dashboard a = d" "ra_viewer_grant a = Some j" "ra_viewer a \<noteq> i"
  shows "authorization_is_current t a n = authorization_is_current s a n"
proof -
  have t: "reachable cfg t" using reachable_step [OF s transferred [OF run]] .
  obtain old at and m :: transfer where old: "filter (\<lambda>x. d_id x = d) (dashboards s) = [old]"
    and x: "filter (\<lambda>x. d_id x = d) (dashboards t) = [x]"
      "x = old\<lparr>d_owner := i, d_last_transfer := Some (ot_id m), d_updated_at := at\<rparr>"
    and same: "render_auths t = render_auths s" "users t = users s"
    and keep: "\<forall>g \<in> set (grants s). \<not> active_scope d i g \<longrightarrow> g \<in> set (grants t)"
      "\<forall>g \<in> set (grants t). g_revoked_at g = None \<longrightarrow> g \<in> set (grants s)"
    using transfer_effect [OF run reachable_sound [OF s]] by (elim exE conjE) (rule that, assumption+)
  have only: "(\<exists>w \<in> set (dashboards s). d_id w = ra_dashboard a \<and> P w) \<longleftrightarrow> P old"
    "(\<exists>w \<in> set (dashboards t). d_id w = ra_dashboard a \<and> P w) \<longleftrightarrow> P x" for P
    using filter_singleD [OF old] filter_singleD [OF x(1)] filter_single_unique [OF old]
      filter_single_unique [OF x(1)] a(2) by metis+
  have "opt_in (grant_scope s) (\<lambda>i. (i, ra_dashboard a, ra_viewer a)) (ra_viewer_grant a)"
    using reachable_sound [OF s] a(1) by (simp add: sound_def linked_def auth_linked_def)
  then obtain g where g: "g \<in> set (grants s)" "g_id g = j" "g_viewer g = ra_viewer a"
    using a(3) by (auto simp: grant_scope_def)
  have "h = g" if "h \<in> set (grants s)" "g_id h = j" for h
    using sound_lookup(4) [OF reachable_sound [OF s] that(1)] that(2)
      sound_lookup(4) [OF reachable_sound [OF s] g(1)] g(2) by simp
  then have "(\<exists>h \<in> set (grants t). g_id h = j \<and> g_revoked_at h = None) \<longleftrightarrow>
    (\<exists>h \<in> set (grants s). g_id h = j \<and> g_revoked_at h = None)"
    using keep g a(4) unfolding active_scope_def by metis
  then have "entitled t a n = entitled s a n"
    unfolding entitled_def only by (simp add: same a(3) x(2))
  moreover have "a \<in> set (render_auths t)" using a(1) same by simp
  ultimately show ?thesis
    using entitled_current [OF reachable_sound [OF s] reachable_invariants(1) [OF s] reachable_backed [OF s] a(1)]
      entitled_current [OF reachable_sound [OF t] reachable_invariants(1) [OF t] reachable_backed [OF t]]
    by blast
qed

text \<open>C7: A transfer of ownership ends for ever the previews and own views of the dashboard issued up
  to then and everything the incoming owner held on it as a viewer, and nothing else: the
  credential of any other viewer is current afterwards exactly when it was before.\<close>

theorem transfer_is_final:
  assumes "reachable cfg s" "transfer_dashboard_ownership d actor i expected now s = Inr (x, t)"
    "a \<in> set (render_auths s)" "ra_dashboard a = d"
  shows "if ra_viewer_grant a = None \<or> ra_viewer a = i
    then \<forall>u b. history cfg t u \<and> b \<in> set (render_auths u) \<and> ra_id b = ra_id a \<longrightarrow> refused sha256 u b
    else \<forall>n. authorization_is_current t a n = authorization_is_current s a n"
proof (cases "ra_viewer_grant a = None \<or> ra_viewer a = i")
  case True
  have t: "reachable cfg t" using reachable_step [OF assms(1) transferred [OF assms(2)]] .
  have a: "a \<in> set (render_auths t)"
    using transfer_effect [OF assms(2) reachable_sound [OF assms(1)]] assms(3) by (elim exE conjE) simp
  show ?thesis
    using True refused_ever_after [OF t _ a transfer_refuses [OF assms True]] by auto
next
  case False
  then show ?thesis using transfer_spares [OF assms] by auto
qed

theorem transfer_is_final_witness:
  "\<exists>x t. transfer_dashboard_ownership 4 2 3 None None viewing = Inr (x, t) \<and>
     viewer_credential \<in> set (render_auths t) \<and> refused sample_digest t viewer_credential"
proof -
  have "satisfies (transfer_dashboard_ownership 4 2 3 None None) viewing
      (\<lambda>x t. render_auths t = [viewer_credential])"
    by code_simp
  then obtain x t where r: "transfer_dashboard_ownership 4 2 3 None None viewing = Inr (x, t)"
    "render_auths t = [viewer_credential]"
    using satisfies_run by blast
  have "viewer_credential \<in> set (render_auths viewing)" "ra_dashboard viewer_credential = 4"
    "ra_viewer viewer_credential = 3"
    by (simp_all add: viewing_def viewer_credential_def)
  then show ?thesis
    using transfer_is_final [OF reachable_viewing r(1), of viewer_credential sample_digest] r
      history_refl [of sample_cfg t] by auto
qed

end
