(* ===== verification/Storage.thy ===== *)
theory Storage
  imports Services
begin

text \<open>
  The filesystem adapter of the artifact storage (\<open>core/storage.py\<close>), over a model of the directory
  tree below the configured root. Every system call may fail: \<open>fs_faults\<close> says which calls raise
  \<open>OSError\<close>, \<open>fs_amounts\<close> how many bytes one \<open>os.write\<close> takes and \<open>fs_medium\<close> what a read-back
  reads. SHA-256 is an argument. \<open>Storage_Outcomes\<close> shows what a call leaves behind, \<open>Storage_Progress\<close>
  when it succeeds.
\<close>

section \<open>The filesystem\<close>

text \<open>
  Paths are relative to the root. \<open>Unsafe\<close> is a symbolic link, a reparse point or any entry that
  is neither a directory nor a regular file.
\<close>

type_synonym path = "text list"

datatype entry = Directory | Regular "text" | Unsafe

record fs =
  fs_entries :: "path \<Rightarrow> entry option"
  fs_faults :: "nat \<Rightarrow> bool"
  fs_amounts :: "nat \<Rightarrow> nat"
  fs_medium :: "text \<Rightarrow> text"
  fs_calls :: nat

text \<open>\<open>FileExistsError\<close> and \<open>FileNotFoundError\<close> are the two subclasses of \<open>OSError\<close> the code tells apart.\<close>

datatype storage_error =
    OSError
  | FileExistsError
  | FileNotFoundError
  | ArtifactStorageFailure
  | Collision
  | IntegrityFailure
  | CleanupRequired
  | UnsafeEntry
  | WriteCommitted stored_artifact
  | TypeFailure
  | AssertionFailure
  | Interruption

definition is_os_error :: "storage_error \<Rightarrow> bool" where
  "is_os_error e \<longleftrightarrow> e \<in> {OSError, FileExistsError, FileNotFoundError}"

type_synonym 'a io = "(fs, storage_error, 'a) action"

definition syscall :: "(fs \<Rightarrow> (storage_error + 'a) \<times> fs) \<Rightarrow> 'a io" where
  "syscall f = (\<lambda>w. let w' = w\<lparr>fs_calls := Suc (fs_calls w)\<rparr> in
     if fs_faults w (fs_calls w) then (Inl OSError, w') else f w')"

definition put_entry :: "path \<Rightarrow> entry option \<Rightarrow> fs \<Rightarrow> fs" where
  "put_entry p e w = w\<lparr>fs_entries := (fs_entries w)(p := e)\<rparr>"

text \<open>A name can be created only in a directory; the root is the empty path and always one.\<close>

definition in_directory :: "path \<Rightarrow> fs \<Rightarrow> bool" where
  "in_directory p w \<longleftrightarrow> length p \<le> 1 \<or> fs_entries w (butlast p) = Some Directory"

definition create_entry :: "path \<Rightarrow> entry \<Rightarrow> fs \<Rightarrow> (storage_error + unit) \<times> fs" where
  "create_entry p e w =
     (if fs_entries w p \<noteq> None then (Inl FileExistsError, w)
      else if \<not> in_directory p w then (Inl FileNotFoundError, w)
      else (Inr (), put_entry p (Some e) w))"

definition mkdir :: "path \<Rightarrow> unit io" where
  "mkdir p = syscall (create_entry p Directory)"

definition lstat :: "path \<Rightarrow> entry io" where
  "lstat p = syscall (\<lambda>w. case fs_entries w p of
      None \<Rightarrow> (Inl FileNotFoundError, w) | Some e \<Rightarrow> (Inr e, w))"

text \<open>\<open>os.open\<close> with \<open>O_CREAT | O_EXCL\<close>; the descriptor is the path.\<close>

definition open_exclusive :: "path \<Rightarrow> unit io" where
  "open_exclusive p = syscall (create_entry p (Regular []))"

definition os_write :: "path \<Rightarrow> text \<Rightarrow> nat io" where
  "os_write p chunk = syscall (\<lambda>w. case fs_entries w p of
      Some (Regular b) \<Rightarrow>
        let n = min (length chunk) (fs_amounts w (fs_calls w))
        in (Inr n, put_entry p (Some (Regular (b @ take n chunk))) w)
    | _ \<Rightarrow> (Inl OSError, w))"

text \<open>A call whose only effect is to succeed or to fail: \<open>fsync\<close>, \<open>close\<close>, \<open>lseek\<close>, \<open>resolve\<close>, \<open>fstat\<close>.\<close>

definition barrier :: "unit io" where
  "barrier = syscall (\<lambda>w. (Inr (), w))"

definition read_file :: "path \<Rightarrow> text io" where
  "read_file p = syscall (\<lambda>w. case fs_entries w p of
      Some (Regular b) \<Rightarrow> (Inr b, w) | Some _ \<Rightarrow> (Inl OSError, w) | None \<Rightarrow> (Inl FileNotFoundError, w))"

definition hard_link :: "path \<Rightarrow> path \<Rightarrow> unit io" where
  "hard_link p q = syscall (\<lambda>w. case fs_entries w p of
      None \<Rightarrow> (Inl FileNotFoundError, w)
    | Some Directory \<Rightarrow> (Inl OSError, w)
    | Some e \<Rightarrow> create_entry q e w)"

definition unlink :: "path \<Rightarrow> unit io" where
  "unlink p = syscall (\<lambda>w. case fs_entries w p of
      None \<Rightarrow> (Inl FileNotFoundError, w)
    | Some Directory \<Rightarrow> (Inl OSError, w)
    | Some _ \<Rightarrow> (Inr (), put_entry p None w))"

text \<open>\<open>try: ... except OSError as error: raise e from error\<close>\<close>

definition os_errors_as :: "storage_error \<Rightarrow> 'a io \<Rightarrow> 'a io" where
  "os_errors_as e m = tryP m (\<lambda>x. raiseP (if is_os_error x then e else x))"

section \<open>Paths of a key\<close>

definition key_components :: "text \<Rightarrow> text list" where
  "key_components key = split_on 47 key"

definition final_path :: "text \<Rightarrow> path" where
  "final_path key = key_components key"

definition pending_path :: "text \<Rightarrow> path" where
  "pending_path key = butlast (key_components key) @ [46 # last (key_components key) @ cps ''.pending'']"

definition assert_directory :: "path \<Rightarrow> unit io" where
  "assert_directory p = bindP (os_errors_as ArtifactStorageFailure (lstat p)) (\<lambda>e.
     if e = Directory then returnP () else raiseP UnsafeEntry)"

text \<open>
  The loop of \<open>_paths\<close> over the directory components. A directory that is not a link resolves to
  itself, so below the root; the result is \<open>None\<close> where a component is missing.
\<close>

primrec walk_directories :: "bool \<Rightarrow> path \<Rightarrow> text list \<Rightarrow> path option io" where
  "walk_directories create_parent current [] = returnP (Some current)"
| "walk_directories create_parent current (c # cs) =
     (let candidate = current @ [c] in
     bindP (if create_parent
        then tryP (bindP (mkdir candidate) (\<lambda>_. returnP (Some True)))
          (\<lambda>e. if e = FileExistsError then returnP (Some False) else raiseP ArtifactStorageFailure)
        else tryP (bindP (lstat candidate) (\<lambda>_. returnP (Some False)))
          (\<lambda>e. if e = FileNotFoundError then returnP None else raiseP ArtifactStorageFailure)) (\<lambda>found.
     case found of
       None \<Rightarrow> returnP None
     | Some created \<Rightarrow>
         bindP (assert_directory candidate) (\<lambda>_.
         bindP (os_errors_as ArtifactStorageFailure barrier) (\<lambda>_.
         bindP (if created then os_errors_as ArtifactStorageFailure barrier else returnP ()) (\<lambda>_.
         walk_directories create_parent candidate cs)))))"

definition key_paths :: "bool \<Rightarrow> text \<Rightarrow> (path \<times> path) option io" where
  "key_paths create_parent key =
     bindP (walk_directories create_parent [] (butlast (key_components key))) (\<lambda>parent.
     returnP (map_option (\<lambda>_. (final_path key, pending_path key)) parent))"

section \<open>Writing\<close>

text \<open>A chunk of the payload iterable: bytes, a value of another type, or an exception of the iterable.\<close>

datatype chunk = Bytes "text" | NotBytes | Interrupted

definition validate_expectations :: "int option \<Rightarrow> text option \<Rightarrow> unit io" where
  "validate_expectations expected_size expected_sha256 =
     (if (case expected_size of None \<Rightarrow> False | Some n \<Rightarrow> n < 0)
         \<or> (case expected_sha256 of None \<Rightarrow> False | Some d \<Rightarrow> \<not> hex_text 64 d)
      then raiseP IntegrityFailure else returnP ())"

function write_all :: "path \<Rightarrow> text \<Rightarrow> unit io" where
  "write_all p remaining w =
     (if remaining = [] then (Inr (), w)
      else case os_write p remaining w of
        (Inl e, w') \<Rightarrow> (Inl e, w')
      | (Inr n, w') \<Rightarrow> if n = 0 then (Inl OSError, w') else write_all p (drop n remaining) w')"
  by pat_completeness auto

termination by (relation "measure (\<lambda>(p, remaining, w). length remaining)") auto

declare write_all.simps [simp del]

definition read_size :: nat where
  "read_size = 1024 * 1024"

text \<open>The reads of \<open>_readback\<close>, one call per piece and one that reads the end.\<close>

function read_pieces :: "text \<Rightarrow> text \<Rightarrow> text io" where
  "read_pieces acc data w = (case barrier w of
      (Inl e, w') \<Rightarrow> (Inl e, w')
    | (Inr _, w') \<Rightarrow> if data = [] then (Inr acc, w')
        else read_pieces (acc @ take read_size data) (drop read_size data) w')"
  by pat_completeness auto

termination
  by (relation "measure (\<lambda>(acc, data, w). length data)") (auto simp: read_size_def)

declare read_pieces.simps [simp del]

definition readback :: "(text \<Rightarrow> text) \<Rightarrow> path \<Rightarrow> (nat \<times> text) io" where
  "readback sha256 p =
     bindP barrier (\<lambda>_.
     bindP (\<lambda>w. (Inr (case fs_entries w p of Some (Regular b) \<Rightarrow> fs_medium w b | _ \<Rightarrow> []), w)) (\<lambda>data.
     bindP (read_pieces [] data) (\<lambda>read.
     returnP (length read, sha256 read))))"

text \<open>The loop over the chunks: the bytes so far stand for their count and the running digest.\<close>

primrec stream_chunks :: "path \<Rightarrow> int option \<Rightarrow> chunk list \<Rightarrow> text \<Rightarrow> text io" where
  "stream_chunks p expected_size [] written = returnP written"
| "stream_chunks p expected_size (c # cs) written =
     (case c of
        NotBytes \<Rightarrow> raiseP TypeFailure
      | Interrupted \<Rightarrow> raiseP Interruption
      | Bytes b \<Rightarrow>
          if (case expected_size of None \<Rightarrow> False | Some n \<Rightarrow> int (length (written @ b)) > n)
          then raiseP IntegrityFailure
          else bindP (write_all p b) (\<lambda>_. stream_chunks p expected_size cs (written @ b)))"

definition stream_and_verify ::
  "(text \<Rightarrow> text) \<Rightarrow> path \<Rightarrow> chunk list \<Rightarrow> int option \<Rightarrow> text option \<Rightarrow> (nat \<times> text) io" where
  "stream_and_verify sha256 p chunks expected_size expected_sha256 =
     bindP (stream_chunks p expected_size chunks []) (\<lambda>written.
     if (case expected_size of None \<Rightarrow> False | Some n \<Rightarrow> int (length written) \<noteq> n)
     then raiseP IntegrityFailure
     else if (case expected_sha256 of None \<Rightarrow> False | Some d \<Rightarrow> sha256 written \<noteq> d)
     then raiseP IntegrityFailure
     else
     bindP barrier (\<lambda>_.
     bindP (readback sha256 p) (\<lambda>(stored_size, stored_digest).
     if stored_size \<noteq> length written \<or> stored_digest \<noteq> sha256 written
     then raiseP IntegrityFailure
     else returnP (length written, sha256 written))))"

definition unlink_pending_after_failure :: "path \<Rightarrow> unit io" where
  "unlink_pending_after_failure p =
     tryP (unlink p) (\<lambda>e. if e = FileNotFoundError then returnP ()
       else raiseP (if is_os_error e then CleanupRequired else e))"

text \<open>The first half of \<open>write\<close>: the verified and closed pending file.\<close>

definition prepare_pending ::
  "(text \<Rightarrow> text) \<Rightarrow> text \<Rightarrow> chunk list \<Rightarrow> int option \<Rightarrow> text option \<Rightarrow> (path \<times> path \<times> stored_artifact) io" where
  "prepare_pending sha256 key chunks expected_size expected_sha256 =
     bindP (validate_expectations expected_size expected_sha256) (\<lambda>_.
     bindP (key_paths True key) (\<lambda>paths.
     case paths of
       None \<Rightarrow> raiseP AssertionFailure
     | Some (final, pending) \<Rightarrow>
     bindP (tryP (open_exclusive pending)
         (\<lambda>e. raiseP (if e = FileExistsError then Collision else ArtifactStorageFailure))) (\<lambda>_.
     bindP (tryP (stream_and_verify sha256 pending chunks expected_size expected_sha256) (\<lambda>error.
         bindP (tryP barrier (\<lambda>_.
           bindP (unlink_pending_after_failure pending) (\<lambda>_. raiseP ArtifactStorageFailure))) (\<lambda>_.
         bindP (unlink_pending_after_failure pending) (\<lambda>_. raiseP error)))) (\<lambda>(byte_size, digest).
     bindP (tryP barrier (\<lambda>_.
         bindP (unlink_pending_after_failure pending) (\<lambda>_. raiseP ArtifactStorageFailure))) (\<lambda>_.
     returnP (final, pending, \<lparr>sa_key = key, sa_byte_size = byte_size, sa_sha256 = digest\<rparr>))))))"

definition fs_write ::
  "(text \<Rightarrow> text) \<Rightarrow> text \<Rightarrow> chunk list \<Rightarrow> int option \<Rightarrow> text option \<Rightarrow> stored_artifact io" where
  "fs_write sha256 key chunks expected_size expected_sha256 =
     bindP (prepare_pending sha256 key chunks expected_size expected_sha256) (\<lambda>(final, pending, receipt).
     bindP (tryP (hard_link pending final) (\<lambda>e.
         bindP (unlink_pending_after_failure pending) (\<lambda>_.
         raiseP (if e = FileExistsError then Collision else ArtifactStorageFailure)))) (\<lambda>_.
     bindP (os_errors_as (WriteCommitted receipt)
         (bindP (unlink pending) (\<lambda>_. barrier))) (\<lambda>_.
     returnP receipt)))"

section \<open>Reading and deleting\<close>

definition assert_regular :: "entry \<Rightarrow> unit io" where
  "assert_regular e = (case e of Regular _ \<Rightarrow> returnP () | _ \<Rightarrow> raiseP UnsafeEntry)"

text \<open>The bytes the stream of \<open>open\<close> yields.\<close>

definition fs_open :: "text \<Rightarrow> text io" where
  "fs_open key =
     bindP (key_paths False key) (\<lambda>paths.
     case paths of
       None \<Rightarrow> raiseP FileNotFoundError
     | Some (final, pending) \<Rightarrow>
     bindP (tryP (lstat final)
         (\<lambda>e. raiseP (if e = FileNotFoundError then FileNotFoundError else ArtifactStorageFailure))) (\<lambda>e.
     bindP (assert_regular e) (\<lambda>_.
     bindP (tryP (read_file final)
         (\<lambda>e. raiseP (if e = FileNotFoundError then FileNotFoundError else ArtifactStorageFailure))) (\<lambda>bytes.
     bindP barrier (\<lambda>_. returnP bytes)))))"

definition delete_entry :: "path \<Rightarrow> unit io" where
  "delete_entry p =
     bindP (tryP (bindP (lstat p) (\<lambda>e. returnP (Some e)))
       (\<lambda>e. if e = FileNotFoundError then returnP None else raiseP ArtifactStorageFailure)) (\<lambda>found.
     case found of
       None \<Rightarrow> returnP ()
     | Some e \<Rightarrow>
         bindP (assert_regular e) (\<lambda>_.
         tryP (unlink p) (\<lambda>e. if e = FileNotFoundError then returnP () else raiseP ArtifactStorageFailure)))"

definition fs_delete :: "text \<Rightarrow> unit io" where
  "fs_delete key =
     bindP (key_paths False key) (\<lambda>paths.
     case paths of
       None \<Rightarrow> returnP ()
     | Some (final, pending) \<Rightarrow>
         bindP (delete_entry final) (\<lambda>_.
         bindP (delete_entry pending) (\<lambda>_.
         os_errors_as ArtifactStorageFailure barrier)))"

end
