(* ===== verification/Storage_Outcomes.thy ===== *)
theory Storage_Outcomes
  imports Storage
begin

text \<open>
  What the filesystem adapter leaves behind, wherever a system call fails: the paths a call touches,
  the three outcomes of a write, the effect of a delete. The locale \<open>artifact_storage\<close> states what the
  services rely on; its interpretation discharges the laws for the adapter.
\<close>

section \<open>What the calls touch\<close>

text \<open>Whatever lies below the root lies in a directory.\<close>

definition rooted :: "fs \<Rightarrow> bool" where
  "rooted w \<longleftrightarrow> (\<forall>p. fs_entries w p \<noteq> None \<longrightarrow> in_directory p w)"

definition touches :: "path set \<Rightarrow> fs \<Rightarrow> fs \<Rightarrow> bool" where
  "touches P w v \<longleftrightarrow> fs_calls w \<le> fs_calls v \<and> fs_faults v = fs_faults w \<and> fs_amounts v = fs_amounts w \<and>
     fs_medium v = fs_medium w \<and> (rooted w \<longrightarrow> rooted v) \<and>
     (\<forall>p. p \<notin> P \<longrightarrow> fs_entries v p = fs_entries w p)"

lemma rooted_put_entry:
  assumes "rooted w" "fs_entries w p \<noteq> Some Directory" "e = None \<or> in_directory p w"
  shows "rooted (put_entry p e w)"
  unfolding rooted_def
proof (intro allI impI)
  fix q assume q: "fs_entries (put_entry p e w) q \<noteq> None"
  have "in_directory q w" using q assms by (cases "q = p") (auto simp: put_entry_def rooted_def)
  then show "in_directory q (put_entry p e w)"
    using assms(2) by (auto simp: in_directory_def put_entry_def)
qed

lemma rooted_create_entry: "create_entry p e w = (r, v) \<Longrightarrow> rooted w \<Longrightarrow> rooted v"
  by (auto simp: create_entry_def intro: rooted_put_entry split: if_split_asm)

lemma rooted_calls [simp]: "rooted (fs_calls_update f w) = rooted w"
  by (simp add: rooted_def in_directory_def)

lemma touches_syscall:
  assumes "\<And>w r v. f w = (r, v) \<Longrightarrow> touches P w v"
  shows "keeps (touches P) (syscall f)"
proof (rule keepsI)
  fix w r v assume run: "syscall f w = (r, v)"
  let ?w = "w\<lparr>fs_calls := Suc (fs_calls w)\<rparr>"
  have t: "touches P w ?w" by (simp add: touches_def)
  show "touches P w v"
  proof (cases "fs_faults w (fs_calls w)")
    case True
    then show ?thesis using run t by (simp add: syscall_def Let_def)
  next
    case False
    then have "f ?w = (r, v)" using run by (simp add: syscall_def Let_def)
    from assms [OF this] show ?thesis by (simp add: touches_def)
  qed
qed

lemma touches_create_entry: "p \<in> P \<Longrightarrow> create_entry p e w = (r, v) \<Longrightarrow> touches P w v"
  unfolding touches_def
  using rooted_create_entry [of p e w r v]
  by (auto simp: create_entry_def put_entry_def split: if_split_asm)

lemma touches_put_entry:
  assumes "p \<in> P" "fs_entries w p \<noteq> Some Directory" "e = None \<or> fs_entries w p \<noteq> None"
  shows "touches P w (put_entry p e w)"
proof -
  have "rooted w \<Longrightarrow> e = None \<or> in_directory p w" using assms(3) by (auto simp: rooted_def)
  then have "rooted w \<longrightarrow> rooted (put_entry p e w)" using rooted_put_entry assms(2) by blast
  then show ?thesis using assms(1) by (auto simp: touches_def put_entry_def)
qed

lemma touches_refl [simp]: "touches P w w"
  by (simp add: touches_def)

lemma touches_order [intro, simp]: "reflp (touches P)" "transp (touches P)"
  by (auto simp: touches_def intro!: reflpI transpI)

lemma touches_mono: "touches P w v \<Longrightarrow> P \<subseteq> Q \<Longrightarrow> touches Q w v"
  by (auto simp: touches_def)

lemma keeps_touches_mono: "keeps (touches P) m \<Longrightarrow> P \<subseteq> Q \<Longrightarrow> keeps (touches Q) m"
  unfolding keeps_def using touches_mono by blast

lemma keeps_bind_Inr:
  assumes "transp R" "keeps R m" "\<And>a w v. m w = (Inr a, v) \<Longrightarrow> keeps R (f a)"
  shows "keeps R (bindP m f)"
proof (rule keepsI)
  fix w r v assume run: "bindP m f w = (r, v)"
  obtain r1 w1 where m: "m w = (r1, w1)" by (cases "m w")
  note R = keepsD [OF assms(2) m]
  show "R w v"
  proof (cases r1)
    case (Inl e)
    then show ?thesis using run m R by (simp add: bindP_def)
  next
    case (Inr a)
    then have "f a w1 = (r, v)" using run m by (simp add: bindP_def)
    with keepsD [OF assms(3) [OF m [unfolded Inr]]] have "R w1 v" by blast
    then show ?thesis using R assms(1) by (meson transpD)
  qed
qed

lemma touches_calls:
  "keeps (touches P) (lstat p)" "keeps (touches P) barrier" "keeps (touches P) (read_file p)"
  "p \<in> P \<Longrightarrow> keeps (touches P) (mkdir p)" "p \<in> P \<Longrightarrow> keeps (touches P) (open_exclusive p)"
  "p \<in> P \<Longrightarrow> keeps (touches P) (os_write p c)" "p \<in> P \<Longrightarrow> keeps (touches P) (unlink p)"
  "q \<in> P \<Longrightarrow> keeps (touches P) (hard_link p q)"
proof -
  show "keeps (touches P) (lstat p)" "keeps (touches P) barrier" "keeps (touches P) (read_file p)"
    unfolding lstat_def barrier_def read_file_def
    by (rule touches_syscall, simp split: option.split_asm entry.split_asm)+
  show "p \<in> P \<Longrightarrow> keeps (touches P) (mkdir p)" "p \<in> P \<Longrightarrow> keeps (touches P) (open_exclusive p)"
    unfolding mkdir_def open_exclusive_def
    by (rule touches_syscall, erule (1) touches_create_entry)+
  show "p \<in> P \<Longrightarrow> keeps (touches P) (os_write p c)"
    unfolding os_write_def
    by (rule touches_syscall)
      (simp add: Let_def split: option.split_asm entry.split_asm, auto intro: touches_put_entry)
  show "p \<in> P \<Longrightarrow> keeps (touches P) (unlink p)"
    unfolding unlink_def
    by (rule touches_syscall)
      (simp split: option.split_asm entry.split_asm, auto intro: touches_put_entry)
  show "q \<in> P \<Longrightarrow> keeps (touches P) (hard_link p q)"
    unfolding hard_link_def
    by (rule touches_syscall)
      (simp split: option.split_asm entry.split_asm, auto intro: touches_create_entry)
qed

lemma touches_plain:
  "keeps (touches P) (returnP a)" "keeps (touches P) (raiseP e)"
  "keeps (touches P) m \<Longrightarrow> (\<And>a. keeps (touches P) (f a)) \<Longrightarrow> keeps (touches P) (bindP m f)"
  "keeps (touches P) m \<Longrightarrow> (\<And>e. keeps (touches P) (h e)) \<Longrightarrow> keeps (touches P) (tryP m h)"
  "keeps (touches P) m \<Longrightarrow> keeps (touches P) (os_errors_as e m)"
  unfolding os_errors_as_def by (simp_all add: keeps_return keeps_raise keeps_bind keeps_try)

lemmas touches_rules = keeps_cases touches_plain touches_calls

lemma touches_walk:
  "length current + length cs \<le> n \<Longrightarrow> keeps (touches {p. length p \<le> n}) (walk_directories c current cs)"
proof (induction cs arbitrary: current)
  case Nil
  then show ?case by (simp add: touches_plain)
next
  case (Cons d ds)
  have "keeps (touches {p. length p \<le> n}) (walk_directories c (current @ [d]) ds)"
    using Cons.prems by (intro Cons.IH) simp
  then show ?case
    using Cons.prems unfolding walk_directories.simps Let_def assert_directory_def
    by (intro touches_rules) auto
qed

lemma touches_write_all: "p \<in> P \<Longrightarrow> keeps (touches P) (write_all p b)"
proof (rule keepsI)
  fix w r v assume "p \<in> P" "write_all p b w = (r, v)"
  then show "touches P w v"
  proof (induction p b w arbitrary: r v rule: write_all.induct)
    case (1 p b w)
    show ?case
    proof (cases "b = []")
      case True
      then show ?thesis using 1(3) by (simp add: write_all.simps [of p] touches_def)
    next
      case False
      obtain r1 w1 where c: "os_write p b w = (r1, w1)" by (cases "os_write p b w")
      have t: "touches P w w1" using keepsD [OF touches_calls(6) [OF 1(2)] c] .
      show ?thesis
      proof (cases r1)
        case (Inl e)
        then show ?thesis using 1(3) t c False by (simp add: write_all.simps [of p])
      next
        case (Inr n)
        show ?thesis
        proof (cases "n = 0")
          case True
          then show ?thesis using 1(3) t c False Inr by (simp add: write_all.simps [of p])
        next
          case nz: False
          then have "write_all p (drop n b) w1 = (r, v)"
            using 1(3) c False Inr by (simp add: write_all.simps [of p b])
          then have "touches P w1 v" using 1(1) [OF False c [symmetric] Inr nz 1(2)] by simp
          then show ?thesis using t touches_order(2) by (meson transpD)
        qed
      qed
    qed
  qed
qed

lemma touches_read_pieces: "keeps (touches P) (read_pieces acc data)"
proof (rule keepsI)
  fix w r v assume "read_pieces acc data w = (r, v)"
  then show "touches P w v"
  proof (induction acc data w arbitrary: r v rule: read_pieces.induct)
    case (1 acc data w)
    obtain r1 w1 where c: "barrier w = (r1, w1)" by (cases "barrier w")
    have t: "touches P w w1" using keepsD [OF touches_calls(2) c] .
    show ?case
    proof (cases r1)
      case (Inl e)
      then show ?thesis using 1(2) t c by (simp add: read_pieces.simps [of acc])
    next
      case (Inr x)
      show ?thesis
      proof (cases "data = []")
        case True
        then show ?thesis using 1(2) t c Inr by (simp add: read_pieces.simps [of acc])
      next
        case False
        then have "read_pieces (acc @ take read_size data) (drop read_size data) w1 = (r, v)"
          using 1(2) c Inr by (simp add: read_pieces.simps [of acc data])
        then have "touches P w1 v" using 1(1) [OF c [symmetric] Inr False] by simp
        then show ?thesis using t touches_order(2) by (meson transpD)
      qed
    qed
  qed
qed

lemma touches_readback: "keeps (touches P) (readback sha256 p)"
  unfolding readback_def
  by (intro touches_rules touches_read_pieces) (simp add: keeps_def touches_def)

lemma touches_stream:
  assumes "p \<in> P"
  shows "keeps (touches P) (stream_and_verify sha256 p chunks n d)"
proof -
  have "keeps (touches P) (stream_chunks p n chunks b)" for b
  proof (induction chunks arbitrary: b)
    case (Cons c cs)
    then show ?case by (cases c) (auto intro!: touches_rules touches_write_all assms)
  qed (simp add: touches_plain)
  then show ?thesis
    unfolding stream_and_verify_def by (intro touches_rules touches_readback)
qed

lemma touches_unlink_pending: "p \<in> P \<Longrightarrow> keeps (touches P) (unlink_pending_after_failure p)"
  unfolding unlink_pending_after_failure_def by (intro touches_rules)

section \<open>What a successful stream stores\<close>

lemma write_all_Inr:
  "write_all p b w = (Inr u, v) \<Longrightarrow> fs_entries w p = Some (Regular x) \<Longrightarrow>
     fs_entries v p = Some (Regular (x @ b))"
proof (induction p b w arbitrary: x rule: write_all.induct)
  case (1 p b w)
  show ?case
  proof (cases "b = []")
    case True
    then show ?thesis using 1(2,3) by (simp add: write_all.simps [of p])
  next
    case False
    obtain r1 w1 where c: "os_write p b w = (r1, w1)" by (cases "os_write p b w")
    obtain n where n: "r1 = Inr n" "n \<noteq> 0" "write_all p (drop n b) w1 = (Inr u, v)"
      using 1(2) c False by (auto simp: write_all.simps [of p b] split: sum.split_asm if_split_asm)
    have "fs_entries w1 p = Some (Regular (x @ take n b))"
      using c 1(3) n(1)
      by (auto simp: os_write_def syscall_def Let_def put_entry_def min_def split: if_split_asm)
    from 1(1) [OF False c [symmetric] n(1,2,3) this] show ?thesis by simp
  qed
qed

definition chunk_bytes :: "chunk list \<Rightarrow> text" where
  "chunk_bytes chunks = concat (map (\<lambda>c. case c of Bytes b \<Rightarrow> b | _ \<Rightarrow> []) chunks)"

lemma stream_chunks_Inr:
  "stream_chunks p n chunks written w = (Inr b, v) \<Longrightarrow> fs_entries w p = Some (Regular written) \<Longrightarrow>
     b = written @ chunk_bytes chunks \<and> fs_entries v p = Some (Regular b)"
proof (induction chunks arbitrary: written w)
  case Nil
  then show ?case by (simp add: chunk_bytes_def)
next
  case (Cons c cs)
  obtain d where d: "c = Bytes d"
    using Cons.prems(1) by (cases c) auto
  then obtain u w1 where w1: "write_all p d w = (Inr u, w1)"
    "stream_chunks p n cs (written @ d) w1 = (Inr b, v)"
    using Cons.prems(1) by (auto simp: bindP_eq_Inr split: if_split_asm)
  show ?case
    using Cons.IH [OF w1(2) write_all_Inr [OF w1(1) Cons.prems(2)]] d by (simp add: chunk_bytes_def)
qed

lemma stream_and_verify_Inr:
  assumes "stream_and_verify sha256 p chunks n d w = (Inr (bs, digest), v)"
    "fs_entries w p = Some (Regular [])"
  shows "bs = length (chunk_bytes chunks)" "digest = sha256 (chunk_bytes chunks)"
    "fs_entries v p = Some (Regular (chunk_bytes chunks))"
    "\<forall>k. n = Some k \<longrightarrow> int bs = k" "\<forall>h. d = Some h \<longrightarrow> digest = h"
proof -
  obtain b w1 where b: "stream_chunks p n chunks [] w = (Inr b, w1)"
    using assms(1) unfolding stream_and_verify_def by (auto simp: bindP_eq_Inr)
  have B: "b = chunk_bytes chunks" "fs_entries w1 p = Some (Regular b)"
    using stream_chunks_Inr [OF b assms(2)] by simp_all
  obtain u w2 x where r: "barrier w1 = (Inr u, w2)" "readback sha256 p w2 = (Inr x, v)"
    and s: "bs = length b" "digest = sha256 b"
    and e: "\<forall>k. n = Some k \<longrightarrow> int (length b) = k" "\<forall>h. d = Some h \<longrightarrow> sha256 b = h"
    using assms(1) b unfolding stream_and_verify_def
    by (auto simp: bindP_eq_Inr bindP_def split: prod.split_asm sum.split_asm if_split_asm option.split_asm)
  have "touches {} w1 w2" "touches {} w2 v"
    using keepsD [OF touches_calls(2) r(1)] keepsD [OF touches_readback r(2)] by simp_all
  then show "bs = length (chunk_bytes chunks)" "digest = sha256 (chunk_bytes chunks)"
    "fs_entries v p = Some (Regular (chunk_bytes chunks))"
    "\<forall>k. n = Some k \<longrightarrow> int bs = k" "\<forall>h. d = Some h \<longrightarrow> digest = h"
    using B s e by (auto simp: touches_def)
qed

section \<open>The outcomes of a write\<close>

text \<open>The errors a run may end with.\<close>

definition raises :: "('e \<Rightarrow> bool) \<Rightarrow> ('w, 'e, 'a) action \<Rightarrow> bool" where
  "raises P m \<longleftrightarrow> (\<forall>w e v. m w = (Inl e, v) \<longrightarrow> P e)"

lemma raises_rules:
  "raises P (returnP a)" "P e \<Longrightarrow> raises P (raiseP e)"
  "raises P m \<Longrightarrow> (\<And>a. raises P (f a)) \<Longrightarrow> raises P (bindP m f)"
  "(\<And>e. raises P (h e)) \<Longrightarrow> raises P (tryP m h)"
  "(b \<Longrightarrow> raises P m) \<Longrightarrow> (\<not> b \<Longrightarrow> raises P n) \<Longrightarrow> raises P (if b then m else n)"
  "(x = None \<Longrightarrow> raises P m) \<Longrightarrow> (\<And>a. x = Some a \<Longrightarrow> raises P (f' a)) \<Longrightarrow>
    raises P (case x of None \<Rightarrow> m | Some a \<Rightarrow> f' a)"
  "(\<And>a b. raises P (f'' a b)) \<Longrightarrow> raises P (case p of (a, b) \<Rightarrow> f'' a b)"
  by (auto simp: raises_def bindP_eq_Inl tryP_eq_Inl split: option.split prod.split) blast+

lemma raises_try: "raises Q m \<Longrightarrow> (\<And>e. Q e \<Longrightarrow> raises P (h e)) \<Longrightarrow> raises P (tryP m h)"
  unfolding raises_def tryP_eq_Inl by blast

lemma raises_weaken: "raises Q m \<Longrightarrow> (\<And>e. Q e \<Longrightarrow> P e) \<Longrightarrow> raises P m"
  by (auto simp: raises_def)

lemma raises_calls:
  "raises is_os_error (lstat p)" "raises is_os_error barrier" "raises is_os_error (read_file p)"
  "raises is_os_error (mkdir p)" "raises is_os_error (open_exclusive p)"
  "raises is_os_error (os_write p c)" "raises is_os_error (unlink p)" "raises is_os_error (hard_link p q)"
  by (auto simp: raises_def syscall_def Let_def lstat_def barrier_def read_file_def mkdir_def is_os_error_def
      open_exclusive_def os_write_def unlink_def hard_link_def create_entry_def split: option.split_asm entry.split_asm if_split_asm)

definition uncommitted :: "storage_error \<Rightarrow> bool" where
  "uncommitted e \<longleftrightarrow> (\<forall>r. e \<noteq> WriteCommitted r)"

lemma uncommitted_simps [simp]:
  "uncommitted OSError" "uncommitted FileExistsError" "uncommitted FileNotFoundError"
  "uncommitted ArtifactStorageFailure" "uncommitted Collision" "uncommitted IntegrityFailure"
  "uncommitted CleanupRequired" "uncommitted UnsafeEntry" "uncommitted TypeFailure"
  "uncommitted AssertionFailure" "uncommitted Interruption" "\<not> uncommitted (WriteCommitted r)"
  "is_os_error e \<Longrightarrow> uncommitted e"
  by (auto simp: uncommitted_def is_os_error_def)

lemmas raises_uncommitted_calls = raises_calls [THEN raises_weaken [where P = uncommitted], simplified]

lemma raises_os_errors_as: "raises is_os_error m \<Longrightarrow> P e \<Longrightarrow> raises P (os_errors_as e m)"
  unfolding os_errors_as_def by (erule raises_try) (auto intro: raises_rules)

lemma raises_write_all: "raises uncommitted (write_all p b)"
proof -
  have "uncommitted e" if "write_all p b w = (Inl e, v)" for e w v
    using that
  proof (induction p b w rule: write_all.induct)
    case (1 p b w)
    obtain r1 w1 where c: "os_write p b w = (r1, w1)" by (cases "os_write p b w")
    have "b \<noteq> []" using 1(2) by (auto simp: write_all.simps [of p b])
    show ?case
    proof (cases r1)
      case (Inl x)
      then show ?thesis
        using 1(2) c \<open>b \<noteq> []\<close> raises_uncommitted_calls(6) [of p b] by (auto simp: write_all.simps [of p b] raises_def)
    next
      case (Inr n)
      then show ?thesis
        using 1(2) c \<open>b \<noteq> []\<close> 1(1) [OF \<open>b \<noteq> []\<close> c [symmetric] Inr]
        by (auto simp: write_all.simps [of p b] split: if_split_asm)
    qed
  qed
  then show ?thesis by (auto simp: raises_def)
qed

lemma raises_read_pieces: "raises uncommitted (read_pieces acc data)"
proof -
  have "uncommitted e" if "read_pieces acc data w = (Inl e, v)" for e w v
    using that
  proof (induction acc data w rule: read_pieces.induct)
    case (1 acc data w)
    obtain r1 w1 where c: "barrier w = (r1, w1)" by (cases "barrier w")
    show ?case
    proof (cases r1)
      case (Inl x)
      then show ?thesis
        using 1(2) c raises_uncommitted_calls(2) by (auto simp: read_pieces.simps [of acc data] raises_def)
    next
      case (Inr n)
      then show ?thesis
        using 1(2) c 1(1) [OF c [symmetric] Inr]
        by (auto simp: read_pieces.simps [of acc data] split: if_split_asm)
    qed
  qed
  then show ?thesis by (auto simp: raises_def)
qed

lemma raises_stream: "raises uncommitted (stream_and_verify sha256 p chunks n d)"
proof -
  have "raises uncommitted (stream_chunks p n chunks b)" for b
  proof (induction chunks arbitrary: b)
    case (Cons c cs)
    then show ?case by (cases c) (auto intro!: raises_rules raises_write_all)
  qed (simp add: raises_rules)
  moreover have "raises uncommitted (readback sha256 p)"
    unfolding readback_def
    by (intro raises_rules raises_read_pieces raises_uncommitted_calls) (simp add: raises_def)
  ultimately show ?thesis
    unfolding stream_and_verify_def by (intro raises_rules raises_uncommitted_calls) auto
qed

lemma raises_unlink_pending: "raises uncommitted (unlink_pending_after_failure p)"
  unfolding unlink_pending_after_failure_def
  by (rule raises_try [OF raises_calls(7)]) (auto intro: raises_rules)

section \<open>A write from outside\<close>

definition shallow :: "path set" where
  "shallow = {p. length p \<le> 3}"

text \<open>What a receipt stands for.\<close>

definition received ::
  "(text \<Rightarrow> text) \<Rightarrow> text \<Rightarrow> chunk list \<Rightarrow> int option \<Rightarrow> text option \<Rightarrow> stored_artifact \<Rightarrow> bool" where
  "received sha256 key chunks n d rc \<longleftrightarrow>
     rc = \<lparr>sa_key = key, sa_byte_size = length (chunk_bytes chunks), sa_sha256 = sha256 (chunk_bytes chunks)\<rparr> \<and>
     (\<forall>k. n = Some k \<longrightarrow> int (sa_byte_size rc) = k) \<and> (\<forall>h. d = Some h \<longrightarrow> sa_sha256 rc = h)"

lemma touches_paths:
  assumes "length (key_components key) = 4"
  shows "keeps (touches shallow) (key_paths c key)"
  unfolding key_paths_def shallow_def
  by (intro touches_rules touches_walk) (simp add: assms)

lemma key_paths_Inr:
  "key_paths c key w = (Inr x, v) \<Longrightarrow> x = None \<or> x = Some (final_path key, pending_path key)"
  by (auto simp: key_paths_def bindP_eq_Inr)

lemma raises_paths: "raises uncommitted (key_paths c key)"
proof -
  have "raises uncommitted (walk_directories c current cs)" for current cs
  proof (induction cs arbitrary: current)
    case (Cons d ds)
    then show ?case
      unfolding walk_directories.simps Let_def assert_directory_def
      by (intro raises_rules raises_os_errors_as [OF raises_calls(1)] raises_os_errors_as [OF raises_calls(2)]) auto
  qed (simp add: raises_rules)
  then show ?thesis unfolding key_paths_def by (intro raises_rules)
qed

lemma prepare_pending_outcome:
  assumes run: "prepare_pending sha256 key chunks n d w = (r, v)" and k: "length (key_components key) = 4"
  shows "touches (shallow \<union> {pending_path key}) w v"
    and "r = Inl e \<Longrightarrow> uncommitted e"
    and "r = Inr (f, p, rc) \<Longrightarrow> f = final_path key \<and> p = pending_path key \<and> received sha256 key chunks n d rc \<and>
      fs_entries v p = Some (Regular (chunk_bytes chunks))"
proof -
  let ?P = "shallow \<union> {pending_path key}"
  define rest where "rest paths = (case paths of
       None \<Rightarrow> raiseP AssertionFailure
     | Some (final, pending) \<Rightarrow>
     bindP (tryP (open_exclusive pending)
         (\<lambda>e. raiseP (if e = FileExistsError then Collision else ArtifactStorageFailure))) (\<lambda>_.
     bindP (tryP (stream_and_verify sha256 pending chunks n d) (\<lambda>error.
         bindP (tryP barrier (\<lambda>_.
           bindP (unlink_pending_after_failure pending) (\<lambda>_. raiseP ArtifactStorageFailure))) (\<lambda>_.
         bindP (unlink_pending_after_failure pending) (\<lambda>_. raiseP error)))) (\<lambda>(byte_size, digest).
     bindP (tryP barrier (\<lambda>_.
         bindP (unlink_pending_after_failure pending) (\<lambda>_. raiseP ArtifactStorageFailure))) (\<lambda>_.
     returnP (final, pending, \<lparr>sa_key = key, sa_byte_size = byte_size, sa_sha256 = digest\<rparr>)))))" for paths :: "(path \<times> path) option"
  have "keeps (touches ?P) (rest (Some (final_path key, pending_path key)))"
    unfolding rest_def option.case prod.case
    by (intro touches_rules touches_stream touches_unlink_pending) simp_all
  then have rest: "keeps (touches ?P) (rest x)" if "x = None \<or> x = Some (final_path key, pending_path key)" for x
    using that by (auto simp: rest_def intro: touches_plain)
  have def: "prepare_pending sha256 key chunks n d = bindP (validate_expectations n d) (\<lambda>_.
     bindP (key_paths True key) rest)"
    by (simp add: prepare_pending_def rest_def [abs_def])
  have v: "keeps (touches ?P) (validate_expectations n d)" "raises uncommitted (validate_expectations n d)"
    unfolding validate_expectations_def by (auto intro: touches_rules raises_rules)
  have paths: "keeps (touches ?P) (key_paths True key)"
    by (rule keeps_touches_mono [OF touches_paths [OF k]]) auto
  have "keeps (touches ?P) (bindP (key_paths True key) rest)"
    by (rule keeps_bind_Inr [OF touches_order(2) paths]) (rule rest, erule key_paths_Inr)
  then have "keeps (touches ?P) (prepare_pending sha256 key chunks n d)"
    unfolding def by (rule touches_plain(3) [OF v(1)])
  then show "touches ?P w v" using run by (rule keepsD)
  show "uncommitted e" if "r = Inl e"
  proof -
    have "raises uncommitted (rest x)" for x
      unfolding rest_def
      by (intro raises_rules raises_stream raises_unlink_pending raises_try [OF raises_stream]
          raises_uncommitted_calls) auto
    then have "raises uncommitted (prepare_pending sha256 key chunks n d)"
      unfolding def by (intro raises_rules v raises_paths)
    then show ?thesis using run that by (auto simp: raises_def)
  qed
  show "f = final_path key \<and> p = pending_path key \<and> received sha256 key chunks n d rc \<and>
      fs_entries v p = Some (Regular (chunk_bytes chunks))" if res: "r = Inr (f, p, rc)"
  proof -
    obtain w1 w2 x where 1: "validate_expectations n d w = (Inr (), w1)" "key_paths True key w1 = (Inr x, w2)"
      "rest x w2 = (Inr (f, p, rc), v)"
      using run res by (auto simp: def bindP_eq_Inr)
    then have x: "x = Some (final_path key, pending_path key)"
      using key_paths_Inr [OF 1(2)] by (auto simp: rest_def)
    obtain w3 w4 bs dg where 2: "open_exclusive (pending_path key) w2 = (Inr (), w3)"
      "stream_and_verify sha256 (pending_path key) chunks n d w3 = (Inr (bs, dg), w4)"
      "barrier w4 = (Inr (), v)"
      "f = final_path key" "p = pending_path key" "rc = \<lparr>sa_key = key, sa_byte_size = bs, sa_sha256 = dg\<rparr>"
      using 1(3) unfolding x rest_def
      by (auto simp: bindP_eq_Inr tryP_eq_Inr)
    have "fs_entries w3 (pending_path key) = Some (Regular [])"
      using 2(1) by (auto simp: open_exclusive_def create_entry_def syscall_def Let_def put_entry_def split: if_split_asm option.split_asm)
    from stream_and_verify_Inr [OF 2(2) this] have S: "bs = length (chunk_bytes chunks)"
      "dg = sha256 (chunk_bytes chunks)" "fs_entries w4 (pending_path key) = Some (Regular (chunk_bytes chunks))"
      "\<forall>k. n = Some k \<longrightarrow> int bs = k" "\<forall>h. d = Some h \<longrightarrow> dg = h" by simp_all
    have "touches {} w4 v" using keepsD [OF touches_calls(2) 2(3)] by simp
    then show ?thesis using S 2(4-6) by (auto simp: received_def touches_def)
  qed
qed

text \<open>
  How a write ends: the final path was free and now holds exactly the bytes of the chunks, with or
  without the exception that reports a failed finalization, or it is as it was.
\<close>

lemma pending_neq_final [simp]: "pending_path key \<noteq> final_path key" "final_path key \<noteq> pending_path key"
proof -
  have ne: "key_components key \<noteq> []" unfolding key_components_def by (induction key) (auto split: list.split)
  have "length (last (pending_path key)) \<noteq> length (last (final_path key))"
    by (simp add: pending_path_def final_path_def)
  then show "pending_path key \<noteq> final_path key" "final_path key \<noteq> pending_path key" by metis+
qed

lemma hard_link_cases:
  assumes "hard_link p q w = (r, v)" "fs_entries w p = Some e"
  shows "(\<exists>x. r = Inl x \<and> is_os_error x \<and> fs_entries v = fs_entries w) \<or>
    (r = Inr () \<and> fs_entries w q = None \<and> fs_entries v = (fs_entries w)(q := Some e))"
  using assms
  by (auto simp: hard_link_def create_entry_def syscall_def Let_def put_entry_def is_os_error_def
      split: if_split_asm option.split_asm entry.split_asm)

lemma fs_write_outcome:
  assumes run: "fs_write sha256 key chunks n d w = (r, v)" and k: "length (key_components key) = 4"
  shows "touches (shallow \<union> {pending_path key, final_path key}) w v"
    and "r = Inr rc \<or> r = Inl (WriteCommitted rc) \<Longrightarrow> received sha256 key chunks n d rc \<and>
      fs_entries w (final_path key) = None \<and> fs_entries v (final_path key) = Some (Regular (chunk_bytes chunks))"
    and "r = Inl e \<Longrightarrow> uncommitted e \<Longrightarrow> fs_entries v (final_path key) = fs_entries w (final_path key)"
proof -
  let ?p = "pending_path key" and ?f = "final_path key"
  let ?P = "shallow \<union> {?p}"
  obtain r1 w1 where 1: "prepare_pending sha256 key chunks n d w = (r1, w1)"
    by (cases "prepare_pending sha256 key chunks n d w")
  note prep = prepare_pending_outcome [OF 1 k]
  have deep: "?f \<notin> shallow" using k by (simp add: shallow_def final_path_def)
  then have same: "fs_entries w1 ?f = fs_entries w ?f" using prep(1) by (simp add: touches_def)
  have goal: "touches (shallow \<union> {?p, ?f}) w v \<and>
     (\<forall>rc. r = Inr rc \<or> r = Inl (WriteCommitted rc) \<longrightarrow> received sha256 key chunks n d rc \<and>
        fs_entries w ?f = None \<and> fs_entries v ?f = Some (Regular (chunk_bytes chunks))) \<and>
     (\<forall>e. r = Inl e \<and> uncommitted e \<longrightarrow> fs_entries v ?f = fs_entries w ?f)"
  proof (cases r1)
    case (Inl e)
    then have "r = Inl e" "v = w1" "uncommitted e" using run 1 prep(2) by (auto simp: fs_write_def bindP_def)
    then show ?thesis using prep(1) same by (auto simp: touches_def)
  next
    case (Inr x)
    obtain f p rc where x: "x = (f, p, rc)" by (cases x)
    then have fp: "f = ?f" "p = ?p" and rc: "received sha256 key chunks n d rc"
      and bytes: "fs_entries w1 ?p = Some (Regular (chunk_bytes chunks))"
      using prep(3) Inr by auto
    obtain r2 w2 where 2: "hard_link ?p ?f w1 = (r2, w2)" by (cases "hard_link ?p ?f w1")
    have "touches {?f} w1 w2" using keepsD [OF touches_calls(8) 2] by simp
    then have t12: "touches (shallow \<union> {?p, ?f}) w w2"
      using prep(1) touches_order(2) by (meson transpD touches_mono Un_mono insert_mono subset_insertI2 Un_upper2 Un_upper1 empty_subsetI order_refl subset_trans)
    have step: "touches (shallow \<union> {?p, ?f}) w v" if "touches {?p} w2 v"
      using t12 touches_mono [OF that, of "shallow \<union> {?p, ?f}"] touches_order(2) by (meson transpD subset_UNIV insert_subset UnCI insertI1 empty_subsetI)
    from hard_link_cases [OF 2 bytes] consider
        (fail) y where "r2 = Inl y" "is_os_error y" "fs_entries w2 = fs_entries w1"
      | (link) "r2 = Inr ()" "fs_entries w1 ?f = None"
          "fs_entries w2 = (fs_entries w1)(?f := Some (Regular (chunk_bytes chunks)))"
      by (elim disjE exE conjE) (simp_all only: that)
    then show ?thesis
    proof cases
      case fail
      have r: "bindP (unlink_pending_after_failure ?p) (\<lambda>_.
         raiseP (if y = FileExistsError then Collision else ArtifactStorageFailure)) w2 = (r, v)"
        using run 1 Inr x fp 2 fail
        by (auto simp: fs_write_def bindP_def tryP_def split: prod.split_asm sum.split_asm)
      have "keeps (touches {?p}) (bindP (unlink_pending_after_failure ?p) (\<lambda>_.
         raiseP (if y = FileExistsError then Collision else ArtifactStorageFailure) :: stored_artifact io))"
        by (intro touches_rules touches_unlink_pending) simp_all
      from keepsD [OF this r] have t: "touches {?p} w2 v" .
      have "raises uncommitted (bindP (unlink_pending_after_failure ?p) (\<lambda>_.
         raiseP (if y = FileExistsError then Collision else ArtifactStorageFailure) :: stored_artifact io))"
        by (intro raises_rules raises_unlink_pending) simp_all
      then have u: "r = Inl e \<Longrightarrow> uncommitted e" for e using r by (auto simp: raises_def)
      have i: "r \<noteq> Inr a" for a using r by (auto simp: bindP_eq_Inr)
      have "fs_entries v ?f = fs_entries w ?f"
        using t same fail by (simp add: touches_def)
      moreover have "touches (shallow \<union> {?p, ?f}) w v"
        by (rule step [OF t])
      moreover have "r \<noteq> Inl (WriteCommitted rc')" for rc' using u by fastforce
      ultimately show ?thesis using i by blast
    next
      case link
      have r: "bindP (os_errors_as (WriteCommitted rc) (bindP (unlink ?p) (\<lambda>_. barrier)))
          (\<lambda>_. returnP rc) w2 = (r, v)"
        using run 1 Inr x fp 2 link
        by (auto simp: fs_write_def bindP_def tryP_def split: prod.split_asm sum.split_asm)
      have "keeps (touches {?p}) (bindP (os_errors_as (WriteCommitted rc) (bindP (unlink ?p) (\<lambda>_. barrier)))
          (\<lambda>_. returnP rc))"
        by (intro touches_rules) simp_all
      from keepsD [OF this r] have t: "touches {?p} w2 v" .
      have "raises (\<lambda>e. e = WriteCommitted rc)
         (bindP (os_errors_as (WriteCommitted rc) (bindP (unlink ?p) (\<lambda>_. barrier))) (\<lambda>_. returnP rc))"
        by (intro raises_rules raises_os_errors_as raises_calls) simp_all
      then have e: "r = Inl e \<Longrightarrow> e = WriteCommitted rc" for e using r by (auto simp: raises_def)
      have i: "r = Inr a \<Longrightarrow> a = rc" for a using r by (auto simp: bindP_eq_Inr)
      have "fs_entries v ?f = Some (Regular (chunk_bytes chunks))" using t link by (simp add: touches_def)
      moreover have "touches (shallow \<union> {?p, ?f}) w v"
        by (rule step [OF t])
      moreover have "fs_entries w ?f = None" using link same by simp
      ultimately show ?thesis using rc e i by fastforce
    qed
  qed
  from goal show "touches (shallow \<union> {?p, ?f}) w v" by blast
  from goal show "r = Inr rc \<or> r = Inl (WriteCommitted rc) \<Longrightarrow> received sha256 key chunks n d rc \<and>
      fs_entries w ?f = None \<and> fs_entries v ?f = Some (Regular (chunk_bytes chunks))" by blast
  from goal show "r = Inl e \<Longrightarrow> uncommitted e \<Longrightarrow> fs_entries v ?f = fs_entries w ?f" by blast
qed

section \<open>A delete from outside\<close>

lemma walk_missing:
  assumes "walk_directories False current cs w = (Inr None, v)"
  shows "\<exists>i. 0 < i \<and> i \<le> length cs \<and> fs_entries v (current @ take i cs) = None \<and> fs_entries v = fs_entries w"
  using assms
proof (induction cs arbitrary: current w)
  case (Cons c cs)
  define look where "look = tryP (bindP (lstat (current @ [c])) (\<lambda>_. returnP (Some False)))
    (\<lambda>e. if e = FileNotFoundError then returnP None else raiseP ArtifactStorageFailure)"
  obtain found w1 where 1: "look w = (Inr found, w1)"
    and next1: "(case found of None \<Rightarrow> returnP None
      | Some created \<Rightarrow> bindP (assert_directory (current @ [c])) (\<lambda>_.
          bindP (os_errors_as ArtifactStorageFailure barrier) (\<lambda>_.
          bindP (if created then os_errors_as ArtifactStorageFailure barrier else returnP ()) (\<lambda>_.
          walk_directories False (current @ [c]) cs)))) w1 = (Inr None, v)"
    using Cons.prems unfolding walk_directories.simps Let_def if_False look_def [symmetric] bindP_eq_Inr by blast
  have same: "fs_entries w1 = fs_entries w" "found = None \<Longrightarrow> fs_entries w (current @ [c]) = None"
    using 1 by (auto simp: look_def tryP_def bindP_def returnP_def raiseP_def lstat_def syscall_def Let_def
        split: if_split_asm option.split_asm prod.split_asm sum.split_asm)
  show ?case
  proof (cases found)
    case None
    then show ?thesis using next1 same by (intro exI [of _ 1]) auto
  next
    case (Some created)
    obtain w2 w3 w4 where steps: "assert_directory (current @ [c]) w1 = (Inr (), w2)"
      "os_errors_as ArtifactStorageFailure barrier w2 = (Inr (), w3)"
      "(if created then os_errors_as ArtifactStorageFailure barrier else returnP ()) w3 = (Inr (), w4)"
      "walk_directories False (current @ [c]) cs w4 = (Inr None, v)"
      using next1 Some by (auto simp: bindP_eq_Inr)
    have "keeps (touches {}) (assert_directory (current @ [c]))"
      "keeps (touches {}) (os_errors_as ArtifactStorageFailure barrier)"
      "keeps (touches {}) (if created then os_errors_as ArtifactStorageFailure barrier else returnP ())"
      unfolding assert_directory_def by (intro touches_rules)+
    from keepsD [OF this(1) steps(1)] keepsD [OF this(2) steps(2)] keepsD [OF this(3) steps(3)]
    have "fs_entries w4 = fs_entries w" using same by (auto simp: touches_def)
    moreover obtain i where "0 < i" "i \<le> length cs" "fs_entries v ((current @ [c]) @ take i cs) = None"
      "fs_entries v = fs_entries w4" using Cons.IH [OF steps(4)] by blast
    ultimately show ?thesis by (intro exI [of _ "Suc i"]) auto
  qed
qed simp

lemma rooted_below:
  assumes "rooted w" "fs_entries w p = None" "p \<noteq> []"
  shows "fs_entries w (p @ q) = None"
proof (induction q rule: rev_induct)
  case (snoc c q)
  have "\<not> in_directory (p @ q @ [c]) w"
  proof -
    have b: "butlast (p @ q @ [c]) = p @ q" by (simp add: butlast_append)
    have "1 < length (p @ q @ [c])" using assms(3) by (cases p) auto
    then show ?thesis by (simp only: in_directory_def b snoc.IH) simp
  qed
  then show ?case using assms(1) unfolding rooted_def by blast
qed (simp add: assms(2))

lemma delete_entry_Inr:
  assumes "delete_entry p w = (Inr u, v)"
  shows "fs_entries v p = None"
  using assms
  by (auto simp: delete_entry_def bindP_def tryP_def returnP_def raiseP_def lstat_def unlink_def assert_regular_def
      syscall_def Let_def put_entry_def
      split: if_split_asm option.split_asm prod.split_asm sum.split_asm entry.split_asm)

lemma touches_delete_entry: "p \<in> P \<Longrightarrow> keeps (touches P) (delete_entry p)"
  unfolding delete_entry_def assert_regular_def
  by (intro touches_rules) (simp_all add: touches_plain split: entry.split)

lemma fs_delete_outcome:
  assumes run: "fs_delete key w = (r, v)" and k: "length (key_components key) = 4"
  shows "touches (shallow \<union> {pending_path key, final_path key}) w v"
    and "rooted w \<Longrightarrow> r = Inr () \<Longrightarrow> fs_entries v (final_path key) = None"
proof -
  let ?p = "pending_path key" and ?f = "final_path key"
  let ?P = "shallow \<union> {?p, ?f}"
  define rest where "rest = (\<lambda>paths :: (path \<times> path) option. case paths of None \<Rightarrow> returnP ()
     | Some (final, pending) \<Rightarrow> bindP (delete_entry final) (\<lambda>_. bindP (delete_entry pending) (\<lambda>_.
         os_errors_as ArtifactStorageFailure barrier)))"
  have def: "fs_delete key = bindP (key_paths False key) rest"
    by (simp add: fs_delete_def rest_def)
  have some: "keeps (touches Q) (rest (Some (?f, ?p)))" if "?p \<in> Q" "?f \<in> Q" for Q
    unfolding rest_def option.case prod.case by (intro touches_rules touches_delete_entry that)
  then have rest: "keeps (touches ?P) (rest x)" if "x = None \<or> x = Some (?f, ?p)" for x
  proof (cases x)
    case None
    then show ?thesis by (simp add: rest_def touches_plain)
  next
    case (Some y)
    then show ?thesis using that some [of ?P] by simp
  qed
  have "keeps (touches ?P) (fs_delete key)"
    unfolding def
    by (rule keeps_bind_Inr [OF touches_order(2) keeps_touches_mono [OF touches_paths [OF k] Un_upper1]])
      (rule rest, erule key_paths_Inr)
  then show t: "touches ?P w v" using run by (rule keepsD)
  show "fs_entries v ?f = None" if w: "rooted w" and res: "r = Inr ()"
  proof -
    obtain x w1 where 1: "key_paths False key w = (Inr x, w1)" "rest x w1 = (Inr (), v)"
      using run res by (auto simp: def bindP_eq_Inr)
    show ?thesis
    proof (cases x)
      case None
      then have v: "v = w1" using 1(2) by (simp add: rest_def)
      have "walk_directories False [] (butlast (key_components key)) w = (Inr None, v)"
        using 1(1) None v by (auto simp: key_paths_def bindP_eq_Inr)
      from walk_missing [OF this] obtain i where i: "0 < i" "i \<le> length (butlast (key_components key))"
        "fs_entries v (take i (butlast (key_components key))) = None" by auto
      have "final_path key = take i (butlast (key_components key)) @ drop i (key_components key)"
        using i(2) k by (simp add: final_path_def butlast_conv_take)
      moreover have "rooted v" using t w by (simp add: touches_def)
      moreover have "length (take i (butlast (key_components key))) \<noteq> 0" using i k by simp
      ultimately show ?thesis using rooted_below i(3) by (metis list.size(3))
    next
      case (Some y)
      then have x: "x = Some (?f, ?p)" using key_paths_Inr [OF 1(1)] by auto
      then obtain w2 where 2: "delete_entry ?f w1 = (Inr (), w2)"
        "bindP (delete_entry ?p) (\<lambda>_. os_errors_as ArtifactStorageFailure barrier) w2 = (Inr (), v)"
        using 1(2) by (auto simp: rest_def bindP_eq_Inr)
      have "keeps (touches {?p}) (bindP (delete_entry ?p) (\<lambda>_. os_errors_as ArtifactStorageFailure barrier))"
        by (intro touches_rules touches_delete_entry) simp
      from keepsD [OF this 2(2)] delete_entry_Inr [OF 2(1)] show ?thesis by (simp add: touches_def)
    qed
  qed
qed

section \<open>Keys and paths\<close>

lemma split_on_nonempty [simp]: "split_on c xs \<noteq> []"
  by (induction xs) (auto split: list.split)

lemma split_on_token: "c \<notin> set xs \<Longrightarrow> split_on c xs = [xs]"
  by (induction xs) auto

lemma split_on_append: "split_on c (xs @ c # ys) = split_on c xs @ split_on c ys"
  by (induction xs) (auto split: list.split)

lemma split_on_join: "concat (map (\<lambda>w. c # w) (split_on c xs)) = c # xs"
proof (induction xs)
  case (Cons x xs)
  then show ?case by (cases "split_on c xs") auto
qed simp

lemma key_components_inj: "key_components k = key_components k' \<Longrightarrow> k = k'"
  unfolding key_components_def using split_on_join [of 47] by (metis list.inject)

lemma hex_no_slash: "hex_text n t \<Longrightarrow> 47 \<notin> set t"
  by (auto simp: hex_text_def list_all_iff is_hex_def)

lemma key_components_pattern:
  assumes "storage_key_pattern k"
  shows "key_components k = [cps ''v1'', take 2 (drop 3 k), take 2 (drop 6 k), drop 9 k]"
proof -
  have e: "k = take 3 k @ take 2 (drop 3 k) @ take 1 (drop 5 k) @ take 2 (drop 6 k) @ take 1 (drop 8 k) @ drop 9 k"
    using append_take_drop_id [of 3 k] append_take_drop_id [of 2 "drop 3 k"] append_take_drop_id [of 1 "drop 5 k"]
      append_take_drop_id [of 2 "drop 6 k"] append_take_drop_id [of 1 "drop 8 k"] by simp
  have "take 3 k = cps ''v1'' @ [47]" "take 1 (drop 5 k) = [47]" "take 1 (drop 8 k) = [47]"
    using assms by (simp_all add: storage_key_pattern_def cps_def)
  with e have k: "k = cps ''v1'' @ 47 # take 2 (drop 3 k) @ 47 # take 2 (drop 6 k) @ 47 # drop 9 k"
    by (metis append_Cons append_Nil append_assoc)
  have h: "47 \<notin> set (take 2 (drop 3 k))" "47 \<notin> set (take 2 (drop 6 k))" "47 \<notin> set (drop 9 k)"
    using assms unfolding storage_key_pattern_def by (auto dest: hex_no_slash)
  have v: "47 \<notin> set (cps ''v1'')" by (simp add: cps_def)
  have "split_on 47 (a @ 47 # b @ 47 # c @ 47 # d) = [a, b, c, d]"
    if "47 \<notin> set a" "47 \<notin> set b" "47 \<notin> set c" "47 \<notin> set d" for a b c d :: "text"
    by (simp add: split_on_append split_on_token that)
  from this [OF v h] show ?thesis unfolding key_components_def by (subst k)
qed

lemma key_components_length: "storage_key_pattern k \<Longrightarrow> length (key_components k) = 4"
  by (simp add: key_components_pattern)

text \<open>The pending name of one key is no other key's final name: it is longer.\<close>

lemma distinct_paths:
  assumes "storage_key_pattern k" "storage_key_pattern k'" "k \<noteq> k'"
  shows "final_path k \<notin> shallow \<union> {pending_path k', final_path k'}"
proof -
  have "length (last (final_path k)) = 64"
    using assms(1) by (simp add: final_path_def key_components_pattern storage_key_pattern_def)
  moreover have "length (last (pending_path k')) = 73"
    using assms(2) by (simp add: pending_path_def key_components_pattern storage_key_pattern_def cps_def)
  ultimately have "final_path k \<noteq> pending_path k'" by auto
  moreover have "final_path k \<noteq> final_path k'"
    using assms(3) key_components_inj unfolding final_path_def by blast
  ultimately show ?thesis using key_components_length [OF assms(1)] by (simp add: shallow_def final_path_def)
qed

section \<open>The interface of the services\<close>

definition storage_exn :: "storage_error \<Rightarrow> exn" where
  "storage_exn e = (case e of
      OSError \<Rightarrow> OperatingSystemError | FileExistsError \<Rightarrow> OperatingSystemError
    | FileNotFoundError \<Rightarrow> OperatingSystemError | ArtifactStorageFailure \<Rightarrow> ArtifactStorageError
    | Collision \<Rightarrow> StorageCollision | IntegrityFailure \<Rightarrow> StorageIntegrityError
    | CleanupRequired \<Rightarrow> StorageCleanupRequired | UnsafeEntry \<Rightarrow> UnsafeStorageEntry
    | WriteCommitted r \<Rightarrow> StorageWriteCommitted | TypeFailure \<Rightarrow> TypeError
    | AssertionFailure \<Rightarrow> AssertionError | Interruption \<Rightarrow> KeyboardInterrupt)"

definition write_outcome :: "storage_error + stored_artifact \<Rightarrow> write_result" where
  "write_outcome r = (case r of
      Inr rc \<Rightarrow> Receipt rc
    | Inl e \<Rightarrow> (case e of Collision \<Rightarrow> RaisedCollision | WriteCommitted rc \<Rightarrow> RaisedCommitted rc
        | CleanupRequired \<Rightarrow> RaisedCleanupRequired | _ \<Rightarrow> RaisedOther (storage_exn e)))"

definition filesystem_storage :: "(text \<Rightarrow> text) \<Rightarrow> fs storage_ops" where
  "filesystem_storage sha256 =
     \<lparr>st_write = (\<lambda>key chunks n d w. case fs_write sha256 key (map Bytes chunks) n d w of
        (r, v) \<Rightarrow> (write_outcome r, v)),
      st_delete = (\<lambda>key w. case fs_delete key w of
        (r, v) \<Rightarrow> (case r of Inr _ \<Rightarrow> Deleted | Inl _ \<Rightarrow> DeleteFailed, v))\<rparr>"

text \<open>The bytes stored under a key.\<close>

definition stored_bytes :: "fs \<Rightarrow> text \<Rightarrow> text option" where
  "stored_bytes w key = (case fs_entries w (final_path key) of Some (Regular b) \<Rightarrow> Some b | _ \<Rightarrow> None)"

definition receipt_of :: "write_result \<Rightarrow> stored_artifact option" where
  "receipt_of res = (case res of Receipt rc \<Rightarrow> Some rc | RaisedCommitted rc \<Rightarrow> Some rc | _ \<Rightarrow> None)"

text \<open>
  What a client may rely on: an operation on one key changes the bytes of no other; a write with a
  receipt (also one carried by the exception) found the key free and left exactly the bytes it was
  given; any other write leaves the key as it was; a delete that returns leaves no bytes.
\<close>

locale artifact_storage =
  fixes ops :: "'f storage_ops"
    and content :: "'f \<Rightarrow> text \<Rightarrow> text option"
    and coherent :: "'f \<Rightarrow> bool"
    and sha256 :: "text \<Rightarrow> text"
  assumes write_sound: "canonical_key key \<Longrightarrow> coherent f \<Longrightarrow> st_write ops key chunks n d f = (res, g) \<Longrightarrow> coherent g"
    and write_frame: "canonical_key key \<Longrightarrow> coherent f \<Longrightarrow> st_write ops key chunks n d f = (res, g) \<Longrightarrow>
      canonical_key k \<Longrightarrow> k \<noteq> key \<Longrightarrow> content g k = content f k"
    and write_receipt: "canonical_key key \<Longrightarrow> coherent f \<Longrightarrow> st_write ops key chunks n d f = (res, g) \<Longrightarrow>
      receipt_of res = Some rc \<Longrightarrow> content f key = None \<and> content g key = Some (concat chunks) \<and>
      rc = \<lparr>sa_key = key, sa_byte_size = length (concat chunks), sa_sha256 = sha256 (concat chunks)\<rparr> \<and>
      (\<forall>i. n = Some i \<longrightarrow> int (sa_byte_size rc) = i) \<and> (\<forall>h. d = Some h \<longrightarrow> sa_sha256 rc = h)"
    and write_failed: "canonical_key key \<Longrightarrow> coherent f \<Longrightarrow> st_write ops key chunks n d f = (res, g) \<Longrightarrow>
      receipt_of res = None \<Longrightarrow> content g key = content f key"
    and delete_sound: "canonical_key key \<Longrightarrow> coherent f \<Longrightarrow> st_delete ops key f = (dres, g) \<Longrightarrow> coherent g"
    and delete_frame: "canonical_key key \<Longrightarrow> coherent f \<Longrightarrow> st_delete ops key f = (dres, g) \<Longrightarrow>
      canonical_key k \<Longrightarrow> k \<noteq> key \<Longrightarrow> content g k = content f k"
    and delete_gone: "canonical_key key \<Longrightarrow> coherent f \<Longrightarrow> st_delete ops key f = (Deleted, g) \<Longrightarrow>
      content g key = None"

lemma chunk_bytes_Bytes [simp]: "chunk_bytes (map Bytes chunks) = concat chunks"
  by (simp add: chunk_bytes_def comp_def)

lemma receipt_of_outcome:
  "receipt_of (write_outcome r) = (case r of Inr rc \<Rightarrow> Some rc | Inl (WriteCommitted rc) \<Rightarrow> Some rc | _ \<Rightarrow> None)"
  by (simp add: receipt_of_def write_outcome_def split: sum.split storage_error.split)

interpretation fs_storage: artifact_storage "filesystem_storage sha256" stored_bytes rooted sha256
proof
  fix key k :: "text" and w v :: fs and chunks n d res
  assume key: "canonical_key key" and w: "rooted w"
    and run: "st_write (filesystem_storage sha256) key chunks n d w = (res, v)"
  have p: "storage_key_pattern key" using key by (simp add: canonical_key_def)
  obtain r where r: "fs_write sha256 key (map Bytes chunks) n d w = (r, v)" "res = write_outcome r"
    using run by (auto simp: filesystem_storage_def split: prod.split_asm)
  note out = fs_write_outcome [OF r(1) key_components_length [OF p]]
  show "rooted v" using out(1) w by (simp add: touches_def)
  show "stored_bytes v k = stored_bytes w k" if "canonical_key k" "k \<noteq> key"
    using out(1) distinct_paths [OF _ p that(2)] that(1)
    by (auto simp: stored_bytes_def touches_def canonical_key_def)
  show "stored_bytes w key = None \<and> stored_bytes v key = Some (concat chunks) \<and>
      rc = \<lparr>sa_key = key, sa_byte_size = length (concat chunks), sa_sha256 = sha256 (concat chunks)\<rparr> \<and>
      (\<forall>i. n = Some i \<longrightarrow> int (sa_byte_size rc) = i) \<and> (\<forall>h. d = Some h \<longrightarrow> sa_sha256 rc = h)"
    if "receipt_of res = Some rc" for rc
  proof -
    have "r = Inr rc \<or> r = Inl (WriteCommitted rc)"
      using that by (auto simp: r(2) receipt_of_outcome split: sum.split_asm storage_error.split_asm)
    from out(2) [OF this] show ?thesis by (auto simp: received_def stored_bytes_def)
  qed
  show "stored_bytes v key = stored_bytes w key" if "receipt_of res = None"
  proof -
    have "\<exists>e. r = Inl e \<and> uncommitted e"
      using that by (auto simp: r(2) receipt_of_outcome uncommitted_def split: sum.split_asm storage_error.split_asm)
    then show ?thesis using out(3) by (auto simp: stored_bytes_def)
  qed
next
  fix key k :: "text" and w v :: fs and res
  assume key: "canonical_key key" and w: "rooted w" and run: "st_delete (filesystem_storage sha256) key w = (res, v)"
  have p: "storage_key_pattern key" using key by (simp add: canonical_key_def)
  obtain r where r: "fs_delete key w = (r, v)"
    using run by (auto simp: filesystem_storage_def split: prod.split_asm)
  note out = fs_delete_outcome [OF r key_components_length [OF p]]
  show "rooted v" using out(1) w by (simp add: touches_def)
  show "stored_bytes v k = stored_bytes w k" if "canonical_key k" "k \<noteq> key"
    using out(1) distinct_paths [OF _ p that(2)] that(1)
    by (auto simp: stored_bytes_def touches_def canonical_key_def)
next
  fix key :: "text" and w v :: fs
  assume key: "canonical_key key" and w: "rooted w" and run: "st_delete (filesystem_storage sha256) key w = (Deleted, v)"
  have p: "storage_key_pattern key" using key by (simp add: canonical_key_def)
  have "fs_delete key w = (Inr (), v)"
    using run by (auto simp: filesystem_storage_def split: prod.split_asm sum.split_asm)
  from fs_delete_outcome(2) [OF this key_components_length [OF p] w]
  show "stored_bytes v key = None" by (simp add: stored_bytes_def)
qed

end
