(* ===== verification/Storage_Progress.thy ===== *)
theory Storage_Progress
  imports Storage_Outcomes
begin

text \<open>
  When the filesystem adapter succeeds: on a disk where no further call fails, a fresh key can be
  written and what was written is read back. The properties of the adapter close the theory.
\<close>

section \<open>Runs on a healthy disk\<close>

text \<open>
  From here on no call fails. On such a disk (with fixed amounts and a fixed medium) a run is
  determined by the entries, so it is described by the entries before and after it.
\<close>

definition healthy :: "fs \<Rightarrow> bool" where
  "healthy w \<longleftrightarrow> (\<forall>i. fs_calls w \<le> i \<longrightarrow> \<not> fs_faults w i)"

type_synonym device = "(nat \<Rightarrow> nat) \<times> (text \<Rightarrow> text)"

definition disk :: "device \<Rightarrow> (path \<Rightarrow> entry option) \<Rightarrow> fs \<Rightarrow> bool" where
  "disk dev E w \<longleftrightarrow> healthy w \<and> dev = (fs_amounts w, fs_medium w) \<and> fs_entries w = E"

definition succeeds :: "device \<Rightarrow> (path \<Rightarrow> entry option) \<Rightarrow> 'a io \<Rightarrow> 'a \<Rightarrow> (path \<Rightarrow> entry option) \<Rightarrow> bool" where
  "succeeds dev E m a F \<longleftrightarrow> (\<forall>w. disk dev E w \<longrightarrow> (\<exists>v. m w = (Inr a, v) \<and> disk dev F v))"

definition fails :: "device \<Rightarrow> (path \<Rightarrow> entry option) \<Rightarrow> 'a io \<Rightarrow> storage_error \<Rightarrow> bool" where
  "fails dev E m e \<longleftrightarrow> (\<forall>w. disk dev E w \<longrightarrow> (\<exists>v. m w = (Inl e, v) \<and> disk dev E v))"

lemma succeeds_return: "succeeds dev E (returnP a) a E"
  by (simp add: succeeds_def)

lemma succeeds_bind: "succeeds dev E m a F \<Longrightarrow> succeeds dev F (f a) b G \<Longrightarrow> succeeds dev E (bindP m f) b G"
  unfolding succeeds_def bindP_def by fastforce

lemma succeeds_try: "succeeds dev E m a F \<Longrightarrow> succeeds dev E (tryP m h) a F"
  unfolding succeeds_def tryP_def by fastforce

lemma succeeds_handled: "fails dev E m e \<Longrightarrow> succeeds dev E (h e) a F \<Longrightarrow> succeeds dev E (tryP m h) a F"
  unfolding succeeds_def fails_def tryP_def by fastforce

lemma fails_bind: "fails dev E m e \<Longrightarrow> fails dev E (bindP m f) e"
  unfolding fails_def bindP_def by fastforce

lemma succeeds_os_errors_as: "succeeds dev E m a F \<Longrightarrow> succeeds dev E (os_errors_as e m) a F"
  unfolding os_errors_as_def by (rule succeeds_try)

lemma disk_call: "disk dev E w \<Longrightarrow> disk dev E (w\<lparr>fs_calls := Suc (fs_calls w)\<rparr>)"
  by (auto simp: disk_def healthy_def)

lemma syscall_disk: "disk dev E w \<Longrightarrow> syscall f w = f (w\<lparr>fs_calls := Suc (fs_calls w)\<rparr>)"
  by (simp add: syscall_def Let_def disk_def healthy_def)

lemma succeeds_syscall:
  "(\<And>w. disk dev E w \<Longrightarrow> \<exists>v. f w = (Inr a, v) \<and> disk dev F v) \<Longrightarrow> succeeds dev E (syscall f) a F"
  unfolding succeeds_def using disk_call by (metis syscall_disk)

lemma fails_syscall:
  "(\<And>w. disk dev E w \<Longrightarrow> f w = (Inl e, w)) \<Longrightarrow> fails dev E (syscall f) e"
  unfolding fails_def using disk_call by (metis syscall_disk)

lemma disk_entries: "disk dev E w \<Longrightarrow> fs_entries w = E"
  by (simp add: disk_def)

lemma disk_touches:
  "touches P w v \<Longrightarrow> disk dev E w \<Longrightarrow> fs_entries v = F \<Longrightarrow> disk dev F v"
  by (auto simp: disk_def healthy_def touches_def)

lemma disk_put_entry: "disk dev E w \<Longrightarrow> disk dev (E(p := e)) (put_entry p e w)"
  by (auto simp: disk_def healthy_def put_entry_def)

lemma succeeds_calls:
  "succeeds dev E barrier () E"
  "E p = Some e \<Longrightarrow> succeeds dev E (lstat p) e E"
  "E p = Some (Regular b) \<Longrightarrow> succeeds dev E (read_file p) b E"
  unfolding barrier_def lstat_def read_file_def
  by (rule succeeds_syscall; simp add: disk_def)+

lemma succeeds_create:
  "E p = None \<Longrightarrow> length p \<le> 1 \<or> E (butlast p) = Some Directory \<Longrightarrow>
     succeeds dev E (syscall (create_entry p e)) () (E(p := Some e))"
  by (rule succeeds_syscall) (simp add: disk_entries create_entry_def in_directory_def disk_put_entry)

lemma succeeds_hard_link:
  "E p = Some (Regular b) \<Longrightarrow> E q = None \<Longrightarrow> length q \<le> 1 \<or> E (butlast q) = Some Directory \<Longrightarrow>
     succeeds dev E (hard_link p q) () (E(q := Some (Regular b)))"
  unfolding hard_link_def
  by (rule succeeds_syscall) (simp add: disk_entries create_entry_def in_directory_def disk_put_entry)

lemma succeeds_unlink: "E p = Some (Regular b) \<Longrightarrow> succeeds dev E (unlink p) () (E(p := None))"
  unfolding unlink_def
  by (rule succeeds_syscall) (simp add: disk_entries disk_put_entry)

lemma fails_mkdir: "E p = Some e \<Longrightarrow> fails dev E (mkdir p) FileExistsError"
  unfolding mkdir_def by (rule fails_syscall) (simp add: create_entry_def disk_def)

lemma succeeds_assert_directory: "E p = Some Directory \<Longrightarrow> succeeds dev E (assert_directory p) () E"
  unfolding assert_directory_def
  by (rule succeeds_bind [OF succeeds_os_errors_as [OF succeeds_calls(2)]]) (auto intro: succeeds_return)

section \<open>Reading back what was written\<close>

lemma walk_present:
  "(\<And>i. 0 < i \<Longrightarrow> i \<le> length cs \<Longrightarrow> E (current @ take i cs) = Some Directory) \<Longrightarrow>
     succeeds dev E (walk_directories False current cs) (Some (current @ cs)) E"
proof (induction cs arbitrary: current)
  case Nil
  then show ?case by (simp add: succeeds_return)
next
  case (Cons c cs)
  have here: "E (current @ [c]) = Some Directory" using Cons.prems [of 1] by simp
  have "E ((current @ [c]) @ take i cs) = Some Directory" if "i \<le> length cs" for i
    using Cons.prems [of "Suc i"] that by simp
  then have rest: "succeeds dev E (walk_directories False (current @ [c]) cs) (Some (current @ c # cs)) E"
    using Cons.IH [of "current @ [c]"] by simp
  have look: "succeeds dev E (tryP (bindP (lstat (current @ [c])) (\<lambda>_. returnP (Some False)))
      (\<lambda>e. if e = FileNotFoundError then returnP None else raiseP ArtifactStorageFailure)) (Some False) E"
    by (rule succeeds_try [OF succeeds_bind [OF succeeds_calls(2) [of E, OF here] succeeds_return]])
  show ?case
    unfolding walk_directories.simps Let_def if_False
    by (rule succeeds_bind [OF look], simp,
        rule succeeds_bind [OF succeeds_assert_directory [of E, OF here]],
        rule succeeds_bind [OF succeeds_os_errors_as [OF succeeds_calls(1)]],
        rule succeeds_bind [where a = "()"], rule succeeds_return, rule rest)
qed

lemma fs_open_present:
  assumes "rooted w" "length (key_components key) = 4" "stored_bytes w key = Some b"
  shows "succeeds dev (fs_entries w) (fs_open key) b (fs_entries w)"
proof -
  let ?E = "fs_entries w"
  have final: "?E (final_path key) = Some (Regular b)"
    using assms(3) by (auto simp: stored_bytes_def split: option.split_asm entry.split_asm)
  have dirs: "?E (take i (key_components key)) = Some Directory" if "0 < i" "i < 4" for i
    using that
  proof (induction "3 - i" arbitrary: i)
    case 0
    then have "i = 3" by simp
    then have "take i (key_components key) = butlast (final_path key)"
      using assms(2) by (simp add: final_path_def butlast_conv_take)
    moreover have "in_directory (final_path key) w" using assms(1) final by (simp add: rooted_def)
    ultimately show ?case using assms(2) by (simp add: in_directory_def final_path_def)
  next
    case (Suc n)
    then have "?E (take (Suc i) (key_components key)) = Some Directory" by simp
    then have "in_directory (take (Suc i) (key_components key)) w" using assms(1) by (simp add: rooted_def)
    moreover have "butlast (take (Suc i) (key_components key)) = take i (key_components key)"
      using assms(2) Suc by (simp add: butlast_take)
    ultimately show ?case using assms(2) Suc by (simp add: in_directory_def)
  qed
  have "succeeds dev ?E (walk_directories False [] (butlast (key_components key)))
      (Some (butlast (key_components key))) ?E"
    using walk_present [of "butlast (key_components key)" ?E "[]"] dirs assms(2)
    by (simp add: butlast_conv_take)
  then have paths: "succeeds dev ?E (key_paths False key) (Some (final_path key, pending_path key)) ?E"
    unfolding key_paths_def by (rule succeeds_bind) (simp add: succeeds_return)
  show ?thesis
    unfolding fs_open_def
    by (rule succeeds_bind [OF paths], simp only: option.case prod.case,
        rule succeeds_bind [OF succeeds_try [OF succeeds_calls(2) [of ?E, OF final]]],
        rule succeeds_bind [where a = "()" and F = ?E],
        simp add: assert_regular_def succeeds_return,
        rule succeeds_bind [OF succeeds_try [OF succeeds_calls(3) [of ?E, OF final]]],
        rule succeeds_bind [OF succeeds_calls(1) succeeds_return])
qed

section \<open>A write that succeeds\<close>

lemma write_all_run:
  assumes "healthy w" "\<forall>i. 0 < fs_amounts w i" "fs_entries w p = Some (Regular x)"
  shows "\<exists>v. write_all p b w = (Inr (), v) \<and> fs_entries v = (fs_entries w)(p := Some (Regular (x @ b))) \<and>
    fs_calls v \<le> fs_calls w + length b"
  using assms
proof (induction p b w arbitrary: x rule: write_all.induct)
  case (1 p b w)
  show ?case
  proof (cases "b = []")
    case True
    then show ?thesis using "1.prems"(3) by (simp add: write_all.simps [of p] fun_upd_idem)
  next
    case False
    let ?n = "min (length b) (fs_amounts w (Suc (fs_calls w)))"
    let ?w = "put_entry p (Some (Regular (x @ take ?n b))) (w\<lparr>fs_calls := Suc (fs_calls w)\<rparr>)"
    have call: "os_write p b w = (Inr ?n, ?w)"
      using "1.prems" by (simp add: os_write_def syscall_def Let_def healthy_def)
    have n: "?n \<noteq> 0" using False "1.prems"(2) by (metis min_def length_0_conv less_not_refl)
    have state: "healthy ?w" "\<forall>i. 0 < fs_amounts ?w i" "fs_entries ?w p = Some (Regular (x @ take ?n b))"
      using "1.prems" by (auto simp: healthy_def put_entry_def)
    from "1.IH" [OF False call [symmetric] refl n state] obtain v where
      v: "write_all p (drop ?n b) ?w = (Inr (), v)"
        "fs_entries v = (fs_entries ?w)(p := Some (Regular ((x @ take ?n b) @ drop ?n b)))"
        "fs_calls v \<le> fs_calls ?w + length (drop ?n b)" by blast
    have "write_all p b w = (Inr (), v)"
      using call n v(1) False by (simp add: write_all.simps [of p b w])
    moreover have "fs_entries v = (fs_entries w)(p := Some (Regular (x @ b)))"
      using v(2) by (simp add: put_entry_def)
    moreover have "fs_calls v \<le> Suc (fs_calls w) + (length b - ?n)"
      using v(3) by (simp add: put_entry_def)
    then have "fs_calls v \<le> fs_calls w + length b"
      using n min.cobounded1 [of "length b" "fs_amounts w (Suc (fs_calls w))"] by linarith
    ultimately show ?thesis by blast
  qed
qed

definition lively :: "device \<Rightarrow> bool" where
  "lively dev \<longleftrightarrow> (\<forall>i. 0 < fst dev i) \<and> (\<forall>b. snd dev b = b)"

lemma succeeds_write_all:
  assumes "lively dev" "E p = Some (Regular x)"
  shows "succeeds dev E (write_all p b) () (E(p := Some (Regular (x @ b))))"
  unfolding succeeds_def
proof (intro allI impI)
  fix w assume w: "disk dev E w"
  obtain v where v: "write_all p b w = (Inr (), v)" "fs_entries v = (fs_entries w)(p := Some (Regular (x @ b)))"
    using write_all_run [of w p x b] w assms by (auto simp: disk_def lively_def)
  have "touches UNIV w v" using keepsD [OF touches_write_all v(1)] by simp
  from disk_touches [OF this w] v show "\<exists>v. write_all p b w = (Inr (), v) \<and> disk dev (E(p := Some (Regular (x @ b)))) v"
    by (simp add: disk_entries [OF w])
qed

lemma succeeds_read_pieces: "succeeds dev E (read_pieces acc data) (acc @ data) E"
  unfolding succeeds_def
proof (intro allI impI)
  fix w assume "disk dev E w"
  then show "\<exists>v. read_pieces acc data w = (Inr (acc @ data), v) \<and> disk dev E v"
  proof (induction acc data w rule: read_pieces.induct)
    case (1 acc data w)
    obtain w1 where b: "barrier w = (Inr (), w1)" "disk dev E w1"
      using succeeds_calls(1) "1.prems" unfolding succeeds_def by blast
    show ?case
    proof (cases "data = []")
      case True
      then show ?thesis using b by (simp add: read_pieces.simps [of acc])
    next
      case False
      from "1.IH" [OF b(1) [symmetric] refl False b(2)] show ?thesis
        using b False by (simp add: read_pieces.simps [of acc data])
    qed
  qed
qed

lemma succeeds_stream_chunks:
  assumes "lively dev" "E p = Some (Regular written)"
    "\<forall>k. n = Some k \<longrightarrow> int (length (written @ concat bs)) \<le> k"
  shows "succeeds dev E (stream_chunks p n (map Bytes bs) written) (written @ concat bs)
    (E(p := Some (Regular (written @ concat bs))))"
  using assms(2,3)
proof (induction bs arbitrary: written E)
  case Nil
  then show ?case by (simp add: succeeds_return fun_upd_idem)
next
  case (Cons b bs)
  have c: "\<not> (case n of None \<Rightarrow> False | Some k \<Rightarrow> k < int (length (written @ b)))"
    using Cons.prems(2) by (auto split: option.split)
  have "succeeds dev (E(p := Some (Regular (written @ b)))) (stream_chunks p n (map Bytes bs) (written @ b))
    ((written @ b) @ concat bs) (E(p := Some (Regular ((written @ b) @ concat bs))))"
    using Cons.IH [of "E(p := Some (Regular (written @ b)))" "written @ b"] Cons.prems(2)
    by (simp add: fun_upd_same fun_upd_upd del: fun_upd_apply)
  from succeeds_bind [OF succeeds_write_all [of dev E p written b, OF assms(1) Cons.prems(1)] this] show ?case
    using c by simp
qed

definition expected :: "(text \<Rightarrow> text) \<Rightarrow> text \<Rightarrow> int option \<Rightarrow> text option \<Rightarrow> bool" where
  "expected sha256 bytes n d \<longleftrightarrow> (\<forall>k. n = Some k \<longrightarrow> int (length bytes) = k) \<and>
     (\<forall>h. d = Some h \<longrightarrow> sha256 bytes = h \<and> hex_text 64 h)"

lemma succeeds_stream_and_verify:
  assumes "lively dev" "E p = Some (Regular [])" "expected sha256 (concat bs) n d"
  shows "succeeds dev E (stream_and_verify sha256 p (map Bytes bs) n d)
    (length (concat bs), sha256 (concat bs)) (E(p := Some (Regular (concat bs))))"
proof -
  let ?F = "E(p := Some (Regular (concat bs)))"
  have stream: "succeeds dev E (stream_chunks p n (map Bytes bs) []) (concat bs) ?F"
    using succeeds_stream_chunks [of dev E p "[]" n bs] assms by (auto simp: expected_def)
  have load: "succeeds dev ?F (\<lambda>w. (Inr (case fs_entries w p of Some (Regular b) \<Rightarrow> fs_medium w b | _ \<Rightarrow> []), w))
      (concat bs) ?F"
    using assms(1) by (auto simp: succeeds_def disk_def lively_def)
  have reread: "succeeds dev ?F (readback sha256 p) (length (concat bs), sha256 (concat bs)) ?F"
    unfolding readback_def
    apply (rule succeeds_bind [OF succeeds_calls(1)])
    apply (rule succeeds_bind [OF load])
    apply (rule succeeds_bind [OF succeeds_read_pieces [of dev ?F "[]"]])
    by (simp only: append_Nil) (rule succeeds_return)
  have n: "\<not> (case n of None \<Rightarrow> False | Some k \<Rightarrow> int (length (concat bs)) \<noteq> k)"
    "\<not> (case d of None \<Rightarrow> False | Some h \<Rightarrow> sha256 (concat bs) \<noteq> h)"
    using assms(3) by (auto simp: expected_def split: option.split)
  show ?thesis
    unfolding stream_and_verify_def
    apply (rule succeeds_bind [OF stream])
    apply (simp only: n if_False)
    apply (rule succeeds_bind [OF succeeds_calls(1)])
    apply (rule succeeds_bind [OF reread])
    apply (simp add: succeeds_return)
    done
qed

text \<open>The walk that creates the missing directories.\<close>

primrec with_directories :: "(path \<Rightarrow> entry option) \<Rightarrow> path \<Rightarrow> text list \<Rightarrow> path \<Rightarrow> entry option" where
  "with_directories E current [] = E"
| "with_directories E current (c # cs) =
     with_directories (E(current @ [c] := Some Directory)) (current @ [c]) cs"

lemma with_directories_same:
  "(\<And>i. 0 < i \<Longrightarrow> i \<le> length cs \<Longrightarrow> p \<noteq> current @ take i cs) \<Longrightarrow> with_directories E current cs p = E p"
proof (induction cs arbitrary: E current)
  case (Cons c cs)
  have "p \<noteq> (current @ [c]) @ take i cs" if "i \<le> length cs" for i
    using Cons.prems [of "Suc i"] that by simp
  moreover have "p \<noteq> current @ [c]" using Cons.prems [of 1] by simp
  ultimately show ?case using Cons.IH [of "current @ [c]"] by simp
qed simp

lemma with_directories_last:
  "cs \<noteq> [] \<Longrightarrow> with_directories E current cs (current @ cs) = Some Directory"
proof (induction cs arbitrary: E current)
  case (Cons c cs)
  show ?case
  proof (cases "cs = []")
    case False
    have "with_directories (E(current @ [c] := Some Directory)) (current @ [c]) cs ((current @ [c]) @ cs) =
        Some Directory" by (rule Cons.IH [OF False])
    then show ?thesis by (simp del: fun_upd_apply)
  qed simp
qed simp

lemma walk_creates:
  "(\<And>i. 0 < i \<Longrightarrow> i \<le> length cs \<Longrightarrow> E (current @ take i cs) \<in> {None, Some Directory}) \<Longrightarrow>
   current = [] \<or> E current = Some Directory \<Longrightarrow>
     succeeds dev E (walk_directories True current cs) (Some (current @ cs)) (with_directories E current cs)"
proof (induction cs arbitrary: current E)
  case Nil
  then show ?case by (simp add: succeeds_return)
next
  case (Cons c cs)
  let ?p = "current @ [c]"
  let ?F = "E(?p := Some Directory)"
  have "?F (?p @ take i cs) \<in> {None, Some Directory}" if "0 < i" "i \<le> length cs" for i
    using Cons.prems(1) [of "Suc i"] that by auto
  then have rest: "succeeds dev ?F (walk_directories True ?p cs) (Some (current @ c # cs))
      (with_directories E current (c # cs))"
    using Cons.IH [where current = ?p and E = ?F] by (simp del: fun_upd_apply add: fun_upd_same)
  have "\<exists>created. succeeds dev E (tryP (bindP (mkdir ?p) (\<lambda>_. returnP (Some True)))
      (\<lambda>e. if e = FileExistsError then returnP (Some False) else raiseP ArtifactStorageFailure)) (Some created) ?F"
  proof (cases "E ?p")
    case None
    have "succeeds dev E (mkdir ?p) () ?F"
      unfolding mkdir_def by (rule succeeds_create [of E, OF None]) (use Cons.prems(2) in auto)
    then show ?thesis
      by (intro exI [of _ True] succeeds_try) (rule succeeds_bind, assumption, rule succeeds_return)
  next
    case (Some e)
    have "?F = E" using Some Cons.prems(1) [of 1] by (auto simp: fun_upd_idem)
    show ?thesis
      unfolding \<open>?F = E\<close>
      by (intro exI [of _ False] succeeds_handled [OF fails_bind [OF fails_mkdir [of E, OF Some]]])
        (simp add: succeeds_return)
  qed
  then obtain created where look: "succeeds dev E (tryP (bindP (mkdir ?p) (\<lambda>_. returnP (Some True)))
      (\<lambda>e. if e = FileExistsError then returnP (Some False) else raiseP ArtifactStorageFailure)) (Some created) ?F"
    by blast
  have sync: "succeeds dev ?F (if created then os_errors_as ArtifactStorageFailure barrier else returnP ()) () ?F"
    by (simp add: succeeds_return succeeds_os_errors_as succeeds_calls)
  show ?case
    unfolding walk_directories.simps Let_def if_True
    apply (rule succeeds_bind [OF look], simp only: option.case)
    apply (rule succeeds_bind [OF succeeds_assert_directory], simp)
    apply (rule succeeds_bind [OF succeeds_os_errors_as [OF succeeds_calls(1)]])
    apply (rule succeeds_bind [OF sync])
    by (rule rest)
qed

text \<open>Nothing lies in the way of a key: its names are free and its directories absent or real.\<close>

definition free_key :: "(path \<Rightarrow> entry option) \<Rightarrow> text \<Rightarrow> bool" where
  "free_key E key \<longleftrightarrow> E (final_path key) = None \<and> E (pending_path key) = None \<and>
     (\<forall>i \<in> {1, 2, 3}. E (take i (key_components key)) \<in> {None, Some Directory})"

lemma fs_write_succeeds:
  assumes dev: "lively dev" and k: "length (key_components key) = 4" and free: "free_key E key"
    and n: "expected sha256 (concat bs) n d"
  shows "\<exists>F. succeeds dev E (fs_write sha256 key (map Bytes bs) n d)
    \<lparr>sa_key = key, sa_byte_size = length (concat bs), sa_sha256 = sha256 (concat bs)\<rparr> F"
proof -
  let ?p = "pending_path key" and ?f = "final_path key" and ?b = "concat bs"
  let ?D = "with_directories E [] (butlast (key_components key))"
  have parent: "butlast ?p = butlast (key_components key)" "butlast ?f = butlast (key_components key)"
    "length ?p = 4" "length ?f = 4"
    using k by (simp_all add: pending_path_def final_path_def)
  have walk: "succeeds dev E (walk_directories True [] (butlast (key_components key)))
      (Some (butlast (key_components key))) ?D"
  proof -
    have "E (take i (butlast (key_components key))) \<in> {None, Some Directory}" if "0 < i" "i \<le> 3" for i
    proof -
      have "i \<in> {1, 2, 3}" using that by auto
      then show ?thesis using free k by (auto simp: free_key_def butlast_conv_take)
    qed
    then show ?thesis using walk_creates [of "butlast (key_components key)" E "[]"] k by simp
  qed
  have paths: "succeeds dev E (key_paths True key) (Some (?f, ?p)) ?D"
    unfolding key_paths_def by (rule succeeds_bind [OF walk]) (simp add: succeeds_return)
  have D: "?D ?p = None" "?D ?f = None" "?D (butlast (key_components key)) = Some Directory"
  proof -
    have "with_directories E [] (butlast (key_components key)) p = E p" if "length p = 4" for p
      by (rule with_directories_same) (use that k in auto)
    then show "?D ?p = None" "?D ?f = None" using free parent by (simp_all add: free_key_def)
    have "length (butlast (key_components key)) \<noteq> 0" using k by simp
    then show "?D (butlast (key_components key)) = Some Directory"
      using with_directories_last [of "butlast (key_components key)" E "[]"] by (metis append_Nil list.size(3))
  qed
  let ?P = "?D(?p := Some (Regular []))" and ?W = "?D(?p := Some (Regular ?b))"
  let ?L = "?W(?f := Some (Regular ?b))"
  have create: "succeeds dev ?D (open_exclusive ?p) () ?P"
    unfolding open_exclusive_def by (rule succeeds_create) (simp_all add: D parent)
  have stream: "succeeds dev ?P (stream_and_verify sha256 ?p (map Bytes bs) n d) (length ?b, sha256 ?b) ?W"
    using succeeds_stream_and_verify [OF dev _ n, of ?P ?p] by (simp add: fun_upd_upd fun_upd_same del: fun_upd_apply)
  have short: "length (butlast (key_components key)) = 3" using k by simp
  have neq: "butlast (key_components key) \<noteq> ?p" "butlast (key_components key) \<noteq> ?f"
    by (rule notI, drule arg_cong [where f = length], use short parent(3,4) in simp)+
  have link: "succeeds dev ?W (hard_link ?p ?f) () ?L"
    by (rule succeeds_hard_link) (simp_all add: D parent neq)
  have "succeeds dev ?L (unlink ?p) () (?L(?p := None))"
    by (rule succeeds_unlink [where b = ?b]) simp
  from succeeds_bind [OF this succeeds_calls(1)]
  have finish: "succeeds dev ?L (os_errors_as e (bindP (unlink ?p) (\<lambda>_. barrier))) () (?L(?p := None))" for e
    by (rule succeeds_os_errors_as)
  have valid: "succeeds dev E (validate_expectations n d) () E"
    using n by (auto simp: validate_expectations_def expected_def intro: succeeds_return split: option.split_asm)
  let ?rc = "\<lparr>sa_key = key, sa_byte_size = length ?b, sa_sha256 = sha256 ?b\<rparr>"
  have "succeeds dev E (prepare_pending sha256 key (map Bytes bs) n d) (?f, ?p, ?rc) ?W"
    unfolding prepare_pending_def
    apply (rule succeeds_bind [OF valid])
    apply (rule succeeds_bind [OF paths], simp only: option.case prod.case)
    apply (rule succeeds_bind [OF succeeds_try [OF create]])
    apply (rule succeeds_bind [OF succeeds_try [OF stream]], simp only: prod.case)
    apply (rule succeeds_bind [OF succeeds_try [OF succeeds_calls(1)]])
    by (rule succeeds_return)
  then have "succeeds dev E (fs_write sha256 key (map Bytes bs) n d) ?rc (?L(?p := None))"
    unfolding fs_write_def
    apply (rule succeeds_bind, simp only: prod.case)
    apply (rule succeeds_bind [OF succeeds_try [OF link]])
    apply (rule succeeds_bind [OF finish])
    by (rule succeeds_return)
  then show ?thesis by blast
qed

section \<open>Properties of the adapter\<close>

definition empty_disk :: fs where
  "empty_disk = \<lparr>fs_entries = (\<lambda>_. None), fs_faults = (\<lambda>_. False), fs_amounts = (\<lambda>_. 2),
     fs_medium = (\<lambda>b. b), fs_calls = 0\<rparr>"

definition disk_key :: "text" where
  "disk_key = generate_key (replicate 64 97)"

definition disk_chunks :: "text list" where
  "disk_chunks = [[104, 101, 108], [108, 111]]"

lemma disk_key_pattern: "storage_key_pattern disk_key"
  by code_simp

lemma empty_disk_facts: "rooted empty_disk" "disk (\<lambda>_. 2, \<lambda>b. b) (\<lambda>_. None) empty_disk"
  by (simp_all add: rooted_def empty_disk_def disk_def healthy_def)

lemma write_sample:
  obtains v where "fs_write (\<lambda>b. b) disk_key (map Bytes disk_chunks) (Some 5) None empty_disk =
      (Inr \<lparr>sa_key = disk_key, sa_byte_size = 5, sa_sha256 = concat disk_chunks\<rparr>, v)" "healthy v"
proof -
  have "\<exists>F. succeeds (\<lambda>_. 2, \<lambda>b. b) (\<lambda>_. None) (fs_write (\<lambda>b. b) disk_key (map Bytes disk_chunks) (Some 5) None)
      \<lparr>sa_key = disk_key, sa_byte_size = length (concat disk_chunks), sa_sha256 = concat disk_chunks\<rparr> F"
    by (rule fs_write_succeeds)
      (simp_all add: lively_def free_key_def expected_def disk_chunks_def key_components_length [OF disk_key_pattern])
  then obtain F v where v: "fs_write (\<lambda>b. b) disk_key (map Bytes disk_chunks) (Some 5) None empty_disk =
      (Inr \<lparr>sa_key = disk_key, sa_byte_size = length (concat disk_chunks), sa_sha256 = concat disk_chunks\<rparr>, v)"
    "disk (\<lambda>_. 2, \<lambda>b. b) F v"
    using empty_disk_facts(2) unfolding succeeds_def by blast
  have "length (concat disk_chunks) = 5" by (simp add: disk_chunks_def)
  with v(1) have "fs_write (\<lambda>b. b) disk_key (map Bytes disk_chunks) (Some 5) None empty_disk =
      (Inr \<lparr>sa_key = disk_key, sa_byte_size = 5, sa_sha256 = concat disk_chunks\<rparr>, v)" by (simp only:)
  moreover have "healthy v" using v(2) by (simp only: disk_def)
  ultimately show thesis by (rule that)
qed

text \<open>
  C18: Round trip of the artifact storage. After \<open>write\<close> returned a receipt, and as long as no further
  system call fails, \<open>open\<close> yields exactly the bytes of the chunks, whose number and digest are those
  of the receipt.
\<close>

theorem written_bytes_are_read_back:
  assumes "storage_key_pattern key" "rooted w" "healthy v"
    and "fs_write sha256 key chunks n d w = (Inr rc, v)"
  shows "fst (fs_open key v) = Inr (chunk_bytes chunks) \<and>
    rc = \<lparr>sa_key = key, sa_byte_size = length (chunk_bytes chunks), sa_sha256 = sha256 (chunk_bytes chunks)\<rparr>"
proof -
  note k = key_components_length [OF assms(1)]
  note out = fs_write_outcome [OF assms(4) k]
  have "rooted v" using out(1) assms(2) by (simp add: touches_def)
  moreover have rc: "received sha256 key chunks n d rc" and "stored_bytes v key = Some (chunk_bytes chunks)"
    using out(2) [of rc] by (simp_all add: stored_bytes_def)
  ultimately have "succeeds (fs_amounts v, fs_medium v) (fs_entries v) (fs_open key) (chunk_bytes chunks) (fs_entries v)"
    using fs_open_present k by blast
  then obtain u where "fs_open key v = (Inr (chunk_bytes chunks), u)"
    using assms(3) unfolding succeeds_def by (auto simp: disk_def)
  then show ?thesis using rc by (auto simp: received_def)
qed

theorem written_bytes_are_read_back_witness:
  "\<exists>rc v. fs_write (\<lambda>b. b) disk_key (map Bytes disk_chunks) (Some 5) None empty_disk = (Inr rc, v) \<and>
     fst (fs_open disk_key v) = Inr [104, 101, 108, 108, 111]"
proof -
  obtain v where run: "fs_write (\<lambda>b. b) disk_key (map Bytes disk_chunks) (Some 5) None empty_disk =
      (Inr \<lparr>sa_key = disk_key, sa_byte_size = 5, sa_sha256 = concat disk_chunks\<rparr>, v)" "healthy v"
    by (rule write_sample)
  from written_bytes_are_read_back [OF disk_key_pattern empty_disk_facts(1) run(2,1)] run(1) show ?thesis
    by (auto simp: disk_chunks_def)
qed

text \<open>
  C17: The storage is immutable. Whatever a \<open>write\<close> does, whether it returns or raises and wherever a
  system call fails, bytes that were stored under any key are stored there unchanged afterwards.
\<close>

theorem write_never_clobbers:
  assumes "storage_key_pattern key" "storage_key_pattern k" "stored_bytes w k = Some b"
  shows "stored_bytes (snd (fs_write sha256 key chunks n d w)) k = Some b"
proof -
  obtain r v where run: "fs_write sha256 key chunks n d w = (r, v)" by (cases "fs_write sha256 key chunks n d w")
  note out = fs_write_outcome [OF run key_components_length [OF assms(1)]]
  have "fs_entries v (final_path k) = fs_entries w (final_path k)"
  proof (cases "k = key")
    case True
    have "fs_entries w (final_path key) \<noteq> None"
      using assms(3) unfolding True by (auto simp: stored_bytes_def split: option.split_asm)
    then have "\<not> (r = Inr rc \<or> r = Inl (WriteCommitted rc))" for rc using out(2) [of rc] by argo
    then obtain e where "r = Inl e" "uncommitted e" unfolding uncommitted_def by (cases r) blast+
    with out(3) show ?thesis unfolding True by blast
  next
    case False
    then show ?thesis using out(1) distinct_paths [OF assms(2,1)] by (simp add: touches_def)
  qed
  then show ?thesis using assms(3) run by (simp add: stored_bytes_def)
qed

theorem write_never_clobbers_witness:
  "stored_bytes (snd (fs_write (\<lambda>b. b) disk_key [Bytes [1]] None None
     (put_entry (final_path disk_key) (Some (Regular [7])) empty_disk))) disk_key = Some [7]"
  by (rule write_never_clobbers [OF disk_key_pattern disk_key_pattern])
    (simp add: stored_bytes_def put_entry_def)

text \<open>
  C19: A fresh key can be written. On a healthy disk where nothing lies in the way of the key, \<open>write\<close>
  of bytes that meet the expectations returns the receipt with their number and digest, whatever
  positive amounts the write calls take.
\<close>

theorem fresh_key_is_written:
  assumes "storage_key_pattern key" "healthy w" "\<forall>i. 0 < fs_amounts w i" "\<forall>b. fs_medium w b = b"
    and "free_key (fs_entries w) key" "expected sha256 (concat bs) n d"
  shows "fst (fs_write sha256 key (map Bytes bs) n d w) =
    Inr \<lparr>sa_key = key, sa_byte_size = length (concat bs), sa_sha256 = sha256 (concat bs)\<rparr>"
proof -
  have "disk (fs_amounts w, fs_medium w) (fs_entries w) w" using assms(2) by (simp add: disk_def)
  moreover have "lively (fs_amounts w, fs_medium w)" using assms(3,4) by (simp add: lively_def)
  ultimately show ?thesis
    using fs_write_succeeds [OF _ key_components_length [OF assms(1)] assms(5,6)]
    unfolding succeeds_def by (metis fst_conv)
qed

theorem fresh_key_is_written_witness:
  "fst (fs_write (\<lambda>b. b) disk_key (map Bytes disk_chunks) (Some 5) None empty_disk) =
     Inr \<lparr>sa_key = disk_key, sa_byte_size = 5, sa_sha256 = [104, 101, 108, 108, 111]\<rparr>"
  using fresh_key_is_written [OF disk_key_pattern, of empty_disk "\<lambda>b. b" disk_chunks "Some 5" None]
  by (simp add: empty_disk_def healthy_def free_key_def expected_def disk_chunks_def)

text \<open>
  C20: The write loop \<open>_write_all\<close> ends and completes: when no system call fails and each takes at least
  one byte, it appends exactly the chunk to the open file, in at most one call per byte.
\<close>

theorem write_all_completes:
  assumes "healthy w" "\<forall>i. 0 < fs_amounts w i" "fs_entries w p = Some (Regular x)"
  shows "\<exists>v. write_all p b w = (Inr (), v) \<and> fs_entries v p = Some (Regular (x @ b)) \<and>
    fs_calls v \<le> fs_calls w + length b"
  using write_all_run [OF assms, of b] by auto

theorem write_all_completes_witness:
  "\<exists>v. write_all [[1]] [5, 6, 7] (put_entry [[1]] (Some (Regular [4])) empty_disk) = (Inr (), v) \<and>
     fs_entries v [[1]] = Some (Regular [4, 5, 6, 7]) \<and> fs_calls v \<le> Suc (Suc (Suc 0))"
  using write_all_completes [of "put_entry [[1]] (Some (Regular [4])) empty_disk" "[[1]]" "[4]" "[5, 6, 7]"]
  by (simp add: healthy_def empty_disk_def put_entry_def)

end
