(* ===== verification/Upkeep.thy ===== *)
theory Upkeep
  imports Withdrawal Storage_Progress
begin

text \<open>
  The metadata and the bytes together. Inside the interface \<open>artifact_storage\<close>: storing payloads only
  adds bytes, the cleanup procedures remove no bytes an artifact owns, and a committed revision has
  all its bytes in the storage. \<open>Stored_Revisions\<close> states this for the filesystem adapter.
\<close>

section \<open>What a committed revision is made of\<close>

text \<open>The transactions of the procedures, the commit apart, leave the core tables alone.\<close>

interpretation core_untouched: effect_order "\<lambda>s t. core_tables t = core_tables s"
  by unfold_locales simp_all

lemmas side_rules = obeys_intros core_untouched.txn_orders

lemma reservation_obeys:
  "obeys (\<lambda>s t. core_tables t = core_tables s) (reserve_once key i)"
  "obeys (\<lambda>s t. core_tables t = core_tables s) (mark_reservation_verified i receipt)"
  "obeys (\<lambda>s t. core_tables t = core_tables s) (mark_reservation_collision i)"
  "obeys (\<lambda>s t. core_tables t = core_tables s) (require_cleanup r)"
  "obeys (\<lambda>s t. core_tables t = core_tables s) (mark_reservation_cleanup_required i)"
  "obeys (\<lambda>s t. core_tables t = core_tables s) (drop_row r)"
  unfolding reserve_once_def mark_reservation_verified_def mark_reservation_collision_def require_cleanup_def
    mark_reservation_cleanup_required_def drop_row_def stored_def
  by ((intro side_rules)?; rule obeysI, erule core_of_side_writes)+

definition artifact_of :: "unicode \<Rightarrow> prepared_artifact \<Rightarrow> artifact \<Rightarrow> bool" where
  "artifact_of uc item a \<longleftrightarrow> a_storage_key a = sa_key (pa_receipt item) \<and>
     a_byte_size a = sa_byte_size (pa_receipt item) \<and> a_sha256 a = sa_sha256 (pa_receipt item) \<and>
     a_kind a = pa_kind item \<and> a_media_type a = pa_media_type item \<and>
     normalize_logical_name uc (display (pa_name item)) =
       Inr \<lparr>display = a_logical_name a, comparison_key = a_name_key a\<rparr>"

lemma create_artifacts_Inr:
  "forT (create_artifact uc revision) prepared s = Inr (u, t) \<Longrightarrow>
     \<exists>as. artifacts t = artifacts s @ as \<and> list_all2 (artifact_of uc) prepared as \<and>
       (\<forall>a \<in> set as. a_revision a = r_id revision)"
proof (induction prepared arbitrary: s u)
  case (Cons item items)
  obtain a m where a: "create_artifact uc revision item s = Inr (a, m)"
    "\<exists>u. forT (create_artifact uc revision) items m = Inr (u, t)"
    using Cons.prems by (auto simp: txn_InrD)
  have "artifacts m = artifacts s @ [a] \<and> artifact_of uc item a \<and> a_revision a = r_id revision"
    using a(1) unfolding create_artifact_def
    by (auto simp: txn_InrD environment_run artifact_of_def dest!: artifact_save_Inr)
  moreover obtain as where "artifacts t = artifacts m @ as" "list_all2 (artifact_of uc) items as"
    "\<forall>x \<in> set as. a_revision x = r_id revision"
    using a(2) Cons.IH by blast
  ultimately show ?case by (intro exI [of _ "a # as"]) auto
qed (auto simp: txn_InrD)

lemma revision_writes_artifacts:
  "obeys (\<lambda>s t. artifacts t = artifacts s) (audit_create et a d r u md)"
  "obeys (\<lambda>s t. artifacts t = artifacts s) (dashboard_save adding fs dash)"
  "obeys (\<lambda>s t. artifacts t = artifacts s) (lock_artifacts i)"
  "obeys (\<lambda>s t. artifacts t = artifacts s) (revision_save adding rv)"
  "obeys (\<lambda>s t. artifacts t = artifacts s) (delete_reservations ids)"
  by (rule obeysI, auto simp: delete_reservations_def writeT_eq_Inr
      dest!: audit_create_Inr dashboard_save_frame lock_frame revision_frame)+

interpretation content_untouched: effect_order "\<lambda>s t. artifacts t = artifacts s"
  by unfold_locales simp_all


interpretation reading: effect_order "\<lambda>s t. t = s"
  by unfold_locales simp_all

lemma check_prepared_reads: "obeys (\<lambda>s t. t = s) (forT (check_prepared rs) prepared)"
  unfolding check_prepared_def by (intro obeys_intros reading.txn_orders)

text \<open>What a successful metadata commit did, write by write.\<close>

lemma commit_revision_Inr:
  assumes "commit_revision_metadata uc dashboard_id created_by_id prepared s = Inr (rv, t)"
  obtains dash creator number revision s1 s2 s3 dash' s4 ev s5 u v where
    "filter (\<lambda>d. d_id d = dashboard_id) (dashboards s) = [dash]" "d_owner dash = created_by_id"
    "filter (\<lambda>u. u_id u = created_by_id) (users s) = [creator]" "u_is_active creator"
    "d_state dash \<in> set accepting_states"
    "length (filter (\<lambda>r. sr_id r \<in> set (map pa_reservation_id prepared)) (reservations s)) = length prepared"
    "forT (check_prepared (filter (\<lambda>r. sr_id r \<in> set (map pa_reservation_id prepared)) (reservations s))) prepared s
       = Inr (u, s)"
    "next_revision_number dash s = Inr number"
    "revision_save True \<lparr>r_id = uuids s (uuid_draws s), r_dashboard = d_id dash, r_number = number,
       r_created_by = created_by_id, r_created_at = 0, r_artifacts_locked = False\<rparr>
       (s\<lparr>uuid_draws := Suc (uuid_draws s)\<rparr>) = Inr (revision, s1)"
    "forT (create_artifact uc revision) prepared s1 = Inr (v, s2)"
    "lock_artifacts (r_id revision) s2 = Inr (Suc 0, s3)"
    "dashboard_save False (Some [''latest_revision'', ''updated_at'']) (dash\<lparr>d_latest_revision := Some (r_id revision)\<rparr>) s3
       = Inr (dash', s4)"
    "audit_create ''revision.created'' (Some created_by_id) (Some (d_id dash')) (Some (r_id revision)) None
       [(''artifact_count'', MInt (length prepared)), (''revision_number'', MInt number)] s4 = Inr (ev, s5)"
    "delete_reservations (map pa_reservation_id prepared) s5 = Inr ((), t)"
    "rv = revision\<lparr>r_artifacts_locked := True\<rparr>"
proof -
  let ?rs = "filter (\<lambda>r. sr_id r \<in> set (map pa_reservation_id prepared)) (reservations s)"
  obtain dash where dash: "filter (\<lambda>d. d_id d = dashboard_id) (dashboards s) = [dash]" "d_owner dash = created_by_id"
  proof (cases "get_one_or_none (filter (\<lambda>d. d_id d = dashboard_id) (dashboards s))")
    case (Inl e)
    then show thesis using assms unfolding commit_revision_metadata_def by (simp add: txn_run)
  next
    case (Inr x)
    then show thesis
      using assms that unfolding commit_revision_metadata_def
      by (cases x) (simp_all add: txn_run split: if_split_asm)
  qed
  obtain creator where creator: "filter (\<lambda>u. u_id u = created_by_id) (users s) = [creator]" "u_is_active creator"
  proof (cases "get_one_or_none (filter (\<lambda>u. u_id u = created_by_id) (users s))")
    case (Inl e)
    then show thesis using assms dash unfolding commit_revision_metadata_def by (simp add: txn_run)
  next
    case (Inr x)
    then show thesis
      using assms dash that unfolding commit_revision_metadata_def
      by (cases x) (simp_all add: txn_run split: if_split_asm)
  qed
  have "d_state dash \<in> set accepting_states" "length ?rs = length prepared"
    using assms dash creator unfolding commit_revision_metadata_def Let_def
    by (simp_all add: txn_run split: if_split_asm)
  note pre = dash creator this
  have run: "bindT (forT (check_prepared ?rs) prepared) (\<lambda>_.
     bindT (queryT (next_revision_number dash)) (\<lambda>next_number.
     bindT uuid4 (\<lambda>i.
     bindT (revision_save True
       \<lparr>r_id = i, r_dashboard = d_id dash, r_number = next_number, r_created_by = created_by_id,
        r_created_at = 0, r_artifacts_locked = False\<rparr>) (\<lambda>revision.
     bindT (forT (create_artifact uc revision) prepared) (\<lambda>_.
     bindT (lock_artifacts (r_id revision)) (\<lambda>locked.
     if locked \<noteq> 1
     then raiseT (RevisionCreationError ''revision artifacts could not be finalized'')
     else
     bindT (dashboard_save False (Some [''latest_revision'', ''updated_at''])
       (dash\<lparr>d_latest_revision := Some (r_id revision)\<rparr>)) (\<lambda>dashboard.
     bindT (audit_create ''revision.created'' (Some created_by_id) (Some (d_id dashboard))
       (Some (r_id revision)) None
       [(''artifact_count'', MInt (length prepared)), (''revision_number'', MInt next_number)]) (\<lambda>_.
     bindT (delete_reservations (map pa_reservation_id prepared)) (\<lambda>_.
     returnT (revision\<lparr>r_artifacts_locked := True\<rparr>)))))))))) s = Inr (rv, t)"
    using assms pre unfolding commit_revision_metadata_def Let_def by (simp add: txn_run)
  obtain u s' where c: "forT (check_prepared ?rs) prepared s = Inr (u, s')"
    using run by (auto simp: bindT_eq_Inr)
  have "s' = s" using obeysD [OF check_prepared_reads c] .
  with c have c: "forT (check_prepared ?rs) prepared s = Inr (u, s)" by simp
  show thesis
    using run unfolding bindT_run [of "forT (check_prepared ?rs) prepared", OF c]
    apply (simp only: bindT_eq_Inr queryT_eq_Inr environment_run)
    apply (elim exE conjE)
    apply (simp split: if_split_asm)
    apply (simp only: bindT_eq_Inr returnT_eq_Inr)
    apply (elim exE conjE)
    apply (rule that [OF pre c], assumption)
           apply (simp | assumption)+
    done
qed

text \<open>The metadata commit adds one artifact per prepared payload, with the receipt it was prepared from.\<close>

lemma commit_revision_artifacts:
  assumes "commit_revision_metadata uc dashboard_id created_by_id prepared s = Inr (rv, t)"
  shows "\<exists>as. artifacts t = artifacts s @ as \<and> list_all2 (artifact_of uc) prepared as \<and>
    (\<forall>a \<in> set as. a_revision a = r_id rv)"
proof (rule commit_revision_Inr [OF assms])
  fix dash creator number and revision :: revision and s1 s2 s3 dash' s4 ev s5 u v
  assume r: "revision_save True \<lparr>r_id = uuids s (uuid_draws s), r_dashboard = d_id dash, r_number = number,
       r_created_by = created_by_id, r_created_at = 0, r_artifacts_locked = False\<rparr>
       (s\<lparr>uuid_draws := Suc (uuid_draws s)\<rparr>) = Inr (revision, s1)"
    and a: "forT (create_artifact uc revision) prepared s1 = Inr (v, s2)"
    and rest: "lock_artifacts (r_id revision) s2 = Inr (Suc 0, s3)"
      "dashboard_save False (Some [''latest_revision'', ''updated_at'']) (dash\<lparr>d_latest_revision := Some (r_id revision)\<rparr>) s3
       = Inr (dash', s4)"
      "audit_create ''revision.created'' (Some created_by_id) (Some (d_id dash')) (Some (r_id revision)) None
       [(''artifact_count'', MInt (length prepared)), (''revision_number'', MInt number)] s4 = Inr (ev, s5)"
      "delete_reservations (map pa_reservation_id prepared) s5 = Inr ((), t)"
    and rv: "rv = revision\<lparr>r_artifacts_locked := True\<rparr>"
  have "artifacts s1 = artifacts s" "artifacts t = artifacts s2"
    using obeysD [OF revision_writes_artifacts(4) r] obeysD [OF revision_writes_artifacts(3) rest(1)]
      obeysD [OF revision_writes_artifacts(2) rest(2)] obeysD [OF revision_writes_artifacts(1) rest(3)]
      obeysD [OF revision_writes_artifacts(5) rest(4)] by simp_all
  then show ?thesis using create_artifacts_Inr [OF a] rv by simp
qed

section \<open>What the procedures do to the stored bytes\<close>

text \<open>Nothing that is stored changes, or nothing an artifact owns.\<close>

definition adds_bytes :: "('f \<Rightarrow> bool) \<Rightarrow> ('f \<Rightarrow> text \<Rightarrow> text option) \<Rightarrow> db \<times> 'f \<Rightarrow> db \<times> 'f \<Rightarrow> bool" where
  "adds_bytes coh content w v \<longleftrightarrow> core_tables (fst v) = core_tables (fst w) \<and>
     (coh (snd w) \<longrightarrow> coh (snd v) \<and>
       (\<forall>k b. canonical_key k \<and> content (snd w) k = Some b \<longrightarrow> content (snd v) k = Some b))"

definition keeps_owned :: "('f \<Rightarrow> bool) \<Rightarrow> ('f \<Rightarrow> text \<Rightarrow> text option) \<Rightarrow> db \<times> 'f \<Rightarrow> db \<times> 'f \<Rightarrow> bool" where
  "keeps_owned coh content w v \<longleftrightarrow> core_tables (fst v) = core_tables (fst w) \<and>
     (coh (snd w) \<longrightarrow> coh (snd v) \<and>
       (\<forall>k b. canonical_key k \<and> artifact_owns k (fst w) \<and> content (snd w) k = Some b \<longrightarrow>
          content (snd v) k = Some b))"

lemma artifact_owns_core: "core_tables t = core_tables s \<Longrightarrow> artifact_owns k t = artifact_owns k s"
  by (simp add: core_tables_def artifact_owns_def)

lemma adds_bytes_order: "reflp (adds_bytes coh content)" "transp (adds_bytes coh content)"
  by (auto simp: adds_bytes_def intro!: reflpI transpI)

lemma keeps_owned_order: "reflp (keeps_owned coh content)" "transp (keeps_owned coh content)"
proof -
  show "reflp (keeps_owned coh content)" by (simp add: keeps_owned_def reflpI)
  show "transp (keeps_owned coh content)"
    unfolding keeps_owned_def by (intro transpI) (metis artifact_owns_core)
qed

lemma keeps_owned_refl [simp]: "keeps_owned coh content w w"
  by (simp add: keeps_owned_def)

lemma adds_bytes_owned: "adds_bytes coh content w v \<Longrightarrow> keeps_owned coh content w v"
  by (auto simp: adds_bytes_def keeps_owned_def)

lemma adds_atomic:
  fixes coh :: "'f \<Rightarrow> bool"
  assumes "obeys (\<lambda>s t. core_tables t = core_tables s) m"
  shows "keeps (adds_bytes coh content) (atomicP m)"
proof (rule keepsI)
  fix w :: "db \<times> 'f" and r v assume "atomicP m w = (r, v)"
  then show "adds_bytes coh content w v"
    using obeysD [OF assms] by (auto simp: atomicP_def adds_bytes_def split: prod.split_asm sum.split_asm)
qed

lemma keeps_captureP: "keeps R m \<Longrightarrow> keeps R (captureP m)"
  unfolding keeps_def captureP_def by (metis prod.collapse case_prod_conv snd_conv)

lemma keeps_sum: "(\<And>e. x = Inl e \<Longrightarrow> keeps R (f e)) \<Longrightarrow> (\<And>a. x = Inr a \<Longrightarrow> keeps R (g a)) \<Longrightarrow>
    keeps R (case x of Inl e \<Rightarrow> f e | Inr a \<Rightarrow> g a)"
  by (cases x) auto

lemmas adds_rules = keeps_cases keeps_sum keeps_captureP keeps_intros adds_bytes_order adds_atomic
  reservation_obeys core_untouched.txn_orders

lemma adds_quietly:
  "obeys (\<lambda>s t. core_tables t = core_tables s) m \<Longrightarrow> keeps (adds_bytes coh content) (quietly m)"
  unfolding quietly_def by (intro adds_rules)

lemma draws_obey:
  "obeys (\<lambda>s t. core_tables t = core_tables s) draw_secret"
  "obeys (\<lambda>s t. core_tables t = core_tables s) uuid4"
  by (rule obeysI, erule core_of_side_writes)+

lemma adds_reserve: "keeps (adds_bytes coh content) (reserve_storage_key n)"
  by (induction n) (simp_all only: reserve_storage_key.simps, (intro adds_rules draws_obey | assumption)+)

lemma reserved_row:
  "reserve_once key i s = Inr (r, t) \<Longrightarrow> sr_storage_key r = key"
  unfolding reserve_once_def by (auto simp: txn_InrD environment_run dest!: reservation_save_add_Inr)

lemma reserve_storage_key_canonical:
  fixes w v :: "db \<times> 'f"
  shows "reserve_storage_key n w = (Inr r, v) \<Longrightarrow> canonical_key (sr_storage_key r)"
proof (induction n arbitrary: w)
  case (Suc n)
  define alloc :: "text \<Rightarrow> ('f, reservation) proc" where "alloc token = bindP (atomicP (readT (artifact_owns (generate_key token)))) (\<lambda>owned.
     if owned then reserve_storage_key n
     else bindP (atomicP uuid4) (\<lambda>i.
     tryP (atomicP (reserve_once (generate_key token) i))
       (\<lambda>e. if e = IntegrityError then reserve_storage_key n else raiseP e)))" for token
  have "reserve_storage_key (Suc n) = bindP (atomicP draw_secret) (\<lambda>token.
     if \<not> canonical_key (generate_key token) then raiseP InvalidStorageKey else alloc token)"
    unfolding alloc_def reserve_storage_key.simps ..
  then obtain token w1 where "(if \<not> canonical_key (generate_key token) then raiseP InvalidStorageKey else alloc token) w1
      = (Inr r, v)"
    using Suc.prems by (auto simp only: bindP_eq_Inr)
  then have 1: "canonical_key (generate_key token)" "alloc token w1 = (Inr r, v)"
    by (cases "canonical_key (generate_key token)"; simp)+
  from 1(2) obtain owned w2 where 2: "(if owned then reserve_storage_key n
     else bindP (atomicP uuid4) (\<lambda>i.
     tryP (atomicP (reserve_once (generate_key token) i))
       (\<lambda>e. if e = IntegrityError then reserve_storage_key n else raiseP e))) w2 = (Inr r, v)"
    unfolding alloc_def by (auto simp only: bindP_eq_Inr)
  show ?case
  proof (cases owned)
    case True
    then show ?thesis using 2 Suc.IH by simp
  next
    case False
    then obtain i w3 where "tryP (atomicP (reserve_once (generate_key token) i))
       (\<lambda>e. if e = IntegrityError then reserve_storage_key n else raiseP e) w3 = (Inr r, v)"
      using 2 by (auto simp: bindP_eq_Inr simp del: fun_upd_apply)
    then show ?thesis
      unfolding tryP_eq_Inr
    proof (elim disjE exE conjE)
      assume "atomicP (reserve_once (generate_key token) i) w3 = (Inr r, v)"
      then have "sr_storage_key r = generate_key token"
        by (auto simp: atomicP_def dest: reserved_row split: prod.split_asm sum.split_asm)
      then show ?thesis using 1(1) by simp
    next
      fix e u
      assume "(if e = IntegrityError then reserve_storage_key n else raiseP e) u = (Inr r, v)"
      then show ?thesis using Suc.IH by (auto split: if_split_asm)
    qed
  qed
qed simp

text \<open>The bytes an artifact names are stored under its key.\<close>

definition artifact_held ::
  "('f \<Rightarrow> text \<Rightarrow> text option) \<Rightarrow> (text \<Rightarrow> text) \<Rightarrow> 'f \<Rightarrow> artifact \<Rightarrow> bool" where
  "artifact_held content sha256 f a \<longleftrightarrow> canonical_key (a_storage_key a) \<and>
     (\<exists>b. content f (a_storage_key a) = Some b \<and> length b = a_byte_size a \<and> sha256 b = a_sha256 a)"

text \<open>A prepared artifact, or the artifact made of it, stands for a payload with exactly its bytes.\<close>

definition payload_prepared ::
  "('f \<Rightarrow> text \<Rightarrow> text option) \<Rightarrow> (text \<Rightarrow> text) \<Rightarrow> unicode \<Rightarrow> 'f \<Rightarrow> artifact_payload \<times> logical_name \<Rightarrow>
     prepared_artifact \<Rightarrow> bool" where
  "payload_prepared content sha256 uc f pn item \<longleftrightarrow>
     (let rc = pa_receipt item; bytes = concat (p_chunks (fst pn)) in
      canonical_key (sa_key rc) \<and> content f (sa_key rc) = Some bytes \<and>
      sa_byte_size rc = length bytes \<and> sa_sha256 rc = sha256 bytes \<and>
      pa_kind item = p_kind (fst pn) \<and> pa_name item = snd pn \<and>
      authoritative_media_type uc (fst pn) = Inr (pa_media_type item))"

definition payload_stored ::
  "('f \<Rightarrow> text \<Rightarrow> text option) \<Rightarrow> (text \<Rightarrow> text) \<Rightarrow> unicode \<Rightarrow> 'f \<Rightarrow> artifact_payload \<times> logical_name \<Rightarrow>
     artifact \<Rightarrow> bool" where
  "payload_stored content sha256 uc f pn a \<longleftrightarrow>
     canonical_key (a_storage_key a) \<and> content f (a_storage_key a) = Some (concat (p_chunks (fst pn))) \<and>
     a_byte_size a = length (concat (p_chunks (fst pn))) \<and> a_sha256 a = sha256 (concat (p_chunks (fst pn))) \<and>
     a_kind a = p_kind (fst pn) \<and>
     normalize_logical_name uc (display (snd pn)) =
       Inr \<lparr>display = a_logical_name a, comparison_key = a_name_key a\<rparr> \<and>
     authoritative_media_type uc (fst pn) = Inr (a_media_type a)"

lemma payload_prepared_adds:
  "adds_bytes coh content w v \<Longrightarrow> coh (snd w) \<Longrightarrow> payload_prepared content sha256 uc (snd w) pn item \<Longrightarrow>
     payload_prepared content sha256 uc (snd v) pn item"
  unfolding adds_bytes_def payload_prepared_def Let_def by blast

lemma payload_stored_of:
  "payload_prepared content sha256 uc f pn item \<Longrightarrow> artifact_of uc item a \<Longrightarrow> payload_stored content sha256 uc f pn a"
  by (auto simp: payload_prepared_def payload_stored_def artifact_of_def Let_def)

lemma payload_stored_held: "payload_stored content sha256 uc f pn a \<Longrightarrow> artifact_held content sha256 f a"
  by (simp add: payload_stored_def artifact_held_def)

lemma artifact_held_kept:
  "keeps_owned coh content w v \<Longrightarrow> coh (snd w) \<Longrightarrow> a \<in> set (artifacts (fst w)) \<Longrightarrow>
     artifact_held content sha256 (snd w) a \<Longrightarrow> artifact_held content sha256 (snd v) a"
  unfolding keeps_owned_def artifact_held_def artifact_owns_def has_row_iff by blast

lemma bindP_run: "m w = (Inr a, v) \<Longrightarrow> bindP m f w = f a v"
  by (simp add: bindP_def)

context artifact_storage
begin

lemma adds_write:
  assumes "canonical_key key"
  shows "keeps (adds_bytes coherent content) (storageP (st_write ops key chunks n d))"
proof (rule keepsI)
  fix w r v assume run: "storageP (st_write ops key chunks n d) w = (r, v)"
  obtain s f where w: "w = (s, f)" by (cases w)
  obtain res g where g: "st_write ops key chunks n d f = (res, g)" "v = (s, g)"
    using run w by (auto simp: storageP_def Let_def split: prod.split_asm)
  have "content g k = Some b" if "coherent f" "canonical_key k" "content f k = Some b" for k b
  proof (cases "k = key")
    case True
    then show ?thesis
      using write_receipt [OF assms that(1) g(1)] write_failed [OF assms that(1) g(1)] that(3)
      by (cases "receipt_of res") auto
  next
    case False
    then show ?thesis using write_frame [OF assms that(1) g(1)] that by simp
  qed
  then show "adds_bytes coherent content w v"
    using write_sound [OF assms _ g(1)] w g(2) by (auto simp: adds_bytes_def)
qed

lemma adds_store: "keeps (adds_bytes coherent content) (store_payloads uc ops pns cs prepared)"
proof (induction pns arbitrary: cs prepared)
  case (Cons pn pns)
  show ?case
    unfolding store_payloads.simps Let_def
    by (intro adds_rules adds_reserve) 
      (auto split: write_result.split intro!: adds_rules adds_write adds_quietly Cons)
qed (simp add: keeps_return adds_bytes_order)

lemma store_payloads_stored:
  assumes "store_payloads uc ops pns cs prepared w = (Inr (cs', Inr prepared'), v)" "coherent (snd w)"
    "list_all2 (payload_prepared content sha256 uc (snd w)) before prepared"
  shows "list_all2 (payload_prepared content sha256 uc (snd v)) (before @ pns) prepared'"
  using assms
proof (induction pns arbitrary: cs prepared before w)
  case Nil
  then show ?case by simp
next
  case (Cons pn pns)
  define put where "put r = (storageP (st_write ops (sr_storage_key r) (p_chunks (fst pn))
     (Some (p_expected_size (fst pn))) (Some (p_expected_sha256 (fst pn)))) :: ('f, write_result) proc)" for r :: reservation
  obtain x w1 where x: "captureP (reserve_storage_key key_attempts) w = (Inr x, w1)"
    by (cases "reserve_storage_key key_attempts w") (auto simp: captureP_def)
  note run = Cons.prems(1) [unfolded store_payloads.simps bindP_run [of "captureP (reserve_storage_key key_attempts) :: ('f, exn + reservation) proc", OF x]]
  obtain r where r: "x = Inr r" "canonical_key (sr_storage_key r)"
    using run by (cases x) (auto split: if_split_asm)
  obtain res w2 where w2: "put r w1 = (Inr res, w2)"
    by (cases w1; cases "st_write ops (sr_storage_key r) (p_chunks (fst pn)) (Some (p_expected_size (fst pn)))
      (Some (p_expected_sha256 (fst pn))) (snd w1)") (auto simp: put_def storageP_def)
  note run = run [unfolded r(1) sum.case, simplified r(2) not_True_eq_False if_False, folded put_def, unfolded bindP_run [of "put r", OF w2]]
  obtain receipt where receipt: "res = Receipt receipt"
    using run by (cases res) (auto simp: bindP_eq_Inr)
  obtain m w3 where m: "captureP (atomicP (mark_reservation_verified (sr_id r) receipt)) w2 = (Inr m, w3)"
    by (cases "atomicP (mark_reservation_verified (sr_id r) receipt) w2") (auto simp: captureP_def)
  note run = run [unfolded receipt write_result.case bindP_run [of "captureP (atomicP (mark_reservation_verified (sr_id r) receipt)) :: ('f, exn + unit) proc", OF m] Let_def]
  let ?item = "\<lambda>mt. \<lparr>pa_reservation_id = sr_id r, pa_name = snd pn, pa_kind = p_kind (fst pn),
     pa_receipt = receipt, pa_media_type = mt\<rparr>"
  obtain mt where rest: "store_payloads uc ops pns (cs @ [(candidate r)\<lparr>cc_owns_bytes := True\<rparr>]) (prepared @ [?item mt]) w3
      = (Inr (cs', Inr prepared'), v)"
    and media: "authoritative_media_type uc (fst pn) = Inr mt"
    using run by (cases m; cases "authoritative_media_type uc (fst pn)") auto
  have "keeps (adds_bytes coherent content) (captureP (reserve_storage_key key_attempts :: ('f, reservation) proc))"
    by (intro adds_rules adds_reserve)
  from keepsD [OF this x] have a1: "adds_bytes coherent content w w1" .
  have a2: "adds_bytes coherent content w1 w2"
    using keepsD [OF adds_write [OF r(2)] w2 [unfolded put_def]] .
  have "keeps (adds_bytes coherent content) (captureP (atomicP (mark_reservation_verified (sr_id r) receipt)) :: ('f, exn + unit) proc)"
    by (intro adds_rules)
  from keepsD [OF this m] have a3: "adds_bytes coherent content w2 w3" .
  have coh: "coherent (snd w1)" "coherent (snd w2)" "coherent (snd w3)"
    using a1 a2 a3 Cons.prems(2) by (auto simp: adds_bytes_def)
  have "adds_bytes coherent content w w3"
    using a1 a2 a3 adds_bytes_order(2) by (meson transpD)
  then have kept: "payload_prepared content sha256 uc (snd w3) pn item"
    if "payload_prepared content sha256 uc (snd w) pn item" for pn item
    using payload_prepared_adds [of coherent content w w3 sha256 uc pn item] Cons.prems(2) that by blast
  have old: "list_all2 (payload_prepared content sha256 uc (snd w3)) before prepared"
    by (rule list_all2_mono [OF Cons.prems(3) kept])
  have "payload_prepared content sha256 uc (snd w2) pn (?item mt)"
  proof -
    have "st_write ops (sr_storage_key r) (p_chunks (fst pn)) (Some (p_expected_size (fst pn)))
      (Some (p_expected_sha256 (fst pn))) (snd w1) = (Receipt receipt, snd w2)"
      using w2 receipt by (cases w1) (auto simp: put_def storageP_def Let_def split: prod.split_asm)
    from write_receipt [OF r(2) coh(1) this, of receipt] show ?thesis
      using r(2) media by (auto simp: payload_prepared_def receipt_of_def)
  qed
  then have new: "payload_prepared content sha256 uc (snd w3) pn (?item mt)"
    using payload_prepared_adds [OF a3 coh(2)] by blast
  have "list_all2 (payload_prepared content sha256 uc (snd w3)) (before @ [pn]) (prepared @ [?item mt])"
    using old new by (simp add: list_all2_appendI)
  from Cons.IH [OF rest coh(3) this] show ?case by simp
qed

text \<open>A cleanup removes bytes only where no artifact owns the key.\<close>

lemma perform_cleanup_kept:
  assumes "perform_cleanup ops action w = (res, v)"
    and "\<And>r. action = RemoveBytes r \<Longrightarrow> \<not> artifact_owns (sr_storage_key r) (fst w)"
  shows "keeps_owned coherent content w v"
proof (cases "\<exists>r. action = RemoveBytes r \<and> canonical_key (sr_storage_key r)")
  case False
  have "keeps (adds_bytes coherent content) (perform_cleanup ops action)"
    using False unfolding perform_cleanup_def
    by (cases action) (auto intro!: adds_rules split: delete_result.split)
  from keepsD [OF this assms(1)] show ?thesis by (rule adds_bytes_owned)
next
  case True
  then obtain r where r: "action = RemoveBytes r" "canonical_key (sr_storage_key r)" by blast
  let ?k = "sr_storage_key r"
  define finish :: "delete_result \<Rightarrow> ('f, bool) proc" where
    "finish result = (case result of
          Deleted \<Rightarrow> bindP (atomicP (drop_row r)) (\<lambda>_. returnP True)
        | DeleteFailed \<Rightarrow> bindP (atomicP (require_cleanup r)) (\<lambda>_. returnP False))" for result
  obtain d g where g: "st_delete ops ?k (snd w) = (d, g)" by (cases "st_delete ops ?k (snd w)")
  have fin: "keeps (adds_bytes coherent content) (finish result)" for result
    unfolding finish_def by (cases result) (auto intro!: adds_rules)
  have "storageP (st_delete ops ?k) w = (Inr d, (fst w, g))"
    using g by (cases w) (simp add: storageP_def)
  then have "finish d (fst w, g) = (res, v)"
    using assms(1) r unfolding perform_cleanup_def finish_def
    by (simp add: bindP_run [of "storageP (st_delete ops (sr_storage_key r))"])
  from keepsD [OF fin this] have after: "adds_bytes coherent content (fst w, g) v" .
  have "keeps_owned coherent content w (fst w, g)"
  proof -
    have "content g k = content (snd w) k" if "coherent (snd w)" "canonical_key k" "artifact_owns k (fst w)" for k
      using delete_frame [OF r(2) that(1) g that(2)] assms(2) [OF r(1)] that(3) by metis
    then show ?thesis using delete_sound [OF r(2) _ g] by (simp add: keeps_owned_def)
  qed
  then show ?thesis using adds_bytes_owned [OF after] keeps_owned_order(2) by (meson transpD)
qed

lemma unowned_action_removes:
  "unowned_action c s = Inr (RemoveBytes r) \<Longrightarrow> \<not> artifact_owns (sr_storage_key r) s"
  unfolding unowned_action_def
  by (cases "get_one_or_none (filter (\<lambda>r. sr_id r = cc_reservation_id c) (reservations s))")
    (simp_all split: option.split_asm if_split_asm)

lemma expired_action_removes:
  "expired_action i cutoff s = Inr (RemoveBytes r) \<Longrightarrow> \<not> artifact_owns (sr_storage_key r) s"
  unfolding expired_action_def
  by (cases "get_one_or_none (filter (\<lambda>r. sr_id r = i \<and> sr_expires_at r \<le> cutoff) (reservations s))")
    (simp_all split: option.split_asm if_split_asm)

lemma decided_cleanup_kept:
  assumes "\<And>s r. decide s = Inr (RemoveBytes r) \<Longrightarrow> \<not> artifact_owns (sr_storage_key r) s"
  shows "keeps (keeps_owned coherent content) (bindP (atomicP (queryT decide)) (perform_cleanup ops))"
proof (rule keepsI)
  fix w r v assume run: "bindP (atomicP (queryT decide)) (perform_cleanup ops) w = (r, v)"
  show "keeps_owned coherent content w v"
  proof (cases "decide (fst w)")
    case (Inl e)
    then have "v = w" using run by (cases w) (auto simp: bindP_def atomicP_def queryT_def)
    then show ?thesis by simp
  next
    case (Inr action)
    then have "perform_cleanup ops action w = (r, v)"
      using run by (cases w) (auto simp: bindP_def atomicP_def queryT_def)
    then show ?thesis using perform_cleanup_kept assms Inr by blast
  qed
qed

lemma cleanup_unowned_kept: "keeps (keeps_owned coherent content) (cleanup_unowned ops cs)"
  by (induction cs)
    (simp_all only: cleanup_unowned.simps,
      (intro keeps_intros keeps_owned_order decided_cleanup_kept | assumption | erule unowned_action_removes)+)

lemma cleanup_rows_kept: "keeps (keeps_owned coherent content) (cleanup_rows ops cutoff ids acc)"
proof (induction ids arbitrary: acc)
  case (Cons i ids)
  define more :: "cleanup_action \<Rightarrow> bool \<Rightarrow> ('f, cleanup_result) proc" where
    "more action removed = cleanup_rows ops cutoff ids
       (if removed then acc\<lparr>cr_removed := cr_removed acc + 1\<rparr>
        else if action = Skip then acc else acc\<lparr>cr_retained := cr_retained acc + 1\<rparr>)" for action removed
  show ?case
  proof (rule keepsI)
    fix w r v assume run: "cleanup_rows ops cutoff (i # ids) acc w = (r, v)"
    obtain x w1 where x: "atomicP (queryT (expired_action i cutoff)) w = (x, w1)"
      by (cases "atomicP (queryT (expired_action i cutoff)) w")
    have w1: "w1 = w" using x by (cases w) (auto simp: atomicP_def queryT_def split: sum.split_asm)
    show "keeps_owned coherent content w v"
    proof (cases x)
      case (Inl e)
      then have "v = w" using run x w1 by (simp add: bindP_def)
      then show ?thesis by simp
    next
      case (Inr action)
      then have dec: "expired_action i cutoff (fst w) = Inr action"
        using x by (cases w) (auto simp: atomicP_def queryT_def split: sum.split_asm)
      obtain y w2 where y: "perform_cleanup ops action w = (y, w2)" by (cases "perform_cleanup ops action w")
      have k: "keeps_owned coherent content w w2"
        by (rule perform_cleanup_kept [OF y]) (use dec expired_action_removes in blast)
      have "keeps_owned coherent content w2 v"
      proof (cases y)
        case (Inl e)
        then have "v = w2" using run x w1 Inr y by (simp add: bindP_def)
        then show ?thesis by simp
      next
        case (Inr removed)
        then have "more action removed w2 = (r, v)"
          using run x w1 \<open>x = Inr action\<close> y by (simp add: bindP_def more_def)
        then show ?thesis using keepsD [OF Cons.IH] unfolding more_def by blast
      qed
      with k show ?thesis using keeps_owned_order(2) by (meson transpD)
    qed
  qed
qed (simp add: keeps_return keeps_owned_order)

lemma now_or_obeys: "obeys (\<lambda>s t. core_tables t = core_tables s) (now_or now)"
  unfolding now_or_def
  by (intro side_rules; rule obeysI, erule core_of_side_writes)

lemma keeps_owned_atomic:
  "obeys (\<lambda>s t. core_tables t = core_tables s) m \<Longrightarrow> keeps (keeps_owned coherent content) (atomicP m)"
  using adds_atomic [of m coherent content] adds_bytes_owned unfolding keeps_def by blast

lemma cleanup_expired_kept: "keeps (keeps_owned coherent content) (cleanup_expired_reservations ops now limit)"
  unfolding cleanup_expired_reservations_def
  by (intro keeps_cases keeps_intros keeps_owned_order keeps_owned_atomic core_untouched.txn_orders
      now_or_obeys cleanup_rows_kept)

text \<open>
  A complete revision: either it returns, and every artifact of it holds the bytes of its payload, or
  it raises, and the core tables are as they were and no owned bytes have changed.
\<close>

lemma create_complete_revision_exact:
  assumes run: "create_complete_revision uc ops d u payloads w = (r, v)" and coh: "coherent (snd w)"
  shows "(\<exists>e. r = Inl e \<and> keeps_owned coherent content w v) \<or>
    (\<exists>rv as names. r = Inr rv \<and> coherent (snd v) \<and> artifacts (fst v) = artifacts (fst w) @ as \<and>
      (\<forall>a \<in> set as. a_revision a = r_id rv) \<and>
      (\<forall>k b. canonical_key k \<and> content (snd w) k = Some b \<longrightarrow> content (snd v) k = Some b) \<and>
      validate_payload_set uc payloads = Inr names \<and>
      list_all2 (payload_stored content sha256 uc (snd v)) (zip payloads names) as)"
proof (cases "validate_payload_set uc payloads")
  case (Inl e)
  then have "r = Inl e" "v = w" using run by (auto simp: create_complete_revision_def)
  then show ?thesis by simp
next
  case names: (Inr names)
  define finish :: "cleanup_candidate list \<times> (exn + prepared_artifact list) \<Rightarrow> ('f, revision) proc" where
    "finish = (\<lambda>(cs, prepared).
      bindP (case prepared of
          Inl e \<Rightarrow> returnP (Inl e)
        | Inr prepared \<Rightarrow> captureP (atomicP (commit_revision_metadata uc d u prepared))) (\<lambda>outcome.
      case outcome of
        Inr revision \<Rightarrow> returnP revision
      | Inl e \<Rightarrow> bindP (cleanup_unowned ops cs) (\<lambda>_. raiseP e)))"
  define accept :: "('f, bool) proc" where "accept = atomicP (readT (accepts_revision d u))"
  have acc: "accept w = (Inr (accepts_revision d u (fst w)), w)"
    by (cases w) (simp add: accept_def atomicP_def readT_def)
  have "(if \<not> accepts_revision d u (fst w)
      then raiseP (RevisionCreationError ''revision creator must own an active revision-accepting dashboard'')
      else bindP (store_payloads uc ops (zip payloads names) [] []) finish) w = (r, v)"
    using run names unfolding create_complete_revision_def accept_def [symmetric] finish_def
    by (simp only: sum.case bindP_run [of accept, OF acc])
  then consider "\<exists>e. r = Inl e \<and> v = w" | "bindP (store_payloads uc ops (zip payloads names) [] []) finish w = (r, v)"
    by (cases "accepts_revision d u (fst w)") auto
  then show ?thesis
  proof cases
    case 1
    then show ?thesis by auto
  next
    case 2
    obtain x w1 where x: "store_payloads uc ops (zip payloads names) [] [] w = (x, w1)"
      by (cases "store_payloads uc ops (zip payloads names) [] [] w")
    note a1 = keepsD [OF adds_store x]
    have coh1: "coherent (snd w1)" using a1 coh by (simp add: adds_bytes_def)
    show ?thesis
    proof (cases x)
      case (Inl e)
      then have "r = Inl e" "v = w1" using 2 x by (simp_all add: bindP_def)
      then show ?thesis using adds_bytes_owned [OF a1] by blast
    next
      case (Inr y)
      obtain cs p where y: "y = (cs, p)" by (cases y)
      define outcome where "outcome = (case p of Inl e \<Rightarrow> Inl e
        | Inr prepared \<Rightarrow> (case commit_revision_metadata uc d u prepared (fst w1) of
            Inl e \<Rightarrow> Inl e | Inr (rv, t) \<Rightarrow> Inr (rv, t)))"
      have fin: "finish (cs, p) w1 = (case outcome of
          Inr (rv, t) \<Rightarrow> (Inr rv, (t, snd w1))
        | Inl e \<Rightarrow> bindP (cleanup_unowned ops cs) (\<lambda>_. raiseP e) w1)"
        by (cases w1) (auto simp: finish_def outcome_def bindP_def captureP_def atomicP_def returnP_def split: sum.split)
      have rv: "finish (cs, p) w1 = (r, v)"
        using 2 unfolding bindP_run [of "store_payloads uc ops (zip payloads names) [] []", OF x [unfolded Inr y]] .
      show ?thesis
      proof (cases outcome)
        case (Inl e)
        then have c: "bindP (cleanup_unowned ops cs) (\<lambda>_. raiseP e) w1 = (r, v)" using fin rv by simp
        have "keeps (keeps_owned coherent content) (bindP (cleanup_unowned ops cs) (\<lambda>_. raiseP e :: ('f, revision) proc))"
          by (intro keeps_intros keeps_owned_order cleanup_unowned_kept)
        from keepsD [OF this c] have "keeps_owned coherent content w v"
          using adds_bytes_owned [OF a1] keeps_owned_order(2) by (meson transpD)
        moreover have "\<exists>e. r = Inl e" using c by (cases r) (auto simp: bindP_eq_Inr)
        ultimately show ?thesis by blast
      next
        case out: (Inr z)
        obtain rv t where z: "z = (rv, t)" by (cases z)
        then obtain prepared where p: "p = Inr prepared"
          and commit: "commit_revision_metadata uc d u prepared (fst w1) = Inr (rv, t)"
          using out unfolding outcome_def by (cases p) (auto split: sum.split_asm)
        have rv: "r = Inr rv" "v = (t, snd w1)" using rv fin out z by simp_all
        obtain as where as: "artifacts t = artifacts (fst w1) @ as" "list_all2 (artifact_of uc) prepared as"
          "\<forall>a \<in> set as. a_revision a = r_id rv"
          using commit_revision_artifacts [OF commit] by blast
        have prep: "list_all2 (payload_prepared content sha256 uc (snd w1)) (zip payloads names) prepared"
          using store_payloads_stored [OF x [unfolded Inr y p] coh, of "[]"] by simp
        have stored: "list_all2 (payload_stored content sha256 uc (snd w1)) (zip payloads names) as"
          by (rule list_all2_trans [OF _ prep as(2)]) (rule payload_stored_of)
        have same: "artifacts (fst w1) = artifacts (fst w)"
          "\<forall>k b. canonical_key k \<and> content (snd w) k = Some b \<longrightarrow> content (snd w1) k = Some b"
          using a1 coh unfolding adds_bytes_def core_tables_def by blast+
        show ?thesis
        proof (intro disjI2 exI [of _ rv] exI [of _ as] exI [of _ names] conjI)
          show "r = Inr rv" by (rule rv(1))
          show "coherent (snd v)" using coh1 rv(2) by simp
          show "artifacts (fst v) = artifacts (fst w) @ as" using as(1) same(1) rv(2) by simp
          show "\<forall>a \<in> set as. a_revision a = r_id rv" by (rule as(3))
          show "validate_payload_set uc payloads = Inr names" by (rule names)
          show "list_all2 (payload_stored content sha256 uc (snd v)) (zip payloads names) as" using stored rv(2) by simp
          show "\<forall>k b. canonical_key k \<and> content (snd w) k = Some b \<longrightarrow> content (snd v) k = Some b"
            unfolding rv(2) snd_conv by (rule same(2))
        qed
      qed
    qed
  qed
qed

lemma create_complete_revision_outcome:
  assumes run: "create_complete_revision uc ops d u payloads w = (r, v)" and coh: "coherent (snd w)"
  shows "(\<exists>e. r = Inl e \<and> keeps_owned coherent content w v) \<or>
    (\<exists>rv as. r = Inr rv \<and> coherent (snd v) \<and> artifacts (fst v) = artifacts (fst w) @ as \<and>
      (\<forall>a \<in> set as. a_revision a = r_id rv \<and> artifact_held content sha256 (snd v) a) \<and>
      (\<forall>k b. canonical_key k \<and> content (snd w) k = Some b \<longrightarrow> content (snd v) k = Some b))"
proof -
  have "\<forall>a \<in> set as. artifact_held content sha256 f a"
    if "list_all2 (payload_stored content sha256 uc f) pns as" for f pns as
    using that by (induction rule: list_all2_induct) (auto dest: payload_stored_held)
  then show ?thesis using create_complete_revision_exact [OF assms] by blast
qed

text \<open>All artifacts have their bytes in the storage.\<close>

lemma create_complete_revision_held:
  assumes run: "create_complete_revision uc ops d u payloads w = (r, v)" and coh: "coherent (snd w)"
    and held: "\<forall>a \<in> set (artifacts (fst w)). artifact_held content sha256 (snd w) a"
  shows "coherent (snd v) \<and> (\<forall>a \<in> set (artifacts (fst v)). artifact_held content sha256 (snd v) a)"
  using create_complete_revision_outcome [OF run coh]
proof (elim disjE exE conjE)
  fix e assume "keeps_owned coherent content w v"
  then show ?thesis
    using held coh artifact_held_kept [of coherent content w v]
    by (auto simp: keeps_owned_def core_tables_def)
next
  fix rv as assume "coherent (snd v)" "artifacts (fst v) = artifacts (fst w) @ as"
    "\<forall>a \<in> set as. a_revision a = r_id rv \<and> artifact_held content sha256 (snd v) a"
    "\<forall>k b. canonical_key k \<and> content (snd w) k = Some b \<longrightarrow> content (snd v) k = Some b"
  then show ?thesis using held by (auto simp: artifact_held_def)
qed

end

end
