(* ===== verification/Stored_Revisions.thy ===== *)
theory Stored_Revisions
  imports Upkeep
begin

text \<open>
  The composition of the services with the filesystem adapter: the steps of the application together
  with its directory tree, and the properties that need both. A run of \<open>create_complete_revision\<close> on
  the sample database and an empty disk shows that the hypotheses can hold.
\<close>

section \<open>A creation that succeeds\<close>

lemma reserve_first:
  assumes "draw_secret s = Inr (token, s1)" "canonical_key (generate_key token)"
    "\<not> artifact_owns (generate_key token) s1" "uuid4 s1 = Inr (i, s2)"
    "reserve_once (generate_key token) i s2 = Inr (r, s3)"
  shows "reserve_storage_key (Suc n) (s, f) = (Inr r, s3, f)"
  using assms by (simp add: bindP_def atomicP_def tryP_def readT_def)

lemma create_single:
  assumes "validate_payload_set uc [p] = Inr [name]" "accepts_revision d u s"
    "reserve_storage_key key_attempts (s, f) = (Inr r, s1, f)" "canonical_key (sr_storage_key r)"
    "st_write ops (sr_storage_key r) (p_chunks p) (Some (p_expected_size p)) (Some (p_expected_sha256 p)) f = (Receipt rc, g)"
    "mark_reservation_verified (sr_id r) rc s1 = Inr (x, s2)"
    "authoritative_media_type uc p = Inr mt"
    "commit_revision_metadata uc d u [\<lparr>pa_reservation_id = sr_id r, pa_name = name, pa_kind = p_kind p,
        pa_receipt = rc, pa_media_type = mt\<rparr>] s2 = Inr (rv, t)"
  shows "create_complete_revision uc ops d u [p] (s, f) = (Inr rv, t, g)"
  using assms
  by (simp add: create_complete_revision_def bindP_def atomicP_def captureP_def readT_def storageP_def returnP_def Let_def)

definition creating :: db where
  "creating = with_project\<lparr>secrets := (\<lambda>_. replicate 64 97)\<rparr>"

definition sample_payload :: artifact_payload where
  "sample_payload = \<lparr>p_kind = HTML, p_logical_name = cps ''index.html'', p_chunks = [cps ''<p>'', cps ''hi''],
     p_expected_size = 5, p_expected_sha256 = sample_digest (cps ''<p>hi''), p_media_type = None\<rparr>"

definition payload_receipt :: stored_artifact where
  "payload_receipt = \<lparr>sa_key = sample_key, sa_byte_size = 5, sa_sha256 = sample_digest (cps ''<p>hi'')\<rparr>"

lemma payload_written:
  assumes e: "expected digest (concat chunks) n d"
  obtains g where "st_write (filesystem_storage digest) sample_key chunks n d empty_disk =
      (Receipt \<lparr>sa_key = sample_key, sa_byte_size = length (concat chunks), sa_sha256 = digest (concat chunks)\<rparr>, g)"
proof -
  have key: "length (key_components sample_key) = 4" by code_simp
  obtain F where "succeeds (\<lambda>_. 2, \<lambda>b. b) (\<lambda>_. None) (fs_write digest sample_key (map Bytes chunks) n d)
      \<lparr>sa_key = sample_key, sa_byte_size = length (concat chunks), sa_sha256 = digest (concat chunks)\<rparr> F"
    using fs_write_succeeds [of "(\<lambda>_. 2, \<lambda>b. b)" sample_key "\<lambda>_. None" digest chunks n d, OF _ key _ e]
    by (auto simp: lively_def free_key_def)
  then obtain g where "fs_write digest sample_key (map Bytes chunks) n d empty_disk =
      (Inr \<lparr>sa_key = sample_key, sa_byte_size = length (concat chunks), sa_sha256 = digest (concat chunks)\<rparr>, g)"
    using empty_disk_facts(2) unfolding succeeds_def by blast
  then show thesis using that by (simp add: filesystem_storage_def write_outcome_def)
qed

lemma sample_payload_written:
  obtains g where "st_write (filesystem_storage sample_digest) sample_key (p_chunks sample_payload)
     (Some (p_expected_size sample_payload)) (Some (p_expected_sha256 sample_payload)) empty_disk
     = (Receipt payload_receipt, g)"
proof -
  have c: "concat (p_chunks sample_payload) = cps ''<p>hi''" "length (cps ''<p>hi'') = 5" by code_simp+
  have e: "expected sample_digest (concat (p_chunks sample_payload)) (Some (p_expected_size sample_payload))
      (Some (p_expected_sha256 sample_payload))"
    unfolding expected_def c(1) by (simp add: sample_payload_def) code_simp
  show thesis by (rule payload_written [OF e]) (use that c in \<open>simp add: payload_receipt_def\<close>)
qed

text \<open>The database of the sample behind the draws of the storage key and of the reservation's id.\<close>

definition drawn :: db where
  "drawn = creating\<lparr>secret_draws := Suc (secret_draws creating), uuid_draws := Suc (uuid_draws creating)\<rparr>"

definition commits_payload :: "artifact_payload \<Rightarrow> logical_name \<Rightarrow> stored_artifact \<Rightarrow> string \<Rightarrow> bool" where
  "commits_payload p name rc media \<longleftrightarrow>
     satisfies (reserve_once sample_key 5) drawn (\<lambda>r s1. sr_storage_key r = sample_key \<and>
     satisfies (mark_reservation_verified (sr_id r) rc) s1 (\<lambda>_ s2.
     satisfies (commit_revision_metadata ascii_unicode 4 2 [\<lparr>pa_reservation_id = sr_id r, pa_name = name,
       pa_kind = p_kind p, pa_receipt = rc, pa_media_type = media\<rparr>]) s2 (\<lambda>_ t. artifacts t \<noteq> [])))"

lemma creation_of:
  assumes "commits_payload p name rc media" "validate_payload_set ascii_unicode [p] = Inr [name]"
    and g: "st_write (filesystem_storage digest) sample_key (p_chunks p) (Some (p_expected_size p))
      (Some (p_expected_sha256 p)) empty_disk = (Receipt rc, g)"
    and "authoritative_media_type ascii_unicode p = Inr media"
  obtains rv t where "create_complete_revision ascii_unicode (filesystem_storage digest) 4 2 [p]
     (creating, empty_disk) = (Inr rv, t, g)" "artifacts t \<noteq> []"
proof -
  from assms(1) obtain r s1 x s2 rv t where run: "reserve_once sample_key 5 drawn = Inr (r, s1)"
    "sr_storage_key r = sample_key" "mark_reservation_verified (sr_id r) rc s1 = Inr (x, s2)"
    "commit_revision_metadata ascii_unicode 4 2 [\<lparr>pa_reservation_id = sr_id r, pa_name = name,
       pa_kind = p_kind p, pa_receipt = rc, pa_media_type = media\<rparr>] s2 = Inr (rv, t)" "artifacts t \<noteq> []"
    by (auto simp: commits_payload_def dest!: satisfies_run)
  let ?s = "creating\<lparr>secret_draws := Suc (secret_draws creating)\<rparr>"
  have ck: "canonical_key sample_key" by code_simp
  have "reserve_storage_key key_attempts (creating, empty_disk) = (Inr r, s1, empty_disk)"
    unfolding key_attempts_def eval_nat_numeral
  proof (rule reserve_first)
    show "draw_secret creating = Inr (replicate 64 97, ?s)" by (simp add: environment_run creating_def)
    show "canonical_key (generate_key (replicate 64 97))" using ck by (simp add: sample_key_def)
    show "\<not> artifact_owns (generate_key (replicate 64 97)) ?s"
      by (simp add: artifact_owns_def creating_def with_project_def sample_state_def)
    show "uuid4 ?s = Inr (5, drawn)"
      by (simp add: environment_run drawn_def creating_def with_project_def sample_state_def)
    show "reserve_once (generate_key (replicate 64 97)) 5 drawn = Inr (r, s1)"
      using run(1) by (simp add: sample_key_def)
  qed
  moreover have "accepts_revision 4 2 creating" by code_simp
  ultimately have "create_complete_revision ascii_unicode (filesystem_storage digest) 4 2 [p]
     (creating, empty_disk) = (Inr rv, t, g)"
    using create_single run g ck assms(2,4) by metis
  then show thesis using run(5) by (rule that)
qed

lemma sample_creation:
  obtains rv t g where "create_complete_revision ascii_unicode (filesystem_storage sample_digest) 4 2 [sample_payload]
     (creating, empty_disk) = (Inr rv, t, g)" "artifacts t \<noteq> []"
proof -
  let ?name = "\<lparr>display = cps ''index.html'', comparison_key = cps ''index.html''\<rparr>"
  obtain g where g: "st_write (filesystem_storage sample_digest) sample_key (p_chunks sample_payload)
     (Some (p_expected_size sample_payload)) (Some (p_expected_sha256 sample_payload)) empty_disk
     = (Receipt payload_receipt, g)" by (rule sample_payload_written)
  have "commits_payload sample_payload ?name payload_receipt ''text/html''" by code_simp
  moreover have "validate_payload_set ascii_unicode [sample_payload] = Inr [?name]" by code_simp
  moreover have "authoritative_media_type ascii_unicode sample_payload = Inr ''text/html''" by code_simp
  ultimately show thesis using creation_of g that by metis
qed

section \<open>The application with its storage\<close>

text \<open>
  A step of the database and the directory tree together: a service transaction that adds no
  artifact, a complete revision, a cleanup run, or a change of the disk's conduct.
\<close>

inductive stored_step :: "deployment \<Rightarrow> db \<times> fs \<Rightarrow> db \<times> fs \<Rightarrow> bool" for cfg :: deployment where
  service: "step cfg s t \<Longrightarrow> artifacts t = artifacts s \<Longrightarrow> stored_step cfg (s, f) (t, f)"
| creation: "create_complete_revision (cf_unicode cfg) (filesystem_storage (cf_sha256 cfg)) d u payloads w = (r, v)
    \<Longrightarrow> stored_step cfg w v"
| cleanup: "cleanup_expired_reservations (filesystem_storage (cf_sha256 cfg)) now limit w = (x, v)
    \<Longrightarrow> stored_step cfg w v"
| disk_change: "stored_step cfg (s, f) (s, f\<lparr>fs_faults := faults, fs_amounts := amounts, fs_medium := medium,
    fs_calls := n\<rparr>)"

definition bytes_complete :: "(text \<Rightarrow> text) \<Rightarrow> db \<times> fs \<Rightarrow> bool" where
  "bytes_complete sha256 w \<longleftrightarrow> rooted (snd w) \<and>
     (\<forall>a \<in> set (artifacts (fst w)). artifact_held stored_bytes sha256 (snd w) a)"

lemma bytes_complete_kept:
  assumes "keeps_owned rooted stored_bytes w v" "bytes_complete sha256 w"
  shows "bytes_complete sha256 v"
proof -
  have same: "artifacts (fst v) = artifacts (fst w)" "rooted (snd v)"
    using assms by (simp_all add: keeps_owned_def core_tables_def bytes_complete_def)
  have "artifact_held stored_bytes sha256 (snd v) a" if "a \<in> set (artifacts (fst w))" for a
    using artifact_held_kept [OF assms(1)] assms(2) that by (simp add: bytes_complete_def)
  then show ?thesis by (simp add: bytes_complete_def same)
qed

lemma bytes_complete_step:
  assumes "stored_step cfg w v" "bytes_complete (cf_sha256 cfg) w"
  shows "bytes_complete (cf_sha256 cfg) v"
  using assms
proof (induction rule: stored_step.induct)
  case (service s t f)
  then show ?case by (simp add: bytes_complete_def)
next
  case (creation d u payloads w r v)
  then show ?case
    using fs_storage.create_complete_revision_held [of "cf_unicode cfg" "cf_sha256 cfg" d u payloads w r v]
    by (auto simp: bytes_complete_def)
next
  case (cleanup now limit w x v)
  show ?case by (rule bytes_complete_kept [OF keepsD [OF fs_storage.cleanup_expired_kept cleanup(1)] cleanup(2)])
next
  case (disk_change s f faults amounts medium n)
  then show ?case
    by (simp add: bytes_complete_def rooted_def in_directory_def artifact_held_def stored_bytes_def)
qed

text \<open>
  C13: The metadata never promises bytes that are not there. Starting from a database and a directory
  tree in which every artifact has its bytes (as at installation, when there are none), through any
  sequence of services, revision creations that succeed or fail at any point, expiry cleanups and disk
  faults, every artifact of the database has bytes stored under its key with its size and digest.
\<close>

theorem every_artifact_has_its_bytes:
  assumes "(stored_step cfg)\<^sup>*\<^sup>* w v" "bytes_complete (cf_sha256 cfg) w" "a \<in> set (artifacts (fst v))"
  shows "\<exists>b. stored_bytes (snd v) (a_storage_key a) = Some b \<and> length b = a_byte_size a \<and>
    cf_sha256 cfg b = a_sha256 a"
proof -
  from assms(1,2) have "bytes_complete (cf_sha256 cfg) v"
    by (induction rule: rtranclp_induct) (auto intro: bytes_complete_step)
  then show ?thesis using assms(3) by (auto simp: bytes_complete_def artifact_held_def)
qed

text \<open>
  C14: A revision is created completely or not at all. When \<open>create_complete_revision\<close> returns, the
  artifacts it added are stored with their size and digest; when it raises, wherever it was
  interrupted, users, dashboards, revisions, artifacts, grants and audit log are as they were and no
  bytes an artifact owns have changed.
\<close>

theorem revision_all_or_nothing:
  assumes "create_complete_revision uc (filesystem_storage sha256) d u payloads (s, f) = (r, t, g)" "rooted f"
  shows "case r of
      Inl e \<Rightarrow> core_tables t = core_tables s \<and> (\<forall>a \<in> set (artifacts s). \<forall>b. canonical_key (a_storage_key a) \<and>
        stored_bytes f (a_storage_key a) = Some b \<longrightarrow> stored_bytes g (a_storage_key a) = Some b)
    | Inr revision \<Rightarrow> \<exists>as. artifacts t = artifacts s @ as \<and>
        (\<forall>a \<in> set as. a_revision a = r_id revision \<and> artifact_held stored_bytes sha256 g a)"
proof -
  have "rooted (snd (s, f))" using assms(2) by simp
  from fs_storage.create_complete_revision_outcome [OF assms(1) this] show ?thesis
  proof (elim disjE exE conjE)
    fix e assume e: "r = Inl e" "keeps_owned rooted stored_bytes (s, f) (t, g)"
    have "artifact_owns (a_storage_key a) s" if "a \<in> set (artifacts s)" for a
      using that by (auto simp: artifact_owns_def)
    then show ?thesis using e assms(2) by (auto simp: keeps_owned_def)
  next
    fix rv as
    assume "r = Inr rv" "artifacts (fst (t, g)) = artifacts (fst (s, f)) @ as"
      "\<forall>a \<in> set as. a_revision a = r_id rv \<and> artifact_held stored_bytes sha256 (snd (t, g)) a"
    then show ?thesis by auto
  qed
qed

text \<open>
  C15: The expiry cleanup is safe. \<open>cleanup_expired_reservations\<close>, with any cutoff and limit and whatever
  fails on the way, changes no core table and no bytes stored under a key that an artifact owns.
\<close>

theorem cleanup_spares_artifacts:
  assumes "cleanup_expired_reservations (filesystem_storage sha256) now limit (s, f) = (r, t, g)" "rooted f"
    and "a \<in> set (artifacts s)" "canonical_key (a_storage_key a)" "stored_bytes f (a_storage_key a) = Some b"
  shows "core_tables t = core_tables s \<and> stored_bytes g (a_storage_key a) = Some b"
proof -
  have "keeps_owned rooted stored_bytes (s, f) (t, g)"
    by (rule keepsD [OF fs_storage.cleanup_expired_kept assms(1)])
  moreover have "artifact_owns (a_storage_key a) s" using assms(3) by (auto simp: artifact_owns_def)
  ultimately show ?thesis using assms(2,4,5) by (simp add: keeps_owned_def)
qed

section \<open>Witnesses\<close>

text \<open>A tree that holds two bytes under the sample key.\<close>

definition kept_disk :: fs where
  "kept_disk = empty_disk\<lparr>fs_entries := (\<lambda>p. if p = final_path sample_key then Some (Regular [1, 2])
     else if 1 \<le> length p \<and> length p \<le> 3 \<and> p = take (length p) (key_components sample_key) then Some Directory
     else None)\<rparr>"

lemma kept_disk_facts: "rooted kept_disk" "stored_bytes kept_disk sample_key = Some [1, 2]"
proof -
  have n: "length (key_components sample_key) = 4" by code_simp
  show "stored_bytes kept_disk sample_key = Some [1, 2]" by (simp add: stored_bytes_def kept_disk_def)
  have f: "final_path sample_key = key_components sample_key" by (simp add: final_path_def)
  show "rooted kept_disk"
    unfolding rooted_def
  proof (intro allI impI)
    fix p assume "fs_entries kept_disk p \<noteq> None"
    then have p: "p = take (length p) (key_components sample_key)" "1 \<le> length p" "length p \<le> 4"
      using n by (auto simp: kept_disk_def f split: if_split_asm)
    have b: "butlast p = take (length p - 1) (key_components sample_key)"
      using p n by (metis butlast_take)
    show "in_directory p kept_disk"
    proof (cases "length p \<le> 1")
      case False
      have l: "length (butlast p) = length p - 1" by simp
      have "length (butlast p) < length (key_components sample_key)" using l p(3) n False by simp
      then have "butlast p \<noteq> key_components sample_key" by (metis less_irrefl)
      moreover have "1 \<le> length (butlast p)" "length (butlast p) \<le> 3" using l False p(3) by linarith+
      moreover have "butlast p = take (length (butlast p)) (key_components sample_key)" using b l by simp
      moreover have "fs_entries kept_disk q = Some Directory"
        if "q \<noteq> key_components sample_key" "1 \<le> length q" "length q \<le> 3" "q = take (length q) (key_components sample_key)" for q
        using that by (simp add: kept_disk_def f del: take_all_iff)
      ultimately have "fs_entries kept_disk (butlast p) = Some Directory" by blast
      then show ?thesis by (simp add: in_directory_def)
    qed (simp add: in_directory_def)
  qed
qed

lemma creating_complete: "bytes_complete sha256 (creating, empty_disk)"
  using empty_disk_facts(1)
  by (simp add: bytes_complete_def creating_def with_project_def sample_state_def)

theorem every_artifact_has_its_bytes_witness:
  "\<exists>v. (stored_step sample_cfg)\<^sup>*\<^sup>* (creating, empty_disk) v \<and> artifacts (fst v) \<noteq> [] \<and>
     (\<exists>b. stored_bytes (snd v) (a_storage_key (hd (artifacts (fst v)))) = Some b \<and>
       length b = a_byte_size (hd (artifacts (fst v))))"
proof -
  obtain rv t g where run: "create_complete_revision ascii_unicode (filesystem_storage sample_digest) 4 2 [sample_payload]
     (creating, empty_disk) = (Inr rv, t, g)" "artifacts t \<noteq> []"
    by (rule sample_creation)
  have step: "(stored_step sample_cfg)\<^sup>*\<^sup>* (creating, empty_disk) (t, g)"
    using stored_step.creation [of sample_cfg 4 2 "[sample_payload]"] run(1) by (simp add: r_into_rtranclp)
  have "hd (artifacts (fst (t, g))) \<in> set (artifacts (fst (t, g)))" using run(2) by simp
  from every_artifact_has_its_bytes [OF step creating_complete this] step run(2) show ?thesis by auto
qed

theorem revision_all_or_nothing_witness:
  "\<exists>rv t g as. create_complete_revision ascii_unicode (filesystem_storage sample_digest) 4 2 [sample_payload]
     (creating, empty_disk) = (Inr rv, t, g) \<and> artifacts t = artifacts creating @ as \<and>
     (\<forall>a \<in> set as. a_revision a = r_id rv \<and> artifact_held stored_bytes sample_digest g a)"
proof -
  obtain rv t g where run: "create_complete_revision ascii_unicode (filesystem_storage sample_digest) 4 2 [sample_payload]
     (creating, empty_disk) = (Inr rv, t, g)"
    by (rule sample_creation)
  from revision_all_or_nothing [OF run empty_disk_facts(1)] run show ?thesis by auto
qed

theorem cleanup_spares_artifacts_witness:
  "\<exists>t g. snd (cleanup_expired_reservations (filesystem_storage sample_digest) None 10 (with_revision, kept_disk)) = (t, g) \<and>
     stored_bytes g sample_key = Some [1, 2]"
proof -
  obtain r t g where run: "cleanup_expired_reservations (filesystem_storage sample_digest) None 10 (with_revision, kept_disk)
      = (r, t, g)"
    by (rule prod_cases3)
  have a: "sample_artifact \<in> set (artifacts with_revision)"
    by (simp add: with_revision_def sample_state_def)
  have key: "a_storage_key sample_artifact = sample_key" "canonical_key sample_key"
    by (simp add: sample_artifact_def) code_simp
  have "rooted kept_disk" "stored_bytes kept_disk sample_key = Some [1, 2]"
    using kept_disk_facts by simp_all
  then show ?thesis using cleanup_spares_artifacts [OF run _ a] run key by auto
qed

end
