(* ===== verification/Pagination.thy ===== *)
theory Pagination
  imports Names "HOL-Library.List_Lexorder" "HOL-Library.Product_Lexorder"
begin

text \<open>
  Signed keyset pagination (\<open>core/pagination.py\<close>). \<open>django.core.signing\<close>, the textual forms of
  times and UUIDs and SHA-256 are the record \<open>page_env\<close>; a queryset is the list of its rows, read
  through \<open>attr\<close>, which yields the value of a column (all paginated columns are not null). Filter
  contexts are ASCII texts, so that their UTF-8 encoding never fails.
\<close>

section \<open>Boundary values\<close>

datatype cursor_value = VText "text" | VInt int | VTime time | VUuid uuid

datatype cursor_kind = KText | KInteger | KDatetime | KUuid

text \<open>The database compares values of one column, so of one kind; the order extends that.\<close>

fun cursor_key :: "cursor_value \<Rightarrow> nat \<times> nat list \<times> int" where
  "cursor_key (VText t) = (0, t, 0)"
| "cursor_key (VInt i) = (1, [], i)"
| "cursor_key (VTime t) = (2, [], t)"
| "cursor_key (VUuid u) = (3, [], int u)"

lemma cursor_key_inj: "cursor_key v = cursor_key w \<longleftrightarrow> v = w"
  by (cases v; cases w) auto

instantiation cursor_value :: linorder
begin

definition less_eq_cursor_value :: "cursor_value \<Rightarrow> cursor_value \<Rightarrow> bool" where
  "less_eq_cursor_value v w \<longleftrightarrow> cursor_key v \<le> cursor_key w"

definition less_cursor_value :: "cursor_value \<Rightarrow> cursor_value \<Rightarrow> bool" where
  "less_cursor_value v w \<longleftrightarrow> cursor_key v < cursor_key w"

instance
  by standard (auto simp: less_eq_cursor_value_def less_cursor_value_def cursor_key_inj simp flip: less_le_not_le)

end

section \<open>Columns\<close>

record cursor_column =
  col_field :: string
  col_kind :: cursor_kind
  col_descending :: bool

text \<open>\<open>field.split("__")\<close>\<close>

fun split_dunder :: "string \<Rightarrow> string list" where
  "split_dunder [] = [[]]"
| "split_dunder [c] = [[c]]"
| "split_dunder (a # b # cs) =
     (if a = CHR ''_'' \<and> b = CHR ''_'' then [] # split_dunder cs
      else case split_dunder (b # cs) of [] \<Rightarrow> [[a]] | w # ws \<Rightarrow> (a # w) # ws)"

definition starts_underscore :: "string \<Rightarrow> bool" where
  "starts_underscore w = (case w of [] \<Rightarrow> False | c # cs \<Rightarrow> c = CHR ''_'')"

definition make_column :: "string \<Rightarrow> cursor_kind \<Rightarrow> bool \<Rightarrow> exn + cursor_column" where
  "make_column field kind descending =
     (if field = [] \<or> starts_underscore field
      then Inl (ValueError ''cursor columns require a public model field'')
      else if list_ex (\<lambda>part. part = [] \<or> starts_underscore part) (split_dunder field)
      then Inl (ValueError ''cursor columns require public model field paths'')
      else Inr \<lparr>col_field = field, col_kind = kind, col_descending = descending\<rparr>)"

section \<open>Cursors\<close>

text \<open>A JSON value; \<open>JFloat\<close> carries the representation of the number.\<close>

datatype json =
    JNull
  | JBool bool
  | JInt int
  | JFloat "text"
  | JText "text"
  | JList "json list"
  | JObject "(text \<times> json) list"

record page_env =
  pe_dumps :: "json \<Rightarrow> text \<Rightarrow> text"
  pe_loads :: "text \<Rightarrow> text \<Rightarrow> int \<Rightarrow> json option"
  pe_isoformat :: "time \<Rightarrow> text"
  pe_fromisoformat :: "text \<Rightarrow> time option"
  pe_uuid_text :: "uuid \<Rightarrow> text"
  pe_parse_uuid :: "text \<Rightarrow> uuid option"
  pe_sha256 :: "text \<Rightarrow> text"

datatype direction = Next | Previous

definition direction_text :: "direction \<Rightarrow> text" where
  "direction_text d = (case d of Next \<Rightarrow> cps ''next'' | Previous \<Rightarrow> cps ''previous'')"

definition cursor_max_length :: nat where
  "cursor_max_length = 2048"

definition cursor_salt :: "page_env \<Rightarrow> text \<Rightarrow> text \<Rightarrow> text" where
  "cursor_salt env namespace context' =
     cps ''agora.pagination.v1:'' @ namespace @ 58 # pe_sha256 env context'"

definition validated_value :: "cursor_kind \<Rightarrow> cursor_value \<Rightarrow> exn + cursor_value" where
  "validated_value kind v = (case (kind, v) of
      (KText, VText t) \<Rightarrow> Inr v
    | (KInteger, VInt i) \<Rightarrow> Inr v
    | (KDatetime, VTime t) \<Rightarrow> Inr v
    | (KUuid, VUuid u) \<Rightarrow> Inr v
    | _ \<Rightarrow> Inl TypeError)"

definition encode_value :: "page_env \<Rightarrow> cursor_kind \<Rightarrow> cursor_value \<Rightarrow> exn + json" where
  "encode_value env kind v =
     bindE (validated_value kind v) (\<lambda>v. Inr (case v of
        VTime t \<Rightarrow> JText (pe_isoformat env t)
      | VUuid u \<Rightarrow> JText (pe_uuid_text env u)
      | VText t \<Rightarrow> JText t
      | VInt i \<Rightarrow> JInt i))"

definition decode_value :: "page_env \<Rightarrow> cursor_kind \<Rightarrow> json \<Rightarrow> exn + cursor_value" where
  "decode_value env kind j = (case kind of
      KText \<Rightarrow> (case j of JText t \<Rightarrow> Inr (VText t) | _ \<Rightarrow> Inl TypeError)
    | KInteger \<Rightarrow> (case j of JInt i \<Rightarrow> Inr (VInt i) | _ \<Rightarrow> Inl TypeError)
    | KDatetime \<Rightarrow> (case j of
          JText t \<Rightarrow> (case pe_fromisoformat env t of
              None \<Rightarrow> Inl (ValueError ''Invalid isoformat string'') | Some x \<Rightarrow> Inr (VTime x))
        | _ \<Rightarrow> Inl TypeError)
    | KUuid \<Rightarrow> (case j of
          JText t \<Rightarrow> (case pe_parse_uuid env t of
              None \<Rightarrow> Inl (ValueError ''badly formed hexadecimal UUID string'') | Some x \<Rightarrow> Inr (VUuid x))
        | _ \<Rightarrow> Inl TypeError))"

text \<open>\<open>zip(columns, values, strict=True)\<close>\<close>

fun encode_values :: "page_env \<Rightarrow> cursor_column list \<Rightarrow> cursor_value list \<Rightarrow> exn + json list" where
  "encode_values env [] [] = Inr []"
| "encode_values env (c # cs) (v # vs) =
     bindE (encode_value env (col_kind c) v) (\<lambda>j. bindE (encode_values env cs vs) (\<lambda>js. Inr (j # js)))"
| "encode_values env cs vs = Inl (ValueError ''zip() arguments differ in length'')"

fun decode_values :: "page_env \<Rightarrow> cursor_column list \<Rightarrow> json list \<Rightarrow> exn + cursor_value list" where
  "decode_values env [] [] = Inr []"
| "decode_values env (c # cs) (j # js) =
     bindE (decode_value env (col_kind c) j) (\<lambda>v. bindE (decode_values env cs js) (\<lambda>vs. Inr (v # vs)))"
| "decode_values env cs js = Inl (ValueError ''zip() arguments differ in length'')"

definition cursor_payload :: "direction \<Rightarrow> json list \<Rightarrow> json" where
  "cursor_payload d encoded =
     JObject [(cps ''v'', JInt 1), (cps ''d'', JText (direction_text d)), (cps ''p'', JList encoded)]"

definition encode_cursor ::
  "page_env \<Rightarrow> cursor_column list \<Rightarrow> text \<Rightarrow> text \<Rightarrow> direction \<Rightarrow> cursor_value list \<Rightarrow> exn + text" where
  "encode_cursor env columns namespace context' d values =
     bindE (encode_values env columns values) (\<lambda>encoded.
     Inr (pe_dumps env (cursor_payload d encoded) (cursor_salt env namespace context')))"

text \<open>\<open>payload["v"] != 1\<close> in Python, where \<open>True\<close> and \<open>1.0\<close> equal \<open>1\<close>.\<close>

definition equals_one :: "json \<Rightarrow> bool" where
  "equals_one j = (case j of JInt i \<Rightarrow> i = 1 | JBool b \<Rightarrow> b | JFloat t \<Rightarrow> t = cps ''1.0'' | _ \<Rightarrow> False)"

text \<open>\<open>payload["d"] not in {...}\<close>: a list or an object is not hashable.\<close>

definition parse_direction :: "json \<Rightarrow> exn + direction" where
  "parse_direction j = (case j of
      JText t \<Rightarrow> if t = direction_text Next then Inr Next
        else if t = direction_text Previous then Inr Previous else Inl InvalidCursor
    | JList js \<Rightarrow> Inl TypeError
    | JObject kvs \<Rightarrow> Inl TypeError
    | _ \<Rightarrow> Inl InvalidCursor)"

definition decode_payload :: "page_env \<Rightarrow> cursor_column list \<Rightarrow> json \<Rightarrow> exn + direction \<times> cursor_value list" where
  "decode_payload env columns payload = (case payload of
      JObject kvs \<Rightarrow>
        if set (map fst kvs) \<noteq> {cps ''v'', cps ''d'', cps ''p''} then Inl InvalidCursor
        else if \<not> equals_one (the (map_of kvs (cps ''v''))) then Inl InvalidCursor
        else bindE (parse_direction (the (map_of kvs (cps ''d'')))) (\<lambda>d.
          case the (map_of kvs (cps ''p'')) of
            JList encoded \<Rightarrow>
              if length encoded \<noteq> length columns then Inl InvalidCursor
              else (case decode_values env columns encoded of
                  Inl e \<Rightarrow> Inl InvalidCursor | Inr values \<Rightarrow> Inr (d, values))
          | _ \<Rightarrow> Inl InvalidCursor)
    | _ \<Rightarrow> Inl InvalidCursor)"

definition decode_cursor ::
  "page_env \<Rightarrow> cursor_column list \<Rightarrow> text \<Rightarrow> text \<Rightarrow> int \<Rightarrow> text \<Rightarrow> exn + direction \<times> cursor_value list" where
  "decode_cursor env columns namespace context' max_age cursor =
     (if \<not> (1 \<le> length cursor \<and> length cursor \<le> cursor_max_length) then Inl InvalidCursor
      else case pe_loads env cursor (cursor_salt env namespace context') max_age of
          None \<Rightarrow> Inl InvalidCursor
        | Some payload \<Rightarrow> decode_payload env columns payload)"

section \<open>The query\<close>

text \<open>
  \<open>_boundary_filter\<close>: the accumulators are \<open>Q\<close> objects, of which the empty one (\<open>None\<close>) is neutral
  for both connectives and filters nothing.
\<close>

definition q_or :: "bool option \<Rightarrow> bool \<Rightarrow> bool option" where
  "q_or q b = (case q of None \<Rightarrow> Some b | Some a \<Rightarrow> Some (a \<or> b))"

definition q_and :: "bool option \<Rightarrow> bool \<Rightarrow> bool" where
  "q_and q b = (case q of None \<Rightarrow> b | Some a \<Rightarrow> a \<and> b)"

fun boundary_loop ::
  "(string \<Rightarrow> 'r \<Rightarrow> cursor_value) \<Rightarrow> bool \<Rightarrow> 'r \<Rightarrow> cursor_column list \<Rightarrow> cursor_value list
    \<Rightarrow> bool option \<Rightarrow> bool option \<Rightarrow> bool option" where
  "boundary_loop attr previous r (c # cs) (v # vs) result equal_prefix =
     (let x = attr (col_field c) r;
          greater_than = (col_descending c = previous);
          comparison = (if greater_than then v < x else x < v)
      in boundary_loop attr previous r cs vs (q_or result (q_and equal_prefix comparison))
           (Some (q_and equal_prefix (x = v))))"
| "boundary_loop attr previous r cs vs result equal_prefix = result"

definition boundary_filter ::
  "(string \<Rightarrow> 'r \<Rightarrow> cursor_value) \<Rightarrow> cursor_column list \<Rightarrow> cursor_value list \<Rightarrow> bool \<Rightarrow> 'r \<Rightarrow> bool" where
  "boundary_filter attr columns values previous r =
     (case boundary_loop attr previous r columns values None None of None \<Rightarrow> True | Some b \<Rightarrow> b)"

text \<open>\<open>order_by\<close> with the directions of \<open>_ordering\<close>.\<close>

fun precedes :: "(string \<Rightarrow> 'r \<Rightarrow> cursor_value) \<Rightarrow> cursor_column list \<Rightarrow> bool \<Rightarrow> 'r \<Rightarrow> 'r \<Rightarrow> bool" where
  "precedes attr [] reverse a b = False"
| "precedes attr (c # cs) reverse a b =
     (let x = attr (col_field c) a; y = attr (col_field c) b
      in (if col_descending c \<noteq> reverse then y < x else x < y) \<or> (x = y \<and> precedes attr cs reverse a b))"

primrec insert_row :: "('r \<Rightarrow> 'r \<Rightarrow> bool) \<Rightarrow> 'r \<Rightarrow> 'r list \<Rightarrow> 'r list" where
  "insert_row prec x [] = [x]"
| "insert_row prec x (y # ys) = (if prec y x then y # insert_row prec x ys else x # y # ys)"

definition order_rows :: "('r \<Rightarrow> 'r \<Rightarrow> bool) \<Rightarrow> 'r list \<Rightarrow> 'r list" where
  "order_rows prec rows = foldr (insert_row prec) rows []"

primrec model_boundary ::
  "(string \<Rightarrow> 'r \<Rightarrow> cursor_value) \<Rightarrow> 'r \<Rightarrow> cursor_column list \<Rightarrow> exn + cursor_value list" where
  "model_boundary attr r [] = Inr []"
| "model_boundary attr r (c # cs) =
     bindE (validated_value (col_kind c) (attr (col_field c) r)) (\<lambda>v.
     bindE (model_boundary attr r cs) (\<lambda>vs. Inr (v # vs)))"

section \<open>One page\<close>

record 'r cursor_page =
  cp_items :: "'r list"
  cp_previous_cursor :: "text option"
  cp_next_cursor :: "text option"
  cp_previous_url :: "text option"
  cp_next_url :: "text option"

definition cursor_if ::
  "page_env \<Rightarrow> cursor_column list \<Rightarrow> text \<Rightarrow> text \<Rightarrow> direction \<Rightarrow> bool \<Rightarrow> cursor_value list option
    \<Rightarrow> exn + text option" where
  "cursor_if env columns namespace context' d wanted boundary =
     (if wanted then (case boundary of
         None \<Rightarrow> Inr None
       | Some values \<Rightarrow> bindE (encode_cursor env columns namespace context' d values) (\<lambda>c. Inr (Some c)))
      else Inr None)"

definition build_page ::
  "page_env \<Rightarrow> (string \<Rightarrow> 'r \<Rightarrow> cursor_value) \<Rightarrow> 'r list \<Rightarrow> cursor_column list \<Rightarrow> text \<Rightarrow> text \<Rightarrow> nat
    \<Rightarrow> (direction \<times> cursor_value list) option \<Rightarrow> exn + 'r cursor_page" where
  "build_page env attr rows columns namespace context' page_size decoded =
     (let backwards = (case decoded of Some (Previous, values) \<Rightarrow> True | _ \<Rightarrow> False);
          boundary = map_option snd decoded;
          page_rows = (case boundary of None \<Rightarrow> rows
            | Some values \<Rightarrow> filter (boundary_filter attr columns values backwards) rows);
          fetched = take (page_size + 1) (order_rows (precedes attr columns backwards) page_rows);
          has_sentinel = (length fetched > page_size);
          items = (if backwards then rev (take page_size fetched) else take page_size fetched);
          has_previous = ((decoded \<noteq> None \<and> \<not> backwards) \<or> (backwards \<and> has_sentinel));
          has_next = ((\<not> backwards \<and> has_sentinel) \<or> (decoded \<noteq> None \<and> backwards))
      in
      bindE (if items = [] then Inr boundary
             else bindE (model_boundary attr (hd items) columns) (\<lambda>b. Inr (Some b))) (\<lambda>previous_boundary.
      bindE (if items = [] then Inr boundary
             else bindE (model_boundary attr (last items) columns) (\<lambda>b. Inr (Some b))) (\<lambda>next_boundary.
      bindE (cursor_if env columns namespace context' Previous has_previous previous_boundary) (\<lambda>previous_cursor.
      bindE (cursor_if env columns namespace context' Next has_next next_boundary) (\<lambda>next_cursor.
      Inr \<lparr>cp_items = items, cp_previous_cursor = previous_cursor, cp_next_cursor = next_cursor,
           cp_previous_url = None, cp_next_url = None\<rparr>)))))"

definition paginate_keyset ::
  "page_env \<Rightarrow> (string \<Rightarrow> 'r \<Rightarrow> cursor_value) \<Rightarrow> 'r list \<Rightarrow> cursor_column list \<Rightarrow> text \<Rightarrow> text option
    \<Rightarrow> text \<Rightarrow> int \<Rightarrow> int \<Rightarrow> exn + 'r cursor_page" where
  "paginate_keyset env attr rows columns namespace cursor context' page_size max_age =
     (if columns = [] then Inl (ValueError ''keyset pagination requires at least one ordering column'')
      else if \<not> (1 \<le> page_size \<and> page_size \<le> 100)
      then Inl (ValueError ''page_size must be between 1 and 100'')
      else if namespace = [] \<or> length namespace > 100
      then Inl (ValueError ''pagination namespace must be between 1 and 100 characters'')
      else
      bindE (case cursor of
          None \<Rightarrow> Inr None
        | Some c \<Rightarrow> if c = [] then Inr None
            else bindE (decode_cursor env columns namespace context' max_age c) (\<lambda>d. Inr (Some d))) (\<lambda>decoded.
      build_page env attr rows columns namespace context' (nat page_size) decoded))"

section \<open>Navigation URLs\<close>

text \<open>\<open>urllib.parse.urlencode\<close>: \<open>quote_plus\<close> of the UTF-8 bytes of keys and values.\<close>

definition url_safe :: "nat \<Rightarrow> bool" where
  "url_safe c \<longleftrightarrow> (65 \<le> c \<and> c \<le> 90) \<or> (97 \<le> c \<and> c \<le> 122) \<or> (48 \<le> c \<and> c \<le> 57) \<or> c \<in> {45, 46, 95, 126}"

definition hex_digit :: "nat \<Rightarrow> nat" where
  "hex_digit n = (if n < 10 then 48 + n else 55 + n)"

definition quote_byte :: "nat \<Rightarrow> text" where
  "quote_byte b =
     (if url_safe b then [b] else if b = 32 then [43] else [37, hex_digit (b div 16), hex_digit (b mod 16)])"

definition quote_plus :: "text \<Rightarrow> exn + text" where
  "quote_plus v =
     (if list_ex (\<lambda>c. 55296 \<le> c \<and> c \<le> 57343) v then Inl UnicodeEncodeError
      else Inr (concat (map quote_byte (concat (map utf8_bytes v)))))"

primrec urlencode_pairs :: "(text \<times> text) list \<Rightarrow> exn + text list" where
  "urlencode_pairs [] = Inr []"
| "urlencode_pairs (kv # rest) =
     bindE (quote_plus (fst kv)) (\<lambda>k. bindE (quote_plus (snd kv)) (\<lambda>v.
     bindE (urlencode_pairs rest) (\<lambda>ps. Inr ((k @ 61 # v) # ps))))"

primrec join_amp :: "text list \<Rightarrow> text" where
  "join_amp [] = []"
| "join_amp (p # ps) = (if ps = [] then p else p @ 38 # join_amp ps)"

definition urlencode :: "(text \<times> text) list \<Rightarrow> exn + text" where
  "urlencode query = bindE (urlencode_pairs query) (\<lambda>ps. Inr (join_amp ps))"

text \<open>\<open>query[k] = v\<close> on a dictionary, which keeps the place of a key it has.\<close>

fun dict_put :: "text \<Rightarrow> text \<Rightarrow> (text \<times> text) list \<Rightarrow> (text \<times> text) list" where
  "dict_put k v [] = [(k, v)]"
| "dict_put k v ((k', v') # rest) = (if k' = k then (k, v) # rest else (k', v') # dict_put k v rest)"

definition truthy_values :: "(text \<times> text) list \<Rightarrow> (text \<times> text) list" where
  "truthy_values query = filter (\<lambda>kv. snd kv \<noteq> []) query"

definition cursor_url :: "text \<Rightarrow> text \<Rightarrow> text option \<Rightarrow> (text \<times> text) list \<Rightarrow> exn + text option" where
  "cursor_url base_url cursor_parameter cursor preserved_query =
     (case cursor of
        None \<Rightarrow> Inr None
      | Some c \<Rightarrow> bindE (urlencode (dict_put cursor_parameter c (truthy_values preserved_query))) (\<lambda>q.
          Inr (Some (base_url @ 63 # q))))"

definition query_url :: "text \<Rightarrow> (text \<times> text) list \<Rightarrow> exn + text" where
  "query_url base_url query =
     bindE (urlencode (truthy_values query)) (\<lambda>encoded.
     Inr (if encoded \<noteq> [] then base_url @ 63 # encoded else base_url))"

definition with_urls ::
  "'r cursor_page \<Rightarrow> text \<Rightarrow> text \<Rightarrow> (text \<times> text) list \<Rightarrow> exn + 'r cursor_page" where
  "with_urls page base_url cursor_parameter query =
     bindE (cursor_url base_url cursor_parameter (cp_previous_cursor page) query) (\<lambda>previous_url.
     bindE (cursor_url base_url cursor_parameter (cp_next_cursor page) query) (\<lambda>next_url.
     if cp_items page = []
     then bindE (query_url base_url query) (\<lambda>reset_url.
       Inr (page\<lparr>cp_previous_url := (if previous_url \<noteq> None then Some reset_url else None),
                 cp_next_url := (if next_url \<noteq> None then Some reset_url else None)\<rparr>))
     else Inr (page\<lparr>cp_previous_url := previous_url, cp_next_url := next_url\<rparr>)))"

end
