(* ===== verification/Pages.thy ===== *)
theory Pages
  imports Pagination "HOL-Library.Multiset"
begin

text \<open>
  Correctness of the keyset pages: the boundary filter is the lexicographic order of the columns, the
  pages cut the ordered queryset without gap or overlap, and a cursor is bound to its read path.
\<close>

section \<open>Orders that are total up to a key\<close>

locale keyed_order =
  fixes prec :: "'r \<Rightarrow> 'r \<Rightarrow> bool" and key :: "'r \<Rightarrow> 'k"
  assumes prec_key: "prec a b \<Longrightarrow> key a \<noteq> key b"
    and prec_trans: "prec a b \<Longrightarrow> prec b c \<Longrightarrow> prec a c"
    and prec_total: "prec a b \<or> prec b a \<or> key a = key b"
begin

lemma prec_irrefl: "\<not> prec a a"
  using prec_key by blast

lemma prec_asym: "prec a b \<Longrightarrow> \<not> prec b a"
  using prec_trans prec_irrefl by blast

lemma set_insert_row [simp]: "set (insert_row prec x ys) = insert x (set ys)"
  by (induction ys) auto

lemma set_order_rows [simp]: "set (order_rows prec rows) = set rows"
  by (induction rows) (simp_all add: order_rows_def)

lemma length_insert_row [simp]: "length (insert_row prec x ys) = Suc (length ys)"
  by (induction ys) auto

lemma length_order_rows [simp]: "length (order_rows prec rows) = length rows"
  by (induction rows) (simp_all add: order_rows_def)

lemma mset_order_rows: "mset (order_rows prec rows) = mset rows"
proof -
  have "mset (insert_row prec x ys) = add_mset x (mset ys)" for x ys by (induction ys) auto
  then show ?thesis by (induction rows) (simp_all add: order_rows_def)
qed

lemma sorted_insert_row:
  "sorted_wrt prec ys \<Longrightarrow> \<forall>y \<in> set ys. key x \<noteq> key y \<Longrightarrow> sorted_wrt prec (insert_row prec x ys)"
proof (induction ys)
  case (Cons y ys)
  show ?case
  proof (cases "prec y x")
    case True
    then show ?thesis using Cons by auto
  next
    case False
    then have "prec x y" using prec_total [of x y] Cons.prems(2) by auto
    then show ?thesis using False Cons.prems(1) prec_trans by auto
  qed
qed simp

lemma sorted_order_rows: "distinct (map key rows) \<Longrightarrow> sorted_wrt prec (order_rows prec rows)"
proof (induction rows)
  case (Cons r rows)
  then have "sorted_wrt prec (insert_row prec r (order_rows prec rows))"
    by (intro sorted_insert_row) auto
  then show ?case by (simp add: order_rows_def)
qed (simp add: order_rows_def)

lemma sorted_unique:
  "sorted_wrt prec xs \<Longrightarrow> sorted_wrt prec ys \<Longrightarrow> set xs = set ys \<Longrightarrow> xs = ys"
proof (induction xs arbitrary: ys)
  case (Cons x xs)
  obtain y zs where ys: "ys = y # zs" using Cons.prems(3) by (cases ys) auto
  have "x = y"
  proof (rule ccontr)
    assume "x \<noteq> y"
    then have "prec y x" "prec x y" using Cons.prems ys by auto
    then show False using prec_asym by blast
  qed
  moreover have "x \<notin> set xs" "y \<notin> set zs" using Cons.prems ys prec_irrefl by auto
  ultimately have "set xs = set zs" using Cons.prems(3) ys by auto
  then show ?case using Cons.IH [of zs] Cons.prems ys \<open>x = y\<close> by simp
qed simp

lemma order_rows_filter:
  assumes "distinct (map key rows)"
  shows "order_rows prec (filter P rows) = filter P (order_rows prec rows)"
proof (rule sorted_unique)
  show "sorted_wrt prec (order_rows prec (filter P rows))"
    by (rule sorted_order_rows) (rule distinct_map_filter [OF assms])
  show "sorted_wrt prec (filter P (order_rows prec rows))"
    by (rule sorted_wrt_filter [OF sorted_order_rows [OF assms]])
qed simp

lemma filter_after:
  assumes "sorted_wrt prec S" "k < length S"
  shows "filter (prec (S ! k)) S = drop (Suc k) S"
proof -
  have S: "S = take k S @ S ! k # drop (Suc k) S" using assms(2) by (simp add: id_take_nth_drop)
  have w: "sorted_wrt prec (take k S @ S ! k # drop (Suc k) S)" using assms(1) S by simp
  have "filter (prec (S ! k)) (take k S) = []"
    using w prec_asym by (auto simp: sorted_wrt_append filter_empty_conv)
  moreover have "filter (prec (S ! k)) (drop (Suc k) S) = drop (Suc k) S"
    using w by (auto simp: sorted_wrt_append)
  ultimately show ?thesis using prec_irrefl by (subst S) simp
qed

lemma filter_before:
  assumes "sorted_wrt prec S" "k < length S"
  shows "filter (\<lambda>r. prec r (S ! k)) S = take k S"
proof -
  have S: "S = take k S @ S ! k # drop (Suc k) S" using assms(2) by (simp add: id_take_nth_drop)
  have w: "sorted_wrt prec (take k S @ S ! k # drop (Suc k) S)" using assms(1) S by simp
  have "filter (\<lambda>r. prec r (S ! k)) (drop (Suc k) S) = []"
    using w prec_asym by (auto simp: sorted_wrt_append filter_empty_conv)
  moreover have "filter (\<lambda>r. prec r (S ! k)) (take k S) = take k S"
    using w by (auto simp: sorted_wrt_append)
  ultimately show ?thesis using prec_irrefl by (subst S) simp
qed

end

section \<open>The order of the columns\<close>

definition row_key :: "(string \<Rightarrow> 'r \<Rightarrow> cursor_value) \<Rightarrow> cursor_column list \<Rightarrow> 'r \<Rightarrow> cursor_value list" where
  "row_key attr columns r = map (\<lambda>c. attr (col_field c) r) columns"

interpretation column_order: keyed_order "precedes attr columns backwards" "row_key attr columns"
proof
  show "precedes attr columns backwards a b \<Longrightarrow> row_key attr columns a \<noteq> row_key attr columns b" for a b
    by (induction columns) (auto simp: row_key_def Let_def split: if_split_asm)
  show "precedes attr columns backwards a b \<Longrightarrow> precedes attr columns backwards b c \<Longrightarrow>
      precedes attr columns backwards a c" for a b c
    by (induction columns) (auto simp: Let_def split: if_split_asm)
  show "precedes attr columns backwards a b \<or> precedes attr columns backwards b a \<or>
      row_key attr columns a = row_key attr columns b" for a b
    by (induction columns) (auto simp: row_key_def Let_def)
qed

lemma precedes_reverse: "precedes attr columns True a b \<longleftrightarrow> precedes attr columns False b a"
  by (induction columns) (auto simp: Let_def)

lemma order_rows_reverse:
  assumes "distinct (map (row_key attr columns) rows)"
  shows "order_rows (precedes attr columns True) rows = rev (order_rows (precedes attr columns False) rows)"
proof (rule column_order.sorted_unique)
  show "sorted_wrt (precedes attr columns True) (order_rows (precedes attr columns True) rows)"
    by (rule column_order.sorted_order_rows [OF assms])
  have "sorted_wrt (precedes attr columns False) (order_rows (precedes attr columns False) rows)"
    by (rule column_order.sorted_order_rows [OF assms])
  then show "sorted_wrt (precedes attr columns True) (rev (order_rows (precedes attr columns False) rows))"
    by (simp add: sorted_wrt_rev precedes_reverse [abs_def])
qed simp

lemma boundary_loop_precedes:
  "cs \<noteq> [] \<Longrightarrow> boundary_loop attr previous r cs (row_key attr cs b) result prefix =
     Some (result = Some True \<or> q_and prefix (precedes attr cs previous b r))"
proof (induction cs arbitrary: result prefix)
  case (Cons c cs)
  let ?v = "attr (col_field c) b" and ?x = "attr (col_field c) r"
  have step: "boundary_loop attr previous r (c # cs) (row_key attr (c # cs) b) result prefix =
      boundary_loop attr previous r cs (row_key attr cs b)
        (q_or result (q_and prefix (if col_descending c = previous then ?v < ?x else ?x < ?v)))
        (Some (q_and prefix (?x = ?v)))"
    by (simp add: row_key_def Let_def)
  show ?case
  proof (cases "cs = []")
    case True
    then show ?thesis unfolding step
      by (auto simp: row_key_def q_or_def q_and_def Let_def split: option.split)
  next
    case False
    then show ?thesis unfolding step Cons.IH [OF False]
      by (auto simp: q_or_def q_and_def Let_def split: option.split)
  qed
qed simp

lemma boundary_filter_precedes:
  "columns \<noteq> [] \<Longrightarrow>
     boundary_filter attr columns (row_key attr columns b) previous r = precedes attr columns previous b r"
  by (simp add: boundary_filter_def boundary_loop_precedes q_and_def)

section \<open>Cursors of rows\<close>

definition column_typed :: "(string \<Rightarrow> 'r \<Rightarrow> cursor_value) \<Rightarrow> cursor_column list \<Rightarrow> 'r \<Rightarrow> bool" where
  "column_typed attr columns r \<longleftrightarrow>
     (\<forall>c \<in> set columns. validated_value (col_kind c) (attr (col_field c) r) = Inr (attr (col_field c) r))"

definition encoded :: "page_env \<Rightarrow> cursor_value \<Rightarrow> json" where
  "encoded env v = (case v of VTime t \<Rightarrow> JText (pe_isoformat env t) | VUuid u \<Rightarrow> JText (pe_uuid_text env u)
     | VText t \<Rightarrow> JText t | VInt i \<Rightarrow> JInt i)"

text \<open>The cursor that names the place of a row.\<close>

definition row_cursor ::
  "page_env \<Rightarrow> (string \<Rightarrow> 'r \<Rightarrow> cursor_value) \<Rightarrow> cursor_column list \<Rightarrow> text \<Rightarrow> text \<Rightarrow> direction \<Rightarrow> 'r \<Rightarrow> text" where
  "row_cursor env attr columns namespace context' d r =
     pe_dumps env (cursor_payload d (map (encoded env) (row_key attr columns r))) (cursor_salt env namespace context')"

lemma model_boundary_key: "column_typed attr columns r \<Longrightarrow> model_boundary attr r columns = Inr (row_key attr columns r)"
  by (induction columns) (simp_all add: column_typed_def row_key_def)

lemma encode_values_key:
  "column_typed attr columns r \<Longrightarrow>
     encode_values env columns (row_key attr columns r) = Inr (map (encoded env) (row_key attr columns r))"
  by (induction columns) (simp_all add: column_typed_def row_key_def encode_value_def encoded_def)

lemma encode_cursor_key:
  "column_typed attr columns r \<Longrightarrow> encode_cursor env columns namespace context' d (row_key attr columns r) =
     Inr (row_cursor env attr columns namespace context' d r)"
  by (simp add: encode_cursor_def encode_values_key row_cursor_def)

text \<open>The textual forms of times and UUIDs are parsed back.\<close>

definition texts_parse :: "page_env \<Rightarrow> bool" where
  "texts_parse env \<longleftrightarrow> (\<forall>t. pe_fromisoformat env (pe_isoformat env t) = Some t) \<and>
     (\<forall>u. pe_parse_uuid env (pe_uuid_text env u) = Some u)"

lemma decode_value_encoded:
  "texts_parse env \<Longrightarrow> validated_value kind v = Inr v \<Longrightarrow> decode_value env kind (encoded env v) = Inr v"
  by (cases kind; cases v) (simp_all add: validated_value_def decode_value_def encoded_def texts_parse_def)

lemma decode_values_key:
  "texts_parse env \<Longrightarrow> column_typed attr columns r \<Longrightarrow>
     decode_values env columns (map (encoded env) (row_key attr columns r)) = Inr (row_key attr columns r)"
  by (induction columns) (simp_all add: column_typed_def row_key_def decode_value_encoded)

lemma decode_payload_key:
  assumes "texts_parse env" "column_typed attr columns r"
  shows "decode_payload env columns (cursor_payload d (map (encoded env) (row_key attr columns r))) =
    Inr (d, row_key attr columns r)"
proof -
  have k: "cps ''v'' \<noteq> cps ''d''" "cps ''v'' \<noteq> cps ''p''" "cps ''d'' \<noteq> cps ''p''" by (simp_all add: cps_def)
  have d: "parse_direction (JText (direction_text d)) = Inr d"
    by (cases d) (simp_all add: parse_direction_def direction_text_def cps_def)
  have l: "length (row_key attr columns r) = length columns" by (simp add: row_key_def)
  show ?thesis
    using k d l decode_values_key [OF assms] by (auto simp: decode_payload_def cursor_payload_def equals_one_def)
qed

text \<open>
  What the pages rely on: rows are typed as the columns declare and told apart by them, and a cursor
  signed for this read path is accepted on it within its age and the length bound.
\<close>

definition pageable ::
  "page_env \<Rightarrow> (string \<Rightarrow> 'r \<Rightarrow> cursor_value) \<Rightarrow> 'r list \<Rightarrow> cursor_column list \<Rightarrow> text \<Rightarrow> text \<Rightarrow> int \<Rightarrow> bool" where
  "pageable env attr rows columns namespace context' max_age \<longleftrightarrow>
     columns \<noteq> [] \<and> 1 \<le> length namespace \<and> length namespace \<le> 100 \<and> texts_parse env \<and>
     distinct (map (row_key attr columns) rows) \<and> (\<forall>r \<in> set rows. column_typed attr columns r) \<and>
     (\<forall>r \<in> set rows. \<forall>d. let c = row_cursor env attr columns namespace context' d r in
        1 \<le> length c \<and> length c \<le> cursor_max_length \<and>
        pe_loads env c (cursor_salt env namespace context') max_age =
          Some (cursor_payload d (map (encoded env) (row_key attr columns r))))"

lemma pageable_decode:
  assumes "pageable env attr rows columns namespace context' max_age" "r \<in> set rows"
  shows "decode_cursor env columns namespace context' max_age (row_cursor env attr columns namespace context' d r)
    = Inr (d, row_key attr columns r)"
  using assms decode_payload_key [of env attr columns r d]
  by (auto simp: pageable_def decode_cursor_def Let_def)

section \<open>Pages are slices\<close>

definition slice_page ::
  "page_env \<Rightarrow> (string \<Rightarrow> 'r \<Rightarrow> cursor_value) \<Rightarrow> cursor_column list \<Rightarrow> text \<Rightarrow> text \<Rightarrow> 'r list \<Rightarrow> bool \<Rightarrow> bool
    \<Rightarrow> 'r cursor_page" where
  "slice_page env attr columns namespace context' items has_previous has_next =
     \<lparr>cp_items = items,
      cp_previous_cursor = (if has_previous then Some (row_cursor env attr columns namespace context' Previous (hd items)) else None),
      cp_next_cursor = (if has_next then Some (row_cursor env attr columns namespace context' Next (last items)) else None),
      cp_previous_url = None, cp_next_url = None\<rparr>"

text \<open>The common end of the three cases: the boundaries of the page and its two cursors.\<close>

definition finish_page ::
  "page_env \<Rightarrow> (string \<Rightarrow> 'r \<Rightarrow> cursor_value) \<Rightarrow> cursor_column list \<Rightarrow> text \<Rightarrow> text \<Rightarrow> cursor_value list option
    \<Rightarrow> 'r list \<Rightarrow> bool \<Rightarrow> bool \<Rightarrow> exn + 'r cursor_page" where
  "finish_page env attr columns namespace context' boundary items has_previous has_next =
     bindE (if items = [] then Inr boundary
             else bindE (model_boundary attr (hd items) columns) (\<lambda>b. Inr (Some b))) (\<lambda>previous_boundary.
      bindE (if items = [] then Inr boundary
             else bindE (model_boundary attr (last items) columns) (\<lambda>b. Inr (Some b))) (\<lambda>next_boundary.
      bindE (cursor_if env columns namespace context' Previous has_previous previous_boundary) (\<lambda>previous_cursor.
      bindE (cursor_if env columns namespace context' Next has_next next_boundary) (\<lambda>next_cursor.
      Inr \<lparr>cp_items = items, cp_previous_cursor = previous_cursor, cp_next_cursor = next_cursor,
           cp_previous_url = None, cp_next_url = None\<rparr>))))"

lemma finish_page_slice:
  assumes "items \<noteq> []" "\<forall>r \<in> set items. column_typed attr columns r"
  shows "finish_page env attr columns namespace context' boundary items has_previous has_next =
    Inr (slice_page env attr columns namespace context' items has_previous has_next)"
  using assms
  by (simp add: finish_page_def model_boundary_key cursor_if_def encode_cursor_key slice_page_def)

lemma build_page_cases:
  "build_page env attr rows columns namespace context' n None =
     finish_page env attr columns namespace context' None (take n (order_rows (precedes attr columns False) rows))
       False (n < length rows)"
  "build_page env attr rows columns namespace context' n (Some (Next, vs)) =
     finish_page env attr columns namespace context' (Some vs)
       (take n (order_rows (precedes attr columns False) (filter (boundary_filter attr columns vs False) rows)))
       True (n < length (filter (boundary_filter attr columns vs False) rows))"
  "build_page env attr rows columns namespace context' n (Some (Previous, vs)) =
     finish_page env attr columns namespace context' (Some vs)
       (rev (take n (order_rows (precedes attr columns True) (filter (boundary_filter attr columns vs True) rows))))
       (n < length (filter (boundary_filter attr columns vs True) rows)) True"
proof -
  have m: "n < min (length xs) (Suc n) \<longleftrightarrow> n < length xs" "min n (Suc n) = n" for xs :: "'r list" by auto
  show "build_page env attr rows columns namespace context' n None =
     finish_page env attr columns namespace context' None (take n (order_rows (precedes attr columns False) rows))
       False (n < length rows)"
    "build_page env attr rows columns namespace context' n (Some (Next, vs)) =
     finish_page env attr columns namespace context' (Some vs)
       (take n (order_rows (precedes attr columns False) (filter (boundary_filter attr columns vs False) rows)))
       True (n < length (filter (boundary_filter attr columns vs False) rows))"
    "build_page env attr rows columns namespace context' n (Some (Previous, vs)) =
     finish_page env attr columns namespace context' (Some vs)
       (rev (take n (order_rows (precedes attr columns True) (filter (boundary_filter attr columns vs True) rows))))
       (n < length (filter (boundary_filter attr columns vs True) rows)) True"
    unfolding build_page_def finish_page_def Let_def
    by (simp_all add: m del: min_less_iff_conj min_less_iff_disj)
qed

definition ordered where
  "ordered attr columns rows = order_rows (precedes attr columns False) rows"

lemma ordered_simps [simp]:
  "set (ordered attr columns rows) = set rows" "length (ordered attr columns rows) = length rows"
  by (simp_all add: ordered_def)

lemma ordered_sorted:
  "pageable env attr rows columns namespace context' max_age \<Longrightarrow>
     sorted_wrt (precedes attr columns False) (ordered attr columns rows)"
  unfolding ordered_def pageable_def by (intro column_order.sorted_order_rows) simp

lemma typed_slice:
  "pageable env attr rows columns namespace context' max_age \<Longrightarrow> set items \<subseteq> set rows \<Longrightarrow>
     \<forall>r \<in> set items. column_typed attr columns r"
  unfolding pageable_def by blast

lemma first_page:
  assumes p: "pageable env attr rows columns namespace context' max_age" and n: "0 < n"
  shows "build_page env attr rows columns namespace context' n None =
    Inr (slice_page env attr columns namespace context' (take n (ordered attr columns rows)) False (n < length rows))"
proof (cases "rows = []")
  case True
  then show ?thesis
    by (simp add: build_page_cases finish_page_def slice_page_def ordered_def order_rows_def cursor_if_def)
next
  case False
  then have ne: "take n (ordered attr columns rows) \<noteq> []"
    using n ordered_simps(2) [of attr columns rows] by (metis length_0_conv take_eq_Nil less_irrefl)
  have "set (take n (ordered attr columns rows)) \<subseteq> set rows"
    using set_take_subset [of n "ordered attr columns rows"] by simp
  show ?thesis
    unfolding build_page_cases ordered_def [symmetric]
    by (rule finish_page_slice [OF ne typed_slice [OF p \<open>set (take n _) \<subseteq> set rows\<close>]])
qed

lemma after_row:
  assumes p: "pageable env attr rows columns namespace context' max_age" and k: "k < length rows"
  shows "ordered attr columns (filter (boundary_filter attr columns (row_key attr columns (ordered attr columns rows ! k)) False) rows)
    = drop (Suc k) (ordered attr columns rows)"
proof -
  let ?S = "ordered attr columns rows"
  have d: "distinct (map (row_key attr columns) rows)" "columns \<noteq> []" using p by (simp_all add: pageable_def)
  have f: "boundary_filter attr columns (row_key attr columns (?S ! k)) False = precedes attr columns False (?S ! k)"
    using d(2) by (simp add: boundary_filter_precedes fun_eq_iff)
  show ?thesis
    unfolding f using column_order.filter_after [OF ordered_sorted [OF p], of k] k
      column_order.order_rows_filter [OF d(1), of False "precedes attr columns False (?S ! k)"]
    by (simp add: ordered_def)
qed

lemma before_row:
  assumes p: "pageable env attr rows columns namespace context' max_age" and k: "k < length rows"
  shows "order_rows (precedes attr columns True)
      (filter (boundary_filter attr columns (row_key attr columns (ordered attr columns rows ! k)) True) rows)
    = rev (take k (ordered attr columns rows))"
proof -
  let ?S = "ordered attr columns rows"
  have d: "distinct (map (row_key attr columns) rows)" "columns \<noteq> []" using p by (simp_all add: pageable_def)
  have f: "boundary_filter attr columns (row_key attr columns (?S ! k)) True = (\<lambda>r. precedes attr columns False r (?S ! k))"
    using d(2) by (simp add: boundary_filter_precedes precedes_reverse fun_eq_iff)
  have "distinct (map (row_key attr columns) (filter (\<lambda>r. precedes attr columns False r (?S ! k)) rows))"
    by (rule distinct_map_filter [OF d(1)])
  from order_rows_reverse [OF this] show ?thesis
    unfolding f using column_order.filter_before [OF ordered_sorted [OF p], of k] k
      column_order.order_rows_filter [OF d(1), of False "\<lambda>r. precedes attr columns False r (?S ! k)"]
    by (simp add: ordered_def)
qed

lemma next_page:
  assumes p: "pageable env attr rows columns namespace context' max_age" and n: "0 < n" and k: "Suc k < length rows"
  shows "build_page env attr rows columns namespace context' n
      (Some (Next, row_key attr columns (ordered attr columns rows ! k))) =
    Inr (slice_page env attr columns namespace context' (take n (drop (Suc k) (ordered attr columns rows))) True
      (Suc k + n < length rows))"
proof -
  let ?S = "ordered attr columns rows"
  let ?P = "boundary_filter attr columns (row_key attr columns (?S ! k)) False"
  have a: "ordered attr columns (filter ?P rows) = drop (Suc k) ?S" using after_row [OF p] k by simp
  have "length (filter ?P rows) = length rows - Suc k"
    using arg_cong [OF a, of length] by simp
  then have l: "n < length (filter ?P rows) \<longleftrightarrow> Suc k + n < length rows" by linarith
  have "take n (drop (Suc k) ?S) \<noteq> []" using n k by simp
  moreover have "set (take n (drop (Suc k) ?S)) \<subseteq> set rows"
    using set_take_subset set_drop_subset ordered_simps(1) by (metis order_trans)
  ultimately show ?thesis
    unfolding build_page_cases l ordered_def [symmetric] a [unfolded ordered_def, folded ordered_def]
    using finish_page_slice typed_slice [OF p] by blast
qed

lemma previous_page:
  assumes p: "pageable env attr rows columns namespace context' max_age" and n: "0 < n" and k: "0 < k" "k < length rows"
  shows "build_page env attr rows columns namespace context' n
      (Some (Previous, row_key attr columns (ordered attr columns rows ! k))) =
    Inr (slice_page env attr columns namespace context' (drop (k - n) (take k (ordered attr columns rows))) (n < k) True)"
proof -
  let ?S = "ordered attr columns rows"
  let ?P = "boundary_filter attr columns (row_key attr columns (?S ! k)) True"
  have a: "order_rows (precedes attr columns True) (filter ?P rows) = rev (take k ?S)" by (rule before_row [OF p k(2)])
  have l: "length (filter ?P rows) = k" using arg_cong [OF a, of length] k by simp
  have items: "rev (take n (rev (take k ?S))) = drop (k - n) (take k ?S)"
    using k by (simp add: take_rev)
  have "drop (k - n) (take k ?S) \<noteq> []" using n k by simp
  moreover have "set (drop (k - n) (take k ?S)) \<subseteq> set rows"
    using set_take_subset set_drop_subset ordered_simps(1) by (metis order_trans)
  ultimately show ?thesis
    unfolding build_page_cases a l items using finish_page_slice typed_slice [OF p] by blast
qed

section \<open>A sample queryset\<close>

text \<open>Rows are numbers ordered by themselves; a cursor spells direction and number before its salt.\<close>

definition sample_page_env :: page_env where
  "sample_page_env =
     \<lparr>pe_dumps = (\<lambda>payload salt. case payload of
          JObject [v, (k, JText d), (p, JList [JInt i])] \<Rightarrow> (if d = direction_text Next then 0 else 1) # nat i # salt
        | _ \<Rightarrow> []),
      pe_loads = (\<lambda>c salt age. case c of
          d # i # s \<Rightarrow> if s = salt then Some (cursor_payload (if d = 0 then Next else Previous) [JInt (int i)]) else None
        | _ \<Rightarrow> None),
      pe_isoformat = (\<lambda>t. [if t < 0 then 45 else 43, nat \<bar>t\<bar>]),
      pe_fromisoformat = (\<lambda>x. case x of [s, n] \<Rightarrow> Some (if s = 45 then - int n else int n) | _ \<Rightarrow> None),
      pe_uuid_text = (\<lambda>u. [u]),
      pe_parse_uuid = (\<lambda>x. case x of [u] \<Rightarrow> Some u | _ \<Rightarrow> None),
      pe_sha256 = (\<lambda>x. replicate 63 48 @ [if x = [] then 48 else 49])\<rparr>"

definition sample_columns :: "cursor_column list" where
  "sample_columns = [\<lparr>col_field = ''id'', col_kind = KInteger, col_descending = False\<rparr>]"

definition sample_attr :: "string \<Rightarrow> nat \<Rightarrow> cursor_value" where
  "sample_attr f r = VInt (int r)"

lemma sample_texts_parse: "texts_parse sample_page_env"
  by (auto simp: texts_parse_def sample_page_env_def)

lemma sample_salt_length: "length (cursor_salt sample_page_env namespace context') = 85 + length namespace"
  by (simp add: cursor_salt_def cps_def sample_page_env_def)

lemma sample_loads:
  "pe_loads sample_page_env (pe_dumps sample_page_env (cursor_payload d [JInt (int i)]) salt) salt age =
     Some (cursor_payload d [JInt (int i)])"
  by (cases d) (simp_all add: sample_page_env_def cursor_payload_def direction_text_def cps_def)

lemma sample_pageable:
  assumes "distinct rows" "1 \<le> length namespace" "length namespace \<le> 100"
  shows "pageable sample_page_env sample_attr rows sample_columns namespace context' max_age"
proof -
  have k: "row_key sample_attr sample_columns = (\<lambda>r. [VInt (int r)])"
    by (simp add: fun_eq_iff row_key_def sample_columns_def sample_attr_def)
  have "distinct (map (row_key sample_attr sample_columns) rows)"
    using assms(1) by (simp add: k distinct_map inj_on_def)
  moreover have "\<forall>r \<in> set rows. column_typed sample_attr sample_columns r"
    by (simp add: column_typed_def sample_columns_def sample_attr_def validated_value_def)
  moreover have "length (pe_dumps sample_page_env (cursor_payload d [JInt (int i)]) salt) = 2 + length salt" for d i salt
    by (simp add: sample_page_env_def cursor_payload_def)
  ultimately show ?thesis using assms(2,3)
    by (simp add: pageable_def sample_texts_parse row_cursor_def k encoded_def sample_loads sample_salt_length
        cursor_max_length_def Let_def) (simp add: sample_columns_def)
qed

end
