(* ===== verification/Navigation.thy ===== *)
theory Navigation
  imports Pages
begin

text \<open>
  Navigation over the pages: following next cursors visits every row once and in order, a step forward
  and back returns to the same rows, and a cursor is good for its own read path only.
\<close>

section \<open>Pages of a cursor\<close>

lemma paginate_first:
  assumes "pageable env attr rows columns namespace context' max_age" "1 \<le> n" "n \<le> 100"
  shows "paginate_keyset env attr rows columns namespace None context' (int n) max_age =
    build_page env attr rows columns namespace context' n None"
  using assms by (auto simp: paginate_keyset_def pageable_def)

lemma paginate_row:
  assumes "pageable env attr rows columns namespace context' max_age" "1 \<le> n" "n \<le> 100" "r \<in> set rows"
  shows "paginate_keyset env attr rows columns namespace
      (Some (row_cursor env attr columns namespace context' d r)) context' (int n) max_age =
    build_page env attr rows columns namespace context' n (Some (d, row_key attr columns r))"
proof -
  have "1 \<le> length (row_cursor env attr columns namespace context' d r)"
    using assms(1,4) by (simp add: pageable_def Let_def)
  then have "row_cursor env attr columns namespace context' d r \<noteq> []" by auto
  then show ?thesis
    using assms pageable_decode [OF assms(1,4), of d] by (auto simp: paginate_keyset_def pageable_def)
qed

lemma ordered_nth: "k < length rows \<Longrightarrow> ordered attr columns rows ! k \<in> set rows"
  using nth_mem [of k "ordered attr columns rows"] by simp

lemma last_take: "0 < n \<Longrightarrow> k < length xs \<Longrightarrow> k + n \<le> length xs \<Longrightarrow> last (take n (drop k xs)) = xs ! (k + n - 1)"
  by (subst last_conv_nth) auto

text \<open>\<open>page_at k\<close>: the page whose first row is at place \<open>k\<close> of the order.\<close>

definition page_at ::
  "page_env \<Rightarrow> (string \<Rightarrow> 'r \<Rightarrow> cursor_value) \<Rightarrow> 'r list \<Rightarrow> cursor_column list \<Rightarrow> text \<Rightarrow> text \<Rightarrow> nat \<Rightarrow> nat
    \<Rightarrow> 'r cursor_page" where
  "page_at env attr rows columns namespace context' n k =
     slice_page env attr columns namespace context' (take n (drop k (ordered attr columns rows))) (0 < k)
       (k + n < length rows)"

lemma first_page_at:
  "pageable env attr rows columns namespace context' max_age \<Longrightarrow> 1 \<le> n \<Longrightarrow> n \<le> 100 \<Longrightarrow>
     paginate_keyset env attr rows columns namespace None context' (int n) max_age =
     Inr (page_at env attr rows columns namespace context' n 0)"
  by (simp add: paginate_first first_page page_at_def)

lemma page_at_next_cursor:
  assumes "1 \<le> n"
  shows "cp_next_cursor (page_at env attr rows columns namespace context' n k) =
    (if k + n < length rows
     then Some (row_cursor env attr columns namespace context' Next (ordered attr columns rows ! (k + n - 1)))
     else None)"
  using assms last_take [of n k "ordered attr columns rows"] by (simp add: page_at_def slice_page_def)

lemma next_page_at:
  assumes p: "pageable env attr rows columns namespace context' max_age" and n: "1 \<le> n" "n \<le> 100"
    and c: "cp_next_cursor (page_at env attr rows columns namespace context' n k) = Some c"
  shows "k + n < length rows \<and> paginate_keyset env attr rows columns namespace (Some c) context' (int n) max_age =
    Inr (page_at env attr rows columns namespace context' n (k + n))"
proof -
  have l: "k + n < length rows"
    and c: "c = row_cursor env attr columns namespace context' Next (ordered attr columns rows ! (k + n - 1))"
    using c n by (auto simp: page_at_next_cursor split: if_split_asm)
  have "ordered attr columns rows ! (k + n - 1) \<in> set rows" using l by (intro ordered_nth) simp
  moreover have s: "Suc (k + n - 1) = k + n" using n by simp
  ultimately show ?thesis
    using l n next_page [OF p, of n "k + n - 1"] by (simp add: c paginate_row [OF p n] page_at_def)
qed

section \<open>Following the next cursors\<close>

text \<open>The pages a reader gets who follows the next cursors, within a number of steps.\<close>

fun follow ::
  "page_env \<Rightarrow> (string \<Rightarrow> 'r \<Rightarrow> cursor_value) \<Rightarrow> 'r list \<Rightarrow> cursor_column list \<Rightarrow> text \<Rightarrow> text \<Rightarrow> int \<Rightarrow> int
    \<Rightarrow> nat \<Rightarrow> text option \<Rightarrow> 'r cursor_page list option" where
  "follow env attr rows columns namespace context' n max_age 0 cursor = None"
| "follow env attr rows columns namespace context' n max_age (Suc fuel) cursor =
     (case paginate_keyset env attr rows columns namespace cursor context' n max_age of
        Inl e \<Rightarrow> None
      | Inr page \<Rightarrow> (case cp_next_cursor page of
            None \<Rightarrow> Some [page]
          | Some c \<Rightarrow> map_option (\<lambda>pages. page # pages)
              (follow env attr rows columns namespace context' n max_age fuel (Some c))))"

fun chunks_of :: "nat \<Rightarrow> 'a list \<Rightarrow> nat \<Rightarrow> 'a list list" where
  "chunks_of n xs 0 = []"
| "chunks_of n xs (Suc fuel) = take n xs # (if length xs \<le> n then [] else chunks_of n (drop n xs) fuel)"

lemma concat_chunks_of: "0 < n \<Longrightarrow> length xs < fuel \<Longrightarrow> concat (chunks_of n xs fuel) = xs"
proof (induction fuel arbitrary: xs)
  case (Suc fuel)
  then show ?case by (cases "length xs \<le> n") auto
qed simp

lemma follow_pages:
  assumes p: "pageable env attr rows columns namespace context' max_age" and n: "1 \<le> n" "n \<le> 100"
  shows "paginate_keyset env attr rows columns namespace cursor context' (int n) max_age =
      Inr (page_at env attr rows columns namespace context' n k) \<Longrightarrow> length rows - k < fuel \<Longrightarrow>
    \<exists>pages. follow env attr rows columns namespace context' (int n) max_age fuel cursor = Some pages \<and>
      map cp_items pages = chunks_of n (drop k (ordered attr columns rows)) fuel"
proof (induction fuel arbitrary: k cursor)
  case (Suc fuel)
  let ?page = "page_at env attr rows columns namespace context' n k"
  have items: "cp_items ?page = take n (drop k (ordered attr columns rows))" by (simp add: page_at_def slice_page_def)
  show ?case
  proof (cases "k + n < length rows")
    case False
    then show ?thesis using Suc.prems n items by (auto simp: page_at_next_cursor)
  next
    case True
    then obtain c where c: "cp_next_cursor ?page = Some c" using n by (simp add: page_at_next_cursor)
    have "length rows - (k + n) < fuel" using True Suc.prems(2) n by linarith
    from Suc.IH [OF conjunct2 [OF next_page_at [OF p n c]] this] obtain pages where
      "follow env attr rows columns namespace context' (int n) max_age fuel (Some c) = Some pages"
      "map cp_items pages = chunks_of n (drop (k + n) (ordered attr columns rows)) fuel" by blast
    then show ?thesis using Suc.prems(1) c items True by (auto simp: add.commute)
  qed
qed simp

text \<open>
  C21: Following the next cursors from the first page ends within one step per row and yields the rows
  of the queryset in the order of its columns, each exactly once, cut into pages of the page size.
\<close>

theorem following_pages_visits_all:
  assumes "pageable env attr rows columns namespace context' max_age" "1 \<le> n" "n \<le> 100"
  shows "\<exists>pages. follow env attr rows columns namespace context' (int n) max_age (Suc (length rows)) None = Some pages
      \<and> map cp_items pages = chunks_of n (order_rows (precedes attr columns False) rows) (Suc (length rows))
      \<and> concat (map cp_items pages) = order_rows (precedes attr columns False) rows
      \<and> mset (concat (map cp_items pages)) = mset rows"
proof -
  from follow_pages [OF assms first_page_at [OF assms], of "Suc (length rows)"] obtain pages where
    f: "follow env attr rows columns namespace context' (int n) max_age (Suc (length rows)) None = Some pages"
    and m: "map cp_items pages = chunks_of n (ordered attr columns rows) (Suc (length rows))" by auto
  have "concat (map cp_items pages) = ordered attr columns rows"
    unfolding m using assms(2) by (intro concat_chunks_of) simp_all
  moreover have "mset (ordered attr columns rows) = mset rows"
    by (simp add: ordered_def column_order.mset_order_rows)
  ultimately show ?thesis using f m by (simp add: ordered_def)
qed

lemma following_pages_visits_all_witness:
  "\<exists>pages. follow sample_page_env sample_attr [3, 1, 2] sample_columns [97] [] 2 60 4 None = Some pages
    \<and> map cp_items pages = [[1, 2], [3]]"
proof -
  have "pageable sample_page_env sample_attr [3, 1, 2] sample_columns [97] [] 60"
    by (rule sample_pageable) simp_all
  from following_pages_visits_all [OF this, of 2] show ?thesis
    by (auto simp: order_rows_def sample_columns_def sample_attr_def less_cursor_value_def numeral_eq_Suc)
qed

section \<open>Forward and back\<close>

lemma finish_page_items:
  "finish_page env attr columns namespace context' boundary items has_previous has_next = Inr page \<Longrightarrow>
     cp_items page = items"
  by (auto simp: finish_page_def bindE_def split: sum.splits)

lemma previous_row_page:
  assumes p: "pageable env attr rows columns namespace context' max_age" and n: "1 \<le> n" "n \<le> 100"
    and k: "0 < k" "k < length rows"
  shows "paginate_keyset env attr rows columns namespace
      (Some (row_cursor env attr columns namespace context' Previous (ordered attr columns rows ! k))) context' (int n) max_age =
    Inr (slice_page env attr columns namespace context' (drop (k - n) (take k (ordered attr columns rows))) (n < k) True)"
  unfolding paginate_row [OF p n ordered_nth [OF k(2)]] using n by (intro previous_page [OF p _ k]) simp

lemma step_back:
  assumes p: "pageable env attr rows columns namespace context' max_age" and n: "1 \<le> n" "n \<le> 100"
    and m: "1 \<le> m" "m \<le> n" "j + m < length rows" "m = n \<or> j = 0"
    and c: "c = row_cursor env attr columns namespace context' Next (ordered attr columns rows ! (j + m - 1))"
  shows "\<exists>after c' again. paginate_keyset env attr rows columns namespace (Some c) context' (int n) max_age = Inr after
    \<and> cp_previous_cursor after = Some c'
    \<and> paginate_keyset env attr rows columns namespace (Some c') context' (int n) max_age = Inr again
    \<and> cp_items again = take m (drop j (ordered attr columns rows)) \<and> cp_next_cursor again = Some c"
proof -
  let ?S = "ordered attr columns rows"
  have s: "Suc (j + m - 1) = j + m" using m by simp
  have "?S ! (j + m - 1) \<in> set rows" using m by (intro ordered_nth) simp
  then have a: "paginate_keyset env attr rows columns namespace (Some c) context' (int n) max_age =
      Inr (page_at env attr rows columns namespace context' n (j + m))"
    using m n next_page [OF p, of n "j + m - 1"] by (simp add: c paginate_row [OF p n] page_at_def s)
  have h: "hd (take n (drop (j + m) ?S)) = ?S ! (j + m)"
    using m n by (simp add: hd_drop_conv_nth)
  have b: "cp_previous_cursor (page_at env attr rows columns namespace context' n (j + m)) =
      Some (row_cursor env attr columns namespace context' Previous (?S ! (j + m)))"
    using m h by (simp add: page_at_def slice_page_def)
  have i: "drop (j + m - n) (take (j + m) ?S) = take m (drop j ?S)"
    using m(4) m(2) by (auto simp: drop_take)
  have l: "last (take m (drop j ?S)) = ?S ! (j + m - 1)" using m by (intro last_take) simp_all
  have "0 < j + m" using m by simp
  from a b previous_row_page [OF p n this m(3)] l show ?thesis unfolding i
    by (intro exI conjI) (assumption | simp add: slice_page_def c)+
qed

text \<open>
  C22: From every page that has rows and a next page, going to the next page and from there to the
  previous one returns to the same rows and the same next cursor.
\<close>

theorem next_then_previous_returns:
  assumes p: "pageable env attr rows columns namespace context' max_age" and n: "1 \<le> n" "n \<le> 100"
    and here: "cursor = None \<or> (\<exists>r \<in> set rows. \<exists>d. cursor = Some (row_cursor env attr columns namespace context' d r))"
    and page: "paginate_keyset env attr rows columns namespace cursor context' (int n) max_age = Inr page"
    and some: "cp_items page \<noteq> []" and c: "cp_next_cursor page = Some c"
  shows "\<exists>after c' again. paginate_keyset env attr rows columns namespace (Some c) context' (int n) max_age = Inr after
    \<and> cp_previous_cursor after = Some c'
    \<and> paginate_keyset env attr rows columns namespace (Some c') context' (int n) max_age = Inr again
    \<and> cp_items again = cp_items page \<and> cp_next_cursor again = Some c"
proof -
  let ?S = "ordered attr columns rows"
  have forward: ?thesis if "page = page_at env attr rows columns namespace context' n j" for j
  proof -
    have "j + n < length rows"
      "c = row_cursor env attr columns namespace context' Next (?S ! (j + n - 1))"
      using c n that by (auto simp: page_at_next_cursor split: if_split_asm)
    moreover have "cp_items page = take n (drop j ?S)" by (simp add: that page_at_def slice_page_def)
    ultimately show ?thesis using step_back [OF p n n(1) order_refl] by simp
  qed
  show ?thesis
  proof (cases cursor)
    case None
    then have "page = page_at env attr rows columns namespace context' n 0"
      using page first_page_at [OF p n] by simp
    then show ?thesis by (rule forward)
  next
    case (Some cur)
    then obtain r d where r: "r \<in> set rows" and cur: "cur = row_cursor env attr columns namespace context' d r"
      using here by blast
    then obtain k where k: "k < length rows" "r = ?S ! k"
      using in_set_conv_nth [of r ?S] by auto
    have pg: "build_page env attr rows columns namespace context' n (Some (d, row_key attr columns (?S ! k))) = Inr page"
      using page paginate_row [OF p n r] by (simp add: Some cur k(2))
    show ?thesis
    proof (cases d)
      case Next
      have "Suc k < length rows"
      proof (rule ccontr)
        assume "\<not> Suc k < length rows"
        then have "filter (boundary_filter attr columns (row_key attr columns (?S ! k)) False) rows = []"
          using arg_cong [OF after_row [OF p k(1)], of length] by simp
        then show False using pg some finish_page_items
          by (fastforce simp: Next build_page_cases order_rows_def)
      qed
      then have "page = page_at env attr rows columns namespace context' n (Suc k)"
        using pg next_page [OF p, of n k] n by (simp add: Next page_at_def)
      then show ?thesis by (rule forward)
    next
      case Previous
      have k0: "0 < k"
      proof (rule ccontr)
        assume "\<not> 0 < k"
        then have "filter (boundary_filter attr columns (row_key attr columns (?S ! k)) True) rows = []"
          using arg_cong [OF before_row [OF p k(1)], of length] by simp
        then show False using pg some finish_page_items
          by (fastforce simp: Previous build_page_cases order_rows_def)
      qed
      let ?m = "min n k"
      have i: "drop (k - n) (take k ?S) = take ?m (drop (k - n) ?S)" by (simp add: drop_take min_def)
      have e: "k - n + ?m = k" by simp
      have l: "last (take ?m (drop (k - n) ?S)) = ?S ! (k - n + ?m - 1)"
        using k0 k(1) n by (intro last_take) simp_all
      have pg': "page = slice_page env attr columns namespace context' (take ?m (drop (k - n) ?S)) (n < k) True"
        using pg previous_page [OF p, of n k] n k0 k(1) by (simp add: Previous i)
      then have "c = row_cursor env attr columns namespace context' Next (?S ! (k - n + ?m - 1))"
        using c l by (simp add: slice_page_def)
      moreover have "1 \<le> ?m" "?m \<le> n" "k - n + ?m < length rows" "?m = n \<or> k - n = 0" using k0 k(1) n by auto
      moreover have "cp_items page = take ?m (drop (k - n) ?S)" by (simp add: pg' slice_page_def)
      ultimately show ?thesis using step_back [OF p n, of ?m "k - n" c] by simp
    qed
  qed
qed

lemma next_then_previous_returns_witness:
  "\<exists>page c after c' again. paginate_keyset sample_page_env sample_attr [3, 1, 2] sample_columns [97] None [] 2 60 = Inr page
    \<and> paginate_keyset sample_page_env sample_attr [3, 1, 2] sample_columns [97] (Some c) [] 2 60 = Inr after
    \<and> cp_previous_cursor after = Some c'
    \<and> paginate_keyset sample_page_env sample_attr [3, 1, 2] sample_columns [97] (Some c') [] 2 60 = Inr again
    \<and> cp_items again = cp_items page"
proof -
  let ?page = "page_at sample_page_env sample_attr [3, 1, 2] sample_columns [97] [] 2 0"
  have p: "pageable sample_page_env sample_attr [3, 1, 2] sample_columns [97] [] 60"
    by (rule sample_pageable) simp_all
  have f: "paginate_keyset sample_page_env sample_attr [3, 1, 2] sample_columns [97] None [] (int 2) 60 = Inr ?page"
    by (rule first_page_at [OF p]) simp_all
  obtain c where c: "cp_next_cursor ?page = Some c" by (simp add: page_at_next_cursor)
  have "cp_items ?page \<noteq> []"
    using arg_cong [OF refl, of length "take 2 (ordered sample_attr sample_columns [3, 1, 2])"]
    by (auto simp: page_at_def slice_page_def dest: arg_cong [of _ _ length])
  from next_then_previous_returns [OF p _ _ _ f this c] f show ?thesis by auto
qed

section \<open>Any cursor\<close>

lemma build_page_rows:
  assumes "build_page env attr rows columns namespace context' n decoded = Inr page"
  shows "\<exists>backwards P. cp_items page =
    (if backwards then rev else id) (take n (order_rows (precedes attr columns backwards) (filter P rows)))"
proof -
  consider "decoded = None" | vs where "decoded = Some (Next, vs)" | vs where "decoded = Some (Previous, vs)"
    by (metis direction.exhaust option.exhaust surj_pair)
  then show ?thesis
  proof cases
    case 1
    then have "cp_items page = take n (order_rows (precedes attr columns False) (filter (\<lambda>_. True) rows))"
      using assms by (simp add: build_page_cases finish_page_items)
    then show ?thesis by (intro exI [of _ False] exI [of _ "\<lambda>_. True"]) simp
  next
    case 2
    then have "cp_items page = take n (order_rows (precedes attr columns False)
        (filter (boundary_filter attr columns vs False) rows))"
      using assms by (simp add: build_page_cases finish_page_items)
    then show ?thesis by (intro exI [of _ False] exI) simp
  next
    case 3
    then have "cp_items page = rev (take n (order_rows (precedes attr columns True)
        (filter (boundary_filter attr columns vs True) rows)))"
      using assms by (simp add: build_page_cases finish_page_items)
    then show ?thesis by (intro exI [of _ True] exI) simp
  qed
qed

lemma paginate_build:
  assumes "paginate_keyset env attr rows columns namespace cursor context' n max_age = Inr page"
  shows "1 \<le> n \<and> n \<le> 100 \<and>
    (\<exists>decoded. build_page env attr rows columns namespace context' (nat n) decoded = Inr page)"
  using assms unfolding paginate_keyset_def
  by (auto simp: bindE_def split: if_split_asm option.splits sum.splits)

text \<open>
  C23: Whatever the cursor holds, a page has at most the page size of rows, at most 100, takes every
  row from the queryset at most as often as it is there, and keeps the order of the columns.
\<close>

theorem pages_are_bounded:
  assumes "paginate_keyset env attr rows columns namespace cursor context' n max_age = Inr page"
  shows "int (length (cp_items page)) \<le> n \<and> length (cp_items page) \<le> 100
    \<and> mset (cp_items page) \<subseteq># mset rows
    \<and> (distinct (map (row_key attr columns) rows) \<longrightarrow> sorted_wrt (precedes attr columns False) (cp_items page))"
proof -
  obtain decoded where n: "1 \<le> n" "n \<le> 100"
    and d: "build_page env attr rows columns namespace context' (nat n) decoded = Inr page"
    using paginate_build [OF assms] by blast
  obtain backwards P where i: "cp_items page = (if backwards then rev else id)
      (take (nat n) (order_rows (precedes attr columns backwards) (filter P rows)))"
    using build_page_rows [OF d] by blast
  have "mset (take (nat n) (order_rows (precedes attr columns backwards) (filter P rows))) \<subseteq># mset (filter P rows)"
    by (metis append_take_drop_id column_order.mset_order_rows mset_append mset_subset_eq_add_left)
  then have m: "mset (cp_items page) \<subseteq># mset rows"
    by (auto simp: i intro: subset_mset.order_trans)
  have l: "length (cp_items page) \<le> nat n" by (simp add: i)
  have "sorted_wrt (precedes attr columns False) (cp_items page)" if "distinct (map (row_key attr columns) rows)"
  proof -
    have "sorted_wrt (precedes attr columns backwards) (take (nat n) (order_rows (precedes attr columns backwards) (filter P rows)))"
      by (intro sorted_wrt_take column_order.sorted_order_rows distinct_map_filter that)
    then show ?thesis
      by (cases backwards) (simp_all add: i sorted_wrt_rev precedes_reverse [abs_def])
  qed
  then show ?thesis using m l n by linarith
qed

lemma pages_are_bounded_witness:
  "\<exists>page. paginate_keyset sample_page_env sample_attr [3, 1, 2] sample_columns [97] None [] 2 60 = Inr page
    \<and> length (cp_items page) \<le> 2 \<and> sorted_wrt (precedes sample_attr sample_columns False) (cp_items page)"
proof -
  have p: "pageable sample_page_env sample_attr [3, 1, 2] sample_columns [97] [] 60"
    by (rule sample_pageable) simp_all
  then have d: "distinct (map (row_key sample_attr sample_columns) [3, 1, 2])" by (simp add: pageable_def)
  have f: "paginate_keyset sample_page_env sample_attr [3, 1, 2] sample_columns [97] None [] (int 2) 60 =
      Inr (page_at sample_page_env sample_attr [3, 1, 2] sample_columns [97] [] 2 0)"
    by (rule first_page_at [OF p]) simp_all
  from pages_are_bounded [OF f] d f show ?thesis by auto
qed

text \<open>
  C24: The filter of a cursor that names a row keeps, in either direction, exactly the rows that
  differ from it first in a column where they lie on the far side of it.
\<close>

theorem boundary_filter_lexicographic:
  assumes "columns \<noteq> []"
  shows "boundary_filter attr columns (row_key attr columns b) previous r \<longleftrightarrow>
    (\<exists>i < length columns.
       (\<forall>j < i. attr (col_field (columns ! j)) r = attr (col_field (columns ! j)) b) \<and>
       (if col_descending (columns ! i) = previous
        then attr (col_field (columns ! i)) b < attr (col_field (columns ! i)) r
        else attr (col_field (columns ! i)) r < attr (col_field (columns ! i)) b))"
proof -
  have "precedes attr cs previous b r \<longleftrightarrow>
    (\<exists>i < length cs.
       (\<forall>j < i. attr (col_field (cs ! j)) r = attr (col_field (cs ! j)) b) \<and>
       (if col_descending (cs ! i) = previous
        then attr (col_field (cs ! i)) b < attr (col_field (cs ! i)) r
        else attr (col_field (cs ! i)) r < attr (col_field (cs ! i)) b))" for cs
  proof (induction cs)
    case (Cons c cs)
    show ?case
      by (simp add: Ex_less_Suc2 All_less_Suc2 Cons.IH Let_def) auto
  qed simp
  then show ?thesis using boundary_filter_precedes [OF assms, of attr b previous r] by simp
qed

lemma boundary_filter_lexicographic_witness:
  "boundary_filter sample_attr sample_columns [VInt 2] False 3 \<and> \<not> boundary_filter sample_attr sample_columns [VInt 2] False 1"
proof -
  have "row_key sample_attr sample_columns 2 = [VInt 2]" by (simp add: row_key_def sample_columns_def sample_attr_def)
  moreover have "sample_columns \<noteq> []" by (simp add: sample_columns_def)
  ultimately show ?thesis
    using boundary_filter_lexicographic [of sample_columns sample_attr 2 False]
    by (simp add: sample_columns_def sample_attr_def less_cursor_value_def)
qed

section \<open>What a cursor is good for\<close>

lemma encode_value_Inr:
  "encode_value env kind v = Inr j \<Longrightarrow> j = encoded env v \<and> validated_value kind v = Inr v"
  by (cases kind; cases v) (simp_all add: encode_value_def validated_value_def encoded_def)

lemma encode_values_Inr:
  "encode_values env cs vs = Inr js \<Longrightarrow>
     js = map (encoded env) vs \<and> list_all2 (\<lambda>c v. validated_value (col_kind c) v = Inr v) cs vs"
  by (induction env cs vs arbitrary: js rule: encode_values.induct)
    (auto simp: bindE_eq_Inr dest!: encode_value_Inr)

lemma decode_values_encoded:
  assumes "texts_parse env" "list_all2 (\<lambda>c v. validated_value (col_kind c) v = Inr v) cs vs"
  shows "decode_values env cs (map (encoded env) vs) = Inr vs"
  using assms(2) by (induction rule: list_all2_induct) (simp_all add: decode_value_encoded [OF assms(1)])

lemma decode_payload_encoded:
  assumes "texts_parse env" "list_all2 (\<lambda>c v. validated_value (col_kind c) v = Inr v) columns values"
  shows "decode_payload env columns (cursor_payload d (map (encoded env) values)) = Inr (d, values)"
proof -
  have k: "cps ''v'' \<noteq> cps ''d''" "cps ''v'' \<noteq> cps ''p''" "cps ''d'' \<noteq> cps ''p''" by (simp_all add: cps_def)
  have d: "parse_direction (JText (direction_text d)) = Inr d"
    by (cases d) (simp_all add: parse_direction_def direction_text_def cps_def)
  show ?thesis
    using k d list_all2_lengthD [OF assms(2)] decode_values_encoded [OF assms]
    by (auto simp: decode_payload_def cursor_payload_def equals_one_def)
qed

text \<open>
  C25: Decoding a cursor that was encoded for the same read path returns its direction and its
  boundary values unchanged.
\<close>

theorem cursor_round_trip:
  assumes "encode_cursor env columns namespace context' d values = Inr c"
    and "texts_parse env" "1 \<le> length c" "length c \<le> cursor_max_length"
    and "\<And>js. encode_values env columns values = Inr js \<Longrightarrow>
      pe_loads env c (cursor_salt env namespace context') max_age = Some (cursor_payload d js)"
  shows "decode_cursor env columns namespace context' max_age c = Inr (d, values)"
proof -
  obtain js where js: "encode_values env columns values = Inr js"
    and c: "c = pe_dumps env (cursor_payload d js) (cursor_salt env namespace context')"
    using assms(1) by (auto simp: encode_cursor_def bindE_eq_Inr)
  from encode_values_Inr [OF js] show ?thesis
    using assms(3,4) assms(5) [OF js] decode_payload_encoded [OF assms(2)] by (simp add: decode_cursor_def)
qed

lemma cursor_round_trip_witness:
  "\<exists>c. encode_cursor sample_page_env sample_columns [97] [] Previous [VInt 7] = Inr c
    \<and> decode_cursor sample_page_env sample_columns [97] [] 60 c = Inr (Previous, [VInt 7])"
proof -
  let ?c = "pe_dumps sample_page_env (cursor_payload Previous [JInt (int 7)]) (cursor_salt sample_page_env [97] [])"
  have v: "encode_values sample_page_env sample_columns [VInt 7] = Inr [JInt (int 7)]"
    by (simp add: sample_columns_def encode_value_def validated_value_def)
  have e: "encode_cursor sample_page_env sample_columns [97] [] Previous [VInt 7] = Inr ?c"
    by (simp add: encode_cursor_def v)
  have l: "length ?c = 88"
    using sample_salt_length [of "[97]" "[]"] by (simp add: sample_page_env_def cursor_payload_def)
  have "decode_cursor sample_page_env sample_columns [97] [] 60 ?c = Inr (Previous, [VInt 7])"
    by (rule cursor_round_trip [OF e sample_texts_parse])
      (use v l sample_loads [of Previous 7] in \<open>auto simp: cursor_max_length_def\<close>)
  then show ?thesis using e by blast
qed

text \<open>
  C26: A cursor issued on one read path is refused on every other: another namespace, or a context
  of another digest.
\<close>

theorem cursor_bound_to_read_path:
  assumes issued: "paginate_keyset env attr rows columns namespace cursor context' n max_age = Inr page"
    and c: "cp_previous_cursor page = Some c \<or> cp_next_cursor page = Some c" "c \<noteq> []"
    and elsewhere: "namespace2 \<noteq> namespace \<or> pe_sha256 env context2 \<noteq> pe_sha256 env context'"
    and args: "columns2 \<noteq> []" "1 \<le> n2" "n2 \<le> 100" "1 \<le> length namespace2" "length namespace2 \<le> 100"
    and signed: "\<And>payload salt salt2 age. salt2 \<noteq> salt \<Longrightarrow> pe_loads env (pe_dumps env payload salt) salt2 age = None"
    and digest: "\<And>x. length (pe_sha256 env x) = 64"
  shows "paginate_keyset env attr2 rows2 columns2 namespace2 (Some c) context2 n2 max_age2 = Inl InvalidCursor"
proof -
  obtain decoded where "build_page env attr rows columns namespace context' (nat n) decoded = Inr page"
    using paginate_build [OF issued] by blast
  then have "\<exists>payload. c = pe_dumps env payload (cursor_salt env namespace context')"
    using c(1) unfolding build_page_def Let_def
    by (auto simp: cursor_if_def encode_cursor_def bindE_eq_Inr split: if_split_asm option.splits)
  then obtain payload where p: "c = pe_dumps env payload (cursor_salt env namespace context')" by blast
  have "length (namespace @ 58 # pe_sha256 env context') = length namespace + 65" by (simp add: digest)
  have "cursor_salt env namespace2 context2 \<noteq> cursor_salt env namespace context'"
  proof
    assume "cursor_salt env namespace2 context2 = cursor_salt env namespace context'"
    then have "namespace2 @ 58 # pe_sha256 env context2 = namespace @ 58 # pe_sha256 env context'"
      by (simp add: cursor_salt_def)
    moreover have "length (58 # pe_sha256 env context2) = length (58 # pe_sha256 env context')" by (simp add: digest)
    ultimately show False using elsewhere by (metis append_eq_append_conv list.inject)
  qed
  then have "decode_cursor env columns2 namespace2 context2 max_age2 c = Inl InvalidCursor"
    by (simp add: decode_cursor_def p signed)
  then show ?thesis using args c(2) by (auto simp: paginate_keyset_def)
qed

lemma cursor_bound_to_read_path_witness:
  "\<exists>page c. paginate_keyset sample_page_env sample_attr [3, 1, 2] sample_columns [97] None [] 2 60 = Inr page
    \<and> cp_next_cursor page = Some c
    \<and> paginate_keyset sample_page_env sample_attr [3, 1, 2] sample_columns [98] (Some c) [] 2 60 = Inl InvalidCursor"
proof -
  let ?page = "page_at sample_page_env sample_attr [3, 1, 2] sample_columns [97] [] 2 0"
  have p: "pageable sample_page_env sample_attr [3, 1, 2] sample_columns [97] [] 60"
    by (rule sample_pageable) simp_all
  have f: "paginate_keyset sample_page_env sample_attr [3, 1, 2] sample_columns [97] None [] (int 2) 60 = Inr ?page"
    by (rule first_page_at [OF p]) simp_all
  obtain c where c: "cp_next_cursor ?page = Some c"
    and r: "c = row_cursor sample_page_env sample_attr sample_columns [97] [] Next (ordered sample_attr sample_columns [3, 1, 2] ! 1)"
    by (simp add: page_at_next_cursor)
  have "ordered sample_attr sample_columns [3, 1, 2] ! 1 \<in> set [3, 1, 2]" by (rule ordered_nth) simp
  then have "1 \<le> length c" using p unfolding pageable_def Let_def r by blast
  then have ne: "c \<noteq> []" by auto
  have "paginate_keyset sample_page_env sample_attr [3, 1, 2] sample_columns [98] (Some c) [] 2 60 = Inl InvalidCursor"
    by (rule cursor_bound_to_read_path [OF f _ ne])
      (use c in \<open>auto simp: sample_columns_def sample_page_env_def split: json.split list.split prod.split\<close>)
  then show ?thesis using f c by auto
qed

lemma decode_values_typed:
  "decode_values env cs js = Inr vs \<Longrightarrow> list_all2 (\<lambda>c v. validated_value (col_kind c) v = Inr v) cs vs"
proof (induction env cs js arbitrary: vs rule: decode_values.induct)
  case (2 env c cs j js)
  have "decode_value env k j = Inr v \<Longrightarrow> validated_value k v = Inr v" for k v
    by (cases k; cases j) (auto simp: decode_value_def validated_value_def split: option.splits)
  then show ?case using "2.prems" "2.IH" by (auto simp: bindE_eq_Inr)
qed simp_all

lemma encode_values_typed:
  "list_all2 (\<lambda>c v. validated_value (col_kind c) v = Inr v) cs vs \<Longrightarrow>
     encode_values env cs vs = Inr (map (encoded env) vs)"
  by (induction rule: list_all2_induct) (simp_all add: encode_value_def encoded_def)

lemma finish_page_completes:
  assumes "\<forall>r \<in> set items. column_typed attr columns r"
    and "\<And>vs. boundary = Some vs \<Longrightarrow> list_all2 (\<lambda>c v. validated_value (col_kind c) v = Inr v) columns vs"
  shows "\<exists>page. finish_page env attr columns namespace context' boundary items has_previous has_next = Inr page"
proof (cases "items = []")
  case True
  then show ?thesis using assms(2)
    by (cases boundary) (simp_all add: finish_page_def cursor_if_def encode_cursor_def encode_values_typed)
next
  case False
  then show ?thesis using finish_page_slice assms(1) by blast
qed

lemma decode_cursor_outcome:
  assumes "\<And>payload. pe_loads env c (cursor_salt env namespace context') max_age = Some payload \<Longrightarrow>
    \<exists>d js. payload = cursor_payload d js"
  shows "decode_cursor env columns namespace context' max_age c = Inl InvalidCursor \<or>
    (\<exists>d vs. decode_cursor env columns namespace context' max_age c = Inr (d, vs) \<and>
      list_all2 (\<lambda>c v. validated_value (col_kind c) v = Inr v) columns vs)"
proof -
  have k: "cps ''v'' \<noteq> cps ''d''" "cps ''v'' \<noteq> cps ''p''" "cps ''d'' \<noteq> cps ''p''" by (simp_all add: cps_def)
  have d: "parse_direction (JText (direction_text d)) = Inr d" for d
    by (cases d) (simp_all add: parse_direction_def direction_text_def cps_def)
  have "decode_payload env columns (cursor_payload d js) = Inl InvalidCursor \<or>
    (\<exists>vs. decode_payload env columns (cursor_payload d js) = Inr (d, vs) \<and>
      list_all2 (\<lambda>c v. validated_value (col_kind c) v = Inr v) columns vs)" for d js
    using k d decode_values_typed [of env columns js]
    by (auto simp: decode_payload_def cursor_payload_def equals_one_def split: sum.splits)
  then show ?thesis using assms unfolding decode_cursor_def
    by (cases "pe_loads env c (cursor_salt env namespace context') max_age") fastforce+
qed

text \<open>
  C27: Whatever text arrives as cursor, a page read on a typed queryset returns a page or raises
  \<open>InvalidCursor\<close>, also when the rows around the boundary are gone.
\<close>

theorem any_cursor_page_or_invalid:
  assumes args: "columns \<noteq> []" "1 \<le> n" "n \<le> 100" "1 \<le> length namespace" "length namespace \<le> 100"
    and typed: "\<And>r. r \<in> set rows \<Longrightarrow> column_typed attr columns r"
    and signed: "\<And>c payload. pe_loads env c (cursor_salt env namespace context') max_age = Some payload \<Longrightarrow>
      \<exists>d js. payload = cursor_payload d js"
  shows "paginate_keyset env attr rows columns namespace cursor context' n max_age = Inl InvalidCursor \<or>
    (\<exists>page. paginate_keyset env attr rows columns namespace cursor context' n max_age = Inr page)"
proof -
  have t: "\<forall>r \<in> set (take m (order_rows (precedes attr columns back') (filter P rows))). column_typed attr columns r"
    for m P back'
    using typed by (auto dest!: in_set_takeD)
  have b: "\<exists>page. build_page env attr rows columns namespace context' (nat n) decoded = Inr page"
    if v: "\<And>d vs. decoded = Some (d, vs) \<Longrightarrow> list_all2 (\<lambda>c v. validated_value (col_kind c) v = Inr v) columns vs"
    for decoded
  proof -
    consider "decoded = None" | vs where "decoded = Some (Next, vs)" | vs where "decoded = Some (Previous, vs)"
      by (metis direction.exhaust option.exhaust surj_pair)
    then show ?thesis
    proof cases
      case 1
      show ?thesis unfolding 1 build_page_cases
        by (rule finish_page_completes) (use t [of _ _ "\<lambda>_. True"] in simp_all)
    next
      case 2
      show ?thesis unfolding 2 build_page_cases
        by (rule finish_page_completes) (use t v 2 in simp_all)
    next
      case 3
      show ?thesis unfolding 3 build_page_cases
        by (rule finish_page_completes) (use t v 3 in simp_all)
    qed
  qed
  have args': "paginate_keyset env attr rows columns namespace cursor context' n max_age =
      bindE (case cursor of
          None \<Rightarrow> Inr None
        | Some c \<Rightarrow> if c = [] then Inr None
            else bindE (decode_cursor env columns namespace context' max_age c) (\<lambda>d. Inr (Some d))) (\<lambda>decoded.
      build_page env attr rows columns namespace context' (nat n) decoded)"
    using args by (auto simp: paginate_keyset_def)
  show ?thesis
  proof (cases "cursor = None \<or> cursor = Some []")
    case True
    then show ?thesis using b [of None] by (auto simp: args')
  next
    case False
    then obtain c where c: "cursor = Some c" "c \<noteq> []" by auto
    from decode_cursor_outcome [of env c namespace context' max_age columns, OF signed] show ?thesis
    proof
      assume "\<exists>d vs. decode_cursor env columns namespace context' max_age c = Inr (d, vs) \<and>
        list_all2 (\<lambda>c v. validated_value (col_kind c) v = Inr v) columns vs"
      then obtain d vs where "decode_cursor env columns namespace context' max_age c = Inr (d, vs)"
        "list_all2 (\<lambda>c v. validated_value (col_kind c) v = Inr v) columns vs" by blast
      then show ?thesis unfolding args' using c b [of "Some (d, vs)"] by simp
    next
      assume "decode_cursor env columns namespace context' max_age c = Inl InvalidCursor"
      then show ?thesis unfolding args' using c by simp
    qed
  qed
qed

lemma any_cursor_page_or_invalid_witness:
  "paginate_keyset sample_page_env sample_attr [3, 1, 2] sample_columns [97] (Some [5, 9, 1]) [] 2 60 = Inl InvalidCursor \<or>
    (\<exists>page. paginate_keyset sample_page_env sample_attr [3, 1, 2] sample_columns [97] (Some [5, 9, 1]) [] 2 60 = Inr page)"
  by (rule any_cursor_page_or_invalid)
    (auto simp: sample_columns_def sample_attr_def column_typed_def validated_value_def sample_page_env_def
      split: list.splits if_split_asm)

end
