(* ===== verification/Patterns.thy ===== *)
theory Patterns
  imports Names
begin

text \<open>
  The part of Python's \<open>re\<close> the upload policy uses: backtracking matches in priority order, word
  boundaries, a negative lookahead, one captured group, \<open>search\<close>, \<open>match\<close>, \<open>finditer\<close> and \<open>sub\<close>.
\<close>

section \<open>Patterns and their matches\<close>

text \<open>
  \<open>Many P\<close> is \<open>[P]*\<close> and \<open>Maybe a\<close> is \<open>a?\<close>, both greedy; \<open>Group a\<close> is the named group of a
  pattern. A place in a text is the character before it, if any, with the text after it.
\<close>

datatype pattern =
    Empty
  | Ch "nat \<Rightarrow> bool"
  | Seq pattern pattern
  | Alt pattern pattern
  | Maybe pattern
  | Many "nat \<Rightarrow> bool"
  | Start
  | End
  | Boundary "nat \<Rightarrow> bool"
  | NotAhead pattern
  | Group pattern

type_synonym place = "nat option \<times> text"

text \<open>The ways to pass characters of a class, longest first.\<close>

fun run_of :: "(nat \<Rightarrow> bool) \<Rightarrow> nat option \<Rightarrow> text \<Rightarrow> place list" where
  "run_of P prev [] = [(prev, [])]"
| "run_of P prev (c # cs) = (if P c then run_of P (Some c) cs else []) @ [(prev, c # cs)]"

definition is_in :: "(nat \<Rightarrow> bool) \<Rightarrow> nat option \<Rightarrow> bool" where
  "is_in P c = (case c of None \<Rightarrow> False | Some x \<Rightarrow> P x)"

definition first_char :: "text \<Rightarrow> nat option" where
  "first_char s = (case s of [] \<Rightarrow> None | c # cs \<Rightarrow> Some c)"

text \<open>\<open>$\<close> matches at the end and before a last newline.\<close>

definition at_end :: "text \<Rightarrow> bool" where
  "at_end s \<longleftrightarrow> s = [] \<or> s = [10]"

definition consumed :: "text \<Rightarrow> text \<Rightarrow> text" where
  "consumed s t = take (length s - length t) s"

primrec matches :: "pattern \<Rightarrow> place \<Rightarrow> (place \<times> text option) list" where
  "matches Empty p = [(p, None)]"
| "matches (Ch P) p = (case snd p of [] \<Rightarrow> [] | c # cs \<Rightarrow> if P c then [((Some c, cs), None)] else [])"
| "matches (Seq a b) p = concat (map (\<lambda>(q, g). map (\<lambda>(r, h). (r, case g of None \<Rightarrow> h | Some t \<Rightarrow> g)) (matches b q))
     (matches a p))"
| "matches (Alt a b) p = matches a p @ matches b p"
| "matches (Maybe a) p = matches a p @ [(p, None)]"
| "matches (Many P) p = map (\<lambda>q. (q, None)) (run_of P (fst p) (snd p))"
| "matches Start p = (if fst p = None then [(p, None)] else [])"
| "matches End p = (if at_end (snd p) then [(p, None)] else [])"
| "matches (Boundary W) p = (if is_in W (fst p) \<noteq> is_in W (first_char (snd p)) then [(p, None)] else [])"
| "matches (NotAhead a) p = (if matches a p = [] then [(p, None)] else [])"
| "matches (Group a) p = map (\<lambda>(q, g). (q, Some (consumed (snd p) (snd q)))) (matches a p)"

definition match_here :: "pattern \<Rightarrow> place \<Rightarrow> (place \<times> text option) option" where
  "match_here re p = (case matches re p of [] \<Rightarrow> None | m # ms \<Rightarrow> Some m)"

text \<open>\<open>re.match\<close>: at the beginning of the text.\<close>

definition re_match :: "pattern \<Rightarrow> text \<Rightarrow> bool" where
  "re_match re s \<longleftrightarrow> match_here re (None, s) \<noteq> None"

text \<open>
  A match of a scan: where it begins and ends and what its group captured. The patterns scanned for
  match no empty text, so after a match the scan goes on behind it.
\<close>

record found =
  f_start :: nat
  f_end :: nat
  f_group :: "text option"

fun scan :: "pattern \<Rightarrow> nat \<Rightarrow> nat \<Rightarrow> nat option \<Rightarrow> text \<Rightarrow> found list" where
  "scan re skip i prev s =
     (case (if skip = 0 then match_here re (prev, s) else None) of
        None \<Rightarrow> (case s of [] \<Rightarrow> [] | c # cs \<Rightarrow> scan re (skip - 1) (Suc i) (Some c) cs)
      | Some ((q, t), g) \<Rightarrow>
          \<lparr>f_start = i, f_end = i + (length s - length t), f_group = g\<rparr> #
          (case s of [] \<Rightarrow> [] | c # cs \<Rightarrow> scan re (length s - length t - 1) (Suc i) (Some c) cs))"

declare scan.simps [simp del]

definition re_finditer :: "pattern \<Rightarrow> text \<Rightarrow> found list" where
  "re_finditer re s = scan re 0 0 None s"

fun occurs :: "pattern \<Rightarrow> nat option \<Rightarrow> text \<Rightarrow> bool" where
  "occurs re prev [] \<longleftrightarrow> match_here re (prev, []) \<noteq> None"
| "occurs re prev (c # cs) \<longleftrightarrow> match_here re (prev, c # cs) \<noteq> None \<or> occurs re (Some c) cs"

definition re_search :: "pattern \<Rightarrow> text \<Rightarrow> bool" where
  "re_search re s = occurs re None s"

section \<open>Building patterns\<close>

text \<open>
  \<open>re.IGNORECASE\<close> on a \<open>str\<close>: a character matches an ASCII letter when their lower cases agree; the
  long s, the Kelvin sign and the dotted and dotless i fold to ASCII letters.
\<close>

definition re_fold :: "nat \<Rightarrow> nat" where
  "re_fold c =
     (if 65 \<le> c \<and> c \<le> 90 then c + 32 else if c = 383 then 115 else if c = 8490 then 107
      else if c = 304 \<or> c = 305 then 105 else c)"

definition lit :: "nat \<Rightarrow> pattern" where
  "lit c = Ch (\<lambda>x. x = c)"

definition lit_ci :: "nat \<Rightarrow> pattern" where
  "lit_ci c = Ch (\<lambda>x. re_fold x = re_fold c)"

primrec seq :: "pattern list \<Rightarrow> pattern" where
  "seq [] = Empty"
| "seq (p # ps) = Seq p (seq ps)"

fun alt :: "pattern list \<Rightarrow> pattern" where
  "alt [] = Ch (\<lambda>x. False)"
| "alt [p] = p"
| "alt (p # q # ps) = Alt p (alt (q # ps))"

definition word_ci :: "string \<Rightarrow> pattern" where
  "word_ci w = seq (map lit_ci (cps w))"

definition spaces :: pattern where
  "spaces = Many is_space"

definition ascii_digit :: "nat \<Rightarrow> bool" where
  "ascii_digit c \<longleftrightarrow> 48 \<le> c \<and> c \<le> 57"

definition ascii_letter :: "nat \<Rightarrow> bool" where
  "ascii_letter c \<longleftrightarrow> 65 \<le> c \<and> c \<le> 90 \<or> 97 \<le> c \<and> c \<le> 122"

definition hex_char :: "nat \<Rightarrow> bool" where
  "hex_char c \<longleftrightarrow> ascii_digit c \<or> 65 \<le> c \<and> c \<le> 70 \<or> 97 \<le> c \<and> c \<le> 102"

text \<open>\<open>[A-Za-z0-9]\<close> under \<open>IGNORECASE\<close>.\<close>

definition alnum_ci :: "nat \<Rightarrow> bool" where
  "alnum_ci c \<longleftrightarrow> ascii_letter (re_fold c) \<or> ascii_digit c"

lemmas re_eval = re_search_def re_match_def re_finditer_def match_here_def lit_def lit_ci_def word_ci_def
  spaces_def re_fold_def first_char_def is_in_def at_end_def consumed_def cps_def ascii_letter_def
  ascii_digit_def hex_char_def alnum_ci_def is_space_def

end
