(* ===== verification/Uploads.thy ===== *)
theory Uploads
  imports Patterns Services
begin

text \<open>
  The manifest of a package upload (\<open>uploads.py\<close>): artifact kinds, limits, the rejections, and the
  checks of names and declared media types. The parts come from an iterable that may fail at any
  point; what a caller passes in place of a part, a name or a media type is an explicit case.
\<close>

section \<open>Kinds\<close>

text \<open>\<open>UploadKind\<close> has the five values of the persisted artifact kinds.\<close>

type_synonym upload_kind = artifact_kind

definition upload_extension_map :: "(text \<times> upload_kind \<times> text) list" where
  "upload_extension_map =
     [(cps ''html'', HTML, cps ''text/html''),
      (cps ''csv'', CSV, cps ''text/csv''),
      (cps ''css'', CSS, cps ''text/css''),
      (cps ''png'', IMAGE, cps ''image/png''),
      (cps ''jpg'', IMAGE, cps ''image/jpeg''),
      (cps ''jpeg'', IMAGE, cps ''image/jpeg''),
      (cps ''gif'', IMAGE, cps ''image/gif''),
      (cps ''webp'', IMAGE, cps ''image/webp''),
      (cps ''woff'', FONT, cps ''font/woff''),
      (cps ''woff2'', FONT, cps ''font/woff2'')]"

definition extension_to_kind :: "text \<Rightarrow> upload_kind option" where
  "extension_to_kind ext = map_option fst (map_of upload_extension_map ext)"

definition extension_to_media_type :: "text \<Rightarrow> text option" where
  "extension_to_media_type ext = map_option snd (map_of upload_extension_map ext)"

definition text_kinds :: "upload_kind list" where
  "text_kinds = [HTML, CSV, CSS]"

definition supporting_kinds :: "upload_kind list" where
  "supporting_kinds = [CSV, CSS, IMAGE, FONT]"

section \<open>Rejections\<close>

datatype issue_code =
    MALFORMED_MULTIPART | TOO_MANY_FILES | MISSING_HTML | MULTIPLE_HTML | INVALID_FILENAME
  | DUPLICATE_FILENAME | EXTENSION_MISMATCH | MEDIA_TYPE_MISMATCH | EMPTY_FILE | FILE_TOO_LARGE
  | TOTAL_TOO_LARGE | TOO_MANY_CHUNKS | INVALID_UTF8 | BINARY_CONTENT | CSV_MALFORMED
  | CSV_TOO_MANY_ROWS | CSV_TOO_MANY_FIELDS | CSV_FIELD_TOO_LARGE | CSV_RECORD_TOO_LARGE
  | HTML_MALFORMED | HTML_TOO_COMPLEX | EXTERNAL_DEPENDENCY | INVALID_ASSET_REFERENCE
  | MISSING_ASSET_REFERENCE | INVALID_CSV_REFERENCE | MISSING_CSV_REFERENCE | NON_BYTES_CHUNK
  | STREAM_ERROR | STAGING_ERROR

datatype issue_field =
    FILENAME | MEDIA_TYPE | CSS_IMPORT | CSS_EXTERNAL_URL | HTML_PROCESSING_INSTRUCTION
  | HTML_EMBEDDED_CONTENT | HTML_LINK | HTML_SCRIPT_SOURCE | HTML_MANIFEST | HTML_FORM_ACTION
  | HTML_RESPONSIVE_SOURCE | HTML_META_URL | HTML_META_REFRESH | INLINE_SCRIPT_URL
  | INLINE_NETWORK_API | DYNAMIC_DATA_REFERENCE | DATA_TEMPLATE_LITERAL | DATA_IDENTIFIER
  | DATA_EXPRESSION | EXTERNAL_REFERENCE

record upload_issue =
  i_code :: issue_code
  i_part_index :: "nat option"
  i_field :: "issue_field option"

text \<open>
  What the code raises: a rejection, any other \<open>Exception\<close>, or a \<open>BaseException\<close> beyond it.
\<close>

datatype upload_error = Rejected upload_issue | OtherException | BaseException

definition issue :: "issue_code \<Rightarrow> nat option \<Rightarrow> issue_field option \<Rightarrow> upload_error" where
  "issue code index field = Rejected \<lparr>i_code = code, i_part_index = index, i_field = field\<rparr>"

definition raise_issue :: "issue_code \<Rightarrow> nat \<Rightarrow> upload_error + 'a" where
  "raise_issue code index = Inl (issue code (Some index) None)"

definition raise_field :: "issue_code \<Rightarrow> nat \<Rightarrow> issue_field \<Rightarrow> upload_error + 'a" where
  "raise_field code index field = Inl (issue code (Some index) (Some field))"

text \<open>\<open>except UploadRejected: raise; except Exception as error: raise ... from error\<close>\<close>

definition others_as :: "issue_code \<Rightarrow> nat \<Rightarrow> upload_error \<Rightarrow> upload_error" where
  "others_as code index e = (if e = OtherException then issue code (Some index) None else e)"

section \<open>Limits\<close>

record upload_limits =
  max_file_bytes :: int
  max_total_bytes :: int
  max_files :: int
  max_csv_rows :: int
  max_csv_fields :: int
  max_csv_field_bytes :: int
  max_csv_record_bytes :: int
  max_html_tokens :: int
  max_html_nesting :: int
  max_chunks_per_file :: int

definition default_limits :: upload_limits where
  "default_limits = \<lparr>max_file_bytes = 25 * 1024 * 1024, max_total_bytes = 100 * 1024 * 1024,
     max_files = 51, max_csv_rows = 100000, max_csv_fields = 1024,
     max_csv_field_bytes = 1 * 1024 * 1024, max_csv_record_bytes = 4 * 1024 * 1024,
     max_html_tokens = 100000, max_html_nesting = 256, max_chunks_per_file = 100000\<rparr>"

text \<open>\<open>UploadLimits.__post_init__\<close>\<close>

definition make_limits :: "upload_limits \<Rightarrow> exn + upload_limits" where
  "make_limits l =
     (if max_file_bytes l < 0 \<or> max_total_bytes l < 0
      then Inl (ValueError ''upload byte limits must be nonnegative'')
      else if max_files l < 1
      then Inl (ValueError ''upload file limit must include the HTML artifact'')
      else if max_csv_rows l < 1 then Inl (ValueError ''max_csv_rows must be positive'')
      else if max_csv_fields l < 1 then Inl (ValueError ''max_csv_fields must be positive'')
      else if max_csv_field_bytes l < 1 then Inl (ValueError ''max_csv_field_bytes must be positive'')
      else if max_csv_record_bytes l < 1 then Inl (ValueError ''max_csv_record_bytes must be positive'')
      else if max_html_tokens l < 1 then Inl (ValueError ''max_html_tokens must be positive'')
      else if max_html_nesting l < 1 then Inl (ValueError ''max_html_nesting must be positive'')
      else if max_chunks_per_file l < 1 then Inl (ValueError ''max_chunks_per_file must be positive'')
      else Inr l)"

section \<open>What is uploaded\<close>

text \<open>
  An iterable: whether \<open>iter\<close> raises, the items \<open>next\<close> returns and how it ends, by exhaustion or
  with an exception.
\<close>

record 'a iterable =
  it_open :: "upload_error option"
  it_items :: "'a list"
  it_end :: "upload_error option"

datatype raw_chunk = RawBytes "text" | RawOther

datatype raw_filename = NameText "text" | NameBytes "text" | NameOther

datatype raw_media_type = MediaText "text" | MediaOther

record upload_part =
  filename :: raw_filename
  chunks :: "raw_chunk iterable"
  media_type :: "raw_media_type option"

datatype raw_part = Part upload_part | NotAPart

record manifest_entry =
  e_index :: nat
  e_part :: upload_part
  e_kind :: upload_kind
  e_name :: logical_name
  e_media_type :: "text"

section \<open>UTF-8\<close>

text \<open>
  \<open>codecs.utf_8_decode\<close> with strict errors. A sequence of two to four bytes restricts its second
  byte, which excludes overlong forms, surrogates and code points beyond U+10FFFF.
\<close>

definition sequence_length :: "nat \<Rightarrow> nat option" where
  "sequence_length b =
     (if b < 128 then Some 1 else if 194 \<le> b \<and> b \<le> 223 then Some 2
      else if 224 \<le> b \<and> b \<le> 239 then Some 3 else if 240 \<le> b \<and> b \<le> 244 then Some 4 else None)"

definition second_byte :: "nat \<Rightarrow> nat \<Rightarrow> bool" where
  "second_byte b c \<longleftrightarrow>
     (if b = 224 then 160 \<le> c \<and> c \<le> 191 else if b = 237 then 128 \<le> c \<and> c \<le> 159
      else if b = 240 then 144 \<le> c \<and> c \<le> 191 else if b = 244 then 128 \<le> c \<and> c \<le> 143
      else 128 \<le> c \<and> c \<le> 191)"

definition continuation :: "nat \<Rightarrow> bool" where
  "continuation c \<longleftrightarrow> 128 \<le> c \<and> c \<le> 191"

definition sequence_ok :: "nat \<Rightarrow> text \<Rightarrow> bool" where
  "sequence_ok b rest = (case rest of [] \<Rightarrow> True | c # cs \<Rightarrow> second_byte b c \<and> list_all continuation cs)"

definition sequence_value :: "nat \<Rightarrow> text \<Rightarrow> nat" where
  "sequence_value b rest =
     foldl (\<lambda>v c. v * 64 + (c - 128))
       (if b < 128 then b else if b < 224 then b - 192 else if b < 240 then b - 224 else b - 240) rest"

text \<open>The decoded text with the bytes of an incomplete last sequence; with \<open>final\<close> none may be left.\<close>

function utf8_decode :: "bool \<Rightarrow> text \<Rightarrow> (text \<times> text) option" where
  "utf8_decode final [] = Some ([], [])"
| "utf8_decode final (b # bs) =
     (case sequence_length b of
        None \<Rightarrow> None
      | Some n \<Rightarrow>
          if \<not> sequence_ok b (take (n - 1) bs) then None
          else if length bs < n - 1 then (if final then None else Some ([], b # bs))
          else map_option (\<lambda>(t, rest). (sequence_value b (take (n - 1) bs) # t, rest))
                 (utf8_decode final (drop (n - 1) bs)))"
  by pat_completeness auto
termination by (relation "measure (\<lambda>(final, bs). length bs)") auto

definition decode_strict :: "text \<Rightarrow> text option" where
  "decode_strict bs = map_option fst (utf8_decode True bs)"

section \<open>Names and media types\<close>

text \<open>\<open>filename.rfind(".")\<close>\<close>

definition last_dot :: "text \<Rightarrow> nat option" where
  "last_dot s = (if 46 \<in> set s then Some (length s - 1 - length (takeWhile (\<lambda>c. c \<noteq> 46) (rev s))) else None)"

definition known_extension_segment :: pattern where
  "known_extension_segment =
     seq [lit 46,
       alt [word_ci ''html'', word_ci ''csv'', word_ci ''css'', word_ci ''png'',
         seq [word_ci ''jp'', Maybe (word_ci ''e''), word_ci ''g''],
         word_ci ''gif'', word_ci ''webp'', seq [word_ci ''woff'', Maybe (lit 50)]],
       Alt (lit 46) End]"

definition normalize_part_filename :: "unicode \<Rightarrow> raw_filename \<Rightarrow> nat \<Rightarrow> upload_error + logical_name" where
  "normalize_part_filename uc raw index =
     bindE (case raw of
         NameBytes bs \<Rightarrow> (case decode_strict bs of
             None \<Rightarrow> raise_field INVALID_FILENAME index FILENAME | Some t \<Rightarrow> Inr t)
       | NameText t \<Rightarrow> Inr t
       | NameOther \<Rightarrow> raise_field INVALID_FILENAME index FILENAME) (\<lambda>name.
     case utf8_length name of
       Inl e \<Rightarrow> raise_field INVALID_FILENAME index FILENAME
     | Inr n \<Rightarrow> (case normalize_logical_name uc name of
         Inl e \<Rightarrow> raise_field INVALID_FILENAME index FILENAME
       | Inr logical \<Rightarrow> Inr logical))"

definition classify_filename :: "unicode \<Rightarrow> text \<Rightarrow> nat \<Rightarrow> upload_error + upload_kind" where
  "classify_filename uc name index =
     (case last_dot name of
        None \<Rightarrow> raise_field EXTENSION_MISMATCH index FILENAME
      | Some dot \<Rightarrow>
          if dot = 0 then raise_field EXTENSION_MISMATCH index FILENAME
          else
          let suffix = casefold uc (drop (dot + 1) name);
              stem = casefold uc (take dot name)
          in if re_search known_extension_segment stem
             then raise_field EXTENSION_MISMATCH index FILENAME
             else (case extension_to_kind suffix of
                 None \<Rightarrow> raise_field EXTENSION_MISMATCH index FILENAME
               | Some kind \<Rightarrow> Inr kind))"

definition media_type_for_filename :: "unicode \<Rightarrow> text \<Rightarrow> nat \<Rightarrow> upload_error + text" where
  "media_type_for_filename uc name index =
     (let suffix = (case last_dot name of None \<Rightarrow> [] | Some dot \<Rightarrow> casefold uc (drop (dot + 1) name))
      in case extension_to_media_type suffix of
           None \<Rightarrow> raise_field EXTENSION_MISMATCH index FILENAME
         | Some m \<Rightarrow> Inr m)"

definition declared_media_type_aliases :: "upload_kind \<Rightarrow> text list" where
  "declared_media_type_aliases kind = (case kind of
      CSV \<Rightarrow> [cps ''application/vnd.ms-excel'']
    | IMAGE \<Rightarrow> [cps ''application/octet-stream'']
    | FONT \<Rightarrow> [cps ''application/octet-stream'', cps ''application/font-woff'']
    | _ \<Rightarrow> [])"

definition strip_ws :: "text \<Rightarrow> text" where
  "strip_ws v = strip_set is_space v"

text \<open>\<open>parameter.partition("=")\<close>: \<open>None\<close> when there is no separator.\<close>

definition partition_eq :: "text \<Rightarrow> (text \<times> text) option" where
  "partition_eq v =
     (if 61 \<in> set v then Some (takeWhile (\<lambda>c. c \<noteq> 61) v, tl (dropWhile (\<lambda>c. c \<noteq> 61) v)) else None)"

definition charset_utf8 :: "unicode \<Rightarrow> text \<Rightarrow> bool" where
  "charset_utf8 uc parameter = (case partition_eq parameter of
      None \<Rightarrow> False
    | Some (key, v) \<Rightarrow> casefold uc key = cps ''charset'' \<and>
        casefold uc (strip_set (\<lambda>c. c = 34) (strip_ws v)) = cps ''utf-8'')"

definition validate_declared_media_type ::
  "unicode \<Rightarrow> raw_media_type option \<Rightarrow> upload_kind \<Rightarrow> text \<Rightarrow> nat \<Rightarrow> upload_error + unit" where
  "validate_declared_media_type uc raw kind expected index =
     (case raw of
        None \<Rightarrow> Inr ()
      | Some MediaOther \<Rightarrow> raise_field MEDIA_TYPE_MISMATCH index MEDIA_TYPE
      | Some (MediaText t) \<Rightarrow>
          if strip_ws t = [] then raise_field MEDIA_TYPE_MISMATCH index MEDIA_TYPE
          else
          let pieces = map strip_ws (split_on 59 t);
              declared = casefold uc (hd pieces)
          in if declared \<notin> set (expected # declared_media_type_aliases kind)
             then raise_field MEDIA_TYPE_MISMATCH index MEDIA_TYPE
             else if kind \<notin> set text_kinds \<and> length pieces > 1
             then raise_field MEDIA_TYPE_MISMATCH index MEDIA_TYPE
             else if list_ex (\<lambda>p. p = [] \<or> \<not> charset_utf8 uc p) (tl pieces)
             then raise_field MEDIA_TYPE_MISMATCH index MEDIA_TYPE
             else Inr ())"

section \<open>The manifest\<close>

definition coerce_part :: "raw_part \<Rightarrow> nat \<Rightarrow> upload_error + upload_part" where
  "coerce_part raw index = (case raw of Part p \<Rightarrow> Inr p | NotAPart \<Rightarrow> raise_issue MALFORMED_MULTIPART index)"

definition finish_manifest :: "manifest_entry list \<Rightarrow> nat \<Rightarrow> upload_error + manifest_entry list" where
  "finish_manifest manifest html_count =
     (if html_count = 0 then Inl (issue MISSING_HTML None None)
      else if html_count > 1 then Inl (issue MULTIPLE_HTML None None)
      else Inr manifest)"

fun manifest_loop ::
  "unicode \<Rightarrow> upload_limits \<Rightarrow> upload_error option \<Rightarrow> manifest_entry list \<Rightarrow> text list \<Rightarrow> nat \<Rightarrow> raw_part list
    \<Rightarrow> upload_error + manifest_entry list" where
  "manifest_loop uc limits ending manifest seen html_count [] =
     (case ending of
        None \<Rightarrow> finish_manifest manifest html_count
      | Some BaseException \<Rightarrow> Inl BaseException
      | Some e \<Rightarrow> raise_issue MALFORMED_MULTIPART (length manifest))"
| "manifest_loop uc limits ending manifest seen html_count (raw # rest) =
     (let index = length manifest in
      if int index \<ge> max_files limits then raise_issue TOO_MANY_FILES index
      else
      bindE (coerce_part raw index) (\<lambda>part.
      bindE (normalize_part_filename uc (filename part) index) (\<lambda>name.
      bindE (classify_filename uc (display name) index) (\<lambda>kind.
      bindE (media_type_for_filename uc (display name) index) (\<lambda>media.
      bindE (validate_declared_media_type uc (media_type part) kind media index) (\<lambda>_.
      if comparison_key name \<in> set seen then raise_issue DUPLICATE_FILENAME index
      else manifest_loop uc limits ending
        (manifest @ [\<lparr>e_index = index, e_part = part, e_kind = kind, e_name = name, e_media_type = media\<rparr>])
        (comparison_key name # seen) (if kind = HTML then Suc html_count else html_count) rest))))))"

definition build_manifest :: "unicode \<Rightarrow> upload_limits \<Rightarrow> raw_part iterable \<Rightarrow> upload_error + manifest_entry list" where
  "build_manifest uc limits parts =
     (case it_open parts of
        Some BaseException \<Rightarrow> Inl BaseException
      | Some e \<Rightarrow> Inl (issue MALFORMED_MULTIPART None None)
      | None \<Rightarrow> manifest_loop uc limits (it_end parts) [] [] 0 (it_items parts))"

end
