(* ===== verification/Urls.thy ===== *)
theory Urls
  imports Patterns
begin

text \<open>
  The part of \<open>urllib.parse\<close> the program uses: \<open>urlsplit\<close> and the attributes of its result. The check of
  a bracketed network location and \<open>str.lower\<close> are fields of \<open>url_env\<close>, beside the Unicode database.
\<close>

record url_env =
  ue_unicode :: unicode
  ue_bracketed_ok :: "text \<Rightarrow> bool"
  ue_lower :: "text \<Rightarrow> text"

definition starts_with :: "text \<Rightarrow> text \<Rightarrow> bool" where
  "starts_with prefix s \<longleftrightarrow> take (length prefix) s = prefix"

definition ascii_lower :: "nat \<Rightarrow> nat" where
  "ascii_lower c = (if 65 \<le> c \<and> c \<le> 90 then c + 32 else c)"

section \<open>Splitting a URL\<close>

text \<open>\<open>urllib.parse.urlsplit\<close>; \<open>None\<close> stands for the \<open>ValueError\<close> of a malformed network location.\<close>

record split_url =
  su_scheme :: "text"
  su_netloc :: "text"
  su_path :: "text"
  su_query :: "text"
  su_fragment :: "text"

definition before_char :: "nat \<Rightarrow> text \<Rightarrow> text" where
  "before_char c s = takeWhile (\<lambda>x. x \<noteq> c) s"

definition after_char :: "nat \<Rightarrow> text \<Rightarrow> text" where
  "after_char c s = tl (dropWhile (\<lambda>x. x \<noteq> c) s)"

definition scheme_char :: "nat \<Rightarrow> bool" where
  "scheme_char c \<longleftrightarrow> ascii_letter c \<or> ascii_digit c \<or> c = 43 \<or> c = 45 \<or> c = 46"

definition has_scheme :: "text \<Rightarrow> bool" where
  "has_scheme url \<longleftrightarrow>
     58 \<in> set url \<and> (case before_char 58 url of [] \<Rightarrow> False | c # cs \<Rightarrow> ascii_letter c \<and> list_all scheme_char (c # cs))"

text \<open>\<open>_checknetloc\<close>: no separator may appear under NFKC normalization only.\<close>

definition netloc_normal :: "unicode \<Rightarrow> text \<Rightarrow> bool" where
  "netloc_normal uc netloc \<longleftrightarrow>
     (let n = filter (\<lambda>c. c \<notin> {64, 58, 35, 63}) netloc; m = nfkc uc n
      in is_ascii netloc \<or> n = m \<or> \<not> list_ex (\<lambda>c. c \<in> {47, 63, 35, 64, 58}) m)"

definition urlsplit :: "'x url_env_scheme \<Rightarrow> text \<Rightarrow> split_url option" where
  "urlsplit env raw =
     (let url = filter (\<lambda>c. c \<notin> {9, 13, 10}) (dropWhile (\<lambda>c. c \<le> 32) raw);
          scheme = (if has_scheme url then map ascii_lower (before_char 58 url) else []);
          url = (if has_scheme url then after_char 58 url else url);
          slashes = starts_with [47, 47] url;
          netloc = (if slashes then takeWhile (\<lambda>c. c \<notin> {47, 63, 35}) (drop 2 url) else []);
          url = (if slashes then dropWhile (\<lambda>c. c \<notin> {47, 63, 35}) (drop 2 url) else url);
          fragment = after_char 35 url;
          url = before_char 35 url;
          query = after_char 63 url;
          path = before_char 63 url
      in if (91 \<in> set netloc) \<noteq> (93 \<in> set netloc) then None
         else if 91 \<in> set netloc \<and> \<not> ue_bracketed_ok env netloc then None
         else if \<not> netloc_normal (ue_unicode env) netloc then None
         else Some \<lparr>su_scheme = scheme, su_netloc = netloc, su_path = path, su_query = query, su_fragment = fragment\<rparr>)"

section \<open>The attributes of a split URL\<close>

text \<open>\<open>str.partition(c)\<close> and \<open>str.rpartition(c)\<close>, without the separator: \<open>None\<close> where it does not occur.\<close>

definition partition_at :: "nat \<Rightarrow> text \<Rightarrow> text \<times> text option" where
  "partition_at c s = (before_char c s, if c \<in> set s then Some (after_char c s) else None)"

definition userinfo_part :: "text \<Rightarrow> text option" where
  "userinfo_part netloc = (if 64 \<in> set netloc then Some (rev (after_char 64 (rev netloc))) else None)"

definition hostinfo_part :: "text \<Rightarrow> text" where
  "hostinfo_part netloc = rev (before_char 64 (rev netloc))"

definition split_username :: "split_url \<Rightarrow> text option" where
  "split_username u = map_option (before_char 58) (userinfo_part (su_netloc u))"

definition split_password :: "split_url \<Rightarrow> text option" where
  "split_password u = Option.bind (userinfo_part (su_netloc u)) (\<lambda>i. snd (partition_at 58 i))"

text \<open>\<open>_hostinfo\<close>: the host, and the text of the port if it is not empty.\<close>

definition host_and_port :: "split_url \<Rightarrow> text \<times> text option" where
  "host_and_port u =
     (let hostinfo = hostinfo_part (su_netloc u);
          (host, port) = (case snd (partition_at 91 hostinfo) of
              Some bracketed \<Rightarrow> (before_char 93 bracketed, snd (partition_at 58 (after_char 93 bracketed)))
            | None \<Rightarrow> partition_at 58 hostinfo)
      in (host, case port of None \<Rightarrow> None | Some p \<Rightarrow> if p = [] then None else Some p))"

text \<open>The zone behind a \<open>%\<close> keeps its case.\<close>

definition split_hostname :: "'x url_env_scheme \<Rightarrow> split_url \<Rightarrow> text option" where
  "split_hostname env u =
     (let host = fst (host_and_port u)
      in if host = [] then None
         else Some (ue_lower env (before_char 37 host) @ (if 37 \<in> set host then 37 # after_char 37 host else [])))"

definition decimal_value :: "text \<Rightarrow> nat" where
  "decimal_value ds = foldl (\<lambda>n d. 10 * n + (d - 48)) 0 ds"

text \<open>\<open>None\<close> is the \<open>ValueError\<close> of a port that is no decimal number up to 65535.\<close>

definition split_port :: "split_url \<Rightarrow> nat option option" where
  "split_port u = (case snd (host_and_port u) of
      None \<Rightarrow> Some None
    | Some p \<Rightarrow> if list_all ascii_digit p \<and> decimal_value p \<le> 65535 then Some (Some (decimal_value p)) else None)"

end
