(* ===== verification/Upload_Policy.thy ===== *)
theory Upload_Policy
  imports Uploads Urls
begin

text \<open>
  The dependency policy of an upload (\<open>uploads.py\<close>): how a reference resolves to a file of the
  package, and what style sheets and inline code may contain. The code points \<open>str.isalnum\<close> accepts
  and SHA-256 are fields of \<open>upload_env\<close>, as is the tokeniser of \<open>html.parser\<close>.
\<close>

section \<open>The environment\<close>

datatype html_event =
    StartTag "text" "(text \<times> text option) list"
  | StartEndTag "text" "(text \<times> text option) list"
  | EndTag "text"
  | Data "text"
  | Comment "text"
  | Decl "text"
  | ProcessingInstruction "text"
  | UnknownDecl "text"
  | EntityReference "text"

text \<open>
  \<open>HTMLParser.feed\<close> and \<open>close\<close>: the handler calls in their order, and the next state of the parser
  or \<open>None\<close> when it raised after them.
\<close>

record 'p upload_env = url_env +
  ue_alnum :: "nat \<Rightarrow> bool"
  ue_sha256 :: "text \<Rightarrow> text"
  ue_parser :: 'p
  ue_feed :: "'p \<Rightarrow> text \<Rightarrow> html_event list \<times> 'p option"
  ue_close :: "'p \<Rightarrow> html_event list \<times> 'p option"
  ue_rawdata :: "'p \<Rightarrow> text"

definition is_word :: "('p, 'x) upload_env_scheme \<Rightarrow> nat \<Rightarrow> bool" where
  "is_word env c \<longleftrightarrow> ue_alnum env c \<or> c = 95"

definition fold_text :: "('p, 'x) upload_env_scheme \<Rightarrow> text \<Rightarrow> text" where
  "fold_text env t = casefold (ue_unicode env) t"

section \<open>Patterns\<close>

definition safe_data_url :: pattern where
  "safe_data_url =
     seq [word_ci ''data:'',
       alt [seq [word_ci ''image/'', alt [word_ci ''png'', seq [word_ci ''jp'', Maybe (word_ci ''e''), word_ci ''g''],
                 word_ci ''gif'', word_ci ''webp'']],
            seq [word_ci ''font/woff'', Maybe (lit 50)]],
       Alt (Ch (\<lambda>c. c = 59 \<or> c = 44)) End]"

definition external_url_token :: "(nat \<Rightarrow> bool) \<Rightarrow> pattern" where
  "external_url_token W =
     alt [seq [Boundary W, alt [seq [word_ci ''http'', Maybe (word_ci ''s'')], word_ci ''ftp'', word_ci ''file''],
               lit 58, spaces, lit 47, spaces, lit 47],
          seq [lit 47, lit 47, Ch alnum_ci]]"

definition csv_callee :: pattern where
  "csv_callee = alt [word_ci ''fetch'', seq [word_ci ''d3'', spaces, lit 46, spaces, word_ci ''csv'']]"

definition csv_call :: "(nat \<Rightarrow> bool) \<Rightarrow> pattern" where
  "csv_call W =
     seq [Boundary W, csv_callee, spaces, lit 40, spaces,
       alt [seq [lit 39, Group (Many (\<lambda>c. c \<noteq> 39 \<and> c \<noteq> 34)), lit 39],
            seq [lit 34, Group (Many (\<lambda>c. c \<noteq> 39 \<and> c \<noteq> 34)), lit 34]]]"

definition csv_template_call :: "(nat \<Rightarrow> bool) \<Rightarrow> pattern" where
  "csv_template_call W =
     seq [Boundary W, csv_callee, spaces, lit 40, spaces, lit 96, Group (Many (\<lambda>c. c \<noteq> 96)), lit 96]"

definition d3_csv :: "(nat \<Rightarrow> bool) \<Rightarrow> pattern" where
  "d3_csv W = seq [Boundary W, word_ci ''d3'', spaces, lit 46, spaces, word_ci ''csv'', spaces, lit 40]"

definition fetch_call :: "(nat \<Rightarrow> bool) \<Rightarrow> pattern" where
  "fetch_call W = seq [Boundary W, word_ci ''fetch'', spaces, lit 40]"

definition dynamic_network :: "(nat \<Rightarrow> bool) \<Rightarrow> pattern" where
  "dynamic_network W =
     alt [seq [Boundary W,
            alt [word_ci ''XMLHttpRequest'', word_ci ''WebSocket'', word_ci ''EventSource'', word_ci ''ImportScripts'',
                 word_ci ''sendBeacon'', word_ci ''Worker'', word_ci ''SharedWorker''], spaces, lit 40],
          seq [word_ci ''navigator'', spaces, lit 46, spaces, word_ci ''serviceWorker'', Boundary W],
          seq [Boundary W, word_ci ''serviceWorker'', spaces, Alt (lit 46) (lit 91)],
          seq [Boundary W, word_ci ''import'', spaces, lit 40],
          seq [Alt Start (Ch (\<lambda>c. c \<in> {59, 123, 125, 10})), spaces, word_ci ''import'', Ch is_space, spaces,
               Ch (\<lambda>c. c \<in> {39, 34, 123, 42, 95, 36} \<or> ascii_letter (re_fold c))]]"

definition css_url :: "(nat \<Rightarrow> bool) \<Rightarrow> pattern" where
  "css_url W = seq [Boundary W, word_ci ''url'', spaces, lit 40, spaces, Group (Many (\<lambda>c. c \<noteq> 41)), lit 41]"

definition css_import :: "(nat \<Rightarrow> bool) \<Rightarrow> pattern" where
  "css_import W = seq [lit 64, word_ci ''import'', Boundary W]"

definition csv_suffix :: pattern where
  "csv_suffix = seq [lit 46, word_ci ''csv'', End]"

definition invalid_percent_escape :: pattern where
  "invalid_percent_escape = seq [lit 37, NotAhead (seq [Ch hex_char, Ch hex_char])]"

definition after_argument :: pattern where
  "after_argument = seq [spaces, Alt (lit 41) (lit 44)]"

definition identifier_start :: "(nat \<Rightarrow> bool) \<Rightarrow> pattern" where
  "identifier_start W =
     seq [Ch (\<lambda>c. ascii_letter c \<or> c = 95 \<or> c = 36),
       Many (\<lambda>c. ascii_letter c \<or> ascii_digit c \<or> c = 95 \<or> c = 36), Boundary W]"

section \<open>Unquoting\<close>

text \<open>\<open>urllib.parse.unquote_to_bytes\<close>, which encodes the text first; \<open>None\<close> is its \<open>UnicodeEncodeError\<close>.\<close>

definition hex_value :: "nat \<Rightarrow> nat" where
  "hex_value c = (if ascii_digit c then c - 48 else if c \<le> 70 then c - 55 else c - 87)"

fun unquote_bytes :: "text \<Rightarrow> text" where
  "unquote_bytes (a # b # c # bs) =
     (if a = 37 \<and> hex_char b \<and> hex_char c then (16 * hex_value b + hex_value c) # unquote_bytes bs
      else a # unquote_bytes (b # c # bs))"
| "unquote_bytes bs = bs"

definition utf8_encode :: "text \<Rightarrow> text option" where
  "utf8_encode v =
     (if list_ex (\<lambda>c. 55296 \<le> c \<and> c \<le> 57343) v then None else Some (concat (map utf8_bytes v)))"

definition unquote_to_bytes :: "text \<Rightarrow> text option" where
  "unquote_to_bytes v = map_option unquote_bytes (utf8_encode v)"

section \<open>References into the package\<close>

type_synonym artifact_kinds = "text \<Rightarrow> upload_kind option"

definition resolve_asset_reference ::
  "('p, 'x) upload_env_scheme \<Rightarrow> text \<Rightarrow> artifact_kinds \<Rightarrow> nat \<Rightarrow> upload_kind list \<Rightarrow> bool \<Rightarrow> issue_field
    \<Rightarrow> upload_error + text" where
  "resolve_asset_reference env raw kinds index allowed csv_compatibility external_field =
     (let invalid_code = (if csv_compatibility then INVALID_CSV_REFERENCE else INVALID_ASSET_REFERENCE);
          missing_code = (if csv_compatibility then MISSING_CSV_REFERENCE else MISSING_ASSET_REFERENCE);
          invalid = raise_issue invalid_code index
      in
      if starts_with [47, 47] raw \<and> length raw > 2 \<and> ue_alnum env (raw ! 2)
      then raise_field EXTERNAL_DEPENDENCY index external_field
      else if raw = [] \<or> hd raw \<in> {47, 92, 63} then invalid
      else if 92 \<in> set raw \<or> re_search invalid_percent_escape raw then invalid
      else (case urlsplit env raw of
        None \<Rightarrow> invalid
      | Some parsed \<Rightarrow>
          if su_scheme parsed \<noteq> [] \<or> su_netloc parsed \<noteq> []
          then raise_field EXTERNAL_DEPENDENCY index external_field
          else if su_query parsed \<noteq> [] \<or> su_fragment parsed \<noteq> [] \<or> 63 \<in> set raw \<or> 35 \<in> set raw then invalid
          else
          let path = (if starts_with (cps ''./'') (su_path parsed) then drop 2 (su_path parsed) else su_path parsed)
          in (case Option.bind (unquote_to_bytes path) decode_strict of
            None \<Rightarrow> invalid
          | Some decoded \<Rightarrow>
              if decoded = [] \<or> 47 \<in> set decoded \<or> 92 \<in> set decoded \<or> 37 \<in> set decoded
                \<or> decoded = cps ''.'' \<or> decoded = cps ''..'' then invalid
              else if csv_compatibility \<and> \<not> re_search csv_suffix decoded then invalid
              else (case normalize_logical_name (ue_unicode env) decoded of
                Inl (InvalidLogicalName m) \<Rightarrow> invalid
              | Inl e \<Rightarrow> Inl OtherException
              | Inr normalized \<Rightarrow>
                  (case kinds (comparison_key normalized) of
                    None \<Rightarrow> raise_issue missing_code index
                  | Some kind \<Rightarrow>
                      if kind \<notin> set allowed then invalid else Inr (comparison_key normalized))))))"

definition resolve_csv_reference ::
  "('p, 'x) upload_env_scheme \<Rightarrow> text \<Rightarrow> artifact_kinds \<Rightarrow> nat \<Rightarrow> issue_field \<Rightarrow> upload_error + text" where
  "resolve_csv_reference env raw kinds index external_field =
     resolve_asset_reference env raw kinds index [CSV] True external_field"

definition safe_data_url_for_kinds :: "('p, 'x) upload_env_scheme \<Rightarrow> text \<Rightarrow> upload_kind list \<Rightarrow> bool" where
  "safe_data_url_for_kinds env v allowed =
     (re_match safe_data_url v \<and>
       (if starts_with (cps ''data:font/'') (fold_text env v) then FONT \<in> set allowed else IMAGE \<in> set allowed))"

section \<open>Style sheets\<close>

text \<open>\<open>_decode_css_escapes\<close>; an escape takes up to six hexadecimal digits and one white space.\<close>

definition skip_css_space :: "text \<Rightarrow> text" where
  "skip_css_space s =
     (if starts_with [13, 10] s then drop 2 s
      else case s of [] \<Rightarrow> [] | c # cs \<Rightarrow> if c \<in> {32, 9, 13, 10, 12} then cs else s)"

definition css_codepoint :: "text \<Rightarrow> nat" where
  "css_codepoint digits =
     (let n = foldl (\<lambda>v c. v * 16 + hex_value c) 0 digits
      in if n = 0 \<or> n > 1114111 \<or> (55296 \<le> n \<and> n \<le> 57343) then 65533 else n)"

function decode_css_escapes :: "text \<Rightarrow> text" where
  "decode_css_escapes [] = []"
| "decode_css_escapes (c # cs) =
     (if c \<noteq> 92 \<or> cs = [] then c # decode_css_escapes cs
      else
      let digits = takeWhile hex_char (take 6 cs)
      in if digits \<noteq> [] then css_codepoint digits # decode_css_escapes (skip_css_space (drop (length digits) cs))
         else if starts_with [13, 10] cs then decode_css_escapes (drop 2 cs)
         else if hd cs \<in> {10, 13, 12} then decode_css_escapes (tl cs)
         else hd cs # decode_css_escapes (tl cs))"
  by pat_completeness auto
termination
proof (relation "measure length", goal_cases)
  case (3 c cs digits)
  have "length (skip_css_space s) \<le> length s" for s by (auto simp: skip_css_space_def split: list.split)
  from this [of "drop (length digits) cs"] show ?case by simp
qed (auto simp: less_Suc_eq_le)

declare decode_css_escapes.simps [simp del]

record css_state =
  css_references :: "text set"
  css_tail :: "text"

definition css_start :: css_state where
  "css_start = \<lparr>css_references = {}, css_tail = []\<rparr>"

definition last_chars :: "nat \<Rightarrow> text \<Rightarrow> text" where
  "last_chars n s = drop (length s - n) s"

text \<open>The URL of one \<open>url(...)\<close>, without its quotes.\<close>

definition css_raw_url :: "nat \<Rightarrow> text \<Rightarrow> upload_error + text" where
  "css_raw_url index captured =
     (let raw = strip_ws captured
      in bindE (if length raw \<ge> 2 \<and> hd raw = last raw \<and> hd raw \<in> {34, 39} then Inr (tl (butlast raw))
                else if list_ex (\<lambda>c. c \<in> {34, 39}) raw then raise_issue INVALID_ASSET_REFERENCE index
                else Inr raw) (\<lambda>raw.
         if raw = [] \<or> list_ex is_space raw then raise_issue INVALID_ASSET_REFERENCE index else Inr raw))"

fun css_references_of ::
  "('p, 'x) upload_env_scheme \<Rightarrow> artifact_kinds \<Rightarrow> nat \<Rightarrow> found list \<Rightarrow> text set \<Rightarrow> upload_error + text set" where
  "css_references_of env kinds index [] refs = Inr refs"
| "css_references_of env kinds index (m # ms) refs =
     bindE (css_raw_url index (the (f_group m))) (\<lambda>raw.
     if re_match safe_data_url raw \<or> starts_with (cps ''blob:'') (fold_text env raw)
     then css_references_of env kinds index ms refs
     else bindE (resolve_asset_reference env raw kinds index [IMAGE, FONT] False CSS_EXTERNAL_URL) (\<lambda>reference.
       css_references_of env kinds index ms (insert reference refs)))"

definition css_inspect ::
  "('p, 'x) upload_env_scheme \<Rightarrow> artifact_kinds \<Rightarrow> nat \<Rightarrow> text \<Rightarrow> text set \<Rightarrow> upload_error + text set" where
  "css_inspect env kinds index combined refs =
     (let decoded = decode_css_escapes combined; W = is_word env
      in if re_search (css_import W) decoded then raise_field EXTERNAL_DEPENDENCY index CSS_IMPORT
         else if re_search (external_url_token W) decoded then raise_field EXTERNAL_DEPENDENCY index CSS_EXTERNAL_URL
         else css_references_of env kinds index (re_finditer (css_url W) decoded) refs)"

definition css_feed ::
  "('p, 'x) upload_env_scheme \<Rightarrow> artifact_kinds \<Rightarrow> nat \<Rightarrow> text \<Rightarrow> css_state \<Rightarrow> upload_error + css_state" where
  "css_feed env kinds index data st =
     (if data = [] then Inr st
      else let combined = css_tail st @ data
      in bindE (css_inspect env kinds index combined (css_references st)) (\<lambda>refs.
         Inr \<lparr>css_references = refs, css_tail = last_chars 4096 combined\<rparr>))"

definition css_finish ::
  "('p, 'x) upload_env_scheme \<Rightarrow> artifact_kinds \<Rightarrow> nat \<Rightarrow> css_state \<Rightarrow> upload_error + text set" where
  "css_finish env kinds index st = css_inspect env kinds index (css_tail st) (css_references st)"

section \<open>Inline code\<close>

definition dynamic_data_issue_field :: "('p, 'x) upload_env_scheme \<Rightarrow> text \<Rightarrow> nat \<Rightarrow> issue_field" where
  "dynamic_data_issue_field env source argument_start =
     (let argument = dropWhile is_space (drop argument_start source)
      in if starts_with [96] argument then DATA_TEMPLATE_LITERAL
         else if re_match (identifier_start (is_word env)) argument then DATA_IDENTIFIER
         else DATA_EXPRESSION)"

text \<open>\<open>"${" in url\<close>\<close>

fun has_substitution :: "text \<Rightarrow> bool" where
  "has_substitution (a # b # cs) \<longleftrightarrow> (a = 36 \<and> b = 123) \<or> has_substitution (b # cs)"
| "has_substitution s \<longleftrightarrow> False"

fun code_references_of ::
  "('p, 'x) upload_env_scheme \<Rightarrow> artifact_kinds \<Rightarrow> nat \<Rightarrow> text \<Rightarrow> found list \<Rightarrow> text set \<Rightarrow> upload_error + text set" where
  "code_references_of env kinds index combined [] refs = Inr refs"
| "code_references_of env kinds index combined (m # ms) refs =
     (if \<not> re_match after_argument (drop (f_end m) combined)
      then raise_field EXTERNAL_DEPENDENCY index DYNAMIC_DATA_REFERENCE
      else if has_substitution (the (f_group m)) then code_references_of env kinds index combined ms refs
      else bindE (resolve_csv_reference env (the (f_group m)) kinds index DYNAMIC_DATA_REFERENCE) (\<lambda>reference.
        code_references_of env kinds index combined ms (insert reference refs)))"

text \<open>A call is covered when a call with a literal argument begins at most 4095 characters before it.\<close>

definition uncovered :: "found list \<Rightarrow> found list \<Rightarrow> found option" where
  "uncovered literals calls =
     find (\<lambda>c. \<not> list_ex (\<lambda>l. f_start l \<le> f_start c \<and> f_start c < f_start l + 4096) literals) calls"

definition check_covered ::
  "('p, 'x) upload_env_scheme \<Rightarrow> nat \<Rightarrow> text \<Rightarrow> found list \<Rightarrow> found list \<Rightarrow> upload_error + unit" where
  "check_covered env index combined literals calls =
     (case uncovered literals calls of
        None \<Rightarrow> Inr ()
      | Some c \<Rightarrow> raise_field EXTERNAL_DEPENDENCY index (dynamic_data_issue_field env combined (f_end c)))"

text \<open>\<open>_inspect_code\<close> of script text, with the references found so far.\<close>

definition inspect_script ::
  "('p, 'x) upload_env_scheme \<Rightarrow> artifact_kinds \<Rightarrow> nat \<Rightarrow> text \<Rightarrow> text set \<Rightarrow> upload_error + text set" where
  "inspect_script env kinds index combined refs =
     (let W = is_word env in
      if re_search (external_url_token W) combined then raise_field EXTERNAL_DEPENDENCY index INLINE_SCRIPT_URL
      else if re_search (dynamic_network W) combined then raise_field EXTERNAL_DEPENDENCY index INLINE_NETWORK_API
      else
      let literals = sort_key f_start (re_finditer (csv_call W) combined @ re_finditer (csv_template_call W) combined)
      in
      bindE (code_references_of env kinds index combined literals refs) (\<lambda>refs'.
      bindE (check_covered env index combined literals (re_finditer (fetch_call W) combined)) (\<lambda>_.
      bindE (check_covered env index combined literals (re_finditer (d3_csv W) combined)) (\<lambda>_.
      Inr refs'))))"

end
