(* ===== verification/Upload_Html.thy ===== *)
theory Upload_Html
  imports Upload_Policy
begin

text \<open>
  The document validator (\<open>_HtmlValidator\<close> of \<open>uploads.py\<close>): a machine that reads the handler calls
  of the tokeniser and keeps the stack of open elements, the landmarks seen, the work done and the
  references found. \<open>Upload_Facts\<close> relates it to balanced documents.
\<close>

section \<open>Tables\<close>

definition html_void_elements :: "text list" where
  "html_void_elements = map cps [''area'', ''br'', ''col'', ''hr'', ''img'', ''input'', ''link'', ''meta'',
     ''param'', ''source'', ''track'', ''wbr'']"

definition html_forbidden_elements :: "text list" where
  "html_forbidden_elements = map cps [''applet'', ''base'', ''embed'', ''frame'', ''frameset'', ''iframe'',
     ''object'', ''portal'']"

definition url_attributes :: "text list" where
  "url_attributes = map cps [''action'', ''background'', ''cite'', ''code'', ''data'', ''formaction'', ''href'',
     ''longdesc'', ''manifest'', ''ping'', ''poster'', ''profile'', ''src'', ''usemap'', ''xlink:href'']"

definition form_url_attributes :: "text list" where
  "form_url_attributes = map cps [''action'', ''formaction'']"

section \<open>State\<close>

record 'p html_state =
  h_stack :: "text list"
  h_root_seen :: bool
  h_root_closed :: bool
  h_doctype_seen :: bool
  h_head_seen :: bool
  h_body_seen :: bool
  h_token_count :: int
  h_references :: "text set"
  h_comment_open :: bool
  h_markup_tail :: "text"
  h_script_tail :: "text"
  h_css :: css_state
  h_parser :: 'p

definition html_start :: "'p upload_env \<Rightarrow> 'p html_state" where
  "html_start env = \<lparr>h_stack = [], h_root_seen = False, h_root_closed = False, h_doctype_seen = False,
     h_head_seen = False, h_body_seen = False, h_token_count = 0, h_references = {}, h_comment_open = False,
     h_markup_tail = [], h_script_tail = [], h_css = css_start, h_parser = ue_parser env\<rparr>"

text \<open>What every handler is given: the environment, the kinds of the package, the limits, the part.\<close>

record 'p html_context =
  x_env :: "'p upload_env"
  x_kinds :: artifact_kinds
  x_limits :: upload_limits
  x_index :: nat

definition malformed :: "'p html_context \<Rightarrow> upload_error + 'a" where
  "malformed x = raise_issue HTML_MALFORMED (x_index x)"

definition external :: "'p html_context \<Rightarrow> issue_field \<Rightarrow> upload_error + 'a" where
  "external x field = raise_field EXTERNAL_DEPENDENCY (x_index x) field"

definition count_token :: "'p html_context \<Rightarrow> 'p html_state \<Rightarrow> upload_error + 'p html_state" where
  "count_token x st =
     (let n = h_token_count st + 1
      in if n > max_html_tokens (x_limits x) then raise_issue HTML_TOO_COMPLEX (x_index x)
         else Inr (st\<lparr>h_token_count := n\<rparr>))"

section \<open>Attributes\<close>

definition inspect_code :: "'p html_context \<Rightarrow> text \<Rightarrow> bool \<Rightarrow> 'p html_state \<Rightarrow> upload_error + 'p html_state" where
  "inspect_code x data css st =
     (if css then bindE (css_feed (x_env x) (x_kinds x) (x_index x) data (h_css st)) (\<lambda>c. Inr (st\<lparr>h_css := c\<rparr>))
      else
      let combined = h_script_tail st @ data
      in bindE (inspect_script (x_env x) (x_kinds x) (x_index x) combined (h_references st)) (\<lambda>refs.
         Inr (st\<lparr>h_script_tail := last_chars 4096 combined, h_references := refs\<rparr>)))"

definition allowed_attribute_kinds :: "text \<Rightarrow> text \<Rightarrow> upload_kind list" where
  "allowed_attribute_kinds tag attribute =
     (if attribute = cps ''href'' \<and> (tag = cps ''a'' \<or> tag = cps ''area'') then supporting_kinds
      else if attribute = cps ''background'' \<or> attribute = cps ''poster'' then [IMAGE]
      else if attribute = cps ''src'' \<and> (tag = cps ''img'' \<or> tag = cps ''source'') then [IMAGE]
      else [])"

definition inspect_url_attribute ::
  "'p html_context \<Rightarrow> text \<Rightarrow> text \<Rightarrow> text \<Rightarrow> upload_kind list \<Rightarrow> 'p html_state \<Rightarrow> upload_error + 'p html_state" where
  "inspect_url_attribute x v tag attribute allowed st =
     (let csv_compatibility = (set allowed = {CSV});
          invalid = raise_issue (if csv_compatibility then INVALID_CSV_REFERENCE else INVALID_ASSET_REFERENCE) (x_index x)
      in
      if v = [] \<or> list_ex is_space v then invalid
      else if attribute \<in> set form_url_attributes then external x HTML_FORM_ACTION
      else if hd v = 35
      then (if attribute = cps ''href'' \<and> (tag = cps ''a'' \<or> tag = cps ''area'') then Inr st else invalid)
      else if allowed \<noteq> [] \<and> (safe_data_url_for_kinds (x_env x) v allowed
        \<or> starts_with (cps ''blob:'') (fold_text (x_env x) v)) then Inr st
      else bindE (resolve_asset_reference (x_env x) v (x_kinds x) (x_index x) allowed csv_compatibility
          EXTERNAL_REFERENCE) (\<lambda>reference.
        Inr (st\<lparr>h_references := insert reference (h_references st)\<rparr>)))"

text \<open>The attributes by folded name, a missing value read as the empty text; no name may repeat.\<close>

fun fold_attributes ::
  "'p html_context \<Rightarrow> (text \<times> text) list \<Rightarrow> (text \<times> text option) list \<Rightarrow> upload_error + (text \<times> text) list" where
  "fold_attributes x values [] = Inr values"
| "fold_attributes x values ((raw, v) # attrs) =
     (let name = fold_text (x_env x) raw
      in if name \<in> set (map fst values) then malformed x
         else fold_attributes x (values @ [(name, case v of None \<Rightarrow> [] | Some t \<Rightarrow> t)]) attrs)"

definition link_kinds_of :: "'p html_context \<Rightarrow> (text \<times> text) list \<Rightarrow> upload_kind list option" where
  "link_kinds_of x values =
     (let rel = (case map_of values (cps ''rel'') of None \<Rightarrow> [] | Some v \<Rightarrow> v);
          tokens = map (fold_text (x_env x)) (split_ws rel)
      in if cps ''stylesheet'' \<in> set tokens then Some [CSS]
         else if cps ''icon'' \<in> set tokens \<or> cps ''apple-touch-icon'' \<in> set tokens then Some [IMAGE]
         else None)"

definition validate_attribute ::
  "'p html_context \<Rightarrow> text \<Rightarrow> upload_kind list option \<Rightarrow> text \<Rightarrow> text \<Rightarrow> 'p html_state \<Rightarrow> upload_error + 'p html_state" where
  "validate_attribute x tag link_kinds name v st =
     (if tag = cps ''script'' \<and> name = cps ''src'' then external x HTML_SCRIPT_SOURCE
      else if name = cps ''manifest'' then external x HTML_MANIFEST
      else if name \<in> set form_url_attributes then external x HTML_FORM_ACTION
      else if name = cps ''srcset'' \<or> name = cps ''imagesrcset'' then external x HTML_RESPONSIVE_SOURCE
      else if name \<in> set url_attributes
      then (if tag = cps ''link'' \<and> name = cps ''href''
            then (case link_kinds of
                None \<Rightarrow> Inl OtherException
              | Some allowed \<Rightarrow> inspect_url_attribute x v tag name allowed st)
            else inspect_url_attribute x v tag name (allowed_attribute_kinds tag name) st)
      else if name = cps ''style'' then inspect_code x v True st
      else if starts_with (cps ''on'') name then inspect_code x v False st
      else if tag = cps ''meta'' \<and> name = cps ''content''
      then (if re_search (external_url_token (is_word (x_env x))) v then external x HTML_META_URL else Inr st)
      else if tag = cps ''meta'' \<and> name = cps ''http-equiv'' \<and> fold_text (x_env x) v = cps ''refresh''
      then external x HTML_META_REFRESH
      else Inr st)"

fun validate_each ::
  "'p html_context \<Rightarrow> text \<Rightarrow> upload_kind list option \<Rightarrow> (text \<times> text) list \<Rightarrow> 'p html_state
    \<Rightarrow> upload_error + 'p html_state" where
  "validate_each x tag link_kinds [] st = Inr st"
| "validate_each x tag link_kinds ((name, v) # values) st =
     bindE (validate_attribute x tag link_kinds name v st) (\<lambda>st. validate_each x tag link_kinds values st)"

definition validate_attributes ::
  "'p html_context \<Rightarrow> text \<Rightarrow> (text \<times> text option) list \<Rightarrow> 'p html_state \<Rightarrow> upload_error + 'p html_state" where
  "validate_attributes x tag attrs st =
     bindE (fold_attributes x [] attrs) (\<lambda>values.
     let link_kinds = (if tag = cps ''link'' then link_kinds_of x values else None)
     in if tag = cps ''link'' \<and> (link_kinds = None \<or> cps ''href'' \<notin> set (map fst values)) then external x HTML_LINK
        else validate_each x tag link_kinds values st)"

section \<open>Tags\<close>

definition check_placement :: "'p html_context \<Rightarrow> text \<Rightarrow> 'p html_state \<Rightarrow> upload_error + 'p html_state" where
  "check_placement x tag st =
     bindE (if h_stack st = []
            then (if tag \<noteq> cps ''html'' \<or> h_root_seen st \<or> h_root_closed st then malformed x
                  else Inr (st\<lparr>h_root_seen := True\<rparr>))
            else if tag = cps ''html'' then malformed x else Inr st) (\<lambda>st.
     bindE (if tag = cps ''head''
            then (if h_stack st \<noteq> [cps ''html''] \<or> h_head_seen st \<or> h_body_seen st then malformed x
                  else Inr (st\<lparr>h_head_seen := True\<rparr>))
            else Inr st) (\<lambda>st.
     if tag = cps ''body''
     then (if h_stack st \<noteq> [cps ''html''] \<or> h_body_seen st then malformed x
           else Inr (st\<lparr>h_body_seen := True\<rparr>))
     else Inr st))"

text \<open>The stack of the source grows at its end; here its last element is the head of the list.\<close>

definition start_tag ::
  "'p html_context \<Rightarrow> text \<Rightarrow> (text \<times> text option) list \<Rightarrow> bool \<Rightarrow> 'p html_state \<Rightarrow> upload_error + 'p html_state" where
  "start_tag x raw attrs self_closing st =
     bindE (count_token x st) (\<lambda>st.
     let tag = fold_text (x_env x) raw in
     if tag \<in> set html_forbidden_elements then external x HTML_EMBEDDED_CONTENT
     else if tag = cps ''form'' then external x HTML_FORM_ACTION
     else
     bindE (check_placement x tag st) (\<lambda>st.
     bindE (validate_attributes x tag attrs st) (\<lambda>st.
     if tag \<in> set html_void_elements then Inr st
     else if self_closing then malformed x
     else if int (length (h_stack st)) \<ge> max_html_nesting (x_limits x) then raise_issue HTML_TOO_COMPLEX (x_index x)
     else Inr (st\<lparr>h_stack := tag # h_stack st\<rparr>))))"

definition end_tag :: "'p html_context \<Rightarrow> text \<Rightarrow> 'p html_state \<Rightarrow> upload_error + 'p html_state" where
  "end_tag x raw st =
     bindE (count_token x st) (\<lambda>st.
     let tag = fold_text (x_env x) raw in
     if tag \<in> set html_void_elements \<or> h_stack st = [] \<or> hd (h_stack st) \<noteq> tag then malformed x
     else Inr (st\<lparr>h_stack := tl (h_stack st), h_root_closed := (h_root_closed st \<or> tag = cps ''html'')\<rparr>))"

definition handle_data :: "'p html_context \<Rightarrow> text \<Rightarrow> 'p html_state \<Rightarrow> upload_error + 'p html_state" where
  "handle_data x data st =
     (if data = [] then Inr st
      else case h_stack st of
        [] \<Rightarrow> if strip_ws data \<noteq> [] then malformed x else Inr st
      | tag # rest \<Rightarrow>
          if tag = cps ''script'' \<or> tag = cps ''style'' then inspect_code x data (tag = cps ''style'') st
          else if 60 \<in> set data then malformed x else Inr st)"

definition handle_decl :: "'p html_context \<Rightarrow> text \<Rightarrow> 'p html_state \<Rightarrow> upload_error + 'p html_state" where
  "handle_decl x decl st =
     bindE (count_token x st) (\<lambda>st.
     if h_stack st \<noteq> [] \<or> h_doctype_seen st \<or> fold_text (x_env x) decl \<noteq> cps ''doctype html'' then malformed x
     else Inr (st\<lparr>h_doctype_seen := True\<rparr>))"

definition handle_event :: "'p html_context \<Rightarrow> html_event \<Rightarrow> 'p html_state \<Rightarrow> upload_error + 'p html_state" where
  "handle_event x e st = (case e of
      StartTag tag attrs \<Rightarrow> start_tag x tag attrs False st
    | StartEndTag tag attrs \<Rightarrow> start_tag x tag attrs True st
    | EndTag tag \<Rightarrow> end_tag x tag st
    | Data data \<Rightarrow> handle_data x data st
    | Comment data \<Rightarrow> Inr st
    | Decl decl \<Rightarrow> handle_decl x decl st
    | ProcessingInstruction data \<Rightarrow> external x HTML_PROCESSING_INSTRUCTION
    | UnknownDecl data \<Rightarrow> malformed x
    | EntityReference name \<Rightarrow> Inr st)"

fun handle_events :: "'p html_context \<Rightarrow> html_event list \<Rightarrow> 'p html_state \<Rightarrow> upload_error + 'p html_state" where
  "handle_events x [] st = Inr st"
| "handle_events x (e # es) st = bindE (handle_event x e st) (\<lambda>st. handle_events x es st)"

section \<open>Feeding\<close>

text \<open>\<open>str.find(needle, cursor)\<close>, as the text behind the needle.\<close>

fun find_after :: "text \<Rightarrow> text \<Rightarrow> text option" where
  "find_after needle [] = (if needle = [] then Some [] else None)"
| "find_after needle (c # cs) =
     (if starts_with needle (c # cs) then Some (drop (length needle) (c # cs)) else find_after needle cs)"

lemma find_after_shorter: "needle \<noteq> [] \<Longrightarrow> find_after needle s = Some t \<Longrightarrow> length t < length s"
  by (induction s) (auto simp: starts_with_def split: if_splits)

function comment_state :: "bool \<Rightarrow> text \<Rightarrow> bool" where
  "comment_state opened s =
     (case find_after (if opened then cps ''-->'' else cps ''<!--'') s of
        None \<Rightarrow> opened
      | Some rest \<Rightarrow> comment_state (\<not> opened) rest)"
  by pat_completeness auto
termination
  by (relation "measure (\<lambda>(opened, s). length s)")
    (auto dest!: find_after_shorter [rotated] simp: cps_def split: if_splits)

declare comment_state.simps [simp del]

definition track_unterminated_comment :: "text \<Rightarrow> 'p html_state \<Rightarrow> 'p html_state" where
  "track_unterminated_comment data st =
     (let combined = h_markup_tail st @ data
      in st\<lparr>h_comment_open := comment_state (h_comment_open st) combined, h_markup_tail := last_chars 4 combined\<rparr>)"

text \<open>One call of the base class: its handler calls, then its own exception.\<close>

definition run_parser ::
  "'p html_context \<Rightarrow> html_event list \<times> 'p option \<Rightarrow> 'p html_state \<Rightarrow> upload_error + 'p html_state" where
  "run_parser x result st =
     (case bindE (handle_events x (fst result) st) (\<lambda>st.
         case snd result of None \<Rightarrow> Inl OtherException | Some p \<Rightarrow> Inr (st\<lparr>h_parser := p\<rparr>)) of
        Inl e \<Rightarrow> Inl (others_as HTML_MALFORMED (x_index x) e)
      | Inr st \<Rightarrow> Inr st)"

definition html_feed :: "'p html_context \<Rightarrow> text \<Rightarrow> 'p html_state \<Rightarrow> upload_error + 'p html_state" where
  "html_feed x data st =
     run_parser x (ue_feed (x_env x) (h_parser st) data) (track_unterminated_comment data st)"

definition html_close :: "'p html_context \<Rightarrow> 'p html_state \<Rightarrow> upload_error + 'p html_state" where
  "html_close x st =
     bindE (run_parser x (ue_close (x_env x) (h_parser st)) st) (\<lambda>st.
     if ue_rawdata (x_env x) (h_parser st) \<noteq> [] \<or> h_comment_open st then malformed x else Inr st)"

definition html_finish :: "'p html_context \<Rightarrow> 'p html_state \<Rightarrow> upload_error + text set" where
  "html_finish x st =
     bindE (html_close x st) (\<lambda>st.
     if \<not> h_root_seen st \<or> \<not> h_root_closed st \<or> h_stack st \<noteq> [] then malformed x
     else bindE (css_finish (x_env x) (x_kinds x) (x_index x) (h_css st)) (\<lambda>refs.
       Inr (h_references st \<union> refs)))"

end
