(* ===== verification/Upload_Staging.thy ===== *)
theory Upload_Staging
  imports Upload_Html
begin

text \<open>
  Staging of an upload (\<open>stage_upload\<close> of \<open>uploads.py\<close>): every part is read chunk by chunk, counted,
  decoded, inspected, copied to a temporary file and hashed. Temporary files live in a world in which
  any call may raise and a write may take part of its bytes.
\<close>

section \<open>Temporary files\<close>

record temp_file =
  t_content :: "text"
  t_closed :: bool

record staging =
  sg_calls :: nat
  sg_faults :: "nat \<Rightarrow> upload_error option"
  sg_amounts :: "nat \<Rightarrow> nat option"
  sg_files :: "temp_file list"

type_synonym 'a stage = "(staging, upload_error, 'a) action"

definition temp_call :: "(staging \<Rightarrow> (upload_error + 'a) \<times> staging) \<Rightarrow> 'a stage" where
  "temp_call f = (\<lambda>w. let w' = w\<lparr>sg_calls := Suc (sg_calls w)\<rparr> in
     case sg_faults w (sg_calls w) of Some e \<Rightarrow> (Inl e, w') | None \<Rightarrow> f w')"

definition pureP :: "upload_error + 'a \<Rightarrow> 'a stage" where
  "pureP r = (\<lambda>w. (r, w))"

definition set_content :: "nat \<Rightarrow> text \<Rightarrow> staging \<Rightarrow> staging" where
  "set_content h c w = w\<lparr>sg_files := (sg_files w)[h := (sg_files w ! h)\<lparr>t_content := c\<rparr>]\<rparr>"

text \<open>\<open>tempfile.TemporaryFile\<close>; the handle is the place of the file in the world.\<close>

definition open_temporary :: "nat stage" where
  "open_temporary = temp_call (\<lambda>w.
     (Inr (length (sg_files w)), w\<lparr>sg_files := sg_files w @ [\<lparr>t_content = [], t_closed = False\<rparr>]\<rparr>))"

definition write_temporary :: "nat \<Rightarrow> text \<Rightarrow> nat option stage" where
  "write_temporary h bs = temp_call (\<lambda>w. case sg_amounts w (sg_calls w) of
      None \<Rightarrow> (Inr None, w)
    | Some n \<Rightarrow> (Inr (Some (min n (length bs))), set_content h (t_content (sg_files w ! h) @ take n bs) w))"

definition read_temporary :: "nat \<Rightarrow> text stage" where
  "read_temporary h = temp_call (\<lambda>w. (Inr (t_content (sg_files w ! h)), w))"

text \<open>\<open>seek\<close> and \<open>flush\<close>\<close>

definition touch_temporary :: "unit stage" where
  "touch_temporary = temp_call (\<lambda>w. (Inr (), w))"

text \<open>\<open>_close_one_safely\<close> swallows what \<open>close\<close> raises.\<close>

definition close_one_safely :: "nat \<Rightarrow> unit stage" where
  "close_one_safely h = (\<lambda>w. (Inr (),
     w\<lparr>sg_files := (sg_files w)[h := (sg_files w ! h)\<lparr>t_closed := True\<rparr>]\<rparr>))"

definition recodeP :: "(upload_error \<Rightarrow> upload_error) \<Rightarrow> 'a stage \<Rightarrow> 'a stage" where
  "recodeP f m = tryP m (\<lambda>e. raiseP (f e))"

function stage_write_all :: "nat \<Rightarrow> nat \<Rightarrow> text \<Rightarrow> unit stage" where
  "stage_write_all index h remaining w =
     (if remaining = [] then (Inr (), w)
      else case recodeP (others_as STAGING_ERROR index) (write_temporary h remaining) w of
        (Inl e, w') \<Rightarrow> (Inl e, w')
      | (Inr None, w') \<Rightarrow> (raise_issue STAGING_ERROR index, w')
      | (Inr (Some n), w') \<Rightarrow>
          if n = 0 then (raise_issue STAGING_ERROR index, w')
          else stage_write_all index h (drop n remaining) w')"
  by pat_completeness auto
termination by (relation "measure (\<lambda>(index, h, remaining, w). length remaining)") auto

declare stage_write_all.simps [simp del]

section \<open>Decoding\<close>

text \<open>
  The incremental \<open>utf-8-sig\<close> decoder: it holds back undecided bytes, at the start also those that
  may begin a byte order mark.
\<close>

record decoder =
  d_buffer :: "text"
  d_first :: bool

definition decoder_start :: decoder where
  "decoder_start = \<lparr>d_buffer = [], d_first = True\<rparr>"

definition byte_order_mark :: "text" where
  "byte_order_mark = [239, 187, 191]"

definition decode_step :: "bool \<Rightarrow> text \<Rightarrow> decoder \<Rightarrow> (text \<times> decoder) option" where
  "decode_step final chunk d =
     (let data = d_buffer d @ chunk
      in if d_first d \<and> length data < 3 \<and> starts_with data byte_order_mark
         then Some ([], d\<lparr>d_buffer := data\<rparr>)
         else map_option (\<lambda>(t, rest). (t, \<lparr>d_buffer = rest, d_first = False\<rparr>))
           (utf8_decode final (if d_first d \<and> take 3 data = byte_order_mark then drop 3 data else data)))"

definition decode_chunk :: "bool \<Rightarrow> text \<Rightarrow> nat \<Rightarrow> decoder \<Rightarrow> upload_error + text \<times> decoder" where
  "decode_chunk final chunk index d =
     (case decode_step final chunk d of None \<Rightarrow> raise_issue INVALID_UTF8 index | Some r \<Rightarrow> Inr r)"

definition validate_decoded_text :: "text \<Rightarrow> nat \<Rightarrow> upload_error + unit" where
  "validate_decoded_text t index =
     (if list_ex (\<lambda>c. c < 32 \<and> c \<notin> {9, 10, 13} \<or> c = 127) t then raise_issue BINARY_CONTENT index else Inr ())"

section \<open>Binary signatures\<close>

definition binary_signatures :: "(text \<times> (nat \<times> text) list) list" where
  "binary_signatures =
     [(cps ''image/png'', [(0, [137, 80, 78, 71, 13, 10, 26, 10])]),
      (cps ''image/jpeg'', [(0, [255, 216])]),
      (cps ''image/gif'', [(0, cps ''GIF87a'')]),
      (cps ''image/webp'', [(0, cps ''RIFF''), (8, cps ''WEBP'')]),
      (cps ''font/woff'', [(0, cps ''wOFF'')]),
      (cps ''font/woff2'', [(0, cps ''wOF2'')])]"

definition signature_matches :: "text \<Rightarrow> text \<Rightarrow> (nat \<times> text) list \<Rightarrow> bool" where
  "signature_matches media content checks =
     (let required = Max (set (map (\<lambda>(offset, signature). offset + length signature) checks));
          prefix = take required content
      in length prefix \<ge> required \<and>
         (if media = cps ''image/gif'' then take 6 prefix = cps ''GIF87a'' \<or> take 6 prefix = cps ''GIF89a''
          else list_all (\<lambda>(offset, signature). take (length signature) (drop offset prefix) = signature) checks))"

definition validate_binary_signature :: "nat \<Rightarrow> text \<Rightarrow> nat \<Rightarrow> unit stage" where
  "validate_binary_signature h media index =
     (case map_of binary_signatures media of
        None \<Rightarrow> raiseP OtherException
      | Some checks \<Rightarrow>
          recodeP (others_as STAGING_ERROR index)
            (bindP touch_temporary (\<lambda>_.
             bindP (read_temporary h) (\<lambda>content.
             if \<not> signature_matches media content checks then pureP (raise_issue MEDIA_TYPE_MISMATCH index)
             else touch_temporary))))"

section \<open>CSV\<close>

text \<open>Lines of a text stream opened with \<open>newline=""\<close>: they keep their ends.\<close>

fun text_lines :: "text \<Rightarrow> text list" where
  "text_lines [] = []"
| "text_lines (c # cs) =
     (if c = 13 \<and> cs \<noteq> [] \<and> hd cs = 10 then [13, 10] # text_lines (tl cs)
      else if c = 10 \<or> c = 13 then [c] # text_lines cs
      else case text_lines cs of [] \<Rightarrow> [[c]] | line # ls \<Rightarrow> (c # line) # ls)"

text \<open>The record reader of the \<open>csv\<close> module with \<open>strict=True\<close> and the default dialect.\<close>

datatype reader_state = StartRecord | StartField | InField | InQuotedField | QuoteInQuotedField | EatCrnl

record reader =
  r_state :: reader_state
  r_field :: "text"
  r_row :: "text list"

definition reader_start :: reader where
  "reader_start = \<lparr>r_state = StartRecord, r_field = [], r_row = []\<rparr>"

definition save_field :: "reader \<Rightarrow> reader_state \<Rightarrow> reader option" where
  "save_field rd state = Some \<lparr>r_state = state, r_field = [], r_row = r_row rd @ [r_field rd]\<rparr>"

definition add_char :: "int \<Rightarrow> nat \<Rightarrow> reader \<Rightarrow> reader_state \<Rightarrow> reader option" where
  "add_char field_limit c rd state =
     (if int (length (r_field rd)) \<ge> field_limit then None
      else Some (rd\<lparr>r_state := state, r_field := r_field rd @ [c]\<rparr>))"

definition is_newline :: "nat option \<Rightarrow> bool" where
  "is_newline c \<longleftrightarrow> c = Some 10 \<or> c = Some 13"

definition start_field_char :: "int \<Rightarrow> nat option \<Rightarrow> reader \<Rightarrow> reader option" where
  "start_field_char field_limit c rd =
     (case c of
        None \<Rightarrow> save_field rd StartRecord
      | Some x \<Rightarrow>
          if is_newline c then save_field rd EatCrnl
          else if x = 34 then Some (rd\<lparr>r_state := InQuotedField\<rparr>)
          else if x = 44 then save_field rd StartField
          else add_char field_limit x rd InField)"

text \<open>One character, or \<open>None\<close> for the end of a line.\<close>

definition reader_char :: "int \<Rightarrow> nat option \<Rightarrow> reader \<Rightarrow> reader option" where
  "reader_char field_limit c rd = (case r_state rd of
      StartRecord \<Rightarrow>
        if c = None then Some rd
        else if is_newline c then Some (rd\<lparr>r_state := EatCrnl\<rparr>)
        else start_field_char field_limit c rd
    | StartField \<Rightarrow> start_field_char field_limit c rd
    | InField \<Rightarrow> (case c of
          None \<Rightarrow> save_field rd StartRecord
        | Some x \<Rightarrow>
            if is_newline c then save_field rd EatCrnl
            else if x = 44 then save_field rd StartField
            else add_char field_limit x rd InField)
    | InQuotedField \<Rightarrow> (case c of
          None \<Rightarrow> Some rd
        | Some x \<Rightarrow>
            if x = 34 then Some (rd\<lparr>r_state := QuoteInQuotedField\<rparr>)
            else add_char field_limit x rd InQuotedField)
    | QuoteInQuotedField \<Rightarrow> (case c of
          None \<Rightarrow> save_field rd StartRecord
        | Some x \<Rightarrow>
            if x = 34 then add_char field_limit x rd InQuotedField
            else if x = 44 then save_field rd StartField
            else if is_newline c then save_field rd EatCrnl
            else None)
    | EatCrnl \<Rightarrow>
        if c = None then Some (rd\<lparr>r_state := StartRecord\<rparr>)
        else if is_newline c then Some rd else None)"

primrec reader_chars :: "int \<Rightarrow> text \<Rightarrow> reader \<Rightarrow> reader option" where
  "reader_chars field_limit [] rd = reader_char field_limit None rd"
| "reader_chars field_limit (c # cs) rd =
     Option.bind (reader_char field_limit (Some c) rd) (reader_chars field_limit cs)"

datatype csv_result = Row "text list" "text list" int | CsvError | CsvEnd

definition encoded_length :: "text \<Rightarrow> int" where
  "encoded_length s = int (sum_list (map utf8_width s))"

text \<open>The next record, the lines behind it and the bytes of its lines.\<close>

fun csv_record :: "int \<Rightarrow> text list \<Rightarrow> reader \<Rightarrow> int \<Rightarrow> csv_result" where
  "csv_record field_limit [] rd n =
     (if r_field rd \<noteq> [] \<or> r_state rd = InQuotedField then CsvError else CsvEnd)"
| "csv_record field_limit (line # ls) rd n =
     (case reader_chars field_limit line rd of
        None \<Rightarrow> CsvError
      | Some rd' \<Rightarrow>
          if r_state rd' = StartRecord then Row (r_row rd') ls (n + encoded_length line)
          else csv_record field_limit ls rd' (n + encoded_length line))"

lemma csv_record_shorter: "csv_record field_limit ls rd n = Row row rest k \<Longrightarrow> length rest < length ls"
  by (induction field_limit ls rd n rule: csv_record.induct) (auto split: option.splits if_splits)

record csv_progress =
  cv_rows :: int
  cv_expected :: "int option"
  cv_saw_value :: bool
  cv_prefix :: "text"

definition csv_start :: csv_progress where
  "csv_start = \<lparr>cv_rows = 0, cv_expected = None, cv_saw_value = False, cv_prefix = []\<rparr>"

text \<open>\<open>"\n".join(row)\<close>\<close>

fun join_newline :: "text list \<Rightarrow> text" where
  "join_newline [] = []"
| "join_newline [w] = w"
| "join_newline (w # v # ws) = w @ 10 # join_newline (v # ws)"

definition csv_row :: "upload_limits \<Rightarrow> nat \<Rightarrow> text list \<Rightarrow> int \<Rightarrow> csv_progress \<Rightarrow> upload_error + csv_progress" where
  "csv_row limits index row record_bytes p =
     (let fields = int (length row) in
      if cv_rows p + 1 > max_csv_rows limits then raise_issue CSV_TOO_MANY_ROWS index
      else if record_bytes > max_csv_record_bytes limits then raise_issue CSV_RECORD_TOO_LARGE index
      else if fields > max_csv_fields limits then raise_issue CSV_TOO_MANY_FIELDS index
      else if row \<noteq> [] \<and> cv_expected p \<noteq> None \<and> cv_expected p \<noteq> Some fields then raise_issue CSV_MALFORMED index
      else if list_ex (\<lambda>f. encoded_length f > max_csv_field_bytes limits) row then raise_issue CSV_FIELD_TOO_LARGE index
      else Inr \<lparr>cv_rows = cv_rows p + 1,
        cv_expected = (if row \<noteq> [] \<and> cv_expected p = None then Some fields else cv_expected p),
        cv_saw_value = (cv_saw_value p \<or> list_ex (\<lambda>f. f \<noteq> []) row),
        cv_prefix = (if length (cv_prefix p) < 512
          then cv_prefix p @ take (512 - length (cv_prefix p)) (join_newline row) else cv_prefix p)\<rparr>)"

function csv_rows :: "upload_limits \<Rightarrow> nat \<Rightarrow> int \<Rightarrow> text list \<Rightarrow> csv_progress \<Rightarrow> upload_error + csv_progress" where
  "csv_rows limits index field_limit ls p =
     (case csv_record field_limit ls reader_start 0 of
        CsvError \<Rightarrow> raise_issue CSV_MALFORMED index
      | CsvEnd \<Rightarrow> Inr p
      | Row row rest n \<Rightarrow> (case csv_row limits index row n p of
            Inl e \<Rightarrow> Inl e
          | Inr p' \<Rightarrow> csv_rows limits index field_limit rest p'))"
  by pat_completeness auto
termination
  by (relation "measure (\<lambda>(limits, index, field_limit, ls, p). length ls)") (auto dest: csv_record_shorter)

declare csv_rows.simps [simp del]

definition html_looks_like :: "(nat \<Rightarrow> bool) \<Rightarrow> pattern" where
  "html_looks_like W =
     seq [Start, spaces,
       alt [seq [word_ci ''<!doctype'', Ch is_space, spaces, word_ci ''html'', Boundary W],
            seq [word_ci ''<html'', Boundary W], seq [word_ci ''<head'', Boundary W],
            seq [word_ci ''<body'', Boundary W], seq [word_ci ''<script'', Boundary W]]]"

definition check_csv :: "'p upload_env \<Rightarrow> upload_limits \<Rightarrow> nat \<Rightarrow> text \<Rightarrow> upload_error + unit" where
  "check_csv env limits index content =
     (case decode_step True content decoder_start of
        None \<Rightarrow> raise_issue INVALID_UTF8 index
      | Some (t, d) \<Rightarrow>
          bindE (csv_rows limits index (max 1 (max (max_file_bytes limits) (max_csv_field_bytes limits)))
            (text_lines t) csv_start) (\<lambda>p.
          if \<not> cv_saw_value p then raise_issue EMPTY_FILE index
          else if re_search (html_looks_like (is_word env)) (cv_prefix p) then raise_issue MEDIA_TYPE_MISMATCH index
          else Inr ()))"

definition validate_csv :: "'p upload_env \<Rightarrow> upload_limits \<Rightarrow> nat \<Rightarrow> nat \<Rightarrow> unit stage" where
  "validate_csv env limits h index =
     recodeP (others_as CSV_MALFORMED index)
       (bindP touch_temporary (\<lambda>_.
        bindP (read_temporary h) (\<lambda>content. pureP (check_csv env limits index content))))"

section \<open>One part\<close>

text \<open>What the loop over the chunks of a part carries.\<close>

record 'p part_state =
  p_count :: int
  p_size :: int
  p_total :: int
  p_digest :: "text"
  p_decoder :: "decoder option"
  p_html :: "'p html_state option"
  p_css :: "css_state option"

definition part_start :: "'p upload_env \<Rightarrow> upload_kind \<Rightarrow> int \<Rightarrow> 'p part_state" where
  "part_start env kind so_far =
     \<lparr>p_count = 0, p_size = 0, p_total = so_far, p_digest = [],
      p_decoder = (if kind \<in> set text_kinds then Some decoder_start else None),
      p_html = (if kind = HTML then Some (html_start env) else None),
      p_css = (if kind = CSS then Some css_start else None)\<rparr>"

text \<open>Decoding, checking and inspecting the text of one chunk, or of the end of the part.\<close>

definition feed_text :: "'p html_context \<Rightarrow> bool \<Rightarrow> text \<Rightarrow> 'p part_state \<Rightarrow> upload_error + 'p part_state" where
  "feed_text x final chunk st =
     (case p_decoder st of
        None \<Rightarrow> Inr st
      | Some d \<Rightarrow>
          bindE (decode_chunk final chunk (x_index x) d) (\<lambda>(t, d').
          bindE (validate_decoded_text t (x_index x)) (\<lambda>_.
          bindE (case p_html st of None \<Rightarrow> Inr None
                 | Some h \<Rightarrow> bindE (html_feed x t h) (\<lambda>h'. Inr (Some h'))) (\<lambda>html.
          bindE (case p_css st of None \<Rightarrow> Inr None
                 | Some c \<Rightarrow> bindE (css_feed (x_env x) (x_kinds x) (x_index x) t c) (\<lambda>c'. Inr (Some c'))) (\<lambda>css.
          Inr (st\<lparr>p_decoder := Some d', p_html := html, p_css := css\<rparr>))))))"

definition stage_chunk :: "'p html_context \<Rightarrow> nat \<Rightarrow> raw_chunk \<Rightarrow> 'p part_state \<Rightarrow> 'p part_state stage" where
  "stage_chunk x h raw st =
     (let index = x_index x; limits = x_limits x; count = p_count st + 1 in
      if count > max_chunks_per_file limits then pureP (raise_issue TOO_MANY_CHUNKS index)
      else case raw of
        RawOther \<Rightarrow> pureP (raise_issue NON_BYTES_CHUNK index)
      | RawBytes chunk \<Rightarrow>
          let next_size = p_size st + int (length chunk); next_total = p_total st + int (length chunk) in
          if next_size > max_file_bytes limits then pureP (raise_issue FILE_TOO_LARGE index)
          else if next_total > max_total_bytes limits then pureP (raise_issue TOTAL_TOO_LARGE index)
          else
          bindP (pureP (feed_text x False chunk st)) (\<lambda>st.
          bindP (stage_write_all index h chunk) (\<lambda>_.
          returnP (st\<lparr>p_count := count, p_size := next_size, p_total := next_total,
            p_digest := p_digest st @ chunk\<rparr>))))"

fun stage_chunks ::
  "'p html_context \<Rightarrow> nat \<Rightarrow> upload_error option \<Rightarrow> raw_chunk list \<Rightarrow> 'p part_state \<Rightarrow> 'p part_state stage" where
  "stage_chunks x h ending [] st = (case ending of None \<Rightarrow> returnP st | Some e \<Rightarrow> raiseP e)"
| "stage_chunks x h ending (raw # raws) st =
     bindP (stage_chunk x h raw st) (\<lambda>st. stage_chunks x h ending raws st)"

record staged_file =
  s_kind :: upload_kind
  s_name :: logical_name
  s_size :: int
  s_sha256 :: "text"
  s_handle :: nat
  s_media_type :: "text"

text \<open>The checks of a whole part and the names it refers to.\<close>

definition finish_part :: "'p html_context \<Rightarrow> nat \<Rightarrow> manifest_entry \<Rightarrow> 'p part_state \<Rightarrow> text set stage" where
  "finish_part x h entry st =
     (case p_html st of
        Some html \<Rightarrow> pureP (html_finish x html)
      | None \<Rightarrow> (case p_css st of
          Some css \<Rightarrow> pureP (css_finish (x_env x) (x_kinds x) (x_index x) css)
        | None \<Rightarrow>
            bindP (if e_kind entry = CSV then validate_csv (x_env x) (x_limits x) h (x_index x)
                   else validate_binary_signature h (e_media_type entry) (x_index x)) (\<lambda>_. returnP {})))"

definition stage_body ::
  "'p html_context \<Rightarrow> manifest_entry \<Rightarrow> nat \<Rightarrow> int \<Rightarrow> (staged_file \<times> int \<times> text set) stage" where
  "stage_body x entry h so_far =
     (let source = chunks (e_part entry) in
      case it_open source of
        Some e \<Rightarrow> raiseP (if e = BaseException then e else OtherException)
      | None \<Rightarrow>
          bindP (stage_chunks x h (it_end source) (it_items source) (part_start (x_env x) (e_kind entry) so_far)) (\<lambda>st.
          bindP (pureP (feed_text x True [] st)) (\<lambda>st.
          bindP (pureP (if p_size st = 0 then raise_issue EMPTY_FILE (x_index x) else Inr ())) (\<lambda>_.
          bindP (finish_part x h entry st) (\<lambda>refs.
          bindP touch_temporary (\<lambda>_.
          bindP touch_temporary (\<lambda>_.
          returnP (\<lparr>s_kind = e_kind entry, s_name = e_name entry, s_size = p_size st,
              s_sha256 = ue_sha256 (x_env x) (p_digest st), s_handle = h,
              s_media_type = e_media_type entry\<rparr>, p_total st, refs))))))))"

definition stage_entry ::
  "'p upload_env \<Rightarrow> upload_limits \<Rightarrow> artifact_kinds \<Rightarrow> manifest_entry \<Rightarrow> int
    \<Rightarrow> (staged_file \<times> int \<times> text set) stage" where
  "stage_entry env limits kinds entry so_far =
     (let index = e_index entry; x = \<lparr>x_env = env, x_kinds = kinds, x_limits = limits, x_index = index\<rparr> in
      bindP (recodeP (\<lambda>e. if e = BaseException then e else issue STAGING_ERROR (Some index) None) open_temporary) (\<lambda>h.
      tryP (stage_body x entry h so_far) (\<lambda>e.
        bindP (close_one_safely h) (\<lambda>_. raiseP (others_as STREAM_ERROR index e)))))"

section \<open>The whole upload\<close>

record staged_upload =
  su_files :: "staged_file list"
  su_total_size :: int
  su_referenced :: "text set"

fun close_staged_safely :: "staged_file list \<Rightarrow> unit stage" where
  "close_staged_safely [] = returnP ()"
| "close_staged_safely (f # fs) = bindP (close_one_safely (s_handle f)) (\<lambda>_. close_staged_safely fs)"

fun stage_entries ::
  "'p upload_env \<Rightarrow> upload_limits \<Rightarrow> artifact_kinds \<Rightarrow> manifest_entry list \<Rightarrow> staged_file list \<Rightarrow> int \<Rightarrow> text set
    \<Rightarrow> staged_upload stage" where
  "stage_entries env limits kinds [] staged so_far refs =
     returnP \<lparr>su_files = staged, su_total_size = so_far, su_referenced = refs\<rparr>"
| "stage_entries env limits kinds (entry # entries) staged so_far refs =
     bindP (tryP (stage_entry env limits kinds entry so_far) (\<lambda>e.
       bindP (close_staged_safely staged) (\<lambda>_. raiseP e))) (\<lambda>(file, so_far', file_refs).
     stage_entries env limits kinds entries (staged @ [file]) so_far' (refs \<union> file_refs))"

definition stage_upload ::
  "'p upload_env \<Rightarrow> upload_limits \<Rightarrow> raw_part iterable \<Rightarrow> staged_upload stage" where
  "stage_upload env limits parts =
     bindP (pureP (build_manifest (ue_unicode env) limits parts)) (\<lambda>manifest.
     let kinds = map_of (map (\<lambda>e. (comparison_key (e_name e), e_kind e)) manifest)
     in stage_entries env limits kinds manifest [] 0 {})"

end
