(* ===== verification/Manifests.thy ===== *)
theory Manifests
  imports Uploads
begin

text \<open>
  What an accepted manifest guarantees: one HTML file, distinct names, kinds and media types from the
  extension table, in the order of the parts and within the file limit.
\<close>

section \<open>Entries\<close>

text \<open>An entry is a part read by the naming rules.\<close>

definition entry_of :: "unicode \<Rightarrow> raw_part \<Rightarrow> manifest_entry \<Rightarrow> bool" where
  "entry_of uc raw e \<longleftrightarrow>
     raw = Part (e_part e) \<and>
     normalize_part_filename uc (filename (e_part e)) (e_index e) = Inr (e_name e) \<and>
     classify_filename uc (display (e_name e)) (e_index e) = Inr (e_kind e) \<and>
     media_type_for_filename uc (display (e_name e)) (e_index e) = Inr (e_media_type e) \<and>
     validate_declared_media_type uc (media_type (e_part e)) (e_kind e) (e_media_type e) (e_index e) = Inr ()"

definition html_count_of :: "manifest_entry list \<Rightarrow> nat" where
  "html_count_of m = length (filter (\<lambda>e. e_kind e = HTML) m)"

lemma manifest_loop_entries:
  assumes "manifest_loop uc limits ending m seen n raws = Inr m'" "set seen = (\<lambda>e. comparison_key (e_name e)) ` set m"
    "distinct (map (\<lambda>e. comparison_key (e_name e)) m)" "n = html_count_of m" "\<forall>i < length m. e_index (m ! i) = i"
  shows "ending = None \<and> (\<exists>es. m' = m @ es \<and> list_all2 (entry_of uc) raws es) \<and>
    distinct (map (\<lambda>e. comparison_key (e_name e)) m') \<and> html_count_of m' = 1 \<and>
    (\<forall>i < length m'. e_index (m' ! i) = i) \<and> (raws \<noteq> [] \<longrightarrow> int (length m') \<le> max_files limits)"
  using assms
proof (induction uc limits ending m seen n raws arbitrary: m' rule: manifest_loop.induct)
  case (1 uc limits ending m seen n)
  then show ?case
    by (auto simp: finish_manifest_def raise_issue_def split: option.splits if_splits upload_error.splits)
next
  case (2 uc limits ending m seen n raw rest)
  let ?i = "length m"
  from "2.prems"(1) obtain part name kind media where
    r: "\<not> int ?i \<ge> max_files limits" "coerce_part raw ?i = Inr part"
    "normalize_part_filename uc (filename part) ?i = Inr name" "classify_filename uc (display name) ?i = Inr kind"
    "media_type_for_filename uc (display name) ?i = Inr media"
    "validate_declared_media_type uc (media_type part) kind media ?i = Inr ()" "comparison_key name \<notin> set seen"
    and go: "manifest_loop uc limits ending
        (m @ [\<lparr>e_index = ?i, e_part = part, e_kind = kind, e_name = name, e_media_type = media\<rparr>])
        (comparison_key name # seen) (if kind = HTML then Suc n else n) rest = Inr m'"
    by (auto simp: Let_def bindE_eq_Inr raise_issue_def split: if_splits)
  let ?e = "\<lparr>e_index = ?i, e_part = part, e_kind = kind, e_name = name, e_media_type = media\<rparr>"
  have p: "raw = Part part" using r(2) by (cases raw) (auto simp: coerce_part_def raise_issue_def)
  have e: "entry_of uc raw ?e" using r p by (simp add: entry_of_def)
  have ih: "ending = None \<and> (\<exists>es. m' = (m @ [?e]) @ es \<and> list_all2 (entry_of uc) rest es) \<and>
    distinct (map (\<lambda>e. comparison_key (e_name e)) m') \<and> html_count_of m' = 1 \<and>
    (\<forall>i < length m'. e_index (m' ! i) = i) \<and> (rest \<noteq> [] \<longrightarrow> int (length m') \<le> max_files limits)"
  proof (rule "2.IH" [OF refl r(1) r(7) go])
    show "set (comparison_key name # seen) = (\<lambda>e. comparison_key (e_name e)) ` set (m @ [?e])" using "2.prems"(2) by auto
    show "distinct (map (\<lambda>e. comparison_key (e_name e)) (m @ [?e]))" using "2.prems"(2,3) r(7) by (simp add: image_image comp_def)
    show "(if kind = HTML then Suc n else n) = html_count_of (m @ [?e])" using "2.prems"(4) by (simp add: html_count_of_def)
    show "\<forall>i < length (m @ [?e]). e_index ((m @ [?e]) ! i) = i" using "2.prems"(5) by (auto simp: nth_append less_Suc_eq)
  qed
  then obtain es where es: "m' = m @ ?e # es" "list_all2 (entry_of uc) rest es" by auto
  have "int (length m') \<le> max_files limits"
    using ih es r(1) list_all2_lengthD [OF es(2)] by (cases rest) auto
  then show ?case using ih es e by auto
qed

lemma build_manifest_Inr:
  assumes "build_manifest uc limits parts = Inr m"
  shows "it_open parts = None \<and> it_end parts = None \<and> list_all2 (entry_of uc) (it_items parts) m \<and>
    distinct (map (\<lambda>e. comparison_key (e_name e)) m) \<and> html_count_of m = 1 \<and> (\<forall>i < length m. e_index (m ! i) = i) \<and>
    int (length m) \<le> max_files limits"
proof -
  have o: "it_open parts = None" "manifest_loop uc limits (it_end parts) [] [] 0 (it_items parts) = Inr m"
    using assms by (auto simp: build_manifest_def split: option.splits upload_error.splits)
  have "it_end parts = None \<and> (\<exists>es. m = [] @ es \<and> list_all2 (entry_of uc) (it_items parts) es) \<and>
    distinct (map (\<lambda>e. comparison_key (e_name e)) m) \<and> html_count_of m = 1 \<and>
    (\<forall>i < length m. e_index (m ! i) = i) \<and> (it_items parts \<noteq> [] \<longrightarrow> int (length m) \<le> max_files limits)"
    by (rule manifest_loop_entries [OF o(2)]) (simp_all add: html_count_of_def)
  moreover from this have "it_items parts \<noteq> []" by (auto simp: html_count_of_def)
  ultimately show ?thesis using o by auto
qed

text \<open>A refusal is a rejection unless the iterable itself raised a \<open>BaseException\<close>.\<close>

lemma raise_not_other [simp]:
  "raise_issue code i \<noteq> Inl OtherException" "raise_field code i f \<noteq> Inl OtherException"
  "issue code j field \<noteq> OtherException"
  by (simp_all add: raise_issue_def raise_field_def issue_def)

lemma bindE_not_other:
  "m \<noteq> Inl OtherException \<Longrightarrow> (\<And>a. f a \<noteq> Inl OtherException) \<Longrightarrow> bindE m f \<noteq> Inl OtherException"
  by (cases m) auto

lemma if_not_other: "(b \<Longrightarrow> r \<noteq> e) \<Longrightarrow> (\<not> b \<Longrightarrow> s \<noteq> e) \<Longrightarrow> (if b then r else s) \<noteq> e"
  by simp

lemma bindE_raise [simp]:
  "bindE (raise_issue code i) f = raise_issue code i" "bindE (raise_field code i field) f = raise_field code i field"
  by (simp_all add: raise_issue_def raise_field_def)

lemma naming_not_other:
  "coerce_part raw i \<noteq> Inl OtherException" "normalize_part_filename uc name i \<noteq> Inl OtherException"
  "classify_filename uc t i \<noteq> Inl OtherException" "media_type_for_filename uc t i \<noteq> Inl OtherException"
  "validate_declared_media_type uc declared kind media i \<noteq> Inl OtherException"
  by (auto simp: coerce_part_def normalize_part_filename_def classify_filename_def media_type_for_filename_def
      validate_declared_media_type_def Let_def intro!: bindE_not_other
      split: raw_part.split raw_filename.split option.split sum.split raw_media_type.split)

lemma manifest_loop_not_other: "manifest_loop uc limits ending m seen n raws \<noteq> Inl OtherException"
proof (induction uc limits ending m seen n raws rule: manifest_loop.induct)
  case (1 uc limits ending m seen n)
  then show ?case
    by (auto simp: finish_manifest_def split: option.split upload_error.split)
next
  case (2 uc limits ending m seen n raw rest)
  show ?case
    unfolding manifest_loop.simps Let_def
    by (intro bindE_not_other naming_not_other if_not_other raise_not_other "2.IH") simp_all
qed

lemma build_manifest_Inl: "build_manifest uc limits parts = Inl e \<Longrightarrow> e \<noteq> OtherException"
  using manifest_loop_not_other [of uc limits "it_end parts" "[]" "[]" 0 "it_items parts"]
  by (auto simp: build_manifest_def split: option.splits upload_error.splits)

lemma entry_type:
  assumes "entry_of uc raw e"
  shows "\<exists>ext. map_of upload_extension_map ext = Some (e_kind e, e_media_type e)"
proof -
  from assms have c: "classify_filename uc (display (e_name e)) (e_index e) = Inr (e_kind e)"
    "media_type_for_filename uc (display (e_name e)) (e_index e) = Inr (e_media_type e)"
    by (simp_all add: entry_of_def)
  then obtain dot where "last_dot (display (e_name e)) = Some dot"
    by (auto simp: classify_filename_def raise_field_def split: option.splits)
  then show ?thesis using c
    by (intro exI [of _ "casefold uc (drop (dot + 1) (display (e_name e)))"])
      (auto simp: classify_filename_def media_type_for_filename_def raise_field_def extension_to_kind_def
        extension_to_media_type_def Let_def split: option.splits if_splits)
qed

lemma extension_types:
  "map_of upload_extension_map ext = Some (kind, media) \<Longrightarrow> media \<in> set (map cps (artifact_media_types kind))"
proof -
  assume "map_of upload_extension_map ext = Some (kind, media)"
  then have "(ext, kind, media) \<in> set upload_extension_map" by (rule map_of_SomeD)
  moreover have "list_all (\<lambda>(ext, kind, media). media \<in> set (map cps (artifact_media_types kind))) upload_extension_map"
    by (simp add: upload_extension_map_def artifact_media_types_def)
  ultimately show ?thesis unfolding list_all_iff by blast
qed

section \<open>Properties\<close>

text \<open>
  C28: An accepted manifest lists exactly the parts in their order, with at most the allowed number of
  files, pairwise different comparison keys and one HTML file, and gives every file a kind and a
  media type that the artifact table admits for the kind.
\<close>

theorem accepted_manifest_typed:
  assumes "build_manifest uc limits parts = Inr m"
  shows "map (\<lambda>e. Part (e_part e)) m = it_items parts \<and> it_end parts = None
    \<and> map e_index m = [0..<length m] \<and> int (length m) \<le> max_files limits
    \<and> distinct (map (\<lambda>e. comparison_key (e_name e)) m)
    \<and> (\<exists>!i. i < length m \<and> e_kind (m ! i) = HTML)
    \<and> (\<forall>e \<in> set m. e_media_type e \<in> set (map cps (artifact_media_types (e_kind e))))"
proof -
  note b = build_manifest_Inr [OF assms]
  have "map (\<lambda>e. Part (e_part e)) es = raws" if "list_all2 (entry_of uc) raws es" for raws es
    using that by (induction rule: list_all2_induct) (simp_all add: entry_of_def)
  moreover have "map e_index m = [0..<length m]"
  proof -
    have "\<forall>i < length m. e_index (m ! i) = i" using b by blast
    then show ?thesis by (intro nth_equalityI) simp_all
  qed
  moreover have "\<exists>!i. i < length m \<and> e_kind (m ! i) = HTML"
  proof -
    have "card {i. i < length m \<and> e_kind (m ! i) = HTML} = 1"
      using conjunct1 [OF conjunct2 [OF conjunct2 [OF conjunct2 [OF conjunct2 [OF b]]]]]
      by (simp add: html_count_of_def length_filter_conv_card)
    then obtain i where "{i. i < length m \<and> e_kind (m ! i) = HTML} = {i}" by (auto simp: card_1_singleton_iff)
    then show ?thesis by (metis (mono_tags, lifting) mem_Collect_eq singletonD singletonI)
  qed
  moreover have "e_media_type e \<in> set (map cps (artifact_media_types (e_kind e)))" if e: "e \<in> set m" for e
  proof -
    have "list_all2 (entry_of uc) (it_items parts) m" using b by blast
    then obtain raw where "entry_of uc raw e" using e by (auto simp: list_all2_conv_all_nth in_set_conv_nth)
    then show ?thesis using entry_type extension_types by blast
  qed
  ultimately show ?thesis using b by blast
qed

text \<open>A part with a document of one tag pair, and a style sheet beside it.\<close>

definition sample_part :: "string \<Rightarrow> string \<Rightarrow> raw_part" where
  "sample_part name content = Part \<lparr>filename = NameText (cps name),
     chunks = \<lparr>it_open = None, it_items = [RawBytes (cps content)], it_end = None\<rparr>, media_type = None\<rparr>"

definition sample_parts :: "raw_part iterable" where
  "sample_parts = \<lparr>it_open = None, it_items = [sample_part ''a.html'' ''<html></html>'', sample_part ''b.css'' ''p{}''],
     it_end = None\<rparr>"

definition sample_entries :: "manifest_entry list" where
  "sample_entries =
     [\<lparr>e_index = 0, e_part = (case sample_part ''a.html'' ''<html></html>'' of Part p \<Rightarrow> p), e_kind = HTML,
       e_name = \<lparr>display = cps ''a.html'', comparison_key = cps ''a.html''\<rparr>, e_media_type = cps ''text/html''\<rparr>,
      \<lparr>e_index = 1, e_part = (case sample_part ''b.css'' ''p{}'' of Part p \<Rightarrow> p), e_kind = CSS,
       e_name = \<lparr>display = cps ''b.css'', comparison_key = cps ''b.css''\<rparr>, e_media_type = cps ''text/css''\<rparr>]"

lemma sample_names:
  "normalize_part_filename ascii_unicode (NameText (cps ''a.html'')) i =
     Inr \<lparr>display = cps ''a.html'', comparison_key = cps ''a.html''\<rparr>"
  "normalize_part_filename ascii_unicode (NameText (cps ''b.css'')) i =
     Inr \<lparr>display = cps ''b.css'', comparison_key = cps ''b.css''\<rparr>"
  by (simp_all add: normalize_part_filename_def normalize_logical_name_def ascii_unicode_def cps_def ends_in_def
      rstrip_set_def reserved_windows_stems_def control_categories_def utf8_length_def utf8_width_def
      ascii_upper_def Let_def image_iff)

lemma sample_kinds:
  "classify_filename ascii_unicode (cps ''a.html'') i = Inr HTML"
  "classify_filename ascii_unicode (cps ''b.css'') i = Inr CSS"
  "media_type_for_filename ascii_unicode (cps ''a.html'') i = Inr (cps ''text/html'')"
  "media_type_for_filename ascii_unicode (cps ''b.css'') i = Inr (cps ''text/css'')"
proof -
  have "\<not> re_search known_extension_segment [97]" "\<not> re_search known_extension_segment [98]"
    by (simp_all add: re_search_def known_extension_segment_def match_here_def lit_def)
  then show "classify_filename ascii_unicode (cps ''a.html'') i = Inr HTML"
    "classify_filename ascii_unicode (cps ''b.css'') i = Inr CSS"
    by (simp_all add: classify_filename_def ascii_unicode_def cps_def extension_to_kind_def upload_extension_map_def
        last_dot_def)
  show "media_type_for_filename ascii_unicode (cps ''a.html'') i = Inr (cps ''text/html'')"
    "media_type_for_filename ascii_unicode (cps ''b.css'') i = Inr (cps ''text/css'')"
    by (simp_all add: media_type_for_filename_def ascii_unicode_def cps_def extension_to_media_type_def
        upload_extension_map_def last_dot_def)
qed

lemma sample_manifest: "build_manifest ascii_unicode default_limits sample_parts = Inr sample_entries"
proof -
  have "cps ''b.css'' \<noteq> cps ''a.html''" by (simp add: cps_def)
  then show ?thesis
    by (simp add: build_manifest_def sample_parts_def sample_part_def default_limits_def coerce_part_def sample_names
        sample_kinds validate_declared_media_type_def finish_manifest_def sample_entries_def)
qed

lemma accepted_manifest_typed_witness:
  "map (\<lambda>e. Part (e_part e)) sample_entries = it_items sample_parts \<and> map e_index sample_entries = [0, 1]"
  using accepted_manifest_typed [OF sample_manifest] by (simp add: sample_entries_def)

end
