(* ===== verification/Upload_Files.thy ===== *)
theory Upload_Files
  imports Upload_Staging Manifests Storage_Outcomes
begin

text \<open>
  What staging does to the temporary files: an accepted upload holds every part unchanged in an open
  file within the limits, a refused one leaves only closed files, and no foreign exception escapes.
\<close>

section \<open>Frames\<close>

definition same_files :: "staging \<Rightarrow> staging \<Rightarrow> bool" where
  "same_files w v \<longleftrightarrow> sg_files v = sg_files w"

text \<open>Only the content of file \<open>h\<close> may differ.\<close>

definition only_content :: "nat \<Rightarrow> staging \<Rightarrow> staging \<Rightarrow> bool" where
  "only_content h w v \<longleftrightarrow> (\<exists>c. sg_files v = (sg_files w)[h := (sg_files w ! h)\<lparr>t_content := c\<rparr>])"

lemma same_files_order: "reflp same_files" "transp same_files"
  by (auto simp: same_files_def reflp_def transp_def)

lemma same_only: "same_files w v \<Longrightarrow> only_content h w v"
  unfolding same_files_def only_content_def
  by (intro exI [of _ "t_content (sg_files w ! h)"]) simp

lemma only_content_order: "reflp (only_content h)" "transp (only_content h)"
proof -
  show "reflp (only_content h)" by (intro reflpI same_only) (simp add: same_files_def)
  show "transp (only_content h)"
  proof (rule transpI)
    fix u v w
    assume "only_content h u v" "only_content h v w"
    then obtain c d where c: "sg_files v = (sg_files u)[h := (sg_files u ! h)\<lparr>t_content := c\<rparr>]"
      and d: "sg_files w = (sg_files v)[h := (sg_files v ! h)\<lparr>t_content := d\<rparr>]"
      by (auto simp: only_content_def)
    show "only_content h u w"
    proof (cases "h < length (sg_files u)")
      case True
      then show ?thesis unfolding only_content_def c d by (intro exI [of _ d]) simp
    next
      case False
      then have "sg_files w = sg_files u" unfolding c d by (simp add: list_update_beyond)
      then show ?thesis by (intro same_only) (simp add: same_files_def)
    qed
  qed
qed

lemma keeps_weaken: "keeps R m \<Longrightarrow> (\<And>w v. R w v \<Longrightarrow> S w v) \<Longrightarrow> keeps S m"
  by (auto simp: keeps_def)

lemma keeps_pureP: "reflp R \<Longrightarrow> keeps R (pureP r)"
  by (simp add: keeps_def pureP_def reflpD)

lemma keeps_same:
  "keeps same_files touch_temporary" "keeps same_files (read_temporary h)"
  by (simp_all add: keeps_def touch_temporary_def read_temporary_def temp_call_def same_files_def Let_def
      split: option.split)

lemma keeps_write_temporary: "keeps (only_content h) (write_temporary h bs)"
proof -
  have "only_content h w (w\<lparr>sg_calls := n\<rparr>)" for w n by (rule same_only) (simp add: same_files_def)
  moreover have "only_content h w (set_content h c (w\<lparr>sg_calls := n\<rparr>))" for w n c
    by (auto simp: only_content_def set_content_def)
  ultimately show ?thesis
    by (simp add: keeps_def write_temporary_def temp_call_def Let_def split: option.split)
qed

lemma keeps_recode: "reflp R \<Longrightarrow> transp R \<Longrightarrow> keeps R m \<Longrightarrow> keeps R (recodeP f m)"
  unfolding recodeP_def by (intro keeps_try keeps_raise)

lemma recodeP_Inr: "recodeP f m w = (Inr a, v) \<longleftrightarrow> m w = (Inr a, v)"
  by (auto simp: recodeP_def tryP_eq_Inr)

lemma pureP_eq [simp]: "pureP x w = (r, v) \<longleftrightarrow> x = r \<and> v = w"
  by (auto simp: pureP_def)

section \<open>Writing\<close>

lemma write_temporary_Inr:
  assumes "write_temporary h bs w = (Inr (Some n), v)" "h < length (sg_files w)"
  shows "n \<le> length bs \<and> sg_files v = (sg_files w)[h := (sg_files w ! h)\<lparr>t_content := t_content (sg_files w ! h) @ take n bs\<rparr>]"
  using assms
  by (auto simp: write_temporary_def temp_call_def Let_def set_content_def min_def split: option.splits if_splits)

lemma stage_write_all_only: "keeps (only_content h) (stage_write_all index h bs)"
proof (rule keepsI)
  show "only_content h w v" if "stage_write_all index h bs w = (r, v)" for w r v
    using that
  proof (induction index h bs w arbitrary: r v rule: stage_write_all.induct)
    case (1 index h bs w)
    obtain x u where x: "recodeP (others_as STAGING_ERROR index) (write_temporary h bs) w = (x, u)" by (metis surj_pair)
    have "keeps (only_content h) (recodeP (others_as STAGING_ERROR index) (write_temporary h bs))"
      by (intro keeps_recode only_content_order keeps_write_temporary)
    then have u: "only_content h w u" using keepsD x by metis
    show ?case
    proof (cases "bs = [] \<or> (\<forall>n. x \<noteq> Inr (Some n)) \<or> x = Inr (Some 0)")
      case True
      then show ?thesis using "1.prems" x u reflpD [OF only_content_order(1)]
        by (subst (asm) stage_write_all.simps) (auto split: sum.splits option.splits if_splits)
    next
      case False
      then obtain n where n: "bs \<noteq> []" "x = Inr (Some n)" "n \<noteq> 0" by auto
      then have "stage_write_all index h (drop n bs) u = (r, v)"
        using "1.prems" x by (subst (asm) stage_write_all.simps) simp
      from "1.IH" [OF n(1) x [unfolded n(2), symmetric] refl refl n(3) this] show ?thesis
        using u transpD [OF only_content_order(2)] by blast
    qed
  qed
qed

lemma stage_write_all_Inr:
  "stage_write_all index h bs w = (Inr (), v) \<Longrightarrow> h < length (sg_files w) \<Longrightarrow>
     sg_files v = (sg_files w)[h := (sg_files w ! h)\<lparr>t_content := t_content (sg_files w ! h) @ bs\<rparr>]"
proof (induction index h bs w arbitrary: v rule: stage_write_all.induct)
  case (1 index h bs w)
  show ?case
  proof (cases "bs = []")
    case True
    then show ?thesis using "1.prems" by (subst (asm) stage_write_all.simps) simp
  next
    case False
    then obtain n u where x: "recodeP (others_as STAGING_ERROR index) (write_temporary h bs) w = (Inr (Some n), u)"
      and n: "n \<noteq> 0" and go: "stage_write_all index h (drop n bs) u = (Inr (), v)"
      using "1.prems"(1)
      by (subst (asm) stage_write_all.simps) (auto simp: raise_issue_def split: sum.splits option.splits if_splits prod.splits)
    note s = write_temporary_Inr [OF x [unfolded recodeP_Inr] "1.prems"(2)]
    have "sg_files v = (sg_files u)[h := (sg_files u ! h)\<lparr>t_content := t_content (sg_files u ! h) @ drop n bs\<rparr>]"
      by (rule "1.IH" [OF False x [symmetric] refl refl n go]) (use s "1.prems"(2) in simp)
    then show ?thesis using s "1.prems"(2) by simp
  qed
qed

section \<open>One part\<close>

definition raw_bytes :: "raw_chunk \<Rightarrow> text" where
  "raw_bytes c = (case c of RawBytes b \<Rightarrow> b | RawOther \<Rightarrow> [])"

definition part_bytes :: "upload_part \<Rightarrow> text" where
  "part_bytes p = concat (map raw_bytes (it_items (chunks p)))"

lemma feed_text_counts:
  "feed_text x final chunk st = Inr st' \<Longrightarrow>
     p_count st' = p_count st \<and> p_size st' = p_size st \<and> p_total st' = p_total st \<and> p_digest st' = p_digest st"
  by (auto simp: feed_text_def bindE_eq_Inr split: option.splits)

lemma keeps_stage_chunk: "keeps (only_content h) (stage_chunk x h raw st)"
  unfolding stage_chunk_def Let_def
  by (auto intro!: keeps_bind keeps_pureP keeps_return only_content_order stage_write_all_only split: raw_chunk.split)

lemma keeps_stage_chunks: "keeps (only_content h) (stage_chunks x h ending raws st)"
  by (induction x h ending raws st rule: stage_chunks.induct)
    (auto intro!: keeps_bind keeps_return keeps_raise only_content_order keeps_stage_chunk split: option.split)

lemma stage_chunk_Inr:
  assumes "stage_chunk x h raw st w = (Inr st', v)" "h < length (sg_files w)"
  shows "raw = RawBytes (raw_bytes raw) \<and> p_count st' = p_count st + 1 \<and> p_count st' \<le> max_chunks_per_file (x_limits x)
    \<and> p_size st' = p_size st + int (length (raw_bytes raw)) \<and> p_size st' \<le> max_file_bytes (x_limits x)
    \<and> p_total st' = p_total st + int (length (raw_bytes raw)) \<and> p_total st' \<le> max_total_bytes (x_limits x)
    \<and> p_digest st' = p_digest st @ raw_bytes raw
    \<and> sg_files v = (sg_files w)[h := (sg_files w ! h)\<lparr>t_content := t_content (sg_files w ! h) @ raw_bytes raw\<rparr>]"
proof (cases raw)
  case (RawBytes chunk)
  from assms(1) obtain st1 where
    l: "p_count st + 1 \<le> max_chunks_per_file (x_limits x)" "p_size st + int (length chunk) \<le> max_file_bytes (x_limits x)"
      "p_total st + int (length chunk) \<le> max_total_bytes (x_limits x)"
    and f: "feed_text x False chunk st = Inr st1" and wr: "stage_write_all (x_index x) h chunk w = (Inr (), v)"
    and st': "st' = st1\<lparr>p_count := p_count st + 1, p_size := p_size st + int (length chunk),
      p_total := p_total st + int (length chunk), p_digest := p_digest st1 @ chunk\<rparr>"
    by (auto simp: stage_chunk_def Let_def RawBytes raise_issue_def bindP_eq_Inr split: if_splits)
  show ?thesis
    using l st' feed_text_counts [OF f] stage_write_all_Inr [OF wr assms(2)] by (simp add: RawBytes raw_bytes_def)
next
  case RawOther
  then show ?thesis using assms(1) by (auto simp: stage_chunk_def Let_def raise_issue_def split: if_splits)
qed

lemma stage_chunks_Inr:
  assumes "stage_chunks x h ending raws st w = (Inr st', v)" "h < length (sg_files w)"
  shows "ending = None \<and> (\<forall>c \<in> set raws. c = RawBytes (raw_bytes c))
    \<and> p_count st' = p_count st + int (length raws)
    \<and> p_size st' = p_size st + int (length (concat (map raw_bytes raws)))
    \<and> p_total st' = p_total st + int (length (concat (map raw_bytes raws)))
    \<and> p_digest st' = p_digest st @ concat (map raw_bytes raws)
    \<and> (raws \<noteq> [] \<longrightarrow> p_count st' \<le> max_chunks_per_file (x_limits x) \<and> p_size st' \<le> max_file_bytes (x_limits x)
        \<and> p_total st' \<le> max_total_bytes (x_limits x))
    \<and> sg_files v = (sg_files w)[h := (sg_files w ! h)\<lparr>t_content :=
        t_content (sg_files w ! h) @ concat (map raw_bytes raws)\<rparr>]"
  using assms
proof (induction raws arbitrary: st w)
  case Nil
  then show ?case by (auto split: option.splits)
next
  case (Cons raw raws)
  then obtain st1 u where c: "stage_chunk x h raw st w = (Inr st1, u)"
    and go: "stage_chunks x h ending raws st1 u = (Inr st', v)" by (auto simp: bindP_eq_Inr)
  note 1 = stage_chunk_Inr [OF c Cons.prems(2)]
  have "h < length (sg_files u)" using 1 Cons.prems(2) by simp
  note 2 = Cons.IH [OF go this]
  show ?case
    using 1 2 Cons.prems(2) by (cases raws) (simp_all add: algebra_simps)
qed

lemma keeps_finish_part: "keeps same_files (finish_part x h entry st)"
  unfolding finish_part_def validate_csv_def validate_binary_signature_def
  by (auto intro!: keeps_bind keeps_recode keeps_pureP keeps_return keeps_raise same_files_order keeps_same
      split: option.split)

lemma keeps_stage_body: "keeps (only_content h) (stage_body x entry h so_far)"
  unfolding stage_body_def Let_def
  by (auto intro!: keeps_bind keeps_pureP keeps_return keeps_raise only_content_order keeps_stage_chunks
      keeps_weaken [OF keeps_finish_part same_only] keeps_weaken [OF keeps_same(1) same_only] split: option.split)

text \<open>What a staged file says about its part and its temporary file.\<close>

definition staged_ok :: "'p upload_env \<Rightarrow> upload_limits \<Rightarrow> upload_part \<Rightarrow> staged_file \<Rightarrow> temp_file \<Rightarrow> bool" where
  "staged_ok env limits p f t \<longleftrightarrow>
     \<not> t_closed t \<and> t_content t = part_bytes p \<and> s_size f = int (length (part_bytes p)) \<and>
     1 \<le> s_size f \<and> s_size f \<le> max_file_bytes limits \<and> s_sha256 f = ue_sha256 env (part_bytes p) \<and>
     int (length (it_items (chunks p))) \<le> max_chunks_per_file limits \<and>
     it_open (chunks p) = None \<and> it_end (chunks p) = None \<and>
     (\<forall>c \<in> set (it_items (chunks p)). c = RawBytes (raw_bytes c))"

lemma stage_body_Inr:
  assumes run: "stage_body x entry h so_far w = (Inr (f, so_far', refs), v)"
    and h: "h < length (sg_files w)" "sg_files w ! h = \<lparr>t_content = [], t_closed = False\<rparr>"
  shows "staged_ok (x_env x) (x_limits x) (e_part entry) f (sg_files v ! h) \<and> s_handle f = h \<and>
    s_kind f = e_kind entry \<and> s_name f = e_name entry \<and> s_media_type f = e_media_type entry \<and>
    so_far' = so_far + s_size f \<and> so_far' \<le> max_total_bytes (x_limits x) \<and>
    (\<exists>t. sg_files v = (sg_files w)[h := t])"
proof -
  let ?src = "chunks (e_part entry)"
  from run obtain st st1 u1 u2 u3 u4 where o: "it_open ?src = None"
    and c: "stage_chunks x h (it_end ?src) (it_items ?src) (part_start (x_env x) (e_kind entry) so_far) w = (Inr st, u1)"
    and f: "feed_text x True [] st = Inr st1" and ne: "p_size st1 \<noteq> 0"
    and fin: "finish_part x h entry st1 u1 = (Inr refs, u2)"
    and t: "touch_temporary u2 = (Inr (), u3)" "touch_temporary u3 = (Inr (), v)"
    and fl: "f = \<lparr>s_kind = e_kind entry, s_name = e_name entry, s_size = p_size st1,
        s_sha256 = ue_sha256 (x_env x) (p_digest st1), s_handle = h, s_media_type = e_media_type entry\<rparr>"
      "so_far' = p_total st1"
    by (auto simp: stage_body_def Let_def bindP_eq_Inr raise_issue_def split: option.splits if_splits)
  have "sg_files v = sg_files u1"
    using keepsD [OF keeps_finish_part fin] keepsD [OF keeps_same(1) t(1)] keepsD [OF keeps_same(1) t(2)]
    by (simp add: same_files_def)
  moreover note s = stage_chunks_Inr [OF c h(1), folded part_bytes_def]
  moreover note feed_text_counts [OF f]
  moreover have "it_items ?src \<noteq> []"
  proof
    assume "it_items ?src = []"
    then show False using s ne feed_text_counts [OF f] by (simp add: part_start_def part_bytes_def)
  qed
  moreover have "1 \<le> int (length (part_bytes (e_part entry)))"
  proof -
    have "p_size st1 = int (length (part_bytes (e_part entry)))"
      using s feed_text_counts [OF f] by (simp add: part_start_def)
    then show ?thesis using ne by linarith
  qed
  ultimately show ?thesis using o fl h
    by (simp add: staged_ok_def part_start_def) blast
qed

lemma open_temporary_Inr:
  "open_temporary w = (Inr h, u) \<Longrightarrow> h = length (sg_files w) \<and>
     sg_files u = sg_files w @ [\<lparr>t_content = [], t_closed = False\<rparr>]"
  by (auto simp: open_temporary_def temp_call_def Let_def split: option.splits)

lemma open_temporary_Inl: "open_temporary w = (Inl e, u) \<Longrightarrow> sg_files u = sg_files w"
  by (auto simp: open_temporary_def temp_call_def Let_def split: option.splits)

lemma stage_entry_Inr:
  assumes run: "stage_entry env limits kinds entry so_far w = (Inr (f, so_far', refs), v)"
  shows "\<exists>t. sg_files v = sg_files w @ [t] \<and> staged_ok env limits (e_part entry) f t \<and>
    s_handle f = length (sg_files w) \<and> s_kind f = e_kind entry \<and> s_name f = e_name entry \<and>
    s_media_type f = e_media_type entry \<and> so_far' = so_far + s_size f \<and> so_far' \<le> max_total_bytes limits"
proof -
  let ?x = "\<lparr>x_env = env, x_kinds = kinds, x_limits = limits, x_index = e_index entry\<rparr>"
  from run obtain h u where o: "open_temporary w = (Inr h, u)"
    and b: "stage_body ?x entry h so_far u = (Inr (f, so_far', refs), v)"
    by (auto simp: stage_entry_def Let_def bindP_eq_Inr recodeP_Inr tryP_eq_Inr)
  note o = open_temporary_Inr [OF o]
  have h: "h < length (sg_files u)" "sg_files u ! h = \<lparr>t_content = [], t_closed = False\<rparr>" using o by simp_all
  note s = stage_body_Inr [OF b h]
  then obtain t where t: "sg_files v = (sg_files u)[h := t]" by blast
  have "sg_files v ! h = t" "sg_files v = sg_files w @ [t]" using t o h by simp_all
  then show ?thesis using s o by simp
qed

text \<open>A refused part leaves its file closed, if it got one.\<close>

lemma stage_entry_Inl:
  assumes run: "stage_entry env limits kinds entry so_far w = (Inl e, v)"
  shows "\<exists>ts. sg_files v = sg_files w @ ts \<and> (\<forall>t \<in> set ts. t_closed t) \<and> e \<noteq> OtherException"
proof -
  let ?x = "\<lparr>x_env = env, x_kinds = kinds, x_limits = limits, x_index = e_index entry\<rparr>"
  from run consider
      e' where "open_temporary w = (Inl e', v)" "e = (if e' = BaseException then e' else issue STAGING_ERROR (Some (e_index entry)) None)"
    | h u e' u2 where "open_temporary w = (Inr h, u)" "stage_body ?x entry h so_far u = (Inl e', u2)"
      "sg_files v = (sg_files u2)[h := (sg_files u2 ! h)\<lparr>t_closed := True\<rparr>]" "e = others_as STREAM_ERROR (e_index entry) e'"
    by (auto simp: stage_entry_def Let_def bindP_eq_Inl recodeP_def tryP_eq_Inl tryP_eq_Inr close_one_safely_def)
  then show ?thesis
  proof cases
    case 1
    then show ?thesis by (auto simp: open_temporary_Inl issue_def)
  next
    case 2
    note o = open_temporary_Inr [OF 2(1)]
    obtain c where c: "sg_files u2 = (sg_files u)[h := (sg_files u ! h)\<lparr>t_content := c\<rparr>]"
      using keepsD [OF keeps_stage_body 2(2)] by (auto simp: only_content_def)
    then show ?thesis using o c 2(3,4) by (auto simp: others_as_def issue_def)
  qed
qed

section \<open>The whole upload\<close>

lemma close_staged_safely_Inr: "fst (close_staged_safely staged w) = Inr ()"
  by (induction staged arbitrary: w) (simp_all add: returnP_def bindP_def close_one_safely_def)

lemma close_staged_safely_run:
  assumes "close_staged_safely staged w = (Inr (), v)" "\<forall>f \<in> set staged. s_handle f < length (sg_files w)"
  shows "length (sg_files v) = length (sg_files w) \<and>
    (\<forall>k < length (sg_files w). sg_files v ! k =
       (if k \<in> s_handle ` set staged then (sg_files w ! k)\<lparr>t_closed := True\<rparr> else sg_files w ! k))"
  using assms
proof (induction staged arbitrary: w)
  case (Cons f staged)
  let ?u = "w\<lparr>sg_files := (sg_files w)[s_handle f := (sg_files w ! s_handle f)\<lparr>t_closed := True\<rparr>]\<rparr>"
  have "close_staged_safely staged ?u = (Inr (), v)" using Cons.prems(1) by (simp add: close_one_safely_def bindP_def)
  from Cons.IH [OF this] Cons.prems(2) show ?case by (auto simp: nth_list_update)
qed simp

text \<open>The files staged so far are the last ones of the world, in their order.\<close>

definition staged_at :: "nat \<Rightarrow> staged_file list \<Rightarrow> staging \<Rightarrow> bool" where
  "staged_at base fs w \<longleftrightarrow> length (sg_files w) = base + length fs \<and> map s_handle fs = [base..<base + length fs]"

lemma staged_at_snoc:
  "staged_at base fs w \<Longrightarrow> sg_files v = sg_files w @ [t] \<Longrightarrow> s_handle f = length (sg_files w) \<Longrightarrow> staged_at base (fs @ [f]) v"
  by (simp add: staged_at_def)

lemma stage_entries_Inl:
  assumes "stage_entries env limits kinds entries staged so_far refs w = (Inl e, v)" "staged_at base staged w"
  shows "length (sg_files v) \<ge> base \<and> take base (sg_files v) = take base (sg_files w) \<and>
    (\<forall>t \<in> set (drop base (sg_files v)). t_closed t) \<and> e \<noteq> OtherException"
  using assms
proof (induction entries arbitrary: staged so_far refs w)
  case (Cons entry entries)
  from Cons.prems(1) consider
      u where "stage_entry env limits kinds entry so_far w = (Inl e, u)" "close_staged_safely staged u = (Inr (), v)"
    | f n rs u where "stage_entry env limits kinds entry so_far w = (Inr (f, n, rs), u)"
      "stage_entries env limits kinds entries (staged @ [f]) n (refs \<union> rs) u = (Inl e, v)"
    using close_staged_safely_Inr [of staged]
    by (auto simp: bindP_eq_Inl bindP_eq_Inr tryP_eq_Inl tryP_eq_Inr) (metis fst_conv sum.distinct(1))+
  then show ?case
  proof cases
    case 1
    obtain ts where ts: "sg_files u = sg_files w @ ts" "\<forall>t \<in> set ts. t_closed t" "e \<noteq> OtherException"
      using stage_entry_Inl [OF 1(1)] by blast
    have len: "length (sg_files w) = base + length staged" and hs: "s_handle ` set staged = {base..<base + length staged}"
      using Cons.prems(2) by (auto simp: staged_at_def set_map [symmetric])
    have "\<forall>f \<in> set staged. s_handle f < length (sg_files u)"
    proof
      fix f assume "f \<in> set staged"
      then have "s_handle f \<in> {base..<base + length staged}" unfolding hs [symmetric] by simp
      then show "s_handle f < length (sg_files u)" using len ts(1) by simp
    qed
    note c = close_staged_safely_run [OF 1(2) this]
    have lv: "length (sg_files v) = base + length staged + length ts" using c len ts(1) by simp
    have nth: "sg_files v ! k = (if base \<le> k \<and> k < base + length staged then (sg_files u ! k)\<lparr>t_closed := True\<rparr>
        else sg_files u ! k)" if "k < length (sg_files v)" for k
      using c that hs by simp
    have "take base (sg_files v) = take base (sg_files w)"
      by (rule nth_equalityI) (use lv len nth ts(1) in \<open>simp_all add: nth_append\<close>)
    moreover have "t_closed t" if t: "t \<in> set (drop base (sg_files v))" for t
    proof -
      obtain i where i: "i < length (drop base (sg_files v))" "t = drop base (sg_files v) ! i"
        using t by (auto simp: in_set_conv_nth)
      then have k: "base + i < length (sg_files v)" "t = sg_files v ! (base + i)" by simp_all
      show ?thesis
      proof (cases "i < length staged")
        case True
        then show ?thesis using k nth [OF k(1)] by simp
      next
        case False
        then have "sg_files u ! (base + i) \<in> set ts" using k(1) lv len ts(1) by (simp add: nth_append)
        then show ?thesis using k nth [OF k(1)] ts(2) by auto
      qed
    qed
    ultimately show ?thesis using lv ts(3) by simp
  next
    case 2
    obtain t where "sg_files u = sg_files w @ [t]" "s_handle f = length (sg_files w)"
      using stage_entry_Inr [OF 2(1)] by blast
    moreover from this have "staged_at base (staged @ [f]) u" by (intro staged_at_snoc [OF Cons.prems(2)])
    moreover have "length (sg_files w) \<ge> base" using Cons.prems(2) by (simp add: staged_at_def)
    ultimately show ?thesis using Cons.IH [OF 2(2)] by simp
  qed
qed simp

lemma stage_entries_Inr:
  assumes "stage_entries env limits kinds entries staged so_far refs w = (Inr up, v)"
    and "staged_at base staged w" "so_far = sum_list (map s_size staged)"
    and "list_all2 (\<lambda>e f. staged_ok env limits (e_part e) f (sg_files w ! s_handle f) \<and>
        s_kind f = e_kind e \<and> s_name f = e_name e \<and> s_media_type f = e_media_type e) before staged"
  shows "staged_at base (su_files up) v \<and> su_total_size up = sum_list (map s_size (su_files up)) \<and>
    (entries \<noteq> [] \<longrightarrow> su_total_size up \<le> max_total_bytes limits) \<and>
    take base (sg_files v) = take base (sg_files w) \<and>
    list_all2 (\<lambda>e f. staged_ok env limits (e_part e) f (sg_files v ! s_handle f) \<and>
        s_kind f = e_kind e \<and> s_name f = e_name e \<and> s_media_type f = e_media_type e) (before @ entries) (su_files up)"
  using assms
proof (induction entries arbitrary: staged so_far refs w before)
  case (Cons entry entries)
  from Cons.prems(1) obtain f n rs u where
    f: "stage_entry env limits kinds entry so_far w = (Inr (f, n, rs), u)"
    and go: "stage_entries env limits kinds entries (staged @ [f]) n (refs \<union> rs) u = (Inr up, v)"
    by (auto simp: bindP_eq_Inr tryP_eq_Inr)
  obtain t where t: "sg_files u = sg_files w @ [t]" "staged_ok env limits (e_part entry) f t"
    "s_handle f = length (sg_files w)" "s_kind f = e_kind entry" "s_name f = e_name entry"
    "s_media_type f = e_media_type entry" "n = so_far + s_size f" "n \<le> max_total_bytes limits"
    using stage_entry_Inr [OF f] by blast
  have at: "staged_at base (staged @ [f]) u" by (rule staged_at_snoc [OF Cons.prems(2) t(1,3)])
  have "sg_files u ! s_handle g = sg_files w ! s_handle g" if "g \<in> set staged" for g
  proof -
    have "s_handle g \<in> set (map s_handle staged)" using that by simp
    then have "s_handle g < length (sg_files w)" using Cons.prems(2) unfolding staged_at_def by simp
    then show ?thesis by (simp add: t(1) nth_append)
  qed
  then have "list_all2 (\<lambda>e f. staged_ok env limits (e_part e) f (sg_files u ! s_handle f) \<and>
      s_kind f = e_kind e \<and> s_name f = e_name e \<and> s_media_type f = e_media_type e) before staged"
    using Cons.prems(4) by (auto elim!: list.rel_mono_strong)
  then have rel: "list_all2 (\<lambda>e f. staged_ok env limits (e_part e) f (sg_files u ! s_handle f) \<and>
      s_kind f = e_kind e \<and> s_name f = e_name e \<and> s_media_type f = e_media_type e) (before @ [entry]) (staged @ [f])"
    using t by (auto intro!: list_all2_appendI)
  have sum: "n = sum_list (map s_size (staged @ [f]))" using t(7) Cons.prems(3) by simp
  have "take base (sg_files u) = take base (sg_files w)" using Cons.prems(2) by (simp add: t(1) staged_at_def)
  then show ?case using Cons.IH [OF go at sum rel] t(8) go sum by (cases entries) auto
qed simp

lemma staged_at_start: "staged_at (length (sg_files w)) [] w"
  by (simp add: staged_at_def)

end
