(* ===== verification/Upload_Samples.thy ===== *)
theory Upload_Samples
  imports Upload_Files
begin

text \<open>
  A sample upload on a disk without faults: an empty document, read by a tokeniser that knows it. The
  properties of uploads are applied to it.
\<close>

section \<open>A disk without faults\<close>

text \<open>Every write takes at least one byte.\<close>

definition sound_disk :: "staging \<Rightarrow> bool" where
  "sound_disk w \<longleftrightarrow> (\<forall>k. sg_faults w k = None) \<and> (\<forall>k. \<exists>n > 0. sg_amounts w k = Some n)"

lemma sound_open: "sound_disk w \<Longrightarrow> \<exists>h v. open_temporary w = (Inr h, v) \<and> sound_disk v"
  by (simp add: open_temporary_def temp_call_def Let_def sound_disk_def)

lemma sound_touch: "sound_disk w \<Longrightarrow> \<exists>v. touch_temporary w = (Inr (), v) \<and> sound_disk v"
  by (simp add: touch_temporary_def temp_call_def Let_def sound_disk_def)

lemma sound_write: "sound_disk w \<Longrightarrow> \<exists>v. stage_write_all index h bs w = (Inr (), v) \<and> sound_disk v"
proof (induction index h bs w rule: stage_write_all.induct)
  case (1 index h bs w)
  show ?case
  proof (cases "bs = []")
    case True
    then show ?thesis using "1.prems" by (subst stage_write_all.simps) simp
  next
    case False
    obtain n where n: "n > 0" "sg_amounts w (Suc (sg_calls w)) = Some n" using "1.prems" by (auto simp: sound_disk_def)
    then obtain u where u: "recodeP (others_as STAGING_ERROR index) (write_temporary h bs) w = (Inr (Some (min n (length bs))), u)"
      "sound_disk u"
      using "1.prems" by (auto simp: recodeP_Inr write_temporary_def temp_call_def Let_def sound_disk_def set_content_def)
    define m where "m = min n (length bs)"
    have pos: "m \<noteq> 0" using n False by (simp add: m_def)
    from "1.IH" [OF False u(1) [folded m_def, symmetric] refl refl pos u(2)] show ?thesis
      using u(1) [folded m_def] pos False by (subst stage_write_all.simps) simp
  qed
qed

lemma utf8_decode_ascii: "\<forall>c \<in> set bs. c < 128 \<Longrightarrow> utf8_decode final bs = Some (bs, [])"
  by (induction final bs rule: utf8_decode.induct)
    (simp_all add: sequence_length_def sequence_ok_def sequence_value_def)

definition sample_upload_env :: "unit upload_env" where
  "sample_upload_env = \<lparr>ue_unicode = ascii_unicode, ue_bracketed_ok = (\<lambda>n. True), ue_lower = map ascii_lower, ue_alnum = alnum_ci,
     ue_sha256 = (\<lambda>bs. replicate 64 97), ue_parser = (),
     ue_feed = (\<lambda>p t. (if t = [] then [] else [StartTag (cps ''html'') [], EndTag (cps ''html'')], Some ())),
     ue_close = (\<lambda>p. ([], Some ())), ue_rawdata = (\<lambda>p. [])\<rparr>"

definition sample_document :: "raw_part iterable" where
  "sample_document = \<lparr>it_open = None, it_items = [sample_part ''a.html'' ''<html></html>''], it_end = None\<rparr>"

definition sample_disk :: staging where
  "sample_disk = \<lparr>sg_calls = 0, sg_faults = (\<lambda>k. None), sg_amounts = (\<lambda>k. Some 5), sg_files = []\<rparr>"

lemma sample_document_manifest:
  "build_manifest ascii_unicode default_limits sample_document = Inr [hd sample_entries]"
  by (simp add: build_manifest_def sample_document_def sample_part_def default_limits_def coerce_part_def sample_names
      sample_kinds validate_declared_media_type_def finish_manifest_def sample_entries_def)

definition sample_context :: "unit html_context" where
  "sample_context = \<lparr>x_env = sample_upload_env, x_kinds = [cps ''a.html'' \<mapsto> HTML], x_limits = default_limits, x_index = 0\<rparr>"

lemma sample_html_feed:
  "html_feed sample_context (cps ''<html></html>'') (html_start sample_upload_env) =
      Inr ((html_start sample_upload_env)\<lparr>h_root_seen := True, h_root_closed := True,
         h_token_count := 2, h_markup_tail := cps ''tml>''\<rparr>)"
proof -
  have c: "comment_state False (cps ''<html></html>'') = False"
    by (subst comment_state.simps) (simp add: starts_with_def cps_def)
  have n: "cps ''html'' \<noteq> []" "cps ''html'' \<noteq> cps ''form''" "cps ''html'' \<noteq> cps ''head''" "cps ''html'' \<noteq> cps ''body''"
    "cps ''html'' \<noteq> cps ''link''" "cps ''html'' \<notin> set html_forbidden_elements" "cps ''html'' \<notin> set html_void_elements"
    "fold_text sample_upload_env (cps ''html'') = cps ''html''" "cps ''<html></html>'' \<noteq> []"
    by (simp_all add: cps_def html_forbidden_elements_def html_void_elements_def fold_text_def sample_upload_env_def
        ascii_unicode_def)
  have start: "start_tag sample_context (cps ''html'') [] False st =
      Inr (st\<lparr>h_token_count := 1, h_root_seen := True, h_stack := [cps ''html'']\<rparr>)"
    if "h_stack st = []" "\<not> h_root_seen st" "\<not> h_root_closed st" "h_token_count st = 0" for st
    using that n by (simp add: start_tag_def count_token_def sample_context_def default_limits_def Let_def
        check_placement_def validate_attributes_def)
  have stop: "end_tag sample_context (cps ''html'') st =
      Inr (st\<lparr>h_token_count := h_token_count st + 1, h_stack := [], h_root_closed := True\<rparr>)"
    if "h_stack st = [cps ''html'']" "h_token_count st < 100" for st
    using that n by (simp add: end_tag_def count_token_def sample_context_def default_limits_def Let_def)
  have t: "last_chars 4 (cps ''<html></html>'') = cps ''tml>''" by (simp add: last_chars_def cps_def)
  show ?thesis
    using n(9) start stop c t
    by (simp add: html_feed_def run_parser_def track_unterminated_comment_def handle_event_def Let_def
        sample_context_def [THEN arg_cong, of x_env] html_start_def sample_upload_env_def)
qed

lemma sample_feed:
  "feed_text sample_context False (cps ''<html></html>'') (part_start sample_upload_env HTML 0) =
     Inr ((part_start sample_upload_env HTML 0)\<lparr>p_decoder := Some \<lparr>d_buffer = [], d_first = False\<rparr>,
       p_html := Some ((html_start sample_upload_env)\<lparr>h_root_seen := True, h_root_closed := True,
         h_token_count := 2, h_markup_tail := cps ''tml>''\<rparr>)\<rparr>)"
proof -
  have a: "\<forall>c \<in> set (cps ''<html></html>''). c < 128" by (simp add: cps_def)
  have d: "decode_step False (cps ''<html></html>'') decoder_start =
      Some (cps ''<html></html>'', \<lparr>d_buffer = [], d_first = False\<rparr>)"
    using utf8_decode_ascii [OF a, of False]
    by (simp add: decode_step_def decoder_start_def byte_order_mark_def cps_def Let_def)
  have v: "validate_decoded_text (cps ''<html></html>'') 0 = Inr ()"
    by (simp add: validate_decoded_text_def cps_def)
  have x: "x_index sample_context = 0" "HTML \<in> set text_kinds" by (simp_all add: sample_context_def text_kinds_def)
  show ?thesis
    by (simp add: feed_text_def part_start_def decode_chunk_def x d v sample_html_feed)
qed

lemma sample_feed_end:
  assumes "p_decoder st = Some \<lparr>d_buffer = [], d_first = False\<rparr>" "p_css st = None" "p_html st = Some h"
    "\<not> h_comment_open h" "h_markup_tail h = cps ''tml>''"
  shows "feed_text sample_context True [] st = Inr (st\<lparr>p_html := Some h\<rparr>)"
proof -
  have c: "comment_state False (cps ''tml>'') = False" "last_chars 4 (cps ''tml>'') = cps ''tml>''"
    by (subst comment_state.simps, simp_all add: starts_with_def cps_def last_chars_def)
  have "html_feed sample_context [] h = Inr h"
    using assms(4,5) c
    by (simp add: html_feed_def run_parser_def track_unterminated_comment_def sample_context_def sample_upload_env_def)
  then show ?thesis using assms
    by (simp add: feed_text_def decode_chunk_def decode_step_def validate_decoded_text_def)
qed

lemma sample_finish:
  "h_root_seen h \<Longrightarrow> h_root_closed h \<Longrightarrow> h_stack h = [] \<Longrightarrow> \<not> h_comment_open h \<Longrightarrow> h_css h = css_start \<Longrightarrow>
     html_finish sample_context h = Inr (h_references h)"
  by (simp add: html_finish_def html_close_def run_parser_def sample_context_def sample_upload_env_def css_finish_def
      css_start_def css_inspect_def decode_css_escapes.simps re_search_def re_finditer_def scan.simps css_import_def
      external_url_token_def css_url_def match_here_def lit_def word_ci_def lit_ci_def spaces_def is_in_def
      first_char_def cps_def)

lemma sample_staged_sound:
  "\<exists>up v. stage_upload sample_upload_env default_limits sample_document sample_disk = (Inr up, v) \<and> sound_disk v"
proof -
  let ?e = "hd sample_entries"
  have e: "e_part ?e = \<lparr>filename = NameText (cps ''a.html''), chunks = \<lparr>it_open = None,
      it_items = [RawBytes (cps ''<html></html>'')], it_end = None\<rparr>, media_type = None\<rparr>" "e_index ?e = 0"
    "e_kind ?e = HTML" "comparison_key (e_name ?e) = cps ''a.html''"
    by (simp_all add: sample_entries_def sample_part_def)
  define st where "st = (part_start sample_upload_env HTML 0)\<lparr>p_decoder := Some \<lparr>d_buffer = [], d_first = False\<rparr>,
       p_html := Some ((html_start sample_upload_env)\<lparr>h_root_seen := True, h_root_closed := True,
         h_token_count := 2, h_markup_tail := cps ''tml>''\<rparr>)\<rparr>"
  have w0: "sound_disk sample_disk" by (simp add: sound_disk_def sample_disk_def)
  then obtain h w1 where w1: "open_temporary sample_disk = (Inr h, w1)" "sound_disk w1" using sound_open by blast
  obtain w2 where w2: "stage_write_all 0 h (cps ''<html></html>'') w1 = (Inr (), w2)" "sound_disk w2"
    using sound_write [OF w1(2)] by blast
  obtain w3 where w3: "touch_temporary w2 = (Inr (), w3)" "sound_disk w3" using sound_touch [OF w2(2)] by blast
  obtain w4 where w4: "touch_temporary w3 = (Inr (), w4)" "sound_disk w4" using sound_touch [OF w3(2)] by blast
  let ?st = "st\<lparr>p_count := 1, p_size := 13, p_total := 13, p_digest := cps ''<html></html>''\<rparr>"
  have l: "length (cps ''<html></html>'') = 13" by (simp add: cps_def)
  have chunk: "stage_chunk sample_context h (RawBytes (cps ''<html></html>'')) (part_start sample_upload_env HTML 0) w1 =
      (Inr ?st, w2)"
    using sample_feed w2(1) l
    by (simp add: stage_chunk_def Let_def sample_context_def default_limits_def part_start_def bindP_def pureP_def
        returnP_def st_def)
  obtain hh where hh: "p_html st = Some hh" "\<not> h_comment_open hh" "h_markup_tail hh = cps ''tml>''" "h_root_seen hh"
    "h_root_closed hh" "h_stack hh = []" "h_css hh = css_start" "p_css st = None"
    "p_decoder st = Some \<lparr>d_buffer = [], d_first = False\<rparr>"
    by (simp add: st_def html_start_def part_start_def)
  have fin: "feed_text sample_context True [] ?st = Inr ?st"
    using sample_feed_end [of ?st hh] hh by (simp add: st_def)
  have clean: "html_finish sample_context hh = Inr (h_references hh)" using hh by (intro sample_finish)
  have body: "\<exists>f. stage_body sample_context ?e h 0 w1 = (Inr (f, 13, h_references hh), w4)"
    using chunk fin clean hh(1) w3 w4
    by (simp add: stage_body_def e Let_def bindP_def pureP_def returnP_def finish_part_def sample_context_def)
  have "\<exists>f. stage_entry sample_upload_env default_limits [cps ''a.html'' \<mapsto> HTML] ?e 0 sample_disk =
      (Inr (f, 13, h_references hh), w4)"
    using body w1(1)
    by (simp add: stage_entry_def Let_def bindP_eq_Inr recodeP_Inr tryP_eq_Inr e(2) sample_context_def)
  then show ?thesis using w4(2)
    by (simp add: stage_upload_def Let_def bindP_def pureP_def tryP_def returnP_def e
        sample_upload_env_def [THEN arg_cong, of ue_unicode] sample_document_manifest) auto
qed

lemma sample_staged: "\<exists>up v. stage_upload sample_upload_env default_limits sample_document sample_disk = (Inr up, v)"
  using sample_staged_sound by blast

end
