(* ===== verification/Upload_Facts.thy ===== *)
theory Upload_Facts
  imports Upload_Samples
begin

text \<open>
  The guarantees of staging: what an accepted upload holds and what a refused one leaves.
\<close>

section \<open>Properties\<close>

text \<open>
  C29: An accepted upload holds, for every part in order, an open temporary file with exactly the bytes
  of the part, its size and digest; every file has between one byte and the file limit, the total is
  their sum and within the total limit, and files of others are untouched.
\<close>

theorem staged_bytes_within_limits:
  assumes "stage_upload env limits parts w = (Inr up, v)"
  shows "length (su_files up) = length (it_items parts) \<and> int (length (su_files up)) \<le> max_files limits
    \<and> su_total_size up = sum_list (map s_size (su_files up)) \<and> su_total_size up \<le> max_total_bytes limits
    \<and> take (length (sg_files w)) (sg_files v) = sg_files w
    \<and> length (sg_files v) = length (sg_files w) + length (su_files up)
    \<and> (\<forall>i < length (su_files up). \<exists>p. it_items parts ! i = Part p
        \<and> s_handle (su_files up ! i) = length (sg_files w) + i
        \<and> sg_files v ! (length (sg_files w) + i) = \<lparr>t_content = part_bytes p, t_closed = False\<rparr>
        \<and> s_size (su_files up ! i) = int (length (part_bytes p))
        \<and> 1 \<le> s_size (su_files up ! i) \<and> s_size (su_files up ! i) \<le> max_file_bytes limits
        \<and> s_sha256 (su_files up ! i) = ue_sha256 env (part_bytes p))"
proof -
  from assms obtain m kinds where m: "build_manifest (ue_unicode env) limits parts = Inr m"
    and s: "stage_entries env limits kinds m [] 0 {} w = (Inr up, v)"
    by (auto simp: stage_upload_def bindP_eq_Inr Let_def)
  note b = build_manifest_Inr [OF m]
  have ne: "m \<noteq> []" using b by (auto simp: html_count_of_def)
  have "staged_at (length (sg_files w)) (su_files up) v \<and> su_total_size up = sum_list (map s_size (su_files up)) \<and>
    (m \<noteq> [] \<longrightarrow> su_total_size up \<le> max_total_bytes limits) \<and>
    take (length (sg_files w)) (sg_files v) = take (length (sg_files w)) (sg_files w) \<and>
    list_all2 (\<lambda>e f. staged_ok env limits (e_part e) f (sg_files v ! s_handle f) \<and>
        s_kind f = e_kind e \<and> s_name f = e_name e \<and> s_media_type f = e_media_type e) ([] @ m) (su_files up)"
    by (rule stage_entries_Inr [OF s staged_at_start]) simp_all
  then have at: "staged_at (length (sg_files w)) (su_files up) v"
    and rel: "list_all2 (\<lambda>e f. staged_ok env limits (e_part e) f (sg_files v ! s_handle f)) m (su_files up)"
    and totals: "su_total_size up = sum_list (map s_size (su_files up))" "su_total_size up \<le> max_total_bytes limits"
      "take (length (sg_files w)) (sg_files v) = sg_files w"
    using ne by (auto elim: list.rel_mono_strong)
  have items: "list_all2 (entry_of (ue_unicode env)) (it_items parts) m" "int (length m) \<le> max_files limits"
    using b by blast+
  have len: "length (su_files up) = length m" "length m = length (it_items parts)"
    using list_all2_lengthD [OF rel] list_all2_lengthD [OF items(1)] by simp_all
  have "\<exists>p. it_items parts ! i = Part p
        \<and> s_handle (su_files up ! i) = length (sg_files w) + i
        \<and> sg_files v ! (length (sg_files w) + i) = \<lparr>t_content = part_bytes p, t_closed = False\<rparr>
        \<and> s_size (su_files up ! i) = int (length (part_bytes p))
        \<and> 1 \<le> s_size (su_files up ! i) \<and> s_size (su_files up ! i) \<le> max_file_bytes limits
        \<and> s_sha256 (su_files up ! i) = ue_sha256 env (part_bytes p)" if i: "i < length (su_files up)" for i
  proof -
    have "map s_handle (su_files up) ! i = length (sg_files w) + i" using at i by (simp add: staged_at_def)
    then have h: "s_handle (su_files up ! i) = length (sg_files w) + i" using i by simp
    have "staged_ok env limits (e_part (m ! i)) (su_files up ! i) (sg_files v ! (length (sg_files w) + i))"
      using rel i len by (simp add: list_all2_conv_all_nth h [symmetric])
    moreover have "it_items parts ! i = Part (e_part (m ! i))"
      using items(1) i len by (simp add: list_all2_conv_all_nth entry_of_def)
    moreover have "t = \<lparr>t_content = t_content t, t_closed = t_closed t\<rparr>" for t by (cases t) simp
    ultimately show ?thesis using h unfolding staged_ok_def by (metis (full_types))
  qed
  then show ?thesis using totals len items(2) at by (simp add: staged_at_def)
qed

lemma staged_bytes_within_limits_witness:
  "\<exists>up v f. stage_upload sample_upload_env default_limits sample_document sample_disk = (Inr up, v) \<and>
     su_files up = [f] \<and> s_size f = 13 \<and> sg_files v = [\<lparr>t_content = cps ''<html></html>'', t_closed = False\<rparr>]"
proof -
  obtain up v where u: "stage_upload sample_upload_env default_limits sample_document sample_disk = (Inr up, v)"
    using sample_staged by blast
  note b = staged_bytes_within_limits [OF u]
  have "length (su_files up) = 1" using b by (simp add: sample_document_def)
  then obtain f where f: "su_files up = [f]" by (cases "su_files up") auto
  have p: "part_bytes p = cps ''<html></html>''" if "sample_part ''a.html'' ''<html></html>'' = Part p" for p
    using that by (auto simp: sample_part_def part_bytes_def raw_bytes_def)
  have z: "length (sg_files sample_disk) = 0" by (simp add: sample_disk_def)
  have l: "length (cps ''<html></html>'') = 13" by (simp add: cps_def)
  have "\<exists>q. sample_part ''a.html'' ''<html></html>'' = Part q \<and> s_size f = int (length (part_bytes q)) \<and>
      sg_files v ! 0 = \<lparr>t_content = part_bytes q, t_closed = False\<rparr>"
    using b by (simp add: f z sample_document_def) blast
  then have "s_size f = 13" "sg_files v ! 0 = \<lparr>t_content = cps ''<html></html>'', t_closed = False\<rparr>"
    using p l by auto
  moreover have "sg_files v = [sg_files v ! 0]" using b by (cases "sg_files v") (simp_all add: f z)
  ultimately show ?thesis using u f by metis
qed

text \<open>
  C30: A refused upload leaves the temporary files of others untouched and every file of its own closed,
  and what it raises is a rejection or a \<open>BaseException\<close>, never another exception.
\<close>

theorem refused_upload_leaves_nothing_open:
  assumes "stage_upload env limits parts w = (Inl e, v)"
  shows "length (sg_files w) \<le> length (sg_files v) \<and> take (length (sg_files w)) (sg_files v) = sg_files w
    \<and> (\<forall>t \<in> set (drop (length (sg_files w)) (sg_files v)). t_closed t)
    \<and> (e = BaseException \<or> (\<exists>i. e = Rejected i))"
proof -
  have e: "e' = BaseException \<or> (\<exists>i. e' = Rejected i)" if "e' \<noteq> OtherException" for e'
    using that by (cases e') auto
  from assms consider "build_manifest (ue_unicode env) limits parts = Inl e" "v = w"
    | m kinds where "stage_entries env limits kinds m [] 0 {} w = (Inl e, v)"
    by (auto simp: stage_upload_def bindP_eq_Inl Let_def)
  then show ?thesis
  proof cases
    case 1
    then show ?thesis using e [OF build_manifest_Inl] by simp
  next
    case 2
    from stage_entries_Inl [OF 2 staged_at_start] e [of e] show ?thesis by simp
  qed
qed

lemma refused_upload_leaves_nothing_open_witness:
  "\<exists>e v. stage_upload sample_upload_env default_limits \<lparr>it_open = None, it_items = [], it_end = None\<rparr> sample_disk = (Inl e, v)
    \<and> (e = BaseException \<or> (\<exists>i. e = Rejected i)) \<and> (\<forall>t \<in> set (sg_files v). t_closed t)"
proof -
  have u: "stage_upload sample_upload_env default_limits \<lparr>it_open = None, it_items = [], it_end = None\<rparr> sample_disk =
      (Inl (issue MISSING_HTML None None), sample_disk)"
    by (simp add: stage_upload_def bindP_def pureP_def build_manifest_def finish_manifest_def)
  from refused_upload_leaves_nothing_open [OF u] u show ?thesis by (auto simp: sample_disk_def)
qed

end
