(* ===== verification/Decoding.thy ===== *)
theory Decoding
  imports Upload_Staging
begin

text \<open>
  The incremental decoder reads the concatenation of its chunks, wherever they were cut; and the bytes of
  a text are read back as that text.
\<close>

section \<open>Sequences cut in two\<close>

lemma map_append_nil: "map_option ((@) []) r = r" "map_option (\<lambda>(t, q). ([] @ t, q)) z = z"
  by (cases r, auto) (cases z, auto)

lemma sequence_ok_prefix: "sequence_ok b (xs @ ys) \<Longrightarrow> sequence_ok b xs"
  by (auto simp: sequence_ok_def split: list.splits)

lemma sequence_ok_take: "sequence_ok b (take k (xs @ ys)) \<Longrightarrow> sequence_ok b (take k xs)"
  by (auto dest: sequence_ok_prefix)

lemma utf8_decode_append:
  "utf8_decode e (xs @ ys) =
     (case utf8_decode False xs of
        None \<Rightarrow> None
      | Some (t, r) \<Rightarrow> map_option (\<lambda>(u, q). (t @ u, q)) (utf8_decode e (r @ ys)))"
proof (induction "False" xs rule: utf8_decode.induct)
  case 1
  then show ?case by (simp only: utf8_decode.simps option.case prod.case append_Nil map_append_nil(2) [unfolded append_Nil])
next
  case (2 b bs)
  show ?case
  proof (cases "sequence_length b")
    case (Some n)
    consider "\<not> sequence_ok b (take (n - 1) bs)" | "sequence_ok b (take (n - 1) bs)" "length bs < n - 1"
      | "sequence_ok b (take (n - 1) bs)" "n - 1 \<le> length bs" by linarith
    then show ?thesis
    proof cases
      case 1
      then have "\<not> sequence_ok b (take (n - 1) (bs @ ys))" using sequence_ok_take by blast
      then show ?thesis using 1 Some by simp
    next
      case 2
      then show ?thesis using Some by (simp add: option.map_id)
    next
      case 3
      then have "utf8_decode e (drop (n - 1) bs @ ys) = (case utf8_decode False (drop (n - 1) bs) of None \<Rightarrow> None
          | Some (t, r) \<Rightarrow> map_option (\<lambda>(u, q). (t @ u, q)) (utf8_decode e (r @ ys)))"
        using "2.hyps" [OF Some] by simp
      then show ?thesis using 3 Some
        by (auto simp: option.map_comp comp_def case_prod_beta split: option.splits intro!: option.map_cong0)
    qed
  qed simp
qed

section \<open>Chunks\<close>

text \<open>The decoder fed with the chunks of a file and then told the end, as the staging of a part does.\<close>

fun decode_chunks :: "text list \<Rightarrow> decoder \<Rightarrow> text option" where
  "decode_chunks [] d = map_option fst (decode_step True [] d)"
| "decode_chunks (c # cs) d =
     Option.bind (decode_step False c d) (\<lambda>(t, d'). map_option (append t) (decode_chunks cs d'))"

definition without_mark :: "text \<Rightarrow> text" where
  "without_mark bs = (if take 3 bs = byte_order_mark then drop 3 bs else bs)"

lemma decode_rest:
  "\<not> d_first d \<Longrightarrow> decode_chunks cs d = decode_strict (d_buffer d @ concat cs)"
proof (induction cs arbitrary: d)
  case Nil
  then show ?case by (simp add: decode_step_def decode_strict_def option.map_comp comp_def prod.case_eq_if)
next
  case (Cons c cs)
  show ?case
  proof (cases "utf8_decode False (d_buffer d @ c)")
    case None
    then show ?thesis using Cons.prems utf8_decode_append [of True "d_buffer d @ c" "concat cs"]
      by (simp add: decode_step_def decode_strict_def)
  next
    case (Some p)
    then obtain t r where p: "utf8_decode False (d_buffer d @ c) = Some (t, r)" by (cases p) auto
    then show ?thesis using Cons.prems Cons.IH [of "\<lparr>d_buffer = r, d_first = False\<rparr>"]
        utf8_decode_append [of True "d_buffer d @ c" "concat cs"]
      by (simp add: decode_step_def decode_strict_def option.map_comp comp_def prod.case_eq_if)
  qed
qed

definition undecided :: "text \<Rightarrow> bool" where
  "undecided bs \<longleftrightarrow> length bs < 3 \<and> starts_with bs byte_order_mark"

lemma undecided_iff: "undecided bs \<longleftrightarrow> bs \<in> {[], [239], [239, 187]}"
  by (auto simp: undecided_def starts_with_def byte_order_mark_def numeral_3_eq_3 less_Suc_eq length_Suc_conv)

lemma undecided_prefix: "undecided (xs @ ys) \<Longrightarrow> undecided xs"
  by (auto simp: undecided_iff append_eq_Cons_conv)

lemma without_mark_append: "\<not> undecided xs \<Longrightarrow> without_mark (xs @ ys) = without_mark xs @ ys"
proof (cases "length xs \<ge> 3")
  case False
  assume u: "\<not> undecided xs"
  have "take 3 (xs @ ys) \<noteq> byte_order_mark"
  proof
    assume "take 3 (xs @ ys) = byte_order_mark"
    then have "starts_with xs byte_order_mark" using False
      by (simp add: starts_with_def) (metis append_eq_conv_conj)
    then show False using u False by (simp add: undecided_def)
  qed
  moreover have "take 3 xs \<noteq> byte_order_mark" using False by (auto simp: byte_order_mark_def dest: arg_cong [where f = length])
  ultimately show ?thesis by (simp add: without_mark_def)
qed (simp add: without_mark_def)

lemma decode_chunks_whole:
  "decode_chunks cs decoder_start =
     (if concat cs \<in> {[], [239], [239, 187]} then Some [] else decode_strict (without_mark (concat cs)))"
proof -
  have "decode_chunks cs d =
      (if undecided (d_buffer d @ concat cs) then Some [] else decode_strict (without_mark (d_buffer d @ concat cs)))"
    if "d_first d" "undecided (d_buffer d)" for d
    using that
  proof (induction cs arbitrary: d)
    case Nil
    then show ?case by (simp add: decode_step_def undecided_def)
  next
    case (Cons c cs)
    let ?b = "d_buffer d @ c"
    show ?case
    proof (cases "undecided ?b")
      case True
      then show ?thesis using Cons.prems Cons.IH [of "d\<lparr>d_buffer := ?b\<rparr>"]
        by (simp add: decode_step_def undecided_def map_append_nil)
    next
      case False
      have step: "decode_step False c d =
          map_option (\<lambda>(t, rest). (t, \<lparr>d_buffer = rest, d_first = False\<rparr>)) (utf8_decode False (without_mark ?b))"
        using False Cons.prems by (auto simp: decode_step_def undecided_def without_mark_def Let_def)
      have "\<not> undecided (?b @ concat cs)" using False undecided_prefix by blast
      then show ?thesis
        using step without_mark_append [OF False, of "concat cs"]
          utf8_decode_append [of True "without_mark ?b" "concat cs"]
        by (auto simp: decode_rest decode_strict_def option.map_comp comp_def prod.case_eq_if split: option.splits)
    qed
  qed
  from this [of decoder_start] show ?thesis
    by (simp add: decoder_start_def undecided_iff del: concat_eq_Nil_conv)
qed

text \<open>The chunks of a file through \<open>_decode_chunk\<close>, the way a part is staged.\<close>

fun read_chunks :: "nat \<Rightarrow> text list \<Rightarrow> decoder \<Rightarrow> upload_error + text" where
  "read_chunks index [] d = bindE (decode_chunk True [] index d) (\<lambda>(t, d'). Inr t)"
| "read_chunks index (c # cs) d =
     bindE (decode_chunk False c index d) (\<lambda>(t, d'). bindE (read_chunks index cs d') (\<lambda>u. Inr (t @ u)))"

lemma read_chunks_decode:
  "read_chunks index cs d = (case decode_chunks cs d of None \<Rightarrow> raise_issue INVALID_UTF8 index | Some t \<Rightarrow> Inr t)"
  by (induction cs arbitrary: d)
    (auto simp: decode_chunk_def raise_issue_def bindE_def split: option.splits)

text \<open>
  C35: The incremental decoder reads the bytes of a file as strict UTF-8 behind an optional byte order mark,
  however the file is cut into chunks, except that a file of only the first one or two bytes of the mark is
  read as the empty text.
\<close>

theorem decoder_reads_whole_file:
  "read_chunks index cs decoder_start =
     (if concat cs \<in> {[], [239], [239, 187]} then Inr []
      else case decode_strict (without_mark (concat cs)) of
        None \<Rightarrow> raise_issue INVALID_UTF8 index
      | Some t \<Rightarrow> Inr t)"
  unfolding read_chunks_decode decode_chunks_whole by simp

section \<open>Reading back what was encoded\<close>

lemma second_of_three:
  "b < 16 \<Longrightarrow> m < 64 \<Longrightarrow> (b = 0 \<Longrightarrow> 32 \<le> m) \<Longrightarrow> (b = 13 \<Longrightarrow> m \<le> 31) \<Longrightarrow> second_byte (224 + b) (128 + m)"
  by (auto simp: second_byte_def)

lemma second_of_four:
  "b < 5 \<Longrightarrow> m < 64 \<Longrightarrow> (b = 0 \<Longrightarrow> 16 \<le> m) \<Longrightarrow> (b = 4 \<Longrightarrow> m \<le> 15) \<Longrightarrow> second_byte (240 + b) (128 + m)"
  by (auto simp: second_byte_def)

lemma utf8_decode_one:
  assumes "c < 1114112" "\<not> (55296 \<le> c \<and> c \<le> 57343)"
  shows "utf8_decode True (utf8_bytes c @ bs) = map_option (\<lambda>(t, rest). (c # t, rest)) (utf8_decode True bs)"
proof -
  consider "c < 128" | "128 \<le> c" "c < 2048" | "2048 \<le> c" "c < 65536" | "65536 \<le> c" "c < 1114112"
    using assms(1) by linarith
  then show ?thesis
  proof cases
    case 1
    then show ?thesis by (simp add: utf8_bytes_def sequence_length_def sequence_ok_def sequence_value_def)
  next
    case 2
    then have "sequence_length (192 + c div 64) = Some 2" by (simp add: sequence_length_def) linarith
    moreover have "second_byte (192 + c div 64) (128 + c mod 64)" using 2 by (simp add: second_byte_def) linarith
    moreover have "sequence_value (192 + c div 64) [128 + c mod 64] = c"
      using 2 by (simp add: sequence_value_def)
    ultimately show ?thesis using 2 by (simp add: utf8_bytes_def sequence_ok_def)
  next
    case 3
    define q where "q = c div 64"
    have q: "c div 4096 = q div 64" "c = 64 * q + c mod 64" "32 \<le> q" "q < 1024"
      using 3 by (simp_all add: q_def div_mult2_eq [symmetric])
    have r: "q = 64 * (q div 64) + q mod 64" "q div 64 < 16" "q mod 64 < 64" using q(4) by simp_all
    have "sequence_length (224 + q div 64) = Some 3" using r(2) by (simp add: sequence_length_def)
    moreover have "second_byte (224 + q div 64) (128 + q mod 64)"
    proof -
      have "32 \<le> q mod 64" if "q div 64 = 0" using that r q(3) by simp
      moreover have "q mod 64 \<le> 31" if "q div 64 = 13"
      proof (rule ccontr)
        assume "\<not> q mod 64 \<le> 31"
        then have "864 \<le> q" "q < 896" using that r by linarith+
        then have "55296 \<le> c" "c \<le> 57343" using q(2) mod_less_divisor [of 64 c] by linarith+
        then show False using assms(2) by simp
      qed
      ultimately show ?thesis using r(2,3) by (intro second_of_three)
    qed
    moreover have "continuation (128 + c mod 64)" by (simp add: continuation_def)
    moreover have "sequence_value (224 + q div 64) [128 + q mod 64, 128 + c mod 64] = c"
      using q(2) r by (simp add: sequence_value_def)
    ultimately show ?thesis using 3 q(1) by (simp add: utf8_bytes_def sequence_ok_def q_def [symmetric])
  next
    case 4
    define q where "q = c div 64"
    define p where "p = q div 64"
    have "q = 64 * p + q mod 64" by (simp add: p_def)
    moreover have "c div 4096 = p" "c div 262144 = p div 64" "c = 64 * q + c mod 64" "16 \<le> p" "p < 272"
      using 4 by (simp_all add: q_def p_def div_mult2_eq [symmetric])
    ultimately have q: "c div 4096 = p" "c div 262144 = p div 64" "c = 64 * q + c mod 64" "q = 64 * p + q mod 64"
      "16 \<le> p" "p < 272" by blast+
    have r: "p = 64 * (p div 64) + p mod 64" "p div 64 < 5" "p mod 64 < 64" using q(6) by simp_all
    have "sequence_length (240 + p div 64) = Some 4" using r(2) by (simp add: sequence_length_def)
    moreover have "second_byte (240 + p div 64) (128 + p mod 64)"
    proof -
      have "16 \<le> p mod 64" if "p div 64 = 0" using that r q(5) by simp
      moreover have "p mod 64 \<le> 15" if "p div 64 = 4" using that r q(6) by linarith
      ultimately show ?thesis using r(2,3) by (intro second_of_four)
    qed
    moreover have "continuation (128 + q mod 64)" "continuation (128 + c mod 64)"
      by (simp_all add: continuation_def)
    moreover have "sequence_value (240 + p div 64) [128 + p mod 64, 128 + q mod 64, 128 + c mod 64] = c"
      using q(3,4) r by (simp add: sequence_value_def)
    ultimately show ?thesis using 4 q(1,2)
      by (simp add: utf8_bytes_def sequence_ok_def q_def [symmetric] numeral_3_eq_3)
  qed
qed

lemma utf8_decode_encoded:
  "\<forall>c \<in> set v. c < 1114112 \<and> \<not> (55296 \<le> c \<and> c \<le> 57343) \<Longrightarrow>
     utf8_decode True (concat (map utf8_bytes v)) = Some (v, [])"
  by (induction v) (simp_all add: utf8_decode_one)

lemma decode_strict_encoded:
  "utf8_encode v = Some bs \<Longrightarrow> \<forall>c \<in> set v. c < 1114112 \<Longrightarrow> decode_strict bs = Some v"
  by (auto simp: utf8_encode_def decode_strict_def list_ex_iff utf8_decode_encoded split: if_splits)

end
