(* ===== verification/Documents.thy ===== *)
theory Documents
  imports Upload_Samples
begin

text \<open>
  The documents the validator accepts: the tags of an accepted text are the fringe of one element tree
  with the root \<open>html\<close>, whatever the chunks it arrived in, and its references name package files.
\<close>

section \<open>Element trees\<close>

datatype tag_token = Open "text" | Close "text"

datatype element = Element "text" "element list"

fun element_tokens :: "element \<Rightarrow> tag_token list" where
  "element_tokens (Element t es) = Open t # concat (map element_tokens es) @ [Close t]"

fun depth :: "element \<Rightarrow> nat" where
  "depth (Element t es) = Suc (Max (insert 0 (set (map depth es))))"

definition event_tokens :: "('p, 'x) upload_env_scheme \<Rightarrow> html_event \<Rightarrow> tag_token list" where
  "event_tokens env e = (case e of
      StartTag tag attrs \<Rightarrow> if fold_text env tag \<in> set html_void_elements then [] else [Open (fold_text env tag)]
    | EndTag tag \<Rightarrow> [Close (fold_text env tag)]
    | _ \<Rightarrow> [])"

definition start_tags :: "('p, 'x) upload_env_scheme \<Rightarrow> html_event \<Rightarrow> text list" where
  "start_tags env e = (case e of
      StartTag tag attrs \<Rightarrow> [fold_text env tag]
    | StartEndTag tag attrs \<Rightarrow> [fold_text env tag]
    | _ \<Rightarrow> [])"

definition counted :: "html_event \<Rightarrow> bool" where
  "counted e = (case e of StartTag tag attrs \<Rightarrow> True | StartEndTag tag attrs \<Rightarrow> True | EndTag tag \<Rightarrow> True
    | Decl decl \<Rightarrow> True | _ \<Rightarrow> False)"

section \<open>Attributes leave the shape alone\<close>

definition shape :: "'p html_state \<Rightarrow> text list \<times> bool \<times> bool \<times> bool \<times> bool \<times> int" where
  "shape st = (h_stack st, h_root_seen st, h_root_closed st, h_head_seen st, h_body_seen st, h_token_count st)"

lemma inspect_code_shape: "inspect_code x data css st = Inr st' \<Longrightarrow> shape st' = shape st"
  by (auto simp: inspect_code_def bindE_eq_Inr shape_def Let_def split: if_splits)

lemma inspect_url_shape: "inspect_url_attribute x v tag name allowed st = Inr st' \<Longrightarrow> shape st' = shape st"
  by (auto simp: inspect_url_attribute_def bindE_eq_Inr shape_def Let_def raise_issue_def external_def raise_field_def
      split: if_splits)

lemma validate_attribute_shape: "validate_attribute x tag link name v st = Inr st' \<Longrightarrow> shape st' = shape st"
  by (auto simp: validate_attribute_def external_def raise_field_def inspect_code_shape inspect_url_shape
      split: if_splits option.splits)

lemma validate_each_shape: "validate_each x tag link values st = Inr st' \<Longrightarrow> shape st' = shape st"
  by (induction x tag link "values" st rule: validate_each.induct)
    (auto simp: bindE_eq_Inr dest!: validate_attribute_shape)

lemma validate_attributes_shape: "validate_attributes x tag attrs st = Inr st' \<Longrightarrow> shape st' = shape st"
  by (auto simp: validate_attributes_def bindE_eq_Inr Let_def external_def raise_field_def validate_each_shape
      split: if_splits)

section \<open>Unfinished trees\<close>

text \<open>
  The elements closed at the top and the open ones, innermost first, each with its closed children.
\<close>

type_synonym frames = "(text \<times> element list) list"

fun frame_tokens :: "frames \<Rightarrow> tag_token list" where
  "frame_tokens [] = []"
| "frame_tokens ((t, es) # fs) = frame_tokens fs @ Open t # concat (map element_tokens es)"

fun frames_fit :: "nat \<Rightarrow> frames \<Rightarrow> bool" where
  "frames_fit n [] \<longleftrightarrow> True"
| "frames_fit n ((t, es) # fs) \<longleftrightarrow> (\<forall>e \<in> set es. length fs + 1 + depth e \<le> n) \<and> length fs < n \<and> frames_fit n fs"

text \<open>What the tokens read so far amount to.\<close>

definition partial :: "nat \<Rightarrow> 'p html_state \<Rightarrow> tag_token list \<Rightarrow> bool" where
  "partial n st toks \<longleftrightarrow>
     (\<exists>roots fs. toks = concat (map element_tokens roots) @ frame_tokens fs \<and> map fst fs = h_stack st \<and>
        frames_fit n fs \<and> (\<forall>e \<in> set roots. depth e \<le> n \<and> (\<exists>es. e = Element (cps ''html'') es)) \<and>
        (fs \<noteq> [] \<longrightarrow> fst (last fs) = cps ''html'') \<and>
        length roots + (if fs = [] then 0 else 1) = (if h_root_seen st then 1 else 0))"

definition count_opens :: "text \<Rightarrow> tag_token list \<Rightarrow> nat" where
  "count_opens t toks = length (filter (\<lambda>k. k = Open t) toks)"

definition landmarks :: "'p html_state \<Rightarrow> tag_token list \<Rightarrow> bool" where
  "landmarks st toks \<longleftrightarrow>
     count_opens (cps ''html'') toks = (if h_root_seen st then 1 else 0) \<and>
     count_opens (cps ''head'') toks = (if h_head_seen st then 1 else 0) \<and>
     count_opens (cps ''body'') toks = (if h_body_seen st then 1 else 0)"

lemma partial_shape: "shape st' = shape st \<Longrightarrow> partial n st' toks \<longleftrightarrow> partial n st toks"
  by (simp add: shape_def partial_def)

lemma partial_cong:
  "h_stack st' = h_stack st \<Longrightarrow> h_root_seen st' = h_root_seen st \<Longrightarrow> partial n st' toks \<longleftrightarrow> partial n st toks"
  by (simp add: partial_def)

lemma landmarks_shape: "shape st' = shape st \<Longrightarrow> landmarks st' toks \<longleftrightarrow> landmarks st toks"
  by (simp add: shape_def landmarks_def)

lemma partial_open:
  assumes "partial n st toks" "length (h_stack st) < n" "h_stack st' = t # h_stack st"
    and "h_stack st = [] \<Longrightarrow> t = cps ''html'' \<and> \<not> h_root_seen st \<and> h_root_seen st'"
    and "h_stack st \<noteq> [] \<Longrightarrow> h_root_seen st' = h_root_seen st"
  shows "partial n st' (toks @ [Open t])"
proof -
  from assms(1) obtain roots fs where r: "toks = concat (map element_tokens roots) @ frame_tokens fs"
    "map fst fs = h_stack st" "frames_fit n fs" "\<forall>e \<in> set roots. depth e \<le> n \<and> (\<exists>es. e = Element (cps ''html'') es)"
    "fs \<noteq> [] \<longrightarrow> fst (last fs) = cps ''html''"
    "length roots + (if fs = [] then 0 else 1) = (if h_root_seen st then 1 else (0::nat))"
    unfolding partial_def by blast
  have l: "length fs = length (h_stack st)" using arg_cong [OF r(2), of length] by simp
  show ?thesis unfolding partial_def
  proof (intro exI conjI)
    show "toks @ [Open t] = concat (map element_tokens roots) @ frame_tokens ((t, []) # fs)" by (simp add: r(1))
    show "map fst ((t, []) # fs) = h_stack st'" by (simp add: r(2) assms(3))
    show "frames_fit n ((t, []) # fs)" using l assms(2) r(3) by simp
    show "(t, []) # fs \<noteq> [] \<longrightarrow> fst (last ((t, []) # fs)) = cps ''html''" using l assms(4) r(5) by (cases fs) auto
    show "length roots + (if (t, []) # fs = [] then 0 else 1) = (if h_root_seen st' then 1 else 0)"
      using l assms(4,5) r(6) by (cases fs) (auto split: if_splits)
  qed (use r(4) in auto)
qed

lemma partial_close:
  assumes "partial n st toks" "h_stack st = t # h_stack st'" "h_root_seen st' = h_root_seen st"
  shows "partial n st' (toks @ [Close t])"
proof -
  from assms(1) obtain roots fs where r: "toks = concat (map element_tokens roots) @ frame_tokens fs"
    "map fst fs = h_stack st" "frames_fit n fs" "\<forall>e \<in> set roots. depth e \<le> n \<and> (\<exists>es. e = Element (cps ''html'') es)"
    "fs \<noteq> [] \<longrightarrow> fst (last fs) = cps ''html''"
    "length roots + (if fs = [] then 0 else 1) = (if h_root_seen st then 1 else (0::nat))"
    unfolding partial_def by blast
  from r(2) assms(2) obtain es gs where fs: "fs = (t, es) # gs" "map fst gs = h_stack st'" by (cases fs) auto
  have d: "depth (Element t es) + length gs \<le> n"
  proof -
    have "Max (insert 0 (depth ` set es)) + Suc (length gs) \<le> n"
    proof -
      have "Max (insert 0 (depth ` set es)) \<in> insert 0 (depth ` set es)" by (intro Max_in) simp_all
      then show ?thesis using r(3) by (auto simp: fs(1))
    qed
    then show ?thesis by simp
  qed
  show ?thesis
  proof (cases gs)
    case Nil
    have t: "t = cps ''html''" using r(5) by (simp add: fs(1) Nil)
    show ?thesis unfolding partial_def
      by (intro exI [of _ "roots @ [Element t es]"] exI [of _ "[]"])
        (use r d t fs(2) assms(3) in \<open>auto simp: fs(1) Nil simp del: depth.simps\<close>)
  next
    case (Cons g hs)
    obtain s ks where g: "g = (s, ks)" by (cases g)
    show ?thesis unfolding partial_def
      by (intro exI [of _ roots] exI [of _ "(s, ks @ [Element t es]) # hs"])
        (use r d fs(2) assms(3) in \<open>auto simp: fs(1) Cons g simp del: depth.simps split: if_splits\<close>)
  qed
qed

section \<open>One handler call\<close>

lemma landmark_names:
  "cps ''html'' \<noteq> cps ''head''" "cps ''html'' \<noteq> cps ''body''" "cps ''head'' \<noteq> cps ''body''"
  "cps ''html'' \<notin> set html_void_elements" "cps ''head'' \<notin> set html_void_elements" "cps ''body'' \<notin> set html_void_elements"
  by (simp_all add: cps_def html_void_elements_def)

lemma count_token_Inr:
  "count_token x st = Inr st' \<Longrightarrow>
     st' = st\<lparr>h_token_count := h_token_count st + 1\<rparr> \<and> h_token_count st + 1 \<le> max_html_tokens (x_limits x)"
  by (auto simp: count_token_def Let_def raise_issue_def split: if_splits)

lemma check_placement_Inr:
  assumes "check_placement x tag st = Inr st'"
  shows "h_stack st' = h_stack st \<and> h_token_count st' = h_token_count st
    \<and> (if h_stack st = [] then tag = cps ''html'' \<and> \<not> h_root_seen st \<and> h_root_seen st'
        else tag \<noteq> cps ''html'' \<and> h_root_seen st' = h_root_seen st)
    \<and> (if tag = cps ''head'' then \<not> h_head_seen st \<and> h_head_seen st' else h_head_seen st' = h_head_seen st)
    \<and> (if tag = cps ''body'' then \<not> h_body_seen st \<and> h_body_seen st' else h_body_seen st' = h_body_seen st)"
  using assms landmark_names
  by (auto simp: check_placement_def bindE_eq_Inr malformed_def raise_issue_def split: if_splits)

lemma start_tag_Inr:
  assumes "start_tag x raw attrs self_closing st = Inr st'"
  shows "let tag = fold_text (x_env x) raw in tag \<notin> set html_forbidden_elements \<and> tag \<noteq> cps ''form''
    \<and> h_token_count st' = h_token_count st + 1 \<and> h_token_count st' \<le> max_html_tokens (x_limits x)
    \<and> (if h_stack st = [] then tag = cps ''html'' \<and> \<not> h_root_seen st \<and> h_root_seen st'
        else tag \<noteq> cps ''html'' \<and> h_root_seen st' = h_root_seen st)
    \<and> (if tag = cps ''head'' then \<not> h_head_seen st \<and> h_head_seen st' else h_head_seen st' = h_head_seen st)
    \<and> (if tag = cps ''body'' then \<not> h_body_seen st \<and> h_body_seen st' else h_body_seen st' = h_body_seen st)
    \<and> (if tag \<in> set html_void_elements then h_stack st' = h_stack st
        else \<not> self_closing \<and> int (length (h_stack st)) < max_html_nesting (x_limits x) \<and> h_stack st' = tag # h_stack st)"
proof -
  let ?tag = "fold_text (x_env x) raw"
  from assms obtain st1 st2 st3 where c: "count_token x st = Inr st1"
    and f: "?tag \<notin> set html_forbidden_elements" "?tag \<noteq> cps ''form''"
    and p: "check_placement x ?tag st1 = Inr st2" and a: "validate_attributes x ?tag attrs st2 = Inr st3"
    and r: "if ?tag \<in> set html_void_elements then st' = st3 else \<not> self_closing
        \<and> int (length (h_stack st3)) < max_html_nesting (x_limits x) \<and> st' = st3\<lparr>h_stack := ?tag # h_stack st3\<rparr>"
    by (auto simp: start_tag_def bindE_eq_Inr Let_def external_def raise_field_def malformed_def raise_issue_def
        split: if_splits)
  note s = validate_attributes_shape [OF a]
  show ?thesis
    using count_token_Inr [OF c] f check_placement_Inr [OF p] s r
    by (auto simp: Let_def shape_def split: if_splits)
qed

lemma end_tag_Inr:
  assumes "end_tag x raw st = Inr st'"
  shows "h_stack st = fold_text (x_env x) raw # h_stack st' \<and> h_token_count st' = h_token_count st + 1
    \<and> h_token_count st' \<le> max_html_tokens (x_limits x) \<and> h_root_seen st' = h_root_seen st
    \<and> h_head_seen st' = h_head_seen st \<and> h_body_seen st' = h_body_seen st"
proof -
  from assms obtain st1 where c: "count_token x st = Inr st1" and r: "h_stack st1 \<noteq> []"
    "hd (h_stack st1) = fold_text (x_env x) raw"
    "st' = st1\<lparr>h_stack := tl (h_stack st1), h_root_closed := (h_root_closed st1 \<or> fold_text (x_env x) raw = cps ''html'')\<rparr>"
    by (auto simp: end_tag_def bindE_eq_Inr Let_def malformed_def raise_issue_def split: if_splits)
  then show ?thesis using count_token_Inr [OF c] by (cases "h_stack st1") auto
qed

lemma handle_data_shape: "handle_data x data st = Inr st' \<Longrightarrow> shape st' = shape st"
  by (auto simp: handle_data_def malformed_def raise_issue_def inspect_code_shape split: if_splits list.splits)

lemma handle_decl_Inr:
  assumes "handle_decl x decl st = Inr st'"
  shows "shape st' = shape (st\<lparr>h_token_count := h_token_count st + 1\<rparr>) \<and> h_token_count st' \<le> max_html_tokens (x_limits x)"
  using assms
  by (auto simp: handle_decl_def bindE_eq_Inr malformed_def raise_issue_def shape_def dest!: count_token_Inr split: if_splits)

text \<open>What is true of the tokens read so far, together.\<close>

definition read_so_far :: "'p html_context \<Rightarrow> 'p html_state \<Rightarrow> html_event list \<Rightarrow> bool" where
  "read_so_far x st es \<longleftrightarrow>
     (let toks = concat (map (event_tokens (x_env x)) es) in
      partial (nat (max_html_nesting (x_limits x))) st toks \<and> landmarks st toks \<and>
      h_token_count st = int (length (filter counted es)) \<and>
      (filter counted es \<noteq> [] \<longrightarrow> h_token_count st \<le> max_html_tokens (x_limits x)) \<and>
      (\<forall>e \<in> set es. \<forall>t \<in> set (start_tags (x_env x) e). t \<notin> set html_forbidden_elements \<and> t \<noteq> cps ''form''))"

lemma read_shape:
  assumes "read_so_far x st es" "shape st' = shape st" "event_tokens (x_env x) e = []" "start_tags (x_env x) e = []"
    "\<not> counted e"
  shows "read_so_far x st' (es @ [e])"
  using assms partial_shape [OF assms(2)] landmarks_shape [OF assms(2)]
  by (auto simp: read_so_far_def Let_def shape_def)

lemma count_opens_simps [simp]:
  "count_opens t [] = 0" "count_opens t (a @ b) = count_opens t a + count_opens t b"
  "count_opens t (Open s # toks) = (if s = t then 1 else 0) + count_opens t toks"
  "count_opens t (Close s # toks) = count_opens t toks"
  by (simp_all add: count_opens_def)

lemma read_start:
  assumes r: "read_so_far x st es" and s: "start_tag x raw attrs self_closing st = Inr st'"
    and e: "e = (if self_closing then StartEndTag raw attrs else StartTag raw attrs)"
  shows "read_so_far x st' (es @ [e])"
proof -
  let ?tag = "fold_text (x_env x) raw" and ?n = "nat (max_html_nesting (x_limits x))"
  let ?toks = "concat (map (event_tokens (x_env x)) es)"
  note f = start_tag_Inr [OF s, unfolded Let_def]
  have t: "event_tokens (x_env x) e = (if ?tag \<in> set html_void_elements then [] else [Open ?tag])"
    using f by (cases self_closing) (auto simp: e event_tokens_def split: if_splits)
  have old: "partial ?n st ?toks" "landmarks st ?toks" using r by (simp_all add: read_so_far_def Let_def)
  have new: "partial ?n st' (?toks @ event_tokens (x_env x) e) \<and> landmarks st' (?toks @ event_tokens (x_env x) e)"
  proof (cases "?tag \<in> set html_void_elements")
    case True
    then have "?tag \<noteq> cps ''html''" "?tag \<noteq> cps ''head''" "?tag \<noteq> cps ''body''" using landmark_names by metis+
    moreover have "h_stack st' = h_stack st" "h_root_seen st' = h_root_seen st"
      using f True \<open>?tag \<noteq> cps ''html''\<close> by (auto split: if_splits)
    ultimately show ?thesis using f t True old partial_cong [of st' st] by (auto simp: landmarks_def)
  next
    case False
    have "partial ?n st' (?toks @ [Open ?tag])"
      by (rule partial_open [OF old(1)]) (use f False in \<open>auto split: if_splits\<close>)
    moreover have "landmarks st' (?toks @ [Open ?tag])"
      using f old(2) False landmark_names by (auto simp: landmarks_def old partial_def split: if_splits)
    ultimately show ?thesis using t False by simp
  qed
  have g: "start_tags (x_env x) e = [?tag]" "counted e" by (simp_all add: e start_tags_def counted_def)
  show ?thesis using new g f r by (auto simp: read_so_far_def Let_def)
qed

lemma read_event:
  assumes r: "read_so_far x st es" and s: "handle_event x e st = Inr st'"
  shows "read_so_far x st' (es @ [e])"
proof (cases e)
  case (StartTag raw attrs)
  then show ?thesis using read_start [OF r, of raw attrs False st' e] s by (simp add: handle_event_def)
next
  case (StartEndTag raw attrs)
  then show ?thesis using read_start [OF r, of raw attrs True st' e] s by (simp add: handle_event_def)
next
  case (EndTag raw)
  note f = end_tag_Inr [of x raw st st']
  have f: "h_stack st = fold_text (x_env x) raw # h_stack st' \<and> h_token_count st' = h_token_count st + 1
    \<and> h_token_count st' \<le> max_html_tokens (x_limits x) \<and> h_root_seen st' = h_root_seen st
    \<and> h_head_seen st' = h_head_seen st \<and> h_body_seen st' = h_body_seen st"
    by (rule end_tag_Inr) (use s in \<open>simp add: handle_event_def EndTag\<close>)
  have old: "partial (nat (max_html_nesting (x_limits x))) st (concat (map (event_tokens (x_env x)) es))"
    using r by (simp add: read_so_far_def Let_def)
  have "partial (nat (max_html_nesting (x_limits x))) st'
      (concat (map (event_tokens (x_env x)) es) @ [Close (fold_text (x_env x) raw)])"
    by (rule partial_close [OF old]) (use f in auto)
  then show ?thesis using f r
    by (auto simp: read_so_far_def Let_def EndTag event_tokens_def start_tags_def counted_def landmarks_def)
next
  case (Decl decl)
  then have f: "shape st' = shape (st\<lparr>h_token_count := h_token_count st + 1\<rparr>)" "h_token_count st' \<le> max_html_tokens (x_limits x)"
    using handle_decl_Inr [of x decl st st'] s by (simp_all add: handle_event_def)
  then have "partial n st' toks = partial n st toks" "landmarks st' toks = landmarks st toks" for n toks
    by (simp_all add: shape_def partial_def landmarks_def)
  then show ?thesis using f r
    by (auto simp: read_so_far_def Let_def Decl event_tokens_def start_tags_def counted_def shape_def)
next
  case (Data data)
  then have "shape st' = shape st" using s handle_data_shape by (auto simp: handle_event_def)
  then show ?thesis by (intro read_shape [OF r]) (simp_all add: Data event_tokens_def start_tags_def counted_def)
next
  case (ProcessingInstruction data)
  then show ?thesis using s by (simp add: handle_event_def external_def raise_field_def)
next
  case (UnknownDecl data)
  then show ?thesis using s by (simp add: handle_event_def malformed_def raise_issue_def)
qed (use s in \<open>auto intro!: read_shape [OF r] simp: handle_event_def event_tokens_def start_tags_def counted_def\<close>)

section \<open>A whole document\<close>

text \<open>The calls of the tokeniser for a text that arrives in chunks, the end included.\<close>

fun document_events :: "('p, 'x) upload_env_scheme \<Rightarrow> 'p \<Rightarrow> text list \<Rightarrow> html_event list" where
  "document_events env p [] = fst (ue_close env p)"
| "document_events env p (t # ts) =
     (case ue_feed env p t of (es, None) \<Rightarrow> es | (es, Some q) \<Rightarrow> es @ document_events env q ts)"

fun feed_all :: "'p html_context \<Rightarrow> text list \<Rightarrow> 'p html_state \<Rightarrow> upload_error + 'p html_state" where
  "feed_all x [] st = Inr st"
| "feed_all x (t # ts) st = bindE (html_feed x t st) (feed_all x ts)"

lemma read_events: "read_so_far x st es \<Longrightarrow> handle_events x fs st = Inr st' \<Longrightarrow> read_so_far x st' (es @ fs)"
proof (induction fs arbitrary: st es)
  case (Cons f fs)
  then obtain st1 where s: "handle_event x f st = Inr st1" "handle_events x fs st1 = Inr st'" by (auto simp: bindE_eq_Inr)
  from Cons.IH [OF read_event [OF Cons.prems(1) s(1)] s(2)] show ?case by simp
qed simp

lemma run_parser_Inr:
  assumes "run_parser x result st = Inr st'"
  shows "\<exists>st1 p. handle_events x (fst result) st = Inr st1 \<and> snd result = Some p \<and> st' = st1\<lparr>h_parser := p\<rparr>"
  using assms
  by (auto simp: run_parser_def others_as_def issue_def bindE_eq_Inr split: sum.splits option.splits if_splits)

lemma read_same: "read_so_far x st es \<Longrightarrow> shape st' = shape st \<Longrightarrow> read_so_far x st' es"
  using partial_shape [of st' st] landmarks_shape [of st' st] by (auto simp: read_so_far_def Let_def shape_def)

lemma read_run:
  assumes "read_so_far x st es" "run_parser x result st = Inr st'"
  shows "read_so_far x st' (es @ fst result)"
proof -
  from run_parser_Inr [OF assms(2)] obtain st1 p where "handle_events x (fst result) st = Inr st1" "st' = st1\<lparr>h_parser := p\<rparr>"
    by blast
  then show ?thesis using read_same [OF read_events [OF assms(1)], of "fst result" st1 st'] by (simp add: shape_def)
qed

lemma read_document:
  "read_so_far x st es \<Longrightarrow> feed_all x ts st = Inr st1 \<Longrightarrow> html_close x st1 = Inr st2 \<Longrightarrow>
     read_so_far x st2 (es @ document_events (x_env x) (h_parser st) ts)"
proof (induction ts arbitrary: st es)
  case Nil
  then have "run_parser x (ue_close (x_env x) (h_parser st)) st = Inr st2"
    by (auto simp: html_close_def bindE_eq_Inr malformed_def raise_issue_def split: if_splits)
  from read_run [OF Nil.prems(1) this] show ?case by simp
next
  case (Cons t ts)
  then obtain u where f: "html_feed x t st = Inr u" "feed_all x ts u = Inr st1" by (auto simp: bindE_eq_Inr)
  let ?st = "track_unterminated_comment t st"
  have c: "shape ?st = shape st" "h_parser ?st = h_parser st"
    by (simp_all add: track_unterminated_comment_def shape_def Let_def)
  have r: "read_so_far x u (es @ fst (ue_feed (x_env x) (h_parser st) t))"
    by (rule read_run [OF read_same [OF Cons.prems(1) c(1)] f(1) [unfolded html_feed_def]])
  obtain p where p: "snd (ue_feed (x_env x) (h_parser st) t) = Some p" "h_parser u = p"
    using run_parser_Inr [OF f(1) [unfolded html_feed_def]] by auto
  have "document_events (x_env x) (h_parser st) (t # ts) =
      fst (ue_feed (x_env x) (h_parser st) t) @ document_events (x_env x) (h_parser u) ts"
    using p by (cases "ue_feed (x_env x) (h_parser st) t") simp
  then show ?case using Cons.IH [OF r f(2) Cons.prems(3)] by simp
qed

text \<open>
  C31: The tags of an accepted document, void elements aside, are the tokens of one element tree with
  the root \<open>html\<close>, at most as deep as the nesting limit and with at most one head and one body; no
  forbidden element or form was opened, and the work done is within the token limit.
\<close>

theorem accepted_document_is_a_tree:
  assumes "feed_all x ts (html_start (x_env x)) = Inr st" "html_finish x st = Inr refs"
  shows "let es = document_events (x_env x) (ue_parser (x_env x)) ts;
             toks = concat (map (event_tokens (x_env x)) es) in
    (\<exists>children. toks = element_tokens (Element (cps ''html'') children)
       \<and> int (depth (Element (cps ''html'') children)) \<le> max_html_nesting (x_limits x))
    \<and> count_opens (cps ''html'') toks = 1 \<and> count_opens (cps ''head'') toks \<le> 1 \<and> count_opens (cps ''body'') toks \<le> 1
    \<and> int (length (filter counted es)) \<le> max_html_tokens (x_limits x)
    \<and> (\<forall>e \<in> set es. \<forall>t \<in> set (start_tags (x_env x) e). t \<notin> set html_forbidden_elements \<and> t \<noteq> cps ''form'')"
proof -
  let ?n = "nat (max_html_nesting (x_limits x))"
  let ?es = "document_events (x_env x) (ue_parser (x_env x)) ts"
  let ?toks = "concat (map (event_tokens (x_env x)) ?es)"
  from assms(2) obtain st2 where c: "html_close x st = Inr st2" and e: "h_root_seen st2" "h_stack st2 = []"
    by (auto simp: html_finish_def bindE_eq_Inr malformed_def raise_issue_def split: if_splits)
  have start: "read_so_far x (html_start (x_env x)) []"
    by (auto simp: read_so_far_def Let_def partial_def landmarks_def html_start_def intro!: exI [of _ "[]"])
  have r: "read_so_far x st2 ?es"
    using read_document [OF start assms(1) c] by (simp add: html_start_def)
  then have p: "partial ?n st2 ?toks" and l: "landmarks st2 ?toks" by (simp_all add: read_so_far_def Let_def)
  from p e obtain roots where roots: "?toks = concat (map element_tokens roots)"
    "\<forall>e \<in> set roots. depth e \<le> ?n \<and> (\<exists>es. e = Element (cps ''html'') es)" "length roots = 1"
    unfolding partial_def by auto
  then obtain children where ch: "roots = [Element (cps ''html'') children]" by (cases roots) auto
  have d: "depth (Element (cps ''html'') children) \<le> ?n" using roots(2) by (simp add: ch del: depth.simps)
  moreover have "1 \<le> depth (Element (cps ''html'') children)" by simp
  ultimately have d': "int (depth (Element (cps ''html'') children)) \<le> max_html_nesting (x_limits x)" by linarith
  have "?toks \<noteq> []" using roots(1) by (simp add: ch)
  then have "filter counted ?es \<noteq> []"
    by (auto simp: filter_empty_conv event_tokens_def counted_def split: html_event.splits)
  then show ?thesis
    using r l e roots(1) d' by (auto simp: read_so_far_def Let_def landmarks_def ch simp del: depth.simps split: if_splits)
qed

lemma accepted_document_is_a_tree_witness:
  "concat (map (event_tokens sample_upload_env) (document_events sample_upload_env () [cps ''<html></html>''])) =
     element_tokens (Element (cps ''html'') [])"
proof -
  have x: "x_env sample_context = sample_upload_env" "ue_parser sample_upload_env = ()"
    by (simp_all add: sample_context_def)
  obtain st where f: "feed_all sample_context [cps ''<html></html>''] (html_start (x_env sample_context)) = Inr st"
    and h: "h_root_seen st" "h_root_closed st" "h_stack st = []" "\<not> h_comment_open st" "h_css st = css_start"
    using sample_html_feed by (simp add: x html_start_def)
  from accepted_document_is_a_tree [OF f sample_finish [OF h]] obtain children where
    c: "concat (map (event_tokens sample_upload_env) (document_events sample_upload_env () [cps ''<html></html>''])) =
      element_tokens (Element (cps ''html'') children)"
    by (auto simp: Let_def x)
  have n: "cps ''html'' \<notin> set html_void_elements" "fold_text sample_upload_env (cps ''html'') = cps ''html''"
    "cps ''<html></html>'' \<noteq> []"
    by (simp_all add: cps_def html_void_elements_def fold_text_def sample_upload_env_def ascii_unicode_def)
  have two: "concat (map (event_tokens sample_upload_env) (document_events sample_upload_env () [cps ''<html></html>''])) =
      [Open (cps ''html''), Close (cps ''html'')]"
    using n by (simp add: event_tokens_def sample_upload_env_def)
  have "element_tokens e \<noteq> []" for e by (cases e) simp
  then have "children = []" using c unfolding two by (cases children) auto
  then show ?thesis using c by simp
qed

end
