(* ===== verification/References.thy ===== *)
theory References
  imports Documents
begin

text \<open>
  Every name an upload refers to is the name of one of its supporting files, whichever validator found
  it; and what the policy says of calls beside a call with a literal argument.
\<close>

section \<open>Resolved names\<close>

definition package_names :: "artifact_kinds \<Rightarrow> text set" where
  "package_names kinds = {k. \<exists>kind \<in> set supporting_kinds. kinds k = Some kind}"

lemma raised_not_Inr: "raise_issue c i \<noteq> Inr r" "raise_field c i f \<noteq> Inr r"
  by (simp_all add: raise_issue_def raise_field_def)

lemma resolve_package:
  assumes "resolve_asset_reference env raw kinds index allowed c field = Inr k" "set allowed \<subseteq> set supporting_kinds"
  shows "k \<in> package_names kinds"
proof -
  have "\<exists>kind \<in> set allowed. kinds k = Some kind"
    using assms(1) unfolding resolve_asset_reference_def Let_def
    by (simp add: raised_not_Inr split: if_split_asm option.split_asm sum.split_asm exn.split_asm)
  then show ?thesis using assms(2) by (auto simp: package_names_def)
qed

lemma css_references_package:
  "css_references_of env kinds index ms refs = Inr refs' \<Longrightarrow> refs \<subseteq> package_names kinds \<Longrightarrow> refs' \<subseteq> package_names kinds"
proof (induction env kinds index ms refs rule: css_references_of.induct)
  case (2 env kinds index m ms refs)
  from "2.prems"(1) obtain raw where raw: "css_raw_url index (the (f_group m)) = Inr raw"
    and go: "(if re_match safe_data_url raw \<or> starts_with (cps ''blob:'') (fold_text env raw)
      then css_references_of env kinds index ms refs
      else bindE (resolve_asset_reference env raw kinds index [IMAGE, FONT] False CSS_EXTERNAL_URL) (\<lambda>reference.
        css_references_of env kinds index ms (insert reference refs))) = Inr refs'"
    by (auto simp: bindE_eq_Inr)
  show ?case
  proof (cases "re_match safe_data_url raw \<or> starts_with (cps ''blob:'') (fold_text env raw)")
    case True
    then show ?thesis using "2.IH"(1) "2.prems"(2) go by simp
  next
    case False
    then obtain k where k: "resolve_asset_reference env raw kinds index [IMAGE, FONT] False CSS_EXTERNAL_URL = Inr k"
      "css_references_of env kinds index ms (insert k refs) = Inr refs'" using go by (auto simp: bindE_eq_Inr)
    have "k \<in> package_names kinds" by (rule resolve_package [OF k(1)]) (simp add: supporting_kinds_def)
    then show ?thesis using "2.IH"(2) [OF False k(2)] "2.prems"(2) by simp
  qed
qed simp

lemma css_inspect_package:
  "css_inspect env kinds index t refs = Inr refs' \<Longrightarrow> refs \<subseteq> package_names kinds \<Longrightarrow> refs' \<subseteq> package_names kinds"
  by (auto simp: css_inspect_def Let_def raise_field_def split: if_splits dest!: css_references_package)

lemma css_feed_package:
  "css_feed env kinds index t st = Inr st' \<Longrightarrow> css_references st \<subseteq> package_names kinds \<Longrightarrow>
     css_references st' \<subseteq> package_names kinds"
  by (auto simp: css_feed_def Let_def bindE_eq_Inr split: if_splits dest!: css_inspect_package)

lemma code_references_package:
  "code_references_of env kinds index t ms refs = Inr refs' \<Longrightarrow> refs \<subseteq> package_names kinds \<Longrightarrow> refs' \<subseteq> package_names kinds"
proof (induction env kinds index t ms refs rule: code_references_of.induct)
  case (2 env kinds index t m ms refs)
  show ?case
  proof (cases "has_substitution (the (f_group m))")
    case True
    then show ?thesis using "2.IH"(1) "2.prems" by (auto simp: raise_field_def split: if_splits)
  next
    case False
    then obtain k where a: "re_match after_argument (drop (f_end m) t)"
      and k: "resolve_csv_reference env (the (f_group m)) kinds index DYNAMIC_DATA_REFERENCE = Inr k"
      "code_references_of env kinds index t ms (insert k refs) = Inr refs'"
      using "2.prems"(1) by (auto simp: raise_field_def bindE_eq_Inr split: if_splits)
    have "k \<in> package_names kinds"
      by (rule resolve_package [OF k(1) [unfolded resolve_csv_reference_def]]) (simp add: supporting_kinds_def)
    then show ?thesis using "2.IH"(2) [of k] a False k(2) "2.prems"(2) by simp
  qed
qed simp

lemma inspect_script_package:
  "inspect_script env kinds index t refs = Inr refs' \<Longrightarrow> refs \<subseteq> package_names kinds \<Longrightarrow> refs' \<subseteq> package_names kinds"
  by (auto simp: inspect_script_def Let_def bindE_eq_Inr raise_field_def split: if_splits dest!: code_references_package)

section \<open>The validators\<close>

definition within_package :: "'p html_context \<Rightarrow> 'p html_state \<Rightarrow> bool" where
  "within_package x st \<longleftrightarrow>
     h_references st \<subseteq> package_names (x_kinds x) \<and> css_references (h_css st) \<subseteq> package_names (x_kinds x)"

lemma allowed_supporting: "set (allowed_attribute_kinds tag name) \<subseteq> set supporting_kinds"
  by (auto simp: allowed_attribute_kinds_def supporting_kinds_def)

lemma inspect_code_package: "inspect_code x data css st = Inr st' \<Longrightarrow> within_package x st \<Longrightarrow> within_package x st'"
  by (auto simp: inspect_code_def bindE_eq_Inr within_package_def Let_def split: if_splits
      dest!: css_feed_package inspect_script_package)

lemma inspect_url_package:
  "inspect_url_attribute x v tag name allowed st = Inr st' \<Longrightarrow> set allowed \<subseteq> set supporting_kinds \<Longrightarrow>
     within_package x st \<Longrightarrow> within_package x st'"
  by (auto simp: inspect_url_attribute_def bindE_eq_Inr within_package_def Let_def raise_issue_def external_def
      raise_field_def split: if_splits dest!: resolve_package)

lemma validate_attribute_package:
  assumes "validate_attribute x tag link name v st = Inr st'" "within_package x st"
    and "\<And>allowed. link = Some allowed \<Longrightarrow> set allowed \<subseteq> set supporting_kinds"
  shows "within_package x st'"
  using assms allowed_supporting [of tag name]
  by (auto simp: validate_attribute_def external_def raise_field_def split: if_splits option.splits
      dest: inspect_code_package inspect_url_package)

lemma validate_each_package:
  "validate_each x tag link values st = Inr st' \<Longrightarrow> within_package x st \<Longrightarrow>
     (\<And>allowed. link = Some allowed \<Longrightarrow> set allowed \<subseteq> set supporting_kinds) \<Longrightarrow> within_package x st'"
proof (induction x tag link "values" st rule: validate_each.induct)
  case (2 x tag link name v vs st)
  then obtain st1 where s: "validate_attribute x tag link name v st = Inr st1" "validate_each x tag link vs st1 = Inr st'"
    by (auto simp: bindE_eq_Inr)
  show ?case by (rule "2.IH" [OF s(2) validate_attribute_package [OF s(1) "2.prems"(2,3)] "2.prems"(3)])
qed simp

lemma link_supporting: "link_kinds_of x vs = Some allowed \<Longrightarrow> set allowed \<subseteq> set supporting_kinds"
  by (auto simp: link_kinds_of_def Let_def supporting_kinds_def split: if_splits)

lemma validate_attributes_package:
  assumes "validate_attributes x tag attrs st = Inr st'" "within_package x st"
  shows "within_package x st'"
proof -
  from assms(1) obtain vs where "validate_each x tag (if tag = cps ''link'' then link_kinds_of x vs else None) vs st = Inr st'"
    by (auto simp: validate_attributes_def bindE_eq_Inr Let_def external_def raise_field_def split: if_splits)
  then show ?thesis by (rule validate_each_package [OF _ assms(2)]) (auto split: if_splits dest: link_supporting)
qed

lemma within_same: "h_references st' = h_references st \<Longrightarrow> h_css st' = h_css st \<Longrightarrow> within_package x st' = within_package x st"
  by (simp add: within_package_def)

lemma count_token_package: "count_token x st = Inr st' \<Longrightarrow> within_package x st' = within_package x st"
  by (auto simp: count_token_def Let_def raise_issue_def within_package_def split: if_splits)

lemma check_placement_package: "check_placement x tag st = Inr st' \<Longrightarrow> within_package x st' = within_package x st"
  by (auto simp: check_placement_def bindE_eq_Inr malformed_def raise_issue_def within_package_def split: if_splits)

lemma start_tag_package:
  assumes "start_tag x raw attrs c st = Inr st'" "within_package x st"
  shows "within_package x st'"
proof -
  from assms(1) obtain st1 st2 st3 where s: "count_token x st = Inr st1"
    "check_placement x (fold_text (x_env x) raw) st1 = Inr st2"
    "validate_attributes x (fold_text (x_env x) raw) attrs st2 = Inr st3"
    "h_references st' = h_references st3" "h_css st' = h_css st3"
    by (auto simp: start_tag_def bindE_eq_Inr Let_def external_def raise_field_def malformed_def raise_issue_def
        split: if_splits)
  have "within_package x st3"
    using validate_attributes_package [OF s(3)] check_placement_package [OF s(2)] count_token_package [OF s(1)] assms(2)
    by simp
  then show ?thesis using within_same [OF s(4,5)] by simp
qed

lemma handle_event_package:
  assumes "handle_event x e st = Inr st'" "within_package x st"
  shows "within_package x st'"
proof (cases e)
  case (StartTag raw attrs)
  then show ?thesis using assms start_tag_package by (auto simp: handle_event_def)
next
  case (StartEndTag raw attrs)
  then show ?thesis using assms start_tag_package by (auto simp: handle_event_def)
next
  case (Data data)
  then show ?thesis using assms inspect_code_package
    by (auto simp: handle_event_def handle_data_def malformed_def raise_issue_def split: if_splits list.splits)
qed (use assms in \<open>auto simp: handle_event_def end_tag_def handle_decl_def bindE_eq_Inr Let_def malformed_def external_def
    raise_issue_def raise_field_def within_package_def split: if_splits dest!: count_token_Inr\<close>)

lemma handle_events_package: "handle_events x es st = Inr st' \<Longrightarrow> within_package x st \<Longrightarrow> within_package x st'"
  by (induction es arbitrary: st) (auto simp: bindE_eq_Inr dest: handle_event_package)

lemma run_parser_package: "run_parser x r st = Inr st' \<Longrightarrow> within_package x st \<Longrightarrow> within_package x st'"
  by (drule run_parser_Inr) (auto dest!: handle_events_package simp: within_package_def)

lemma html_feed_package: "html_feed x t st = Inr st' \<Longrightarrow> within_package x st \<Longrightarrow> within_package x st'"
  unfolding html_feed_def
  by (erule run_parser_package) (simp add: within_package_def track_unterminated_comment_def Let_def)

lemma html_finish_package: "html_finish x st = Inr refs \<Longrightarrow> within_package x st \<Longrightarrow> refs \<subseteq> package_names (x_kinds x)"
  by (auto simp: html_finish_def html_close_def bindE_eq_Inr malformed_def raise_issue_def css_finish_def within_package_def
      split: if_splits dest!: run_parser_package css_inspect_package)

section \<open>The staged parts\<close>

definition part_within :: "'p html_context \<Rightarrow> 'p part_state \<Rightarrow> bool" where
  "part_within x st \<longleftrightarrow>
     (\<forall>h. p_html st = Some h \<longrightarrow> within_package x h) \<and>
     (\<forall>c. p_css st = Some c \<longrightarrow> css_references c \<subseteq> package_names (x_kinds x))"

lemma feed_text_package: "feed_text x final chunk st = Inr st' \<Longrightarrow> part_within x st \<Longrightarrow> part_within x st'"
  unfolding feed_text_def part_within_def
  by (auto simp: bindE_eq_Inr split: option.splits dest!: html_feed_package css_feed_package) blast

lemma stage_chunk_package: "stage_chunk x h raw st w = (Inr st', v) \<Longrightarrow> part_within x st \<Longrightarrow> part_within x st'"
  by (auto simp: stage_chunk_def Let_def raise_issue_def bindP_eq_Inr part_within_def
      split: if_splits raw_chunk.splits dest!: feed_text_package)

lemma stage_chunks_package: "stage_chunks x h ending raws st w = (Inr st', v) \<Longrightarrow> part_within x st \<Longrightarrow> part_within x st'"
proof (induction raws arbitrary: st w)
  case (Cons raw raws)
  then show ?case by (auto simp: bindP_eq_Inr dest: stage_chunk_package)
qed (auto split: option.splits)

lemma finish_part_package: "finish_part x h entry st w = (Inr refs, v) \<Longrightarrow> part_within x st \<Longrightarrow> refs \<subseteq> package_names (x_kinds x)"
  by (auto simp: finish_part_def part_within_def bindP_eq_Inr css_finish_def split: option.splits
      dest!: html_finish_package css_inspect_package)

lemma stage_entry_package:
  assumes "stage_entry env limits kinds entry so_far w = (Inr (f, n, refs), v)"
  shows "refs \<subseteq> package_names kinds"
proof -
  let ?x = "\<lparr>x_env = env, x_kinds = kinds, x_limits = limits, x_index = e_index entry\<rparr>"
  from assms obtain h w1 where "stage_body ?x entry h so_far w1 = (Inr (f, n, refs), v)"
    by (auto simp: stage_entry_def Let_def bindP_eq_Inr tryP_eq_Inr)
  then obtain st st1 w2 w3 ending raws where c: "stage_chunks ?x h ending raws (part_start env (e_kind entry) so_far) w1 = (Inr st, w2)"
    and t: "feed_text ?x True [] st = Inr st1" and fin: "finish_part ?x h entry st1 w2 = (Inr refs, w3)"
    by (auto simp: stage_body_def Let_def bindP_eq_Inr raise_issue_def split: option.splits if_splits)
  have "part_within ?x (part_start env (e_kind entry) so_far)"
    by (auto simp: part_within_def part_start_def within_package_def html_start_def css_start_def)
  from finish_part_package [OF fin feed_text_package [OF t stage_chunks_package [OF c this]]] show ?thesis by simp
qed

lemma stage_entries_package:
  "stage_entries env limits kinds entries staged n refs w = (Inr up, v) \<Longrightarrow> refs \<subseteq> package_names kinds \<Longrightarrow>
     su_referenced up \<subseteq> package_names kinds"
proof (induction entries arbitrary: staged n refs w)
  case (Cons entry entries)
  then obtain f m rs u where f: "stage_entry env limits kinds entry n w = (Inr (f, m, rs), u)"
    and go: "stage_entries env limits kinds entries (staged @ [f]) m (refs \<union> rs) u = (Inr up, v)"
    by (auto simp: bindP_eq_Inr tryP_eq_Inr)
  show ?case by (rule Cons.IH [OF go]) (use Cons.prems(2) stage_entry_package [OF f] in blast)
qed auto

lemma stage_upload_files:
  assumes "stage_upload env limits parts w = (Inr up, v)"
  shows "\<exists>m. build_manifest (ue_unicode env) limits parts = Inr m \<and>
    list_all2 (\<lambda>e f. staged_ok env limits (e_part e) f (sg_files v ! s_handle f) \<and>
        s_kind f = e_kind e \<and> s_name f = e_name e \<and> s_media_type f = e_media_type e) m (su_files up) \<and>
    su_referenced up \<subseteq> package_names (map_of (map (\<lambda>e. (comparison_key (e_name e), e_kind e)) m))"
proof -
  from assms obtain m where m: "build_manifest (ue_unicode env) limits parts = Inr m"
    and s: "stage_entries env limits (map_of (map (\<lambda>e. (comparison_key (e_name e), e_kind e)) m)) m [] 0 {} w = (Inr up, v)"
    by (auto simp: stage_upload_def bindP_eq_Inr Let_def)
  have "list_all2 (\<lambda>e f. staged_ok env limits (e_part e) f (sg_files v ! s_handle f) \<and>
        s_kind f = e_kind e \<and> s_name f = e_name e \<and> s_media_type f = e_media_type e) ([] @ m) (su_files up)"
    using stage_entries_Inr [OF s staged_at_start, of "[]"] by simp
  then show ?thesis using m stage_entries_package [OF s] by auto
qed

end
