(* ===== verification/Package_References.thy ===== *)
theory Package_References
  imports References
begin

text \<open>
  The property of references within a package, and a sample package in which the document links its
  style sheet.
\<close>

section \<open>A document that links its style sheet\<close>

lemma sound_entry:
  assumes w: "sound_disk w" and src: "it_open (chunks (e_part entry)) = None"
      "it_items (chunks (e_part entry)) = [RawBytes bs]" "it_end (chunks (e_part entry)) = None"
    and x: "x = \<lparr>x_env = env, x_kinds = kinds, x_limits = limits, x_index = e_index entry\<rparr>"
    and bounds: "1 \<le> max_chunks_per_file limits" "int (length bs) \<le> max_file_bytes limits"
      "so_far + int (length bs) \<le> max_total_bytes limits" "p_size fin_st \<noteq> 0"
    and feeds: "feed_text x False bs (part_start env (e_kind entry) so_far) = Inr st"
      "feed_text x True [] (st\<lparr>p_count := 1, p_size := int (length bs), p_total := so_far + int (length bs),
         p_digest := p_digest st @ bs\<rparr>) = Inr fin_st"
    and fin: "\<And>h u. finish_part x h entry fin_st u = (Inr refs, u)"
  shows "\<exists>f v. stage_entry env limits kinds entry so_far w = (Inr (f, p_total fin_st, refs), v) \<and> sound_disk v"
proof -
  obtain h w1 where w1: "open_temporary w = (Inr h, w1)" "sound_disk w1" using sound_open [OF w] by blast
  obtain w2 where w2: "stage_write_all (e_index entry) h bs w1 = (Inr (), w2)" "sound_disk w2"
    using sound_write [OF w1(2)] by blast
  obtain w3 where w3: "touch_temporary w2 = (Inr (), w3)" "sound_disk w3" using sound_touch [OF w2(2)] by blast
  obtain w4 where w4: "touch_temporary w3 = (Inr (), w4)" "sound_disk w4" using sound_touch [OF w3(2)] by blast
  have start: "p_count (part_start env (e_kind entry) so_far) = 0" "p_size (part_start env (e_kind entry) so_far) = 0"
    "p_total (part_start env (e_kind entry) so_far) = so_far" by (simp_all add: part_start_def)
  have chunk: "stage_chunk x h (RawBytes bs) (part_start env (e_kind entry) so_far) w1 =
      (Inr (st\<lparr>p_count := 1, p_size := int (length bs), p_total := so_far + int (length bs),
         p_digest := p_digest st @ bs\<rparr>), w2)"
    using feeds(1) w2(1) bounds start by (simp add: stage_chunk_def Let_def x bindP_def pureP_def returnP_def)
  have "\<exists>f. stage_body x entry h so_far w1 = (Inr (f, p_total fin_st, refs), w4)"
    using chunk feeds(2) fin bounds(4) w3(1) w4(1) src
    by (simp add: stage_body_def Let_def bindP_def pureP_def returnP_def x)
  then show ?thesis using w1(1) w4(2)
    by (auto simp: stage_entry_def Let_def bindP_eq_Inr recodeP_Inr tryP_eq_Inr x)
qed

definition linking_env :: "unit upload_env" where
  "linking_env = sample_upload_env\<lparr>ue_feed := (\<lambda>p t. (if t = [] then [] else
     [StartTag (cps ''html'') [], StartTag (cps ''a'') [(cps ''href'', Some (cps ''b.css''))], EndTag (cps ''a''),
      EndTag (cps ''html'')], Some ()))\<rparr>"

definition linking_kinds :: artifact_kinds where
  "linking_kinds = [cps ''a.html'' \<mapsto> HTML, cps ''b.css'' \<mapsto> CSS]"

definition linking_context :: "nat \<Rightarrow> unit html_context" where
  "linking_context i = \<lparr>x_env = linking_env, x_kinds = linking_kinds, x_limits = default_limits, x_index = i\<rparr>"

lemma linking_env_simps [simp]:
  "ue_unicode linking_env = ascii_unicode" "ue_close linking_env p = ([], Some ())" "ue_rawdata linking_env p = []"
  "ue_feed linking_env p t = (if t = [] then [] else
     [StartTag (cps ''html'') [], StartTag (cps ''a'') [(cps ''href'', Some (cps ''b.css''))], EndTag (cps ''a''),
      EndTag (cps ''html'')], Some ())"
  by (simp_all add: linking_env_def sample_upload_env_def)

lemma linking_context_simps [simp]:
  "x_env (linking_context i) = linking_env" "x_kinds (linking_context i) = linking_kinds"
  "x_limits (linking_context i) = default_limits" "x_index (linking_context i) = i"
  by (simp_all add: linking_context_def)

lemma linked_name:
  "resolve_asset_reference linking_env (cps ''b.css'') linking_kinds i supporting_kinds False EXTERNAL_REFERENCE =
     Inr (cps ''b.css'')"
proof -
  have n: "normalize_logical_name ascii_unicode (cps ''b.css'') = Inr \<lparr>display = cps ''b.css'', comparison_key = cps ''b.css''\<rparr>"
    by (simp add: normalize_logical_name_def ascii_unicode_def cps_def ends_in_def rstrip_set_def
        reserved_windows_stems_def control_categories_def utf8_length_def utf8_width_def ascii_upper_def Let_def image_iff)
  have u: "urlsplit linking_env (cps ''b.css'') = Some \<lparr>su_scheme = [], su_netloc = [], su_path = cps ''b.css'',
      su_query = [], su_fragment = []\<rparr>"
    by (simp add: urlsplit_def Let_def has_scheme_def cps_def starts_with_def after_char_def before_char_def netloc_normal_def
        ascii_unicode_def is_ascii_def)
  have d: "Option.bind (unquote_to_bytes (cps ''b.css'')) decode_strict = Some (cps ''b.css'')"
    by (simp add: unquote_to_bytes_def decode_strict_def utf8_encode_def cps_def utf8_bytes_def utf8_decode_ascii
        del: utf8_decode.simps)
  have p: "\<not> re_search invalid_percent_escape (cps ''b.css'')"
    by (simp add: invalid_percent_escape_def cps_def re_eval)
  have k: "linking_kinds (cps ''b.css'') = Some CSS" by (simp add: linking_kinds_def)
  show ?thesis
    using n u d p k
    by (simp add: resolve_asset_reference_def Let_def supporting_kinds_def) (simp add: cps_def starts_with_def)
qed

lemma linked_document:
  "html_feed (linking_context 0) (cps ''<html></html>'') (html_start linking_env) =
      Inr ((html_start linking_env)\<lparr>h_root_seen := True, h_root_closed := True, h_references := {cps ''b.css''},
         h_token_count := 4, h_markup_tail := cps ''tml>''\<rparr>)"
proof -
  have c: "comment_state False (cps ''<html></html>'') = False"
    by (subst comment_state.simps) (simp add: starts_with_def cps_def)
  have f: "fold_text linking_env (cps ''html'') = cps ''html''" "fold_text linking_env (cps ''a'') = cps ''a''"
    "fold_text linking_env (cps ''href'') = cps ''href''" "fold_text linking_env (cps ''b.css'') = cps ''b.css''"
    by (simp_all add: cps_def fold_text_def ascii_unicode_def)
  have n: "cps ''html'' \<noteq> []" "cps ''html'' \<noteq> cps ''form''" "cps ''html'' \<noteq> cps ''head''" "cps ''html'' \<noteq> cps ''body''"
    "cps ''html'' \<noteq> cps ''link''" "cps ''html'' \<notin> set html_forbidden_elements" "cps ''html'' \<notin> set html_void_elements"
    "cps ''<html></html>'' \<noteq> []"
    "cps ''a'' \<noteq> cps ''form''" "cps ''a'' \<noteq> cps ''head''" "cps ''a'' \<noteq> cps ''body''" "cps ''a'' \<noteq> cps ''html''"
    "cps ''a'' \<noteq> cps ''link''" "cps ''a'' \<notin> set html_forbidden_elements" "cps ''a'' \<notin> set html_void_elements"
    "cps ''href'' \<noteq> cps ''manifest''" "cps ''href'' \<noteq> cps ''src''"
    "cps ''href'' \<notin> set form_url_attributes" "cps ''href'' \<noteq> cps ''srcset''" "cps ''href'' \<noteq> cps ''imagesrcset''"
    "cps ''href'' \<in> set url_attributes"
    by (simp_all add: cps_def html_forbidden_elements_def html_void_elements_def form_url_attributes_def url_attributes_def)
  have v: "cps ''b.css'' \<noteq> []" "\<not> list_ex is_space (cps ''b.css'')" "hd (cps ''b.css'') \<noteq> 35"
    "\<not> safe_data_url_for_kinds linking_env (cps ''b.css'') supporting_kinds"
    "\<not> starts_with (cps ''blob:'') (cps ''b.css'')" "supporting_kinds \<noteq> []" "set supporting_kinds \<noteq> {CSV}"
    by (simp_all add: safe_data_url_for_kinds_def safe_data_url_def starts_with_def supporting_kinds_def is_space_def
        re_eval)
  have kinds: "allowed_attribute_kinds (cps ''a'') (cps ''href'') = supporting_kinds"
    by (simp add: allowed_attribute_kinds_def)
  have attr: "validate_attributes (linking_context 0) (cps ''a'') [(cps ''href'', Some (cps ''b.css''))] st =
      Inr (st\<lparr>h_references := insert (cps ''b.css'') (h_references st)\<rparr>)" for st
    using n f v kinds linked_name
    by (simp add: validate_attributes_def validate_attribute_def inspect_url_attribute_def Let_def)
  have start: "start_tag (linking_context 0) (cps ''html'') [] False st =
      Inr (st\<lparr>h_token_count := h_token_count st + 1, h_root_seen := True, h_stack := [cps ''html'']\<rparr>)"
    if "h_stack st = []" "\<not> h_root_seen st" "\<not> h_root_closed st" "h_token_count st < 100" for st
    using that n f by (simp add: start_tag_def count_token_def default_limits_def Let_def check_placement_def
        validate_attributes_def)
  have link: "start_tag (linking_context 0) (cps ''a'') [(cps ''href'', Some (cps ''b.css''))] False st =
      Inr (st\<lparr>h_token_count := h_token_count st + 1, h_references := insert (cps ''b.css'') (h_references st),
         h_stack := [cps ''a'', cps ''html'']\<rparr>)"
    if "h_stack st = [cps ''html'']" "h_token_count st < 100" for st
    using that n f by (simp add: start_tag_def count_token_def default_limits_def Let_def check_placement_def attr)
  have stop: "end_tag (linking_context 0) tag st =
      Inr (st\<lparr>h_token_count := h_token_count st + 1, h_stack := stack, h_root_closed := (h_root_closed st \<or> stack = [])\<rparr>)"
    if "h_stack st = tag # stack" "h_token_count st < 100" "tag \<in> {cps ''a'', cps ''html''}"
       "(tag = cps ''html'') = (stack = [])" for st tag stack
    using that n f by (auto simp: end_tag_def count_token_def default_limits_def Let_def)
  have t: "last_chars 4 (cps ''<html></html>'') = cps ''tml>''" by (simp add: last_chars_def cps_def)
  show ?thesis
    using n start link stop c t
    by (simp add: html_feed_def run_parser_def track_unterminated_comment_def handle_event_def Let_def html_start_def)
qed

lemma linked_style: "css_inspect linking_env linking_kinds i (cps ''p{}'') {} = Inr {}"
proof -
  have d: "decode_css_escapes (cps ''p{}'') = cps ''p{}''" by (simp add: decode_css_escapes.simps cps_def)
  have n: "\<not> re_search (css_import W) (cps ''p{}'')" for W
    by (simp add: css_import_def re_eval)
  have u: "\<not> re_search (external_url_token W) (cps ''p{}'')" for W
    by (simp add: external_url_token_def re_eval)
  have f: "re_finditer (css_url W) (cps ''p{}'') = []" for W
    by (simp add: css_url_def re_eval scan.simps)
  show ?thesis by (simp add: css_inspect_def Let_def d n u f)
qed

lemma linked_feeds:
  assumes "x = linking_context i" "bs = cps ''<html></html>'' \<or> bs = cps ''p{}''"
  shows "decode_chunk False bs i decoder_start = Inr (bs, \<lparr>d_buffer = [], d_first = False\<rparr>)"
    "decode_chunk True [] i \<lparr>d_buffer = [], d_first = False\<rparr> = Inr ([], \<lparr>d_buffer = [], d_first = False\<rparr>)"
    "validate_decoded_text bs i = Inr ()" "validate_decoded_text [] i = Inr ()"
proof -
  have a: "\<forall>c \<in> set bs. c < 128" using assms(2) by (auto simp: cps_def)
  have "length bs \<ge> 3" "take 3 bs \<noteq> byte_order_mark" using assms(2) by (auto simp: cps_def byte_order_mark_def)
  then show "decode_chunk False bs i decoder_start = Inr (bs, \<lparr>d_buffer = [], d_first = False\<rparr>)"
    using utf8_decode_ascii [OF a, of False] by (simp add: decode_chunk_def decode_step_def decoder_start_def Let_def)
  show "decode_chunk True [] i \<lparr>d_buffer = [], d_first = False\<rparr> = Inr ([], \<lparr>d_buffer = [], d_first = False\<rparr>)"
    by (simp add: decode_chunk_def decode_step_def)
  show "validate_decoded_text bs i = Inr ()" "validate_decoded_text [] i = Inr ()"
    using assms(2) by (auto simp: validate_decoded_text_def cps_def)
qed

lemma linked_staged:
  "\<exists>up v. stage_upload linking_env default_limits sample_parts sample_disk = (Inr up, v) \<and> cps ''b.css'' \<in> su_referenced up"
proof -
  define html where "html = (html_start linking_env)\<lparr>h_root_seen := True, h_root_closed := True,
    h_references := {cps ''b.css''}, h_token_count := 4, h_markup_tail := cps ''tml>''\<rparr>"
  let ?d = "\<lparr>d_buffer = [], d_first = False\<rparr>"
  have e: "e_part (sample_entries ! 0) = \<lparr>filename = NameText (cps ''a.html''), chunks = \<lparr>it_open = None,
      it_items = [RawBytes (cps ''<html></html>'')], it_end = None\<rparr>, media_type = None\<rparr>" "e_index (sample_entries ! 0) = 0"
    "e_kind (sample_entries ! 0) = HTML"
    "e_part (sample_entries ! 1) = \<lparr>filename = NameText (cps ''b.css''), chunks = \<lparr>it_open = None,
      it_items = [RawBytes (cps ''p{}'')], it_end = None\<rparr>, media_type = None\<rparr>" "e_index (sample_entries ! 1) = 1"
    "e_kind (sample_entries ! 1) = CSS"
    by (simp_all add: sample_entries_def sample_part_def)
  have l: "length (cps ''<html></html>'') = 13" "length (cps ''p{}'') = 3" by (simp_all add: cps_def)
  have c: "comment_state False (cps ''tml>'') = False" "last_chars 4 (cps ''tml>'') = cps ''tml>''"
    by (subst comment_state.simps, simp_all add: starts_with_def cps_def last_chars_def)
  have again: "html_feed (linking_context 0) [] html = Inr html"
    using c by (simp add: html_feed_def run_parser_def track_unterminated_comment_def html_def html_start_def)
  have fin: "html_finish (linking_context 0) html = Inr {cps ''b.css''}"
    by (simp add: html_finish_def html_close_def run_parser_def html_def html_start_def css_finish_def css_start_def)
      (simp add: css_inspect_def decode_css_escapes.simps re_search_def re_finditer_def scan.simps css_import_def
      external_url_token_def css_url_def match_here_def lit_def word_ci_def lit_ci_def spaces_def is_in_def
      first_char_def cps_def)
  have disk: "sound_disk sample_disk" by (simp add: sound_disk_def sample_disk_def)
  have one: "\<exists>f v. stage_entry linking_env default_limits linking_kinds (sample_entries ! 0) 0 sample_disk =
      (Inr (f, 13, {cps ''b.css''}), v) \<and> sound_disk v"
  proof -
    let ?st = "(part_start linking_env HTML 0)\<lparr>p_decoder := Some ?d, p_html := Some html\<rparr>"
    let ?st1 = "?st\<lparr>p_count := 1, p_size := 13, p_total := 13, p_digest := cps ''<html></html>''\<rparr>"
    have k: "HTML \<in> set text_kinds" by (simp add: text_kinds_def)
    have s: "feed_text (linking_context 0) False (cps ''<html></html>'') (part_start linking_env HTML 0) = Inr ?st"
      using linked_document linked_feeds [of _ 0 "cps ''<html></html>''"] k
      by (simp add: feed_text_def part_start_def html_def)
    have t: "feed_text (linking_context 0) True [] ?st1 = Inr ?st1"
      using again linked_feeds [of _ 0 "cps ''<html></html>''"] by (simp add: feed_text_def part_start_def)
    have f: "finish_part (linking_context 0) h (sample_entries ! 0) ?st1 u = (Inr {cps ''b.css''}, u)" for h u
      using fin by (simp add: finish_part_def pureP_def)
    show ?thesis
      using sound_entry [where w = sample_disk and entry = "sample_entries ! 0" and bs = "cps ''<html></html>''" and x = "linking_context 0"
          and env = linking_env and kinds = linking_kinds and limits = default_limits and so_far = 0 and st = ?st
          and fin_st = ?st1 and refs = "{cps ''b.css''}"] disk s t f l e
      by (simp add: linking_context_def default_limits_def part_start_def)
  qed
  have two: "\<exists>f v. stage_entry linking_env default_limits linking_kinds (sample_entries ! 1) 13 w =
      (Inr (f, 16, {}), v) \<and> sound_disk v" if "sound_disk w" for w
  proof -
    let ?st = "(part_start linking_env CSS 13)\<lparr>p_decoder := Some ?d, p_css := Some \<lparr>css_references = {}, css_tail = cps ''p{}''\<rparr>\<rparr>"
    let ?st1 = "?st\<lparr>p_count := 1, p_size := 3, p_total := 16, p_digest := cps ''p{}''\<rparr>"
    have k: "CSS \<in> set text_kinds" "cps ''p{}'' \<noteq> []" "last_chars 4096 (cps ''p{}'') = cps ''p{}''"
      by (simp_all add: text_kinds_def cps_def last_chars_def)
    have s: "feed_text (linking_context 1) False (cps ''p{}'') (part_start linking_env CSS 13) = Inr ?st"
      using linked_style linked_feeds [of _ 1 "cps ''p{}''"] k
      by (simp add: feed_text_def part_start_def css_feed_def css_start_def)
    have t: "feed_text (linking_context 1) True [] ?st1 = Inr ?st1"
      using linked_feeds [of _ 1 "cps ''p{}''"] by (simp add: feed_text_def part_start_def css_feed_def)
    have f: "finish_part (linking_context 1) h (sample_entries ! 1) ?st1 u = (Inr {}, u)" for h u
      using linked_style by (simp add: finish_part_def pureP_def css_finish_def part_start_def)
    show ?thesis
      using sound_entry [where w = w and entry = "sample_entries ! 1" and bs = "cps ''p{}''" and x = "linking_context 1"
          and env = linking_env and kinds = linking_kinds and limits = default_limits and so_far = 13 and st = ?st
          and fin_st = ?st1 and refs = "{}"] that s t f l e
      by (simp add: linking_context_def default_limits_def part_start_def)
  qed
  have m: "build_manifest (ue_unicode linking_env) default_limits sample_parts = Inr [sample_entries ! 0, sample_entries ! 1]"
    using sample_manifest by (simp add: sample_entries_def)
  have kinds: "map_of (map (\<lambda>e. (comparison_key (e_name e), e_kind e)) [sample_entries ! 0, sample_entries ! 1]) = linking_kinds"
    by (simp add: sample_entries_def linking_kinds_def cps_def fun_eq_iff)
  obtain f1 v1 where f1: "stage_entry linking_env default_limits linking_kinds (sample_entries ! 0) 0 sample_disk =
      (Inr (f1, 13, {cps ''b.css''}), v1)" "sound_disk v1" using one by blast
  obtain f2 v2 where f2: "stage_entry linking_env default_limits linking_kinds (sample_entries ! 1) 13 v1 =
      (Inr (f2, 16, {}), v2)" using two [OF f1(2)] by blast
  have "stage_entries linking_env default_limits linking_kinds [sample_entries ! 0, sample_entries ! 1] [] 0 {} sample_disk =
      (Inr \<lparr>su_files = [f1, f2], su_total_size = 16, su_referenced = {cps ''b.css''}\<rparr>, v2)"
    by (simp add: bindP_def tryP_def returnP_def f1(1) f2 [unfolded One_nat_def])
  moreover have "stage_upload linking_env default_limits sample_parts sample_disk =
      stage_entries linking_env default_limits linking_kinds [sample_entries ! 0, sample_entries ! 1] [] 0 {} sample_disk"
    unfolding stage_upload_def bindP_def pureP_def m by (simp only: prod.case sum.case Let_def kinds)
  ultimately show ?thesis by simp
qed

section \<open>References within the package\<close>

text \<open>
  C32: Every name an accepted upload refers to, from its document, its style sheets or its code, is the
  name of a supporting file of the same upload.
\<close>

theorem references_stay_in_package:
  assumes "stage_upload env limits parts w = (Inr up, v)" "k \<in> su_referenced up"
  shows "\<exists>f \<in> set (su_files up). comparison_key (s_name f) = k \<and> s_kind f \<in> {CSV, CSS, IMAGE, FONT}"
proof -
  obtain m where m: "build_manifest (ue_unicode env) limits parts = Inr m \<and>
      list_all2 (\<lambda>e f. staged_ok env limits (e_part e) f (sg_files v ! s_handle f) \<and>
        s_kind f = e_kind e \<and> s_name f = e_name e \<and> s_media_type f = e_media_type e) m (su_files up) \<and>
      su_referenced up \<subseteq> package_names (map_of (map (\<lambda>e. (comparison_key (e_name e), e_kind e)) m))"
    using stage_upload_files [OF assms(1)] by (rule exE)
  note rel = m [THEN conjunct2, THEN conjunct1] and sub = m [THEN conjunct2, THEN conjunct2]
  from sub obtain kind where kind: "kind \<in> set supporting_kinds"
    "map_of (map (\<lambda>e. (comparison_key (e_name e), e_kind e)) m) k = Some kind"
    using assms(2) by (auto simp: package_names_def)
  from map_of_SomeD [OF kind(2)] obtain e where e: "e \<in> set m" "comparison_key (e_name e) = k" "e_kind e = kind" by auto
  then obtain i where i: "i < length m" "m ! i = e" by (auto simp: in_set_conv_nth)
  then have "su_files up ! i \<in> set (su_files up)" "s_kind (su_files up ! i) = kind" "s_name (su_files up ! i) = e_name e"
    using rel e by (auto simp: list_all2_conv_all_nth)
  moreover have "kind \<in> {CSV, CSS, IMAGE, FONT}" using kind(1) by (auto simp: supporting_kinds_def)
  ultimately show ?thesis using e(2) by (intro bexI [of _ "su_files up ! i"]) simp_all
qed

lemma references_stay_in_package_witness:
  "\<exists>up v. stage_upload linking_env default_limits sample_parts sample_disk = (Inr up, v) \<and>
     (\<exists>f \<in> set (su_files up). comparison_key (s_name f) = cps ''b.css'' \<and> s_kind f \<in> {CSV, CSS, IMAGE, FONT})"
proof -
  obtain up v where u: "stage_upload linking_env default_limits sample_parts sample_disk = (Inr up, v)"
    "cps ''b.css'' \<in> su_referenced up" using linked_staged by blast
  from references_stay_in_package [OF u] u(1) show ?thesis by blast
qed

end
