(* ===== verification/Encoded_Names.thy ===== *)
theory Encoded_Names
  imports Decoding Package_References
begin

text \<open>
  The percent encoding of a file name is a reference to that file: nothing on the way from an attribute
  to the table of the package, the splitting of the URL included, changes the name.
\<close>

section \<open>Percent encoding\<close>

definition hex_digit :: "nat \<Rightarrow> nat" where
  "hex_digit n = (if n < 10 then 48 + n else 55 + n)"

definition percent_byte :: "nat \<Rightarrow> text" where
  "percent_byte b = [37, hex_digit (b div 16), hex_digit (b mod 16)]"

definition percent_encoded :: "text \<Rightarrow> text" where
  "percent_encoded bs = concat (map percent_byte bs)"

lemma hex_digit_facts:
  "n < 16 \<Longrightarrow> hex_char (hex_digit n)" "n < 16 \<Longrightarrow> hex_value (hex_digit n) = n" "48 \<le> hex_digit n"
  "n < 16 \<Longrightarrow> hex_digit n \<le> 70" "n < 16 \<Longrightarrow> hex_digit n \<notin> {58, 63}" "hex_digit n \<noteq> 37"
  by (auto simp: hex_digit_def hex_char_def ascii_digit_def hex_value_def)

lemma percent_encoded_simps [simp]:
  "percent_encoded [] = []"
  "percent_encoded (b # bs) = 37 # hex_digit (b div 16) # hex_digit (b mod 16) # percent_encoded bs"
  by (simp_all add: percent_encoded_def percent_byte_def)

lemma nibbles: "b < 256 \<Longrightarrow> b div 16 < 16" "b mod 16 < (16::nat)"
  by simp_all

lemma unquote_encoded: "\<forall>b \<in> set bs. b < 256 \<Longrightarrow> unquote_bytes (percent_encoded bs) = bs"
proof (induction bs)
  case (Cons b bs)
  then have "16 * hex_value (hex_digit (b div 16)) + hex_value (hex_digit (b mod 16)) = b"
    by (simp add: hex_digit_facts(2) nibbles)
  then show ?case using Cons by (simp add: hex_digit_facts(1) nibbles)
qed simp

lemma encoded_chars:
  assumes "\<forall>b \<in> set bs. b < 256" "c \<in> set (percent_encoded bs)"
  shows "(c = 37 \<or> 48 \<le> c) \<and> c \<le> 70 \<and> c \<noteq> 58 \<and> c \<noteq> 63"
  using assms
proof (induction bs)
  case (Cons b bs)
  then have "c = 37 \<or> c = hex_digit (b div 16) \<or> c = hex_digit (b mod 16) \<or> c \<in> set (percent_encoded bs)" "b < 256"
    by auto
  then consider "c = 37" | n where "n < 16" "c = hex_digit n" | "c \<in> set (percent_encoded bs)"
    using nibbles [of b] by blast
  then show ?case
  proof cases
    case 2
    then show ?thesis using hex_digit_facts(3-5) [of n] by simp
  qed (use Cons in auto)
qed simp

lemma encoded_escapes_valid: "\<forall>b \<in> set bs. b < 256 \<Longrightarrow> \<not> re_search invalid_percent_escape (percent_encoded bs)"
proof -
  have "\<not> occurs invalid_percent_escape prev (percent_encoded bs)" if "\<forall>b \<in> set bs. b < 256" for prev
    using that
  proof (induction bs arbitrary: prev)
    case (Cons b bs)
    then show ?case
      by (simp add: invalid_percent_escape_def match_here_def lit_def hex_digit_facts nibbles)
  qed (simp add: invalid_percent_escape_def match_here_def lit_def)
  then show "\<forall>b \<in> set bs. b < 256 \<Longrightarrow> ?thesis" by (simp add: re_search_def)
qed

lemma urlsplit_encoded:
  assumes "\<forall>b \<in> set bs. b < 256"
  shows "urlsplit env (percent_encoded bs) =
    Some \<lparr>su_scheme = [], su_netloc = [], su_path = percent_encoded bs, su_query = [], su_fragment = []\<rparr>"
proof -
  let ?s = "percent_encoded bs"
  have c: "c \<notin> {9, 10, 13, 58, 63, 35, 91, 93, 47} \<and> \<not> c \<le> 32" if "c \<in> set ?s" for c
    using encoded_chars [OF assms that] by auto
  have "dropWhile (\<lambda>c. c \<le> 32) ?s = ?s" using c by (cases ?s) auto
  moreover have "filter (\<lambda>c. c \<notin> {9, 13, 10}) ?s = ?s" using c by (auto simp: filter_id_conv)
  moreover have "\<not> has_scheme ?s" using c by (auto simp: has_scheme_def)
  moreover have "\<not> starts_with [47, 47] ?s" using c by (cases ?s) (auto simp: starts_with_def)
  moreover have t: "takeWhile (\<lambda>x. x \<noteq> 35) ?s = ?s" "dropWhile (\<lambda>x. x \<noteq> 35) ?s = []"
    "takeWhile (\<lambda>x. x \<noteq> 63) ?s = ?s" "dropWhile (\<lambda>x. x \<noteq> 63) ?s = []"
    using c by (auto simp: takeWhile_eq_all_conv dropWhile_eq_Nil_conv)
  moreover have "netloc_normal (ue_unicode env) []" by (simp add: netloc_normal_def is_ascii_def Let_def)
  ultimately show ?thesis by (simp add: urlsplit_def Let_def before_char_def after_char_def t)
qed

lemma encode_encoded: "\<forall>b \<in> set bs. b < 256 \<Longrightarrow> unquote_to_bytes (percent_encoded bs) = Some bs"
proof -
  assume a: "\<forall>b \<in> set bs. b < 256"
  have "utf8_encode (percent_encoded bs) = Some (percent_encoded bs)"
  proof -
    have s: "\<forall>c \<in> set (percent_encoded bs). c < 128" using encoded_chars [OF a] by fastforce
    have "concat (map utf8_bytes v) = v" if "\<forall>c \<in> set v. c < 128" for v
      using that by (induction v) (simp_all add: utf8_bytes_def)
    then show ?thesis using s by (auto simp: utf8_encode_def list_ex_iff)
  qed
  then show ?thesis using unquote_encoded [OF a] by (simp add: unquote_to_bytes_def)
qed

section \<open>References by encoded names\<close>

lemma utf8_bytes_bytes:
  assumes "utf8_encode v = Some bs" "\<forall>c \<in> set v. c < 1114112"
  shows "\<forall>b \<in> set bs. b < 256"
proof -
  have m: "128 + x mod 64 < 256" for x :: nat
  proof -
    have "x mod 64 < 64" by simp
    then show ?thesis by linarith
  qed
  have "b < 256" if "c < 1114112" "b \<in> set (utf8_bytes c)" for b c
    using that m by (auto simp: utf8_bytes_def less_mult_imp_div_less split: if_splits)
  then show ?thesis using assms by (fastforce simp: utf8_encode_def split: if_splits)
qed

text \<open>
  C36: The percent encoding of the name of a file of the package resolves to that file, exactly when the
  name has no percent sign, slash or backslash and is not a dot name, the place admits the kind of the
  file and, in a data call, the name ends in \<open>.csv\<close>; in every other case it is refused as invalid.
\<close>

theorem encoded_name_resolves:
  assumes "utf8_encode v = Some bs" "\<forall>c \<in> set v. c < 1114112" "v \<noteq> []"
    and named: "normalize_logical_name (ue_unicode env) v = Inr n" "kinds (comparison_key n) = Some k"
  shows "resolve_asset_reference env (percent_encoded bs) kinds index allowed csv f =
    (if 37 \<in> set v \<or> 47 \<in> set v \<or> 92 \<in> set v \<or> v = cps ''.'' \<or> v = cps ''..'' \<or> k \<notin> set allowed
        \<or> (csv \<and> \<not> re_search csv_suffix v)
     then raise_issue (if csv then INVALID_CSV_REFERENCE else INVALID_ASSET_REFERENCE) index
     else Inr (comparison_key n))"
proof -
  have bytes: "\<forall>b \<in> set bs. b < 256" by (rule utf8_bytes_bytes [OF assms(1,2)])
  have again: "decode_strict bs = Some v" by (rule decode_strict_encoded [OF assms(1,2)])
  have "bs \<noteq> []"
  proof
    assume "bs = []"
    then show False using again assms(3) by (simp add: decode_strict_def)
  qed
  then obtain b bs' where b: "bs = b # bs'" by (cases bs) auto
  let ?s = "percent_encoded bs"
  have s: "?s \<noteq> []" "hd ?s = 37" "\<not> starts_with [47, 47] ?s" "\<not> starts_with (cps ''./'') ?s"
    by (simp_all add: b starts_with_def cps_def)
  have no: "92 \<notin> set ?s" "63 \<notin> set ?s" "35 \<notin> set ?s"
    using encoded_chars [OF bytes, of 92] encoded_chars [OF bytes, of 63] encoded_chars [OF bytes, of 35] by auto
  show ?thesis
    using s no assms(3) encoded_escapes_valid [OF bytes] urlsplit_encoded [OF bytes, of env] encode_encoded [OF bytes] again named
    by (auto simp: resolve_asset_reference_def Let_def)
qed

lemma encoded_name_resolves_witness:
  "resolve_asset_reference sample_upload_env (percent_encoded (cps ''b.css'')) [cps ''b.css'' \<mapsto> CSS] 0 [CSS] False
     EXTERNAL_REFERENCE = Inr (cps ''b.css'') \<and>
   resolve_asset_reference sample_upload_env (percent_encoded (cps ''b%.css'')) [cps ''b%.css'' \<mapsto> CSS] 0 [CSS] False
     EXTERNAL_REFERENCE = raise_issue INVALID_ASSET_REFERENCE 0"
proof -
  have e: "utf8_encode (cps ''b.css'') = Some (cps ''b.css'')" "utf8_encode (cps ''b%.css'') = Some (cps ''b%.css'')"
    by (simp_all add: utf8_encode_def utf8_bytes_def cps_def)
  have n: "normalize_logical_name (ue_unicode sample_upload_env) (cps ''b.css'') =
      Inr \<lparr>display = cps ''b.css'', comparison_key = cps ''b.css''\<rparr>"
    "normalize_logical_name (ue_unicode sample_upload_env) (cps ''b%.css'') =
      Inr \<lparr>display = cps ''b%.css'', comparison_key = cps ''b%.css''\<rparr>"
    by (simp_all add: normalize_logical_name_def sample_upload_env_def ascii_unicode_def cps_def ends_in_def rstrip_set_def
        reserved_windows_stems_def control_categories_def utf8_length_def utf8_width_def ascii_upper_def Let_def image_iff)
  have v: "\<forall>c \<in> set (cps ''b.css''). c < 1114112" "\<forall>c \<in> set (cps ''b%.css''). c < 1114112"
    "cps ''b.css'' \<noteq> []" "cps ''b%.css'' \<noteq> []"
    by (simp_all add: cps_def)
  show ?thesis
    using encoded_name_resolves [OF e(1) v(1,3) n(1), of "[cps ''b.css'' \<mapsto> CSS]" CSS 0 "[CSS]" False EXTERNAL_REFERENCE]
      encoded_name_resolves [OF e(2) v(2,4) n(2), of "[cps ''b%.css'' \<mapsto> CSS]" CSS 0 "[CSS]" False EXTERNAL_REFERENCE]
    by (simp add: cps_def)
qed

end
