(* ===== verification/Tables.thy ===== *)
theory Tables
  imports Upload_Samples
begin

text \<open>
  An accepted CSV file is a table: its records, read by the reference reader below, have one width and
  stay within the limits. The reference reader collects all records and knows no limits but the one of
  the reader itself.
\<close>

section \<open>All records of a file\<close>

function csv_table :: "int \<Rightarrow> text list \<Rightarrow> (text list \<times> int) list option" where
  "csv_table field_limit ls =
     (case csv_record field_limit ls reader_start 0 of
        CsvError \<Rightarrow> None
      | CsvEnd \<Rightarrow> Some []
      | Row row rest n \<Rightarrow> map_option (Cons (row, n)) (csv_table field_limit rest))"
  by pat_completeness auto
termination
  by (relation "measure (\<lambda>(field_limit, ls). length ls)") (auto dest: csv_record_shorter)

declare csv_table.simps [simp del]

definition row_within :: "upload_limits \<Rightarrow> text list \<times> int \<Rightarrow> bool" where
  "row_within limits r \<longleftrightarrow>
     snd r \<le> max_csv_record_bytes limits \<and> int (length (fst r)) \<le> max_csv_fields limits \<and>
     (\<forall>f \<in> set (fst r). encoded_length f \<le> max_csv_field_bytes limits)"

definition one_width :: "int option \<Rightarrow> (text list \<times> int) list \<Rightarrow> bool" where
  "one_width w rows \<longleftrightarrow> (\<exists>n. (\<forall>k. w = Some k \<longrightarrow> n = k) \<and> (\<forall>r \<in> set rows. fst r \<noteq> [] \<longrightarrow> int (length (fst r)) = n))"

definition some_value :: "(text list \<times> int) list \<Rightarrow> bool" where
  "some_value rows \<longleftrightarrow> (\<exists>r \<in> set rows. \<exists>f \<in> set (fst r). f \<noteq> [])"

lemma csv_row_Inr:
  assumes "csv_row limits index row n p = Inr p'"
  shows "row_within limits (row, n)" "cv_rows p' = cv_rows p + 1" "cv_rows p' \<le> max_csv_rows limits"
    "one_width (cv_expected p') rows \<Longrightarrow> one_width (cv_expected p) ((row, n) # rows)"
    "cv_saw_value p' \<longleftrightarrow> cv_saw_value p \<or> some_value [(row, n)]"
proof -
  have c: "cv_rows p + 1 \<le> max_csv_rows limits" "n \<le> max_csv_record_bytes limits"
    "int (length row) \<le> max_csv_fields limits"
    "row \<noteq> [] \<Longrightarrow> cv_expected p \<noteq> None \<Longrightarrow> cv_expected p = Some (int (length row))"
    "\<not> list_ex (\<lambda>f. encoded_length f > max_csv_field_bytes limits) row"
    and p': "cv_rows p' = cv_rows p + 1" "cv_saw_value p' = (cv_saw_value p \<or> list_ex (\<lambda>f. f \<noteq> []) row)"
      "cv_expected p' = (if row \<noteq> [] \<and> cv_expected p = None then Some (int (length row)) else cv_expected p)"
    using assms by (auto simp: csv_row_def Let_def raise_issue_def split: if_splits)
  show "row_within limits (row, n)" using c by (auto simp: row_within_def list_ex_iff)
  show "cv_rows p' = cv_rows p + 1" "cv_rows p' \<le> max_csv_rows limits" using c(1) p' by simp_all
  show "cv_saw_value p' \<longleftrightarrow> cv_saw_value p \<or> some_value [(row, n)]" using p' by (auto simp: some_value_def list_ex_iff)
  show "one_width (cv_expected p) ((row, n) # rows)" if "one_width (cv_expected p') rows"
    using that c(4) p'(3) by (cases "cv_expected p"; cases "row = []") (auto simp: one_width_def)
qed

lemma csv_rows_Inr:
  "csv_rows limits index field_limit ls p = Inr p' \<Longrightarrow>
     \<exists>rows. csv_table field_limit ls = Some rows \<and> (\<forall>r \<in> set rows. row_within limits r) \<and>
       (rows \<noteq> [] \<longrightarrow> cv_rows p + int (length rows) \<le> max_csv_rows limits) \<and> one_width (cv_expected p) rows \<and>
       (cv_saw_value p' \<longleftrightarrow> cv_saw_value p \<or> some_value rows)"
proof (induction limits index field_limit ls p rule: csv_rows.induct)
  case (1 limits index field_limit ls p)
  show ?case
  proof (cases "csv_record field_limit ls reader_start 0")
    case (Row row rest n)
    then obtain p1 where p1: "csv_row limits index row n p = Inr p1" "csv_rows limits index field_limit rest p1 = Inr p'"
      using "1.prems" by (subst (asm) csv_rows.simps) (auto split: sum.splits)
    from "1.IH" [OF Row p1] obtain rows where rows: "csv_table field_limit rest = Some rows"
      "\<forall>r \<in> set rows. row_within limits r" "rows \<noteq> [] \<longrightarrow> cv_rows p1 + int (length rows) \<le> max_csv_rows limits"
      "one_width (cv_expected p1) rows" "cv_saw_value p' \<longleftrightarrow> cv_saw_value p1 \<or> some_value rows" by blast
    note row = csv_row_Inr [OF p1(1)]
    have "csv_table field_limit ls = Some ((row, n) # rows)" using Row rows(1) by (subst csv_table.simps) simp
    moreover have "cv_rows p + int (length ((row, n) # rows)) \<le> max_csv_rows limits"
      using rows(3) row(2,3) by (cases rows) auto
    moreover have "cv_saw_value p' \<longleftrightarrow> cv_saw_value p \<or> some_value ((row, n) # rows)"
      using rows(5) row(5) by (auto simp: some_value_def)
    ultimately show ?thesis using rows(2) row(1) row(4) [OF rows(4)] by auto
  next
    case CsvError
    then show ?thesis using "1.prems" by (subst (asm) csv_rows.simps) (simp add: raise_issue_def)
  next
    case CsvEnd
    then have "p' = p" using "1.prems" by (subst (asm) csv_rows.simps) simp
    moreover have "csv_table field_limit ls = Some []" using CsvEnd by (subst csv_table.simps) simp
    moreover have "one_width w []" for w by (cases w) (auto simp: one_width_def)
    ultimately show ?thesis by (simp add: some_value_def)
  qed
qed

text \<open>
  C37: An accepted CSV file is UTF-8 and reads as a table: at most the limit of records, all records that
  are not empty as wide as each other and within the field limit, every field and every record within its
  limit in bytes, and at least one field with a value.
\<close>

theorem accepted_csv_is_a_table:
  assumes "check_csv env limits index content = Inr ()"
  shows "\<exists>t d rows n. decode_step True content decoder_start = Some (t, d)
    \<and> csv_table (max 1 (max (max_file_bytes limits) (max_csv_field_bytes limits))) (text_lines t) = Some rows
    \<and> int (length rows) \<le> max_csv_rows limits
    \<and> (\<forall>(row, bytes) \<in> set rows.
         (row \<noteq> [] \<longrightarrow> int (length row) = n) \<and> int (length row) \<le> max_csv_fields limits
         \<and> bytes \<le> max_csv_record_bytes limits \<and> (\<forall>f \<in> set row. encoded_length f \<le> max_csv_field_bytes limits))
    \<and> (\<exists>(row, bytes) \<in> set rows. \<exists>f \<in> set row. f \<noteq> [])"
proof -
  let ?limit = "max 1 (max (max_file_bytes limits) (max_csv_field_bytes limits))"
  from assms obtain t d p where d: "decode_step True content decoder_start = Some (t, d)"
    and p: "csv_rows limits index ?limit (text_lines t) csv_start = Inr p" "cv_saw_value p"
    by (auto simp: check_csv_def bindE_eq_Inr raise_issue_def split: option.splits if_splits)
  from csv_rows_Inr [OF p(1)] obtain rows where rows: "csv_table ?limit (text_lines t) = Some rows"
    "\<forall>r \<in> set rows. row_within limits r" "rows \<noteq> [] \<longrightarrow> int (length rows) \<le> max_csv_rows limits"
    "one_width None rows" "some_value rows"
    using p(2) by (auto simp: csv_start_def)
  from rows(4) obtain n where n: "\<forall>r \<in> set rows. fst r \<noteq> [] \<longrightarrow> int (length (fst r)) = n"
    by (auto simp: one_width_def)
  have size: "int (length rows) \<le> max_csv_rows limits" using rows(3,5) by (auto simp: some_value_def)
  have table: "\<forall>(row, bytes) \<in> set rows. (row \<noteq> [] \<longrightarrow> int (length row) = n) \<and> int (length row) \<le> max_csv_fields limits
      \<and> bytes \<le> max_csv_record_bytes limits \<and> (\<forall>f \<in> set row. encoded_length f \<le> max_csv_field_bytes limits)"
    using rows(2) n by (auto simp: row_within_def)
  have "\<exists>(row, bytes) \<in> set rows. \<exists>f \<in> set row. f \<noteq> []" using rows(5) by (force simp: some_value_def)
  with d rows(1) size table show ?thesis by (intro exI conjI)
qed

lemma accepted_csv_is_a_table_witness:
  "\<exists>t d rows. decode_step True [97, 44, 98, 10, 49, 44] decoder_start = Some (t, d)
    \<and> csv_table (25 * 1024 * 1024) (text_lines t) = Some rows \<and> length rows \<le> 100000
    \<and> (\<exists>(row, bytes) \<in> set rows. \<exists>f \<in> set row. f \<noteq> [])"
proof -
  have d: "decode_step True [97, 44, 98, 10, 49, 44] decoder_start =
      Some ([97, 44, 98, 10, 49, 44], \<lparr>d_buffer = [], d_first = False\<rparr>)"
    by (simp add: decode_step_def decoder_start_def utf8_decode_ascii byte_order_mark_def Let_def del: utf8_decode.simps)
  have r: "csv_rows default_limits 0 (25 * 1024 * 1024) [[97, 44, 98, 10], [49, 44]] csv_start =
      Inr \<lparr>cv_rows = 2, cv_expected = Some 2, cv_saw_value = True, cv_prefix = [97, 10, 98, 49, 10]\<rparr>"
    by (simp add: csv_rows.simps reader_start_def csv_start_def reader_char_def is_newline_def start_field_char_def
        add_char_def save_field_def encoded_length_def utf8_width_def csv_row_def default_limits_def Let_def)
  have n: "\<not> re_search (html_looks_like (is_word sample_upload_env)) [97, 10, 98, 49, 10]"
    by (simp add: html_looks_like_def re_eval)
  have "max 1 (max (max_file_bytes default_limits) (max_csv_field_bytes default_limits)) = 25 * 1024 * 1024"
    by (simp add: default_limits_def)
  then have a: "check_csv sample_upload_env default_limits 0 [97, 44, 98, 10, 49, 44] = Inr ()"
    using d r n by (simp add: check_csv_def)
  show ?thesis using accepted_csv_is_a_table [OF a] by (simp add: default_limits_def) blast
qed

end
