(* ===== verification/Code_Calls.thy ===== *)
theory Code_Calls
  imports Upload_Samples
begin

text \<open>
  Inline code calls the data functions with a literal file name or is refused, except in the reach of a
  literal call: the scan accepts any other call that begins less than 4096 characters behind one.
\<close>

section \<open>Scanning a padded script\<close>

text \<open>
  The script \<open>fetch("a.csv"),\<close> followed by \<open>n\<close> spaces and \<open>fetch(x)\<close>. The lemmas carry a scan over the
  literal call, over the spaces and over the computed call; what follows a part stays a variable.
\<close>

definition literal_call :: "text" where
  "literal_call = cps ''fetch(\"a.csv\")''"

definition dynamic_call :: "text" where
  "dynamic_call = cps ''fetch(x)''"

definition padded_script :: "nat \<Rightarrow> text" where
  "padded_script n = literal_call @ 44 # replicate n 32 @ dynamic_call"

lemmas re_eval_numerals = match_here_def lit_def lit_ci_def word_ci_def
  spaces_def re_fold_def [of "numeral n" for n] first_char_def is_in_def at_end_def consumed_def cps_def
  ascii_letter_def ascii_digit_def hex_char_def alnum_ci_def is_space_def [of "numeral n" for n]

lemma scan_Cons:
  "scan re skip i prev (c # cs) =
     (case (if skip = 0 then match_here re (prev, c # cs) else None) of
        None \<Rightarrow> scan re (skip - 1) (i + 1) (Some c) cs
      | Some ((q, t), g) \<Rightarrow>
          \<lparr>f_start = i, f_end = i + (length (c # cs) - length t), f_group = g\<rparr> #
          scan re (length (c # cs) - length t - 1) (i + 1) (Some c) cs)"
  by (subst scan.simps) (simp split: option.split)

lemma scan_Nil: "match_here re (prev, []) = None \<Longrightarrow> scan re k i prev [] = []"
  by (subst scan.simps) simp

lemma scan_spaces:
  assumes "\<And>p t. p \<in> {Some 44, Some 32} \<Longrightarrow> match_here re (p, 32 # t) = None" "p \<in> {Some 44, Some 32}"
  shows "scan re 0 i p (replicate n 32 @ t) = scan re 0 (i + n) (if n = 0 then p else Some 32) t"
  using assms(2)
proof (induction n arbitrary: i p)
  case (Suc n)
  then show ?case using assms(1) [OF Suc.prems] by (simp add: scan_Cons)
qed simp

lemma occurs_spaces:
  assumes "\<And>p t. p \<in> {Some 44, Some 32} \<Longrightarrow> match_here re (p, 32 # t) = None" "p \<in> {Some 44, Some 32}"
  shows "occurs re p (replicate n 32 @ t) = occurs re (if n = 0 then p else Some 32) t"
  using assms(2)
proof (induction n arbitrary: p)
  case (Suc n)
  then show ?case using assms(1) [OF Suc.prems] by simp
qed simp

text \<open>An environment whose alphanumeric characters are the usual ones among ASCII.\<close>

definition ascii_words :: "('p, 'x) upload_env_scheme \<Rightarrow> bool" where
  "ascii_words env \<longleftrightarrow> (\<forall>c < 128. ue_alnum env c \<longleftrightarrow> alnum_ci c)"

lemma ascii_word:
  "ascii_words env \<Longrightarrow> (numeral n :: nat) < 128 \<Longrightarrow>
     is_word env (numeral n) \<longleftrightarrow> numeral n = (95::nat) \<or> alnum_ci (numeral n)"
  by (auto simp: ascii_words_def is_word_def)

lemma take_first: "take 1 (x # xs) = [x]"
  by simp

section \<open>The searches\<close>

lemma space_no_match:
  assumes "ascii_words env" "p \<in> {Some 44, Some 32}"
  shows "match_here (external_url_token (is_word env)) (p, 32 # t) = None"
    "match_here (dynamic_network (is_word env)) (p, 32 # t) = None"
    "match_here (csv_call (is_word env)) (p, 32 # t) = None"
    "match_here (csv_template_call (is_word env)) (p, 32 # t) = None"
    "match_here (fetch_call (is_word env)) (p, 32 # t) = None"
    "match_here (d3_csv (is_word env)) (p, 32 # t) = None"
  using assms(2)
  by (auto simp: external_url_token_def dynamic_network_def csv_call_def csv_callee_def csv_template_call_def
      fetch_call_def d3_csv_def re_eval_numerals ascii_word [OF assms(1)])

lemma literal_searched:
  assumes "ascii_words env"
  shows "occurs (external_url_token (is_word env)) None (literal_call @ 44 # t) =
      occurs (external_url_token (is_word env)) (Some 44) t"
    "occurs (dynamic_network (is_word env)) None (literal_call @ 44 # t) = occurs (dynamic_network (is_word env)) (Some 44) t"
  by (simp_all add: literal_call_def external_url_token_def dynamic_network_def re_eval_numerals ascii_word [OF assms])

lemma literal_scanned:
  assumes "ascii_words env"
  shows "scan (csv_call (is_word env)) 0 0 None (literal_call @ 44 # t) =
      \<lparr>f_start = 0, f_end = 13, f_group = Some (cps ''a.csv'')\<rparr> # scan (csv_call (is_word env)) 0 15 (Some 44) t"
    "scan (csv_template_call (is_word env)) 0 0 None (literal_call @ 44 # t) =
      scan (csv_template_call (is_word env)) 0 15 (Some 44) t"
    "scan (fetch_call (is_word env)) 0 0 None (literal_call @ 44 # t) =
      \<lparr>f_start = 0, f_end = 6, f_group = None\<rparr> # scan (fetch_call (is_word env)) 0 15 (Some 44) t"
    "scan (d3_csv (is_word env)) 0 0 None (literal_call @ 44 # t) = scan (d3_csv (is_word env)) 0 15 (Some 44) t"
  by (simp_all add: literal_call_def csv_call_def csv_callee_def csv_template_call_def fetch_call_def d3_csv_def
      re_eval_numerals scan_Cons take_first ascii_word [OF assms] Suc_eq_plus1 del: One_nat_def)

text \<open>The computed call, at the beginning of a script or behind a comma or a space.\<close>

lemma dynamic_searched:
  assumes "ascii_words env" "p \<in> {None, Some 44, Some 32}"
  shows "\<not> occurs (external_url_token (is_word env)) p dynamic_call"
    "\<not> occurs (dynamic_network (is_word env)) p dynamic_call"
  using assms(2)
  by (auto simp: dynamic_call_def external_url_token_def dynamic_network_def re_eval_numerals ascii_word [OF assms(1)])

lemma dynamic_scanned:
  assumes "ascii_words env" "p \<in> {None, Some 44, Some 32}"
  shows "scan (csv_call (is_word env)) 0 i p dynamic_call = []"
    "scan (csv_template_call (is_word env)) 0 i p dynamic_call = []"
    "scan (fetch_call (is_word env)) 0 i p dynamic_call = [\<lparr>f_start = i, f_end = i + 6, f_group = None\<rparr>]"
    "scan (d3_csv (is_word env)) 0 i p dynamic_call = []"
  using assms(2)
  by (auto simp: dynamic_call_def csv_call_def csv_callee_def csv_template_call_def fetch_call_def d3_csv_def
      re_eval_numerals scan_Cons scan_Nil ascii_word [OF assms(1)] Suc_eq_plus1 simp del: One_nat_def)

section \<open>Calls in the reach of a literal call\<close>

lemma spaces_searched:
  assumes "ascii_words env"
  shows "occurs (external_url_token (is_word env)) (Some 44) (replicate n 32 @ t) =
      occurs (external_url_token (is_word env)) (if n = 0 then Some 44 else Some 32) t"
    "occurs (dynamic_network (is_word env)) (Some 44) (replicate n 32 @ t) =
      occurs (dynamic_network (is_word env)) (if n = 0 then Some 44 else Some 32) t"
  by (rule occurs_spaces, erule space_no_match [OF assms], simp)+

lemma spaces_scanned:
  assumes "ascii_words env"
    and "re \<in> {csv_call (is_word env), csv_template_call (is_word env), fetch_call (is_word env), d3_csv (is_word env)}"
  shows "scan re 0 i (Some 44) (replicate n 32 @ t) = scan re 0 (i + n) (if n = 0 then Some 44 else Some 32) t"
  using assms(2) space_no_match [OF assms(1)] by (intro scan_spaces) auto

lemma padded_searched:
  assumes "ascii_words env"
  shows "\<not> re_search (external_url_token (is_word env)) (padded_script n)"
    "\<not> re_search (dynamic_network (is_word env)) (padded_script n)"
  using dynamic_searched [OF assms]
  by (simp_all add: re_search_def padded_script_def literal_searched [OF assms] spaces_searched [OF assms])

lemma padded_scanned:
  assumes "ascii_words env"
  shows "re_finditer (csv_call (is_word env)) (padded_script n) = [\<lparr>f_start = 0, f_end = 13, f_group = Some (cps ''a.csv'')\<rparr>]"
    "re_finditer (csv_template_call (is_word env)) (padded_script n) = []"
    "re_finditer (d3_csv (is_word env)) (padded_script n) = []"
    "re_finditer (fetch_call (is_word env)) (padded_script n) =
      [\<lparr>f_start = 0, f_end = 6, f_group = None\<rparr>, \<lparr>f_start = 15 + n, f_end = 15 + n + 6, f_group = None\<rparr>]"
  using dynamic_scanned [OF assms]
  by (simp_all add: re_finditer_def padded_script_def literal_scanned [OF assms] spaces_scanned [OF assms])

lemma computed_argument:
  assumes "ascii_words env"
  shows "dynamic_data_issue_field env (padded_script n) (15 + n + 6) = DATA_IDENTIFIER"
    "dynamic_data_issue_field env dynamic_call 6 = DATA_IDENTIFIER"
proof -
  have "padded_script n = (literal_call @ 44 # replicate n 32 @ cps ''fetch('') @ cps ''x)''"
    by (simp add: padded_script_def dynamic_call_def cps_def)
  moreover have "length (literal_call @ 44 # replicate n 32 @ cps ''fetch('') = 15 + n + 6"
    by (simp add: literal_call_def cps_def)
  ultimately have "drop (15 + n + 6) (padded_script n) = cps ''x)''" by (metis append_eq_conv_conj)
  moreover have "drop 6 dynamic_call = cps ''x)''" by (simp add: dynamic_call_def cps_def)
  moreover have "re_match (identifier_start (is_word env)) (cps ''x)'')"
    by (simp add: re_match_def identifier_start_def re_eval_numerals ascii_word [OF assms])
  moreover have "dropWhile is_space (cps ''x)'') = cps ''x)''" "\<not> starts_with [96] (cps ''x)'')"
    by (simp_all add: cps_def is_space_def starts_with_def)
  ultimately show "dynamic_data_issue_field env (padded_script n) (15 + n + 6) = DATA_IDENTIFIER"
    "dynamic_data_issue_field env dynamic_call 6 = DATA_IDENTIFIER"
    by (simp_all add: dynamic_data_issue_field_def)
qed

text \<open>
  C38: A data call with a computed argument is refused on its own; behind a call with a literal argument
  it is accepted exactly when it begins less than 4096 characters after it. Here the script is
  \<open>fetch("a.csv"),\<close> with \<open>n\<close> spaces and \<open>fetch(x)\<close> behind it, for every \<open>n\<close>, in every environment with the
  usual ASCII letters and for every package that has the named file.
\<close>

theorem computed_call_accepted_behind_literal:
  assumes "ascii_words env"
    and "resolve_csv_reference env (cps ''a.csv'') kinds i DYNAMIC_DATA_REFERENCE = Inr key"
  shows "inspect_script env kinds i dynamic_call refs = raise_field EXTERNAL_DEPENDENCY i DATA_IDENTIFIER
    \<and> inspect_script env kinds i (padded_script n) refs =
      (if 15 + n < 4096 then Inr (insert key refs) else raise_field EXTERNAL_DEPENDENCY i DATA_IDENTIFIER)"
proof
  show "inspect_script env kinds i dynamic_call refs = raise_field EXTERNAL_DEPENDENCY i DATA_IDENTIFIER"
    using dynamic_searched [OF assms(1), of None] dynamic_scanned [OF assms(1), of None] computed_argument(2) [OF assms(1)]
    by (simp add: inspect_script_def re_search_def re_finditer_def check_covered_def uncovered_def raise_field_def)
  have "drop 13 (padded_script n) = 41 # 44 # replicate n 32 @ dynamic_call"
    by (simp add: padded_script_def literal_call_def cps_def)
  then have "re_match after_argument (drop 13 (padded_script n))"
    by (simp add: after_argument_def re_match_def re_eval_numerals)
  moreover have "\<not> has_substitution (cps ''a.csv'')" by (simp add: cps_def)
  ultimately show "inspect_script env kinds i (padded_script n) refs =
      (if 15 + n < 4096 then Inr (insert key refs) else raise_field EXTERNAL_DEPENDENCY i DATA_IDENTIFIER)"
    using padded_searched [OF assms(1), of n] padded_scanned [OF assms(1), of n] computed_argument(1) [OF assms(1), of n] assms(2)
    by (simp add: inspect_script_def check_covered_def uncovered_def raise_field_def)
qed

section \<open>Witness\<close>

lemma named_file:
  "resolve_csv_reference sample_upload_env (cps ''a.csv'') [cps ''a.csv'' \<mapsto> CSV] i DYNAMIC_DATA_REFERENCE = Inr (cps ''a.csv'')"
proof -
  have n: "normalize_logical_name (ue_unicode sample_upload_env) (cps ''a.csv'') =
      Inr \<lparr>display = cps ''a.csv'', comparison_key = cps ''a.csv''\<rparr>"
    by (simp add: normalize_logical_name_def sample_upload_env_def ascii_unicode_def cps_def ends_in_def rstrip_set_def
        reserved_windows_stems_def control_categories_def utf8_length_def utf8_width_def ascii_upper_def Let_def image_iff)
  have u: "urlsplit sample_upload_env (cps ''a.csv'') = Some \<lparr>su_scheme = [], su_netloc = [], su_path = cps ''a.csv'',
      su_query = [], su_fragment = []\<rparr>"
    by (simp add: urlsplit_def Let_def has_scheme_def cps_def starts_with_def after_char_def before_char_def netloc_normal_def
        is_ascii_def)
  have d: "Option.bind (unquote_to_bytes (cps ''a.csv'')) decode_strict = Some (cps ''a.csv'')"
    by (simp add: unquote_to_bytes_def decode_strict_def utf8_encode_def cps_def utf8_bytes_def utf8_decode_ascii
        del: utf8_decode.simps)
  have p: "\<not> re_search invalid_percent_escape (cps ''a.csv'')" "re_search csv_suffix (cps ''a.csv'')"
    by (simp_all add: re_search_def invalid_percent_escape_def csv_suffix_def re_eval_numerals)
  show ?thesis
    using n u d p
    by (simp add: resolve_csv_reference_def resolve_asset_reference_def Let_def) (simp add: cps_def starts_with_def)
qed

lemma computed_call_accepted_behind_literal_witness:
  "inspect_script sample_upload_env [cps ''a.csv'' \<mapsto> CSV] 0 (padded_script 4080) {} = Inr {cps ''a.csv''}
    \<and> inspect_script sample_upload_env [cps ''a.csv'' \<mapsto> CSV] 0 (padded_script 4081) {} =
      raise_field EXTERNAL_DEPENDENCY 0 DATA_IDENTIFIER"
proof -
  have w: "ascii_words sample_upload_env" by (simp add: ascii_words_def sample_upload_env_def)
  show ?thesis
    using computed_call_accepted_behind_literal [OF w named_file, where n = 4080]
      computed_call_accepted_behind_literal [OF w named_file, where n = 4081] by simp
qed

end
