(* ===== verification/Upload_Revisions.thy ===== *)
theory Upload_Revisions
  imports Stored_Revisions Package_References
begin

text \<open>
  Creating a revision from an upload (\<open>core/uploads.py\<close>): the staged files become the payloads of a
  complete revision and are closed whatever happens. The world is the temporary files together with the
  database and the artifact storage.
\<close>

section \<open>Replaying and closing the staged files\<close>

text \<open>\<open>StagedUploadFile.iter_chunks\<close> with its default chunk size, of a stream that can be read.\<close>

definition replay_chunk_size :: nat where
  "replay_chunk_size = 1024 * 1024"

function iter_chunks :: "text \<Rightarrow> text list" where
  "iter_chunks content =
     (if content = [] then [] else take replay_chunk_size content # iter_chunks (drop replay_chunk_size content))"
  by pat_completeness auto
termination by (relation "measure length") (auto simp: replay_chunk_size_def)

declare iter_chunks.simps [simp del]

text \<open>\<open>StagedUpload.close\<close>: every file is closed and the first exception raised.\<close>

definition close_file :: "nat \<Rightarrow> unit stage" where
  "close_file h = (\<lambda>w.
     let w' = w\<lparr>sg_calls := Suc (sg_calls w),
       sg_files := (sg_files w)[h := (sg_files w ! h)\<lparr>t_closed := True\<rparr>]\<rparr>
     in (case sg_faults w (sg_calls w) of Some e \<Rightarrow> Inl e | None \<Rightarrow> Inr (), w'))"

fun close_staged :: "staged_file list \<Rightarrow> upload_error option \<Rightarrow> unit stage" where
  "close_staged [] first_error = (case first_error of None \<Rightarrow> returnP () | Some e \<Rightarrow> raiseP e)"
| "close_staged (f # fs) first_error =
     bindP (tryP (bindP (close_file (s_handle f)) (\<lambda>_. returnP first_error))
         (\<lambda>e. returnP (if first_error = None then Some e else first_error))) (\<lambda>first_error.
     close_staged fs first_error)"

section \<open>The adapter\<close>

definition payload_of :: "staging \<Rightarrow> staged_file \<Rightarrow> artifact_payload" where
  "payload_of w f =
     \<lparr>p_kind = s_kind f, p_logical_name = display (s_name f),
      p_chunks = iter_chunks (t_content (sg_files w ! s_handle f)),
      p_expected_size = s_size f, p_expected_sha256 = s_sha256 f, p_media_type = Some (s_media_type f)\<rparr>"

definition payloads :: "staging \<Rightarrow> staged_upload \<Rightarrow> artifact_payload list" where
  "payloads w staged = map (payload_of w) (su_files staged)"

text \<open>What the adapter raises: an exception of the upload, or one of the revision service.\<close>

datatype creation_failure = UploadFailure upload_error | ServiceFailure exn

definition create_upload_revision ::
  "'p upload_env \<Rightarrow> 'f storage_ops \<Rightarrow> upload_limits \<Rightarrow> uuid \<Rightarrow> uuid \<Rightarrow> raw_part iterable
    \<Rightarrow> (staging \<times> db \<times> 'f, creation_failure, revision) action" where
  "create_upload_revision env ops limits dashboard_id created_by_id parts = (\<lambda>(g, w).
     case stage_upload env limits parts g of
       (Inl e, g') \<Rightarrow> (Inl (UploadFailure e), g', w)
     | (Inr staged, g') \<Rightarrow>
         let (result, w') = create_complete_revision (ue_unicode env) ops dashboard_id created_by_id
               (payloads g' staged) w;
             (closing, g'') = close_staged (su_files staged) None g'
         in (case closing of Inl e \<Rightarrow> Inl (UploadFailure e) | Inr _ \<Rightarrow> map_sum ServiceFailure id result, g'', w'))"

section \<open>What the adapter does\<close>

lemma concat_iter_chunks: "concat (iter_chunks content) = content"
  by (induction content rule: iter_chunks.induct) (subst iter_chunks.simps, simp)

lemma close_staged_files:
  "close_staged fs first_error w = (r, v) \<Longrightarrow> \<forall>f \<in> set fs. s_handle f < length (sg_files w) \<Longrightarrow>
     length (sg_files v) = length (sg_files w) \<and>
     (\<forall>i < length (sg_files w). i \<notin> s_handle ` set fs \<longrightarrow> sg_files v ! i = sg_files w ! i) \<and>
     (\<forall>i < length (sg_files w). t_closed (sg_files w ! i) \<or> i \<in> s_handle ` set fs \<longrightarrow> t_closed (sg_files v ! i))"
proof (induction fs arbitrary: first_error w)
  case (Cons f fs)
  let ?u = "w\<lparr>sg_calls := Suc (sg_calls w), sg_files := (sg_files w)[s_handle f := (sg_files w ! s_handle f)\<lparr>t_closed := True\<rparr>]\<rparr>"
  from Cons.prems(1) obtain e where go: "close_staged fs e ?u = (r, v)"
    by (auto simp: close_file_def Let_def bindP_def tryP_def returnP_def split: option.splits)
  have "\<forall>f \<in> set fs. s_handle f < length (sg_files ?u)" using Cons.prems(2) by simp
  from Cons.IH [OF go this] Cons.prems(2) show ?case by (auto simp: nth_list_update)
qed (auto split: option.splits)

lemma stage_upload_outcome:
  assumes "stage_upload env limits parts w = (Inr up, v)"
  obtains m where "build_manifest (ue_unicode env) limits parts = Inr m" "staged_at (length (sg_files w)) (su_files up) v"
    "take (length (sg_files w)) (sg_files v) = sg_files w"
    "list_all2 (\<lambda>e f. staged_ok env limits (e_part e) f (sg_files v ! s_handle f) \<and>
        s_kind f = e_kind e \<and> s_name f = e_name e \<and> s_media_type f = e_media_type e) m (su_files up)"
proof -
  from assms obtain m kinds where m: "build_manifest (ue_unicode env) limits parts = Inr m"
    and s: "stage_entries env limits kinds m [] 0 {} w = (Inr up, v)"
    by (auto simp: stage_upload_def bindP_eq_Inr Let_def)
  have "staged_at (length (sg_files w)) (su_files up) v \<and> su_total_size up = sum_list (map s_size (su_files up)) \<and>
    (m \<noteq> [] \<longrightarrow> su_total_size up \<le> max_total_bytes limits) \<and>
    take (length (sg_files w)) (sg_files v) = take (length (sg_files w)) (sg_files w) \<and>
    list_all2 (\<lambda>e f. staged_ok env limits (e_part e) f (sg_files v ! s_handle f) \<and>
        s_kind f = e_kind e \<and> s_name f = e_name e \<and> s_media_type f = e_media_type e) ([] @ m) (su_files up)"
    by (rule stage_entries_Inr [OF s staged_at_start]) simp_all
  then show thesis using that [OF m] by simp
qed

lemma stage_upload_refused:
  assumes "stage_upload env limits parts w = (Inl e, v)"
  shows "length (sg_files w) \<le> length (sg_files v) \<and> take (length (sg_files w)) (sg_files v) = sg_files w
    \<and> (\<forall>t \<in> set (drop (length (sg_files w)) (sg_files v)). t_closed t)"
proof -
  from assms consider "v = w" | m kinds where "stage_entries env limits kinds m [] 0 {} w = (Inl e, v)"
    by (auto simp: stage_upload_def bindP_eq_Inl Let_def)
  then show ?thesis
  proof cases
    case 2
    from stage_entries_Inl [OF 2 staged_at_start] show ?thesis by simp
  qed simp
qed

text \<open>Closing the files of an accepted upload closes everything above the files that were there before.\<close>

lemma closed_upload:
  assumes "staged_at base fs u" "take base (sg_files u) = old" "length old = base" "close_staged fs first_error u = (r, v)"
  shows "take base (sg_files v) = old \<and> (\<forall>t \<in> set (drop base (sg_files v)). t_closed t)"
proof -
  have hs: "s_handle ` set fs = {base..<base + length fs}" and len: "length (sg_files u) = base + length fs"
    using assms(1) by (auto simp: staged_at_def simp flip: set_map)
  then have "\<forall>f \<in> set fs. s_handle f < length (sg_files u)" by (auto simp: set_eq_iff image_iff)
  note c = close_staged_files [OF assms(4) this, unfolded hs len]
  have "take base (sg_files v) = take base (sg_files u)" using c len by (intro nth_equalityI) auto
  moreover have "t_closed t" if "t \<in> set (drop base (sg_files v))" for t
    using that c by (auto simp: in_set_conv_nth)
  ultimately show ?thesis using assms(2) by simp
qed

definition artifact_stores :: "(text \<Rightarrow> text) \<Rightarrow> fs \<Rightarrow> upload_part \<Rightarrow> artifact \<Rightarrow> bool" where
  "artifact_stores sha256 f p a \<longleftrightarrow>
     stored_bytes f (a_storage_key a) = Some (part_bytes p) \<and> a_byte_size a = length (part_bytes p) \<and>
     a_sha256 a = sha256 (part_bytes p)"

lemma names_length: "validate_payloads uc ps seen names = Inr ns \<Longrightarrow> length ns = length names + length ps"
  by (induction ps arbitrary: seen names) (auto simp: bindE_eq_Inr split: if_splits)

lemma payloads_stored:
  assumes "list_all2 (\<lambda>e f. staged_ok env limits (e_part e) f (sg_files g ! s_handle f)) m fs"
    and "list_all2 (payload_stored stored_bytes sha256 uc d) (zip (map (payload_of g) fs) names) as"
    and "length names = length fs"
  shows "list_all2 (artifact_stores sha256 d) (map e_part m) as"
proof -
  have len: "length as = length fs" "length m = length fs"
    using list_all2_lengthD [OF assms(2)] list_all2_lengthD [OF assms(1)] assms(3) by simp_all
  have "artifact_stores sha256 d (e_part (m ! i)) (as ! i)" if i: "i < length fs" for i
  proof -
    have "payload_stored stored_bytes sha256 uc d (payload_of g (fs ! i), names ! i) (as ! i)"
      using assms(2,3) i by (auto simp: list_all2_conv_all_nth)
    moreover have "staged_ok env limits (e_part (m ! i)) (fs ! i) (sg_files g ! s_handle (fs ! i))"
      using assms(1) i len by (auto simp: list_all2_conv_all_nth)
    ultimately show ?thesis
      by (simp add: payload_stored_def artifact_stores_def payload_of_def concat_iter_chunks staged_ok_def)
  qed
  then show ?thesis using len by (simp add: list_all2_conv_all_nth)
qed

text \<open>
  C33: A revision is created from an upload with exactly the uploaded bytes or not at all. Whatever the
  outcome, the temporary files of the upload are closed and those of others untouched. Either one
  revision was added with one artifact per part, in order, each of which stores the bytes of its part with
  their size and digest; or an exception was raised and the core tables and all owned bytes are as they
  were. A return is the first case; an exception in the first case can only come from closing.
\<close>

theorem uploaded_bytes_become_artifacts:
  assumes "create_upload_revision env (filesystem_storage sha256) limits d u parts (g, s, f) = (r, g', t, f')" "rooted f"
  shows "take (length (sg_files g)) (sg_files g') = sg_files g
    \<and> (\<forall>x \<in> set (drop (length (sg_files g)) (sg_files g')). t_closed x)
    \<and> ((\<exists>rv as ps. it_items parts = map Part ps \<and> artifacts t = artifacts s @ as
          \<and> list_all2 (artifact_stores sha256 f') ps as \<and> (\<forall>a \<in> set as. a_revision a = r_id rv)
          \<and> (r = Inr rv \<or> (\<exists>e. r = Inl (UploadFailure e))))
      \<or> (\<exists>e. r = Inl e) \<and> core_tables t = core_tables s
          \<and> (\<forall>a \<in> set (artifacts s). \<forall>b. canonical_key (a_storage_key a) \<and> stored_bytes f (a_storage_key a) = Some b \<longrightarrow>
               stored_bytes f' (a_storage_key a) = Some b))"
proof -
  obtain x g1 where x: "stage_upload env limits parts g = (x, g1)" by (cases "stage_upload env limits parts g")
  show ?thesis
  proof (cases x)
    case (Inl e)
    then have "r = Inl (UploadFailure e)" "g' = g1" "t = s" "f' = f"
      using assms(1) x by (auto simp: create_upload_revision_def)
    then show ?thesis using stage_upload_refused [OF x [unfolded Inl]] by auto
  next
    case (Inr up)
    from stage_upload_outcome [OF x [unfolded Inr]] obtain m where
      m: "build_manifest (ue_unicode env) limits parts = Inr m"
      and at: "staged_at (length (sg_files g)) (su_files up) g1" "take (length (sg_files g)) (sg_files g1) = sg_files g"
      and ok: "list_all2 (\<lambda>e f. staged_ok env limits (e_part e) f (sg_files g1 ! s_handle f) \<and>
        s_kind f = e_kind e \<and> s_name f = e_name e \<and> s_media_type f = e_media_type e) m (su_files up)" .
    obtain y t1 f1 where y: "create_complete_revision (ue_unicode env) (filesystem_storage sha256) d u
        (payloads g1 up) (s, f) = (y, t1, f1)" by (metis prod_cases3)
    obtain c g2 where c: "close_staged (su_files up) None g1 = (c, g2)" by (cases "close_staged (su_files up) None g1")
    have r: "r = (case c of Inl e \<Rightarrow> Inl (UploadFailure e) | Inr _ \<Rightarrow> map_sum ServiceFailure id y)" "g' = g2" "t = t1" "f' = f1"
      using assms(1) x Inr y c by (auto simp: create_upload_revision_def)
    have files: "take (length (sg_files g)) (sg_files g') = sg_files g
        \<and> (\<forall>x \<in> set (drop (length (sg_files g)) (sg_files g')). t_closed x)"
      using closed_upload [OF at refl c] r(2) by simp
    have parts: "it_items parts = map Part (map e_part m)"
    proof -
      have "list_all2 (entry_of (ue_unicode env)) (it_items parts) m" using build_manifest_Inr [OF m] by blast
      then show ?thesis by (induction rule: list_all2_induct) (simp_all add: entry_of_def)
    qed
    have "rooted (snd (s, f))" using assms(2) by simp
    from fs_storage.create_complete_revision_exact [OF y this] show ?thesis
    proof (elim disjE exE conjE)
      fix e assume y': "y = Inl e" and k: "keeps_owned rooted stored_bytes (s, f) (t1, f1)"
      have "artifact_owns (a_storage_key a) s" if "a \<in> set (artifacts s)" for a
        using that by (auto simp: artifact_owns_def)
      moreover have "\<exists>e. r = Inl e" using r(1) y' by (cases c) auto
      ultimately show ?thesis using files k assms(2) r by (auto simp: keeps_owned_def)
    next
      fix rv as names
      assume y': "y = Inr rv" and as: "artifacts (fst (t1, f1)) = artifacts (fst (s, f)) @ as" "\<forall>a \<in> set as. a_revision a = r_id rv"
        and n: "validate_payload_set (ue_unicode env) (payloads g1 up) = Inr names"
        and st: "list_all2 (payload_stored stored_bytes sha256 (ue_unicode env) (snd (t1, f1))) (zip (payloads g1 up) names) as"
      have "length names = length (su_files up)"
        using n by (auto simp: validate_payload_set_def payloads_def dest!: names_length split: if_splits)
      moreover have "list_all2 (\<lambda>e f. staged_ok env limits (e_part e) f (sg_files g1 ! s_handle f)) m (su_files up)"
        using ok by (rule list.rel_mono_strong) simp
      ultimately have "list_all2 (artifact_stores sha256 f') (map e_part m) as"
        using payloads_stored st r(4) by (simp add: payloads_def)
      moreover have "r = Inr rv \<or> (\<exists>e. r = Inl (UploadFailure e))" using r(1) y' by (cases c) auto
      ultimately have "\<exists>rv as ps. it_items parts = map Part ps \<and> artifacts t = artifacts s @ as
          \<and> list_all2 (artifact_stores sha256 f') ps as \<and> (\<forall>a \<in> set as. a_revision a = r_id rv)
          \<and> (r = Inr rv \<or> (\<exists>e. r = Inl (UploadFailure e)))"
        using parts as r(3) by (intro exI [of _ rv] exI [of _ as] exI [of _ "map e_part m"] conjI) simp_all
      then show ?thesis using files by blast
    qed
  qed
qed

section \<open>Accepted payloads\<close>

lemma normalize_display:
  assumes "normalize_logical_name uc v = Inr n" "\<forall>t. nfc uc (nfc uc t) = nfc uc t"
  shows "normalize_logical_name uc (display n) = Inr n"
proof -
  have "display n = nfc uc v"
    using assms(1) unfolding normalize_logical_name_def Let_def
    by (simp split: if_split_asm) (auto simp: bindE_eq_Inr split: if_split_asm)
  moreover have "normalize_logical_name uc (nfc uc v) = normalize_logical_name uc v"
    using assms(2) by (simp add: normalize_logical_name_def)
  ultimately show ?thesis using assms(1) by simp
qed

definition plain_media_type :: "artifact_kind \<Rightarrow> string \<Rightarrow> bool" where
  "plain_media_type k m \<longleftrightarrow> strip_set is_space (cps m) = cps m \<and> cps m \<noteq> [] \<and> split_on 59 (cps m) = [cps m] \<and>
     find (\<lambda>x. cps x = cps m) (artifact_media_types k) = Some m"

lemma media_types_plain: "list_all (\<lambda>k. list_all (plain_media_type k) (artifact_media_types k)) [HTML, CSV, CSS, IMAGE, FONT]"
  by code_simp

lemma media_type_text:
  assumes "m \<in> set (artifact_media_types k)"
  shows "plain_media_type k m"
  using assms media_types_plain by (cases k) (auto simp: list_all_iff)

lemma accepted_media_type:
  assumes "s_media_type f \<in> set (map cps (artifact_media_types (s_kind f)))"
    and "\<forall>k. \<forall>m \<in> set (artifact_media_types k). casefold uc (cps m) = cps m"
  shows "\<exists>m. authoritative_media_type uc (payload_of w f) = Inr m \<and> cps m = s_media_type f"
proof -
  from assms(1) obtain m where m: "m \<in> set (artifact_media_types (s_kind f))" "s_media_type f = cps m" by auto
  note t = media_type_text [OF m(1), unfolded plain_media_type_def]
  have "casefold uc (cps m) = cps m" using assms(2) m(1) by blast
  then show ?thesis using t by (simp add: authoritative_media_type_def payload_of_def Let_def m(2))
qed

lemma payload_fields [simp]:
  "p_kind (payload_of w f) = s_kind f" "p_logical_name (payload_of w f) = display (s_name f)"
  "p_expected_size (payload_of w f) = s_size f" "p_expected_sha256 (payload_of w f) = s_sha256 f"
  by (simp_all add: payload_of_def)

lemma validate_accepted:
  assumes "\<forall>f \<in> set fs. 0 \<le> s_size f \<and> hex_text 64 (s_sha256 f) \<and>
      normalize_logical_name uc (display (s_name f)) = Inr (s_name f) \<and>
      (\<exists>m. authoritative_media_type uc (payload_of w f) = Inr m)"
    and "distinct (map (\<lambda>f. comparison_key (s_name f)) fs)"
    and "\<forall>f \<in> set fs. comparison_key (s_name f) \<notin> set seen"
  shows "validate_payloads uc (map (payload_of w) fs) seen names = Inr (names @ map s_name fs)"
  using assms
proof (induction fs arbitrary: seen names)
  case (Cons f fs)
  have "validate_payloads uc (map (payload_of w) fs) (comparison_key (s_name f) # seen) (names @ [s_name f]) =
      Inr ((names @ [s_name f]) @ map s_name fs)"
    by (rule Cons.IH) (use Cons.prems in \<open>auto simp: image_iff\<close>)
  moreover obtain m where "authoritative_media_type uc (payload_of w f) = Inr m" using Cons.prems(1) by auto
  moreover have "0 \<le> s_size f" "hex_text 64 (s_sha256 f)" "comparison_key (s_name f) \<notin> set seen"
    "normalize_logical_name uc (display (s_name f)) = Inr (s_name f)" using Cons.prems by auto
  ultimately show ?case by simp
qed simp

lemma entry_name: "entry_of uc raw e \<Longrightarrow> \<exists>v. normalize_logical_name uc v = Inr (e_name e)"
  by (auto simp: entry_of_def normalize_part_filename_def raise_issue_def raise_field_def
      split: raw_filename.splits option.splits sum.splits exn.splits if_splits)

text \<open>
  C34: The revision service never rejects the payloads of an accepted upload: they pass its validation,
  under the names the upload gave them. This rests on documented facts of the library: NFC is idempotent,
  case folding leaves the lower-case media types alone, and a digest has 64 hexadecimal digits.
\<close>

theorem accepted_payloads_valid:
  assumes "stage_upload env limits parts w = (Inr up, v)"
    and "\<forall>t. nfc (ue_unicode env) (nfc (ue_unicode env) t) = nfc (ue_unicode env) t"
    and "\<forall>k. \<forall>m \<in> set (artifact_media_types k). casefold (ue_unicode env) (cps m) = cps m"
    and "\<forall>bytes. hex_text 64 (ue_sha256 env bytes)"
  shows "validate_payload_set (ue_unicode env) (payloads v up) = Inr (map s_name (su_files up))
    \<and> map p_logical_name (payloads v up) = map (\<lambda>f. display (s_name f)) (su_files up)"
proof -
  from stage_upload_outcome [OF assms(1)] obtain m where m: "build_manifest (ue_unicode env) limits parts = Inr m"
    and ok: "list_all2 (\<lambda>e f. staged_ok env limits (e_part e) f (sg_files v ! s_handle f) \<and>
        s_kind f = e_kind e \<and> s_name f = e_name e \<and> s_media_type f = e_media_type e) m (su_files up)" .
  note b = build_manifest_Inr [OF m]
  have es: "\<exists>raw. entry_of (ue_unicode env) raw e" if "e \<in> set m" for e
    using b that by (auto simp: list_all2_conv_all_nth in_set_conv_nth)
  have each: "\<forall>f \<in> set (su_files up). \<exists>e \<in> set m. staged_ok env limits (e_part e) f (sg_files v ! s_handle f) \<and>
      s_kind f = e_kind e \<and> s_name f = e_name e \<and> s_media_type f = e_media_type e"
    using ok by (force simp: list_all2_conv_all_nth in_set_conv_nth)
  have fits: "\<forall>f \<in> set (su_files up). 0 \<le> s_size f \<and> hex_text 64 (s_sha256 f) \<and>
      normalize_logical_name (ue_unicode env) (display (s_name f)) = Inr (s_name f) \<and>
      (\<exists>m. authoritative_media_type (ue_unicode env) (payload_of v f) = Inr m)"
  proof
    fix f assume "f \<in> set (su_files up)"
    then obtain e where e: "e \<in> set m" "staged_ok env limits (e_part e) f (sg_files v ! s_handle f)"
      "s_kind f = e_kind e" "s_name f = e_name e" "s_media_type f = e_media_type e" using each by blast
    obtain raw where raw: "entry_of (ue_unicode env) raw e" using es e(1) by blast
    obtain ext where "map_of upload_extension_map ext = Some (e_kind e, e_media_type e)" using entry_type [OF raw] by blast
    from extension_types [OF this] have "\<exists>m. authoritative_media_type (ue_unicode env) (payload_of v f) = Inr m"
      using accepted_media_type [of f "ue_unicode env" v] assms(3) e(3,5) by auto
    moreover have "normalize_logical_name (ue_unicode env) (display (s_name f)) = Inr (s_name f)"
      using entry_name [OF raw] normalize_display assms(2) unfolding e(4) by blast
    ultimately show "0 \<le> s_size f \<and> hex_text 64 (s_sha256 f) \<and>
      normalize_logical_name (ue_unicode env) (display (s_name f)) = Inr (s_name f) \<and>
      (\<exists>m. authoritative_media_type (ue_unicode env) (payload_of v f) = Inr m)"
      using e(2) assms(4) by (simp add: staged_ok_def)
  qed
  have same: "map s_name (su_files up) = map e_name m" "map s_kind (su_files up) = map e_kind m"
    using ok by (induction rule: list_all2_induct) simp_all
  have "map (\<lambda>f. comparison_key (s_name f)) (su_files up) = map (\<lambda>e. comparison_key (e_name e)) m"
    using arg_cong [OF same(1), of "map comparison_key"] by (simp add: comp_def)
  then have "distinct (map (\<lambda>f. comparison_key (s_name f)) (su_files up))" using b by simp
  from validate_accepted [OF fits this, of "[]" "[]"]
  have "validate_payloads (ue_unicode env) (payloads v up) [] [] = Inr (map s_name (su_files up))"
    by (simp add: payloads_def)
  moreover have "length (filter (\<lambda>p. p_kind p = HTML) (payloads v up)) = 1"
  proof -
    have "length (filter (\<lambda>k. k = HTML) (map s_kind (su_files up))) = 1"
      unfolding same(2) using b by (simp add: html_count_of_def filter_map comp_def)
    then show ?thesis by (simp add: payloads_def filter_map comp_def payload_of_def)
  qed
  ultimately show ?thesis by (simp add: validate_payload_set_def) (simp add: payloads_def payload_of_def)
qed

lemma accepted_payloads_valid_witness:
  "\<exists>up v. stage_upload sample_upload_env default_limits sample_document sample_disk = (Inr up, v) \<and>
     validate_payload_set ascii_unicode (payloads v up) = Inr (map s_name (su_files up))"
proof -
  obtain up v where u: "stage_upload sample_upload_env default_limits sample_document sample_disk = (Inr up, v)"
    using sample_staged by blast
  have uc: "ue_unicode sample_upload_env = ascii_unicode" "ue_sha256 sample_upload_env = (\<lambda>_. replicate 64 97)"
    by (simp_all add: sample_upload_env_def)
  have n: "\<forall>t. nfc (ue_unicode sample_upload_env) (nfc (ue_unicode sample_upload_env) t) = nfc (ue_unicode sample_upload_env) t"
    by (simp add: uc ascii_unicode_def)
  have c: "\<forall>k. \<forall>m \<in> set (artifact_media_types k). casefold (ue_unicode sample_upload_env) (cps m) = cps m"
  proof
    fix k show "\<forall>m \<in> set (artifact_media_types k). casefold (ue_unicode sample_upload_env) (cps m) = cps m"
      by (cases k) (simp_all add: uc ascii_unicode_def artifact_media_types_def cps_def)
  qed
  have h: "\<forall>bytes. hex_text 64 (ue_sha256 sample_upload_env bytes)"
    by (simp add: uc hex_text_def list_all_iff Models_Core.is_hex_def)
  from accepted_payloads_valid [OF u n c h] u show ?thesis by (auto simp: uc)
qed

section \<open>A sample revision\<close>

definition uploaded_payload :: artifact_payload where
  "uploaded_payload = \<lparr>p_kind = HTML, p_logical_name = cps ''a.html'', p_chunks = [cps ''<html></html>''],
     p_expected_size = 13, p_expected_sha256 = replicate 64 97, p_media_type = Some (cps ''text/html'')\<rparr>"

definition uploaded_receipt :: stored_artifact where
  "uploaded_receipt = \<lparr>sa_key = sample_key, sa_byte_size = 13, sa_sha256 = replicate 64 97\<rparr>"

lemma uploaded_commits:
  "commits_payload uploaded_payload \<lparr>display = cps ''a.html'', comparison_key = cps ''a.html''\<rparr> uploaded_receipt ''text/html''"
  by code_simp

lemma uploaded_valid:
  "validate_payload_set ascii_unicode [uploaded_payload] = Inr [\<lparr>display = cps ''a.html'', comparison_key = cps ''a.html''\<rparr>]"
  "authoritative_media_type ascii_unicode uploaded_payload = Inr ''text/html''"
  by code_simp+

lemma uploaded_revision:
  "\<exists>rv g t f. create_upload_revision sample_upload_env (filesystem_storage (\<lambda>_. replicate 64 97)) default_limits 4 2
     sample_document (sample_disk, creating, empty_disk) = (Inr rv, g, t, f)"
proof -
  obtain up g1 where up: "stage_upload sample_upload_env default_limits sample_document sample_disk = (Inr up, g1)"
    and sound: "sound_disk g1" using sample_staged_sound by blast
  have uc: "ue_unicode sample_upload_env = ascii_unicode" "ue_sha256 sample_upload_env = (\<lambda>_. replicate 64 97)"
    by (simp_all add: sample_upload_env_def)
  from stage_upload_outcome [OF up, unfolded uc(1)] obtain m where
    m: "build_manifest ascii_unicode default_limits sample_document = Inr m"
    and rel: "list_all2 (\<lambda>e f. staged_ok sample_upload_env default_limits (e_part e) f (sg_files g1 ! s_handle f) \<and>
        s_kind f = e_kind e \<and> s_name f = e_name e \<and> s_media_type f = e_media_type e) m (su_files up)" .
  have m: "m = [hd sample_entries]" using m sample_document_manifest by simp
  with rel obtain f where f: "su_files up = [f]" by (auto simp: list_all2_Cons1)
  have l: "length (cps ''<html></html>'') = 13" by (simp add: cps_def)
  have one: "iter_chunks (cps ''<html></html>'') = [cps ''<html></html>'']"
    by (subst iter_chunks.simps, subst iter_chunks.simps) (simp add: replay_chunk_size_def l cps_def)
  have p: "payloads g1 up = [uploaded_payload]"
    using rel l one uc(2) unfolding m f payloads_def
    by (simp add: payload_of_def staged_ok_def uploaded_payload_def sample_entries_def sample_part_def part_bytes_def
        raw_bytes_def)
  have e: "expected (\<lambda>_. replicate 64 97) (concat (p_chunks uploaded_payload)) (Some (p_expected_size uploaded_payload))
      (Some (p_expected_sha256 uploaded_payload))"
    by (simp add: expected_def uploaded_payload_def l list_all_iff hex_text_def Models_Core.is_hex_def)
  obtain g where g: "st_write (filesystem_storage (\<lambda>_. replicate 64 97)) sample_key (p_chunks uploaded_payload)
      (Some (p_expected_size uploaded_payload)) (Some (p_expected_sha256 uploaded_payload)) empty_disk = (Receipt uploaded_receipt, g)"
    using payload_written [OF e] by (auto simp: uploaded_receipt_def uploaded_payload_def l)
  obtain rv t where c: "create_complete_revision ascii_unicode (filesystem_storage (\<lambda>_. replicate 64 97)) 4 2 [uploaded_payload]
      (creating, empty_disk) = (Inr rv, t, g)"
    using creation_of [OF uploaded_commits uploaded_valid(1) g uploaded_valid(2)] by blast
  have "fst (close_staged [f] None g1) = Inr ()"
    using sound by (simp add: close_file_def Let_def bindP_def tryP_def returnP_def sound_disk_def)
  then obtain g2 where "close_staged [f] None g1 = (Inr (), g2)" by (metis prod.collapse)
  then show ?thesis
    using up p c by (simp add: create_upload_revision_def uc(1) f Let_def)
qed

lemma uploaded_bytes_become_artifacts_witness:
  "\<exists>rv g t f as ps. create_upload_revision sample_upload_env (filesystem_storage (\<lambda>_. replicate 64 97)) default_limits 4 2
     sample_document (sample_disk, creating, empty_disk) = (Inr rv, g, t, f) \<and>
     (\<forall>x \<in> set (sg_files g). t_closed x) \<and> it_items sample_document = map Part ps \<and> artifacts t = artifacts creating @ as \<and>
     list_all2 (artifact_stores (\<lambda>_. replicate 64 97) f) ps as"
proof -
  obtain rv g t f where run: "create_upload_revision sample_upload_env (filesystem_storage (\<lambda>_. replicate 64 97)) default_limits 4 2
     sample_document (sample_disk, creating, empty_disk) = (Inr rv, g, t, f)"
    using uploaded_revision by blast
  have "sg_files sample_disk = []" by (simp add: sample_disk_def)
  with uploaded_bytes_become_artifacts [OF run empty_disk_facts(1)] run show ?thesis by auto
qed

end
