(* ===== verification/Discovery.thy ===== *)
theory Discovery
  imports Projects Analytics Authentication
begin

text \<open>
  Catalogue search and the personal lists (\<open>core/discovery.py\<close>), the bounded read interfaces of the
  enhancement pages (\<open>core/enhancement_queries.py\<close>), the owner's request queue
  (\<open>core/stewardship_queries.py\<close>) and the administrator listing of \<open>core/querying.py\<close>. A queryset is
  the list of its rows; \<open>select_related\<close> and \<open>only\<close> change what is fetched, not which rows.
\<close>

section \<open>A search and its cursor context\<close>

datatype discovery_scope = MINE | SHARED

definition scope_value :: "discovery_scope \<Rightarrow> text" where
  "scope_value scope = (case scope of MINE \<Rightarrow> cps ''mine'' | SHARED \<Rightarrow> cps ''shared'')"

text \<open>A member of the enumeration is given by its value.\<close>

definition discovery_scope_of :: "text \<Rightarrow> discovery_scope option" where
  "discovery_scope_of v = find (\<lambda>scope. scope_value scope = v) [MINE, SHARED]"

datatype discovery_error = InvalidDiscoveryQuery string | InvalidDiscoveryValue string

datatype raw_query = QueryText "text" | QueryOther

definition max_discovery_query_length :: nat where
  "max_discovery_query_length = 200"

definition normalize_discovery_query :: "unicode \<Rightarrow> raw_query \<Rightarrow> discovery_error + text" where
  "normalize_discovery_query uc value = (case value of
      QueryOther \<Rightarrow> Inl (InvalidDiscoveryQuery ''search must be text'')
    | QueryText v \<Rightarrow>
        let compatible = nfkc uc v in
        if list_ex (\<lambda>c. category uc c \<in> set control_categories) compatible
        then Inl (InvalidDiscoveryQuery ''search cannot contain control characters'')
        else
        let normalized = collapse_ws compatible in
        if length normalized > max_discovery_query_length
        then Inl (InvalidDiscoveryQuery ''search must contain at most 200 characters'')
        else Inr normalized)"

record discovery_search =
  ds_scope :: discovery_scope
  ds_query :: "text"

definition search_from_input :: "unicode \<Rightarrow> text \<Rightarrow> raw_query \<Rightarrow> discovery_error + discovery_search" where
  "search_from_input uc scope query = (case discovery_scope_of scope of
      None \<Rightarrow> Inl (InvalidDiscoveryValue ''discovery scope must be mine or shared'')
    | Some resolved \<Rightarrow>
        bindE (normalize_discovery_query uc query) (\<lambda>q. Inr \<lparr>ds_scope = resolved, ds_query = q\<rparr>))"

text \<open>
  \<open>json.dumps\<close> of a text with \<open>ensure_ascii\<close>: two-character escapes, and four hexadecimal digits for
  every other control character and every UTF-16 unit beyond ASCII.
\<close>

definition hex_lower :: "nat \<Rightarrow> nat" where
  "hex_lower n = (if n < 10 then 48 + n else 87 + n)"

definition unicode_escape :: "nat \<Rightarrow> text" where
  "unicode_escape n =
     [92, 117, hex_lower (n div 4096 mod 16), hex_lower (n div 256 mod 16), hex_lower (n div 16 mod 16), hex_lower (n mod 16)]"

definition json_char :: "nat \<Rightarrow> text" where
  "json_char c =
     (if c = 34 then [92, 34] else if c = 92 then [92, 92]
      else if c = 10 then [92, 110] else if c = 13 then [92, 114] else if c = 9 then [92, 116]
      else if c = 12 then [92, 102] else if c = 8 then [92, 98]
      else if 32 \<le> c \<and> c < 127 then [c]
      else if c < 65536 then unicode_escape c
      else unicode_escape (55296 + (c - 65536) div 1024) @ unicode_escape (56320 + (c - 65536) mod 1024))"

definition json_text :: "text \<Rightarrow> text" where
  "json_text v = 34 # concat (map json_char v) @ [34]"

definition cursor_context :: "(uuid \<Rightarrow> text) \<Rightarrow> uuid \<Rightarrow> discovery_search \<Rightarrow> text" where
  "cursor_context show_uuid principal_id search =
     123 # json_text (cps ''principal_id'') @ 58 # json_text (show_uuid principal_id) @
     44 # json_text (cps ''query'') @ 58 # json_text (ds_query search) @
     44 # json_text (cps ''scope'') @ 58 # json_text (scope_value (ds_scope search)) @ [125]"

section \<open>Authorized rows\<close>

definition personal_dashboard_limit :: int where
  "personal_dashboard_limit = 10"

definition max_authorization_candidates :: nat where
  "max_authorization_candidates = 100"

definition personal_limit :: "int \<Rightarrow> exn + nat" where
  "personal_limit limit = bounded_read_limit limit personal_dashboard_limit"

definition is_published :: "dashboard \<Rightarrow> bool" where
  "is_published d \<longleftrightarrow> d_state d = PUBLISHED \<and> d_published_revision d \<noteq> None"

definition scope_dashboards :: "uuid \<Rightarrow> discovery_scope \<Rightarrow> db \<Rightarrow> dashboard list" where
  "scope_dashboards principal_id scope s = (case scope of
      MINE \<Rightarrow> filter (\<lambda>d. d_owner d = principal_id \<and> owner_active s d \<and> d_state d \<noteq> DELETED) (dashboards s)
    | SHARED \<Rightarrow>
        let active_dashboard_ids = map g_dashboard
              (filter (\<lambda>g. g_viewer g = principal_id \<and> user_active s (g_viewer g) \<and> g_revoked_at g = None) (grants s))
        in filter (\<lambda>d. d_id d \<in> set active_dashboard_ids \<and> is_published d) (dashboards s))"

definition published_authorization :: "uuid \<Rightarrow> db \<Rightarrow> dashboard \<Rightarrow> bool" where
  "published_authorization principal_id s d \<longleftrightarrow>
     (d_owner d = principal_id \<and> owner_active s d) \<or>
     has_row (\<lambda>g. active_scope (d_id d) principal_id g \<and> user_active s (g_viewer g)) (grants s)"

text \<open>A row with the annotations of the query.\<close>

record discovery_row =
  dr_dashboard :: dashboard
  dr_is_favorite :: bool

definition dashboard_row :: "uuid \<Rightarrow> db \<Rightarrow> dashboard \<Rightarrow> discovery_row" where
  "dashboard_row principal_id s d =
     \<lparr>dr_dashboard = d, dr_is_favorite = is_published d \<and>
        has_row (\<lambda>f. fv_dashboard f = d_id d \<and> fv_user f = principal_id \<and> user_active s (fv_user f)) (favorites s)\<rparr>"

section \<open>The searches\<close>

definition soeid_prefix :: "text \<Rightarrow> text option" where
  "soeid_prefix query = (case canonicalize_soeid query of Inl e \<Rightarrow> None | Inr v \<Rightarrow> Some v)"

definition tag_key_prefix :: "unicode \<Rightarrow> text \<Rightarrow> text option" where
  "tag_key_prefix uc query = (case normalize_dashboard_tag uc query of Inl e \<Rightarrow> None | Inr t \<Rightarrow> Some (tag_key t))"

definition has_prefix :: "text \<Rightarrow> text \<Rightarrow> bool" where
  "has_prefix p v \<longleftrightarrow> take (length p) v = p"

definition matches_query :: "unicode \<Rightarrow> text \<Rightarrow> db \<Rightarrow> dashboard \<Rightarrow> bool" where
  "matches_query uc query s d \<longleftrightarrow>
     query = [] \<or> has_prefix query (d_name d) \<or>
     (case soeid_prefix query of None \<Rightarrow> False
      | Some p \<Rightarrow> (case user_of s (d_owner d) of None \<Rightarrow> False | Some u \<Rightarrow> has_prefix p (u_soeid u))) \<or>
     (case tag_key_prefix uc query of None \<Rightarrow> False
      | Some p \<Rightarrow> has_row (\<lambda>t. tg_dashboard t = d_id d \<and> has_prefix p (tg_key t)) (dash_tags s))"

definition search_dashboards ::
  "unicode \<Rightarrow> uuid \<Rightarrow> text \<Rightarrow> raw_query \<Rightarrow> db \<Rightarrow> discovery_error + discovery_row list" where
  "search_dashboards uc principal_id scope query s =
     bindE (search_from_input uc scope query) (\<lambda>search.
     Inr (map (dashboard_row principal_id s)
       (order_by2 (\<lambda>d. - d_updated_at d) (\<lambda>d. int (d_id d))
         (filter (matches_query uc (ds_query search) s) (scope_dashboards principal_id (ds_scope search) s)))))"

text \<open>The join of the dashboards with the rows of another table that refer to them.\<close>

definition joined :: "('r \<Rightarrow> uuid) \<Rightarrow> dashboard list \<Rightarrow> 'r list \<Rightarrow> (dashboard \<times> 'r) list" where
  "joined ref ds rs = concat (map (\<lambda>d. map (Pair d) (filter (\<lambda>r. ref r = d_id d) rs)) ds)"

definition favorite_dashboards :: "uuid \<Rightarrow> int \<Rightarrow> db \<Rightarrow> exn + discovery_row list" where
  "favorite_dashboards user_id limit s =
     bindE (personal_limit limit) (\<lambda>bounded.
     let mine = filter (\<lambda>f. fv_user f = user_id \<and> user_active s (fv_user f)) (favorites s);
         candidates = map fv_dashboard (take max_authorization_candidates
           (order_by2 (\<lambda>f. - fv_created_at f) (\<lambda>f. - int (fv_id f)) mine));
         rows = joined fv_dashboard (filter (\<lambda>d. d_id d \<in> set candidates \<and> is_published d
             \<and> published_authorization user_id s d) (dashboards s)) mine
     in Inr (map (dashboard_row user_id s \<circ> fst) (take bounded
          (order_by2 (\<lambda>(d, f). - fv_created_at f) (\<lambda>(d, f). - int (fv_id f)) rows))))"

definition viewed_dashboards :: "uuid \<Rightarrow> int \<Rightarrow> db \<Rightarrow> exn + (discovery_row \<times> bool) list" where
  "viewed_dashboards user_id limit s =
     bindE (personal_limit limit) (\<lambda>bounded.
     let mine = filter (\<lambda>v. vs_user v = user_id \<and> user_active s (vs_user v)) (viewer_states s);
         candidates = map vs_dashboard (take max_authorization_candidates
           (order_by2 (\<lambda>v. - vs_last_viewed_at v) (\<lambda>v. - int (vs_id v)) mine));
         rows = joined vs_dashboard (filter (\<lambda>d. d_id d \<in> set candidates \<and> is_published d
             \<and> published_authorization user_id s d) (dashboards s)) mine
     in Inr (map (\<lambda>(d, v). (dashboard_row user_id s d, d_publication_version d > vs_seen_version v)) (take bounded
          (order_by2 (\<lambda>(d, v). - vs_last_viewed_at v) (\<lambda>(d, v). - int (vs_id v)) rows))))"

definition authorized_published_dashboard :: "uuid \<Rightarrow> uuid \<Rightarrow> db \<Rightarrow> dashboard option" where
  "authorized_published_dashboard dashboard_id principal_id s =
     first_row (sort_key d_id
       (filter (\<lambda>d. d_id d = dashboard_id \<and> is_published d \<and> published_authorization principal_id s d)
         (dashboards s)))"

section \<open>The bounded reads of the enhancement pages\<close>

definition max_page_limit :: int where
  "max_page_limit = 100"

text \<open>An exclusive position in a list ordered by a time and an id.\<close>

record time_cursor =
  tc_timestamp :: time
  tc_row_id :: nat

definition before_cursor :: "time_cursor option \<Rightarrow> time \<Rightarrow> nat \<Rightarrow> bool" where
  "before_cursor cursor t i = (case cursor of None \<Rightarrow> True
    | Some c \<Rightarrow> t < tc_timestamp c \<or> t = tc_timestamp c \<and> i < tc_row_id c)"

definition after_cursor :: "time_cursor option \<Rightarrow> time \<Rightarrow> nat \<Rightarrow> bool" where
  "after_cursor cursor t i = (case cursor of None \<Rightarrow> True
    | Some c \<Rightarrow> t > tc_timestamp c \<or> t = tc_timestamp c \<and> i > tc_row_id c)"

definition active_grant_exists :: "uuid \<Rightarrow> uuid \<Rightarrow> db \<Rightarrow> bool" where
  "active_grant_exists dashboard_id viewer_id s =
     has_row (\<lambda>g. active_scope dashboard_id viewer_id g \<and> user_active s (g_viewer g)) (grants s)"

definition bounded_limit :: "int \<Rightarrow> int \<Rightarrow> exn + nat" where
  "bounded_limit limit maximum = bounded_read_limit limit maximum"

definition dashboard_tags :: "uuid \<Rightarrow> uuid \<Rightarrow> int \<Rightarrow> db \<Rightarrow> exn + dash_tag list" where
  "dashboard_tags dashboard_id principal_id limit s =
     bindE (bounded_limit limit 5) (\<lambda>bounded.
     Inr (take bounded (order_by2 (\<lambda>t. int (tg_slot t)) (\<lambda>t. int (tg_id t))
       (filter (\<lambda>t. tg_dashboard t = dashboard_id \<and>
          (case dashboard_of s (tg_dashboard t) of
             None \<Rightarrow> False
           | Some d \<Rightarrow> d_state d \<noteq> DELETED \<and>
               ((d_owner d = principal_id \<and> owner_active s d) \<or>
                (active_grant_exists (tg_dashboard t) principal_id s \<and> is_published d)))) (dash_tags s)))))"

definition dashboards_by_tag_key :: "unicode \<Rightarrow> uuid \<Rightarrow> text \<Rightarrow> int \<Rightarrow> db \<Rightarrow> exn + dashboard list" where
  "dashboards_by_tag_key uc principal_id tag limit s =
     bindE (bounded_limit limit max_page_limit) (\<lambda>bounded.
     case normalize_dashboard_tag uc tag of
       Inl (InvalidDashboardTag m) \<Rightarrow> Inl (ValueError m)
     | Inl e \<Rightarrow> Inl e
     | Inr t \<Rightarrow>
         let candidates = take max_authorization_candidates
               (sort (map tg_dashboard (filter (\<lambda>r. tg_key r = tag_key t) (dash_tags s))))
         in Inr (take bounded (sort_key d_id
              (filter (\<lambda>d. d_id d \<in> set candidates \<and> is_published d \<and>
                 ((d_owner d = principal_id \<and> owner_active s d) \<or> active_grant_exists (d_id d) principal_id s))
                (dashboards s)))))"

definition recent_favorite_dashboards :: "uuid \<Rightarrow> int \<Rightarrow> time_cursor option \<Rightarrow> db \<Rightarrow> exn + dashboard list" where
  "recent_favorite_dashboards user_id limit before s =
     bindE (bounded_limit limit max_page_limit) (\<lambda>bounded.
     let mine = filter (\<lambda>f. fv_user f = user_id) (favorites s);
         candidates = map fv_dashboard (take max_authorization_candidates
           (order_by2 (\<lambda>f. - fv_created_at f) (\<lambda>f. - int (fv_id f))
             (filter (\<lambda>f. before_cursor before (fv_created_at f) (fv_id f)) mine)));
         rows = joined fv_dashboard (filter (\<lambda>d. d_id d \<in> set candidates \<and> d_state d \<noteq> DELETED \<and>
             (d_owner d = user_id \<or> (active_grant_exists (d_id d) user_id s \<and> is_published d))) (dashboards s))
           (filter (\<lambda>f. user_active s (fv_user f)) mine)
     in Inr (map fst (take bounded
          (order_by2 (\<lambda>(d, f). - fv_created_at f) (\<lambda>(d, f). - int (fv_id f)) rows))))"

text \<open>\<open>recently_viewed_dashboards\<close> of this module, with the annotation \<open>has_new_publication\<close>.\<close>

definition recent_view_dashboards ::
  "uuid \<Rightarrow> int \<Rightarrow> time_cursor option \<Rightarrow> db \<Rightarrow> exn + (dashboard \<times> bool) list" where
  "recent_view_dashboards user_id limit before s =
     bindE (bounded_limit limit max_page_limit) (\<lambda>bounded.
     let mine = filter (\<lambda>v. vs_user v = user_id) (viewer_states s);
         candidates = map vs_dashboard (take max_authorization_candidates
           (order_by2 (\<lambda>v. - vs_last_viewed_at v) (\<lambda>v. - int (vs_id v))
             (filter (\<lambda>v. before_cursor before (vs_last_viewed_at v) (vs_id v)) mine)));
         rows = joined vs_dashboard (filter (\<lambda>d. d_id d \<in> set candidates \<and> is_published d \<and>
             (d_owner d = user_id \<or> active_grant_exists (d_id d) user_id s)) (dashboards s))
           (filter (\<lambda>v. user_active s (vs_user v)) mine)
     in Inr (map (\<lambda>(d, v). (d, d_publication_version d > vs_seen_version v)) (take bounded
          (order_by2 (\<lambda>(d, v). - vs_last_viewed_at v) (\<lambda>(d, v). - int (vs_id v)) rows))))"

definition pending_access_requests ::
  "uuid \<Rightarrow> uuid \<Rightarrow> int \<Rightarrow> time_cursor option \<Rightarrow> db \<Rightarrow> exn + access_request list" where
  "pending_access_requests owner_id dashboard_id limit before s =
     bindE (bounded_limit limit max_page_limit) (\<lambda>bounded.
     Inr (take bounded (order_by2 (\<lambda>r. - ar_requested_at r) (\<lambda>r. - int (ar_id r))
       (filter (\<lambda>r. ar_dashboard r = dashboard_id \<and> ar_status r = PENDING \<and>
          (case dashboard_of s (ar_dashboard r) of None \<Rightarrow> False
           | Some d \<Rightarrow> d_owner d = owner_id \<and> owner_active s d) \<and>
          before_cursor before (ar_requested_at r) (ar_id r)) (access_requests s)))))"

definition stale_owned_dashboards ::
  "uuid \<Rightarrow> time \<Rightarrow> int \<Rightarrow> time_cursor option \<Rightarrow> db \<Rightarrow> exn + dashboard list" where
  "stale_owned_dashboards owner_id as_of limit after s =
     bindE (bounded_limit limit max_page_limit) (\<lambda>bounded.
     let stale_at = (\<lambda>d. case d_stale_after d of None \<Rightarrow> 0 | Some t \<Rightarrow> t);
         candidates = map d_id (take max_authorization_candidates
           (order_by2 stale_at (\<lambda>d. int (d_id d))
             (filter (\<lambda>d. d_owner d = owner_id \<and>
                (case d_stale_after d of None \<Rightarrow> False
                 | Some t \<Rightarrow> t \<le> as_of \<and> after_cursor after t (d_id d))) (dashboards s))))
     in Inr (take bounded (order_by2 stale_at (\<lambda>d. int (d_id d))
          (filter (\<lambda>d. d_id d \<in> set candidates \<and> d_owner d = owner_id \<and> owner_active s d \<and> d_state d = PUBLISHED)
            (dashboards s)))))"

section \<open>Stewardship and administration\<close>

definition owner_pending_access_requests :: "uuid \<Rightarrow> uuid \<Rightarrow> db \<Rightarrow> access_request list" where
  "owner_pending_access_requests dashboard_id owner_id s =
     order_by2 (\<lambda>r. - ar_requested_at r) (\<lambda>r. - int (ar_id r))
       (filter (\<lambda>r. ar_dashboard r = dashboard_id \<and> ar_status r = PENDING \<and>
          (case dashboard_of s (ar_dashboard r) of None \<Rightarrow> False
           | Some d \<Rightarrow> d_owner d = owner_id \<and> owner_active s d \<and> d_state d \<noteq> DELETED)) (access_requests s))"

definition administrator_user_list :: "text \<Rightarrow> db \<Rightarrow> user list" where
  "administrator_user_list prefix s =
     sort_key u_soeid (if prefix = [] then users s else filter (\<lambda>u. has_prefix prefix (u_soeid u)) (users s))"

end
