(* ===== verification/Discovery_Facts.thy ===== *)
theory Discovery_Facts
  imports Discovery Guarantees
begin

text \<open>
  Discovery shows no more than the viewing policy admits, its personal lists are bounded, and the
  context a search cursor is signed with names the principal, the scope and the query unambiguously.
\<close>

section \<open>The viewing policy\<close>













section \<open>The context of a search cursor\<close>

text \<open>Characters a JSON text can be made of without two texts sharing one encoding.\<close>

definition scalar_value :: "nat \<Rightarrow> bool" where
  "scalar_value c \<longleftrightarrow> c < 1114112 \<and> \<not> (55296 \<le> c \<and> c \<le> 57343)"

lemma hex_lower_inj: "a < 16 \<Longrightarrow> b < 16 \<Longrightarrow> hex_lower a = hex_lower b \<longleftrightarrow> a = b"
  by (auto simp: hex_lower_def)

lemma base16: "(n::nat) < 65536 \<Longrightarrow> n = 4096 * (n div 4096 mod 16) + 256 * (n div 256 mod 16) + 16 * (n div 16 mod 16) + n mod 16"
proof -
  assume "n < 65536"
  then have "n div 4096 < 16" by simp
  then have a: "n div 4096 mod 16 = n div 4096" by simp
  have b: "n div 256 = 16 * (n div 4096) + n div 256 mod 16" using div_mult2_eq [of n 256 16] by simp
  have c: "n div 16 = 16 * (n div 256) + n div 16 mod 16" using div_mult2_eq [of n 16 16] by simp
  have d: "n = 16 * (n div 16) + n mod 16" by simp
  show ?thesis using a b c d by linarith
qed

lemma unicode_escape_inj:
  assumes "unicode_escape m @ x = unicode_escape n @ y" "m < 65536" "n < 65536"
  shows "m = n \<and> x = y"
proof -
  have "m div 4096 mod 16 = n div 4096 mod 16" "m div 256 mod 16 = n div 256 mod 16" "m div 16 mod 16 = n div 16 mod 16"
    "m mod 16 = n mod 16" "x = y"
    using assms(1) by (auto simp: unicode_escape_def hex_lower_inj)
  then show ?thesis using base16 [OF assms(2)] base16 [OF assms(3)] by simp
qed

text \<open>How a character is encoded: itself, a two-character escape, or one or two units.\<close>

definition units :: "nat \<Rightarrow> nat list" where
  "units c = (if c < 65536 then [c] else [55296 + (c - 65536) div 1024, 56320 + (c - 65536) mod 1024])"

lemma json_char_cases:
  obtains (plain) "json_char c = [c]" "c \<noteq> 34" "c \<noteq> 92"
    | (short) e where "json_char c = [92, e]"
        "(e, c) \<in> {(34, 34), (92, 92), (110, 10), (114, 13), (116, 9), (102, 12), (98, 8)}"
    | (long) "json_char c = concat (map unicode_escape (units c))"
proof -
  consider "c \<in> {34, 92, 10, 13, 9, 12, 8}" | "c \<notin> {34, 92, 10, 13, 9, 12, 8}" "32 \<le> c \<and> c < 127"
    | "c \<notin> {34, 92, 10, 13, 9, 12, 8}" "\<not> (32 \<le> c \<and> c < 127)" by blast
  then show thesis
  proof cases
    case 1
    then show thesis using short by (auto simp: json_char_def)
  next
    case 2
    then show thesis using plain by (simp add: json_char_def)
  next
    case 3
    then have "json_char c = (if c < 65536 then unicode_escape c
      else unicode_escape (55296 + (c - 65536) div 1024) @ unicode_escape (56320 + (c - 65536) mod 1024))"
      unfolding json_char_def by auto
    then show thesis using long by (simp add: units_def)
  qed
qed

lemma units_bounds:
  assumes "scalar_value c"
  shows "\<forall>u \<in> set (units c). u < 65536" "c < 65536 \<Longrightarrow> hd (units c) = c \<and> \<not> (55296 \<le> c \<and> c \<le> 57343)"
proof -
  have d: "(c - 65536) div 1024 < 1024" if "65536 \<le> c" using assms that by (simp add: scalar_value_def)
  have m: "(c - 65536) mod 1024 < 1024" by simp
  show "\<forall>u \<in> set (units c). u < 65536" using d m by (auto simp: units_def not_less)
  show "c < 65536 \<Longrightarrow> hd (units c) = c \<and> \<not> (55296 \<le> c \<and> c \<le> 57343)"
    using assms by (auto simp: units_def scalar_value_def)
qed

lemma units_inj:
  assumes "concat (map unicode_escape (units c)) @ x = concat (map unicode_escape (units d)) @ y"
    "scalar_value c" "scalar_value d"
  shows "c = d \<and> x = y"
proof -
  obtain u us where u: "units c = u # us" by (cases "units c") (auto simp: units_def split: if_splits)
  obtain v vs where v: "units d = v # vs" by (cases "units d") (auto simp: units_def split: if_splits)
  note bu = units_bounds [OF assms(2), unfolded u] and bv = units_bounds [OF assms(3), unfolded v]
  have first: "u = v" "concat (map unicode_escape us) @ x = concat (map unicode_escape vs) @ y"
    using unicode_escape_inj [of u "concat (map unicode_escape us) @ x" v "concat (map unicode_escape vs) @ y"]
      assms(1) bu(1) bv(1) by (simp_all add: u v)
  show ?thesis
  proof (cases "c < 65536")
    case True
    then have uc: "u = c" "\<not> (55296 \<le> u \<and> u \<le> 57343)" using bu(2) by auto
    moreover have "d < 65536"
    proof (rule ccontr)
      assume "\<not> d < 65536"
      moreover from this have "(d - 65536) div 1024 < 1024" using assms(3) by (simp add: scalar_value_def)
      ultimately have "55296 \<le> v \<and> v \<le> 57343" using v by (simp add: units_def)
      then show False using uc(2) first(1) by simp
    qed
    moreover from this have "v = d" using bv(2) by simp
    ultimately show ?thesis using first u v True by (simp add: units_def)
  next
    case False
    then have cu: "u = 55296 + (c - 65536) div 1024" "us = [56320 + (c - 65536) mod 1024]" using u by (simp_all add: units_def)
    have "\<not> d < 65536"
    proof
      assume "d < 65536"
      then have "v = d" "\<not> (55296 \<le> v \<and> v \<le> 57343)" using bv(2) by auto
      moreover have "(c - 65536) div 1024 < 1024" using assms(2) False by (simp add: scalar_value_def)
      ultimately show False using first(1) cu(1) by simp
    qed
    then have dv: "v = 55296 + (d - 65536) div 1024" "vs = [56320 + (d - 65536) mod 1024]" using v by (simp_all add: units_def)
    have "56320 + (c - 65536) mod 1024 = 56320 + (d - 65536) mod 1024 \<and> x = y"
      using unicode_escape_inj [of "56320 + (c - 65536) mod 1024" x "56320 + (d - 65536) mod 1024" y] first(2) cu(2) dv(2)
        units_bounds(1) [OF assms(2), unfolded u] units_bounds(1) [OF assms(3), unfolded v]
      by simp
    moreover have "(c - 65536) div 1024 = (d - 65536) div 1024" using first(1) cu(1) dv(1) by simp
    ultimately have "c - 65536 = d - 65536" "x = y"
      by (metis add_left_cancel div_mult_mod_eq, simp)
    then show ?thesis using False \<open>\<not> d < 65536\<close> by simp
  qed
qed

lemma unicode_escape_start: "unicode_escape n = 92 # 117 # drop 2 (unicode_escape n)"
  by (simp add: unicode_escape_def)

lemma units_start: "concat (map unicode_escape (units c)) = 92 # 117 # drop 2 (concat (map unicode_escape (units c)))"
  by (simp add: units_def unicode_escape_def)

lemma json_char_inj:
  assumes eq: "json_char c @ x = json_char d @ y" and c: "scalar_value c" and d: "scalar_value d"
  shows "c = d \<and> x = y"
proof -
  obtain s where s: "concat (map unicode_escape (units c)) = 92 # 117 # s" using units_start by blast
  obtain t where t: "concat (map unicode_escape (units d)) = 92 # 117 # t" using units_start by blast
  show ?thesis
proof (cases rule: json_char_cases [of c])
  case c1: plain
  show ?thesis
    by (cases rule: json_char_cases [of d]) (use eq c1 t in auto)
next
  case c2: (short e)
  show ?thesis
    by (cases rule: json_char_cases [of d]) (use eq c2 t in auto)
next
  case c3: long
  show ?thesis
    by (cases rule: json_char_cases [of d]) (use eq c3 s units_inj [OF _ c d] in auto)
qed
qed

lemma json_char_start: "\<exists>a as. json_char c = a # as \<and> a \<noteq> 34"
proof -
  obtain s where "concat (map unicode_escape (units c)) = 92 # 117 # s" using units_start by blast
  then show ?thesis by (cases rule: json_char_cases [of c]) auto
qed

lemma json_text_inj:
  "json_text v @ x = json_text w @ y \<Longrightarrow> \<forall>c \<in> set v \<union> set w. scalar_value c \<Longrightarrow> v = w \<and> x = y"
proof -
  have "concat (map json_char v) @ 34 # x = concat (map json_char w) @ 34 # y \<Longrightarrow>
      \<forall>c \<in> set v \<union> set w. scalar_value c \<Longrightarrow> v = w \<and> x = y"
  proof (induction v arbitrary: w)
    case Nil
    then show ?case using json_char_start by (cases w) (auto, metis append_Cons list.inject)
  next
    case (Cons c v)
    show ?case
    proof (cases w)
      case Nil
      then show ?thesis using Cons.prems(1) json_char_start [of c] by auto
    next
      case w: (Cons d w')
      have "c = d \<and> concat (map json_char v) @ 34 # x = concat (map json_char w') @ 34 # y"
        by (rule json_char_inj) (use Cons.prems w in auto)
      then show ?thesis using Cons.IH [of w'] Cons.prems(2) w by auto
    qed
  qed
  then show "json_text v @ x = json_text w @ y \<Longrightarrow> \<forall>c \<in> set v \<union> set w. scalar_value c \<Longrightarrow> v = w \<and> x = y"
    by (simp add: json_text_def)
qed

text \<open>
  C40: The context a search cursor is signed with determines the principal, the scope and the query: two
  searches share a context only if they are the same search of the same principal.
\<close>

theorem cursor_context_unambiguous:
  assumes "cursor_context show_uuid p a = cursor_context show_uuid q b"
    and "\<forall>i j. show_uuid i = show_uuid j \<longrightarrow> i = j" "\<forall>i. \<forall>c \<in> set (show_uuid i). scalar_value c"
    and "\<forall>c \<in> set (ds_query a) \<union> set (ds_query b). scalar_value c"
  shows "p = q \<and> a = b"
proof -
  have v: "\<forall>c \<in> set (scope_value s). scalar_value c" for s
    by (cases s) (simp_all add: scope_value_def cps_def scalar_value_def)
  have one: "show_uuid p = show_uuid q \<and> 44 # json_text (cps ''query'') @ 58 # json_text (ds_query a) @
     44 # json_text (cps ''scope'') @ 58 # json_text (scope_value (ds_scope a)) @ [125] =
     44 # json_text (cps ''query'') @ 58 # json_text (ds_query b) @
     44 # json_text (cps ''scope'') @ 58 # json_text (scope_value (ds_scope b)) @ [125]"
    by (rule json_text_inj) (use assms(1,3) in \<open>auto simp: cursor_context_def\<close>)
  then have two: "ds_query a = ds_query b \<and> 44 # json_text (cps ''scope'') @ 58 # json_text (scope_value (ds_scope a)) @ [125] =
     44 # json_text (cps ''scope'') @ 58 # json_text (scope_value (ds_scope b)) @ [125]"
    by (intro json_text_inj) (use assms(4) in auto)
  then have "scope_value (ds_scope a) = scope_value (ds_scope b) \<and> [125] = [125::nat]"
    by (intro json_text_inj) (use v in auto)
  then have "ds_scope a = ds_scope b"
    by (cases "ds_scope a"; cases "ds_scope b") (simp_all add: scope_value_def cps_def)
  then show ?thesis using one two assms(2) by auto
qed

lemma cursor_context_unambiguous_witness:
  "cursor_context (\<lambda>i. replicate i 48) 1 \<lparr>ds_scope = MINE, ds_query = [34, 58]\<rparr> \<noteq>
     cursor_context (\<lambda>i. replicate i 48) 1 \<lparr>ds_scope = MINE, ds_query = [92, 34, 58]\<rparr>"
proof
  assume "cursor_context (\<lambda>i. replicate i 48) 1 \<lparr>ds_scope = MINE, ds_query = [34, 58]\<rparr> =
     cursor_context (\<lambda>i. replicate i 48) 1 \<lparr>ds_scope = MINE, ds_query = [92, 34, 58]\<rparr>"
  moreover have "\<forall>i j. replicate i (48::nat) = replicate j 48 \<longrightarrow> i = j" by (metis length_replicate)
  ultimately show False using cursor_context_unambiguous [of "\<lambda>i. replicate i 48" 1 _ 1] by (fastforce simp: scalar_value_def)
qed

end
