(* ===== verification/Web_Policy.thy ===== *)
theory Web_Policy
  imports Urls Services
begin

text \<open>
  The browser security policy of both services (\<open>rendering/security.py\<close>) and the middleware that applies
  it to every response (\<open>middleware.py\<close>). Headers are a map from the names the code spells to their
  values; a response is generic in its body.
\<close>

section \<open>Responses\<close>

type_synonym headers = "string \<Rightarrow> text option"

record 'b response =
  rs_status :: nat
  rs_headers :: headers
  rs_cookies :: "(text \<times> text) list"
  rs_body :: 'b

section \<open>Origins\<close>

definition http_schemes :: "text list" where
  "http_schemes = [cps ''http'', cps ''https'']"

text \<open>\<open>None\<close> is the \<open>ValueError\<close> of a malformed network location or port.\<close>

definition serialized_origin :: "'x url_env_scheme \<Rightarrow> split_url \<Rightarrow> text option" where
  "serialized_origin env parts =
     (case split_hostname env parts of
        None \<Rightarrow> None
      | Some hostname \<Rightarrow>
          if su_scheme parts \<notin> set http_schemes then None
          else (case split_port parts of
            None \<Rightarrow> None
          | Some port \<Rightarrow>
              let origin = su_scheme parts @ cps ''://'' @ ue_lower env hostname
              in Some (case port of None \<Rightarrow> origin | Some p \<Rightarrow> origin @ 58 # cps (decimal p))))"

definition invalid_origin :: exn where
  "invalid_origin = ValueError ''origin must be a valid HTTP origin''"

definition validated_origin :: "'x url_env_scheme \<Rightarrow> text \<Rightarrow> exn + text" where
  "validated_origin env value =
     (if value = [] \<or> list_ex is_space value
      then Inl (ValueError ''origin must be a non-empty HTTP origin without whitespace'')
      else (case urlsplit env value of
        None \<Rightarrow> Inl invalid_origin
      | Some parts \<Rightarrow>
          (case split_port parts of
            None \<Rightarrow> Inl invalid_origin
          | Some port \<Rightarrow>
              (case serialized_origin env parts of
                None \<Rightarrow> Inl invalid_origin
              | Some normalized \<Rightarrow>
                  if su_scheme parts \<notin> set http_schemes \<or> split_username parts \<noteq> None
                     \<or> split_password parts \<noteq> None \<or> su_path parts \<noteq> [] \<or> su_query parts \<noteq> []
                     \<or> su_fragment parts \<noteq> [] \<or> value \<noteq> normalized
                  then Inl (ValueError ''origin must contain only a normalized scheme, hostname, and port'')
                  else Inr normalized))))"

section \<open>Policies\<close>

definition quoted :: "string \<Rightarrow> text" where
  "quoted s = 39 # cps s @ [39]"

definition directive :: "string \<Rightarrow> text list \<Rightarrow> text" where
  "directive name sources = join_sp (cps name # sources)"

fun serialize_policy :: "text list \<Rightarrow> text" where
  "serialize_policy [] = []"
| "serialize_policy [d] = d"
| "serialize_policy (d # e # ds) = d @ cps ''; '' @ serialize_policy (e # ds)"

definition content_iframe_sandbox :: "text" where
  "content_iframe_sandbox = cps ''allow-scripts''"

definition portal_referrer_policy :: "text" where
  "portal_referrer_policy = cps ''same-origin''"

definition no_referrer :: "text" where
  "no_referrer = cps ''no-referrer''"

definition permissions_policy :: "text" where
  "permissions_policy = cps (''accelerometer=(), camera=(), geolocation=(), gyroscope=(), '' @
     ''microphone=(), payment=(), usb=()'')"

definition portal_directives :: "bool \<Rightarrow> text \<Rightarrow> text list" where
  "portal_directives allow_scripts origin =
     [directive ''default-src'' [quoted ''self''],
      directive ''base-uri'' [quoted ''none''],
      directive ''object-src'' [quoted ''none''],
      directive ''script-src'' [if allow_scripts then quoted ''self'' else quoted ''none''],
      directive ''style-src'' [quoted ''self''],
      directive ''img-src'' [quoted ''self''],
      directive ''connect-src'' [quoted ''self''],
      directive ''frame-src'' [origin],
      directive ''form-action'' [quoted ''self''],
      directive ''frame-ancestors'' [quoted ''none'']]"

definition portal_content_security_policy :: "'x url_env_scheme \<Rightarrow> text \<Rightarrow> bool \<Rightarrow> exn + text" where
  "portal_content_security_policy env content_origin allow_scripts =
     bindE (validated_origin env content_origin) (\<lambda>origin.
     Inr (serialize_policy (portal_directives allow_scripts origin)))"

definition content_directives :: "text \<Rightarrow> text list" where
  "content_directives origin =
     [directive ''default-src'' [quoted ''none''],
      directive ''base-uri'' [quoted ''none''],
      directive ''object-src'' [quoted ''none''],
      directive ''script-src'' [quoted ''unsafe-inline''],
      directive ''style-src'' [quoted ''self'', quoted ''unsafe-inline''],
      directive ''img-src'' [quoted ''self'', cps ''data:'', cps ''blob:''],
      directive ''font-src'' [quoted ''self'', cps ''data:''],
      directive ''media-src'' [cps ''data:'', cps ''blob:''],
      directive ''connect-src'' [quoted ''self''],
      directive ''frame-src'' [quoted ''none''],
      directive ''worker-src'' [quoted ''none''],
      directive ''manifest-src'' [quoted ''none''],
      directive ''form-action'' [quoted ''none''],
      directive ''frame-ancestors'' [origin],
      directive ''sandbox'' [content_iframe_sandbox]]"

definition content_security_policy :: "'x url_env_scheme \<Rightarrow> text \<Rightarrow> exn + text" where
  "content_security_policy env portal_origin =
     bindE (validated_origin env portal_origin) (\<lambda>origin.
     Inr (serialize_policy (content_directives origin)))"

definition restrictive_headers :: "text \<Rightarrow> headers" where
  "restrictive_headers cache_control =
     [''Cache-Control'' \<mapsto> cache_control, ''Permissions-Policy'' \<mapsto> permissions_policy,
      ''Referrer-Policy'' \<mapsto> no_referrer, ''X-Content-Type-Options'' \<mapsto> cps ''nosniff'',
      ''X-DNS-Prefetch-Control'' \<mapsto> cps ''off'']"

definition portal_response_headers :: "'x url_env_scheme \<Rightarrow> text \<Rightarrow> bool \<Rightarrow> exn + headers" where
  "portal_response_headers env content_origin allow_scripts =
     bindE (portal_content_security_policy env content_origin allow_scripts) (\<lambda>policy.
     Inr ((restrictive_headers (cps ''no-store''))
       (''Referrer-Policy'' \<mapsto> portal_referrer_policy, ''Content-Security-Policy'' \<mapsto> policy,
        ''X-Frame-Options'' \<mapsto> cps ''DENY'')))"

definition content_response_headers :: "'x url_env_scheme \<Rightarrow> text \<Rightarrow> exn + headers" where
  "content_response_headers env portal_origin =
     bindE (content_security_policy env portal_origin) (\<lambda>policy.
     Inr ((restrictive_headers (cps ''private, no-store''))(''Content-Security-Policy'' \<mapsto> policy)))"

definition apply_portal_response_policy ::
  "'x url_env_scheme \<Rightarrow> text \<Rightarrow> bool \<Rightarrow> 'b response \<Rightarrow> exn + 'b response" where
  "apply_portal_response_policy env content_origin allow_scripts response =
     bindE (portal_response_headers env content_origin allow_scripts) (\<lambda>hs.
     Inr (response\<lparr>rs_headers := rs_headers response ++ hs\<rparr>))"

definition apply_content_response_policy ::
  "'x url_env_scheme \<Rightarrow> text \<Rightarrow> 'b response \<Rightarrow> exn + 'b response" where
  "apply_content_response_policy env portal_origin response =
     (let cleared = response\<lparr>rs_cookies := [],
        rs_headers := (rs_headers response)(''Set-Cookie'' := None, ''X-Frame-Options'' := None)\<rparr>
      in bindE (content_response_headers env portal_origin) (\<lambda>hs.
         Inr (cleared\<lparr>rs_headers := rs_headers cleared ++ hs\<rparr>)))"

definition wrong_content_origin :: exn where
  "wrong_content_origin = ValueError ''content URL must use the configured content origin''"

definition portal_content_iframe_attributes :: "'x url_env_scheme \<Rightarrow> text \<Rightarrow> text \<Rightarrow> exn + headers" where
  "portal_content_iframe_attributes env content_url content_origin =
     bindE (validated_origin env content_origin) (\<lambda>expected_origin.
     if content_url = [] \<or> list_ex is_space content_url
     then Inl (ValueError ''content URL must be a non-empty absolute URL without whitespace'')
     else (case urlsplit env content_url of
       None \<Rightarrow> Inl (ValueError ''content URL must be a valid HTTP origin URL'')
     | Some parts \<Rightarrow>
         (case serialized_origin env parts of
           None \<Rightarrow> Inl (ValueError ''content URL must be a valid HTTP origin URL'')
         | Some actual_origin \<Rightarrow>
             if actual_origin \<noteq> expected_origin \<or> split_username parts \<noteq> None
                \<or> split_password parts \<noteq> None \<or> 35 \<in> set content_url
             then Inl wrong_content_origin
             else Inr [''src'' \<mapsto> content_url, ''sandbox'' \<mapsto> content_iframe_sandbox,
                       ''referrerpolicy'' \<mapsto> no_referrer])))"

section \<open>The middleware\<close>

text \<open>
  The response of the inner handler, or Django's conversion of its exception to a response, passes the
  policy of the service; scripts of the portal are same-origin modules.
\<close>

definition portal_middleware :: "'x url_env_scheme \<Rightarrow> text \<Rightarrow> 'b response \<Rightarrow> exn + 'b response" where
  "portal_middleware env content_origin response = apply_portal_response_policy env content_origin True response"

definition content_middleware :: "'x url_env_scheme \<Rightarrow> text \<Rightarrow> 'b response \<Rightarrow> exn + 'b response" where
  "content_middleware env portal_origin response = apply_content_response_policy env portal_origin response"

section \<open>What a validated origin and a frame are\<close>

lemma validated_origin_accepts:
  "validated_origin env value = Inr origin \<Longrightarrow> origin = value \<and> value \<noteq> [] \<and> \<not> list_ex is_space value \<and>
     (\<exists>parts. urlsplit env value = Some parts \<and> serialized_origin env parts = Some value \<and> su_path parts = [] \<and>
        su_query parts = [] \<and> su_fragment parts = [] \<and> split_username parts = None \<and> split_password parts = None)"
  by (auto simp: validated_origin_def split: if_split_asm option.split_asm)

text \<open>A frame shows only the content origin, sandboxed, and passes no credential of a URL on.\<close>

lemma iframe_shows_content_origin:
  "portal_content_iframe_attributes env content_url content_origin = Inr attrs \<Longrightarrow>
     attrs ''src'' = Some content_url \<and> attrs ''sandbox'' = Some content_iframe_sandbox \<and>
     (\<exists>parts. urlsplit env content_url = Some parts \<and> serialized_origin env parts = Some content_origin \<and>
        split_username parts = None \<and> split_password parts = None) \<and>
     35 \<notin> set content_url \<and> \<not> list_ex is_space content_url"
  by (auto simp: portal_content_iframe_attributes_def bindE_eq_Inr
      split: if_split_asm option.split_asm dest!: validated_origin_accepts)

end
