(* ===== verification/Delivery.thy ===== *)
theory Delivery
  imports Web_Policy Storage Render_Auth
begin

text \<open>
  The content service: the routes of the content origin (\<open>urls/content.py\<close>), artifact delivery
  (\<open>rendering/views.py\<close>) and the middleware around them, over the database and the directory tree. The
  path of a request is the decoded \<open>path_info\<close>; what Django's own outer middleware adds, and the text of
  its error page, are not represented. The body of a response to GET is a stream that opens the file
  again when it is sent (\<open>artifact_chunks\<close>).
\<close>

section \<open>Requests and failures\<close>

record request =
  rq_method :: string
  rq_path :: "text"
  rq_origin :: "text option"

datatype body = NoBody | Streamed "text"

text \<open>What a view raises: an exception of the application or of the storage adapter.\<close>

datatype failure = Raised exn | Disk storage_error

type_synonym 'a view = "(db \<times> fs, failure, 'a) action"

definition database :: "'a dbtxn \<Rightarrow> 'a view" where
  "database m = (\<lambda>(s, f). case m s of Inl e \<Rightarrow> (Inl (Raised e), s, f) | Inr (a, t) \<Rightarrow> (Inr a, t, f))"

definition disk_call :: "'a io \<Rightarrow> 'a view" where
  "disk_call m = (\<lambda>(s, f). case m f of (Inl e, g) \<Rightarrow> (Inl (Disk e), s, g) | (Inr a, g) \<Rightarrow> (Inr a, s, g))"

text \<open>The subclasses of \<open>ArtifactStorageError\<close>.\<close>

definition is_storage_error :: "storage_error \<Rightarrow> bool" where
  "is_storage_error e \<longleftrightarrow> (case e of
      ArtifactStorageFailure \<Rightarrow> True | Collision \<Rightarrow> True | IntegrityFailure \<Rightarrow> True
    | CleanupRequired \<Rightarrow> True | UnsafeEntry \<Rightarrow> True | WriteCommitted r \<Rightarrow> True | _ \<Rightarrow> False)"

text \<open>Django's \<open>HttpResponse\<close>, \<open>HttpResponseNotFound\<close> and \<open>HttpResponseNotAllowed\<close> without content.\<close>

definition plain_response :: "nat \<Rightarrow> 'b \<Rightarrow> 'b response" where
  "plain_response status b =
     \<lparr>rs_status = status, rs_headers = [''Content-Type'' \<mapsto> cps ''text/html; charset=utf-8''],
      rs_cookies = [], rs_body = b\<rparr>"

definition not_found :: "body response" where
  "not_found = plain_response 404 NoBody"

definition not_allowed :: "body response" where
  "not_allowed = (plain_response 405 NoBody)\<lparr>rs_headers :=
     [''Content-Type'' \<mapsto> cps ''text/html; charset=utf-8'', ''Allow'' \<mapsto> cps ''GET, HEAD'']\<rparr>"

text \<open>\<open>_render_failure\<close>: the response, and the path the request has from then on.\<close>

definition redacted_path :: "text" where
  "redacted_path = cps ''/render/<redacted>/''"

definition render_failure :: "request \<Rightarrow> body response \<Rightarrow> request \<times> body response" where
  "render_failure request response = (request\<lparr>rq_path := redacted_path\<rparr>, response)"

section \<open>Artifacts\<close>

definition text_media_types :: "string list" where
  "text_media_types = [''text/html'', ''text/csv'', ''text/css'']"

definition stream_chunk_size :: nat where
  "stream_chunk_size = 64 * 1024"

text \<open>\<open>FilesystemArtifactStorage(root)\<close>: the root of the model is an absolute path and a directory.\<close>

definition open_storage :: "unit io" where
  "open_storage =
     bindP (os_errors_as ArtifactStorageFailure barrier) (\<lambda>_.
     bindP (os_errors_as ArtifactStorageFailure barrier) (\<lambda>_. barrier))"

definition open_artifact :: "text \<Rightarrow> unit io" where
  "open_artifact key =
     bindP open_storage (\<lambda>_.
     if \<not> canonical_key key then raiseP ArtifactStorageFailure
     else bindP (fs_open key) (\<lambda>_. barrier))"

definition content_type :: "artifact \<Rightarrow> text" where
  "content_type a = cps (if a_media_type a \<in> set text_media_types
     then a_media_type a @ ''; charset=utf-8'' else a_media_type a)"

definition artifact_headers :: "artifact \<Rightarrow> headers" where
  "artifact_headers a =
     [''Content-Type'' \<mapsto> content_type a, ''Content-Length'' \<mapsto> cps (decimal (a_byte_size a))]"

definition artifact_response :: "request \<Rightarrow> artifact \<Rightarrow> (request \<times> body response) view" where
  "artifact_response request a =
     tryP (bindP (disk_call (open_artifact (a_storage_key a))) (\<lambda>_.
         returnP (request, \<lparr>rs_status = 200, rs_headers = artifact_headers a, rs_cookies = [],
           rs_body = (if rq_method request = ''HEAD'' then NoBody else Streamed (a_storage_key a))\<rparr>)))
       (\<lambda>e. case e of
          Disk d \<Rightarrow> if is_storage_error d \<or> d = FileNotFoundError
            then returnP (render_failure request not_found) else raiseP e
        | _ \<Rightarrow> raiseP e)"

text \<open>
  \<open>_artifact_chunks\<close>: the pieces the stream yields, and the error that ended it early, if any. Every read
  and the closing of the file is a call that may fail.
\<close>

type_synonym sending = "fs \<Rightarrow> (text list \<times> storage_error option) \<times> fs"

function send_pieces :: "nat \<Rightarrow> text \<Rightarrow> sending" where
  "send_pieces n data w = (case barrier w of
      (Inl e, w') \<Rightarrow> (([], Some e), w')
    | (Inr _, w') \<Rightarrow>
        if data = [] \<or> n = 0 then (([], None), w')
        else let ((ps, e), w'') = send_pieces n (drop n data) w' in ((take n data # ps, e), w''))"
  by pat_completeness auto

termination by (relation "measure (\<lambda>(n, data, w). length data)") auto

declare send_pieces.simps [simp del]

definition artifact_chunks :: "text \<Rightarrow> sending" where
  "artifact_chunks key w = (case fs_open key w of
      (Inl e, w') \<Rightarrow> (([], Some e), w')
    | (Inr data, w') \<Rightarrow>
        let ((ps, e), w'') = send_pieces stream_chunk_size data w'
        in (case barrier w'' of
            (Inl e', v) \<Rightarrow> ((ps, Some e'), v)
          | (Inr _, v) \<Rightarrow> ((ps, e), v)))"

section \<open>Views\<close>

definition deniable :: "exn \<Rightarrow> bool" where
  "deniable e \<longleftrightarrow> e = DoesNotExist \<or> e = MultipleObjectsReturned \<or> e = RenderAuthorizationDenied"

definition is_invalid_name :: "exn \<Rightarrow> bool" where
  "is_invalid_name e \<longleftrightarrow> (case e of InvalidLogicalName m \<Rightarrow> True | _ \<Rightarrow> False)"

definition answers_to_reads :: "request \<Rightarrow> bool" where
  "answers_to_reads request \<longleftrightarrow> rq_method request = ''GET'' \<or> rq_method request = ''HEAD''"

definition found_artifact :: "db \<Rightarrow> revision \<Rightarrow> (artifact \<Rightarrow> bool) \<Rightarrow> exn + artifact" where
  "found_artifact s r P = exactly_one (filter (\<lambda>a. a_revision a = r_id r \<and> P a) (artifacts s))"

definition render_html ::
  "(text \<Rightarrow> text) \<Rightarrow> request \<Rightarrow> string \<Rightarrow> text \<Rightarrow> (request \<times> body response) view" where
  "render_html sha256 request audience token =
     (if \<not> answers_to_reads request then returnP (render_failure request not_allowed)
      else bindP (tryP (database (
          bindT (resolve_render_authorization sha256 token audience None) (\<lambda>target.
          bindT (queryT (\<lambda>s. found_artifact s (rr_revision target) (\<lambda>a. a_kind a = HTML))) (\<lambda>a.
          returnT (Some a)))))
        (\<lambda>e. case e of Raised x \<Rightarrow> if deniable x then returnP None else raiseP e | _ \<Rightarrow> raiseP e)) (\<lambda>found.
      case found of
        None \<Rightarrow> returnP (render_failure request not_found)
      | Some a \<Rightarrow> artifact_response request a))"

definition supporting_artifact_kinds :: "artifact_kind list" where
  "supporting_artifact_kinds = [CSV, CSS, IMAGE, FONT]"

definition allows_null_origin :: "request \<Rightarrow> body response \<Rightarrow> body response" where
  "allows_null_origin request response =
     (if rs_status response < 400 \<and> rq_origin request = Some (cps ''null'')
      then response\<lparr>rs_headers := (rs_headers response)
        (''Access-Control-Allow-Origin'' \<mapsto> cps ''null'', ''Vary'' \<mapsto> cps ''Origin'')\<rparr>
      else response)"

definition render_supporting_artifact ::
  "unicode \<Rightarrow> (text \<Rightarrow> text) \<Rightarrow> artifact_kind list \<Rightarrow> request \<Rightarrow> string \<Rightarrow> text \<Rightarrow> text
    \<Rightarrow> (request \<times> body response) view" where
  "render_supporting_artifact uc sha256 allowed_kinds request audience token logical_name =
     (if \<not> answers_to_reads request then returnP (render_failure request not_allowed)
      else bindP (tryP (database (
          bindT (queryT (\<lambda>_. normalize_logical_name uc logical_name)) (\<lambda>normalized.
          bindT (resolve_render_authorization sha256 token audience None) (\<lambda>target.
          bindT (queryT (\<lambda>s. found_artifact s (rr_revision target)
            (\<lambda>a. a_kind a \<in> set allowed_kinds \<and> a_name_key a = comparison_key normalized))) (\<lambda>a.
          returnT (Some a))))))
        (\<lambda>e. case e of
            Raised x \<Rightarrow> if deniable x \<or> is_invalid_name x then returnP None else raiseP e
          | _ \<Rightarrow> raiseP e)) (\<lambda>found.
      case found of
        None \<Rightarrow> returnP (render_failure request not_found)
      | Some a \<Rightarrow>
          bindP (artifact_response request a) (\<lambda>(request', response).
          returnP (request', allows_null_origin request' response))))"

definition render_csv where
  "render_csv uc sha256 = render_supporting_artifact uc sha256 [CSV]"

definition render_artifact where
  "render_artifact uc sha256 = render_supporting_artifact uc sha256 supporting_artifact_kinds"

section \<open>Routes and the service\<close>

text \<open>A \<open>str\<close> converter takes one component that is not empty.\<close>

datatype content_route =
    HtmlRoute string "text"
  | ArtifactRoute string "text" "text"
  | NoContentRoute

definition content_route :: "text \<Rightarrow> content_route" where
  "content_route path =
     (case split_on 47 path of
        [start, prefix, audience, token, name] \<Rightarrow>
          if start = [] \<and> prefix = cps ''render'' \<and> token \<noteq> []
          then (if audience = cps ''preview''
            then (if name = [] then HtmlRoute ''preview'' token else ArtifactRoute ''preview'' token name)
            else if audience = cps ''viewer''
            then (if name = [] then HtmlRoute ''viewer'' token else ArtifactRoute ''viewer'' token name)
            else NoContentRoute)
          else NoContentRoute
      | _ \<Rightarrow> NoContentRoute)"

definition content_view :: "unicode \<Rightarrow> (text \<Rightarrow> text) \<Rightarrow> request \<Rightarrow> (request \<times> body response) view" where
  "content_view uc sha256 request =
     (case content_route (rq_path request) of
        HtmlRoute audience token \<Rightarrow> render_html sha256 request audience token
      | ArtifactRoute audience token name \<Rightarrow> render_artifact uc sha256 request audience token name
      | NoContentRoute \<Rightarrow> returnP (request, not_found))"

text \<open>Django answers an exception of a view with its error page and status 500, inside the middleware.\<close>

definition server_error :: "body response" where
  "server_error = plain_response 500 NoBody"

definition content_service ::
  "'x url_env_scheme \<Rightarrow> (text \<Rightarrow> text) \<Rightarrow> text \<Rightarrow> request \<Rightarrow> db \<times> fs \<Rightarrow> (exn + body response) \<times> db \<times> fs" where
  "content_service env sha256 portal_origin request w =
     (case content_view (ue_unicode env) sha256 request w of
        (Inl e, v) \<Rightarrow> (content_middleware env portal_origin server_error, v)
      | (Inr (request', response), v) \<Rightarrow> (content_middleware env portal_origin response, v))"

end
