(* ===== verification/Delivery_Facts.thy ===== *)
theory Delivery_Facts
  imports Delivery Stored_Revisions
begin

text \<open>
  What the content service answers: opening and sending a file only counts calls and yields the stored
  bytes; a view answers a refusal or the artifact its route designates, under a credential that is
  entitled; and every response leaves behind the policy of the content origin.
\<close>

section \<open>Reading the disk\<close>

text \<open>A call that reads leaves the disk as it was; only the calls are counted.\<close>

definition only_counts :: "fs \<Rightarrow> fs \<Rightarrow> bool" where
  "only_counts f g \<longleftrightarrow> g = f\<lparr>fs_calls := fs_calls g\<rparr>"

lemma only_counts_order: "reflp only_counts" "transp only_counts"
  by (auto simp: only_counts_def reflp_def transp_def) (metis (no_types, lifting) fs.update_convs(5) fs.surjective)

lemma only_counts_bytes: "only_counts f g \<Longrightarrow> stored_bytes g = stored_bytes f"
  unfolding only_counts_def stored_bytes_def by (metis fs.select_convs(1) fs.surjective fs.update_convs(5))

lemma syscall_counts: "(\<And>w. only_counts w (snd (h w))) \<Longrightarrow> keeps only_counts (syscall h)"
  unfolding keeps_def syscall_def Let_def
  by (auto simp: only_counts_def) (metis fs.surjective fs.update_convs(5))

lemma reads_count:
  "keeps only_counts barrier" "keeps only_counts (lstat p)" "keeps only_counts (read_file p)"
  unfolding barrier_def lstat_def read_file_def
  by (rule syscall_counts, simp add: only_counts_def split: option.split entry.split)+

lemmas counting = keeps_cases keeps_intros only_counts_order reads_count

lemma os_errors_count: "keeps only_counts m \<Longrightarrow> keeps only_counts (os_errors_as e m)"
  unfolding os_errors_as_def by (intro counting)

lemma walk_counts: "keeps only_counts (walk_directories False current cs)"
proof (induction cs arbitrary: current)
  case (Cons c cs)
  then show ?case
    unfolding walk_directories.simps Let_def assert_directory_def if_False
    by (intro counting os_errors_count) (simp_all add: counting os_errors_count)
qed (simp add: counting)

lemma fs_open_counts: "keeps only_counts (fs_open key)"
  unfolding fs_open_def key_paths_def assert_regular_def
  by (intro counting walk_counts) (simp_all add: counting split: entry.split)

lemma read_file_bytes: "read_file p f = (Inr b, g) \<Longrightarrow> fs_entries f p = Some (Regular b)"
  by (auto simp: read_file_def syscall_def Let_def split: if_split_asm option.split_asm entry.split_asm)

lemma key_paths_final: "key_paths False key f = (Inr (Some (p, q)), g) \<Longrightarrow> p = final_path key \<and> only_counts f g"
  using keepsD [OF walk_counts, of "[]" "butlast (key_components key)" f]
  by (auto simp: key_paths_def bindP_eq_Inr eq_commute [of "Some _"])

lemma stored_bytes_regular: "fs_entries f (final_path key) = Some (Regular b) \<Longrightarrow> stored_bytes f key = Some b"
  by (simp add: stored_bytes_def)

lemma fs_open_bytes:
  assumes "fs_open key f = (Inr b, g)"
  shows "stored_bytes f key = Some b"
proof -
  obtain p q f1 e f2 f3 u f4 where a: "key_paths False key f = (Inr (Some (p, q)), f1)"
    "tryP (lstat p) (\<lambda>e. raiseP (if e = FileNotFoundError then FileNotFoundError else ArtifactStorageFailure)) f1
       = (Inr e, f2)"
    "assert_regular e f2 = (Inr u, f3)"
    "tryP (read_file p) (\<lambda>e. raiseP (if e = FileNotFoundError then FileNotFoundError else ArtifactStorageFailure)) f3
       = (Inr b, f4)"
    using assms unfolding fs_open_def by (auto simp: bindP_eq_Inr split: option.split_asm)
  have k: "p = final_path key" "only_counts f f1" using key_paths_final [OF a(1)] by auto
  have "only_counts f1 f2" using a(2) keepsD [OF reads_count(2)] by (auto simp: tryP_eq_Inr)
  moreover have "f3 = f2" using a(3) by (auto simp: assert_regular_def split: entry.split_asm)
  ultimately have "stored_bytes f3 = stored_bytes f" using k(2) by (metis only_counts_bytes)
  moreover have "fs_entries f3 p = Some (Regular b)" using a(4) by (auto simp: tryP_eq_Inr dest: read_file_bytes)
  ultimately show ?thesis using k(1) by (metis stored_bytes_regular)
qed

lemma send_pieces_sent:
  "send_pieces n data f = ((ps, e), g) \<Longrightarrow> only_counts f g \<and> (\<exists>rest. data = concat ps @ rest \<and> (e = None \<and> 0 < n \<longrightarrow> rest = []))
    \<and> (\<forall>p \<in> set ps. p \<noteq> [] \<and> length p \<le> n)"
proof (induction n data f arbitrary: ps e g rule: send_pieces.induct)
  case (1 n data f)
  obtain r f' where b: "barrier f = (r, f')" by (cases "barrier f")
  have c: "only_counts f f'" using keepsD [OF reads_count(1) b] .
  show ?case
  proof (cases r)
    case (Inl x)
    then show ?thesis using "1.prems" b c by (auto simp: send_pieces.simps [of n data f])
  next
    case (Inr u)
    show ?thesis
    proof (cases "data = [] \<or> n = 0")
      case True
      then show ?thesis using "1.prems" b c Inr by (auto simp: send_pieces.simps [of n data f])
    next
      case False
      then obtain qs e' g' where r: "send_pieces n (drop n data) f' = ((qs, e'), g')" "ps = take n data # qs" "e = e'" "g = g'"
        using "1.prems" b Inr by (auto simp: send_pieces.simps [of n data f] split: prod.split_asm)
      have IH: "only_counts f' g' \<and> (\<exists>rest. drop n data = concat qs @ rest \<and> (e' = None \<and> 0 < n \<longrightarrow> rest = []))
          \<and> (\<forall>p \<in> set qs. p \<noteq> [] \<and> length p \<le> n)"
        by (rule "1.IH" [OF b [symmetric] Inr False r(1)])
      then obtain rest where rest: "drop n data = concat qs @ rest" "e' = None \<and> 0 < n \<longrightarrow> rest = []" by blast
      have "data = concat ps @ rest" using append_take_drop_id [of n data] rest(1) r(2) by simp
      moreover have "only_counts f g" using IH c r(4) only_counts_order(2) by (metis transpD)
      ultimately show ?thesis using r(2,3) False IH rest(2) by auto
    qed
  qed
qed

text \<open>A body that is sent is the beginning of the stored bytes, and all of them unless a call fails.\<close>

lemma artifact_chunks_sent:
  assumes "artifact_chunks key f = ((ps, e), g)" "stored_bytes f key = Some b"
  shows "only_counts f g" "\<exists>rest. b = concat ps @ rest \<and> (e = None \<longrightarrow> rest = [])"
    "\<forall>p \<in> set ps. p \<noteq> [] \<and> length p \<le> stream_chunk_size"
proof -
  show "only_counts f g" "\<exists>rest. b = concat ps @ rest \<and> (e = None \<longrightarrow> rest = [])"
    "\<forall>p \<in> set ps. p \<noteq> [] \<and> length p \<le> stream_chunk_size"
  proof (atomize (full), cases "fs_open key f")
    case (Pair r f1)
    have c1: "only_counts f f1" using keepsD [OF fs_open_counts Pair] .
    show "only_counts f g \<and> (\<exists>rest. b = concat ps @ rest \<and> (e = None \<longrightarrow> rest = [])) \<and>
        (\<forall>p \<in> set ps. p \<noteq> [] \<and> length p \<le> stream_chunk_size)"
    proof (cases r)
      case (Inl x)
      then show ?thesis using assms(1) Pair c1 by (auto simp: artifact_chunks_def)
    next
      case (Inr data)
      then have "data = b" using fs_open_bytes Pair assms(2) by (metis option.inject)
      then obtain qs e2 f2 x g' where q: "send_pieces stream_chunk_size b f1 = ((qs, e2), f2)" "barrier f2 = (x, g)"
        "ps = qs" "e = (case x of Inl d \<Rightarrow> Some d | Inr u \<Rightarrow> e2)"
        using assms(1) Pair Inr by (auto simp: artifact_chunks_def split: prod.split_asm sum.split_asm)
      have s: "0 < stream_chunk_size" by (simp add: stream_chunk_size_def)
      note S = send_pieces_sent [OF q(1)]
      have "only_counts f g"
        using c1 S keepsD [OF reads_count(1) q(2)] only_counts_order(2) by (metis transpD)
      then show ?thesis using S s q(3,4) by (auto split: sum.split_asm)
    qed
  qed
qed

section \<open>What opening a file may raise\<close>

text \<open>What the delivery answers with 404, and the error of the system it lets through.\<close>

definition answered :: "storage_error \<Rightarrow> bool" where
  "answered e \<longleftrightarrow> is_storage_error e \<or> e = FileNotFoundError \<or> e = OSError"

lemma answered_simps [simp]:
  "answered ArtifactStorageFailure" "answered UnsafeEntry" "answered FileNotFoundError" "answered OSError"
  by (simp_all add: answered_def is_storage_error_def)

lemma barrier_answered: "raises answered barrier"
  by (auto simp: raises_def barrier_def syscall_def Let_def)

lemmas storage_failures = raises_os_errors_as [OF raises_calls(1), of answered ArtifactStorageFailure, simplified]
  raises_os_errors_as [OF raises_calls(2), of answered ArtifactStorageFailure, simplified]

lemma walk_answered: "raises answered (walk_directories False current cs)"
proof (induction cs arbitrary: current)
  case (Cons c cs)
  then show ?case
    unfolding walk_directories.simps Let_def if_False assert_directory_def
    by (auto intro!: raises_rules storage_failures)
qed (simp add: raises_rules)

lemma open_artifact_answered: "raises answered (open_artifact key)"
  unfolding open_artifact_def open_storage_def fs_open_def key_paths_def assert_regular_def
  by (auto intro!: raises_rules storage_failures walk_answered barrier_answered split: entry.split)

section \<open>What the service answers\<close>

text \<open>The response that delivers an artifact, before the origin header.\<close>

definition served :: "request \<Rightarrow> artifact \<Rightarrow> body response" where
  "served request a =
     \<lparr>rs_status = 200, rs_headers = artifact_headers a, rs_cookies = [],
      rs_body = (if rq_method request = ''HEAD'' then NoBody else Streamed (a_storage_key a))\<rparr>"

text \<open>The artifact a route names in the revision of a credential, and the response that delivers it.\<close>

definition designated :: "unicode \<Rightarrow> (text \<Rightarrow> text) \<Rightarrow> content_route \<Rightarrow> render_auth \<Rightarrow> artifact \<Rightarrow> bool" where
  "designated uc sha256 route cred a \<longleftrightarrow>
     (case route of
        HtmlRoute audience token \<Rightarrow>
          ra_token_digest cred = sha256 token \<and> audience_value (ra_audience cred) = audience \<and> a_kind a = HTML
      | ArtifactRoute audience token name \<Rightarrow>
          ra_token_digest cred = sha256 token \<and> audience_value (ra_audience cred) = audience \<and> a_kind a \<noteq> HTML \<and>
          (\<exists>n. normalize_logical_name uc name = Inr n \<and> a_name_key a = comparison_key n)
      | NoContentRoute \<Rightarrow> False)"

definition delivery :: "request \<Rightarrow> content_route \<Rightarrow> artifact \<Rightarrow> body response" where
  "delivery request route a = (case route of
      ArtifactRoute audience token name \<Rightarrow> allows_null_origin request (served request a)
    | _ \<Rightarrow> served request a)"

lemma open_artifact_counts: "keeps only_counts (open_artifact key)"
  unfolding open_artifact_def open_storage_def
  by (intro counting os_errors_count fs_open_counts)

lemma artifact_response_cases:
  assumes "artifact_response request a (s, f) = (r, t, g)"
  shows "t = s \<and> only_counts f g \<and>
    (r = Inl (Disk OSError) \<or> r = Inr (render_failure request not_found) \<or> r = Inr (request, served request a))"
proof -
  obtain x h where o: "open_artifact (a_storage_key a) f = (x, h)" by (cases "open_artifact (a_storage_key a) f")
  have c: "only_counts f h" using keepsD [OF open_artifact_counts o] .
  show ?thesis
  proof (cases x)
    case (Inl e)
    then have "answered e" using open_artifact_answered o by (auto simp: raises_def)
    then show ?thesis
      using assms o c Inl
      by (auto simp: artifact_response_def bindP_def tryP_def disk_call_def answered_def returnP_def raiseP_def split: if_split_asm)
  next
    case (Inr u)
    then show ?thesis
      using assms o c by (auto simp: artifact_response_def bindP_def tryP_def disk_call_def served_def returnP_def)
  qed
qed

lemma resolve_now:
  "resolve_render_authorization sha256 token audience None s =
     resolve_render_authorization sha256 token audience (Some (clock s (ticks s))) (s\<lparr>ticks := Suc (ticks s)\<rparr>)"
  by (simp add: resolve_render_authorization_def now_or_def txn_run bindT_def)

lemma entitled_ticks: "entitled (s\<lparr>ticks := n\<rparr>) a m = entitled s a m"
proof -
  have "users (s\<lparr>ticks := n\<rparr>) = users s" "dashboards (s\<lparr>ticks := n\<rparr>) = dashboards s"
    "grants (s\<lparr>ticks := n\<rparr>) = grants s" by simp_all
  then show ?thesis by (simp only: entitled_def)
qed

lemma resolved_now:
  assumes "reachable cfg s"
    and "resolve_render_authorization (cf_sha256 cfg) token audience None s = Inr (w, t)"
  shows "t = s\<lparr>ticks := Suc (ticks s)\<rparr>" "rr_authorization w \<in> set (render_auths s)"
    "ra_token_digest (rr_authorization w) = cf_sha256 cfg token"
    "audience_value (ra_audience (rr_authorization w)) = audience"
    "entitled s (rr_authorization w) (clock s (ticks s))" "r_id (rr_revision w) = ra_revision (rr_authorization w)"
proof -
  let ?s = "s\<lparr>ticks := Suc (ticks s)\<rparr>"
  have "step cfg s ?s" using step.advance [of cfg s, where i = 1 and j = 0 and k = 0 and n = 0] by simp
  then have u: "reachable cfg ?s" using reachable_step [OF assms(1)] by blast
  note R = resolves_iff [OF u, THEN iffD1, OF assms(2) [unfolded resolve_now]]
  show "t = ?s" using R by (rule conjunct1)
  have "render_auths ?s = render_auths s" by simp
  then show "rr_authorization w \<in> set (render_auths s)" using R by (simp only:)
  show "ra_token_digest (rr_authorization w) = cf_sha256 cfg token" using R by (simp only:)
  show "audience_value (ra_audience (rr_authorization w)) = audience" using R by (simp only:)
  show "entitled s (rr_authorization w) (clock s (ticks s))" using R by (simp only: entitled_ticks)
  have "revision_of ?s (ra_revision (rr_authorization w)) = Some (rr_revision w)" using R by (simp only:)
  then show "r_id (rr_revision w) = ra_revision (rr_authorization w)" by (rule lookup_row(3) [THEN conjunct2])
qed

lemma found_artifact_row:
  "found_artifact s r P = Inr a \<Longrightarrow> a \<in> set (artifacts s) \<and> a_revision a = r_id r \<and> P a"
  unfolding found_artifact_def by (drule exactly_one_filterD) simp

lemma database_eq_Inr: "database m (s, f) = (Inr a, t, g) \<longleftrightarrow> m s = Inr (a, t) \<and> g = f"
  by (auto simp: database_def split: sum.split)

lemma database_eq_Inl: "database m (s, f) = (Inl e, t, g) \<longleftrightarrow> (\<exists>x. m s = Inl x \<and> e = Raised x \<and> t = s \<and> g = f)"
  by (auto simp: database_def split: sum.split)

text \<open>
  The shape of both views: a lookup in the database whose expected failures are answered with 404, then
  the delivery of what was found.
\<close>

lemma lookup_cases:
  assumes run: "bindP (tryP (database m)
      (\<lambda>e. case e of Raised x \<Rightarrow> if P x then returnP None else raiseP e | _ \<Rightarrow> raiseP e)) K (s, f) = (r, t, g)"
  obtains (refused) "K None (s, f) = (r, t, g)"
    | (raised) e where "r = Inl e" "t = s" "g = f"
    | (found) a t1 where "m s = Inr (a, t1)" "K a (t1, f) = (r, t, g)"
proof (cases "m s")
  case (Inl x)
  then show thesis
    using run refused raised [of "Raised x"]
    by (cases "P x") (auto simp: bindP_def tryP_def database_def returnP_def raiseP_def)
next
  case (Inr y)
  then show thesis
    using run found by (cases y) (simp add: bindP_def tryP_def database_def)
qed

text \<open>What a view leaves and answers: the artifact \<open>D\<close> designates, or a refusal that tells nothing.\<close>

definition refusals :: "body response set" where
  "refusals = {not_found, not_allowed}"

definition answered_with :: "db \<times> fs \<Rightarrow> (render_auth \<Rightarrow> artifact \<Rightarrow> request \<times> body response \<Rightarrow> bool) \<Rightarrow>
    (failure + request \<times> body response) \<times> db \<times> fs \<Rightarrow> bool" where
  "answered_with w D out \<longleftrightarrow> (case (w, out) of ((s, f), (r, t, g)) \<Rightarrow>
     only_counts f g \<and> (t = s \<or> t = s\<lparr>ticks := Suc (ticks s)\<rparr>) \<and>
     (case r of
        Inl e \<Rightarrow> True
      | Inr (q, x) \<Rightarrow> x \<in> refusals \<or>
          (\<exists>cred \<in> set (render_auths s). \<exists>a \<in> set (artifacts s).
             entitled s cred (clock s (ticks s)) \<and> a_revision a = ra_revision cred \<and> D cred a (q, x))))"

lemma only_counts_refl: "only_counts f f"
  using only_counts_order(1) by (rule reflpD)

lemma answered_plain:
  "answered_with (s, f) D (Inl e, s, f)" "x \<in> refusals \<Longrightarrow> answered_with (s, f) D (Inr (q, x), s, f)"
  by (simp_all add: answered_with_def only_counts_refl)

lemma answered_refusal:
  "out = (Inr (render_failure q x), s, f) \<Longrightarrow> x \<in> refusals \<Longrightarrow> answered_with (s, f) D out"
  by (simp add: render_failure_def answered_plain(2))

lemma in_refusals: "not_found \<in> refusals" "not_allowed \<in> refusals"
  by (simp_all add: refusals_def)

lemma answered_artifact:
  assumes "reachable cfg s" "resolve_render_authorization (cf_sha256 cfg) token audience None s = Inr (w, t1)"
    and "found_artifact t1 (rr_revision w) Q = Inr a"
    and "\<And>cred. ra_token_digest cred = cf_sha256 cfg token \<Longrightarrow> audience_value (ra_audience cred) = audience
      \<Longrightarrow> Q a \<Longrightarrow> D cred a (request, served request a)"
    and "artifact_response request a (t1, f) = out"
  shows "answered_with (s, f) D out"
proof -
  note R = resolved_now [OF assms(1,2)]
  have a: "a \<in> set (artifacts s)" "a_revision a = ra_revision (rr_authorization w)" "Q a"
    using found_artifact_row [OF assms(3)] R(1,6) by simp_all
  have D: "D (rr_authorization w) a (request, served request a)" using assms(4) R(3,4) a(3) by blast
  obtain r t g where o: "out = (r, t, g)" by (cases out)
  note C = artifact_response_cases [OF assms(5) [unfolded o]]
  have "\<exists>cred \<in> set (render_auths s). \<exists>b \<in> set (artifacts s).
      entitled s cred (clock s (ticks s)) \<and> a_revision b = ra_revision cred \<and> D cred b (request, served request a)"
    using R(2,5) a(1,2) D by blast
  then show ?thesis
    using C R(1) unfolding o answered_with_def by (elim conjE disjE) (simp_all add: render_failure_def refusals_def)
qed

section \<open>The views\<close>

definition delivers :: "unicode \<Rightarrow> (text \<Rightarrow> text) \<Rightarrow> request \<Rightarrow> content_route \<Rightarrow> render_auth \<Rightarrow> artifact
    \<Rightarrow> request \<times> body response \<Rightarrow> bool" where
  "delivers uc sha256 request route cred a out \<longleftrightarrow>
     designated uc sha256 route cred a \<and> out = (request, delivery request route a)"

lemma render_html_answers:
  assumes "reachable cfg s"
  shows "answered_with (s, f) (delivers uc (cf_sha256 cfg) request (HtmlRoute audience token))
    (render_html (cf_sha256 cfg) request audience token (s, f))"
    (is "answered_with _ ?D ?out")
proof (cases "answers_to_reads request")
  case False
  then have "?out = (Inr (render_failure request not_allowed), s, f)"
    by (simp only: render_html_def if_True not_False_eq_True returnP_def)
  then show ?thesis by (rule answered_refusal) (rule in_refusals)
next
  case True
  obtain r t g where o: "?out = (r, t, g)" by (cases ?out)
  from o [unfolded render_html_def eqTrueI [OF True] not_True_eq_False if_False] show ?thesis
  proof (cases rule: lookup_cases)
    case refused
    then have "?out = (Inr (render_failure request not_found), s, f)" using o by (simp add: returnP_def)
    then show ?thesis by (rule answered_refusal) (rule in_refusals)
  next
    case (raised e)
    then show ?thesis using o answered_plain(1) by metis
  next
    case (found a t1)
    obtain w b where w: "resolve_render_authorization (cf_sha256 cfg) token audience None s = Inr (w, t1)"
      "found_artifact t1 (rr_revision w) (\<lambda>a. a_kind a = HTML) = Inr b" "a = Some b"
      using found(1) by (auto simp: bindT_eq_Inr queryT_eq_Inr returnT_eq_Inr)
    have "artifact_response request b (t1, f) = ?out" using found(2) w(3) o by simp
    then show ?thesis
      by (rule answered_artifact [OF assms w(1,2), rotated]) (simp add: delivers_def designated_def delivery_def)
  qed
qed

lemma kinds_supporting: "k \<in> set supporting_artifact_kinds \<longleftrightarrow> k \<noteq> HTML"
  by (cases k) (simp_all add: supporting_artifact_kinds_def)

lemma refusals_keep_origin: "x \<in> refusals \<Longrightarrow> allows_null_origin q x = x"
  by (auto simp: refusals_def allows_null_origin_def not_found_def not_allowed_def plain_response_def)

text \<open>The header a supporting artifact may get changes no refusal.\<close>

lemma answered_origin:
  assumes "answered_with (s, f) D (m v)"
    and "\<And>cred a x. D cred a (q, x) \<Longrightarrow> D' cred a (q, allows_null_origin q x)"
    and "\<And>cred a q' x. D cred a (q', x) \<Longrightarrow> q' = q"
  shows "answered_with (s, f) D' (bindP m (\<lambda>(q, x). returnP (q, allows_null_origin q x)) v)"
proof -
  obtain r t g where m: "m v = (r, t, g)" by (cases "m v")
  show ?thesis
  proof (cases r)
    case (Inl e)
    then show ?thesis using assms(1) m by (simp add: answered_with_def bindP_def)
  next
    case (Inr y)
    obtain q' x where y: "y = (q', x)" by (cases y)
    have kept: "only_counts f g \<and> (t = s \<or> t = s\<lparr>ticks := Suc (ticks s)\<rparr>)"
      and cases: "x \<in> refusals \<or> (\<exists>cred \<in> set (render_auths s). \<exists>a \<in> set (artifacts s).
        entitled s cred (clock s (ticks s)) \<and> a_revision a = ra_revision cred \<and> D cred a (q', x))"
      using assms(1) by (simp_all add: answered_with_def m Inr y)
    have "allows_null_origin q' x \<in> refusals \<or> (\<exists>cred \<in> set (render_auths s). \<exists>a \<in> set (artifacts s).
        entitled s cred (clock s (ticks s)) \<and> a_revision a = ra_revision cred \<and> D' cred a (q', allows_null_origin q' x))"
      using cases
    proof
      assume "x \<in> refusals"
      then show ?thesis by (simp add: refusals_keep_origin)
    next
      assume "\<exists>cred \<in> set (render_auths s). \<exists>a \<in> set (artifacts s).
        entitled s cred (clock s (ticks s)) \<and> a_revision a = ra_revision cred \<and> D cred a (q', x)"
      then show ?thesis using assms(2,3) by blast
    qed
    then show ?thesis using kept by (simp add: answered_with_def bindP_def m Inr y returnP_def)
  qed
qed

lemma render_artifact_answers:
  assumes "reachable cfg s"
  shows "answered_with (s, f) (delivers uc (cf_sha256 cfg) request (ArtifactRoute audience token name))
    (render_artifact uc (cf_sha256 cfg) request audience token name (s, f))"
    (is "answered_with _ ?D ?out")
proof (cases "answers_to_reads request")
  case False
  then have "?out = (Inr (render_failure request not_allowed), s, f)"
    by (simp only: render_artifact_def render_supporting_artifact_def if_True not_False_eq_True returnP_def)
  then show ?thesis by (rule answered_refusal) (rule in_refusals)
next
  case True
  obtain r t g where o: "?out = (r, t, g)" by (cases ?out)
  from o [unfolded render_artifact_def render_supporting_artifact_def eqTrueI [OF True] not_True_eq_False if_False]
  show ?thesis
  proof (cases rule: lookup_cases)
    case refused
    then have "?out = (Inr (render_failure request not_found), s, f)" using o by (simp add: returnP_def)
    then show ?thesis by (rule answered_refusal) (rule in_refusals)
  next
    case (raised e)
    then show ?thesis using o answered_plain(1) by metis
  next
    case (found a t1)
    obtain n w b where w: "normalize_logical_name uc name = Inr n"
      "resolve_render_authorization (cf_sha256 cfg) token audience None s = Inr (w, t1)"
      "found_artifact t1 (rr_revision w)
         (\<lambda>a. a_kind a \<in> set supporting_artifact_kinds \<and> a_name_key a = comparison_key n) = Inr b" "a = Some b"
      using found(1) by (auto simp: bindT_eq_Inr queryT_eq_Inr returnT_eq_Inr)
    have k: "bindP (artifact_response request b) (\<lambda>(q, x). returnP (q, allows_null_origin q x)) (t1, f) = ?out"
      using found(2) w(4) o by simp
    have "answered_with (s, f) (\<lambda>cred a out. designated uc (cf_sha256 cfg) (ArtifactRoute audience token name) cred a
        \<and> out = (request, served request a)) (artifact_response request b (t1, f))"
      using w(1) by (intro answered_artifact [OF assms w(2,3) _ refl]) (auto simp: designated_def kinds_supporting)
    then show ?thesis
      unfolding k [symmetric] by (rule answered_origin) (auto simp: delivers_def delivery_def)
  qed
qed

lemma content_view_answers:
  assumes "reachable cfg s"
  shows "answered_with (s, f) (delivers uc (cf_sha256 cfg) request (content_route (rq_path request)))
    (content_view uc (cf_sha256 cfg) request (s, f))"
proof (cases "content_route (rq_path request)")
  case NoContentRoute
  then show ?thesis
    by (simp add: content_view_def returnP_def answered_plain(2) in_refusals)
qed (simp_all add: content_view_def render_html_answers [OF assms] render_artifact_answers [OF assms])

section \<open>The policy on every response\<close>

text \<open>A response behind the policy: status and body unchanged, no cookie, and the headers of the origin.\<close>

definition secured :: "text \<Rightarrow> 'b response \<Rightarrow> 'b response" where
  "secured origin x = x\<lparr>rs_cookies := [],
     rs_headers := (rs_headers x)(''Set-Cookie'' := None, ''X-Frame-Options'' := None)
       ++ (restrictive_headers (cps ''private, no-store''))
         (''Content-Security-Policy'' \<mapsto> serialize_policy (content_directives origin))\<rparr>"

lemma content_middleware_secures:
  "validated_origin env portal = Inr origin \<Longrightarrow> content_middleware env portal x = Inr (secured origin x)"
  by (simp add: content_middleware_def apply_content_response_policy_def content_response_headers_def
      content_security_policy_def secured_def)

lemma secured_headers:
  "rs_status (secured origin x) = rs_status x" "rs_body (secured origin x) = rs_body x"
  "rs_cookies (secured origin x) = []"
  "rs_headers (secured origin x) ''Content-Security-Policy'' = Some (serialize_policy (content_directives origin))"
  "rs_headers (secured origin x) ''Cache-Control'' = Some (cps ''private, no-store'')"
  "rs_headers (secured origin x) ''X-Content-Type-Options'' = Some (cps ''nosniff'')"
  "rs_headers (secured origin x) ''Referrer-Policy'' = Some no_referrer"
  "rs_headers (secured origin x) ''Set-Cookie'' = None" "rs_headers (secured origin x) ''X-Frame-Options'' = None"
  by (simp_all add: secured_def restrictive_headers_def map_add_def)

section \<open>The content service\<close>

text \<open>
  Whatever a client asks, the content service answers behind the policy of its origin, and what it
  answers is one of three constant refusals or the artifact its path designates, in the revision of a
  credential that is entitled at the moment of the answer. Neither disk nor database changes.
\<close>

lemma content_service_answers:
  assumes "reachable cfg s" "validated_origin env portal = Inr origin"
  obtains x t g where "content_service env (cf_sha256 cfg) portal request (s, f) = (Inr (secured origin x), t, g)"
    "only_counts f g" "t = s \<or> t = s\<lparr>ticks := Suc (ticks s)\<rparr>"
    "x \<in> {not_found, not_allowed, server_error} \<or>
     (\<exists>cred \<in> set (render_auths s). \<exists>a \<in> set (artifacts s).
        entitled s cred (clock s (ticks s)) \<and> a_revision a = ra_revision cred \<and>
        designated (ue_unicode env) (cf_sha256 cfg) (content_route (rq_path request)) cred a \<and>
        x = delivery request (content_route (rq_path request)) a)"
proof -
  obtain r t g where v: "content_view (ue_unicode env) (cf_sha256 cfg) request (s, f) = (r, t, g)"
    by (cases "content_view (ue_unicode env) (cf_sha256 cfg) request (s, f)")
  note A = content_view_answers [OF assms(1), of f "ue_unicode env" request, unfolded v answered_with_def prod.case]
  note run = content_service_def [of env "cf_sha256 cfg" portal request "(s, f)", unfolded v prod.case]
  show thesis
  proof (cases r)
    case (Inl e)
    show thesis
      by (rule that [of server_error t g]) (use A Inl run content_middleware_secures [OF assms(2)] in simp_all)
  next
    case (Inr y)
    obtain q x where y: "y = (q, x)" by (cases y)
    show thesis
    proof (rule that [of x t g])
      show "content_service env (cf_sha256 cfg) portal request (s, f) = (Inr (secured origin x), t, g)"
        using run content_middleware_secures [OF assms(2)] by (simp add: Inr y)
      show "only_counts f g" "t = s \<or> t = s\<lparr>ticks := Suc (ticks s)\<rparr>" using A by blast+
      have "x \<in> refusals \<or> (\<exists>cred \<in> set (render_auths s). \<exists>a \<in> set (artifacts s).
          entitled s cred (clock s (ticks s)) \<and> a_revision a = ra_revision cred \<and>
          delivers (ue_unicode env) (cf_sha256 cfg) request (content_route (rq_path request)) cred a (q, x))"
        using A by (simp add: Inr y)
      then show "x \<in> {not_found, not_allowed, server_error} \<or>
        (\<exists>cred \<in> set (render_auths s). \<exists>a \<in> set (artifacts s).
          entitled s cred (clock s (ticks s)) \<and> a_revision a = ra_revision cred \<and>
          designated (ue_unicode env) (cf_sha256 cfg) (content_route (rq_path request)) cred a \<and>
          x = delivery request (content_route (rq_path request)) a)"
        unfolding delivers_def refusals_def by blast
    qed
  qed
qed

text \<open>
  The body of a delivered artifact, sent from a disk on which every artifact has its bytes, is the
  beginning of bytes with the size and the digest of the artifact, and all of them unless a call fails.
\<close>

lemma delivered_body:
  assumes "bytes_complete sha256 (s, f)" "a \<in> set (artifacts s)" "artifact_chunks (a_storage_key a) f = ((ps, e), g)"
  shows "only_counts f g \<and> (\<exists>rest. length (concat ps @ rest) = a_byte_size a \<and>
    sha256 (concat ps @ rest) = a_sha256 a \<and> (e = None \<longrightarrow> rest = []))"
proof -
  obtain b where "stored_bytes f (a_storage_key a) = Some b" "length b = a_byte_size a" "sha256 b = a_sha256 a"
    using assms(1,2) by (auto simp: bytes_complete_def artifact_held_def)
  then show ?thesis using artifact_chunks_sent [OF assms(3)] by metis
qed

end
