(* ===== verification/Spec2Isabelle.thy ===== *)
theory Spec2Isabelle
  imports Guarantees Stored_Revisions Navigation Upload_Facts Encoded_Names Tables Code_Calls Upload_Revisions Discovery_Facts Delivery_Facts
begin

text \<open>
  A verification library for Agora, a Django application (\<open>src/src/agora\<close>) on which employees publish
  HTML dashboards to named viewers.

  The program and its parts. A user owns dashboards. The owner uploads a package of files (one HTML
  document with style sheets, tables, images and fonts); the upload is validated and staged in temporary
  files (\<open>uploads.py\<close>), turned into a complete, immutable revision (\<open>core/uploads.py\<close>, \<open>core/services.py\<close>)
  and its bytes are kept in a private directory tree (\<open>core/storage.py\<close>). Publishing pins one revision
  (\<open>core/enhancements.py\<close>). Viewers are admitted by grants (\<open>core/access.py\<close>). To show a dashboard the
  portal issues a short-lived credential, which the content service resolves against the current database
  on every request (\<open>rendering/authorization.py\<close>); issuing records an open, which analytics aggregates
  later (\<open>core/analytics.py\<close>). Accounts and logins are in \<open>core/authentication.py\<close>; searches and lists in
  \<open>core/discovery.py\<close>, \<open>core/enhancement_queries.py\<close> and \<open>core/stewardship_queries.py\<close>, read in signed
  keyset pages (\<open>core/pagination.py\<close>). The rules of every table are in \<open>core/models.py\<close> and the
  migrations.

  The state. \<open>Schema\<close> has one record per model class, with the columns of the class, and the database
  \<open>db\<close> as a record of tables with the sequences the environment draws from: the clock, UUIDs, secrets
  and row numbers. A transaction (\<open>Prelude\<close>) maps a database to an exception or to a value and the next
  database, so rollback is the absence of a new state. A procedure that also touches the disk or temporary
  files (\<open>Services\<close>) keeps what it had committed when it raises. Exceptions are values of the datatype
  \<open>exn\<close>, of \<open>storage_error\<close> for the adapter and of \<open>upload_error\<close> for uploads. Strings that come from
  users are lists of code points, bytes are lists of numbers, instants are integer microseconds.

  The theories, in the order of their imports.
  \<^item> \<open>Prelude\<close>: types, exceptions, the transaction monad, and \<open>effect_order\<close>, the interface by which a
    fact about single table writes becomes a fact about whole services. \<open>Names\<close>: \<open>core/names.py\<close>.
  \<^item> \<open>Schema\<close>, \<open>Models_Core\<close>, \<open>Models_Content\<close>, \<open>Frames\<close>: tables, the checks and unique indexes of
    the models and the migrations, \<open>clean\<close>, \<open>full_clean\<close> and \<open>save\<close> of each model, and what a
    successful save changes. The interface \<open>constrained_table\<close> is interpreted for all 19 tables.
  \<^item> \<open>Access\<close>, \<open>Projects\<close>, \<open>Enhancements\<close>, \<open>Analytics\<close>, \<open>Render_Auth\<close>, \<open>Authentication\<close>,
    \<open>Services\<close>, \<open>Discovery\<close>: the domain services, one definition per function of the source and of
    the same name where Isabelle allows it.
  \<^item> \<open>System\<close>: the application as a transition system \<open>step\<close>, one constructor per service, with
    \<open>reachable\<close> and \<open>history\<close>; the interfaces \<open>service_order\<close> and \<open>history_order\<close> lift a fact about
    table writes through every service, once for all invariants.
  \<^item> \<open>Integrity\<close>, \<open>History\<close>, \<open>Linkage\<close>, \<open>Consistency\<close>, \<open>Invariants\<close>, \<open>Credentials\<close>: the
    invariants, each an interpretation of \<open>history_order\<close> or of its extension \<open>core_order\<close>: table
    constraints, referential consistency, monotone evolution of rows, exclusive grants, a remaining
    administrator, frozen content, backed credentials.
  \<^item> \<open>Samples\<close>: a concrete deployment and a concrete history, on which hypotheses are discharged.
    \<open>Resolution\<close>, \<open>Withdrawal\<close>, \<open>Guarantees\<close>, \<open>Discovery_Facts\<close>: what follows for credentials, for
    withdrawal of access, for every reachable state and for discovery.
  \<^item> \<open>Storage\<close>, \<open>Storage_Outcomes\<close>, \<open>Storage_Progress\<close>: the filesystem adapter over a directory tree in
    which any system call may fail and a write may be short; what it leaves behind and when it succeeds.
    \<open>artifact_storage\<close> is the interface the services rely on, interpreted on the adapter. \<open>Upkeep\<close> proves
    the revision service and the cleanup inside that interface, \<open>Stored_Revisions\<close> composes them with the
    adapter.
  \<^item> \<open>Pagination\<close>, \<open>Pages\<close>, \<open>Navigation\<close>: cursors, the boundary filter, pages; the order of the rows
    is the interface \<open>keyed_order\<close>.
  \<^item> \<open>Patterns\<close>, \<open>Urls\<close>: the parts of Python's \<open>re\<close> and \<open>urllib.parse\<close> the upload policy uses.
    \<open>Uploads\<close>, \<open>Upload_Policy\<close>, \<open>Upload_Html\<close>, \<open>Upload_Staging\<close>: the manifest, the dependency policy, the
    document validator, and staging with its decoder and csv reader. \<open>Manifests\<close>, \<open>Upload_Files\<close>,
    \<open>Upload_Samples\<close>, \<open>Upload_Facts\<close>, \<open>Documents\<close>, \<open>References\<close>, \<open>Package_References\<close>, \<open>Decoding\<close>,
    \<open>Encoded_Names\<close>, \<open>Tables\<close>, \<open>Code_Calls\<close>: what an accepted or refused upload guarantees.
    \<open>Upload_Revisions\<close>: from the upload to the stored artifacts.
  \<^item> \<open>Web_Policy\<close>, \<open>Delivery\<close>, \<open>Delivery_Facts\<close>: the browser policies (\<open>rendering/security.py\<close>,
    \<open>middleware.py\<close>), the routes and views of the content service (\<open>urls/content.py\<close>,
    \<open>rendering/views.py\<close>), and what the service answers.

  What is shown. A credential resolves exactly when the declarative policy \<open>entitled\<close> holds, and a
  credential refused once is refused for ever; revoking a grant, publishing again, withdrawing, disabling
  an account, resetting a password and transferring a dashboard take effect at once and finally. Every
  reachable database satisfies all table constraints; the audit log and the transfers only grow; a
  published revision keeps its files. Through services, failing disks and cleanup, every artifact of the
  database has its bytes under its key; a revision is created wholly or not at all; the bytes of a part of
  an upload become the bytes of an artifact. An accepted upload is one element tree whose references stay
  in the package, within all limits; a refused one leaves no open file. Paging visits every row once and in
  order; a cursor is good for its own read path only. Discovery shows what the viewing policy admits.
  The content service answers with the artifact its path designates under an entitled credential or with
  a constant refusal, always behind the policy of its origin.

  Parameters. Code outside the repository is an argument of the definitions that use it: the Unicode
  database (\<open>unicode\<close>), password hashing, password validation and \<open>authenticate\<close> of Django
  (\<open>identity_env\<close>), cursor signing and the textual forms of times and UUIDs (\<open>page_env\<close>), SHA-256, the
  tokeniser of \<open>html.parser\<close> as the handler calls it makes (\<open>upload_env\<close>), the conduct of the disk
  (\<open>fs\<close>) and of temporary files (\<open>staging\<close>). What a theorem needs of them is a named hypothesis
  (\<open>unicode_laws\<close>, \<open>texts_parse\<close>, \<open>ascii_words\<close>), and its witness instantiates them.

  Bounds. The retries of the source are counters of primitive recursion (8 storage keys, 3 tokens), so
  running out is an exception as in the source. Every other loop is a function with a termination proof
  over what it consumes: the bytes still to be written, the characters still to be read, the rows still to
  be cleaned. Nothing uses fuel.

  Idealisations. Transactions are serial: row locks appear only as the reads they guard. An exception
  keeps no drawn clock or identifier; the environment's own steps account for skipped draws. The
  verification of a write reads back through \<open>fs_medium\<close>, which may differ from what was written; \<open>open\<close>
  and the replay of a temporary file are streams that can be read. A file is not exchanged between two
  calls on it, so the comparison of device and inode in \<open>core/storage.py\<close> has no counterpart.

  Not modelled: the portal views, forms, templates and URL table (HTTP handling over the services
  modelled here), what Django's own middleware adds to a response, settings, environment parsing, log
  redaction, management commands and entry points, \<open>UploadLimits.from_mapping\<close>, and of the migrations
  the schema operations and the PL/SQL triggers that repeat the rules of \<open>save\<close> for writes that bypass it.
\<close>

end
